(* ===== verification/Prelude.thy ===== *)
theory Prelude
  imports Main "HOL-Library.Word" "HOL-Library.Sublist"
begin

text \<open>
  What every component theory shares: the shape of a Go computation (a value, a panic, or a
  goroutine that blocks for ever), Go's 64-bit signed arithmetic and its durations, and the
  lemma collections that the component proofs hand to the simplifier.
\<close>

section \<open>Lemma collections\<close>

named_theorems go_simps \<open>unfolding rules for the elementary Go operations\<close>
named_theorems inv_intros \<open>an operation keeps the invariant of its component\<close>

section \<open>Outcomes of a Go computation\<close>

text \<open>
  A Go function that may panic, or that may wait on a channel which nobody serves, has more
  outcomes than its results. \<open>Panic\<close> carries the runtime's message.
\<close>

datatype 'a go = Ret 'a | Panic string | Block

primrec go_bind :: "'a go \<Rightarrow> ('a \<Rightarrow> 'b go) \<Rightarrow> 'b go" where
  "go_bind (Ret x) f = f x"
| "go_bind (Panic s) f = Panic s"
| "go_bind Block f = Block"

primrec returns :: "'a go \<Rightarrow> bool" where
  "returns (Ret x) = True"
| "returns (Panic s) = False"
| "returns Block = False"

lemma go_bind_Ret_iff [simp]:
  "go_bind m f = Ret y \<longleftrightarrow> (\<exists>x. m = Ret x \<and> f x = Ret y)"
  by (cases m) auto

lemma returns_iff: "returns m \<longleftrightarrow> (\<exists>x. m = Ret x)"
  by (cases m) auto

lemma go_bind_assoc: "go_bind (go_bind m f) g = go_bind m (\<lambda>x. go_bind (f x) g)"
  by (cases m) auto

section \<open>Errors as values\<close>

text \<open>A Go function returning \<open>(T, error)\<close> is a function into \<open>'e + 'a\<close>.\<close>

primrec res_bind :: "'e + 'a \<Rightarrow> ('a \<Rightarrow> 'e + 'b) \<Rightarrow> 'e + 'b" where
  "res_bind (Inl e) f = Inl e"
| "res_bind (Inr x) f = f x"

lemma res_bind_Inr_iff [simp]:
  "res_bind m f = Inr y \<longleftrightarrow> (\<exists>x. m = Inr x \<and> f x = Inr y)"
  by (cases m) auto

lemma res_bind_Inl_iff:
  "res_bind m f = Inl e \<longleftrightarrow> m = Inl e \<or> (\<exists>x. m = Inr x \<and> f x = Inl e)"
  by (cases m) auto

section \<open>Signed 64-bit arithmetic\<close>

text \<open>
  Go's \<open>int64\<close> (and \<open>int\<close> on the supported 64-bit targets) wraps around. A value is an
  integer of the range \<open>in_i64\<close>; an operation that can leave the range is written with
  \<open>wrap64\<close>.
\<close>

definition min_i64 :: int where "min_i64 = - (2 ^ 63)"
definition max_i64 :: int where "max_i64 = 2 ^ 63 - 1"

definition in_i64 :: "int \<Rightarrow> bool" where
  "in_i64 x \<longleftrightarrow> min_i64 \<le> x \<and> x \<le> max_i64"

definition wrap64 :: "int \<Rightarrow> int" where
  "wrap64 x = (x + 2 ^ 63) mod 2 ^ 64 - 2 ^ 63"

lemma wrap64_id [simp]: "in_i64 x \<Longrightarrow> wrap64 x = x"
  by (simp add: in_i64_def min_i64_def max_i64_def wrap64_def)

lemma wrap64_in [simp]: "in_i64 (wrap64 x)"
proof -
  have "0 \<le> (x + 2 ^ 63) mod 2 ^ 64" and "(x + 2 ^ 63) mod 2 ^ 64 < (2::int) ^ 64"
    by simp_all
  then show ?thesis
    by (simp add: in_i64_def min_i64_def max_i64_def wrap64_def)
qed

lemma in_i64_simps: "in_i64 x \<longleftrightarrow> - 9223372036854775808 \<le> x \<and> x \<le> 9223372036854775807"
  by (simp add: in_i64_def min_i64_def max_i64_def)

lemma wrap64_eq_sint: "wrap64 x = sint (word_of_int x :: 64 word)"
  by (simp add: wrap64_def sint_sbintrunc' signed_take_bit_eq_take_bit_shift take_bit_eq_mod)

section \<open>Time\<close>

text \<open>
  An instant and a duration are nanoseconds. \<open>time.Time.Sub\<close> saturates at the ends of the
  duration range.
\<close>

type_synonym time = int
type_synonym duration = int

definition nanosecond_per_second :: int where "nanosecond_per_second = 1000000000"

definition time_sub :: "time \<Rightarrow> time \<Rightarrow> duration" where
  "time_sub a b = max min_i64 (min max_i64 (a - b))"

lemma time_sub_le_iff: "0 \<le> d \<Longrightarrow> d < max_i64 \<Longrightarrow> time_sub a b \<le> d \<longleftrightarrow> a - b \<le> d"
  by (auto simp: time_sub_def min_i64_def max_i64_def min_def max_def)

section \<open>Lists\<close>

lemma length_filter_append_le:
  "length (filter P (xs @ ys)) = length (filter P xs) + length (filter P ys)"
  by simp

lemma sum_list_map_le:
  fixes f g :: "'a \<Rightarrow> nat"
  assumes "\<And>x. x \<in> set xs \<Longrightarrow> f x \<le> g x"
  shows "sum_list (map f xs) \<le> sum_list (map g xs)"
  using assms by (induction xs) (auto intro: add_mono)

lemma take_drop_append: "take n xs @ drop n xs = xs"
  by simp

lemma subseq_tl: "subseq (tl xs) xs"
  by (cases xs) auto

end
