(* ===== verification/Sync_Primitives.thy ===== *)
theory Sync_Primitives
  imports Prelude
begin

text \<open>
  The small synchronisation objects of \<open>src/system\<close>: the one-slot channel used as a lock
  (\<open>locker.go\<close>), the fixed-window rate limiter (\<open>rate.go\<close>), the bag of cancellable contexts
  (\<open>context_bag.go\<close>) and \<open>AtomicBool\<close> (\<open>utils.go\<close>). Each operation takes its mutex for its
  whole body, so it is one atomic state transformer here; \<open>TryAcquire\<close>, which takes no mutex,
  is a single channel operation and hence atomic as well.
\<close>

section \<open>Locker\<close>

text \<open>
  The lock is a buffered channel of capacity one: the number of buffered values and whether
  the channel was closed. Sending on a closed channel and closing it twice panic.
\<close>

datatype lock_error = ErrLockerLocked

record locker =
  lk_buf :: nat
  lk_closed :: bool

definition new_locker :: locker where
  "new_locker = \<lparr>lk_buf = 0, lk_closed = False\<rparr>"

definition is_locked :: "locker \<Rightarrow> bool" where
  "is_locked l = (lk_buf l = 1)"

definition acquire :: "locker \<Rightarrow> (lock_error option \<times> locker) go" where
  "acquire l =
     (if lk_closed l then Panic ''send on closed channel''
      else if lk_buf l < 1 then Ret (None, l\<lparr>lk_buf := lk_buf l + 1\<rparr>)
      else Ret (Some ErrLockerLocked, l))"

text \<open>
  \<open>TryAcquire\<close> selects between the send and the context's \<open>Done\<close> channel. \<open>ctx\<close> is the
  context at the moment of the choice: \<open>None\<close> while it is live, \<open>Some e\<close> once it is done,
  with \<open>e\<close> what \<open>ctx.Err\<close> returns. When both cases are ready the runtime picks one
  (\<open>pick\<close>).
\<close>

datatype ctx_error = DeadlineExceeded | Canceled | OtherCtxError

fun ctx_done_result :: "ctx_error option \<Rightarrow> lock_error option" where
  "ctx_done_result (Some DeadlineExceeded) = Some ErrLockerLocked"
| "ctx_done_result (Some Canceled) = Some ErrLockerLocked"
| "ctx_done_result (Some OtherCtxError) = None"
| "ctx_done_result None = None"

definition try_acquire ::
  "bool \<Rightarrow> ctx_error option option \<Rightarrow> locker \<Rightarrow> (lock_error option \<times> locker) go" where
  "try_acquire pick ctx l =
     (let can_send = lk_closed l \<or> lk_buf l < 1;
          send = (if lk_closed l then Panic ''send on closed channel''
                  else Ret (None, l\<lparr>lk_buf := lk_buf l + 1\<rparr>))
      in case ctx of
           None \<Rightarrow> if can_send then send else Block
         | Some e \<Rightarrow>
             if can_send \<and> pick then send else Ret (ctx_done_result e, l))"

definition release :: "locker \<Rightarrow> locker" where
  "release l = (if 0 < lk_buf l then l\<lparr>lk_buf := lk_buf l - 1\<rparr> else l)"

definition destroy_locker :: "locker \<Rightarrow> locker go" where
  "destroy_locker l =
     (let l1 = (if 0 < lk_buf l then l\<lparr>lk_buf := lk_buf l - 1\<rparr> else l)
      in if lk_closed l1 then Panic ''close of closed channel''
         else Ret (l1\<lparr>lk_closed := True\<rparr>))"

definition locker_ok :: "locker \<Rightarrow> bool" where
  "locker_ok l \<longleftrightarrow> lk_buf l \<le> 1"

definition locker_live :: "locker \<Rightarrow> bool" where
  "locker_live l \<longleftrightarrow> lk_buf l \<le> 1 \<and> \<not> lk_closed l"

lemma locker_ok_new [inv_intros]: "locker_ok new_locker"
  by (simp add: locker_ok_def new_locker_def)

lemma locker_live_new [inv_intros]: "locker_live new_locker"
  by (simp add: locker_live_def new_locker_def)

lemma locker_ok_release [inv_intros]: "locker_ok l \<Longrightarrow> locker_ok (release l)"
  by (simp add: locker_ok_def release_def)

lemma locker_live_release [inv_intros]: "locker_live l \<Longrightarrow> locker_live (release l)"
  by (simp add: locker_live_def release_def)

lemma locker_ok_acquire: "locker_ok l \<Longrightarrow> acquire l = Ret (e, l') \<Longrightarrow> locker_ok l'"
  by (auto simp: locker_ok_def acquire_def split: if_splits)

lemma locker_ok_try_acquire:
  "locker_ok l \<Longrightarrow> try_acquire pick ctx l = Ret (e, l') \<Longrightarrow> locker_ok l'"
  by (auto simp: locker_ok_def try_acquire_def Let_def split: if_splits option.splits)

lemma locker_ok_destroy: "locker_ok l \<Longrightarrow> destroy_locker l = Ret l' \<Longrightarrow> locker_ok l'"
  by (auto simp: locker_ok_def destroy_locker_def Let_def split: if_splits)

lemma acquire_live:
  "locker_live l \<Longrightarrow>
   acquire l = (if is_locked l then Ret (Some ErrLockerLocked, l)
                else Ret (None, l\<lparr>lk_buf := 1\<rparr>))"
  by (auto simp: locker_live_def acquire_def is_locked_def)

lemma release_unlocks: "locker_ok l \<Longrightarrow> \<not> is_locked (release l)"
  by (auto simp: locker_ok_def release_def is_locked_def)

lemma release_acquired: "locker_live l \<Longrightarrow> \<not> is_locked l \<Longrightarrow> release (l\<lparr>lk_buf := 1\<rparr>) = l"
  by (cases l) (auto simp: locker_live_def is_locked_def release_def)

text \<open>
  Before its context is done \<open>TryAcquire\<close> behaves as \<open>Acquire\<close> but waits instead of failing;
  once the context ended with a deadline or a cancellation it never reports success without
  having taken the lock.
\<close>

lemma try_acquire_success:
  assumes "locker_live l" and "try_acquire pick ctx l = Ret (None, l')"
    and "ctx \<noteq> Some None" and "ctx \<noteq> Some (Some OtherCtxError)"
  shows "\<not> is_locked l \<and> l' = l\<lparr>lk_buf := 1\<rparr>"
proof (cases ctx)
  case None
  with assms show ?thesis
    by (auto simp: try_acquire_def locker_live_def is_locked_def split: if_splits)
next
  case (Some e)
  with assms have "ctx_done_result e \<noteq> None" by (cases e rule: ctx_done_result.cases) auto
  with Some assms show ?thesis
    by (auto simp: try_acquire_def locker_live_def is_locked_def split: if_splits)
qed

section \<open>The mutex contract\<close>

text \<open>
  What the callers of the lock rely on: a failed attempt changes nothing, a successful one
  locks, releasing unlocks. A section that runs its body only when it got the lock, and then
  releases it, leaves the lock as it found it.
\<close>

locale mutex =
  fixes good :: "'l \<Rightarrow> bool"
    and locked :: "'l \<Rightarrow> bool"
    and acq :: "'l \<Rightarrow> bool \<times> 'l"
    and rel :: "'l \<Rightarrow> 'l"
  assumes acq_free: "good l \<Longrightarrow> \<not> locked l \<Longrightarrow> acq l = (True, l') \<Longrightarrow> locked l' \<and> rel l' = l"
    and acq_free_ok: "good l \<Longrightarrow> \<not> locked l \<Longrightarrow> fst (acq l)"
    and acq_busy: "good l \<Longrightarrow> locked l \<Longrightarrow> acq l = (False, l)"
    and rel_free: "good l \<Longrightarrow> \<not> locked (rel l)"
    and good_acq: "good l \<Longrightarrow> good (snd (acq l))"
    and good_rel: "good l \<Longrightarrow> good (rel l)"
begin

lemma acq_iff: "good l \<Longrightarrow> fst (acq l) \<longleftrightarrow> \<not> locked l"
  using acq_busy acq_free_ok by fastforce

lemma acq_locks: "good l \<Longrightarrow> locked (snd (acq l))"
  by (metis acq_busy acq_free acq_free_ok prod.collapse snd_conv)

lemma acq_rel_id: "good l \<Longrightarrow> fst (acq l) \<Longrightarrow> rel (snd (acq l)) = l"
  by (metis acq_free acq_iff prod.collapse)

lemma section_restores:
  "good l \<Longrightarrow> (if fst (acq l) then rel (snd (acq l)) else snd (acq l)) = l"
  by (metis acq_busy acq_iff acq_rel_id snd_conv)

end

text \<open>\<open>Acquire\<close> as a boolean, as its callers test it; a live locker never panics.\<close>

definition acquire_bool :: "locker \<Rightarrow> bool \<times> locker" where
  "acquire_bool l = (case acquire l of Ret (e, l') \<Rightarrow> (e = None, l') | _ \<Rightarrow> (False, l))"

lemma acquire_bool_live:
  "locker_live l \<Longrightarrow> acquire_bool l = (\<not> is_locked l, l\<lparr>lk_buf := 1\<rparr>)"
  by (cases l) (auto simp: acquire_bool_def acquire_live is_locked_def)

interpretation lk: mutex locker_live is_locked acquire_bool release
proof unfold_locales
  fix l :: locker
  assume good: "locker_live l"
  show "fst (acquire_bool l)" if "\<not> is_locked l"
    using good that by (simp add: acquire_bool_live)
  show "acquire_bool l = (False, l)" if "is_locked l"
    using good that by (cases l) (simp add: acquire_bool_live is_locked_def)
  show "\<not> is_locked (release l)"
    using good by (auto simp: locker_live_def release_def is_locked_def)
  show "locker_live (snd (acquire_bool l))"
    using good by (simp add: acquire_bool_live) (simp add: locker_live_def)
  show "locker_live (release l)"
    using good by (rule locker_live_release)
  fix l' assume "\<not> is_locked l" and "acquire_bool l = (True, l')"
  with good show "is_locked l' \<and> release l' = l"
    using release_acquired [OF good] by (auto simp: acquire_bool_live is_locked_def)
qed

section \<open>Rate\<close>

text \<open>
  A fixed-window limiter: \<open>limit\<close> hits per \<open>duration\<close>, counted in unsigned 64-bit words; the
  window restarts at the first call after it has passed. \<open>now\<close> is what \<open>time.Now\<close> returns.
\<close>

record rate =
  rt_limit :: "64 word"
  rt_duration :: duration
  rt_count :: "64 word"
  rt_last :: time

definition new_rate :: "time \<Rightarrow> 64 word \<Rightarrow> duration \<Rightarrow> rate" where
  "new_rate now lim dur = \<lparr>rt_limit = lim, rt_duration = dur, rt_count = 0, rt_last = now\<rparr>"

definition rate_try :: "time \<Rightarrow> rate \<Rightarrow> bool \<times> rate" where
  "rate_try now r =
     (let r1 = (if time_sub now (rt_last r) > rt_duration r
                then r\<lparr>rt_count := 0, rt_last := now\<rparr> else r)
      in if rt_count r1 + 1 > rt_limit r1 then (False, r1)
         else (True, r1\<lparr>rt_count := rt_count r1 + 1\<rparr>))"

definition rate_reset :: "time \<Rightarrow> rate \<Rightarrow> rate" where
  "rate_reset now r = r\<lparr>rt_count := 0, rt_last := now\<rparr>"

fun rate_run :: "rate \<Rightarrow> time list \<Rightarrow> bool list \<times> rate" where
  "rate_run r [] = ([], r)"
| "rate_run r (t # ts) =
     (let p = rate_try t r; q = rate_run (snd p) ts in (fst p # fst q, snd q))"

definition hits :: "bool list \<Rightarrow> nat" where
  "hits bs = length (filter id bs)"

lemma hits_simps [simp]:
  "hits [] = 0" "hits (True # bs) = Suc (hits bs)" "hits (False # bs) = hits bs"
  by (simp_all add: hits_def)

lemma hits_Cons: "hits (b # bs) = (if b then 1 else 0) + hits bs"
  by (cases b) simp_all

text \<open>
  The counter never passes the limit. The limit must leave room for the comparison
  \<open>count + 1 > limit\<close>, that is, it must not be the largest 64-bit value, where the addition
  wraps and the limiter never refuses.
\<close>

definition rate_ok :: "rate \<Rightarrow> bool" where
  "rate_ok r \<longleftrightarrow> rt_count r \<le> rt_limit r \<and> rt_limit r \<noteq> - 1"

lemma rate_ok_new [inv_intros]: "lim \<noteq> - 1 \<Longrightarrow> rate_ok (new_rate now lim dur)"
  by (simp add: rate_ok_def new_rate_def)

lemma rate_ok_reset [inv_intros]: "rate_ok r \<Longrightarrow> rate_ok (rate_reset now r)"
  by (simp add: rate_ok_def rate_reset_def)

lemma rate_ok_try [inv_intros]: "rate_ok r \<Longrightarrow> rate_ok (snd (rate_try now r))"
  by (auto simp: rate_ok_def rate_try_def Let_def not_less)

lemma rate_try_limit [simp]:
  "rt_limit (snd (rate_try now r)) = rt_limit r"
  "rt_duration (snd (rate_try now r)) = rt_duration r"
  by (simp_all add: rate_try_def Let_def)

lemma rate_ok_run [inv_intros]: "rate_ok r \<Longrightarrow> rate_ok (snd (rate_run r ts))"
  by (induction ts arbitrary: r) (simp_all add: Let_def rate_ok_try)

lemma rate_run_frame [simp]:
  "rt_limit (snd (rate_run r ts)) = rt_limit r"
  "rt_duration (snd (rate_run r ts)) = rt_duration r"
  by (induction ts arbitrary: r) (simp_all add: Let_def)

lemma unat_Suc_below:
  fixes c m :: "64 word"
  assumes "c \<le> m" and "m \<noteq> - 1"
  shows "unat (c + 1) = unat c + 1"
proof -
  have "c + 1 \<noteq> 0"
  proof
    assume "c + 1 = 0"
    then have "c = - 1" by (simp add: eq_neg_iff_add_eq_0)
    with assms(1) have "m = - 1" using word_order.extremum_uniqueI by blast
    with assms(2) show False by simp
  qed
  then show ?thesis by (simp add: unatSuc add.commute)
qed

lemma rate_try_in_window:
  assumes ok: "rate_ok r" and inw: "time_sub t (rt_last r) \<le> rt_duration r"
  shows "unat (rt_count (snd (rate_try t r))) =
           unat (rt_count r) + (if fst (rate_try t r) then 1 else 0)"
    and "rt_last (snd (rate_try t r)) = rt_last r"
  using assms unat_Suc_below [of "rt_count r" "rt_limit r"]
  by (auto simp: rate_try_def Let_def rate_ok_def)

lemma rate_run_in_window:
  assumes "rate_ok r" and "\<And>t. t \<in> set ts \<Longrightarrow> time_sub t (rt_last r) \<le> rt_duration r"
  shows "unat (rt_count r) + hits (fst (rate_run r ts)) \<le> unat (rt_limit r)"
  using assms
proof (induction ts arbitrary: r)
  case Nil
  then show ?case by (simp add: rate_ok_def word_le_nat_alt)
next
  case (Cons t ts)
  obtain b r1 where tr: "rate_try t r = (b, r1)" by (cases "rate_try t r")
  have inw: "time_sub t (rt_last r) \<le> rt_duration r" using Cons.prems by simp
  note step = rate_try_in_window [OF Cons.prems(1) inw, unfolded tr fst_conv snd_conv]
  have "rate_ok r1" using rate_ok_try [OF Cons.prems(1), of t] tr by simp
  moreover have "rt_duration r1 = rt_duration r" and lim: "rt_limit r1 = rt_limit r"
    using rate_try_limit [of t r] tr by simp_all
  ultimately have "unat (rt_count r1) + hits (fst (rate_run r1 ts)) \<le> unat (rt_limit r1)"
    using Cons.IH [of r1] Cons.prems step by simp
  with lim step tr show ?case
    by (simp add: Let_def hits_Cons)
qed

lemma rate_run_window:
  assumes "rate_ok r"
    and "\<And>t t'. t \<in> set ts \<Longrightarrow> t' \<in> set ts \<Longrightarrow> time_sub t t' \<le> rt_duration r"
  shows "unat (rt_count r) + hits (fst (rate_run r ts)) \<le> 2 * unat (rt_limit r)"
  using assms
proof (induction ts arbitrary: r)
  case Nil
  then show ?case by (simp add: rate_ok_def word_le_nat_alt)
next
  case (Cons t ts)
  obtain b r1 where tr: "rate_try t r = (b, r1)" by (cases "rate_try t r")
  have ok1: "rate_ok r1" using rate_ok_try [OF Cons.prems(1), of t] tr by simp
  have dur: "rt_duration r1 = rt_duration r" and lim: "rt_limit r1 = rt_limit r"
    using rate_try_limit [of t r] tr by simp_all
  show ?case
  proof (cases "time_sub t (rt_last r) \<le> rt_duration r")
    case True
    note step = rate_try_in_window [OF Cons.prems(1) True, unfolded tr fst_conv snd_conv]
    have "unat (rt_count r1) + hits (fst (rate_run r1 ts)) \<le> 2 * unat (rt_limit r1)"
      using Cons.IH [OF ok1] Cons.prems(2) dur by simp
    with lim step tr show ?thesis
      by (simp add: Let_def hits_Cons)
  next
    case False
    then have last1: "rt_last r1 = t"
      and cnt: "unat (rt_count r1) = (if b then 1 else 0)"
      using tr by (auto simp: rate_try_def Let_def split: if_splits)
    have "unat (rt_count r1) + hits (fst (rate_run r1 ts)) \<le> unat (rt_limit r1)"
      using rate_run_in_window [OF ok1] Cons.prems(2) dur last1 by simp
    moreover have "unat (rt_count r) \<le> unat (rt_limit r)"
      using Cons.prems(1) by (simp add: rate_ok_def word_le_nat_alt)
    ultimately show ?thesis
      using tr lim cnt by (simp add: Let_def hits_Cons)
  qed
qed

section \<open>ContextBag\<close>

text \<open>
  A bag hands out one cancellable context per key. A context is a number, in the order in which
  \<open>context.WithCancel\<close> made them; a context is done when it was cancelled itself or when the
  bag's parent context is done.
\<close>

record ctx_bag =
  cb_parent_done :: bool
  cb_items :: "string \<rightharpoonup> nat"
  cb_next :: nat
  cb_cancelled :: "nat \<Rightarrow> bool"

definition new_context_bag :: "bool \<Rightarrow> ctx_bag" where
  "new_context_bag parent =
     \<lparr>cb_parent_done = parent, cb_items = Map.empty, cb_next = 0, cb_cancelled = (\<lambda>_. False)\<rparr>"

definition bag_context :: "string \<Rightarrow> ctx_bag \<Rightarrow> nat option \<times> ctx_bag" where
  "bag_context key cb =
     (let cb1 = (case cb_items cb key of
                   None \<Rightarrow> cb\<lparr>cb_items := (cb_items cb)(key \<mapsto> cb_next cb), cb_next := Suc (cb_next cb)\<rparr>
                 | Some _ \<Rightarrow> cb)
      in (cb_items cb1 key, cb1))"

definition bag_cancel :: "string \<Rightarrow> ctx_bag \<Rightarrow> ctx_bag" where
  "bag_cancel key cb =
     (case cb_items cb key of
        Some v \<Rightarrow> cb\<lparr>cb_cancelled := (cb_cancelled cb)(v := True), cb_items := (cb_items cb)(key := None)\<rparr>
      | None \<Rightarrow> cb)"

definition bag_cancel_all :: "ctx_bag \<Rightarrow> ctx_bag" where
  "bag_cancel_all cb =
     cb\<lparr>cb_cancelled := (\<lambda>i. cb_cancelled cb i \<or> i \<in> ran (cb_items cb)), cb_items := Map.empty\<rparr>"

definition ctx_done :: "ctx_bag \<Rightarrow> nat \<Rightarrow> bool" where
  "ctx_done cb i \<longleftrightarrow> cb_parent_done cb \<or> cb_cancelled cb i"

text \<open>
  A registered context is live unless the parent is done, contexts of different keys differ,
  and only contexts that were made can be cancelled.
\<close>

definition bag_ok :: "ctx_bag \<Rightarrow> bool" where
  "bag_ok cb \<longleftrightarrow>
     (\<forall>k i. cb_items cb k = Some i \<longrightarrow> i < cb_next cb \<and> \<not> cb_cancelled cb i) \<and>
     (\<forall>k k' i. cb_items cb k = Some i \<longrightarrow> cb_items cb k' = Some i \<longrightarrow> k = k') \<and>
     (\<forall>i. cb_cancelled cb i \<longrightarrow> i < cb_next cb)"

lemma bag_ok_new [inv_intros]: "bag_ok (new_context_bag p)"
  by (simp add: bag_ok_def new_context_bag_def)

lemma bag_ok_context [inv_intros]: "bag_ok cb \<Longrightarrow> bag_ok (snd (bag_context k cb))"
  by (force simp: bag_ok_def bag_context_def Let_def less_Suc_eq split: option.splits)

lemma bag_ok_cancel [inv_intros]: "bag_ok cb \<Longrightarrow> bag_ok (bag_cancel k cb)"
  by (fastforce simp: bag_ok_def bag_cancel_def split: option.splits if_splits)

lemma bag_ok_cancel_all [inv_intros]: "bag_ok cb \<Longrightarrow> bag_ok (bag_cancel_all cb)"
  by (force simp: bag_ok_def bag_cancel_all_def ran_def)

lemma bag_context_Some: "\<exists>i. bag_context k cb = (Some i, snd (bag_context k cb))"
  by (auto simp: bag_context_def Let_def split: option.splits)

lemma bag_context_shared:
  "bag_context k cb = (Some i, cb') \<Longrightarrow> bag_context k cb' = (Some i, cb')"
  by (auto simp: bag_context_def Let_def split: option.splits)

lemma bag_context_live:
  "bag_ok cb \<Longrightarrow> bag_context k cb = (Some i, cb') \<Longrightarrow> ctx_done cb' i = cb_parent_done cb"
  by (fastforce simp: bag_ok_def bag_context_def Let_def ctx_done_def split: option.splits)

lemma bag_cancel_done:
  "bag_context k cb = (Some i, cb') \<Longrightarrow> ctx_done (bag_cancel k cb') i"
  by (auto simp: bag_context_def bag_cancel_def Let_def ctx_done_def split: option.splits)

lemma bag_cancel_other:
  "bag_ok cb \<Longrightarrow> cb_items cb k' = Some i \<Longrightarrow> k' \<noteq> k \<Longrightarrow>
   ctx_done (bag_cancel k cb) i = ctx_done cb i \<and> cb_items (bag_cancel k cb) k' = Some i"
  by (auto simp: bag_ok_def bag_cancel_def ctx_done_def split: option.splits)

lemma bag_cancel_fresh:
  "bag_ok cb \<Longrightarrow> bag_context k cb = (Some i, cb') \<Longrightarrow>
   bag_context k (bag_cancel k cb') = (Some j, cb'') \<Longrightarrow> j \<noteq> i"
  by (fastforce simp: bag_ok_def bag_context_def bag_cancel_def Let_def split: option.splits)

section \<open>AtomicBool\<close>

definition swap_if :: "bool \<Rightarrow> bool \<Rightarrow> bool \<times> bool" where
  "swap_if v cur = (if cur \<noteq> v then (True, v) else (False, cur))"

lemma swap_if_value: "snd (swap_if v cur) = v"
  by (simp add: swap_if_def)

lemma swap_if_once: "fst (swap_if v cur) \<Longrightarrow> \<not> fst (swap_if v (snd (swap_if v cur)))"
  by (simp add: swap_if_def)

section \<open>Properties\<close>

text \<open>
  Fixed-window bound. After any history of calls on a new limiter (whose limit is not the
  largest 64-bit value), among any calls that all happen within one duration of each other at
  most twice the limit are let through, whatever the phase of the window.
\<close>

theorem rate_two_window_bound:
  assumes "lim \<noteq> - 1"
    and "\<And>t t'. t \<in> set burst \<Longrightarrow> t' \<in> set burst \<Longrightarrow> time_sub t t' \<le> dur"
  shows "hits (fst (rate_run (snd (rate_run (new_rate t0 lim dur) history)) burst)) \<le> 2 * unat lim"
proof -
  let ?r = "snd (rate_run (new_rate t0 lim dur) history)"
  have "rate_ok ?r" by (intro inv_intros assms(1))
  then show ?thesis
    using rate_run_window [of ?r burst] assms(2) by (simp add: new_rate_def)
qed

theorem rate_two_window_bound_witness:
  "hits (fst (rate_run (snd (rate_run (new_rate 0 2 10) [9, 9])) [10, 11, 12, 13])) = 2"
proof -
  have "hits (fst (rate_run (snd (rate_run (new_rate 0 2 10) [9, 9])) [10, 11, 12, 13])) \<le> 2 * unat (2 :: 64 word)"
    by (rule rate_two_window_bound) (auto simp: time_sub_def min_i64_def max_i64_def)
  moreover have "hits (fst (rate_run (snd (rate_run (new_rate 0 2 10) [9, 9])) [10, 11, 12, 13])) = 2"
    by code_simp
  ultimately show ?thesis by simp
qed

text \<open>
  A context of the bag is shared and cancelled exactly with its key: asking again gives the same
  context, cancelling the key ends it, leaves every other registered context as it was, and the
  next request for the key makes a different, live one.
\<close>

theorem bag_context_lifecycle:
  assumes "bag_ok cb" and get: "bag_context k cb = (Some i, cb1)"
  shows "bag_context k cb1 = (Some i, cb1)
       \<and> ctx_done cb1 i = cb_parent_done cb
       \<and> ctx_done (bag_cancel k cb1) i
       \<and> (\<forall>k' j. k' \<noteq> k \<longrightarrow> cb_items cb1 k' = Some j \<longrightarrow>
              cb_items (bag_cancel k cb1) k' = Some j \<and> ctx_done (bag_cancel k cb1) j = ctx_done cb1 j)
       \<and> (\<forall>j cb2. bag_context k (bag_cancel k cb1) = (Some j, cb2) \<longrightarrow>
              j \<noteq> i \<and> ctx_done cb2 j = cb_parent_done cb)"
proof -
  have ok1: "bag_ok cb1" using bag_ok_context [OF assms(1), of k] get by simp
  have pd: "cb_parent_done (bag_cancel k cb1) = cb_parent_done cb"
    using get by (auto simp: bag_context_def bag_cancel_def Let_def split: option.splits)
  show ?thesis
    using bag_context_shared [OF get] bag_context_live [OF assms] bag_cancel_done [OF get]
      bag_cancel_other [OF ok1] bag_cancel_fresh [OF assms]
      bag_context_live [OF bag_ok_cancel [OF ok1]] pd
    by blast
qed

theorem bag_context_lifecycle_witness:
  "ctx_done (bag_cancel ''a'' (snd (bag_context ''a'' (new_context_bag False)))) 0"
proof -
  have "bag_context ''a'' (new_context_bag False) = (Some 0, snd (bag_context ''a'' (new_context_bag False)))"
    by (simp add: bag_context_def new_context_bag_def)
  with bag_context_lifecycle [OF bag_ok_new this] show ?thesis by blast
qed

end
