(* ===== verification/Go_Strings.thy ===== *)
theory Go_Strings
  imports Prelude
begin

text \<open>
  The functions of Go's \<open>strings\<close>, \<open>strconv\<close> and \<open>path/filepath\<close> that the program uses, on byte strings:
  prefixes and suffixes, splitting at a separator byte, joining, decimal numbers, and the lexical path
  functions \<open>Clean\<close>, \<open>Join\<close>, \<open>Split\<close>, \<open>Ext\<close> for the separator \<open>/\<close>.
\<close>

section \<open>Prefixes and suffixes\<close>

definition has_prefix :: "string \<Rightarrow> string \<Rightarrow> bool" where
  "has_prefix s p = (take (length p) s = p)"

definition has_suffix :: "string \<Rightarrow> string \<Rightarrow> bool" where
  "has_suffix s p = (length p \<le> length s \<and> drop (length s - length p) s = p)"

definition trim_prefix :: "string \<Rightarrow> string \<Rightarrow> string" where
  "trim_prefix s p = (if has_prefix s p then drop (length p) s else s)"

definition trim_suffix :: "string \<Rightarrow> string \<Rightarrow> string" where
  "trim_suffix s p = (if has_suffix s p then take (length s - length p) s else s)"

lemma has_prefix_append [simp]: "has_prefix (p @ s) p"
  by (simp add: has_prefix_def)

lemma has_prefix_same_append [simp]: "has_prefix (p @ s) (p @ t) \<longleftrightarrow> has_prefix s t"
  by (simp add: has_prefix_def)

lemma has_prefix_Cons [simp]: "has_prefix (c # s) (d # t) \<longleftrightarrow> c = d \<and> has_prefix s t"
  by (simp add: has_prefix_def)

lemma has_prefix_iff: "has_prefix s p \<longleftrightarrow> (\<exists>t. s = p @ t)"
  by (metis append_eq_conv_conj append_take_drop_id has_prefix_def)

lemma has_suffix_iff: "has_suffix s p \<longleftrightarrow> (\<exists>t. s = t @ p)"
proof
  assume "has_suffix s p"
  then have "s = take (length s - length p) s @ p"
    by (metis append_take_drop_id has_suffix_def)
  then show "\<exists>t. s = t @ p" ..
qed (auto simp: has_suffix_def)

lemma trim_prefix_append [simp]: "trim_prefix (p @ s) p = s"
  by (simp add: trim_prefix_def)

lemma trim_suffix_append [simp]: "trim_suffix (s @ p) p = s"
  by (simp add: trim_suffix_def has_suffix_def)

lemma trim_suffix_id: "\<not> has_suffix s p \<Longrightarrow> trim_suffix s p = s"
  by (simp add: trim_suffix_def)

lemma trim_prefix_id: "\<not> has_prefix s p \<Longrightarrow> trim_prefix s p = s"
  by (simp add: trim_prefix_def)

lemma has_prefix_Nil [simp]: "has_prefix s []"
  by (simp add: has_prefix_def)

text \<open>\<open>strings.Contains\<close>.\<close>

fun contains :: "string \<Rightarrow> string \<Rightarrow> bool" where
  "contains [] sub = (sub = [])"
| "contains (c # s) sub = (has_prefix (c # s) sub \<or> contains s sub)"

section \<open>Splitting and joining\<close>

fun split_char :: "char \<Rightarrow> string \<Rightarrow> string list" where
  "split_char c [] = [[]]"
| "split_char c (x # xs) =
     (if x = c then [] # split_char c xs
      else (x # hd (split_char c xs)) # tl (split_char c xs))"

fun join_char :: "char \<Rightarrow> string list \<Rightarrow> string" where
  "join_char c [] = []"
| "join_char c [s] = s"
| "join_char c (s # t # ss) = s @ c # join_char c (t # ss)"

text \<open>\<open>strings.SplitN(s, sep, 2)\<close>: at the first separator only.\<close>

definition split_first :: "char \<Rightarrow> string \<Rightarrow> string list" where
  "split_first c s =
     (if c \<in> set s then [takeWhile (\<lambda>x. x \<noteq> c) s, tl (dropWhile (\<lambda>x. x \<noteq> c) s)] else [s])"

lemma split_char_neq_Nil [simp]: "split_char c s \<noteq> []"
  by (cases s) auto

lemma split_char_sep_free: "s \<in> set (split_char c xs) \<Longrightarrow> c \<notin> set s"
proof (induction xs arbitrary: s)
  case (Cons x xs)
  then show ?case
    by (cases "split_char c xs") (auto split: if_splits)
qed simp

lemma join_split [simp]: "join_char c (split_char c s) = s"
proof (induction s)
  case (Cons x xs)
  then show ?case
    by (cases "split_char c xs"; cases "tl (split_char c xs)") auto
qed simp

lemma split_no_sep: "c \<notin> set s \<Longrightarrow> split_char c s = [s]"
  by (induction s) auto

lemma split_append: "c \<notin> set s \<Longrightarrow> split_char c (s @ c # t) = s # split_char c t"
  by (induction s) auto

lemma split_join:
  "ss \<noteq> [] \<Longrightarrow> (\<And>s. s \<in> set ss \<Longrightarrow> c \<notin> set s) \<Longrightarrow> split_char c (join_char c ss) = ss"
  by (induction c ss rule: join_char.induct) (auto simp: split_no_sep split_append)

lemma split_first_Cons: "hd (split_first c s) = takeWhile (\<lambda>x. x \<noteq> c) s"
proof (cases "c \<in> set s")
  case False
  have "hd (split_first c s) = s" using False by (simp add: split_first_def)
  also have "\<dots> = takeWhile (\<lambda>x. x \<noteq> c) s"
    using False by (subst takeWhile_eq_all_conv [THEN iffD2]) auto
  finally show ?thesis .
qed (simp add: split_first_def)

section \<open>Decimal numbers\<close>

text \<open>\<open>strconv.Itoa\<close> for non-negative and negative integers.\<close>

definition digit_char :: "nat \<Rightarrow> char" where
  "digit_char d = char_of (48 + d)"

fun nat_digits :: "nat \<Rightarrow> string" where
  "nat_digits n = (if n < 10 then [digit_char n] else nat_digits (n div 10) @ [digit_char (n mod 10)])"

declare nat_digits.simps [simp del]

definition itoa :: "int \<Rightarrow> string" where
  "itoa i = (if i < 0 then CHR ''-'' # nat_digits (nat (- i)) else nat_digits (nat i))"

definition char_digit :: "char \<Rightarrow> nat" where
  "char_digit c = of_char c - 48"

definition is_digit :: "char \<Rightarrow> bool" where
  "is_digit c \<longleftrightarrow> 48 \<le> (of_char c :: nat) \<and> (of_char c :: nat) \<le> 57"

definition digits_value :: "string \<Rightarrow> nat" where
  "digits_value s = foldl (\<lambda>n c. n * 10 + char_digit c) 0 s"

lemma char_digit_char [simp]: "d < 10 \<Longrightarrow> char_digit (digit_char d) = d"
  by (simp add: char_digit_def digit_char_def)

lemma digit_char_simps [go_simps]:
  "digit_char 0 = CHR ''0''" "digit_char (Suc 0) = CHR ''1''" "digit_char 1 = CHR ''1''"
  "digit_char 2 = CHR ''2''" "digit_char 3 = CHR ''3''" "digit_char 4 = CHR ''4''"
  "digit_char 5 = CHR ''5''" "digit_char 6 = CHR ''6''" "digit_char 7 = CHR ''7''"
  "digit_char 8 = CHR ''8''" "digit_char 9 = CHR ''9''"
  by code_simp+

lemmas itoa_eval = itoa_def nat_digits.simps digit_char_simps

lemma is_digit_digit_char [simp]: "d < 10 \<Longrightarrow> is_digit (digit_char d)"
  by (simp add: is_digit_def digit_char_def)

lemma nat_digits_neq_Nil [simp]: "nat_digits n \<noteq> []"
  by (subst nat_digits.simps) simp

lemma nat_digits_digits: "list_all is_digit (nat_digits n)"
proof (induction n rule: nat_digits.induct)
  case (1 n)
  then show ?case by (subst nat_digits.simps) simp
qed

lemma digits_value_nat_digits [simp]: "digits_value (nat_digits n) = n"
proof (induction n rule: nat_digits.induct)
  case (1 n)
  show ?case
  proof (cases "n < 10")
    case True
    then show ?thesis by (subst nat_digits.simps) (simp add: digits_value_def)
  next
    case False
    with 1 have "digits_value (nat_digits (n div 10)) = n div 10" by simp
    with False show ?thesis by (subst nat_digits.simps) (simp add: digits_value_def)
  qed
qed

lemma nat_digits_inject [simp]: "nat_digits m = nat_digits n \<longleftrightarrow> m = n"
  by (metis digits_value_nat_digits)

section \<open>Lexical paths\<close>

text \<open>
  \<open>filepath.Clean\<close> works component by component: empty and \<open>.\<close> components go, a \<open>..\<close> removes
  the component before it, stays at the front of a relative path and is dropped at the root.
  The stack holds the components kept so far, the last one first.
\<close>

abbreviation slash :: char where "slash \<equiv> CHR ''/''"
abbreviation dotdot :: string where "dotdot \<equiv> ''..''"

definition clean_step :: "bool \<Rightarrow> string list \<Rightarrow> string \<Rightarrow> string list" where
  "clean_step rooted st c =
     (if c = [] \<or> c = ''.'' then st
      else if c = dotdot then
        (case st of
           [] \<Rightarrow> if rooted then [] else [dotdot]
         | t # ts \<Rightarrow> if t = dotdot then dotdot # st else ts)
      else c # st)"

definition clean_comps :: "bool \<Rightarrow> string list \<Rightarrow> string list" where
  "clean_comps rooted cs = rev (foldl (clean_step rooted) [] cs)"

definition path_clean :: "string \<Rightarrow> string" where
  "path_clean s =
     (if s = [] then ''.''
      else if hd s = slash then slash # join_char slash (clean_comps True (split_char slash s))
      else (let cs = clean_comps False (split_char slash s)
            in if cs = [] then ''.'' else join_char slash cs))"

definition path_join :: "string list \<Rightarrow> string" where
  "path_join ss =
     (let ne = filter (\<lambda>s. s \<noteq> []) ss
      in if ne = [] then [] else path_clean (join_char slash ne))"

text \<open>\<open>filepath.Split\<close>: the part up to and with the last slash, and the rest.\<close>

definition path_split :: "string \<Rightarrow> string \<times> string" where
  "path_split s =
     (let f = rev (takeWhile (\<lambda>c. c \<noteq> slash) (rev s))
      in (take (length s - length f) s, f))"

text \<open>\<open>filepath.Ext\<close>: from the last dot of the last component.\<close>

definition path_ext :: "string \<Rightarrow> string" where
  "path_ext s =
     (let f = snd (path_split s)
      in if CHR ''.'' \<in> set f
         then CHR ''.'' # rev (takeWhile (\<lambda>c. c \<noteq> CHR ''.'') (rev f)) else [])"

text \<open>A component that names a child: no separator in it, and not empty, \<open>.\<close> or \<open>..\<close>.\<close>

definition proper_comp :: "string \<Rightarrow> bool" where
  "proper_comp c \<longleftrightarrow> c \<noteq> [] \<and> c \<noteq> ''.'' \<and> c \<noteq> dotdot \<and> slash \<notin> set c"

lemma clean_step_proper:
  "list_all proper_comp st \<Longrightarrow> slash \<notin> set c \<Longrightarrow> list_all proper_comp (clean_step True st c)"
  by (auto simp: clean_step_def proper_comp_def split: list.splits)

lemma clean_foldl_proper:
  "list_all proper_comp st \<Longrightarrow> (\<And>c. c \<in> set cs \<Longrightarrow> slash \<notin> set c) \<Longrightarrow>
   list_all proper_comp (foldl (clean_step True) st cs)"
  by (induction cs arbitrary: st) (simp_all add: clean_step_proper)

lemma clean_comps_proper:
  "list_all proper_comp (clean_comps True (split_char slash s))"
  using clean_foldl_proper [of "[]" "split_char slash s"] split_char_sep_free
  by (auto simp: clean_comps_def)

lemma clean_foldl_id:
  "list_all proper_comp cs \<Longrightarrow> foldl (clean_step r) st cs = rev cs @ st"
  by (induction cs arbitrary: st) (simp_all add: clean_step_def proper_comp_def)

lemma clean_comps_id: "list_all proper_comp cs \<Longrightarrow> clean_comps r cs = cs"
  by (simp add: clean_comps_def clean_foldl_id)

lemma clean_comps_Nil_skip: "clean_comps r ([] # cs) = clean_comps r cs"
  by (simp add: clean_comps_def clean_step_def)

section \<open>White space, hosts and ports\<close>

text \<open>\<open>strings.TrimSpace\<close> on ASCII.\<close>

definition trim_space :: "string \<Rightarrow> string" where
  "trim_space s =
     (let space = (\<lambda>c. c \<in> {CHR '' '', CHR 0x09, CHR 0x0A, CHR 0x0B, CHR 0x0C, CHR 0x0D})
      in rev (dropWhile space (rev (dropWhile space s))))"

text \<open>\<open>strings.LastIndexByte\<close>: what is before and after the last \<open>c\<close>.\<close>

definition cut_last :: "char \<Rightarrow> string \<Rightarrow> (string \<times> string) option" where
  "cut_last c s =
     (if c \<in> set s
      then Some (rev (tl (dropWhile (\<lambda>x. x \<noteq> c) (rev s))), rev (takeWhile (\<lambda>x. x \<noteq> c) (rev s)))
      else None)"

text \<open>\<open>net.SplitHostPort\<close>: a host with colons is in brackets.\<close>

definition split_host_port :: "string \<Rightarrow> (string \<times> string) option" where
  "split_host_port s =
     (case cut_last (CHR '':'') s of
        None \<Rightarrow> None
      | Some (h, p) \<Rightarrow>
          if has_prefix s ''[''
          then (let inner = takeWhile (\<lambda>c. c \<noteq> CHR '']'') (tl s);
                    rest = dropWhile (\<lambda>c. c \<noteq> CHR '']'') (tl s)
                in if rest = CHR '']'' # CHR '':'' # p \<and> CHR ''['' \<notin> set inner \<and> CHR ''['' \<notin> set p \<and> CHR '']'' \<notin> set p
                   then Some (inner, p) else None)
          else if CHR '':'' \<in> set h \<or> CHR ''['' \<in> set s \<or> CHR '']'' \<in> set s then None
          else Some (h, p))"

lemma drop_to_all:
  "c \<notin> set p \<Longrightarrow> dropWhile (\<lambda>x. x \<noteq> c) (p @ c # q) = c # q"
  "c \<notin> set p \<Longrightarrow> takeWhile (\<lambda>x. x \<noteq> c) (p @ c # q) = p"
  by (induction p) auto

lemma cut_last_join: "c \<notin> set p \<Longrightarrow> cut_last c (h @ c # p) = Some (h, p)"
  using drop_to_all [of c "rev p" "rev h"] by (simp add: cut_last_def)

lemma split_host_port_v4:
  assumes "CHR '':'' \<notin> set (h @ p)" and "CHR ''['' \<notin> set (h @ p)" and "CHR '']'' \<notin> set (h @ p)"
  shows "split_host_port (h @ CHR '':'' # p) = Some (h, p)"
proof -
  have "cut_last (CHR '':'') (h @ CHR '':'' # p) = Some (h, p)" using assms by (simp add: cut_last_join)
  moreover have "\<not> has_prefix (h @ CHR '':'' # p) ''[''" using assms by (cases h) (auto simp: has_prefix_def)
  ultimately show ?thesis using assms unfolding split_host_port_def by simp
qed

lemma split_host_port_v6:
  assumes "CHR '']'' \<notin> set (h @ p)" and "CHR ''['' \<notin> set (h @ p)" and "CHR '':'' \<notin> set p"
  shows "split_host_port (CHR ''['' # h @ CHR '']'' # CHR '':'' # p) = Some (h, p)"
proof -
  have "cut_last (CHR '':'') (CHR ''['' # h @ CHR '']'' # CHR '':'' # p) = Some (CHR ''['' # h @ [CHR '']''], p)"
    using cut_last_join [OF assms(3), of "CHR ''['' # h @ [CHR '']'']"] by simp
  moreover have "has_prefix (CHR ''['' # h @ CHR '']'' # CHR '':'' # p) ''[''" by (simp add: has_prefix_def)
  ultimately show ?thesis using assms unfolding split_host_port_def by (simp add: drop_to_all Let_def)
qed

end
