(* ===== verification/Sink_Pool.thy ===== *)
theory Sink_Pool
  imports Go_Strings
begin

text \<open>
  The fan-out of console and event messages: \<open>src/system/sink_pool.go\<close> and the event bus built
  on it, \<open>src/events/events.go\<close>. Channels live in a heap, since the same channel can be
  registered, read by its subscriber and closed by the pool.
\<close>

section \<open>Channels and the pool\<close>

record 'm chan =
  ch_buf :: "'m list"
  ch_cap :: nat
  ch_closed :: bool

type_synonym 'm heap = "nat \<Rightarrow> 'm chan"

text \<open>A registered sink is a channel or \<open>nil\<close>.\<close>

type_synonym sinks = "nat option list"

definition new_sink_pool :: sinks where
  "new_sink_pool = []"

definition pool_on :: "nat option \<Rightarrow> sinks \<Rightarrow> sinks" where
  "pool_on c p = p @ [c]"

definition close_chan :: "nat \<Rightarrow> 'm heap \<Rightarrow> 'm heap go" where
  "close_chan c h =
     (if ch_closed (h c) then Panic ''close of closed channel''
      else Ret (h(c := (h c)\<lparr>ch_closed := True\<rparr>)))"

text \<open>
  \<open>Off\<close> looks for the channel from the left, shifts the rest of the slice over it, drops the
  last slot and closes the channel. The loop's index is the length of \<open>before\<close>, the sinks
  already passed; \<open>shift_left\<close> is what \<open>copy(sinks[i:], sinks[i+1:])\<close> and the truncation make of the slice.
\<close>

definition shift_left :: "nat \<Rightarrow> 'a list \<Rightarrow> 'a list" where
  "shift_left i xs = take (length xs - 1) (take i xs @ drop (i + 1) xs @ [last xs])"

fun find_sink :: "nat option \<Rightarrow> sinks \<Rightarrow> nat \<Rightarrow> nat option" where
  "find_sink c [] i = None"
| "find_sink c (s # ss) i = (if c \<noteq> s then find_sink c ss (i + 1) else Some i)"

definition pool_off :: "nat option \<Rightarrow> sinks \<times> 'm heap \<Rightarrow> (sinks \<times> 'm heap) go" where
  "pool_off c = (\<lambda>(p, h).
     (case find_sink c p 0 of
        None \<Rightarrow> Ret (p, h)
      | Some i \<Rightarrow>
          (let p' = shift_left i p
           in case c of
                None \<Rightarrow> Ret (p', h)
              | Some k \<Rightarrow> go_bind (close_chan k h) (\<lambda>h'. Ret (p', h')))))"

fun close_all :: "sinks \<Rightarrow> 'm heap \<Rightarrow> 'm heap go" where
  "close_all [] h = Ret h"
| "close_all (None # cs) h = close_all cs h"
| "close_all (Some k # cs) h = go_bind (close_chan k h) (close_all cs)"

definition pool_destroy :: "sinks \<times> 'm heap \<Rightarrow> (sinks \<times> 'm heap) go" where
  "pool_destroy = (\<lambda>(p, h). go_bind (close_all p h) (\<lambda>h'. Ret ([], h')))"

subsection \<open>Off\<close>

lemma find_sink_spec:
  "find_sink c p i = (if c \<in> set p then Some (i + length (takeWhile (\<lambda>s. s \<noteq> c) p)) else None)"
  by (induction p arbitrary: i) auto

lemma shift_left_eq: "i < length xs \<Longrightarrow> shift_left i xs = take i xs @ drop (i + 1) xs"
  by (simp add: shift_left_def)

lemma shift_left_remove1:
  "c \<in> set p \<Longrightarrow> shift_left (length (takeWhile (\<lambda>s. s \<noteq> c) p)) p = remove1 c p"
proof -
  assume c: "c \<in> set p"
  then have "length (takeWhile (\<lambda>s. s \<noteq> c) p) < length p"
    by (induction p) auto
  then have "shift_left (length (takeWhile (\<lambda>s. s \<noteq> c) p)) p =
      take (length (takeWhile (\<lambda>s. s \<noteq> c) p)) p @ drop (length (takeWhile (\<lambda>s. s \<noteq> c) p) + 1) p"
    by (rule shift_left_eq)
  also have "\<dots> = remove1 c p"
    using c by (induction p) auto
  finally show ?thesis .
qed

lemma pool_off_absent: "c \<notin> set p \<Longrightarrow> pool_off c (p, h) = Ret (p, h)"
  by (simp add: pool_off_def find_sink_spec)

lemma pool_off_nil: "None \<in> set p \<Longrightarrow> pool_off None (p, h) = Ret (remove1 None p, h)"
  using shift_left_remove1 [of None p]
  by (simp only: pool_off_def prod.case find_sink_spec if_True option.case Let_def add_0)

lemma pool_off_present:
  "Some k \<in> set p \<Longrightarrow> \<not> ch_closed (h k) \<Longrightarrow>
   pool_off (Some k) (p, h) = Ret (remove1 (Some k) p, h(k := (h k)\<lparr>ch_closed := True\<rparr>))"
  by (simp add: pool_off_def find_sink_spec shift_left_remove1 close_chan_def)

subsection \<open>The pool's invariant\<close>

text \<open>No sink is registered twice and every registered channel is open: then nothing panics.\<close>

definition pool_ok :: "sinks \<times> 'm heap \<Rightarrow> bool" where
  "pool_ok = (\<lambda>(p, h). distinct (filter (\<lambda>s. s \<noteq> None) p) \<and>
                (\<forall>k. Some k \<in> set p \<longrightarrow> \<not> ch_closed (h k)))"

lemma pool_ok_new [inv_intros]: "pool_ok (new_sink_pool, h)"
  by (simp add: pool_ok_def new_sink_pool_def)

lemma pool_ok_on [inv_intros]:
  "pool_ok (p, h) \<Longrightarrow> c = None \<or> c \<notin> set p \<Longrightarrow> (\<And>k. c = Some k \<Longrightarrow> \<not> ch_closed (h k)) \<Longrightarrow>
   pool_ok (pool_on c p, h)"
  by (auto simp: pool_ok_def pool_on_def)

lemma pool_off_ok:
  assumes "pool_ok (p, h)"
  shows "\<exists>p' h'. pool_off c (p, h) = Ret (p', h') \<and> pool_ok (p', h')
                 \<and> p' = remove1 c p \<and> (\<forall>k. Some k \<noteq> c \<longrightarrow> h' k = h k)"
proof (cases "c \<in> set p")
  case False
  with assms show ?thesis by (simp add: pool_off_absent remove1_idem)
next
  case in_p: True
  show ?thesis
  proof (cases c)
    case None
    have "pool_ok (remove1 c p, h)"
      using assms None by (auto simp: pool_ok_def dest: notin_set_remove1)
        (simp add: filter_remove1 distinct_remove1)
    with None in_p show ?thesis by (auto simp: pool_off_nil)
  next
    case (Some k)
    have "\<not> ch_closed (h k)" using assms in_p Some by (auto simp: pool_ok_def)
    then have off: "pool_off c (p, h) = Ret (remove1 c p, h(k := (h k)\<lparr>ch_closed := True\<rparr>))"
      using in_p Some by (simp add: pool_off_present)
    have "c \<notin> set (filter (\<lambda>s. s \<noteq> None) (remove1 c p))"
      using assms Some by (simp only: pool_ok_def filter_remove1 prod.case)
        (auto dest: distinct_remove1 simp: set_remove1_eq)
    then have "c \<notin> set (remove1 c p)" using Some by auto
    then have "pool_ok (remove1 c p, h(k := (h k)\<lparr>ch_closed := True\<rparr>))"
      using assms Some by (auto simp: pool_ok_def filter_remove1 dest: notin_set_remove1)
    with off Some show ?thesis by auto
  qed
qed

lemma close_all_ok:
  "distinct (filter (\<lambda>s. s \<noteq> None) p) \<Longrightarrow> (\<forall>k. Some k \<in> set p \<longrightarrow> \<not> ch_closed (h k)) \<Longrightarrow>
   \<exists>h'. close_all p h = Ret h' \<and> (\<forall>k. ch_closed (h' k) \<longleftrightarrow> ch_closed (h k) \<or> Some k \<in> set p)"
proof (induction p h rule: close_all.induct)
  case (3 k cs h)
  have open_k: "\<not> ch_closed (h k)" using "3.prems" by simp
  let ?h = "h(k := (h k)\<lparr>ch_closed := True\<rparr>)"
  have "\<exists>h'. close_all cs ?h = Ret h' \<and> (\<forall>j. ch_closed (h' j) \<longleftrightarrow> ch_closed (?h j) \<or> Some j \<in> set cs)"
    using "3.prems" open_k by (intro "3.IH") (auto simp: close_chan_def)
  then show ?case using open_k by (auto simp: close_chan_def)
qed auto

section \<open>Push\<close>

text \<open>
  One goroutine per sink sends the message, waits up to ten milliseconds for room, then makes
  room itself by dropping the oldest message. Several pushes, and the subscriber, act on a
  channel at the same time, so the goroutines are threads of a step relation: each is about to
  send, has seen its timer fire, has dropped a message, or is finished.
\<close>

datatype 'm push_pc = Sending 'm | TimedOut 'm | Dropped 'm | Finished

record 'm push_sys =
  ps_buf :: "'m list"
  ps_cap :: nat
  ps_pcs :: "nat \<Rightarrow> 'm push_pc"
  ps_recv :: "'m list"
  ps_accepted :: "'m list"
  ps_dropped :: nat

text \<open>
  \<open>ps_recv\<close>, \<open>ps_accepted\<close> and \<open>ps_dropped\<close> only record history: what the subscriber received,
  what entered the channel, in order, and how many messages were thrown away from it.
\<close>

inductive push_step :: "'m push_sys \<Rightarrow> 'm push_sys \<Rightarrow> bool" where
  start: "ps_pcs s i = Finished \<Longrightarrow>
     push_step s (s\<lparr>ps_pcs := (ps_pcs s)(i := Sending d)\<rparr>)"
| send: "ps_pcs s i = Sending d \<Longrightarrow> length (ps_buf s) < ps_cap s \<Longrightarrow>
     push_step s (s\<lparr>ps_pcs := (ps_pcs s)(i := Finished), ps_buf := ps_buf s @ [d],
                   ps_accepted := ps_accepted s @ [d]\<rparr>)"
| timeout: "ps_pcs s i = Sending d \<Longrightarrow>
     push_step s (s\<lparr>ps_pcs := (ps_pcs s)(i := TimedOut d)\<rparr>)"
| drop_oldest: "ps_pcs s i = TimedOut d \<Longrightarrow> ps_buf s = x # xs \<Longrightarrow>
     push_step s (s\<lparr>ps_pcs := (ps_pcs s)(i := Dropped d), ps_buf := xs,
                   ps_dropped := Suc (ps_dropped s)\<rparr>)"
| nothing_to_drop: "ps_pcs s i = TimedOut d \<Longrightarrow> ps_buf s = [] \<Longrightarrow>
     push_step s (s\<lparr>ps_pcs := (ps_pcs s)(i := Finished)\<rparr>)"
| send_again: "ps_pcs s i = Dropped d \<Longrightarrow> length (ps_buf s) < ps_cap s \<Longrightarrow>
     push_step s (s\<lparr>ps_pcs := (ps_pcs s)(i := Finished), ps_buf := ps_buf s @ [d],
                   ps_accepted := ps_accepted s @ [d]\<rparr>)"
| give_up: "ps_pcs s i = Dropped d \<Longrightarrow> \<not> length (ps_buf s) < ps_cap s \<Longrightarrow>
     push_step s (s\<lparr>ps_pcs := (ps_pcs s)(i := Finished)\<rparr>)"
| receive: "ps_buf s = x # xs \<Longrightarrow>
     push_step s (s\<lparr>ps_buf := xs, ps_recv := ps_recv s @ [x]\<rparr>)"

definition push_init :: "nat \<Rightarrow> 'm push_sys" where
  "push_init n = \<lparr>ps_buf = [], ps_cap = n, ps_pcs = (\<lambda>_. Finished), ps_recv = [],
                  ps_accepted = [], ps_dropped = 0\<rparr>"

inductive push_reach :: "nat \<Rightarrow> 'm push_sys \<Rightarrow> bool" for n where
  init: "push_reach n (push_init n)"
| step: "push_reach n s \<Longrightarrow> push_step s t \<Longrightarrow> push_reach n t"

inductive_cases push_stepE: "push_step s t"

definition push_inv :: "nat \<Rightarrow> 'm push_sys \<Rightarrow> bool" where
  "push_inv n s \<longleftrightarrow>
     ps_cap s = n \<and> length (ps_buf s) \<le> n \<and>
     subseq (ps_recv s @ ps_buf s) (ps_accepted s) \<and>
     length (ps_accepted s) = length (ps_recv s) + length (ps_buf s) + ps_dropped s"

lemma subseq_drop_middle: "subseq (r @ x # xs) a \<Longrightarrow> subseq (r @ xs) a"
  by (meson list_emb_append_mono subseq_Cons' subseq_order.order_refl subseq_order.order_trans)

lemma push_inv_step: "push_step s t \<Longrightarrow> push_inv n s \<Longrightarrow> push_inv n t"
proof (induction rule: push_step.induct)
  case (send s i d)
  then have "subseq ((ps_recv s @ ps_buf s) @ [d]) (ps_accepted s @ [d])"
    by (simp add: push_inv_def del: append_assoc)
  with send show ?case by (simp add: push_inv_def)
next
  case (send_again s i d)
  then have "subseq ((ps_recv s @ ps_buf s) @ [d]) (ps_accepted s @ [d])"
    by (simp add: push_inv_def del: append_assoc)
  with send_again show ?case by (simp add: push_inv_def)
next
  case (drop_oldest s i d x xs)
  then show ?case by (auto simp: push_inv_def dest: subseq_drop_middle)
qed (auto simp: push_inv_def)

lemma push_reach_inv: "push_reach n s \<Longrightarrow> push_inv n s"
proof (induction rule: push_reach.induct)
  case init
  show ?case by (simp add: push_inv_def push_init_def)
next
  case (step s t)
  then show ?case by (blast intro: push_inv_step)
qed

subsection \<open>A push with no reader in the way\<close>

text \<open>
  When nothing else touches the channel the goroutine's result is determined. \<open>push_chan\<close> is
  the body of the goroutine run to its end; sending on a closed channel panics.
\<close>

definition push_buf :: "nat \<Rightarrow> 'm \<Rightarrow> 'm list \<Rightarrow> 'm list" where
  "push_buf n d buf =
     (if length buf < n then buf @ [d]
      else case buf of
             [] \<Rightarrow> buf
           | x # xs \<Rightarrow> if length xs < n then xs @ [d] else xs)"

definition push_chan :: "'m \<Rightarrow> 'm chan \<Rightarrow> 'm chan go" where
  "push_chan d ch =
     (if ch_closed ch then Panic ''send on closed channel''
      else Ret (ch\<lparr>ch_buf := push_buf (ch_cap ch) d (ch_buf ch)\<rparr>))"

fun pool_push :: "'m \<Rightarrow> sinks \<Rightarrow> 'm heap \<Rightarrow> 'm heap go" where
  "pool_push d [] h = Ret h"
| "pool_push d (None # p) h = pool_push d p h"
| "pool_push d (Some k # p) h =
     go_bind (push_chan d (h k)) (\<lambda>ch. pool_push d p (h(k := ch)))"

lemma push_buf_rolling:
  "0 < n \<Longrightarrow> length buf \<le> n \<Longrightarrow>
   push_buf n d buf = drop (length (buf @ [d]) - n) (buf @ [d])"
  by (cases buf) (auto simp: push_buf_def Suc_diff_le)

lemma length_push_buf: "length buf \<le> n \<Longrightarrow> length (push_buf n d buf) \<le> n"
  by (auto simp: push_buf_def split: list.splits)

lemma push_run_rolling:
  assumes "0 < n" and "length buf \<le> n"
  shows "foldl (\<lambda>b d. push_buf n d b) buf ds = drop (length (buf @ ds) - n) (buf @ ds)"
  using assms(2)
proof (induction ds arbitrary: buf)
  case (Cons d ds)
  let ?b = "push_buf n d buf"
  have b: "?b = drop (length buf + 1 - n) (buf @ [d])"
    using push_buf_rolling [OF assms(1) Cons.prems] by simp
  have "foldl (\<lambda>b d. push_buf n d b) ?b ds = drop (length (?b @ ds) - n) (?b @ ds)"
    by (rule Cons.IH) (rule length_push_buf [OF Cons.prems])
  also have "\<dots> = drop (length buf + 1 + length ds - n) (buf @ d # ds)"
  proof (cases "length buf < n")
    case True
    then have "length buf + 1 - n = 0" by simp
    then show ?thesis using b by simp
  next
    case False
    then have "length buf = n" using Cons.prems by simp
    moreover from this assms(1) obtain x xs where "buf = x # xs" by (cases buf) auto
    ultimately have n: "n = Suc (length xs)" and buf: "buf = x # xs" by simp_all
    have "?b = xs @ [d]" by (simp add: push_buf_def buf n)
    then show ?thesis unfolding buf n by simp
  qed
  finally show ?case by simp
qed simp

text \<open>The determined push is a run of the step relation: the threads implement it.\<close>

lemma push_buf_run:
  assumes "ps_pcs s i = Finished"
  shows "\<exists>t. push_step\<^sup>*\<^sup>* s t \<and> ps_buf t = push_buf (ps_cap s) d (ps_buf s)
             \<and> ps_recv t = ps_recv s \<and> ps_pcs t = ps_pcs s"
proof -
  let ?s1 = "s\<lparr>ps_pcs := (ps_pcs s)(i := Sending d)\<rparr>"
  let ?s2 = "s\<lparr>ps_pcs := (ps_pcs s)(i := TimedOut d)\<rparr>"
  have s1: "push_step s ?s1" by (rule push_step.start [OF assms])
  have s2: "push_step ?s1 ?s2" using push_step.timeout [of ?s1 i d] by simp
  have restore: "(ps_pcs s)(i := Finished) = ps_pcs s" using assms by auto
  consider (room) "length (ps_buf s) < ps_cap s"
    | (empty) "\<not> length (ps_buf s) < ps_cap s" "ps_buf s = []"
    | (full) x xs where "\<not> length (ps_buf s) < ps_cap s" "ps_buf s = x # xs"
    by (cases "ps_buf s") auto
  then show ?thesis
  proof cases
    case room
    let ?t = "s\<lparr>ps_pcs := (ps_pcs s)(i := Finished), ps_buf := ps_buf s @ [d],
        ps_accepted := ps_accepted s @ [d]\<rparr>"
    have "push_step ?s1 ?t"
      using push_step.send [of ?s1 i d] room by simp
    with s1 have "push_step\<^sup>*\<^sup>* s ?t"
      by (meson converse_rtranclp_into_rtranclp r_into_rtranclp)
    with room restore show ?thesis
      by - (rule exI, rule conjI, assumption, auto simp: push_buf_def)
  next
    case empty
    have "push_step ?s2 (s\<lparr>ps_pcs := (ps_pcs s)(i := Finished)\<rparr>)"
      using push_step.nothing_to_drop [of ?s2 i d] empty by simp
    then have "push_step\<^sup>*\<^sup>* s (s\<lparr>ps_pcs := (ps_pcs s)(i := Finished)\<rparr>)"
      using s1 s2 by (meson converse_rtranclp_into_rtranclp r_into_rtranclp)
    with empty restore show ?thesis
      by - (rule exI, rule conjI, assumption, auto simp: push_buf_def)
  next
    case full
    let ?s3 = "s\<lparr>ps_pcs := (ps_pcs s)(i := Dropped d), ps_buf := xs, ps_dropped := Suc (ps_dropped s)\<rparr>"
    have s3: "push_step ?s2 ?s3"
      using push_step.drop_oldest [of ?s2 i d x xs] full by simp
    have s03: "push_step\<^sup>*\<^sup>* s ?s3"
      using s1 s2 s3 by (meson converse_rtranclp_into_rtranclp r_into_rtranclp)
    show ?thesis
    proof (cases "length xs < ps_cap s")
      case True
      let ?t = "?s3\<lparr>ps_pcs := (ps_pcs s)(i := Finished), ps_buf := xs @ [d],
          ps_accepted := ps_accepted s @ [d]\<rparr>"
      have "push_step ?s3 ?t" using push_step.send_again [of ?s3 i d] True by simp
      with s03 have "push_step\<^sup>*\<^sup>* s ?t" by (rule rtranclp.rtrancl_into_rtrancl)
      with full True restore show ?thesis
        by - (rule exI, rule conjI, assumption, auto simp: push_buf_def)
    next
      case False
      let ?t = "?s3\<lparr>ps_pcs := (ps_pcs s)(i := Finished)\<rparr>"
      have "push_step ?s3 ?t" using push_step.give_up [of ?s3 i d] False by simp
      with s03 have "push_step\<^sup>*\<^sup>* s ?t" by (rule rtranclp.rtrancl_into_rtrancl)
      with full False restore show ?thesis
        by - (rule exI, rule conjI, assumption, auto simp: push_buf_def)
    qed
  qed
qed

section \<open>The event bus\<close>

text \<open>
  An event is a topic and its data; the bus pushes its JSON encoding. \<open>marshal\<close> stands for
  \<open>encoding/json\<close>, \<open>None\<close> where it fails, on which \<open>Publish\<close> panics.
\<close>

record 'd event =
  ev_topic :: string
  ev_data :: 'd

definition bus_topic :: "string \<Rightarrow> string" where
  "bus_topic topic =
     (if CHR '':'' \<in> set topic then
        (let parts = split_first CHR '':'' topic
         in if length parts = 2 then parts ! 0 else topic)
      else topic)"

definition bus_publish ::
  "('d event \<Rightarrow> 'm option) \<Rightarrow> string \<Rightarrow> 'd \<Rightarrow> sinks \<Rightarrow> 'm heap \<Rightarrow> 'm heap go" where
  "bus_publish marshal topic data p h =
     (case marshal \<lparr>ev_topic = bus_topic topic, ev_data = data\<rparr> of
        None \<Rightarrow> Panic ''json: marshal''
      | Some enc \<Rightarrow> pool_push enc p h)"

lemma bus_topic_eq: "bus_topic t = takeWhile (\<lambda>c. c \<noteq> CHR '':'') t"
proof (cases "CHR '':'' \<in> set t")
  case True
  then show ?thesis by (simp add: bus_topic_def split_first_def)
next
  case False
  then have "takeWhile (\<lambda>c. c \<noteq> CHR '':'') t = t" by (auto simp: takeWhile_eq_all_conv)
  with False show ?thesis by (simp add: bus_topic_def del: takeWhile_eq_all_conv)
qed

section \<open>Properties\<close>

text \<open>
  Ring-buffer delivery under any interleaving of pushing goroutines and the subscriber: the
  channel never holds more than its capacity, what the subscriber received followed by what is
  buffered is a subsequence of the messages in the order in which they entered the channel (so
  nothing is duplicated or reordered), and the missing ones are exactly those dropped to make
  room.
\<close>

theorem push_delivery:
  assumes "push_reach n s"
  shows "length (ps_buf s) \<le> n
       \<and> subseq (ps_recv s @ ps_buf s) (ps_accepted s)
       \<and> length (ps_accepted s) = length (ps_recv s) + length (ps_buf s) + ps_dropped s"
  using push_reach_inv [OF assms] by (simp add: push_inv_def)

theorem push_delivery_witness:
  "\<exists>s. push_reach 1 s \<and> ps_buf s = [7 :: nat] \<and> length (ps_buf s) \<le> 1"
proof -
  obtain t :: "nat push_sys" where run: "push_step\<^sup>*\<^sup>* (push_init 1) t" and buf: "ps_buf t = [7]"
    using push_buf_run [of "push_init 1 :: nat push_sys" 0 7] by (auto simp: push_init_def push_buf_def)
  from run have "push_reach 1 t"
    by (induction rule: rtranclp_induct) (auto intro: push_reach.intros)
  with push_delivery [OF this] buf show ?thesis by blast
qed

text \<open>
  C28: A channel that nobody drains is a rolling buffer: after any messages pushed one after the
  other it holds the most recent ones, as many as its capacity allows, in the order in which they were pushed; and
  each of these pushes is a run of the concurrent goroutine model.
\<close>

theorem push_rolling_buffer:
  assumes "0 < n" and "length buf \<le> n"
  shows "foldl (\<lambda>b d. push_buf n d b) buf ds = drop (length (buf @ ds) - n) (buf @ (ds :: 'm list))
       \<and> (\<forall>(s :: 'm push_sys) i d. ps_pcs s i = Finished \<longrightarrow>
            (\<exists>t. push_step\<^sup>*\<^sup>* s t \<and> ps_buf t = push_buf (ps_cap s) d (ps_buf s)))"
  using push_run_rolling [OF assms] push_buf_run by meson

theorem push_rolling_buffer_witness:
  "foldl (\<lambda>b d. push_buf 2 d b) [] [1, 2, 3 :: nat] = [2, 3]"
  using push_rolling_buffer [of 2 "[]" "[1, 2, 3 :: nat]", THEN conjunct1] by simp

text \<open>
  On a pool whose channels are open and registered once, \<open>Off\<close> and \<open>Destroy\<close> never panic:
  \<open>Off\<close> removes the first matching sink only, keeps the order of the others and their channels
  open, and closes the removed channel; \<open>Destroy\<close> empties the pool and closes exactly its
  channels.
\<close>

theorem pool_off_destroy:
  assumes "pool_ok (p, h)"
  shows "(\<exists>h'. pool_off c (p, h) = Ret (remove1 c p, h') \<and> pool_ok (remove1 c p, h')
               \<and> (\<forall>k. Some k \<noteq> c \<longrightarrow> h' k = h k)
               \<and> (\<forall>k. c = Some k \<longrightarrow> c \<in> set p \<longrightarrow> ch_closed (h' k)))
       \<and> (\<exists>h'. pool_destroy (p, h) = Ret ([], h')
               \<and> (\<forall>k. ch_closed (h' k) \<longleftrightarrow> ch_closed (h k) \<or> Some k \<in> set p))"
proof
  obtain h' where off: "pool_off c (p, h) = Ret (remove1 c p, h')" "pool_ok (remove1 c p, h')"
      "\<forall>k. Some k \<noteq> c \<longrightarrow> h' k = h k"
    using pool_off_ok [OF assms] by metis
  moreover have "ch_closed (h' k)" if "c = Some k" "c \<in> set p" for k
    using off(1) that assms pool_off_present [of k p h] by (auto simp: pool_ok_def)
  ultimately show "\<exists>h'. pool_off c (p, h) = Ret (remove1 c p, h') \<and> pool_ok (remove1 c p, h')
               \<and> (\<forall>k. Some k \<noteq> c \<longrightarrow> h' k = h k)
               \<and> (\<forall>k. c = Some k \<longrightarrow> c \<in> set p \<longrightarrow> ch_closed (h' k))"
    by blast
next
  show "\<exists>h'. pool_destroy (p, h) = Ret ([], h')
             \<and> (\<forall>k. ch_closed (h' k) \<longleftrightarrow> ch_closed (h k) \<or> Some k \<in> set p)"
    using close_all_ok [of p h] assms by (auto simp: pool_ok_def pool_destroy_def)
qed

definition example_chan :: "nat chan" where
  "example_chan = \<lparr>ch_buf = [], ch_cap = 4, ch_closed = False\<rparr>"

theorem pool_off_destroy_witness:
  "\<exists>h'. pool_off (Some 1) ([Some 0, Some 1, None], \<lambda>_. example_chan) = Ret ([Some 0, None], h')"
proof -
  have "pool_ok ([Some 0, Some 1, None], \<lambda>_. example_chan)"
    by (simp add: pool_ok_def example_chan_def)
  from pool_off_destroy [OF this, of "Some 1"] show ?thesis by auto
qed

end
