(* ===== verification/Ufs_Path.thy ===== *)
theory Ufs_Path
  imports Go_Strings
begin

text \<open>
  The lexical half of the sandbox of \<open>src/internal/ufs\<close>: the path functions copied from Go's
  \<open>os\<close> package (\<open>path_unix.go\<close>) and the resolution of a caller's path against the base
  directory (\<open>NewUnixFS\<close>, \<open>unsafePath\<close> and \<open>unsafeIsPathInsideOfBase\<close> of \<open>fs_unix.go\<close>).
\<close>

section \<open>basename, endsWithDot, splitPath\<close>

text \<open>
  The loops count down an index \<open>i\<close>. The first cuts the trailing slashes, keeping at least one
  byte; the second looks for the last slash before position \<open>i\<close>.
\<close>

fun cut_slashes :: "string \<Rightarrow> nat \<Rightarrow> string \<times> nat" where
  "cut_slashes name 0 = (name, 0)"
| "cut_slashes name (Suc i) =
     (if name ! Suc i = slash then cut_slashes (take (Suc i) name) i else (name, Suc i))"

fun find_slash :: "string \<Rightarrow> nat \<Rightarrow> nat option" where
  "find_slash name 0 = None"
| "find_slash name (Suc i) = (if name ! i = slash then Some i else find_slash name i)"

text \<open>
  \<open>i--\<close> at the start of the second loop: positions below \<open>i\<close> are inspected. On an empty name
  \<open>i\<close> starts at \<open>-1\<close> and neither loop runs.
\<close>

definition basename :: "string \<Rightarrow> string" where
  "basename name =
     (if name = [] then []
      else let (n, i) = cut_slashes name (length name - 1)
           in case find_slash n i of
                Some j \<Rightarrow> drop (j + 1) n
              | None \<Rightarrow> n)"

definition ends_with_dot :: "string \<Rightarrow> bool" where
  "ends_with_dot path =
     (if path = ''.'' then True
      else if 2 \<le> length path \<and> path ! (length path - 1) = CHR ''.''
              \<and> path ! (length path - 2) = slash then True
      else False)"

fun one_leading_slash :: "string \<Rightarrow> string" where
  "one_leading_slash (c # d # s) =
     (if c = slash \<and> d = slash then one_leading_slash (d # s) else c # d # s)"
| "one_leading_slash s = s"

definition split_path :: "string \<Rightarrow> string \<times> string" where
  "split_path path =
     (let p = one_leading_slash path
      in if p = [] then (''.'', [])
         else let (n, i) = cut_slashes p (length p - 1)
              in case find_slash n i of
                   Some j \<Rightarrow> (if j = 0 then take 1 n else take j n, drop (j + 1) n)
                 | None \<Rightarrow> (''.'', n))"

text \<open>What the loops compute, without indices.\<close>

lemma find_slash_Some:
  "find_slash n i = Some j \<Longrightarrow> i \<le> length n \<Longrightarrow>
   j < i \<and> n ! j = slash \<and> (\<forall>k. j < k \<longrightarrow> k < i \<longrightarrow> n ! k \<noteq> slash)"
  by (induction n i rule: find_slash.induct) (auto split: if_splits simp: less_Suc_eq)

lemma find_slash_None:
  "find_slash n i = None \<Longrightarrow> k < i \<Longrightarrow> n ! k \<noteq> slash"
  by (induction n i rule: find_slash.induct) (auto split: if_splits simp: less_Suc_eq)

lemma cut_slashes_spec:
  assumes "length name = Suc i"
  shows "\<exists>k. name = fst (cut_slashes name i) @ replicate k slash"
    and "length (fst (cut_slashes name i)) = Suc (snd (cut_slashes name i))"
    and "0 < snd (cut_slashes name i) \<Longrightarrow>
         fst (cut_slashes name i) ! snd (cut_slashes name i) \<noteq> slash"
  using assms
proof (induction name i rule: cut_slashes.induct)
  case (2 name i)
  {
    case 1
    show ?case
    proof (cases "name ! Suc i = slash")
      case True
      then obtain k where "take (Suc i) name = fst (cut_slashes (take (Suc i) name) i) @ replicate k slash"
        using 2(1) 1 by fastforce
      moreover have "name = take (Suc i) name @ [slash]"
        using True 1 by (metis lessI take_Suc_conv_app_nth take_all_iff order_refl)
      ultimately have "name = fst (cut_slashes (take (Suc i) name) i) @ replicate (Suc k) slash"
        by (metis append.assoc replicate_append_same replicate_Suc)
      with True show ?thesis by (metis cut_slashes.simps(2))
    qed (auto intro: exI [of _ 0])
  next
    case 2
    then show ?case using "2.IH"(2) by auto
  next
    case 3
    then show ?case using "2.IH"(3) by auto
  }
qed auto

text \<open>The last component is never empty and holds no slash, unless the name is all slashes.\<close>

lemma basename_no_slash:
  assumes "\<exists>c \<in> set name. c \<noteq> slash"
  shows "slash \<notin> set (basename name) \<and> basename name \<noteq> []"
proof -
  have ne: "name \<noteq> []" using assms by auto
  define n i where "n = fst (cut_slashes name (length name - 1))"
    and "i = snd (cut_slashes name (length name - 1))"
  have len: "length name = Suc (length name - 1)" using ne by simp
  note spec = cut_slashes_spec [OF len, folded n_def i_def]
  obtain k where name: "name = n @ replicate k slash" using spec(1) by blast
  note ln = spec(2) and lst = spec(3)
  have ni: "n ! i \<noteq> slash"
  proof (cases i)
    case 0
    then obtain c where "n = [c]" using ln by (auto simp: length_Suc_conv)
    moreover have "c \<noteq> slash" using assms name \<open>n = [c]\<close> by auto
    ultimately show ?thesis using 0 by simp
  qed (use lst in auto)
  have base: "basename name = (case find_slash n i of Some j \<Rightarrow> drop (j + 1) n | None \<Rightarrow> n)"
    using ne unfolding n_def i_def basename_def by (simp add: case_prod_beta split: option.split)
  show ?thesis
  proof (cases "find_slash n i")
    case None
    then have "\<forall>k < Suc i. n ! k \<noteq> slash"
      using find_slash_None ni by (auto simp: less_Suc_eq)
    then have "slash \<notin> set n" using ln by (auto simp: in_set_conv_nth)
    with None base ln show ?thesis by auto
  next
    case (Some j)
    then have "j < i" and *: "\<forall>k. j < k \<longrightarrow> k < Suc i \<longrightarrow> n ! k \<noteq> slash"
      using find_slash_Some [OF Some] ln ni by (auto simp: less_Suc_eq)
    then have "slash \<notin> set (drop (j + 1) n)" using ln
      by (auto simp: in_set_conv_nth)
    with Some base \<open>j < i\<close> ln show ?thesis by simp
  qed
qed

section \<open>The sandbox\<close>

record unix_fs =
  fs_base :: string
  fs_use_openat2 :: bool

definition new_unix_fs :: "string \<Rightarrow> bool \<Rightarrow> unix_fs" where
  "new_unix_fs base openat2 =
     \<lparr>fs_base = trim_suffix base ''/'', fs_use_openat2 = openat2\<rparr>"

definition inside_base :: "unix_fs \<Rightarrow> string \<Rightarrow> bool" where
  "inside_base fs path =
     has_prefix (trim_suffix path ''/'' @ ''/'') (fs_base fs @ ''/'')"

datatype path_error = BadPathResolution string

definition unsafe_path :: "unix_fs \<Rightarrow> string \<Rightarrow> path_error + string" where
  "unsafe_path fs path =
     (let r = path_clean (path_join [fs_base fs, trim_prefix path (fs_base fs)])
      in if inside_base fs r then
           (let r' = trim_prefix (trim_prefix r (fs_base fs)) ''/''
            in if r' = [] then Inr ''.'' else Inr r')
         else Inl (BadPathResolution path))"

text \<open>
  A base directory as the panel configures it: absolute, clean and not the root. \<open>abs_path\<close>
  renders a list of components as an absolute path.
\<close>

definition abs_path :: "string list \<Rightarrow> string" where
  "abs_path cs = concat (map (\<lambda>c. slash # c) cs)"

definition good_base :: "unix_fs \<Rightarrow> string list \<Rightarrow> bool" where
  "good_base fs bs \<longleftrightarrow> fs_base fs = abs_path bs \<and> bs \<noteq> [] \<and> list_all proper_comp bs"

text \<open>What a component list means once the base is taken off; the whole point of the sandbox.\<close>

definition safe_rel :: "string \<Rightarrow> bool" where
  "safe_rel r \<longleftrightarrow> r = ''.'' \<or> (r \<noteq> [] \<and> list_all proper_comp (split_char slash r))"

lemma abs_path_simps [simp]:
  "abs_path [] = []" "abs_path (c # cs) = slash # c @ abs_path cs"
  "abs_path (cs @ ds) = abs_path cs @ abs_path ds"
  by (simp_all add: abs_path_def)

lemma join_char_abs_path: "cs \<noteq> [] \<Longrightarrow> slash # join_char slash cs = abs_path cs"
  by (induction slash cs rule: join_char.induct) auto

lemma abs_path_eq_Nil [simp]: "abs_path cs = [] \<longleftrightarrow> cs = []"
  by (cases cs) auto

lemma abs_path_last:
  assumes "cs \<noteq> []" and "list_all proper_comp cs"
  shows "\<not> has_suffix (abs_path cs) ''/''"
proof
  assume "has_suffix (abs_path cs) ''/''"
  then have l: "last (abs_path cs) = slash" by (auto simp: has_suffix_iff)
  obtain ds c where cs: "cs = ds @ [c]" using assms(1) by (metis rev_exhaust)
  with assms(2) have "c \<noteq> []" and "slash \<notin> set c" by (simp_all add: proper_comp_def)
  moreover have "last (abs_path cs) = last c" using cs \<open>c \<noteq> []\<close> by simp
  ultimately show False using l by (metis last_in_set)
qed

lemma prefix_abs_path_iff:
  assumes "list_all proper_comp bs" and "list_all proper_comp cs"
  shows "has_prefix (abs_path cs @ ''/'') (abs_path bs @ ''/'') \<longleftrightarrow> (\<exists>ds. cs = bs @ ds)"
  using assms
proof (induction bs arbitrary: cs)
  case Nil
  then show ?case by (cases cs) (auto simp: has_prefix_def)
next
  case (Cons b bs)
  show ?case
  proof
    assume pre: "has_prefix (abs_path cs @ ''/'') (abs_path (b # bs) @ ''/'')"
    then obtain t where t: "abs_path cs @ ''/'' = slash # b @ abs_path bs @ ''/'' @ t"
      by (auto simp: has_prefix_iff)
    obtain c cs' where cs: "cs = c # cs'" using t Cons.prems(1)
      by (cases cs) (auto simp: proper_comp_def)
    have nb: "slash \<notin> set b" and nc: "slash \<notin> set c"
      using Cons.prems cs by (simp_all add: proper_comp_def)
    have eq: "c @ (abs_path cs' @ ''/'') = b @ (abs_path bs @ ''/'' @ t)"
      using t cs by simp
    obtain u where u: "abs_path cs' @ ''/'' = slash # u" by (cases cs') auto
    obtain v where v: "abs_path bs @ ''/'' @ t = slash # v" by (cases bs) auto
    have "split_char slash (c @ slash # u) = split_char slash (b @ slash # v)"
      using eq u v by simp
    then have "c = b" using nb nc by (simp add: split_append)
    with eq have "has_prefix (abs_path cs' @ ''/'') (abs_path bs @ ''/'')"
      by (auto simp: has_prefix_iff)
    then obtain ds where "cs' = bs @ ds" using Cons cs by auto
    then show "\<exists>ds. cs = (b # bs) @ ds" using cs \<open>c = b\<close> by simp
  next
    assume "\<exists>ds. cs = (b # bs) @ ds"
    then obtain ds where cs: "cs = (b # bs) @ ds" ..
    then show "has_prefix (abs_path cs @ ''/'') (abs_path (b # bs) @ ''/'')"
      by (cases ds) simp_all
  qed
qed

text \<open>The absolute path a caller's path stands for, as a list of components.\<close>

definition resolved :: "unix_fs \<Rightarrow> string \<Rightarrow> string list" where
  "resolved fs path =
     clean_comps True (split_char slash (fs_base fs @ slash # trim_prefix path (fs_base fs)))"

lemma resolved_proper: "list_all proper_comp (resolved fs p)"
  by (simp add: resolved_def clean_comps_proper)

lemma abs_path_split:
  "list_all proper_comp cs \<Longrightarrow> cs \<noteq> [] \<Longrightarrow> split_char slash (abs_path cs) = [] # cs"
  by (auto simp: join_char_abs_path [symmetric] list_all_iff proper_comp_def intro!: split_join)

lemma split_char_snoc_sep: "split_char c (s @ [c]) = split_char c s @ [[]]"
proof (induction s)
  case (Cons x xs)
  then show ?case by (cases "split_char c xs") auto
qed simp

lemma clean_comps_snoc_Nil: "clean_comps r (cs @ [[]]) = clean_comps r cs"
  by (simp add: clean_comps_def clean_step_def)

lemma path_clean_rooted:
  "path_clean (slash # s) =
     (let cs = clean_comps True (split_char slash (slash # s))
      in if cs = [] then ''/'' else abs_path cs)"
  by (simp add: path_clean_def Let_def join_char_abs_path)

lemma path_clean_abs_path:
  assumes "list_all proper_comp cs" and "cs \<noteq> []"
  shows "path_clean (abs_path cs) = abs_path cs"
proof -
  obtain s where s: "abs_path cs = slash # s" using assms(2) by (cases cs) auto
  have "split_char slash (slash # s) = [] # cs"
    using abs_path_split [OF assms] s by simp
  then have "clean_comps True (split_char slash (slash # s)) = cs"
    using assms(1) by (simp only: clean_comps_Nil_skip clean_comps_id)
  with assms(2) s show ?thesis by (simp only: path_clean_rooted Let_def if_False)
qed

lemma path_clean_root [simp]: "path_clean ''/'' = ''/''"
  by (simp add: path_clean_rooted clean_comps_def clean_step_def)

lemma joined_clean:
  assumes "good_base fs bs"
  shows "path_clean (path_join [fs_base fs, trim_prefix p (fs_base fs)]) =
           (if resolved fs p = [] then ''/'' else abs_path (resolved fs p))"
proof -
  define x where "x = trim_prefix p (fs_base fs)"
  have ne: "fs_base fs \<noteq> []" and slashed: "\<exists>t. fs_base fs = slash # t"
    using assms by (cases bs; auto simp: good_base_def)+
  then obtain t where t: "fs_base fs = slash # t" by blast
  have split_x: "clean_comps True (split_char slash (fs_base fs @ [slash])) =
      clean_comps True (split_char slash (fs_base fs))"
    by (simp only: split_char_snoc_sep clean_comps_snoc_Nil)
  have "path_join [fs_base fs, x] =
          (if resolved fs p = [] then ''/'' else abs_path (resolved fs p))"
  proof (cases "x = []")
    case True
    have "path_join [fs_base fs, x] = path_clean (fs_base fs)"
      using ne True by (simp add: path_join_def)
    also have "\<dots> = (if resolved fs p = [] then ''/'' else abs_path (resolved fs p))"
    proof -
      have "trim_prefix p (fs_base fs) = []" using True x_def by simp
      then have "resolved fs p = clean_comps True (split_char slash (fs_base fs))"
        using split_x by (simp only: resolved_def)
      then show ?thesis
        using path_clean_rooted [of t] t by (simp only: Let_def)
    qed
    finally show ?thesis .
  next
    case False
    then have "path_join [fs_base fs, x] = path_clean (fs_base fs @ slash # x)"
      using ne by (simp add: path_join_def)
    moreover have "resolved fs p = clean_comps True (split_char slash (fs_base fs @ slash # x))"
      by (simp only: resolved_def x_def)
    moreover have "fs_base fs @ slash # x = slash # (t @ slash # x)" using t by simp
    ultimately show ?thesis
      using path_clean_rooted [of "t @ slash # x"] by (simp only: Let_def)
  qed
  then show ?thesis
    using path_clean_abs_path [OF resolved_proper, of fs p] by (simp add: x_def)
qed

lemma inside_base_abs_path:
  assumes "good_base fs bs" and "list_all proper_comp cs" and "cs \<noteq> []"
  shows "inside_base fs (abs_path cs) \<longleftrightarrow> (\<exists>ds. cs = bs @ ds)"
  using assms prefix_abs_path_iff [of bs cs]
  by (simp add: inside_base_def good_base_def trim_suffix_id [OF abs_path_last])

lemma inside_base_root: "good_base fs bs \<Longrightarrow> \<not> inside_base fs ''/''"
  by (cases bs) (auto simp: inside_base_def good_base_def proper_comp_def has_suffix_def
      trim_suffix_def has_prefix_def)

text \<open>The code's string manipulation, in terms of components.\<close>

lemma unsafe_path_resolved:
  assumes gb: "good_base fs bs"
  shows "unsafe_path fs p =
     (if take (length bs) (resolved fs p) = bs
      then Inr (if drop (length bs) (resolved fs p) = [] then ''.''
                else join_char slash (drop (length bs) (resolved fs p)))
      else Inl (BadPathResolution p))"
proof (cases "\<exists>ds. resolved fs p = bs @ ds")
  case True
  then obtain ds where ds: "resolved fs p = bs @ ds" ..
  have pr: "list_all proper_comp (bs @ ds)" and bne: "bs \<noteq> []"
    using resolved_proper [of fs p] ds gb by (auto simp: good_base_def)
  have base: "fs_base fs = abs_path bs" using gb by (simp add: good_base_def)
  have ins: "inside_base fs (abs_path (bs @ ds))"
    using inside_base_abs_path [OF gb pr] bne by simp
  have r: "path_clean (path_join [fs_base fs, trim_prefix p (fs_base fs)]) = abs_path (bs @ ds)"
    using joined_clean [OF gb, of p] ds bne by simp
  have trimmed: "trim_prefix (abs_path (bs @ ds)) (fs_base fs) = abs_path ds"
    using base by simp
  have u: "unsafe_path fs p =
      (if trim_prefix (abs_path ds) ''/'' = [] then Inr ''.''
       else Inr (trim_prefix (abs_path ds) ''/''))"
    by (simp only: unsafe_path_def r trimmed ins Let_def if_True)
  show ?thesis
  proof (cases "ds = []")
    case True
    with u ds show ?thesis by (simp add: trim_prefix_def)
  next
    case False
    have "trim_prefix (abs_path ds) ''/'' = join_char slash ds"
      using trim_prefix_append [of "''/''" "join_char slash ds"] False
      by (simp add: join_char_abs_path)
    moreover have "join_char slash ds \<noteq> []"
      using False pr by (cases "(slash, ds)" rule: join_char.cases) (auto simp: proper_comp_def)
    ultimately show ?thesis using u ds False by simp
  qed
next
  case False
  then have nt: "take (length bs) (resolved fs p) \<noteq> bs"
    by (metis append_take_drop_id)
  have "\<not> inside_base fs (path_clean (path_join [fs_base fs, trim_prefix p (fs_base fs)]))"
    using joined_clean [OF gb, of p] inside_base_root [OF gb]
      inside_base_abs_path [OF gb resolved_proper, of fs p] False by auto
  with nt show ?thesis by (simp add: unsafe_path_def Let_def)
qed

section \<open>Splitting a path made of components\<close>

lemma find_slash_eq:
  "j < i \<Longrightarrow> n ! j = slash \<Longrightarrow> (\<And>k. j < k \<Longrightarrow> k < i \<Longrightarrow> n ! k \<noteq> slash) \<Longrightarrow>
   find_slash n i = Some j"
  by (induction n i rule: find_slash.induct) (auto simp: less_Suc_eq)

lemma find_slash_absent: "(\<And>k. k < i \<Longrightarrow> n ! k \<noteq> slash) \<Longrightarrow> find_slash n i = None"
  by (induction n i rule: find_slash.induct) auto

lemma cut_slashes_replicate:
  "n \<noteq> [] \<Longrightarrow> last n \<noteq> slash \<Longrightarrow>
   cut_slashes (n @ replicate k slash) (length n + k - 1) = (n, length n - 1)"
proof (induction k)
  case 0
  then show ?case
    by (cases "length n - 1") (auto simp: last_conv_nth)
next
  case (Suc k)
  have "cut_slashes (n @ replicate (Suc k) slash) (length n + Suc k - 1) =
        cut_slashes (n @ replicate k slash) (length n + k - 1)"
  proof (cases "length n + k - 1")
    case 0
    then have "length n = 1" and "k = 0" using Suc.prems by (cases n; simp)+
    then show ?thesis by (cases n) auto
  next
    case (Suc m)
    have "(n @ replicate (Suc k) slash) ! (length n + k) = slash"
      by (simp add: nth_append del: replicate_Suc)
    moreover have "take (length n + k) (n @ replicate (Suc k) slash) = n @ replicate k slash"
      by (simp add: take_replicate del: replicate_Suc)
    moreover obtain m' where "length n + k = Suc m'" using \<open>n \<noteq> []\<close> by (cases n) auto
    ultimately show ?thesis by simp
  qed
  with Suc show ?case by simp
qed

lemma one_leading_slash_id:
  "s = [] \<or> hd s \<noteq> slash \<or> tl s = [] \<or> hd (tl s) \<noteq> slash \<Longrightarrow> one_leading_slash s = s"
  by (cases s rule: one_leading_slash.cases) auto

lemma find_last_slash:
  assumes "slash \<notin> set base" and "base \<noteq> []"
  shows "find_slash (pre @ slash # base) (length (pre @ slash # base) - 1) = Some (length pre)"
proof (rule find_slash_eq)
  fix k assume "length pre < k" and "k < length (pre @ slash # base) - 1"
  then have "(pre @ slash # base) ! k \<in> set base"
    by (auto simp: nth_append nth_Cons split: nat.splits)
  with assms(1) show "(pre @ slash # base) ! k \<noteq> slash" by auto
qed (use assms in \<open>auto simp: nth_append\<close>)

lemma join_char_snoc: "cs \<noteq> [] \<Longrightarrow> join_char s (cs @ [c]) = join_char s cs @ s # c"
  by (induction s cs rule: join_char.induct) auto

lemma join_char_eq_Nil:
  "list_all proper_comp cs \<Longrightarrow> join_char slash cs = [] \<longleftrightarrow> cs = []"
  by (cases "(slash, cs)" rule: join_char.cases) (auto simp: proper_comp_def)

lemma hd_join_char: "list_all proper_comp cs \<Longrightarrow> cs \<noteq> [] \<Longrightarrow> hd (join_char slash cs) \<noteq> slash"
  by (cases "(slash, cs)" rule: join_char.cases) (auto simp: proper_comp_def hd_append neq_Nil_conv)

lemma split_path_main:
  assumes c: "proper_comp c" and one: "one_leading_slash (pre @ slash # c @ replicate k slash) =
      pre @ slash # c @ replicate k slash"
  shows "split_path (pre @ slash # c @ replicate k slash) = (if pre = [] then ''/'' else pre, c)"
proof -
  define n where "n = pre @ slash # c"
  have cp: "slash \<notin> set c" "c \<noteq> []" using c by (auto simp: proper_comp_def)
  then have "last n \<noteq> slash" and "n \<noteq> []" by (auto simp: n_def) (metis last_in_set)
  then have cut: "cut_slashes (n @ replicate k slash) (length (n @ replicate k slash) - 1) = (n, length n - 1)"
    using cut_slashes_replicate [of n k] by simp
  have find: "find_slash n (length n - 1) = Some (length pre)"
    unfolding n_def by (rule find_last_slash [OF cp])
  have s: "pre @ slash # c @ replicate k slash = n @ replicate k slash" by (simp add: n_def)
  have "split_path (n @ replicate k slash) =
      (if length pre = 0 then take 1 n else take (length pre) n, drop (length pre + 1) n)"
    using one [unfolded s] cut find \<open>n \<noteq> []\<close> unfolding split_path_def Let_def by simp
  then show ?thesis unfolding s by (simp add: n_def)
qed

lemma unsafe_path_safe_rel:
  assumes "good_base fs bs" and "unsafe_path fs p = Inr r"
  shows "safe_rel r"
proof -
  define ds where "ds = drop (length bs) (resolved fs p)"
  have r: "r = (if ds = [] then ''.'' else join_char slash ds)"
    using assms(2) by (simp add: unsafe_path_resolved [OF assms(1)] ds_def split: if_splits)
  have pr: "list_all proper_comp ds"
    using resolved_proper [of fs p] by (simp add: ds_def list_all_iff) (meson in_set_dropD)
  show ?thesis
  proof (cases "ds = []")
    case False
    then have "split_char slash (join_char slash ds) = ds"
      using pr by (intro split_join) (auto simp: list_all_iff proper_comp_def)
    with False r pr show ?thesis by (simp add: safe_rel_def join_char_eq_Nil)
  qed (simp add: r safe_rel_def)
qed

lemma split_path_components:
  assumes "list_all proper_comp (cs @ [c])"
  shows "split_path (join_char slash (cs @ [c]) @ replicate k slash) =
           (if cs = [] then ''.'' else join_char slash cs, c)"
proof (cases "cs = []")
  case True
  have cp: "slash \<notin> set c" "c \<noteq> []" using assms by (auto simp: proper_comp_def)
  then have l: "last c \<noteq> slash" by (metis last_in_set)
  have "one_leading_slash (c @ replicate k slash) = c @ replicate k slash"
  proof (rule one_leading_slash_id)
    have "hd c \<noteq> slash" using cp by (cases c) auto
    then show "c @ replicate k slash = [] \<or> hd (c @ replicate k slash) \<noteq> slash \<or>
        tl (c @ replicate k slash) = [] \<or> hd (tl (c @ replicate k slash)) \<noteq> slash"
      using cp(2) by simp
  qed
  moreover have "find_slash c (length c - 1) = None"
    using cp by (intro find_slash_absent) (metis less_imp_diff_less nth_mem less_diff_conv
        add_lessD1 less_trans diff_less_mono2 order_less_le_trans diff_le_self)
  ultimately show ?thesis
    using True cp cut_slashes_replicate [OF cp(2) l, of k] by (simp add: split_path_def)
next
  case False
  let ?pre = "join_char slash cs"
  have "?pre \<noteq> []" and "hd ?pre \<noteq> slash"
    using assms False by (simp_all add: join_char_eq_Nil hd_join_char)
  then have "one_leading_slash (?pre @ slash # c @ replicate k slash) = ?pre @ slash # c @ replicate k slash"
    by (intro one_leading_slash_id) (simp add: hd_append)
  then show ?thesis
    using split_path_main [of c ?pre k] assms False \<open>?pre \<noteq> []\<close> by (simp add: join_char_snoc)
qed

section \<open>Properties\<close>

text \<open>
  C5: Sandbox safety. Whatever path a caller gives, if the resolution succeeds then the result
  is \<open>.\<close> (the base directory itself) or a relative path whose components all name children:
  none is empty, \<open>.\<close> or \<open>..\<close>. No later \<open>*at\<close> system call on it can leave the base lexically.
\<close>

theorem unsafe_path_safe:
  assumes "good_base fs bs" and "unsafe_path fs p = Inr r"
  shows "safe_rel r"
  using assms by (rule unsafe_path_safe_rel)

definition example_fs :: unix_fs where
  "example_fs = new_unix_fs ''/srv/x/'' True"

lemma example_good_base: "good_base example_fs [''srv'', ''x'']"
  by (simp add: good_base_def example_fs_def new_unix_fs_def trim_suffix_def has_suffix_def
      proper_comp_def)

theorem unsafe_path_safe_witness:
  "unsafe_path example_fs ''/srv/x/a/.././b//c'' = Inr ''b/c'' \<and> safe_rel ''b/c''"
proof -
  have "unsafe_path example_fs ''/srv/x/a/.././b//c'' = Inr ''b/c''" by code_simp
  with unsafe_path_safe [OF example_good_base this] show ?thesis by simp
qed

text \<open>
  The refusals are exact. The resolution fails, with the caller's path in the error, if and
  only if the path, joined to the base and normalised component by component, is not under the
  base; otherwise it returns the components below the base.
\<close>

theorem unsafe_path_exact:
  assumes "good_base fs bs"
  shows "(unsafe_path fs p = Inr r \<longleftrightarrow>
            (\<exists>ds. resolved fs p = bs @ ds \<and> r = (if ds = [] then ''.'' else join_char slash ds)))
       \<and> (unsafe_path fs p = Inl e \<longleftrightarrow>
            e = BadPathResolution p \<and> (\<nexists>ds. resolved fs p = bs @ ds))"
proof (cases "\<exists>ds. resolved fs p = bs @ ds")
  case True
  then obtain ds where ds: "resolved fs p = bs @ ds" ..
  show ?thesis unfolding unsafe_path_resolved [OF assms] ds by auto
next
  case False
  then have "take (length bs) (resolved fs p) \<noteq> bs"
    by (metis append_take_drop_id)
  with False show ?thesis unfolding unsafe_path_resolved [OF assms] by auto
qed

theorem unsafe_path_exact_witness:
  "unsafe_path example_fs ''../../etc/passwd'' = Inl (BadPathResolution ''../../etc/passwd'')"
proof -
  have "resolved example_fs ''../../etc/passwd'' = [''etc'', ''passwd'']" by code_simp
  then show ?thesis
    using unsafe_path_exact [OF example_good_base, of "''../../etc/passwd''"] by simp
qed

text \<open>
  Resolution is idempotent: resolving a path that was already resolved changes nothing, so
  the layers of the filesystem may each resolve it again.
\<close>

theorem unsafe_path_idem:
  assumes gb: "good_base fs bs" and r: "unsafe_path fs p = Inr r"
  shows "unsafe_path fs r = Inr r"
proof -
  define ds where "ds = drop (length bs) (resolved fs p)"
  have req: "r = (if ds = [] then ''.'' else join_char slash ds)"
    using r by (simp add: unsafe_path_resolved [OF gb] ds_def split: if_splits)
  have pd: "list_all proper_comp ds"
    using resolved_proper [of fs p] by (simp add: ds_def list_all_iff) (meson in_set_dropD)
  have pb: "list_all proper_comp bs" and bne: "bs \<noteq> []" and base: "fs_base fs = abs_path bs"
    using gb by (auto simp: good_base_def)
  have "hd r \<noteq> slash" and "r \<noteq> []" using req pd hd_join_char join_char_eq_Nil by auto
  then have "\<not> has_prefix r (fs_base fs)" using base bne by (cases r; cases bs) auto
  then have same: "trim_prefix r (fs_base fs) = r" by (rule trim_prefix_id)
  have sp: "split_char slash r = (if ds = [] then [''.''] else ds)"
    using req pd by (auto simp: list_all_iff proper_comp_def intro!: split_join)
  have split_base: "split_char slash (abs_path cs @ slash # t) = [] # cs @ split_char slash t"
    if "list_all proper_comp cs" "cs \<noteq> []" for cs t
    using that
  proof (induction cs)
    case (Cons c cs)
    then show ?case by (cases cs) (auto simp: proper_comp_def split_append)
  qed simp
  have "resolved fs r = clean_comps True ([] # bs @ split_char slash r)"
    using split_base [OF pb bne] using same by (simp add: resolved_def base)
  also have "\<dots> = bs @ ds"
    using pb pd sp by (simp add: clean_comps_def clean_foldl_id) (auto simp: clean_step_def clean_foldl_id)
  finally have res: "resolved fs r = bs @ ds" .
  show ?thesis unfolding unsafe_path_resolved [OF gb] res by (simp add: req)
qed

theorem unsafe_path_idem_witness:
  "unsafe_path example_fs ''a/../b'' = Inr ''b'' \<and> unsafe_path example_fs ''b'' = Inr ''b''"
proof -
  have "unsafe_path example_fs ''a/../b'' = Inr ''b''" by code_simp
  with unsafe_path_idem [OF example_good_base this] show ?thesis by simp
qed

text \<open>
  \<open>splitPath\<close> on a relative path of components, with any number of trailing slashes, gives
  the path of its parent directory (\<open>.\<close> for a single component) and its last component.
\<close>

theorem split_path_relative:
  assumes "list_all proper_comp (cs @ [c])"
  shows "split_path (join_char slash (cs @ [c]) @ replicate k slash) =
           (if cs = [] then ''.'' else join_char slash cs, c)"
  using assms by (rule split_path_components)

theorem split_path_relative_witness:
  "split_path ''a/bc/d///'' = (''a/bc'', ''d'')"
proof -
  have "list_all proper_comp ([''a'', ''bc''] @ [''d''])" by (simp add: proper_comp_def)
  from split_path_relative [OF this, of 3] show ?thesis by (simp add: numeral_eq_Suc)
qed

end
