(* ===== verification/Ufs_Error.thy ===== *)
theory Ufs_Error
  imports Go_Strings
begin

text \<open>
  The errors of \<open>src/internal/ufs\<close> (\<open>error.go\<close>) and its bits of a file mode (\<open>stat_unix.go\<close>,
  \<open>syscallMode\<close> of \<open>file_posix.go\<close>): a system call fails with an error number, which the layer
  turns into a \<open>PathError\<close> that carries one of its own sentinel errors.
\<close>

unbundle bit_operations_syntax

section \<open>Errors\<close>

datatype errno =
    EINTR | EAGAIN | EEXIST | ENOTEMPTY | EISDIR | ENOTDIR | ENOENT | EPERM | EACCES | EXDEV | ELOOP
  | EINVAL | EOTHER nat

datatype fs_err =
    ErrIsDirectory | ErrNotDirectory | ErrBadPathResolution | ErrNotRegular
  | ErrClosed | ErrInvalid | ErrExist | ErrNotExist | ErrPermission
  | Errno errno
  | PathError string string fs_err
  | LinkError string string string fs_err
  | Annotated string fs_err
  | FsMessage string

text \<open>
  \<open>errors.Is(err, target)\<close> walks the chain of wrapped errors; an error number answers for the
  sentinels of \<open>io/fs\<close> through its own method \<open>Is\<close>.
\<close>

fun errno_is :: "errno \<Rightarrow> fs_err \<Rightarrow> bool" where
  "errno_is n ErrExist = (n = EEXIST \<or> n = ENOTEMPTY)"
| "errno_is n ErrNotExist = (n = ENOENT)"
| "errno_is n ErrPermission = (n = EACCES \<or> n = EPERM)"
| "errno_is n t = (t = Errno n)"

fun errors_is :: "fs_err \<Rightarrow> fs_err \<Rightarrow> bool" where
  "errors_is (PathError op path e) t = (PathError op path e = t \<or> errors_is e t)"
| "errors_is (LinkError op old new e) t = (LinkError op old new e = t \<or> errors_is e t)"
| "errors_is (Annotated msg e) t = (Annotated msg e = t \<or> errors_is e t)"
| "errors_is (Errno n) t = errno_is n t"
| "errors_is e t = (e = t)"

text \<open>\<open>errors.As(err, &pErr)\<close> and \<open>errors.As(err, &errno)\<close>.\<close>

fun as_path_error :: "fs_err \<Rightarrow> (string \<times> string \<times> fs_err) option" where
  "as_path_error (PathError op path e) = Some (op, path, e)"
| "as_path_error (LinkError op old new e) = as_path_error e"
| "as_path_error (Annotated msg e) = as_path_error e"
| "as_path_error e = None"

fun as_errno :: "fs_err \<Rightarrow> errno option" where
  "as_errno (Errno n) = Some n"
| "as_errno (PathError op path e) = as_errno e"
| "as_errno (LinkError op old new e) = as_errno e"
| "as_errno (Annotated msg e) = as_errno e"
| "as_errno e = None"

fun errno_to_path_error :: "errno \<Rightarrow> string \<Rightarrow> string \<Rightarrow> fs_err" where
  "errno_to_path_error EEXIST op path = PathError op path ErrExist"
| "errno_to_path_error EISDIR op path = PathError op path ErrIsDirectory"
| "errno_to_path_error ENOTDIR op path = PathError op path ErrNotDirectory"
| "errno_to_path_error ENOENT op path = PathError op path ErrNotExist"
| "errno_to_path_error EPERM op path = PathError op path ErrPermission"
| "errno_to_path_error EXDEV op path = PathError op path ErrBadPathResolution"
| "errno_to_path_error ELOOP op path = PathError op path ErrBadPathResolution"
| "errno_to_path_error n op path = PathError op path (Errno n)"

definition convert_error_type :: "fs_err option \<Rightarrow> fs_err option" where
  "convert_error_type err =
     (case err of
        None \<Rightarrow> None
      | Some e \<Rightarrow>
          (case as_path_error e of
             Some (op, path, Errno n) \<Rightarrow> Some (errno_to_path_error n op path)
           | Some (op, path, c) \<Rightarrow> Some (PathError op path c)
           | None \<Rightarrow>
               (case as_errno e of
                  Some n \<Rightarrow> Some (PathError ''!(UNKNOWN)'' ''!(UNKNOWN)'' e)
                | None \<Rightarrow> Some e)))"

definition ensure_path_error :: "fs_err option \<Rightarrow> string \<Rightarrow> string \<Rightarrow> fs_err option" where
  "ensure_path_error err op path =
     (case err of
        None \<Rightarrow> None
      | Some e \<Rightarrow>
          (case as_path_error e of
             Some (op1, path1, Errno n) \<Rightarrow> Some (errno_to_path_error n op1 path1)
           | Some (op1, path1, c) \<Rightarrow> Some (PathError op1 path1 c)
           | None \<Rightarrow>
               (case as_errno e of
                  Some n \<Rightarrow> Some (errno_to_path_error n op path)
                | None \<Rightarrow> Some (PathError op path e))))"

text \<open>
  What the callers rely on: the two conversions keep success apart from failure, the result of
  \<open>ensurePathError\<close> is a \<open>PathError\<close>, and the conversion loses nothing that a caller tests for.
\<close>

lemma errno_to_path_error_path: "\<exists>c. errno_to_path_error n op path = PathError op path c"
  by (cases n) auto

lemma ensure_path_error_None [simp]: "ensure_path_error None op path = None"
  by (simp add: ensure_path_error_def)

lemma ensure_path_error_eq_None [simp]: "ensure_path_error err op path = None \<longleftrightarrow> err = None"
  by (auto simp: ensure_path_error_def split: option.splits fs_err.splits)

lemma convert_error_type_eq_None [simp]: "convert_error_type err = None \<longleftrightarrow> err = None"
  by (auto simp: convert_error_type_def split: option.splits fs_err.splits)

lemma ensure_path_error_Some:
  "ensure_path_error (Some e) op path = Some e' \<Longrightarrow> \<exists>op' path' c. e' = PathError op' path' c"
  using errno_to_path_error_path
  by (auto simp: ensure_path_error_def split: option.splits fs_err.splits) (metis+)

lemma ensure_path_error_errno:
  "ensure_path_error (Some (Errno n)) op path = Some (errno_to_path_error n op path)"
  by (simp add: ensure_path_error_def)

lemma errno_to_path_error_not_exist [simp]:
  "errors_is (errno_to_path_error n op path) ErrNotExist \<longleftrightarrow> n = ENOENT"
  by (cases n) auto

section \<open>File modes\<close>

text \<open>
  \<open>io/fs.FileMode\<close>: the type and the special bits at the top of a 32-bit word, the permissions
  in its lowest nine bits.
\<close>

type_synonym file_mode = "32 word"

definition mode_dir :: file_mode where "mode_dir = push_bit 31 1"
definition mode_symlink :: file_mode where "mode_symlink = push_bit 27 1"
definition mode_device :: file_mode where "mode_device = push_bit 26 1"
definition mode_named_pipe :: file_mode where "mode_named_pipe = push_bit 25 1"
definition mode_socket :: file_mode where "mode_socket = push_bit 24 1"
definition mode_setuid :: file_mode where "mode_setuid = push_bit 23 1"
definition mode_setgid :: file_mode where "mode_setgid = push_bit 22 1"
definition mode_char_device :: file_mode where "mode_char_device = push_bit 21 1"
definition mode_sticky :: file_mode where "mode_sticky = push_bit 20 1"
definition mode_irregular :: file_mode where "mode_irregular = push_bit 19 1"

definition mode_type :: file_mode where
  "mode_type = mode_dir OR mode_symlink OR mode_named_pipe OR mode_socket OR mode_device
     OR mode_char_device OR mode_irregular"

definition mode_is_dir :: "file_mode \<Rightarrow> bool" where
  "mode_is_dir m \<longleftrightarrow> m AND mode_dir \<noteq> 0"

definition mode_is_regular :: "file_mode \<Rightarrow> bool" where
  "mode_is_regular m \<longleftrightarrow> m AND mode_type = 0"

text \<open>The kernel's bits: \<open>S_ISUID\<close>, \<open>S_ISGID\<close>, \<open>S_ISVTX\<close> and the types under \<open>S_IFMT\<close>.\<close>

definition s_isuid :: file_mode where "s_isuid = 0x800"
definition s_isgid :: file_mode where "s_isgid = 0x400"
definition s_isvtx :: file_mode where "s_isvtx = 0x200"
definition s_ifmt :: file_mode where "s_ifmt = 0xF000"
definition s_ifdir :: file_mode where "s_ifdir = 0x4000"
definition s_ifreg :: file_mode where "s_ifreg = 0x8000"
definition s_iflnk :: file_mode where "s_iflnk = 0xA000"

definition syscall_mode :: "file_mode \<Rightarrow> file_mode" where
  "syscall_mode i =
     (let o0 = i AND 0x1FF;
          o1 = (if i AND mode_setuid \<noteq> 0 then o0 OR s_isuid else o0);
          o2 = (if i AND mode_setgid \<noteq> 0 then o1 OR s_isgid else o1);
          o3 = (if i AND mode_sticky \<noteq> 0 then o2 OR s_isvtx else o2)
      in o3)"

definition go_mode :: "file_mode \<Rightarrow> file_mode" where
  "go_mode sys =
     (let m0 = sys AND 0x1FF;
          t = sys AND s_ifmt;
          m1 = (if t = 0x6000 then m0 OR mode_device
                else if t = 0x2000 then m0 OR mode_device OR mode_char_device
                else if t = s_ifdir then m0 OR mode_dir
                else if t = 0x1000 then m0 OR mode_named_pipe
                else if t = s_iflnk then m0 OR mode_symlink
                else if t = s_ifreg then m0
                else if t = 0xC000 then m0 OR mode_socket
                else m0);
          m2 = (if sys AND s_isgid \<noteq> 0 then m1 OR mode_setgid else m1);
          m3 = (if sys AND s_isuid \<noteq> 0 then m2 OR mode_setuid else m2);
          m4 = (if sys AND s_isvtx \<noteq> 0 then m3 OR mode_sticky else m3)
      in m4)"

lemmas mode_defs = mode_dir_def mode_symlink_def mode_device_def mode_named_pipe_def mode_socket_def
  mode_setuid_def mode_setgid_def mode_char_device_def mode_sticky_def mode_irregular_def
  mode_type_def mode_is_dir_def mode_is_regular_def s_isuid_def s_isgid_def s_isvtx_def s_ifmt_def
  s_ifdir_def s_ifreg_def s_iflnk_def

end
