(* ===== verification/Unix_Fs.thy ===== *)
theory Unix_Fs
  imports Ufs_Path Ufs_Error
begin

text \<open>
  The sandboxed filesystem of \<open>src/internal/ufs/fs_unix.go\<close> with \<open>mkdir_unix.go\<close>: every operation
  of \<open>UnixFS\<close> as the sequence of system calls it makes. The kernel is the parameter \<open>'k os\<close>, a
  record of the system calls as functions of a kernel state \<open>'k\<close>; what a system call answers is up
  to it, so a concurrent change of the tree is an answer like any other. The world \<open>fsw\<close> keeps the
  kernel's state and the calls made so far with their answers.
\<close>

section \<open>System calls\<close>

datatype oflag =
    O_WRONLY | O_RDWR | O_CREATE | O_TRUNC | O_APPEND | O_EXCL | O_DIRECTORY | O_NOFOLLOW
  | O_CLOEXEC | O_LARGEFILE

datatype at_call =
    Fchmodat int string file_mode
  | Fchownat int string int int bool
  | UtimesNanoAt int string "time option" "time option"
  | Mkdirat int string file_mode
  | Unlinkat int string bool
  | Renameat int string int string
  | Symlinkat string int string

record sys_stat =
  st_size :: int
  st_mode :: file_mode
  st_nlink :: nat
  st_ino :: nat

datatype dtype = DT_REG | DT_DIR | DT_LNK | DT_CHR | DT_BLK | DT_FIFO | DT_SOCK | DT_OTHER

record sys_dirent =
  sd_ino :: nat
  sd_name :: string
  sd_type :: dtype

text \<open>
  \<open>os_eval_symlinks\<close> is \<open>filepath.EvalSymlinks\<close>, \<open>os_fstat\<close>, \<open>os_readdirnames\<close>, \<open>os_read\<close>,
  \<open>os_write\<close> and \<open>os_seek\<close> (back to the start) are the methods of \<open>os.File\<close> on a descriptor (\<open>os_read\<close> gives all that is left to read,
  and the error that ended it, if it was not the end of the file). \<open>os_rounds\<close> says for how many rounds a loop of the code is followed:
  the model of a loop that is still going after that many rounds stops with no result, in the
  world it has reached.
\<close>

record 'k os =
  os_openat :: "int \<Rightarrow> string \<Rightarrow> oflag set \<Rightarrow> file_mode \<Rightarrow> 'k \<Rightarrow> (errno + int) \<times> 'k"
  os_openat2 :: "int \<Rightarrow> string \<Rightarrow> oflag set \<Rightarrow> file_mode \<Rightarrow> 'k \<Rightarrow> (errno + int) \<times> 'k"
  os_eval_symlinks :: "string \<Rightarrow> 'k \<Rightarrow> (fs_err + string) \<times> 'k"
  os_close :: "int \<Rightarrow> 'k \<Rightarrow> errno option \<times> 'k"
  os_at :: "at_call \<Rightarrow> 'k \<Rightarrow> (errno + unit) \<times> 'k"
  os_fstatat :: "int \<Rightarrow> string \<Rightarrow> bool \<Rightarrow> 'k \<Rightarrow> (errno + sys_stat) \<times> 'k"
  os_fstat :: "int \<Rightarrow> 'k \<Rightarrow> (fs_err + sys_stat) \<times> 'k"
  os_getdents :: "int \<Rightarrow> 'k \<Rightarrow> (errno + sys_dirent list) \<times> 'k"
  os_readdirnames :: "int \<Rightarrow> nat \<Rightarrow> 'k \<Rightarrow> (string list \<times> fs_err option) \<times> 'k"
  os_read :: "int \<Rightarrow> 'k \<Rightarrow> (string \<times> fs_err option) \<times> 'k"
  os_write :: "int \<Rightarrow> string \<Rightarrow> 'k \<Rightarrow> (nat \<times> fs_err option) \<times> 'k"
  os_seek :: "int \<Rightarrow> 'k \<Rightarrow> fs_err option \<times> 'k"
  os_rounds :: nat

datatype call =
    COpenat int string "oflag set" file_mode "errno + int"
  | COpenat2 int string "oflag set" file_mode "errno + int"
  | CEval int "fs_err + string"
  | CClose int
  | CAt at_call "errno + unit"
  | CStat int string bool "errno + sys_stat"
  | CFstat int
  | CReaddir int
  | CRead int
  | CWrite int string
  | CSeek int

record 'k fsw =
  kst :: 'k
  calls :: "call list"

text \<open>An operation in progress: its result once it has one, and the world.\<close>

type_synonym ('k, 'm, 'a) fio = "('k, 'm) fsw_scheme \<Rightarrow> 'a option \<times> ('k, 'm) fsw_scheme"

definition uret :: "'a \<Rightarrow> ('k, 'm, 'a) fio" where
  "uret x = (\<lambda>w. (Some x, w))"

definition ustuck :: "('k, 'm, 'a) fio" where
  "ustuck = (\<lambda>w. (None, w))"

definition ubind :: "('k, 'm, 'a) fio \<Rightarrow> ('a \<Rightarrow> ('k, 'm, 'b) fio) \<Rightarrow> ('k, 'm, 'b) fio" where
  "ubind m f = (\<lambda>w. case m w of (Some x, w1) \<Rightarrow> f x w1 | (None, w1) \<Rightarrow> (None, w1))"

definition sys :: "('k \<Rightarrow> 'a \<times> 'k) \<Rightarrow> ('a \<Rightarrow> call) \<Rightarrow> ('k, 'm, 'a) fio" where
  "sys f ev = (\<lambda>w. (Some (fst (f (kst w))),
                    w\<lparr>kst := snd (f (kst w)), calls := calls w @ [ev (fst (f (kst w)))]\<rparr>))"

text \<open>\<open>ignoringEINTR\<close>.\<close>

fun ignoring_eintr :: "nat \<Rightarrow> ('k, 'm, errno + 'a) fio \<Rightarrow> ('k, 'm, errno + 'a) fio" where
  "ignoring_eintr 0 fn = ustuck"
| "ignoring_eintr (Suc n) fn =
     ubind fn (\<lambda>r. if r = Inl EINTR then ignoring_eintr n fn else uret r)"

definition sys_at :: "'k os \<Rightarrow> at_call \<Rightarrow> ('k, 'm, errno + unit) fio" where
  "sys_at os c = sys (os_at os c) (CAt c)"

definition sys_close :: "'k os \<Rightarrow> int \<Rightarrow> ('k, 'm, errno option) fio" where
  "sys_close os fd = sys (os_close os fd) (\<lambda>_. CClose fd)"

definition err_of :: "errno + 'a \<Rightarrow> fs_err option" where
  "err_of r = (case r of Inl n \<Rightarrow> Some (Errno n) | Inr _ \<Rightarrow> None)"

section \<open>Opening\<close>

definition open_answer :: "string \<Rightarrow> string \<Rightarrow> errno + int \<Rightarrow> fs_err + int" where
  "open_answer op name r =
     (case r of
        Inr fd \<Rightarrow> Inr fd
      | Inl EINTR \<Rightarrow> Inl (Errno EINTR)
      | Inl EAGAIN \<Rightarrow> Inl (Errno EAGAIN)
      | Inl n \<Rightarrow> Inl (errno_to_path_error n op name))"

definition u_openat :: "'k os \<Rightarrow> int \<Rightarrow> string \<Rightarrow> oflag set \<Rightarrow> file_mode \<Rightarrow> ('k, 'm, fs_err + int) fio" where
  "u_openat os dirfd name flag mode =
     ubind (sys (os_openat os dirfd name (insert O_CLOEXEC flag) mode)
              (COpenat dirfd name (insert O_CLOEXEC flag) mode))
       (\<lambda>r. uret (open_answer ''openat'' name r))"

definition u_openat2 :: "'k os \<Rightarrow> int \<Rightarrow> string \<Rightarrow> oflag set \<Rightarrow> file_mode \<Rightarrow> ('k, 'm, fs_err + int) fio" where
  "u_openat2 os dirfd name flag mode =
     (let flag1 = insert O_LARGEFILE (insert O_CLOEXEC flag)
      in ubind (sys (os_openat2 os dirfd name flag1 mode) (COpenat2 dirfd name flag1 mode))
           (\<lambda>r. uret (open_answer ''openat2'' name r)))"

fun open_loop :: "unix_fs \<Rightarrow> 'k os \<Rightarrow> nat \<Rightarrow> int \<Rightarrow> string \<Rightarrow> oflag set \<Rightarrow> file_mode
    \<Rightarrow> ('k, 'm, fs_err + int) fio" where
  "open_loop fs os 0 dirfd name flag mode = ustuck"
| "open_loop fs os (Suc n) dirfd name flag mode =
     ubind (if fs_use_openat2 fs then u_openat2 os dirfd name flag (syscall_mode mode)
            else u_openat os dirfd name flag (syscall_mode mode))
       (\<lambda>r. if r = Inl (Errno EINTR) then open_loop fs os n dirfd name flag mode else uret r)"

text \<open>
  The check after an \<open>openat\<close>: where \<open>/proc/self/fd\<close> says the descriptor is. When that path has
  gone, the part of it that is missing is checked instead, and the error returned.
\<close>

definition check_final :: "unix_fs \<Rightarrow> int \<Rightarrow> string \<Rightarrow> fs_err + string \<Rightarrow> int \<times> fs_err option" where
  "check_final fs fd name r =
     (let inside = (\<lambda>final_path err.
            if \<not> inside_base fs final_path
            then (fd, Some (PathError (if fs_use_openat2 fs then ''openat2'' else ''openat'') name
                              ErrBadPathResolution))
            else (fd, err))
      in case r of
           Inr final_path \<Rightarrow> inside final_path None
         | Inl e \<Rightarrow>
             if \<not> errors_is e ErrNotExist
             then (fd, Some (Annotated ''failed to evaluate symlink'' (the (convert_error_type (Some e)))))
             else (case as_path_error e of
                     None \<Rightarrow> (fd, Some (Annotated ''failed to evaluate symlink''
                                          (the (convert_error_type (Some e)))))
                   | Some (op, path, c) \<Rightarrow> inside path (convert_error_type (Some e))))"

definition openat :: "unix_fs \<Rightarrow> 'k os \<Rightarrow> int \<Rightarrow> string \<Rightarrow> oflag set \<Rightarrow> file_mode
    \<Rightarrow> ('k, 'm, int \<times> fs_err option) fio" where
  "openat fs os dirfd name flag mode =
     ubind (open_loop fs os (os_rounds os) dirfd name (insert O_NOFOLLOW flag) mode)
       (\<lambda>r. case r of
              Inl e \<Rightarrow> uret (0, Some e)
            | Inr fd \<Rightarrow>
                if fs_use_openat2 fs then uret (fd, None)
                else ubind (sys (os_eval_symlinks os (path_join [''/proc/self/fd/'', itoa fd])) (CEval fd))
                       (\<lambda>p. uret (check_final fs fd name p)))"

section \<open>Resolving a path to a directory descriptor\<close>

definition close_all :: "'k os \<Rightarrow> int list \<Rightarrow> ('k, 'm, unit) fio" where
  "close_all os fds = foldr (\<lambda>fd k. ubind (sys_close os fd) (\<lambda>_. k)) fds (uret ())"

text \<open>The function \<open>closeFd\<close> is the list of the descriptors it closes.\<close>

type_synonym safe_result = "int \<times> string \<times> int list \<times> fs_err option"

definition safe_path :: "unix_fs \<Rightarrow> 'k os \<Rightarrow> string \<Rightarrow> ('k, 'm, safe_result) fio" where
  "safe_path fs os path =
     (case unsafe_path fs path of
        Inl (BadPathResolution p) \<Rightarrow> uret (0, [], [], Some (PathError ''safePath'' p ErrBadPathResolution))
      | Inr name \<Rightarrow>
          ubind (u_openat os 0x1000 (fs_base fs) {O_DIRECTORY} 0)
            (\<lambda>r. case r of
                   Inl e \<Rightarrow> uret (0, [], [], Some e)
                 | Inr fs_dirfd \<Rightarrow>
                     (let (dir, file) = path_split name
                      in if dir = [] then uret (fs_dirfd, file, [fs_dirfd], None)
                         else ubind (openat fs os fs_dirfd (trim_suffix dir ''/'') {O_DIRECTORY} 0)
                                (\<lambda>(dirfd, err).
                                   uret (dirfd, file,
                                         if err \<noteq> None then [fs_dirfd] else [dirfd, fs_dirfd], err)))))"

text \<open>
  How nearly every operation starts: resolve, \<open>defer closeFd()\<close>, return the error or go on in the
  directory.
\<close>

definition with_safe_path :: "unix_fs \<Rightarrow> 'k os \<Rightarrow> string \<Rightarrow> (fs_err \<Rightarrow> 'a)
    \<Rightarrow> (int \<Rightarrow> string \<Rightarrow> ('k, 'm, 'a) fio) \<Rightarrow> ('k, 'm, 'a) fio" where
  "with_safe_path fs os path fail body =
     ubind (safe_path fs os path)
       (\<lambda>(dirfd, name, close_fd, err).
          ubind (case err of Some e \<Rightarrow> uret (fail e) | None \<Rightarrow> body dirfd name)
            (\<lambda>r. ubind (close_all os close_fd) (\<lambda>_. uret r)))"

section \<open>Attributes\<close>

definition fchmodat :: "'k os \<Rightarrow> string \<Rightarrow> int \<Rightarrow> string \<Rightarrow> file_mode \<Rightarrow> ('k, 'm, fs_err option) fio" where
  "fchmodat os op dirfd name mode =
     ubind (sys_at os (Fchmodat dirfd name mode)) (\<lambda>r. uret (ensure_path_error (err_of r) op name))"

definition chmod :: "unix_fs \<Rightarrow> 'k os \<Rightarrow> string \<Rightarrow> file_mode \<Rightarrow> ('k, 'm, fs_err option) fio" where
  "chmod fs os name mode =
     with_safe_path fs os name Some (\<lambda>dirfd name. fchmodat os ''chmod'' dirfd name mode)"

definition fchown :: "unix_fs \<Rightarrow> 'k os \<Rightarrow> string \<Rightarrow> int \<Rightarrow> int \<Rightarrow> bool \<Rightarrow> ('k, 'm, fs_err option) fio" where
  "fchown fs os name uid gid nofollow =
     with_safe_path fs os name Some
       (\<lambda>dirfd name. ubind (sys_at os (Fchownat dirfd name uid gid nofollow)) (\<lambda>r. uret (err_of r)))"

definition chown :: "unix_fs \<Rightarrow> 'k os \<Rightarrow> string \<Rightarrow> int \<Rightarrow> int \<Rightarrow> ('k, 'm, fs_err option) fio" where
  "chown fs os name uid gid =
     ubind (fchown fs os name uid gid False) (\<lambda>e. uret (ensure_path_error e ''chown'' name))"

definition lchown :: "unix_fs \<Rightarrow> 'k os \<Rightarrow> string \<Rightarrow> int \<Rightarrow> int \<Rightarrow> ('k, 'm, fs_err option) fio" where
  "lchown fs os name uid gid =
     ubind (fchown fs os name uid gid True) (\<lambda>e. uret (ensure_path_error e ''lchown'' name))"

definition lchownat :: "'k os \<Rightarrow> int \<Rightarrow> string \<Rightarrow> int \<Rightarrow> int \<Rightarrow> ('k, 'm, fs_err option) fio" where
  "lchownat os dirfd name uid gid =
     ubind (sys_at os (Fchownat dirfd name uid gid True))
       (\<lambda>r. uret (ensure_path_error (err_of r) ''lchownat'' name))"

text \<open>A zero \<open>time.Time\<close> is \<open>None\<close>: the time is left as it is (\<open>UTIME_OMIT\<close>).\<close>

definition chtimesat :: "'k os \<Rightarrow> int \<Rightarrow> string \<Rightarrow> time option \<Rightarrow> time option \<Rightarrow> ('k, 'm, fs_err option) fio" where
  "chtimesat os dirfd name atime mtime =
     ubind (sys_at os (UtimesNanoAt dirfd name atime mtime))
       (\<lambda>r. uret (ensure_path_error (err_of r) ''chtimes'' name))"

definition chtimes :: "unix_fs \<Rightarrow> 'k os \<Rightarrow> string \<Rightarrow> time option \<Rightarrow> time option \<Rightarrow> ('k, 'm, fs_err option) fio" where
  "chtimes fs os name atime mtime =
     with_safe_path fs os name Some (\<lambda>dirfd name. chtimesat os dirfd name atime mtime)"

section \<open>Stat\<close>

record file_info =
  fi_name :: string
  fi_size :: int
  fi_mode :: file_mode
  fi_sys :: sys_stat

definition fill_file_stat :: "sys_stat \<Rightarrow> string \<Rightarrow> file_info" where
  "fill_file_stat s name =
     \<lparr>fi_name = basename name, fi_size = st_size s, fi_mode = go_mode (st_mode s), fi_sys = s\<rparr>"

definition fi_is_dir :: "file_info \<Rightarrow> bool" where "fi_is_dir i = mode_is_dir (fi_mode i)"
definition fi_is_regular :: "file_info \<Rightarrow> bool" where "fi_is_regular i = mode_is_regular (fi_mode i)"
definition fi_is_symlink :: "file_info \<Rightarrow> bool" where
  "fi_is_symlink i \<longleftrightarrow> fi_mode i AND mode_symlink \<noteq> 0"

definition u_fstatat :: "'k os \<Rightarrow> string \<Rightarrow> int \<Rightarrow> string \<Rightarrow> bool \<Rightarrow> ('k, 'm, fs_err + file_info) fio" where
  "u_fstatat os op dirfd name nofollow =
     ubind (ignoring_eintr (os_rounds os)
              (sys (os_fstatat os dirfd name nofollow) (CStat dirfd name nofollow)))
       (\<lambda>r. uret (case r of
                    Inl n \<Rightarrow> Inl (errno_to_path_error n op name)
                  | Inr s \<Rightarrow> Inr (fill_file_stat s name)))"

definition u_fstat :: "unix_fs \<Rightarrow> 'k os \<Rightarrow> string \<Rightarrow> string \<Rightarrow> bool \<Rightarrow> ('k, 'm, fs_err + file_info) fio" where
  "u_fstat fs os op name nofollow =
     with_safe_path fs os name Inl (\<lambda>dirfd name. u_fstatat os op dirfd name nofollow)"

definition stat :: "unix_fs \<Rightarrow> 'k os \<Rightarrow> string \<Rightarrow> ('k, 'm, fs_err + file_info) fio" where
  "stat fs os name = u_fstat fs os ''stat'' name False"

definition lstat :: "unix_fs \<Rightarrow> 'k os \<Rightarrow> string \<Rightarrow> ('k, 'm, fs_err + file_info) fio" where
  "lstat fs os name = u_fstat fs os ''lstat'' name True"

definition lstatat :: "'k os \<Rightarrow> int \<Rightarrow> string \<Rightarrow> ('k, 'm, fs_err + file_info) fio" where
  "lstatat os dirfd name = u_fstatat os ''lstatat'' dirfd name True"

section \<open>Directories\<close>

definition mkdirat :: "'k os \<Rightarrow> string \<Rightarrow> int \<Rightarrow> string \<Rightarrow> file_mode \<Rightarrow> ('k, 'm, fs_err option) fio" where
  "mkdirat os op dirfd name mode =
     ubind (sys_at os (Mkdirat dirfd name mode)) (\<lambda>r. uret (ensure_path_error (err_of r) op name))"

definition mkdir :: "unix_fs \<Rightarrow> 'k os \<Rightarrow> string \<Rightarrow> file_mode \<Rightarrow> ('k, 'm, fs_err option) fio" where
  "mkdir fs os name mode =
     with_safe_path fs os name Some (\<lambda>dirfd name. mkdirat os ''mkdir'' dirfd name mode)"

text \<open>The two loops of \<open>mkdirAll\<close>, over an index that counts down.\<close>

fun skip_separators :: "string \<Rightarrow> nat \<Rightarrow> nat" where
  "skip_separators name 0 = 0"
| "skip_separators name (Suc i) = (if name ! i = slash then skip_separators name i else Suc i)"

fun scan_element :: "string \<Rightarrow> nat \<Rightarrow> nat" where
  "scan_element name 0 = 0"
| "scan_element name (Suc j) = (if name ! j \<noteq> slash then scan_element name j else Suc j)"

lemma skip_separators_le: "skip_separators name i \<le> i"
  by (induction name i rule: skip_separators.induct) auto

lemma scan_element_le: "scan_element name j \<le> j"
  by (induction name j rule: scan_element.induct) auto

definition parent_end :: "string \<Rightarrow> nat" where
  "parent_end name = scan_element name (skip_separators name (length name))"

lemma parent_end_le: "parent_end name \<le> length name"
  unfolding parent_end_def by (rule order_trans [OF scan_element_le skip_separators_le])

text \<open>
  The fast path decides when \<open>name\<close> exists (through a symlink, by its target); otherwise the parent
  is made first. A failing \<open>Mkdir\<close> is forgiven when the directory is there after all.
\<close>

definition mkdir_exists :: "unix_fs \<Rightarrow> 'k os \<Rightarrow> string \<Rightarrow> ('k, 'm, fs_err option option) fio" where
  "mkdir_exists fs os name =
     ubind (lstat fs os name)
       (\<lambda>r. case r of
              Inl e \<Rightarrow> uret None
            | Inr dir \<Rightarrow>
                ubind (if fi_is_symlink dir then stat fs os name else uret (Inr dir))
                  (\<lambda>r. uret (case r of
                         Inl e \<Rightarrow> Some (Some e)
                       | Inr d \<Rightarrow> if fi_is_dir d then Some None
                                  else Some (Some (PathError ''mkdir'' name ErrNotDirectory)))))"

definition mkdir_last :: "unix_fs \<Rightarrow> 'k os \<Rightarrow> string \<Rightarrow> file_mode \<Rightarrow> ('k, 'm, fs_err option) fio" where
  "mkdir_last fs os name mode =
     ubind (mkdir fs os name mode)
       (\<lambda>e. case e of
              None \<Rightarrow> uret None
            | Some err \<Rightarrow>
                ubind (lstat fs os name)
                  (\<lambda>r. case r of
                         Inr dir \<Rightarrow> if fi_is_dir dir then uret None else uret (Some err)
                       | Inl _ \<Rightarrow> uret (Some err)))"

function mkdir_all_rec :: "unix_fs \<Rightarrow> 'k os \<Rightarrow> file_mode \<Rightarrow> string \<Rightarrow> ('k, 'm, fs_err option) fio" where
  "mkdir_all_rec fs os mode name =
     ubind (mkdir_exists fs os name)
       (\<lambda>r. case r of
              Some res \<Rightarrow> uret res
            | None \<Rightarrow>
                ubind (if 1 < parent_end name
                       then mkdir_all_rec fs os mode (take (parent_end name - 1) name)
                       else uret None)
                  (\<lambda>e. case e of
                         Some err \<Rightarrow> uret (Some err)
                       | None \<Rightarrow> mkdir_last fs os name mode))"
  by auto
termination
  by (relation "measure (\<lambda>(fs, os, mode, name). length name)")
     (use parent_end_le in \<open>auto simp: less_eq_Suc_le dest: order.strict_trans2\<close>)

declare mkdir_all_rec.simps [simp del]

definition resolving :: "unix_fs \<Rightarrow> string \<Rightarrow> (string \<Rightarrow> ('k, 'm, fs_err option) fio) \<Rightarrow> ('k, 'm, fs_err option) fio" where
  "resolving fs name body =
     (case unsafe_path fs name of
        Inl (BadPathResolution p) \<Rightarrow> uret (Some (PathError ''safePath'' p ErrBadPathResolution))
      | Inr name1 \<Rightarrow> body name1)"

definition mkdir_all :: "unix_fs \<Rightarrow> 'k os \<Rightarrow> string \<Rightarrow> file_mode \<Rightarrow> ('k, 'm, fs_err option) fio" where
  "mkdir_all fs os name mode = resolving fs name (mkdir_all_rec fs os mode)"

section \<open>Opening files\<close>

definition close_fd :: "'k os \<Rightarrow> int \<Rightarrow> ('k, 'm, unit) fio" where
  "close_fd os fd = ubind (sys_close os fd) (\<lambda>_. uret ())"

text \<open>
  \<open>openFile\<close> hands the descriptor to an \<open>os.File\<close>; a file is modelled by its descriptor. With an
  error the caller gets no file, whatever descriptor came with the error.
\<close>

definition file_of :: "int \<times> fs_err option \<Rightarrow> fs_err + int" where
  "file_of r = (case r of (fd, None) \<Rightarrow> Inr fd | (fd, Some e) \<Rightarrow> Inl e)"

definition open_fileat :: "unix_fs \<Rightarrow> 'k os \<Rightarrow> int \<Rightarrow> string \<Rightarrow> oflag set \<Rightarrow> file_mode
    \<Rightarrow> ('k, 'm, fs_err + int) fio" where
  "open_fileat fs os dirfd name flag mode =
     ubind (openat fs os dirfd name flag mode) (\<lambda>r. uret (file_of r))"

definition open_file :: "unix_fs \<Rightarrow> 'k os \<Rightarrow> string \<Rightarrow> oflag set \<Rightarrow> file_mode \<Rightarrow> ('k, 'm, fs_err + int) fio" where
  "open_file fs os name flag mode =
     with_safe_path fs os name Inl (\<lambda>dirfd name. open_fileat fs os dirfd name flag mode)"

definition u_open :: "unix_fs \<Rightarrow> 'k os \<Rightarrow> string \<Rightarrow> ('k, 'm, fs_err + int) fio" where
  "u_open fs os name = open_file fs os name {} 0"

definition create :: "unix_fs \<Rightarrow> 'k os \<Rightarrow> string \<Rightarrow> ('k, 'm, fs_err + int) fio" where
  "create fs os name = open_file fs os name {O_CREATE, O_WRONLY, O_TRUNC} 0x1A4"

text \<open>
  \<open>TouchPath\<close>: a resolution that fails because a directory is missing makes the directory that the
  error names, closes what the first resolution left open and resolves again.
\<close>

definition touch_path :: "unix_fs \<Rightarrow> 'k os \<Rightarrow> string \<Rightarrow> ('k, 'm, safe_result \<times> bool) fio" where
  "touch_path fs os path =
     ubind (safe_path fs os path)
       (\<lambda>(dirfd, name, close_fds, err).
          case err of
            None \<Rightarrow> uret ((dirfd, name, close_fds, None), True)
          | Some e \<Rightarrow>
              if \<not> errors_is e ErrNotExist then uret ((dirfd, name, close_fds, Some e), False)
              else (case as_path_error e of
                      None \<Rightarrow> uret ((dirfd, name, close_fds, Some e), False)
                    | Some (op, missing, c) \<Rightarrow>
                        ubind (mkdir_all fs os missing 0x1ED)
                          (\<lambda>e2. case e2 of
                                  Some e3 \<Rightarrow> uret ((dirfd, name, close_fds, Some e3), False)
                                | None \<Rightarrow>
                                    ubind (close_all os close_fds)
                                      (\<lambda>_. ubind (safe_path fs os path) (\<lambda>r. uret (r, False))))))"

definition touch :: "unix_fs \<Rightarrow> 'k os \<Rightarrow> string \<Rightarrow> oflag set \<Rightarrow> file_mode \<Rightarrow> ('k, 'm, fs_err + int) fio" where
  "touch fs os path flag mode =
     ubind (touch_path fs os path)
       (\<lambda>((dirfd, name, close_fds, err), existed).
          ubind (case err of
                   Some e \<Rightarrow> uret (Inl e)
                 | None \<Rightarrow> open_fileat fs os dirfd name (insert O_CREATE flag) mode)
            (\<lambda>r. ubind (close_all os close_fds) (\<lambda>_. uret r)))"

section \<open>Removing, renaming, linking\<close>

definition unlinkat :: "'k os \<Rightarrow> int \<Rightarrow> string \<Rightarrow> bool \<Rightarrow> ('k, 'm, errno + unit) fio" where
  "unlinkat os dirfd name removedir =
     ignoring_eintr (os_rounds os) (sys_at os (Unlinkat dirfd name removedir))"

text \<open>
  \<open>RemoveStat\<close> returns the file information together with the error of the removal; its callers
  look at the information only when there is no error.
\<close>

definition remove_stat :: "unix_fs \<Rightarrow> 'k os \<Rightarrow> string \<Rightarrow> ('k, 'm, fs_err + file_info) fio" where
  "remove_stat fs os name =
     with_safe_path fs os name Inl
       (\<lambda>dirfd name.
          ubind (lstatat os dirfd name)
            (\<lambda>r. case r of
                   Inl e \<Rightarrow> uret (Inl e)
                 | Inr s \<Rightarrow>
                     ubind (unlinkat os dirfd name (fi_is_dir s))
                       (\<lambda>u. uret (case ensure_path_error (err_of u) ''rename'' name of
                                    Some e \<Rightarrow> Inl e
                                  | None \<Rightarrow> Inr s))))"

definition remove :: "unix_fs \<Rightarrow> 'k os \<Rightarrow> string \<Rightarrow> ('k, 'm, fs_err option) fio" where
  "remove fs os name =
     with_safe_path fs os name Some
       (\<lambda>dirfd name.
          if name = ''.'' then uret (Some (PathError ''remove'' name ErrBadPathResolution))
          else ubind (unlinkat os dirfd name False)
                 (\<lambda>r. case r of
                        Inr _ \<Rightarrow> uret None
                      | Inl n \<Rightarrow>
                          ubind (unlinkat os dirfd name True)
                            (\<lambda>r1. case r1 of
                                    Inr _ \<Rightarrow> uret None
                                  | Inl n1 \<Rightarrow>
                                      uret (ensure_path_error
                                              (Some (Errno (if n1 \<noteq> ENOTDIR then n1 else n)))
                                              ''remove'' name))))"

text \<open>
  \<open>Rename\<close>. The second resolution is tried again once its missing parents are made. Between the two
  the descriptors of a failed resolution are closed at once, the others when the function returns.
\<close>

definition rename_target :: "unix_fs \<Rightarrow> 'k os \<Rightarrow> string \<Rightarrow> ('k, 'm, safe_result) fio" where
  "rename_target fs os newpath =
     ubind (safe_path fs os newpath)
       (\<lambda>(newdirfd, newname, close_fds, err).
          case err of
            None \<Rightarrow> uret (newdirfd, newname, close_fds, None)
          | Some e \<Rightarrow>
              ubind (close_all os close_fds)
                (\<lambda>_. if \<not> errors_is e ErrNotExist then uret (newdirfd, newname, [], Some e)
                     else (case as_path_error e of
                             None \<Rightarrow> uret (newdirfd, newname, [], Some e)
                           | Some (op, missing, c) \<Rightarrow>
                               ubind (mkdir_all fs os missing 0x1ED)
                                 (\<lambda>e2. case e2 of
                                         Some e3 \<Rightarrow> uret (newdirfd, newname, [], Some e3)
                                       | None \<Rightarrow> safe_path fs os newpath))))"

definition rename_to :: "'k os \<Rightarrow> string \<Rightarrow> string \<Rightarrow> int \<Rightarrow> string \<Rightarrow> int \<Rightarrow> string
    \<Rightarrow> ('k, 'm, fs_err option) fio" where
  "rename_to os oldpath newpath olddirfd oldname newdirfd newname =
     (if newname = ''.'' then uret (Some (PathError ''rename'' newname ErrBadPathResolution))
      else ubind (lstatat os newdirfd newname)
             (\<lambda>r. case r of
                    Inr _ \<Rightarrow> uret (Some (PathError ''rename'' newname ErrExist))
                  | Inl e \<Rightarrow>
                      if \<not> errors_is e ErrNotExist then uret (Some e)
                      else ubind (sys_at os (Renameat olddirfd oldname newdirfd newname))
                             (\<lambda>r. uret (case err_of r of
                                          None \<Rightarrow> None
                                        | Some n \<Rightarrow> Some (LinkError ''rename'' oldpath newpath n)))))"

definition rename :: "unix_fs \<Rightarrow> 'k os \<Rightarrow> string \<Rightarrow> string \<Rightarrow> ('k, 'm, fs_err option) fio" where
  "rename fs os oldpath newpath =
     (if oldpath = newpath then uret None
      else with_safe_path fs os oldpath Some
             (\<lambda>olddirfd oldname.
                if oldname = ''.'' then uret (Some (PathError ''rename'' oldname ErrBadPathResolution))
                else ubind (lstatat os olddirfd oldname)
                       (\<lambda>r. case r of
                              Inl e \<Rightarrow> uret (Some e)
                            | Inr _ \<Rightarrow>
                                ubind (rename_target fs os newpath)
                                  (\<lambda>(newdirfd, newname, close_fds, err).
                                     ubind (case err of
                                              Some e \<Rightarrow> uret (Some e)
                                            | None \<Rightarrow> rename_to os oldpath newpath olddirfd oldname
                                                        newdirfd newname)
                                       (\<lambda>e. ubind (close_all os close_fds) (\<lambda>_. uret e))))))"

definition symlink :: "unix_fs \<Rightarrow> 'k os \<Rightarrow> string \<Rightarrow> string \<Rightarrow> ('k, 'm, fs_err option) fio" where
  "symlink fs os oldpath newpath =
     with_safe_path fs os newpath Some
       (\<lambda>dirfd newname.
          ubind (ignoring_eintr (os_rounds os) (sys_at os (Symlinkat oldpath dirfd newname)))
            (\<lambda>r. uret (case err_of r of
                         None \<Rightarrow> None
                       | Some n \<Rightarrow> Some (LinkError ''symlink'' oldpath newname n))))"

section \<open>Reading and walking directories\<close>

record dir_entry =
  en_dirfd :: int
  en_name :: string
  en_path :: string
  en_mode :: file_mode

definition mode_type_of :: "'k os \<Rightarrow> int \<Rightarrow> string \<Rightarrow> ('k, 'm, fs_err + file_mode) fio" where
  "mode_type_of os dirfd name =
     ubind (lstatat os dirfd name)
       (\<lambda>r. uret (case r of
                    Inl e \<Rightarrow> Inl (Annotated (''ufs: error finding mode type for '' @ name @ '' during readDir'') e)
                  | Inr fi \<Rightarrow> Inr (fi_mode fi AND mode_type)))"

definition mode_from_dirent :: "'k os \<Rightarrow> sys_dirent \<Rightarrow> int \<Rightarrow> string \<Rightarrow> ('k, 'm, fs_err + file_mode) fio" where
  "mode_from_dirent os de fd name =
     (case sd_type de of
        DT_REG \<Rightarrow> uret (Inr 0)
      | DT_DIR \<Rightarrow> uret (Inr mode_dir)
      | DT_LNK \<Rightarrow> uret (Inr mode_symlink)
      | DT_CHR \<Rightarrow> uret (Inr (mode_device OR mode_char_device))
      | DT_BLK \<Rightarrow> uret (Inr mode_device)
      | DT_FIFO \<Rightarrow> uret (Inr mode_named_pipe)
      | DT_SOCK \<Rightarrow> uret (Inr mode_socket)
      | DT_OTHER \<Rightarrow> mode_type_of os fd name)"

text \<open>One buffer of directory records: deleted entries, empty names, \<open>.\<close> and \<open>..\<close> are skipped.\<close>

fun read_batch :: "'k os \<Rightarrow> int \<Rightarrow> string \<Rightarrow> string \<Rightarrow> sys_dirent list \<Rightarrow> ('k, 'm, fs_err + dir_entry list) fio" where
  "read_batch os fd name relative [] = uret (Inr [])"
| "read_batch os fd name relative (de # des) =
     (if sd_ino de = 0 then read_batch os fd name relative des
      else if sd_name de = [] \<or> sd_name de = ''.'' \<or> sd_name de = dotdot
      then read_batch os fd name relative des
      else ubind (mode_from_dirent os de fd (sd_name de))
             (\<lambda>mt. case mt of
                     Inl e \<Rightarrow> uret (Inl e)
                   | Inr m \<Rightarrow>
                       ubind (read_batch os fd name relative des)
                         (\<lambda>r. uret (case r of
                                Inl e \<Rightarrow> Inl e
                              | Inr es \<Rightarrow>
                                  Inr (\<lparr>en_dirfd = fd, en_name = sd_name de,
                                        en_path = (if relative = ''.'' then name
                                                   else path_join [relative, sd_name de]),
                                        en_mode = m\<rparr> # es)))))"

fun read_dir_loop :: "'k os \<Rightarrow> nat \<Rightarrow> int \<Rightarrow> string \<Rightarrow> string \<Rightarrow> ('k, 'm, fs_err + dir_entry list) fio" where
  "read_dir_loop os 0 fd name relative = ustuck"
| "read_dir_loop os (Suc n) fd name relative =
     ubind (sys (os_getdents os fd) (\<lambda>_. CReaddir fd))
       (\<lambda>r. case r of
              Inl e \<Rightarrow>
                if e = EINTR then read_dir_loop os n fd name relative
                else uret (Inl (errno_to_path_error e ''getdents'' name))
            | Inr batch \<Rightarrow>
                if batch = [] then uret (Inr [])
                else ubind (read_batch os fd name relative batch)
                       (\<lambda>b. case b of
                              Inl e \<Rightarrow> uret (Inl e)
                            | Inr es \<Rightarrow>
                                ubind (read_dir_loop os n fd name relative)
                                  (\<lambda>rest. uret (case rest of
                                                  Inl e \<Rightarrow> Inl e
                                                | Inr fs \<Rightarrow> Inr (es @ fs)))))"

definition read_dir_fd :: "'k os \<Rightarrow> int \<Rightarrow> string \<Rightarrow> string \<Rightarrow> ('k, 'm, fs_err + dir_entry list) fio" where
  "read_dir_fd os fd name relative = read_dir_loop os (os_rounds os) fd name relative"

definition read_dir :: "unix_fs \<Rightarrow> 'k os \<Rightarrow> string \<Rightarrow> ('k, 'm, fs_err + dir_entry list) fio" where
  "read_dir fs os path =
     with_safe_path fs os path Inl
       (\<lambda>dirfd name.
          ubind (openat fs os dirfd name {O_DIRECTORY} 0)
            (\<lambda>(fd, err).
               case err of
                 Some e \<Rightarrow> uret (Inl e)
               | None \<Rightarrow>
                   ubind (read_dir_fd os fd name ''.'')
                     (\<lambda>r. ubind (close_fd os fd) (\<lambda>_. uret r))))"

text \<open>
  The walk. A callback answers with nothing, with one of the two sentinels \<open>SkipDir\<close> and \<open>SkipAll\<close>,
  or with an error; \<open>relative\<close> is the path below the root of the walk.
\<close>

datatype walk_err = SkipDir | SkipAll | WalkErr fs_err

type_synonym ('k, 'm) walk_fn =
  "int \<Rightarrow> string \<Rightarrow> string \<Rightarrow> file_mode option \<Rightarrow> fs_err option \<Rightarrow> ('k, 'm, walk_err option) fio"

definition skip_here :: "file_mode \<Rightarrow> walk_err option \<Rightarrow> walk_err option" where
  "skip_here d err = (if err = Some SkipDir \<and> mode_is_dir d then None else err)"

definition child_relative :: "string \<Rightarrow> string \<Rightarrow> string" where
  "child_relative relative name = (if relative = ''.'' then name else path_join [relative, name])"

fun walk_children :: "(dir_entry \<Rightarrow> ('k, 'm, walk_err option) fio) \<Rightarrow> dir_entry list
    \<Rightarrow> ('k, 'm, walk_err option) fio" where
  "walk_children visit [] = uret None"
| "walk_children visit (d # ds) =
     ubind (visit d)
       (\<lambda>err. if err = None then walk_children visit ds
              else if err = Some SkipDir then uret None
              else uret err)"

fun walk_dir :: "unix_fs \<Rightarrow> 'k os \<Rightarrow> ('k, 'm) walk_fn \<Rightarrow> nat \<Rightarrow> int \<Rightarrow> string \<Rightarrow> string \<Rightarrow> file_mode
    \<Rightarrow> ('k, 'm, walk_err option) fio" where
  "walk_dir fs os fn 0 parentfd name relative d = ustuck"
| "walk_dir fs os fn (Suc n) parentfd name relative d =
     ubind (fn parentfd name relative (Some d) None)
       (\<lambda>err.
          if err \<noteq> None \<or> \<not> mode_is_dir d then uret (skip_here d err)
          else ubind (openat fs os parentfd name {O_DIRECTORY} 0)
            (\<lambda>(dirfd, err).
               ubind
                 (case err of
                    Some e \<Rightarrow> uret (Some (WalkErr e))
                  | None \<Rightarrow>
                      ubind (read_dir_fd os dirfd name relative)
                        (\<lambda>r. ubind (case r of
                                      Inl e \<Rightarrow> ubind (fn dirfd name relative (Some d) (Some e))
                                                 (\<lambda>err. uret (err, []))
                                    | Inr dirs \<Rightarrow> uret (None, dirs))
                               (\<lambda>(err, dirs).
                                  if err \<noteq> None then uret (skip_here d err)
                                  else walk_children
                                         (\<lambda>d1. walk_dir fs os fn n dirfd (en_name d1)
                                                 (child_relative relative (en_name d1)) (en_mode d1))
                                         dirs)))
                 (\<lambda>res. if dirfd \<noteq> 0 then ubind (close_fd os dirfd) (\<lambda>_. uret res) else uret res)))"

definition walk_dirat :: "unix_fs \<Rightarrow> 'k os \<Rightarrow> int \<Rightarrow> string \<Rightarrow> ('k, 'm) walk_fn
    \<Rightarrow> ('k, 'm, fs_err option) fio" where
  "walk_dirat fs os dirfd name fn =
     ubind (lstatat os dirfd name)
       (\<lambda>r. ubind (case r of
                     Inl e \<Rightarrow> fn dirfd name ''.'' None (Some e)
                   | Inr info \<Rightarrow> walk_dir fs os fn (os_rounds os) dirfd name ''.'' (fi_mode info))
              (\<lambda>err. uret (case err of
                             Some (WalkErr e) \<Rightarrow> Some e
                           | _ \<Rightarrow> None)))"

end
