(* ===== verification/Fs_Sandbox.thy ===== *)
theory Fs_Sandbox
  imports Unix_Fs
begin

text \<open>
  What the sandbox of \<open>Unix_Fs\<close> guarantees, as a monitor over the system calls an operation makes:
  which descriptors may be trusted to be inside the base directory, and which calls are allowed with
  them. A small calculus of triples over the operations carries the proofs; the theorems that put it
  together are in \<open>Ufs_Remove\<close>, where the last operations are.
\<close>

section \<open>The monitor\<close>

text \<open>One component of a path, or the directory itself.\<close>

definition single :: "string \<Rightarrow> bool" where
  "single n \<longleftrightarrow> n = ''.'' \<or> proper_comp n"

text \<open>
  A descriptor becomes trusted when it is the base directory itself, a child of a trusted directory
  opened without following a link, an \<open>openat2\<close> answer (which resolves beneath the directory), or
  found inside the base by the check. Closing ends the trust: the number may be given out again.
\<close>

fun trust_step :: "unix_fs \<Rightarrow> int set \<Rightarrow> call \<Rightarrow> int set" where
  "trust_step fs T (COpenat d n fl m (Inr fd)) =
     (if n = fs_base fs \<or> (O_NOFOLLOW \<in> fl \<and> single n) then insert fd T else T - {fd})"
| "trust_step fs T (COpenat2 d n fl m (Inr fd)) = insert fd T"
| "trust_step fs T (CEval fd (Inr p)) = (if inside_base fs p then insert fd T else T - {fd})"
| "trust_step fs T (CClose fd) = T - {fd}"
| "trust_step fs T c = T"

text \<open>
  The calls that change something name one component in a trusted directory and follow no link at
  its end. A path of several components is only ever opened as a directory, for reading.
\<close>

fun at_allowed :: "int set \<Rightarrow> at_call \<Rightarrow> bool" where
  "at_allowed T (Fchmodat d n m) = (d \<in> T \<and> single n)"
| "at_allowed T (Fchownat d n u g nofollow) = (d \<in> T \<and> single n \<and> nofollow)"
| "at_allowed T (UtimesNanoAt d n a m) = False"
| "at_allowed T (Mkdirat d n m) = (d \<in> T \<and> single n)"
| "at_allowed T (Unlinkat d n r) = (d \<in> T \<and> single n)"
| "at_allowed T (Renameat d n d1 n1) = (d \<in> T \<and> single n \<and> d1 \<in> T \<and> single n1)"
| "at_allowed T (Symlinkat t d n) = (d \<in> T \<and> single n)"

fun allowed :: "unix_fs \<Rightarrow> int set \<Rightarrow> call \<Rightarrow> bool" where
  "allowed fs T (COpenat d n fl m r) =
     (n = fs_base fs \<and> fl = {O_DIRECTORY, O_CLOEXEC}
      \<or> d \<in> T \<and> O_NOFOLLOW \<in> fl
        \<and> (single n \<or> safe_rel n \<and> fl = {O_DIRECTORY, O_NOFOLLOW, O_CLOEXEC}))"
| "allowed fs T (COpenat2 d n fl m r) =
     (d \<in> T \<and> O_NOFOLLOW \<in> fl
      \<and> (single n \<or> safe_rel n \<and> fl = {O_DIRECTORY, O_NOFOLLOW, O_CLOEXEC, O_LARGEFILE}))"
| "allowed fs T (CAt c r) = at_allowed T c"
| "allowed fs T (CStat d n nofollow r) = (d \<in> T \<and> single n)"
| "allowed fs T (CFstat fd) = (fd \<in> T)"
| "allowed fs T (CReaddir fd) = (fd \<in> T)"
| "allowed fs T (CRead fd) = (fd \<in> T)"
| "allowed fs T (CWrite fd s) = (fd \<in> T)"
| "allowed fs T (CSeek fd) = (fd \<in> T)"
| "allowed fs T (CEval fd r) = True"
| "allowed fs T (CClose fd) = True"

definition monitor_step :: "unix_fs \<Rightarrow> int set \<times> bool \<Rightarrow> call \<Rightarrow> int set \<times> bool" where
  "monitor_step fs s c = (trust_step fs (fst s) c, snd s \<and> allowed fs (fst s) c)"

definition monitor :: "unix_fs \<Rightarrow> call list \<Rightarrow> int set \<times> bool" where
  "monitor fs cs = foldl (monitor_step fs) ({}, True) cs"

definition trusted :: "unix_fs \<Rightarrow> call list \<Rightarrow> int set" where
  "trusted fs cs = fst (monitor fs cs)"

definition all_allowed :: "unix_fs \<Rightarrow> call list \<Rightarrow> bool" where
  "all_allowed fs cs = snd (monitor fs cs)"

lemma monitor_Nil [simp]: "trusted fs [] = {}" "all_allowed fs []"
  by (simp_all add: trusted_def all_allowed_def monitor_def)

lemma monitor_snoc [simp]:
  "trusted fs (cs @ [c]) = trust_step fs (trusted fs cs) c"
  "all_allowed fs (cs @ [c]) \<longleftrightarrow> all_allowed fs cs \<and> allowed fs (trusted fs cs) c"
  by (simp_all add: trusted_def all_allowed_def monitor_def monitor_step_def)

lemma at_allowed_mono: "at_allowed T c \<Longrightarrow> T \<subseteq> U \<Longrightarrow> at_allowed U c"
  by (cases c) auto

lemma allowed_mono: "allowed fs T c \<Longrightarrow> T \<subseteq> U \<Longrightarrow> allowed fs U c"
  using at_allowed_mono by (cases c) auto

text \<open>Cutting a trace short keeps it allowed.\<close>

lemma contained_prefix: "all_allowed fs (cs @ ds) \<Longrightarrow> all_allowed fs cs"
  by (induction ds rule: rev_induct) (simp_all add: append_assoc [symmetric] del: append_assoc)

section \<open>What the kernel promises\<close>

text \<open>
  \<open>opn k\<close> is the set of the descriptors that are open. Opening gives a new one, above 0, and only
  opening and closing change the set. A directory's names hold no separator, and \<open>Readdirnames\<close>
  leaves out \<open>.\<close> and \<open>..\<close>.
\<close>

definition opens_fresh :: "('k \<Rightarrow> int set) \<Rightarrow> ('k \<Rightarrow> (errno + int) \<times> 'k) \<Rightarrow> bool" where
  "opens_fresh opn f \<longleftrightarrow>
     (\<forall>k. case f k of
            (Inl e, k1) \<Rightarrow> opn k1 = opn k
          | (Inr fd, k1) \<Rightarrow> 0 < fd \<and> fd \<notin> opn k \<and> opn k1 = insert fd (opn k))"

definition keeps_open :: "('k \<Rightarrow> int set) \<Rightarrow> ('k \<Rightarrow> 'a \<times> 'k) \<Rightarrow> bool" where
  "keeps_open opn f \<longleftrightarrow> (\<forall>k. opn (snd (f k)) = opn k)"

definition kernel_ok :: "'k os \<Rightarrow> ('k \<Rightarrow> int set) \<Rightarrow> bool" where
  "kernel_ok os opn \<longleftrightarrow>
     (\<forall>d n fl m. opens_fresh opn (os_openat os d n fl m)) \<and>
     (\<forall>d n fl m. opens_fresh opn (os_openat2 os d n fl m)) \<and>
     (\<forall>p. keeps_open opn (os_eval_symlinks os p)) \<and>
     (\<forall>fd k. opn (snd (os_close os fd k)) = opn k - {fd}) \<and>
     (\<forall>c. keeps_open opn (os_at os c)) \<and>
     (\<forall>d n fl. keeps_open opn (os_fstatat os d n fl)) \<and>
     (\<forall>fd. keeps_open opn (os_fstat os fd)) \<and>
     (\<forall>fd. keeps_open opn (os_getdents os fd)) \<and>
     (\<forall>fd n. keeps_open opn (os_readdirnames os fd n)) \<and>
     (\<forall>fd. keeps_open opn (os_read os fd)) \<and>
     (\<forall>fd s. keeps_open opn (os_write os fd s)) \<and>
     (\<forall>fd. keeps_open opn (os_seek os fd)) \<and>
     (\<forall>fd k. case fst (os_getdents os fd k) of
               Inl e \<Rightarrow> True | Inr ds \<Rightarrow> (\<forall>d \<in> set ds. slash \<notin> set (sd_name d))) \<and>
     (\<forall>fd n k. \<forall>s \<in> set (fst (fst (os_readdirnames os fd n k))). proper_comp s)"

section \<open>Triples\<close>

text \<open>
  The setting of a proof: the filesystem, the kernel, its open descriptors, the components of the
  base. \<open>good c S T w\<close> is the invariant between two calls: all calls so far were allowed, the
  descriptors \<open>T\<close> are trusted, what is trusted is open, and, where \<open>openat2\<close> is used, exactly the
  descriptors \<open>S\<close> are open.
\<close>

type_synonym 'k setting = "unix_fs \<times> 'k os \<times> ('k \<Rightarrow> int set) \<times> string list"

fun good :: "'k setting \<Rightarrow> int set \<Rightarrow> int set \<Rightarrow> ('k, 'm) fsw_scheme \<Rightarrow> bool" where
  "good (fs, os, opn, bs) S T w \<longleftrightarrow>
     kernel_ok os opn \<and> good_base fs bs \<and> all_allowed fs (calls w) \<and> T \<subseteq> trusted fs (calls w)
     \<and> trusted fs (calls w) \<subseteq> opn (kst w) \<and> (fs_use_openat2 fs \<longrightarrow> opn (kst w) = S)"

declare good.simps [simp del]

definition tri :: "'k setting \<Rightarrow> (('k, 'm) fsw_scheme \<Rightarrow> bool) \<Rightarrow> ('k, 'm, 'a) fio
    \<Rightarrow> ('a \<Rightarrow> ('k, 'm) fsw_scheme \<Rightarrow> bool) \<Rightarrow> bool" where
  "tri c P m Q \<longleftrightarrow>
     (\<forall>w. P w \<longrightarrow> (case m w of (Some r, w1) \<Rightarrow> Q r w1 | (None, w1) \<Rightarrow> all_allowed (fst c) (calls w1)))"

text \<open>
  \<open>gains c F S T r\<close>: the operation has left open, and trusted, the descriptors \<open>F r\<close> besides those
  it started with.
\<close>

definition gains :: "'k setting \<Rightarrow> ('a \<Rightarrow> int set) \<Rightarrow> int set \<Rightarrow> int set \<Rightarrow> 'a \<Rightarrow> ('k, 'm) fsw_scheme \<Rightarrow> bool" where
  "gains c F S T r w \<longleftrightarrow>
     good c (F r \<union> S) (F r \<union> T) w \<and> F r \<inter> T = {} \<and> (fs_use_openat2 (fst c) \<longrightarrow> F r \<inter> S = {})"

abbreviation keeps :: "'k setting \<Rightarrow> int set \<Rightarrow> int set \<Rightarrow> 'a \<Rightarrow> ('k, 'm) fsw_scheme \<Rightarrow> bool" where
  "keeps c S T \<equiv> gains c (\<lambda>_. {}) S T"

definition file_fds :: "fs_err + int \<Rightarrow> int set" where
  "file_fds r = (case r of Inr fd \<Rightarrow> {fd} | Inl _ \<Rightarrow> {})"

lemma file_fds_simps [simp]: "file_fds (Inl e) = {}" "file_fds (Inr fd) = {fd}"
  by (simp_all add: file_fds_def)

lemma gains_empty [simp]: "F r = {} \<Longrightarrow> gains c F S T r = good c S T"
  by (auto simp: gains_def fun_eq_iff)

lemma keeps_eq: "keeps c S T = (\<lambda>_. good c S T)"
  by (simp add: fun_eq_iff)

named_theorems sandbox_intros \<open>triples of the operations\<close>

lemma good_all_allowed: "good c S T w \<Longrightarrow> all_allowed (fst c) (calls w)"
  by (cases c) (auto simp: good.simps)

lemma triI:
  assumes "\<And>w. P w \<Longrightarrow> case m w of (Some r, w1) \<Rightarrow> Q r w1 | (None, w1) \<Rightarrow> all_allowed (fst c) (calls w1)"
  shows "tri c P m Q"
  using assms by (simp add: tri_def)

lemma triD:
  "tri c P m Q \<Longrightarrow> P w \<Longrightarrow> case m w of (Some r, w1) \<Rightarrow> Q r w1 | (None, w1) \<Rightarrow> all_allowed (fst c) (calls w1)"
  by (simp add: tri_def)

lemma tri_ret: "(\<And>w. P w \<Longrightarrow> Q x w) \<Longrightarrow> tri c P (uret x) Q"
  by (simp add: tri_def uret_def)

lemma tri_stuck: "(\<And>w. P w \<Longrightarrow> all_allowed (fst c) (calls w)) \<Longrightarrow> tri c P ustuck Q"
  by (simp add: tri_def ustuck_def)

lemma tri_bind:
  assumes "tri c P m R" and "\<And>x. tri c (R x) (f x) Q"
  shows "tri c P (ubind m f) Q"
proof (rule triI)
  fix w assume "P w"
  with assms(1) have m: "case m w of (Some r, w1) \<Rightarrow> R r w1 | (None, w1) \<Rightarrow> all_allowed (fst c) (calls w1)"
    by (simp add: tri_def)
  show "case ubind m f w of (Some r, w1) \<Rightarrow> Q r w1 | (None, w1) \<Rightarrow> all_allowed (fst c) (calls w1)"
  proof (cases "fst (m w)")
    case None
    then show ?thesis using m by (auto simp: ubind_def split: prod.splits)
  next
    case (Some x)
    then have "R x (snd (m w))" using m by (auto split: prod.splits)
    then have "case f x (snd (m w)) of (Some r, w1) \<Rightarrow> Q r w1 | (None, w1) \<Rightarrow> all_allowed (fst c) (calls w1)"
      using assms(2) [of x] by (simp add: tri_def)
    then show ?thesis using Some by (auto simp: ubind_def split: prod.splits)
  qed
qed

lemma tri_mono:
  "tri c P m Q \<Longrightarrow> (\<And>w. P' w \<Longrightarrow> P w) \<Longrightarrow> (\<And>r w. Q r w \<Longrightarrow> Q' r w) \<Longrightarrow> tri c P' m Q'"
  unfolding tri_def by (auto split: prod.splits option.splits) metis+

lemma tri_pure: "(A \<Longrightarrow> tri c P m Q) \<Longrightarrow> tri c (\<lambda>w. P w \<and> A) m Q"
  by (cases A) (auto simp: tri_def)

lemma tri_bind_keeps:
  assumes "tri c (good c S T) m (keeps c S T)" and "\<And>x. tri c (good c S T) (f x) Q"
  shows "tri c (good c S T) (ubind m f) Q"
  by (rule tri_bind [OF assms(1)]) (use assms(2) in simp)

lemma tri_ret_keeps [sandbox_intros]: "tri c (good c S T) (uret x) (keeps c S T)"
  by (simp add: tri_ret)

lemma tri_stuck_keeps [sandbox_intros]: "tri c (good c S T) ustuck Q"
  by (rule tri_stuck) (rule good_all_allowed)

lemma tri_if:
  "(b \<Longrightarrow> tri c P m Q) \<Longrightarrow> (\<not> b \<Longrightarrow> tri c P m' Q) \<Longrightarrow> tri c P (if b then m else m') Q"
  by simp

lemma tri_option:
  "(x = None \<Longrightarrow> tri c P m Q) \<Longrightarrow> (\<And>y. x = Some y \<Longrightarrow> tri c P (f y) Q) \<Longrightarrow>
   tri c P (case x of None \<Rightarrow> m | Some y \<Rightarrow> f y) Q"
  by (cases x) auto

lemma tri_sum:
  "(\<And>y. x = Inl y \<Longrightarrow> tri c P (f y) Q) \<Longrightarrow> (\<And>y. x = Inr y \<Longrightarrow> tri c P (g y) Q) \<Longrightarrow>
   tri c P (case x of Inl y \<Rightarrow> f y | Inr y \<Rightarrow> g y) Q"
  by (cases x) auto

lemmas tri_cases = tri_if tri_option tri_sum

text \<open>Calls that neither open nor close.\<close>

lemma tri_sys:
  assumes "kernel_ok (fst (snd c)) (fst (snd (snd c))) \<Longrightarrow> keeps_open (fst (snd (snd c))) f"
    and "\<And>r. allowed (fst c) T (ev r)" and "\<And>r U. trust_step (fst c) U (ev r) = U"
  shows "tri c (good c S T) (sys f ev) (keeps c S T)"
proof (cases c)
  case (fields fs os opn bs)
  have "allowed fs U (ev r)" if "T \<subseteq> U" for U r
    using allowed_mono [OF assms(2) that] fields by simp
  then show ?thesis
    using assms(1,3) fields by (auto simp: tri_def sys_def keeps_open_def good.simps)
qed

lemma kernel_okD:
  assumes "kernel_ok os opn"
  shows "opens_fresh opn (os_openat os d n fl m)" "opens_fresh opn (os_openat2 os d n fl m)"
    and "keeps_open opn (os_eval_symlinks os p)" "keeps_open opn (os_at os a)"
    and "keeps_open opn (os_fstatat os d n b)" "keeps_open opn (os_getdents os d)"
    and "keeps_open opn (os_readdirnames os d k)" "keeps_open opn (os_read os d)"
    and "keeps_open opn (os_write os d s)" "keeps_open opn (os_fstat os d)"
    and "keeps_open opn (os_seek os d)"
    and "opn (snd (os_close os d st)) = opn st - {d}"
  using assms by (simp_all add: kernel_ok_def)

lemma tri_sys_at [sandbox_intros]:
  "at_allowed T a \<Longrightarrow> tri (fs, os, opn, bs) (good (fs, os, opn, bs) S T) (sys_at os a)
     (keeps (fs, os, opn, bs) S T)"
  unfolding sys_at_def by (rule tri_sys) (simp_all add: kernel_okD)

text \<open>Loops over a call that keeps the invariant.\<close>

lemma tri_ignoring_eintr [sandbox_intros]:
  "tri c (good c S T) m (keeps c S T) \<Longrightarrow> tri c (good c S T) (ignoring_eintr n m) (keeps c S T)"
  by (induction n) (auto intro!: tri_bind_keeps sandbox_intros)

lemma tri_ignoring_eintr_gains:
  assumes m: "tri c (good c S T) m Q" and retry: "\<And>w. Q (Inl EINTR) w \<Longrightarrow> good c S T w"
  shows "tri c (good c S T) (ignoring_eintr n m) Q"
proof (induction n)
  case (Suc n)
  show ?case unfolding ignoring_eintr.simps
    by (rule tri_bind [OF m]) (use Suc retry in \<open>auto intro: tri_ret elim!: tri_mono\<close>)
qed (auto intro: sandbox_intros)

lemma tri_u_fstatat [sandbox_intros]:
  assumes "d \<in> T" and "single n"
  shows "tri (fs, os, opn, bs) (good (fs, os, opn, bs) S T) (u_fstatat os op d n nf)
           (keeps (fs, os, opn, bs) S T)"
  unfolding u_fstatat_def
  by (intro tri_bind_keeps sandbox_intros tri_sys) (simp_all add: kernel_okD assms)

lemma tri_lstatat [sandbox_intros]:
  "d \<in> T \<Longrightarrow> single n \<Longrightarrow>
   tri (fs, os, opn, bs) (good (fs, os, opn, bs) S T) (lstatat os d n) (keeps (fs, os, opn, bs) S T)"
  unfolding lstatat_def by (rule tri_u_fstatat)

lemma tri_unlinkat [sandbox_intros]:
  "d \<in> T \<Longrightarrow> single n \<Longrightarrow>
   tri (fs, os, opn, bs) (good (fs, os, opn, bs) S T) (unlinkat os d n b) (keeps (fs, os, opn, bs) S T)"
  unfolding unlinkat_def by (intro sandbox_intros) simp

section \<open>Opening and closing\<close>

text \<open>
  An \<open>openat\<close> on a trusted directory: success gives a new trusted descriptor. A descriptor that
  comes with an error is no longer used for anything but closing.
\<close>

definition opened :: "'k setting \<Rightarrow> int set \<Rightarrow> int set \<Rightarrow> int \<times> fs_err option \<Rightarrow> ('k, 'm) fsw_scheme \<Rightarrow> bool" where
  "opened c S T r w \<longleftrightarrow>
     (case r of
        (fd, None) \<Rightarrow> gains c (\<lambda>_. {fd}) S T r w \<and> fd \<noteq> 0
      | (fd, Some e) \<Rightarrow> good c S T w \<and> (fd = 0 \<or> fd \<notin> T \<and> \<not> fs_use_openat2 (fst c)))"

definition raw_opened :: "'k setting \<Rightarrow> int set \<Rightarrow> int set \<Rightarrow> fs_err + int \<Rightarrow> ('k, 'm) fsw_scheme \<Rightarrow> bool" where
  "raw_opened c S T r w \<longleftrightarrow>
     (case r of
        Inl e \<Rightarrow> good c S T w
      | Inr fd \<Rightarrow> good c (insert fd S) T w \<and> 0 < fd \<and> fd \<notin> T \<and> fd \<in> fst (snd (snd c)) (kst w)
          \<and> (fs_use_openat2 (fst c) \<longrightarrow> fd \<notin> S \<and> fd \<in> trusted (fst c) (calls w)))"

lemma raw_opened_Inl [simp]: "raw_opened c S T (Inl e) = good c S T"
  by (simp add: raw_opened_def fun_eq_iff)

lemma opens_freshD:
  assumes "opens_fresh opn f"
  shows "f k = (Inl e, k1) \<Longrightarrow> opn k1 = opn k"
    and "f k = (Inr fd, k1) \<Longrightarrow> 0 < fd \<and> fd \<notin> opn k \<and> opn k1 = insert fd (opn k)"
  using assms by (auto simp: opens_fresh_def dest: spec [of _ k])

lemma open_answer_Inr [simp]: "open_answer op n r = Inr fd \<longleftrightarrow> r = Inr fd"
  by (auto simp: open_answer_def split: sum.splits errno.splits)

lemma open_answer_Inl: "r = Inl e \<Longrightarrow> \<exists>e'. open_answer op n r = Inl e'"
  by (auto simp: open_answer_def split: errno.splits)

definition open_ok :: "int set \<Rightarrow> int \<Rightarrow> string \<Rightarrow> oflag set \<Rightarrow> bool" where
  "open_ok T d n fl \<longleftrightarrow> d \<in> T \<and> O_NOFOLLOW \<in> fl
     \<and> (single n \<or> safe_rel n \<and> fl = {O_DIRECTORY, O_NOFOLLOW})"

lemma open_ok_allowed:
  "open_ok T d n fl \<Longrightarrow> T \<subseteq> U \<Longrightarrow> allowed fs U (COpenat d n (insert O_CLOEXEC fl) m r)"
  "open_ok T d n fl \<Longrightarrow> T \<subseteq> U \<Longrightarrow>
     allowed fs U (COpenat2 d n (insert O_LARGEFILE (insert O_CLOEXEC fl)) m r)"
  by (auto simp: open_ok_def)

lemma tri_u_openat:
  assumes "open_ok T d n fl" and "\<not> fs_use_openat2 fs"
  shows "tri (fs, os, opn, bs) (good (fs, os, opn, bs) S T) (u_openat os d n fl m)
           (raw_opened (fs, os, opn, bs) S T)"
proof (rule triI)
  fix w :: "('a, 'b) fsw_scheme"
  assume g: "good (fs, os, opn, bs) S T w"
  obtain r k1 where f: "os_openat os d n (insert O_CLOEXEC fl) m (kst w) = (r, k1)"
    by (cases "os_openat os d n (insert O_CLOEXEC fl) m (kst w)")
  have fr: "opens_fresh opn (os_openat os d n (insert O_CLOEXEC fl) m)"
    using g by (simp add: good.simps kernel_okD)
  let ?U = "trusted fs (calls w)"
  let ?ev = "COpenat d n (insert O_CLOEXEC fl) m r"
  have ok: "allowed fs ?U ?ev" using g by (intro open_ok_allowed(1) [OF assms(1)]) (simp add: good.simps)
  have run: "u_openat os d n fl m w =
      (Some (open_answer ''openat'' n r), w\<lparr>kst := k1, calls := calls w @ [?ev]\<rparr>)"
    by (simp add: u_openat_def ubind_def sys_def uret_def f)
  show "case u_openat os d n fl m w of (Some r, w1) \<Rightarrow> raw_opened (fs, os, opn, bs) S T r w1
        | (None, w1) \<Rightarrow> all_allowed (fst (fs, os, opn, bs)) (calls w1)"
  proof (cases r)
    case (Inl e)
    then show ?thesis
      using g ok opens_freshD(1) [OF fr] f assms(2) open_answer_Inl [OF Inl, of "''openat''" n]
      by (auto simp: good.simps run raw_opened_def)
  next
    case (Inr fd)
    then have "0 < fd" "fd \<notin> opn (kst w)" "opn k1 = insert fd (opn (kst w))"
      using opens_freshD(2) [OF fr] f by auto
    moreover have "T \<subseteq> trust_step fs ?U ?ev" "trust_step fs ?U ?ev \<subseteq> insert fd ?U"
      using g Inr \<open>fd \<notin> opn (kst w)\<close> by (auto simp: good.simps)
    ultimately show ?thesis
      using g ok assms(2) Inr by (auto simp: good.simps run raw_opened_def open_answer_def)
  qed
qed

lemma tri_u_openat2:
  assumes "open_ok T d n fl" and "fs_use_openat2 fs"
  shows "tri (fs, os, opn, bs) (good (fs, os, opn, bs) S T) (u_openat2 os d n fl m)
           (raw_opened (fs, os, opn, bs) S T)"
proof (rule triI)
  fix w :: "('a, 'b) fsw_scheme"
  assume g: "good (fs, os, opn, bs) S T w"
  let ?fl = "insert O_LARGEFILE (insert O_CLOEXEC fl)"
  obtain r k1 where f: "os_openat2 os d n ?fl m (kst w) = (r, k1)"
    by (cases "os_openat2 os d n ?fl m (kst w)")
  have fr: "opens_fresh opn (os_openat2 os d n ?fl m)"
    using g by (simp add: good.simps kernel_okD)
  let ?ev = "COpenat2 d n ?fl m r"
  have ok: "allowed fs (trusted fs (calls w)) ?ev"
    using g by (intro open_ok_allowed(2) [OF assms(1)]) (simp add: good.simps)
  have run: "u_openat2 os d n fl m w =
      (Some (open_answer ''openat2'' n r), w\<lparr>kst := k1, calls := calls w @ [?ev]\<rparr>)"
    by (simp add: u_openat2_def Let_def ubind_def sys_def uret_def f)
  show "case u_openat2 os d n fl m w of (Some r, w1) \<Rightarrow> raw_opened (fs, os, opn, bs) S T r w1
        | (None, w1) \<Rightarrow> all_allowed (fst (fs, os, opn, bs)) (calls w1)"
  proof (cases r)
    case (Inl e)
    then show ?thesis
      using g ok opens_freshD(1) [OF fr] f open_answer_Inl [OF Inl, of "''openat2''" n]
      by (auto simp: good.simps run raw_opened_def)
  next
    case (Inr fd)
    then have "0 < fd" "fd \<notin> opn (kst w)" "opn k1 = insert fd (opn (kst w))"
      using opens_freshD(2) [OF fr] f by auto
    then show ?thesis
      using g ok assms(2) Inr by (auto simp: good.simps run raw_opened_def open_answer_def)
  qed
qed

lemma tri_open_loop:
  assumes ok: "open_ok T d n fl"
  shows "tri (fs, os, opn, bs) (good (fs, os, opn, bs) S T) (open_loop fs os k d n fl m)
           (raw_opened (fs, os, opn, bs) S T)"
proof (induction k)
  case 0
  show ?case by (auto intro: sandbox_intros)
next
  case (Suc k)
  have raw: "tri (fs, os, opn, bs) (good (fs, os, opn, bs) S T)
      (if fs_use_openat2 fs then u_openat2 os d n fl (syscall_mode m)
       else u_openat os d n fl (syscall_mode m)) (raw_opened (fs, os, opn, bs) S T)"
    by (auto intro: tri_u_openat [OF ok] tri_u_openat2 [OF ok])
  show ?case unfolding open_loop.simps
    by (rule tri_bind [OF raw]) (use Suc in \<open>auto simp: tri_ret\<close>)
qed

text \<open>The check afterwards.\<close>

lemma check_final_fst [simp]: "fst (check_final fs fd n r) = fd"
  by (simp add: check_final_def Let_def split: sum.split option.split)

lemma check_final_ok: "check_final fs fd n r = (fd', None) \<Longrightarrow> \<exists>p. r = Inr p \<and> inside_base fs p"
  by (auto simp: check_final_def Let_def split: sum.splits option.splits if_splits)

lemma tri_check_final:
  assumes "\<not> fs_use_openat2 fs"
  shows "tri (fs, os, opn, bs) (raw_opened (fs, os, opn, bs) S T (Inr fd))
     (ubind (sys (os_eval_symlinks os q) (CEval fd)) (\<lambda>p. uret (check_final fs fd n p)))
     (opened (fs, os, opn, bs) S T)"
proof (rule triI)
  fix w :: "('a, 'b) fsw_scheme"
  assume r: "raw_opened (fs, os, opn, bs) S T (Inr fd) w"
  obtain p k1 where f: "os_eval_symlinks os q (kst w) = (p, k1)"
    by (cases "os_eval_symlinks os q (kst w)")
  have keep: "opn k1 = opn (kst w)"
    using r f by (auto simp: raw_opened_def good.simps keeps_open_def
        dest!: kernel_okD(3) [of os opn q] spec [of _ "kst w"])
  obtain fd' e where c: "check_final fs fd n p = (fd', e)" by (cases "check_final fs fd n p")
  then have "fd' = fd" using check_final_fst [of fs fd n p] by simp
  moreover have "opened (fs, os, opn, bs) S T (fd, e) (w\<lparr>kst := k1, calls := calls w @ [CEval fd p]\<rparr>)"
  proof (cases e)
    case None
    then obtain q' where "p = Inr q'" "inside_base fs q'" using check_final_ok [of fs fd n p] c by auto
    then show ?thesis using None r assms keep
      by (auto simp: opened_def raw_opened_def gains_def good.simps)
  next
    case (Some x)
    then show ?thesis using r assms keep
      by (cases p) (auto simp: opened_def raw_opened_def good.simps)
  qed
  ultimately show "case ubind (sys (os_eval_symlinks os q) (CEval fd)) (\<lambda>p. uret (check_final fs fd n p)) w of
      (Some r, w1) \<Rightarrow> opened (fs, os, opn, bs) S T r w1
      | (None, w1) \<Rightarrow> all_allowed (fst (fs, os, opn, bs)) (calls w1)"
    using c by (simp add: ubind_def sys_def uret_def f)
qed

lemma tri_openat:
  assumes ok: "open_ok T d n (insert O_NOFOLLOW fl)"
  shows "tri (fs, os, opn, bs) (good (fs, os, opn, bs) S T) (openat fs os d n fl m)
           (opened (fs, os, opn, bs) S T)"
  unfolding openat_def
proof (rule tri_bind [OF tri_open_loop [OF ok]])
  fix r :: "fs_err + int"
  show "tri (fs, os, opn, bs) (raw_opened (fs, os, opn, bs) S T r)
     (case r of
        Inl e \<Rightarrow> uret (0, Some e)
      | Inr fd \<Rightarrow>
          if fs_use_openat2 fs then uret (fd, None)
          else ubind (sys (os_eval_symlinks os (path_join [''/proc/self/fd/'', itoa fd])) (CEval fd))
                 (\<lambda>p. uret (check_final fs fd n p)))
     (opened (fs, os, opn, bs) S T)"
  proof (cases r)
    case (Inl e)
    then show ?thesis by (auto intro!: tri_ret simp: opened_def)
  next
    case (Inr fd)
    show ?thesis
    proof (cases "fs_use_openat2 fs")
      case True
      then show ?thesis using Inr
        by (auto intro!: tri_ret simp: opened_def raw_opened_def gains_def good.simps) blast
    next
      case False
      then show ?thesis using Inr tri_check_final [OF False] by simp
    qed
  qed
qed

text \<open>Closing.\<close>

lemma tri_sys_close:
  assumes "fd \<notin> T" and "fs_use_openat2 fs \<longrightarrow> fd \<notin> S"
  shows "tri (fs, os, opn, bs) (good (fs, os, opn, bs) (insert fd S) (insert fd T)) (sys_close os fd)
           (keeps (fs, os, opn, bs) S T)"
  using assms by (auto simp: tri_def sys_close_def sys_def good.simps kernel_okD)

lemma good_weaken: "good c S U w \<Longrightarrow> T \<subseteq> U \<Longrightarrow> good c S T w"
  by (cases c) (auto simp: good.simps)

lemma tri_close_untrusted:
  assumes "fd \<notin> T" and "\<not> fs_use_openat2 fs"
  shows "tri (fs, os, opn, bs) (good (fs, os, opn, bs) S T) (close_fd os fd) (keeps (fs, os, opn, bs) S T)"
  using assms by (auto simp: tri_def close_fd_def sys_close_def sys_def ubind_def uret_def good.simps kernel_okD)

lemma tri_close_fd:
  assumes "fd \<notin> T" and "fs_use_openat2 fs \<longrightarrow> fd \<notin> S"
  shows "tri (fs, os, opn, bs) (good (fs, os, opn, bs) (insert fd S) (insert fd T)) (close_fd os fd)
           (keeps (fs, os, opn, bs) S T)"
  unfolding close_fd_def by (rule tri_bind [OF tri_sys_close]) (use assms in \<open>auto intro: tri_ret\<close>)

lemma tri_then_close:
  assumes "fd \<notin> T" and "fs_use_openat2 fs \<longrightarrow> fd \<notin> S"
    and "tri (fs, os, opn, bs) (good (fs, os, opn, bs) S T) m Q"
  shows "tri (fs, os, opn, bs) (good (fs, os, opn, bs) (insert fd S) (insert fd T))
           (ubind (close_fd os fd) (\<lambda>_. m)) Q"
  by (rule tri_bind [OF tri_close_fd [OF assms(1,2)]]) (simp add: assms(3))

lemma close_all_Cons: "close_all os (fd # fds) = ubind (sys_close os fd) (\<lambda>_. close_all os fds)"
  by (simp add: close_all_def)

lemma tri_close_all:
  assumes "distinct fds" and "set fds \<inter> T = {}" and "fs_use_openat2 fs \<longrightarrow> set fds \<inter> S = {}"
  shows "tri (fs, os, opn, bs) (good (fs, os, opn, bs) (set fds \<union> S) (set fds \<union> T)) (close_all os fds)
           (keeps (fs, os, opn, bs) S T)"
  using assms
proof (induction fds)
  case Nil
  then show ?case by (simp add: close_all_def tri_ret)
next
  case (Cons fd fds)
  show ?case unfolding close_all_Cons
  proof (rule tri_bind)
    show "tri (fs, os, opn, bs) (good (fs, os, opn, bs) (set (fd # fds) \<union> S) (set (fd # fds) \<union> T))
        (sys_close os fd) (keeps (fs, os, opn, bs) (set fds \<union> S) (set fds \<union> T))"
      using tri_sys_close [of fd "set fds \<union> T" fs "set fds \<union> S" os opn bs] Cons.prems by simp
  qed (use Cons in auto)
qed

section \<open>Resolving\<close>

lemma path_split_join:
  assumes "slash \<notin> set c"
  shows "path_split (join_char slash (ds @ [c])) =
           (if ds = [] then [] else join_char slash ds @ [slash], c)"
proof -
  have tw: "takeWhile (\<lambda>x. x \<noteq> slash) (rev c @ zs) = rev c @ takeWhile (\<lambda>x. x \<noteq> slash) zs" for zs
    using assms by (intro takeWhile_append2) auto
  have "rev (takeWhile (\<lambda>x. x \<noteq> slash) (rev c)) = c"
    using tw [of "[]"] by (metis append_Nil2 rev_rev_ident takeWhile.simps(1))
  then show ?thesis
    using tw [of "slash # rev (join_char slash ds)"]
    by (cases "ds = []") (simp_all add: path_split_def Let_def join_char_snoc)
qed

lemma path_split_safe:
  assumes "safe_rel name" and "path_split name = (dir, file)"
  shows "single file" and "dir \<noteq> [] \<Longrightarrow> safe_rel (trim_suffix dir ''/'')"
proof -
  have "single file \<and> (dir \<noteq> [] \<longrightarrow> safe_rel (trim_suffix dir ''/''))"
  proof (cases "name = ''.''")
    case True
    then show ?thesis using assms(2) by (auto simp: path_split_def single_def)
  next
    case False
    then have pr: "list_all proper_comp (split_char slash name)" using assms(1) by (simp add: safe_rel_def)
    obtain ds c where cs: "split_char slash name = ds @ [c]"
      by (metis append_butlast_last_id split_char_neq_Nil)
    then have n: "name = join_char slash (ds @ [c])" by (metis join_split)
    have c: "proper_comp c" and ds: "list_all proper_comp ds" using pr cs by simp_all
    then have eq: "dir = (if ds = [] then [] else join_char slash ds @ [slash])" "file = c"
      using path_split_join [of c ds] assms(2) n by (auto simp: proper_comp_def)
    have "safe_rel (join_char slash ds)" if "ds \<noteq> []"
    proof -
      have "split_char slash (join_char slash ds) = ds"
        using ds that by (intro split_join) (auto simp: list_all_iff proper_comp_def)
      then show ?thesis using ds that by (simp add: safe_rel_def join_char_eq_Nil)
    qed
    with eq c show ?thesis by (auto simp: single_def)
  qed
  then show "single file" and "dir \<noteq> [] \<Longrightarrow> safe_rel (trim_suffix dir ''/'')" by simp_all
qed

text \<open>The base directory, opened by its own path.\<close>

lemma tri_open_base:
  "tri (fs, os, opn, bs) (good (fs, os, opn, bs) S T) (u_openat os d (fs_base fs) {O_DIRECTORY} m)
     (gains (fs, os, opn, bs) file_fds S T)"
proof (rule triI)
  fix w :: "('a, 'b) fsw_scheme"
  assume g: "good (fs, os, opn, bs) S T w"
  let ?fl = "insert O_CLOEXEC {O_DIRECTORY}"
  obtain r k1 where f: "os_openat os d (fs_base fs) ?fl m (kst w) = (r, k1)"
    by (cases "os_openat os d (fs_base fs) ?fl m (kst w)")
  have fr: "opens_fresh opn (os_openat os d (fs_base fs) ?fl m)"
    using g by (simp add: good.simps kernel_okD)
  have run: "u_openat os d (fs_base fs) {O_DIRECTORY} m w =
      (Some (open_answer ''openat'' (fs_base fs) r),
       w\<lparr>kst := k1, calls := calls w @ [COpenat d (fs_base fs) ?fl m r]\<rparr>)"
    by (simp add: u_openat_def ubind_def sys_def uret_def f)
  show "case u_openat os d (fs_base fs) {O_DIRECTORY} m w of
        (Some r, w1) \<Rightarrow> gains (fs, os, opn, bs) file_fds S T r w1
        | (None, w1) \<Rightarrow> all_allowed (fst (fs, os, opn, bs)) (calls w1)"
  proof (cases r)
    case (Inl e)
    then show ?thesis
      using g opens_freshD(1) [OF fr] f open_answer_Inl [OF Inl, of "''openat''" "fs_base fs"]
      by (auto simp: run good.simps)
  next
    case (Inr fd)
    then have "fd \<notin> opn (kst w)" "opn k1 = insert fd (opn (kst w))"
      using opens_freshD(2) [OF fr] f by auto
    then show ?thesis
      using g Inr by (auto simp: run good.simps gains_def open_answer_def)
  qed
qed

fun resolved_to :: "'k setting \<Rightarrow> int set \<Rightarrow> int set \<Rightarrow> safe_result \<Rightarrow> ('k, 'm) fsw_scheme \<Rightarrow> bool" where
  "resolved_to c S T (d, n, cl, err) w \<longleftrightarrow>
     good c (set cl \<union> S) (set cl \<union> T) w \<and> distinct cl \<and> set cl \<inter> T = {}
     \<and> (fs_use_openat2 (fst c) \<longrightarrow> set cl \<inter> S = {}) \<and> (err = None \<longrightarrow> d \<in> set cl \<and> single n)"

lemma resolved_to_none [simp]: "resolved_to c S T (d, n, [], Some e) = good c S T"
  by (simp add: fun_eq_iff)

lemma tri_resolve_parent:
  assumes "safe_rel dir" and "single file"
  shows "tri (fs, os, opn, bs) (gains (fs, os, opn, bs) file_fds S T (Inr b))
     (ubind (openat fs os b dir {O_DIRECTORY} 0)
        (\<lambda>(d, err). uret (d, file, if err \<noteq> None then [b] else [d, b], err)))
     (resolved_to (fs, os, opn, bs) S T)"
proof -
  let ?c = "(fs, os, opn, bs)"
  have ok: "open_ok (insert b T) b dir (insert O_NOFOLLOW {O_DIRECTORY})"
    using assms by (auto simp: open_ok_def)
  show ?thesis
  proof (rule triI)
    fix w :: "('a, 'b) fsw_scheme"
    assume "gains ?c file_fds S T (Inr b) w"
    then have g: "good ?c (insert b S) (insert b T) w" and b: "b \<notin> T" "fs_use_openat2 fs \<longrightarrow> b \<notin> S"
      by (auto simp: gains_def)
    have "case openat fs os b dir {O_DIRECTORY} 0 w of
        (Some r, w1) \<Rightarrow> opened ?c (insert b S) (insert b T) r w1 | (None, w1) \<Rightarrow> all_allowed (fst ?c) (calls w1)"
      by (rule triD [OF tri_openat [OF ok] g])
    then show "case ubind (openat fs os b dir {O_DIRECTORY} 0)
        (\<lambda>(d, err). uret (d, file, if err \<noteq> None then [b] else [d, b], err)) w of
        (Some r, w1) \<Rightarrow> resolved_to ?c S T r w1 | (None, w1) \<Rightarrow> all_allowed (fst ?c) (calls w1)"
      using b assms(2)
      by (auto simp: ubind_def uret_def opened_def gains_def insert_commute
          split: prod.splits option.splits)
  qed
qed

lemma tri_safe_path:
  "tri (fs, os, opn, bs) (good (fs, os, opn, bs) S T) (safe_path fs os path)
     (resolved_to (fs, os, opn, bs) S T)"
proof (cases "unsafe_path fs path")
  case (Inl e)
  then show ?thesis by (cases e) (simp add: safe_path_def tri_ret)
next
  case (Inr name)
  obtain dir fname where sp: "path_split name = (dir, fname)" by (cases "path_split name")
  have safe: "safe_rel name" if "good_base fs bs" using unsafe_path_safe_rel [OF that Inr] .
  show ?thesis
  proof (cases "good_base fs bs")
    case False
    then show ?thesis by (simp add: tri_def good.simps)
  next
    case True
    note parts = path_split_safe [OF safe [OF True] sp]
    show ?thesis unfolding safe_path_def Inr sum.case sp prod.case Let_def
    proof (rule tri_bind [OF tri_open_base], rule tri_sum)
      fix x :: "fs_err + int" and b
      assume "x = Inr b"
      then show "tri (fs, os, opn, bs) (gains (fs, os, opn, bs) file_fds S T x)
         (if dir = [] then uret (b, fname, [b], None)
          else ubind (openat fs os b (trim_suffix dir ''/'') {O_DIRECTORY} 0)
                 (\<lambda>(dirfd, err). uret (dirfd, fname, if err \<noteq> None then [b] else [dirfd, b], err)))
         (resolved_to (fs, os, opn, bs) S T)"
        using tri_resolve_parent parts by (auto intro!: tri_ret simp: gains_def)
    qed (auto intro!: tri_ret)
  qed
qed

section \<open>Operations on a resolved path\<close>

lemma tri_pre:
  assumes "\<And>w. P' w \<Longrightarrow> A \<and> P w" and "A \<Longrightarrow> tri c P m Q"
  shows "tri c P' m Q"
proof (rule triI)
  fix w assume "P' w"
  then show "case m w of (Some r, w1) \<Rightarrow> Q r w1 | (None, w1) \<Rightarrow> all_allowed (fst c) (calls w1)"
    using assms(1) [of w] by (intro triD [OF assms(2)]) auto
qed

lemma tri_closing:
  assumes "distinct cl" and "set cl \<inter> T = {}" and "fs_use_openat2 fs \<longrightarrow> set cl \<inter> S = {}"
  shows "tri (fs, os, opn, bs) (gains (fs, os, opn, bs) F (set cl \<union> S) (set cl \<union> T) r)
           (ubind (close_all os cl) (\<lambda>_. uret r)) (gains (fs, os, opn, bs) F S T)"
proof (rule tri_pre [where A = "F r \<inter> (set cl \<union> T) = {} \<and> (fs_use_openat2 fs \<longrightarrow> F r \<inter> (set cl \<union> S) = {})"
      and P = "good (fs, os, opn, bs) (set cl \<union> (F r \<union> S)) (set cl \<union> (F r \<union> T))"])
  assume a: "F r \<inter> (set cl \<union> T) = {} \<and> (fs_use_openat2 fs \<longrightarrow> F r \<inter> (set cl \<union> S) = {})"
  show "tri (fs, os, opn, bs) (good (fs, os, opn, bs) (set cl \<union> (F r \<union> S)) (set cl \<union> (F r \<union> T)))
      (ubind (close_all os cl) (\<lambda>_. uret r)) (gains (fs, os, opn, bs) F S T)"
  proof (rule tri_bind)
    show "tri (fs, os, opn, bs) (good (fs, os, opn, bs) (set cl \<union> (F r \<union> S)) (set cl \<union> (F r \<union> T)))
        (close_all os cl) (keeps (fs, os, opn, bs) (F r \<union> S) (F r \<union> T))"
      using a assms by (intro tri_close_all) auto
  qed (use a in \<open>auto intro!: tri_ret simp: gains_def\<close>)
qed (unfold gains_def Un_left_commute [of "set cl" "F r"] fst_conv, blast)

text \<open>\<open>defer closeFd()\<close> around a body, from the answer of \<open>safePath\<close> on.\<close>

lemma tri_deferred_close:
  assumes "\<And>S T. d \<in> T \<Longrightarrow> single n \<Longrightarrow>
      tri (fs, os, opn, bs) (good (fs, os, opn, bs) S T) body (gains (fs, os, opn, bs) F S T)"
    and "\<And>e. F (fail e) = {}"
  shows "tri (fs, os, opn, bs) (resolved_to (fs, os, opn, bs) S T (d, n, cl, err))
           (ubind (case err of Some e \<Rightarrow> uret (fail e) | None \<Rightarrow> body)
              (\<lambda>r. ubind (close_all os cl) (\<lambda>_. uret r)))
           (gains (fs, os, opn, bs) F S T)"
proof (rule tri_pre [where P = "good (fs, os, opn, bs) (set cl \<union> S) (set cl \<union> T)"
      and A = "distinct cl \<and> set cl \<inter> T = {} \<and> (fs_use_openat2 fs \<longrightarrow> set cl \<inter> S = {})
               \<and> (err = None \<longrightarrow> d \<in> set cl \<and> single n)"])
  assume a: "distinct cl \<and> set cl \<inter> T = {} \<and> (fs_use_openat2 fs \<longrightarrow> set cl \<inter> S = {})
      \<and> (err = None \<longrightarrow> d \<in> set cl \<and> single n)"
  show "tri (fs, os, opn, bs) (good (fs, os, opn, bs) (set cl \<union> S) (set cl \<union> T))
      (ubind (case err of Some e \<Rightarrow> uret (fail e) | None \<Rightarrow> body)
         (\<lambda>r. ubind (close_all os cl) (\<lambda>_. uret r)))
      (gains (fs, os, opn, bs) F S T)"
  proof (rule tri_bind [where R = "gains (fs, os, opn, bs) F (set cl \<union> S) (set cl \<union> T)"])
    show "tri (fs, os, opn, bs) (good (fs, os, opn, bs) (set cl \<union> S) (set cl \<union> T))
        (case err of Some e \<Rightarrow> uret (fail e) | None \<Rightarrow> body)
        (gains (fs, os, opn, bs) F (set cl \<union> S) (set cl \<union> T))"
      using a assms by (cases err) (auto intro!: tri_ret)
  qed (rule tri_closing; use a in simp)
qed simp

lemma tri_with_safe_path:
  assumes "\<And>d n S T. d \<in> T \<Longrightarrow> single n \<Longrightarrow>
      tri (fs, os, opn, bs) (good (fs, os, opn, bs) S T) (body d n) (gains (fs, os, opn, bs) F S T)"
    and "\<And>e. F (fail e) = {}"
  shows "tri (fs, os, opn, bs) (good (fs, os, opn, bs) S T) (with_safe_path fs os path fail body)
           (gains (fs, os, opn, bs) F S T)"
  unfolding with_safe_path_def
proof (rule tri_bind [OF tri_safe_path])
  fix x :: safe_result
  obtain d n cl err where x: "x = (d, n, cl, err)" by (cases x)
  show "tri (fs, os, opn, bs) (resolved_to (fs, os, opn, bs) S T x)
      (case x of (d, n, cl, err) \<Rightarrow>
         ubind (case err of None \<Rightarrow> body d n | Some e \<Rightarrow> uret (fail e))
           (\<lambda>r. ubind (close_all os cl) (\<lambda>_. uret r)))
      (gains (fs, os, opn, bs) F S T)"
    unfolding x prod.case using assms by (intro tri_deferred_close) auto
qed

lemma tri_with_safe_path_keeps:
  assumes "\<And>d n S T. d \<in> T \<Longrightarrow> single n \<Longrightarrow>
      tri (fs, os, opn, bs) (good (fs, os, opn, bs) S T) (body d n) (keeps (fs, os, opn, bs) S T)"
  shows "tri (fs, os, opn, bs) (good (fs, os, opn, bs) S T) (with_safe_path fs os path fail body)
           (keeps (fs, os, opn, bs) S T)"
  by (rule tri_with_safe_path) (use assms in auto)

text \<open>The operations that leave the descriptors as they were.\<close>

abbreviation confined :: "'k setting \<Rightarrow> ('k, 'm, 'a) fio \<Rightarrow> bool" where
  "confined c m \<equiv> (\<forall>S T. tri c (good c S T) m (keeps c S T))"

lemma confined_bind: "confined c m \<Longrightarrow> (\<And>x. confined c (f x)) \<Longrightarrow> confined c (ubind m f)"
  by (blast intro: tri_bind_keeps)

lemma confined_with_safe_path:
  assumes "\<And>d n S T. d \<in> T \<Longrightarrow> single n \<Longrightarrow>
      tri (fs, os, opn, bs) (good (fs, os, opn, bs) S T) (body d n) (keeps (fs, os, opn, bs) S T)"
  shows "confined (fs, os, opn, bs) (with_safe_path fs os path fail body)"
  using tri_with_safe_path_keeps assms by blast

lemma confined_ret: "confined c (uret x)" by (simp add: tri_ret)

lemma confined_option: "m = None \<or> (\<exists>x. m = Some x) \<Longrightarrow> confined c f \<Longrightarrow> (\<And>x. confined c (g x)) \<Longrightarrow>
    confined c (case m of None \<Rightarrow> f | Some x \<Rightarrow> g x)"
  by (cases m) auto

lemma confined_attributes:
  "confined (fs, os, opn, bs) (chmod fs os p m)"
  "confined (fs, os, opn, bs) (lchown fs os p uid gid)"
  "confined (fs, os, opn, bs) (mkdir fs os p m)"
  unfolding chmod_def fchmodat_def mkdir_def mkdirat_def lchown_def fchown_def
  by (intro confined_bind confined_with_safe_path confined_ret tri_bind_keeps sandbox_intros; simp)+

lemma confined_stat:
  "confined (fs, os, opn, bs) (stat fs os p)"
  "confined (fs, os, opn, bs) (lstat fs os p)"
  unfolding stat_def lstat_def u_fstat_def
  by (intro confined_with_safe_path sandbox_intros; simp)+

lemma confined_mkdir_exists: "confined (fs, os, opn, bs) (mkdir_exists fs os p)"
  unfolding mkdir_exists_def
  by (intro confined_bind confined_stat)
     (auto split: sum.split intro!: confined_bind [rule_format] confined_stat [rule_format] tri_ret_keeps)

lemma confined_if: "(b \<Longrightarrow> confined c f) \<Longrightarrow> (\<not> b \<Longrightarrow> confined c g) \<Longrightarrow> confined c (if b then f else g)"
  by simp

lemma confined_case_option:
  "confined c f \<Longrightarrow> (\<And>x. confined c (g x)) \<Longrightarrow> confined c (case m of None \<Rightarrow> f | Some x \<Rightarrow> g x)"
  by (cases m) auto

lemma confined_case_sum:
  "(\<And>x. confined c (f x)) \<Longrightarrow> (\<And>x. confined c (g x)) \<Longrightarrow> confined c (case m of Inl x \<Rightarrow> f x | Inr x \<Rightarrow> g x)"
  by (cases m) auto

lemma confined_case_prod:
  "(\<And>x y. confined c (f x y)) \<Longrightarrow> confined c (case p of (x, y) \<Rightarrow> f x y)"
  by (cases p) auto

lemmas confined_rules = confined_bind confined_ret confined_if confined_case_option confined_case_sum
  confined_case_prod

lemma confined_mkdir_last: "confined (fs, os, opn, bs) (mkdir_last fs os p m)"
  unfolding mkdir_last_def by (intro confined_rules confined_attributes confined_stat)

lemma confined_mkdir_all_rec: "confined (fs, os, opn, bs) (mkdir_all_rec fs os m p)"
proof (induction fs os m p rule: mkdir_all_rec.induct)
  case (1 fs os m p)
  show ?case unfolding mkdir_all_rec.simps [of fs os m p]
    by (intro confined_rules confined_mkdir_exists confined_mkdir_last 1)
qed

lemma confined_resolving:
  "(\<And>n. confined c (body n)) \<Longrightarrow> confined c (resolving fs p body)"
  unfolding resolving_def by (cases "unsafe_path fs p") (auto split: path_error.split intro: tri_ret_keeps)

lemma confined_mkdir_all: "confined (fs, os, opn, bs) (mkdir_all fs os p m)"
  unfolding mkdir_all_def by (intro confined_resolving confined_mkdir_all_rec)

lemma confined_remove:
  "confined (fs, os, opn, bs) (remove fs os p)" "confined (fs, os, opn, bs) (remove_stat fs os p)"
  unfolding remove_def remove_stat_def
  by (intro confined_with_safe_path tri_bind_keeps tri_if tri_sum sandbox_intros; simp)+

lemma confined_symlink: "confined (fs, os, opn, bs) (symlink fs os t p)"
  unfolding symlink_def
  by (intro confined_with_safe_path tri_bind_keeps sandbox_intros) auto

section \<open>Files\<close>

lemma single_open_ok: "d \<in> T \<Longrightarrow> single n \<Longrightarrow> open_ok T d n (insert O_NOFOLLOW fl)"
  by (simp add: open_ok_def)

lemma tri_open_fileat:
  assumes "d \<in> T" and "single n"
  shows "tri (fs, os, opn, bs) (good (fs, os, opn, bs) S T) (open_fileat fs os d n fl m)
           (gains (fs, os, opn, bs) file_fds S T)"
  unfolding open_fileat_def
  by (rule tri_bind [OF tri_openat [OF single_open_ok [OF assms]]])
     (auto intro!: tri_ret simp: opened_def file_of_def gains_def split: option.splits)

lemma tri_open_file:
  "tri (fs, os, opn, bs) (good (fs, os, opn, bs) S T) (open_file fs os p fl m)
     (gains (fs, os, opn, bs) file_fds S T)"
  unfolding open_file_def by (intro tri_with_safe_path tri_open_fileat) auto

lemma tri_touch_path:
  "tri (fs, os, opn, bs) (good (fs, os, opn, bs) S T) (touch_path fs os p)
     (\<lambda>r. resolved_to (fs, os, opn, bs) S T (fst r))"
  unfolding touch_path_def
proof (rule tri_bind [OF tri_safe_path])
  let ?c = "(fs, os, opn, bs)"
  fix x :: safe_result
  obtain d n cl err where x: "x = (d, n, cl, err)" by (cases x)
  have retry: "tri ?c (resolved_to ?c S T (d, n, cl, Some e))
      (ubind (mkdir_all fs os missing 0x1ED)
         (\<lambda>e2. case e2 of
                 None \<Rightarrow> ubind (close_all os cl) (\<lambda>_. ubind (safe_path fs os p) (\<lambda>r. uret (r, False)))
               | Some e3 \<Rightarrow> uret ((d, n, cl, Some e3), False)))
      (\<lambda>r. resolved_to ?c S T (fst r))" for e missing
  proof (rule tri_pre [where P = "good ?c (set cl \<union> S) (set cl \<union> T)"
        and A = "distinct cl \<and> set cl \<inter> T = {} \<and> (fs_use_openat2 fs \<longrightarrow> set cl \<inter> S = {})"])
    assume a: "distinct cl \<and> set cl \<inter> T = {} \<and> (fs_use_openat2 fs \<longrightarrow> set cl \<inter> S = {})"
    have again: "tri ?c (good ?c (set cl \<union> S) (set cl \<union> T))
        (ubind (close_all os cl) (\<lambda>_. ubind (safe_path fs os p) (\<lambda>r. uret (r, False))))
        (\<lambda>r. resolved_to ?c S T (fst r))"
      by (rule tri_bind [OF tri_close_all]) (use a in \<open>auto intro!: tri_bind [OF tri_safe_path] tri_ret\<close>)
    show "tri ?c (good ?c (set cl \<union> S) (set cl \<union> T))
      (ubind (mkdir_all fs os missing 0x1ED)
         (\<lambda>e2. case e2 of
                 None \<Rightarrow> ubind (close_all os cl) (\<lambda>_. ubind (safe_path fs os p) (\<lambda>r. uret (r, False)))
               | Some e3 \<Rightarrow> uret ((d, n, cl, Some e3), False)))
      (\<lambda>r. resolved_to ?c S T (fst r))"
      by (rule tri_bind_keeps [OF confined_mkdir_all [rule_format]], rule tri_option)
         (use a again in \<open>auto intro!: tri_ret\<close>)
  qed simp
  show "tri ?c (resolved_to ?c S T x)
     (case x of (dirfd, name, close_fds, err) \<Rightarrow>
        case err of
          None \<Rightarrow> uret ((dirfd, name, close_fds, None), True)
        | Some e \<Rightarrow>
            if \<not> errors_is e ErrNotExist then uret ((dirfd, name, close_fds, Some e), False)
            else (case as_path_error e of
                    None \<Rightarrow> uret ((dirfd, name, close_fds, Some e), False)
                  | Some (op, missing, c) \<Rightarrow>
                      ubind (mkdir_all fs os missing 0x1ED)
                        (\<lambda>e2. case e2 of
                                Some e3 \<Rightarrow> uret ((dirfd, name, close_fds, Some e3), False)
                              | None \<Rightarrow>
                                  ubind (close_all os close_fds)
                                    (\<lambda>_. ubind (safe_path fs os p) (\<lambda>r. uret (r, False))))))
     (\<lambda>r. resolved_to ?c S T (fst r))"
    unfolding x prod.case
    by (intro tri_if tri_option tri_ret; (clarsimp simp del: resolved_to.simps)?) (auto intro: retry tri_ret)
qed

lemma tri_touch:
  "tri (fs, os, opn, bs) (good (fs, os, opn, bs) S T) (touch fs os p fl m)
     (gains (fs, os, opn, bs) file_fds S T)"
  unfolding touch_def
proof (rule tri_bind [OF tri_touch_path], goal_cases)
  case (1 x)
  obtain d n cl err existed where x: "x = ((d, n, cl, err), existed)" by (metis surj_pair)
  show ?case unfolding x prod.case fst_conv by (intro tri_deferred_close tri_open_fileat) auto
qed

section \<open>Renaming\<close>

lemma tri_rename_target:
  "tri (fs, os, opn, bs) (good (fs, os, opn, bs) S T) (rename_target fs os p)
     (resolved_to (fs, os, opn, bs) S T)"
  unfolding rename_target_def
proof (rule tri_bind [OF tri_safe_path])
  let ?c = "(fs, os, opn, bs)"
  fix x :: safe_result
  obtain d n cl err where x: "x = (d, n, cl, err)" by (cases x)
  have retry: "tri ?c (resolved_to ?c S T (d, n, cl, Some e))
      (ubind (close_all os cl) (\<lambda>_. body)) (resolved_to ?c S T)"
    if body: "tri ?c (good ?c S T) body (resolved_to ?c S T)" for e body
  proof (rule tri_pre [where P = "good ?c (set cl \<union> S) (set cl \<union> T)"
        and A = "distinct cl \<and> set cl \<inter> T = {} \<and> (fs_use_openat2 fs \<longrightarrow> set cl \<inter> S = {})"])
    assume a: "distinct cl \<and> set cl \<inter> T = {} \<and> (fs_use_openat2 fs \<longrightarrow> set cl \<inter> S = {})"
    show "tri ?c (good ?c (set cl \<union> S) (set cl \<union> T)) (ubind (close_all os cl) (\<lambda>_. body)) (resolved_to ?c S T)"
      by (rule tri_bind [OF tri_close_all]) (use a body in simp_all)
  qed simp
  have again: "tri ?c (good ?c S T)
      (ubind (mkdir_all fs os missing 0x1ED)
         (\<lambda>e2. case e2 of None \<Rightarrow> safe_path fs os p | Some e3 \<Rightarrow> uret (d, n, [], Some e3)))
      (resolved_to ?c S T)" for missing
    by (rule tri_bind_keeps [OF confined_mkdir_all [rule_format]], rule tri_option)
       (auto intro!: tri_ret tri_safe_path)
  have second: "tri ?c (good ?c S T)
      (if \<not> errors_is e ErrNotExist then uret (d, n, [], Some e)
       else (case as_path_error e of
               None \<Rightarrow> uret (d, n, [], Some e)
             | Some (op, missing, c) \<Rightarrow>
                 ubind (mkdir_all fs os missing 0x1ED)
                   (\<lambda>e2. case e2 of None \<Rightarrow> safe_path fs os p | Some e3 \<Rightarrow> uret (d, n, [], Some e3))))
      (resolved_to ?c S T)" for e
    by (intro tri_if tri_option) (auto intro!: tri_ret again split: prod.split)
  show "tri ?c (resolved_to ?c S T x)
     (case x of (newdirfd, newname, close_fds, err) \<Rightarrow>
        case err of
          None \<Rightarrow> uret (newdirfd, newname, close_fds, None)
        | Some e \<Rightarrow>
            ubind (close_all os close_fds)
              (\<lambda>_. if \<not> errors_is e ErrNotExist then uret (newdirfd, newname, [], Some e)
                   else (case as_path_error e of
                           None \<Rightarrow> uret (newdirfd, newname, [], Some e)
                         | Some (op, missing, c) \<Rightarrow>
                             ubind (mkdir_all fs os missing 0x1ED)
                               (\<lambda>e2. case e2 of
                                       None \<Rightarrow> safe_path fs os p
                                     | Some e3 \<Rightarrow> uret (newdirfd, newname, [], Some e3)))))
     (resolved_to ?c S T)"
    unfolding x prod.case
    by (cases err; simp only: option.case) (rule tri_ret, simp, rule retry [OF second])
qed

lemma tri_rename_to:
  assumes "d \<in> T" "single n" "d1 \<in> T" "single n1"
  shows "tri (fs, os, opn, bs) (good (fs, os, opn, bs) S T) (rename_to os p q d n d1 n1)
           (keeps (fs, os, opn, bs) S T)"
  unfolding rename_to_def
  by (intro tri_if tri_ret_keeps tri_bind_keeps tri_sum tri_lstatat tri_sys_at) (use assms in simp_all)

lemma confined_rename: "confined (fs, os, opn, bs) (rename fs os p q)"
proof -
  let ?c = "(fs, os, opn, bs)"
  have target: "tri ?c (good ?c S T)
     (ubind (rename_target fs os q)
        (\<lambda>(d1, n1, cl, err).
           ubind (case err of Some e \<Rightarrow> uret (Some e) | None \<Rightarrow> rename_to os p q d n d1 n1)
             (\<lambda>e. ubind (close_all os cl) (\<lambda>_. uret e))))
     (keeps ?c S T)" if d: "d \<in> T" "single n" for d n S T
  proof (rule tri_bind [OF tri_rename_target])
    fix x :: safe_result
    obtain d1 n1 cl err where x: "x = (d1, n1, cl, err)" by (cases x)
    show "tri ?c (resolved_to ?c S T x)
      (case x of (d1, n1, cl, err) \<Rightarrow>
         ubind (case err of None \<Rightarrow> rename_to os p q d n d1 n1 | Some e \<Rightarrow> uret (Some e))
           (\<lambda>e. ubind (close_all os cl) (\<lambda>_. uret e)))
      (keeps ?c S T)"
    proof (rule tri_pre [where P = "good ?c (set cl \<union> S) (set cl \<union> T)"
        and A = "distinct cl \<and> set cl \<inter> T = {} \<and> (fs_use_openat2 fs \<longrightarrow> set cl \<inter> S = {})
               \<and> (err = None \<longrightarrow> d1 \<in> set cl \<and> single n1)"])
      assume a: "distinct cl \<and> set cl \<inter> T = {} \<and> (fs_use_openat2 fs \<longrightarrow> set cl \<inter> S = {})
               \<and> (err = None \<longrightarrow> d1 \<in> set cl \<and> single n1)"
      show "tri ?c (good ?c (set cl \<union> S) (set cl \<union> T))
        (case x of (d1, n1, cl, err) \<Rightarrow>
           ubind (case err of None \<Rightarrow> rename_to os p q d n d1 n1 | Some e \<Rightarrow> uret (Some e))
             (\<lambda>e. ubind (close_all os cl) (\<lambda>_. uret e)))
        (keeps ?c S T)"
        unfolding x prod.case
      proof (rule tri_bind_keeps)
        show "tri ?c (good ?c (set cl \<union> S) (set cl \<union> T))
            (case err of None \<Rightarrow> rename_to os p q d n d1 n1 | Some e \<Rightarrow> uret (Some e))
            (keeps ?c (set cl \<union> S) (set cl \<union> T))"
          by (rule tri_option) (use a d in \<open>auto intro!: tri_rename_to [unfolded gains_empty] tri_ret\<close>)
        show "tri ?c (good ?c (set cl \<union> S) (set cl \<union> T)) (ubind (close_all os cl) (\<lambda>_. uret e))
            (keeps ?c S T)" for e
          by (rule tri_bind [OF tri_close_all]) (use a in \<open>auto intro!: tri_ret\<close>)
      qed
    qed (simp add: x)
  qed
  show ?thesis unfolding rename_def
    by (intro confined_if confined_ret confined_with_safe_path tri_if tri_ret_keeps tri_bind_keeps
        tri_sum tri_lstatat target)
qed

section \<open>Directories\<close>

definition entries_ok :: "fs_err + dir_entry list \<Rightarrow> bool" where
  "entries_ok r = (case r of Inl e \<Rightarrow> True | Inr es \<Rightarrow> (\<forall>e \<in> set es. proper_comp (en_name e)))"

abbreviation reads :: "'k setting \<Rightarrow> int set \<Rightarrow> int set \<Rightarrow> fs_err + dir_entry list
    \<Rightarrow> ('k, 'm) fsw_scheme \<Rightarrow> bool" where
  "reads c S T r \<equiv> (\<lambda>w. good c S T w \<and> entries_ok r)"

lemma tri_mode_from_dirent [sandbox_intros]:
  "d \<in> T \<Longrightarrow> single n \<Longrightarrow>
   tri (fs, os, opn, bs) (good (fs, os, opn, bs) S T) (mode_from_dirent os de d n)
     (keeps (fs, os, opn, bs) S T)"
  unfolding mode_from_dirent_def mode_type_of_def
  by (cases "sd_type de") (auto intro!: tri_ret_keeps tri_bind_keeps [OF tri_lstatat] simp del: gains_empty)

lemma tri_read_batch:
  assumes "fd \<in> T" and "\<And>d. d \<in> set ds \<Longrightarrow> slash \<notin> set (sd_name d)"
  shows "tri (fs, os, opn, bs) (good (fs, os, opn, bs) S T) (read_batch os fd name rel ds)
           (reads (fs, os, opn, bs) S T)"
  using assms(2)
proof (induction ds)
  case Nil
  then show ?case by (simp add: tri_ret entries_ok_def)
next
  case (Cons d ds)
  show ?case
  proof (cases "sd_ino d = 0 \<or> sd_name d = [] \<or> sd_name d = ''.'' \<or> sd_name d = dotdot")
    case True
    then have "read_batch os fd name rel (d # ds) = read_batch os fd name rel ds" by auto
    then show ?thesis using Cons by (metis list.set_intros(2))
  next
    case False
    then have p: "proper_comp (sd_name d)" using Cons.prems by (simp add: proper_comp_def)
    then have s: "single (sd_name d)" by (simp add: single_def)
    have no: "sd_ino d = 0 \<longleftrightarrow> False"
      "sd_name d = [] \<or> sd_name d = ''.'' \<or> sd_name d = dotdot \<longleftrightarrow> False" using False by auto
    show ?thesis unfolding read_batch.simps no if_False
    proof (rule_tac tri_bind_keeps [OF tri_mode_from_dirent [OF assms(1) s]],
        rule_tac tri_sum, goal_cases)
      case (1 x e)
      show ?case by (rule tri_ret) (simp add: entries_ok_def)
    next
      case (2 x m)
      show ?case
        by (rule tri_bind [OF Cons.IH], use Cons.prems in simp, rule tri_ret)
           (auto simp: entries_ok_def p split: sum.splits)
    qed
  qed
qed

lemma tri_getdents:
  assumes "fd \<in> T"
  shows "tri (fs, os, opn, bs) (good (fs, os, opn, bs) S T) (sys (os_getdents os fd) (\<lambda>_. CReaddir fd))
           (\<lambda>r w. good (fs, os, opn, bs) S T w \<and>
              (case r of Inl e \<Rightarrow> True | Inr ds \<Rightarrow> (\<forall>d \<in> set ds. slash \<notin> set (sd_name d))))"
proof (rule triI)
  fix w :: "('a, 'b) fsw_scheme"
  assume g: "good (fs, os, opn, bs) S T w"
  then have "opn (snd (os_getdents os fd (kst w))) = opn (kst w)"
    and "case fst (os_getdents os fd (kst w)) of Inl e \<Rightarrow> True | Inr ds \<Rightarrow> (\<forall>d \<in> set ds. slash \<notin> set (sd_name d))"
    by (simp_all add: good.simps kernel_ok_def keeps_open_def)
  then show "case sys (os_getdents os fd) (\<lambda>_. CReaddir fd) w of
      (Some r, w1) \<Rightarrow> good (fs, os, opn, bs) S T w1 \<and>
         (case r of Inl e \<Rightarrow> True | Inr ds \<Rightarrow> (\<forall>d \<in> set ds. slash \<notin> set (sd_name d)))
      | (None, w1) \<Rightarrow> all_allowed (fst (fs, os, opn, bs)) (calls w1)"
    using g assms by (auto simp: sys_def good.simps)
qed

lemma tri_read_dir_loop:
  assumes "fd \<in> T"
  shows "tri (fs, os, opn, bs) (good (fs, os, opn, bs) S T) (read_dir_loop os n fd name rel)
           (reads (fs, os, opn, bs) S T)"
proof (induction n)
  case 0
  show ?case by (auto intro: sandbox_intros)
next
  case (Suc n)
  show ?case unfolding read_dir_loop.simps
  proof (rule tri_bind [OF tri_getdents [OF assms]], rule tri_pure, rule tri_sum, goal_cases)
    case (1 x e)
    then show ?case using Suc by (auto intro!: tri_ret simp: entries_ok_def)
  next
    case (2 x ds)
    then have names: "\<And>d. d \<in> set ds \<Longrightarrow> slash \<notin> set (sd_name d)" by simp
    show ?case
    proof (rule tri_if, goal_cases)
      case 2
      show ?case
      proof (rule tri_bind [OF tri_read_batch [OF assms names]], simp, rule tri_pure, rule tri_sum, goal_cases)
        case (2 b es)
        show ?case
          by (rule tri_bind [OF Suc], rule tri_ret) (use 2 in \<open>auto simp: entries_ok_def split: sum.splits\<close>)
      qed (auto intro!: tri_ret simp: entries_ok_def)
    qed (auto intro!: tri_ret simp: entries_ok_def)
  qed
qed

lemma dir_open_ok: "d \<in> T \<Longrightarrow> single n \<Longrightarrow> open_ok T d n (insert O_NOFOLLOW {O_DIRECTORY})"
  by (rule single_open_ok)

lemma confined_read_dir: "confined (fs, os, opn, bs) (read_dir fs os p)"
  unfolding read_dir_def
proof (rule confined_with_safe_path)
  let ?c = "(fs, os, opn, bs)"
  fix d n and S T :: "int set"
  assume d: "d \<in> T" "single n"
  show "tri ?c (good ?c S T)
     (ubind (openat fs os d n {O_DIRECTORY} 0)
        (\<lambda>(fd, err). case err of
             None \<Rightarrow> ubind (read_dir_fd os fd n ''.'') (\<lambda>r. ubind (close_fd os fd) (\<lambda>_. uret r))
           | Some e \<Rightarrow> uret (Inl e)))
     (keeps ?c S T)"
  proof (rule tri_bind [OF tri_openat [OF dir_open_ok [OF d]]], goal_cases)
    case (1 x)
    obtain fd err where x: "x = (fd, err)" by (cases x)
    show ?case unfolding x prod.case
    proof (rule tri_option, goal_cases)
      case 1
      show ?case
      proof (rule tri_pre [where P = "good ?c (insert fd S) (insert fd T)"
          and A = "fd \<notin> T \<and> (fs_use_openat2 fs \<longrightarrow> fd \<notin> S)"])
        assume a: "fd \<notin> T \<and> (fs_use_openat2 fs \<longrightarrow> fd \<notin> S)"
        show "tri ?c (good ?c (insert fd S) (insert fd T))
            (ubind (read_dir_fd os fd n ''.'') (\<lambda>r. ubind (close_fd os fd) (\<lambda>_. uret r))) (keeps ?c S T)"
          unfolding read_dir_fd_def
          by (rule tri_bind [OF tri_read_dir_loop], simp, rule tri_pure, rule tri_bind [OF tri_close_fd])
             (use a in \<open>auto intro: tri_ret\<close>)
      qed (use 1 in \<open>auto simp: opened_def gains_def\<close>)
    next
      case (2 e)
      then show ?case by (auto intro!: tri_ret simp: opened_def)
    qed
  qed
qed

section \<open>Walking\<close>

text \<open>A callback that keeps the invariant when it is called inside a trusted directory.\<close>

definition walk_fn_ok :: "'k setting \<Rightarrow> ('k, 'm) walk_fn \<Rightarrow> bool" where
  "walk_fn_ok c fn \<longleftrightarrow>
     (\<forall>S T d n rel md err. d \<in> T \<longrightarrow> single n \<longrightarrow> tri c (good c S T) (fn d n rel md err) (keeps c S T))"

lemma walk_fn_okD:
  "walk_fn_ok c fn \<Longrightarrow> d \<in> T \<Longrightarrow> single n \<Longrightarrow> tri c (good c S T) (fn d n rel md err) (keeps c S T)"
  by (simp add: walk_fn_ok_def)

lemma tri_walk_children:
  assumes "\<And>d. d \<in> set ds \<Longrightarrow> tri c (good c S T) (visit d) (keeps c S T)"
  shows "tri c (good c S T) (walk_children visit ds) (keeps c S T)"
  using assms
proof (induction ds)
  case (Cons d ds)
  then have "tri c (good c S T) (visit d) (keeps c S T)"
    and "tri c (good c S T) (walk_children visit ds) (keeps c S T)" by (simp_all add: keeps_eq)
  then show ?case unfolding walk_children.simps
    by (intro tri_bind_keeps tri_if tri_ret_keeps)
qed (simp add: tri_ret)

text \<open>What happens inside an opened directory: read, report a failed read, visit the children.\<close>

lemma tri_walk_opened:
  assumes fn: "walk_fn_ok (fs, os, opn, bs) fn" and fd: "fd \<in> T" and n: "single name"
    and rec: "\<And>d1. proper_comp (en_name d1) \<Longrightarrow>
      tri (fs, os, opn, bs) (good (fs, os, opn, bs) S T) (visit d1) (keeps (fs, os, opn, bs) S T)"
  shows "tri (fs, os, opn, bs) (good (fs, os, opn, bs) S T)
     (ubind (read_dir_fd os fd name rel)
        (\<lambda>r. ubind (case r of
                      Inl e \<Rightarrow> ubind (fn fd name rel (Some d) (Some e)) (\<lambda>err. uret (err, []))
                    | Inr dirs \<Rightarrow> uret (None, dirs))
               (\<lambda>(err, dirs). if err \<noteq> None then uret (skip_here d err) else walk_children visit dirs)))
     (keeps (fs, os, opn, bs) S T)"
  unfolding read_dir_fd_def
proof (rule tri_bind [OF tri_read_dir_loop [OF fd]], rule tri_pure, goal_cases)
  case (1 r)
  show ?case
  proof (cases r)
    case (Inl e)
    show ?thesis unfolding Inl sum.case
      by (rule tri_bind [where R = "\<lambda>x w. good (fs, os, opn, bs) S T w \<and> snd x = []"])
         (auto intro!: tri_bind [OF walk_fn_okD [OF fn fd n]] tri_ret tri_pure)
  next
    case (Inr dirs)
    then have "\<forall>d \<in> set dirs. proper_comp (en_name d)" using 1 by (simp add: entries_ok_def)
    then have "tri (fs, os, opn, bs) (good (fs, os, opn, bs) S T) (walk_children visit dirs)
        (keeps (fs, os, opn, bs) S T)"
      using rec by (intro tri_walk_children) blast
    then show ?thesis unfolding Inr sum.case by (simp add: ubind_def uret_def)
  qed
qed

lemma tri_walk_dir:
  assumes fn: "walk_fn_ok (fs, os, opn, bs) fn"
  shows "d \<in> T \<Longrightarrow> single name \<Longrightarrow>
    tri (fs, os, opn, bs) (good (fs, os, opn, bs) S T) (walk_dir fs os fn n d name rel md)
      (keeps (fs, os, opn, bs) S T)"
proof (induction n arbitrary: d name rel md S T)
  case 0
  show ?case by (auto intro: sandbox_intros)
next
  case (Suc n)
  let ?c = "(fs, os, opn, bs)"
  show ?case unfolding walk_dir.simps
  proof (rule tri_bind_keeps [OF walk_fn_okD [OF fn Suc.prems]], rule tri_if, rule tri_ret_keeps,
      rule tri_bind [OF tri_openat [OF dir_open_ok [OF Suc.prems]]], goal_cases)
    case (1 err0 x)
    obtain fd err where x: "x = (fd, err)" by (cases x)
    have ended: "tri ?c (good ?c S T) (if fd \<noteq> 0 then ubind (close_fd os fd) (\<lambda>_. uret res) else uret res)
        (keeps ?c S T)" if "fd = 0 \<or> fd \<notin> T \<and> \<not> fs_use_openat2 fs" for res :: "walk_err option"
      using that by (auto intro!: tri_bind_keeps tri_ret_keeps tri_close_untrusted simp del: gains_empty)
    have closed: "tri ?c (good ?c (insert fd S) (insert fd T))
        (if fd \<noteq> 0 then ubind (close_fd os fd) (\<lambda>_. uret res) else uret res) (keeps ?c S T)"
      if "fd \<noteq> 0 \<and> fd \<notin> T \<and> (fs_use_openat2 fs \<longrightarrow> fd \<notin> S)" for res :: "walk_err option"
      using that by (auto intro!: tri_bind [OF tri_close_fd] tri_ret)
    show ?case unfolding x prod.case
    proof (cases err, goal_cases)
      case 1
      show ?case unfolding 1 option.case
      proof (rule tri_pre [where P = "good ?c (insert fd S) (insert fd T)"
            and A = "fd \<noteq> 0 \<and> fd \<notin> T \<and> (fs_use_openat2 fs \<longrightarrow> fd \<notin> S)"], goal_cases)
        case 2
        show ?case
          by (rule tri_bind_keeps [OF tri_walk_opened [OF fn _ Suc.prems(2) Suc.IH] closed [OF 2]])
             (simp_all add: single_def)
      qed (auto simp: opened_def gains_def)
    next
      case (2 e)
      show ?case unfolding 2 option.case
      proof (rule tri_pre [where P = "good ?c S T" and A = "fd = 0 \<or> fd \<notin> T \<and> \<not> fs_use_openat2 fs"], goal_cases)
        case 2
        show ?case by (intro tri_bind_keeps tri_ret_keeps ended 2)
      qed (simp add: opened_def)
    qed
  qed
qed

lemma tri_walk_dirat:
  assumes "walk_fn_ok (fs, os, opn, bs) fn" and "d \<in> T" and "single name"
  shows "tri (fs, os, opn, bs) (good (fs, os, opn, bs) S T) (walk_dirat fs os d name fn)
           (keeps (fs, os, opn, bs) S T)"
  unfolding walk_dirat_def
  by (intro tri_bind_keeps tri_lstatat tri_sum tri_walk_dir walk_fn_okD tri_ret_keeps assms)

end
