(* ===== verification/Ufs_Remove.thy ===== *)
theory Ufs_Remove
  imports Fs_Sandbox
begin

text \<open>
  The quota (\<open>src/internal/ufs/fs_quota.go\<close>), the recursive removal of \<open>removeall_unix.go\<close>, which runs
  over the interface \<open>unixFS\<close> so that the quota can account for every file it unlinks, and the
  properties of the whole sandbox: its confinement, its descriptors, the account of the quota.
\<close>

section \<open>The quota\<close>

text \<open>\<open>Quota\<close> embeds the filesystem: its world is that of the filesystem with two counters.\<close>

record 'k qfsw = "'k fsw" +
  q_limit :: int
  q_usage :: int

definition set_limit :: "int \<Rightarrow> ('k, 'z) qfsw_scheme \<Rightarrow> int \<times> ('k, 'z) qfsw_scheme" where
  "set_limit n w = (q_limit w, w\<lparr>q_limit := n\<rparr>)"

definition set_usage :: "int \<Rightarrow> ('k, 'z) qfsw_scheme \<Rightarrow> int \<times> ('k, 'z) qfsw_scheme" where
  "set_usage n w = (q_usage w, w\<lparr>q_usage := n\<rparr>)"

definition quota_add :: "int \<Rightarrow> ('k, 'z) qfsw_scheme \<Rightarrow> int \<times> ('k, 'z) qfsw_scheme" where
  "quota_add i w =
     (let usage = q_usage w
      in if wrap64 (usage + i) < 0 then (0, w\<lparr>q_usage := 0\<rparr>)
         else (wrap64 (q_usage w + i), w\<lparr>q_usage := wrap64 (q_usage w + i)\<rparr>))"

definition can_fit :: "int \<Rightarrow> ('k, 'z) qfsw_scheme \<Rightarrow> bool" where
  "can_fit sz w =
     (let limit = q_limit w
      in if limit = -1 then False
         else if limit = 0 then True
         else (let usage = q_usage w
               in if usage = -1 then True
                  else if wrap64 (usage + sz) \<le> limit then True
                  else False))"

definition account :: "int \<Rightarrow> ('k, 'z qfsw_ext, unit) fio" where
  "account i = (\<lambda>w. (Some (), snd (quota_add i w)))"

definition quota_remove :: "unix_fs \<Rightarrow> 'k os \<Rightarrow> string \<Rightarrow> ('k, 'z qfsw_ext, fs_err option) fio" where
  "quota_remove fs os name =
     ubind (remove_stat fs os name)
       (\<lambda>r. case r of
              Inl e \<Rightarrow> uret (Some e)
            | Inr s \<Rightarrow>
                if \<not> fi_is_regular s then uret None
                else ubind (account (wrap64 (- fi_size s))) (\<lambda>_. uret None))"

definition quota_unlinkat :: "'k os \<Rightarrow> int \<Rightarrow> string \<Rightarrow> bool \<Rightarrow> ('k, 'z qfsw_ext, errno + unit) fio" where
  "quota_unlinkat os dirfd name removedir =
     ubind (if \<not> removedir
            then ubind (lstatat os dirfd name)
                   (\<lambda>r. case r of
                          Inr s \<Rightarrow> if fi_is_regular s then account (wrap64 (- fi_size s)) else uret ()
                        | Inl _ \<Rightarrow> uret ())
            else uret ())
       (\<lambda>_. unlinkat os dirfd name removedir)"

section \<open>Removing a tree\<close>

text \<open>The interface that the recursive removal works with.\<close>

record ('k, 'm) unix_iface =
  if_open :: "string \<Rightarrow> ('k, 'm, fs_err + int) fio"
  if_remove :: "string \<Rightarrow> ('k, 'm, fs_err option) fio"
  if_unlinkat :: "int \<Rightarrow> string \<Rightarrow> bool \<Rightarrow> ('k, 'm, errno + unit) fio"

definition unix_fs_iface :: "unix_fs \<Rightarrow> 'k os \<Rightarrow> ('k, 'm) unix_iface" where
  "unix_fs_iface fs os =
     \<lparr>if_open = u_open fs os, if_remove = remove fs os, if_unlinkat = unlinkat os\<rparr>"

definition quota_iface :: "unix_fs \<Rightarrow> 'k os \<Rightarrow> ('k, 'z qfsw_ext) unix_iface" where
  "quota_iface fs os =
     \<lparr>if_open = u_open fs os, if_remove = quota_remove fs os, if_unlinkat = quota_unlinkat os\<rparr>"

definition open_fd_at :: "'k os \<Rightarrow> int \<Rightarrow> string \<Rightarrow> ('k, 'm, errno + int) fio" where
  "open_fd_at os dirfd name =
     ignoring_eintr (os_rounds os)
       (sys (os_openat os dirfd name {O_CLOEXEC, O_NOFOLLOW} 0) (COpenat dirfd name {O_CLOEXEC, O_NOFOLLOW} 0))"

definition eof :: fs_err where "eof = FsMessage ''EOF''"

text \<open>The loop over one batch of names counts the failures.\<close>

fun count_failures :: "(string \<Rightarrow> ('k, 'm, fs_err option) fio) \<Rightarrow> string list \<Rightarrow> ('k, 'm, nat) fio" where
  "count_failures rm [] = uret 0"
| "count_failures rm (name # names) =
     ubind (rm name)
       (\<lambda>err. ubind (count_failures rm names) (\<lambda>n. uret (if err \<noteq> None then Suc n else n)))"

text \<open>
  \<open>remove_all_from\<close> is \<open>removeAllFrom\<close>, \<open>remove_contents_from\<close> the outer loop of \<open>removeContentsFrom\<close>
  and \<open>remove_batches\<close> its inner loop, whose answer is the size of the last batch or the value to
  return. The error that \<open>removeContentsFrom\<close> remembers in \<open>recurseErr\<close> is never read: the function
  ends in \<open>return nil\<close>. Depth and rounds are both bounded by the fuel.
\<close>

fun remove_all_from :: "('k, 'm) unix_iface \<Rightarrow> 'k os \<Rightarrow> nat \<Rightarrow> int \<Rightarrow> string \<Rightarrow> ('k, 'm, fs_err option) fio"
  and remove_contents_from :: "('k, 'm) unix_iface \<Rightarrow> 'k os \<Rightarrow> nat \<Rightarrow> int \<Rightarrow> string \<Rightarrow> ('k, 'm, fs_err option) fio"
  and remove_batches :: "('k, 'm) unix_iface \<Rightarrow> 'k os \<Rightarrow> nat \<Rightarrow> int \<Rightarrow> string \<Rightarrow> ('k, 'm, fs_err option + nat) fio"
where
  "remove_all_from ifc os 0 parent base = ustuck"
| "remove_all_from ifc os (Suc n) parent base =
     ubind (if_unlinkat ifc parent base False)
       (\<lambda>r. case r of
              Inr _ \<Rightarrow> uret None
            | Inl e \<Rightarrow>
                if e = ENOENT then uret None
                else if e \<noteq> EISDIR \<and> e \<noteq> EPERM \<and> e \<noteq> EACCES
                then uret (Some (PathError ''unlinkat'' base (Errno e)))
                else ubind (ignoring_eintr (os_rounds os)
                              (sys (os_fstatat os parent base True) (CStat parent base True)))
                  (\<lambda>st. case st of
                          Inl se \<Rightarrow>
                            if se = ENOENT then uret None
                            else uret (Some (PathError ''fstatat'' base (Errno se)))
                        | Inr info \<Rightarrow>
                            if st_mode info AND s_ifmt \<noteq> s_ifdir
                            then uret (Some (PathError ''unlinkat'' base (Errno e)))
                            else ubind (remove_contents_from ifc os n parent base)
                              (\<lambda>recurse_err. ubind (if_unlinkat ifc parent base True)
                                 (\<lambda>u. case u of
                                        Inr _ \<Rightarrow> uret None
                                      | Inl ue \<Rightarrow>
                                          if ue = ENOENT then uret None
                                          else if recurse_err \<noteq> None then uret recurse_err
                                          else uret (ensure_path_error (Some (Errno e)) ''unlinkat'' base)))))"
| "remove_contents_from ifc os 0 parent base = ustuck"
| "remove_contents_from ifc os (Suc n) parent base =
     ubind (open_fd_at os parent base)
       (\<lambda>r. case r of
              Inl e \<Rightarrow> uret None
            | Inr fd \<Rightarrow>
                ubind (remove_batches ifc os n fd base)
                  (\<lambda>b. ubind (close_fd os fd)
                     (\<lambda>_. case b of
                            Inl res \<Rightarrow> uret res
                          | Inr resp_size \<Rightarrow>
                              if resp_size < 1024 then uret None
                              else remove_contents_from ifc os n parent base)))"
| "remove_batches ifc os 0 fd base = ustuck"
| "remove_batches ifc os (Suc n) fd base =
     ubind (sys (os_readdirnames os fd 1024) (\<lambda>_. CReaddir fd))
       (\<lambda>(names, read_err).
          case (if read_err = Some eof then None else read_err) of
            Some e \<Rightarrow>
              uret (Inl (if errors_is e ErrNotExist then None else Some (PathError ''readdirnames'' base e)))
          | None \<Rightarrow>
              ubind (count_failures (remove_all_from ifc os n fd) names)
                (\<lambda>num_err. if num_err \<noteq> 1024 then uret (Inr (length names))
                           else remove_batches ifc os n fd base))"

text \<open>An error of the recursion is given the path of the parent directory.\<close>

definition below_parent :: "string \<Rightarrow> string \<Rightarrow> string \<Rightarrow> fs_err \<Rightarrow> fs_err option" where
  "below_parent op parent_dir base e =
     (case e of
        PathError eop path c \<Rightarrow> convert_error_type (Some (PathError eop (parent_dir @ slash # path) c))
      | _ \<Rightarrow> ensure_path_error (Some e) op base)"

definition in_parent :: "('k, 'm) unix_iface \<Rightarrow> 'k os \<Rightarrow> string \<Rightarrow> string
    \<Rightarrow> (int \<Rightarrow> string \<Rightarrow> ('k, 'm, fs_err option) fio) \<Rightarrow> ('k, 'm, fs_err option) fio" where
  "in_parent ifc os op path body =
     (let (parent_dir, base) = split_path path
      in ubind (if_open ifc parent_dir)
           (\<lambda>r. case r of
                  Inl e \<Rightarrow> uret (if \<not> errors_is e ErrNotExist then Some e else None)
                | Inr parent \<Rightarrow>
                    ubind (body parent base)
                      (\<lambda>e. ubind (close_fd os parent)
                         (\<lambda>_. uret (case e of None \<Rightarrow> None | Some x \<Rightarrow> below_parent op parent_dir base x)))))"

definition remove_all :: "('k, 'm) unix_iface \<Rightarrow> 'k os \<Rightarrow> string \<Rightarrow> ('k, 'm, fs_err option) fio" where
  "remove_all ifc os path =
     (if path = [] then uret None
      else if ends_with_dot path then uret (Some (PathError ''removeall'' path (Errno EINVAL)))
      else ubind (if_remove ifc path)
             (\<lambda>e. if e = None \<or> errors_is (the e) ErrNotExist then uret None
                  else in_parent ifc os ''removeallfrom'' path (remove_all_from ifc os (os_rounds os))))"

definition remove_contents :: "('k, 'm) unix_iface \<Rightarrow> 'k os \<Rightarrow> string \<Rightarrow> ('k, 'm, fs_err option) fio" where
  "remove_contents ifc os path =
     (if path = [] then uret None
      else in_parent ifc os ''removecontentsfrom'' path (remove_contents_from ifc os (os_rounds os)))"

text \<open>The entry points of \<open>UnixFS\<close> and of \<open>Quota\<close>; the quota inherits \<open>RemoveContents\<close> as it is.\<close>

definition refuse_root :: "string \<Rightarrow> ('k, 'm, fs_err option) fio \<Rightarrow> ('k, 'm, fs_err option) fio" where
  "refuse_root name body =
     (if name = ''.'' then uret (Some (PathError ''removeall'' name ErrBadPathResolution)) else body)"

definition unix_remove_all :: "unix_fs \<Rightarrow> 'k os \<Rightarrow> string \<Rightarrow> ('k, 'm, fs_err option) fio" where
  "unix_remove_all fs os name =
     resolving fs name (\<lambda>n. refuse_root n (remove_all (unix_fs_iface fs os) os n))"

definition unix_remove_contents :: "unix_fs \<Rightarrow> 'k os \<Rightarrow> string \<Rightarrow> ('k, 'm, fs_err option) fio" where
  "unix_remove_contents fs os name = resolving fs name (remove_contents (unix_fs_iface fs os) os)"

definition quota_remove_all :: "unix_fs \<Rightarrow> 'k os \<Rightarrow> string \<Rightarrow> ('k, 'z qfsw_ext, fs_err option) fio" where
  "quota_remove_all fs os name =
     resolving fs name (\<lambda>n. refuse_root n (remove_all (quota_iface fs os) os n))"

section \<open>The interface's contract\<close>

abbreviation fd_gained :: "errno + int \<Rightarrow> int set" where
  "fd_gained r \<equiv> (case r of Inl e \<Rightarrow> {} | Inr fd \<Rightarrow> {fd})"

text \<open>A child opened without following a link is trusted as it is.\<close>

lemma tri_open_child:
  assumes d: "d \<in> T" and n: "single n"
  shows "tri (fs, os, opn, bs) (good (fs, os, opn, bs) S T)
    (sys (os_openat os d n {O_CLOEXEC, O_NOFOLLOW} 0) (COpenat d n {O_CLOEXEC, O_NOFOLLOW} 0))
    (gains (fs, os, opn, bs) fd_gained S T)"
proof (rule triI, goal_cases)
  case (1 w)
  let ?c = "(fs, os, opn, bs)"
  obtain r k1 where f: "os_openat os d n {O_CLOEXEC, O_NOFOLLOW} 0 (kst w) = (r, k1)"
    by (cases "os_openat os d n {O_CLOEXEC, O_NOFOLLOW} 0 (kst w)")
  have fr: "opens_fresh opn (os_openat os d n {O_CLOEXEC, O_NOFOLLOW} 0)"
    using 1 by (simp add: good.simps kernel_okD)
  show ?case
    using 1 d n f opens_freshD [OF fr, of "kst w" _ k1]
    by (cases r) (auto simp: sys_def good.simps gains_def)
qed

lemma tri_open_fd_at:
  assumes "d \<in> T" and "single n"
  shows "tri (fs, os, opn, bs) (good (fs, os, opn, bs) S T) (open_fd_at os d n)
    (gains (fs, os, opn, bs) fd_gained S T)"
  unfolding open_fd_at_def by (rule tri_ignoring_eintr_gains [OF tri_open_child [OF assms]]) simp

text \<open>
  What the recursive removal relies on: opening gives a trusted descriptor, removing and unlinking
  keep the invariant of the sandbox. Under it the removal keeps the invariant, for every kernel.
\<close>

locale sandboxed_iface =
  fixes ifc :: "('k, 'm) unix_iface" and fs :: unix_fs and os :: "'k os"
    and opn :: "'k \<Rightarrow> int set" and bs :: "string list"
  assumes open_law: "tri (fs, os, opn, bs) (good (fs, os, opn, bs) S T) (if_open ifc p)
      (gains (fs, os, opn, bs) file_fds S T)"
    and remove_law: "tri (fs, os, opn, bs) (good (fs, os, opn, bs) S T) (if_remove ifc p)
      (keeps (fs, os, opn, bs) S T)"
    and unlinkat_law: "d \<in> T \<Longrightarrow> single n \<Longrightarrow>
      tri (fs, os, opn, bs) (good (fs, os, opn, bs) S T) (if_unlinkat ifc d n b) (keeps (fs, os, opn, bs) S T)"
begin

abbreviation conf :: "('k, 'm, 'a) fio \<Rightarrow> int set \<Rightarrow> int set \<Rightarrow> bool" where
  "conf m S T \<equiv> tri (fs, os, opn, bs) (good (fs, os, opn, bs) S T) m (keeps (fs, os, opn, bs) S T)"

lemma conf_bind: "conf m S T \<Longrightarrow> (\<And>x. conf (f x) S T) \<Longrightarrow> conf (ubind m f) S T"
  by (rule tri_bind_keeps)

lemma conf_count_failures:
  assumes "\<And>n. n \<in> set names \<Longrightarrow> conf (rm n) S T"
  shows "conf (count_failures rm names) S T"
  using assms
proof (induction names)
  case (Cons n names)
  have "conf (rm n) S T" by (rule Cons.prems) simp
  moreover have "conf (count_failures rm names) S T" by (rule Cons.IH [OF Cons.prems]) simp
  ultimately show ?case unfolding count_failures.simps by (intro conf_bind tri_ret_keeps)
qed (simp add: tri_ret)

lemma tri_readdirnames:
  assumes "fd \<in> T"
  shows "tri (fs, os, opn, bs) (good (fs, os, opn, bs) S T) (sys (os_readdirnames os fd k) (\<lambda>_. CReaddir fd))
     (\<lambda>r w. good (fs, os, opn, bs) S T w \<and> (\<forall>n \<in> set (fst r). proper_comp n))"
  using assms
  by (auto simp: tri_def sys_def good.simps kernel_ok_def keeps_open_def)

lemma conf_in_parent:
  assumes "\<And>fd S T. fd \<in> T \<Longrightarrow> conf (body fd (snd (split_path path))) S T"
  shows "conf (in_parent ifc os op path body) S T"
proof -
  obtain pd base where sp: "split_path path = (pd, base)" by (cases "split_path path")
  show ?thesis unfolding in_parent_def sp Let_def prod.case
  proof (rule tri_bind [OF open_law], rule tri_sum, goal_cases)
    case (2 x fd)
    show ?case
    proof (rule tri_pre [where P = "good (fs, os, opn, bs) (insert fd S) (insert fd T)"
          and A = "fd \<notin> T \<and> (fs_use_openat2 fs \<longrightarrow> fd \<notin> S)"], goal_cases)
      case 2
      show ?case
        by (rule tri_bind_keeps [OF assms [of fd, unfolded sp snd_conv]], simp,
            rule tri_bind [OF tri_close_fd]) (use 2 in \<open>auto intro: tri_ret\<close>)
    qed (use 2 in \<open>auto simp: gains_def\<close>)
  qed (auto intro!: tri_ret)
qed

text \<open>The three functions of the recursion, by induction on the fuel.\<close>

lemma conf_remove_batches_step:
  assumes "\<And>fd n S T. fd \<in> T \<Longrightarrow> single n \<Longrightarrow> conf (remove_all_from ifc os k fd n) S T"
    and "\<And>fd b S T. fd \<in> T \<Longrightarrow> conf (remove_batches ifc os k fd b) S T" and fd: "fd \<in> T"
  shows "conf (remove_batches ifc os (Suc k) fd base) S T"
  unfolding remove_batches.simps
proof (rule tri_bind [OF tri_readdirnames [OF fd]], rule tri_pure, goal_cases)
  case (1 r)
  obtain names err where r: "r = (names, err)" by (cases r)
  have "conf (count_failures (remove_all_from ifc os k fd) names) S T"
    using 1 r by (intro conf_count_failures assms(1) fd) (simp add: single_def)
  then show ?case unfolding r prod.case
    by (intro tri_option tri_ret_keeps conf_bind tri_if assms(2) fd)
qed

lemma conf_remove_contents_step:
  assumes "\<And>fd b S T. fd \<in> T \<Longrightarrow> conf (remove_batches ifc os k fd b) S T"
    and "\<And>fd b S T. fd \<in> T \<Longrightarrow> single b \<Longrightarrow> conf (remove_contents_from ifc os k fd b) S T"
    and parent: "parent \<in> T" and base: "single base"
  shows "conf (remove_contents_from ifc os (Suc k) parent base) S T"
  unfolding remove_contents_from.simps
proof (rule tri_bind [OF tri_open_fd_at [OF parent base]], rule tri_sum, goal_cases)
  case (2 x fd)
  show ?case
  proof (rule tri_pre [where P = "good (fs, os, opn, bs) (insert fd S) (insert fd T)"
        and A = "fd \<notin> T \<and> (fs_use_openat2 fs \<longrightarrow> fd \<notin> S)"], goal_cases)
    case 2
    show ?case
      by (rule tri_bind_keeps [OF assms(1)], simp, rule tri_then_close, use 2 in simp, use 2 in simp)
         (intro tri_sum tri_if tri_ret_keeps assms(2) parent base)
  qed (use 2 in \<open>auto simp: gains_def\<close>)
qed (auto intro!: tri_ret)

lemma conf_remove_all_from_step:
  assumes rec: "\<And>fd b S T. fd \<in> T \<Longrightarrow> single b \<Longrightarrow> conf (remove_contents_from ifc os k fd b) S T"
    and parent: "parent \<in> T" and base: "single base"
  shows "conf (remove_all_from ifc os (Suc k) parent base) S T"
proof -
  have st: "conf (ignoring_eintr (os_rounds os)
      (sys (os_fstatat os parent base True) (CStat parent base True))) S T"
    by (intro tri_ignoring_eintr tri_sys) (simp_all add: kernel_okD parent base)
  show ?thesis unfolding remove_all_from.simps
    by (intro conf_bind tri_sum tri_if tri_ret_keeps unlinkat_law st rec parent base)
qed

lemma conf_remove:
  shows "(\<forall>fd b S T. fd \<in> T \<longrightarrow> single b \<longrightarrow> conf (remove_all_from ifc os k fd b) S T)
       \<and> (\<forall>fd b S T. fd \<in> T \<longrightarrow> single b \<longrightarrow> conf (remove_contents_from ifc os k fd b) S T)
       \<and> (\<forall>fd b S T. fd \<in> T \<longrightarrow> conf (remove_batches ifc os k fd b) S T)"
proof (induction k)
  case 0
  show ?case by (auto intro: sandbox_intros)
next
  case (Suc k)
  note entry = Suc [THEN conjunct1, rule_format]
    and contents = Suc [THEN conjunct2, THEN conjunct1, rule_format]
    and batches = Suc [THEN conjunct2, THEN conjunct2, rule_format]
  show ?case
    by (intro conjI allI impI conf_remove_all_from_step [OF contents]
        conf_remove_contents_step [OF batches contents] conf_remove_batches_step [OF entry batches])
qed

lemma conf_remove_all:
  assumes "ends_with_dot path \<or> single (snd (split_path path))"
  shows "conf (remove_all ifc os path) S T"
  unfolding remove_all_def
  by (intro tri_if tri_ret_keeps conf_bind remove_law conf_in_parent conf_remove [THEN conjunct1, rule_format])
     (use assms in auto)

lemma conf_remove_contents:
  assumes "single (snd (split_path path))"
  shows "conf (remove_contents ifc os path) S T"
  unfolding remove_contents_def
  by (intro tri_if tri_ret_keeps conf_in_parent conf_remove [THEN conjunct2, THEN conjunct1, rule_format])
     (use assms in auto)

end

section \<open>The two implementations\<close>

lemma tri_account: "tri c (good c S T) (account i) (keeps c S T)"
  by (cases c) (auto simp: tri_def account_def good.simps quota_add_def Let_def)

lemma conf_quota_remove:
  "tri (fs, os, opn, bs) (good (fs, os, opn, bs) S T) (quota_remove fs os p) (keeps (fs, os, opn, bs) S T)"
  unfolding quota_remove_def
  by (intro tri_bind_keeps confined_remove [rule_format] tri_sum tri_if tri_ret_keeps tri_account)

lemma conf_quota_unlinkat:
  assumes "d \<in> T" and "single n"
  shows "tri (fs, os, opn, bs) (good (fs, os, opn, bs) S T) (quota_unlinkat os d n b)
           (keeps (fs, os, opn, bs) S T)"
  unfolding quota_unlinkat_def
  by (intro tri_bind_keeps tri_if tri_sum tri_lstatat tri_unlinkat tri_ret_keeps tri_account assms)

lemma tri_u_open:
  "tri (fs, os, opn, bs) (good (fs, os, opn, bs) S T) (u_open fs os p)
     (gains (fs, os, opn, bs) file_fds S T)"
  unfolding u_open_def by (rule tri_open_file)

interpretation uf: sandboxed_iface "unix_fs_iface fs os" fs os opn bs
  by unfold_locales (auto simp: unix_fs_iface_def keeps_eq
      intro: tri_u_open confined_remove [rule_format, unfolded keeps_eq] tri_unlinkat [unfolded keeps_eq])

interpretation qt: sandboxed_iface "quota_iface fs os" fs os opn bs
  by unfold_locales (auto simp: quota_iface_def keeps_eq
      intro: tri_u_open conf_quota_remove [unfolded keeps_eq] conf_quota_unlinkat [unfolded keeps_eq])

lemma safe_rel_split_path:
  assumes "safe_rel n"
  shows "single (snd (split_path n))"
proof (cases "n = ''.''")
  case True
  have "split_path ''.'' = (''.'', ''.'')" by code_simp
  with True show ?thesis by (simp add: single_def)
next
  case False
  then have pr: "list_all proper_comp (split_char slash n)" using assms by (simp add: safe_rel_def)
  obtain ds c where cs: "split_char slash n = ds @ [c]"
    by (metis append_butlast_last_id split_char_neq_Nil)
  then have "n = join_char slash (ds @ [c])" by (metis join_split)
  then show ?thesis
    using split_path_components [of ds c 0] pr cs by (auto simp: single_def)
qed

lemma confined_resolving_safe:
  assumes "\<And>n. safe_rel n \<Longrightarrow>
      tri (fs, os, opn, bs) (good (fs, os, opn, bs) S T) (body n) (keeps (fs, os, opn, bs) S T)"
  shows "tri (fs, os, opn, bs) (good (fs, os, opn, bs) S T) (resolving fs p body) (keeps (fs, os, opn, bs) S T)"
proof (cases "unsafe_path fs p")
  case (Inl e)
  then show ?thesis by (cases e) (simp add: resolving_def tri_ret)
next
  case (Inr n)
  show ?thesis
  proof (cases "good_base fs bs")
    case True
    then show ?thesis using Inr unsafe_path_safe_rel [OF True Inr] assms by (simp add: resolving_def)
  qed (simp add: tri_def good.simps)
qed

lemma confined_removals:
  "confined (fs, os, opn, bs) (unix_remove_all fs os p)"
  "confined (fs, os, opn, bs) (unix_remove_contents fs os p)"
  "confined (fs, os, opn, bs) (quota_remove_all fs os p)"
  unfolding unix_remove_all_def unix_remove_contents_def quota_remove_all_def refuse_root_def
  by (intro allI confined_resolving_safe tri_if tri_ret_keeps uf.conf_remove_all uf.conf_remove_contents
      qt.conf_remove_all disjI2 safe_rel_split_path; assumption)+

section \<open>Sequences of operations\<close>

text \<open>
  A caller of the filesystem, as the list of the operations it makes; of the answers it keeps the
  error and the files it was given.
\<close>

datatype fs_op =
    OpChmod string file_mode | OpLchown string int int | OpMkdir string file_mode
  | OpMkdirAll string file_mode | OpOpen string "oflag set" file_mode | OpTouch string "oflag set" file_mode
  | OpReadDir string | OpStat string | OpLstat string | OpRename string string | OpSymlink string string
  | OpRemove string | OpRemoveAll string | OpRemoveContents string
  | OpQuotaRemove string | OpQuotaRemoveAll string

definition plain :: "('k, 'm, fs_err option) fio \<Rightarrow> ('k, 'm, fs_err option \<times> int list) fio" where
  "plain m = ubind m (\<lambda>e. uret (e, []))"

definition giving :: "('k, 'm, fs_err + int) fio \<Rightarrow> ('k, 'm, fs_err option \<times> int list) fio" where
  "giving m = ubind m (\<lambda>r. uret (case r of Inl e \<Rightarrow> (Some e, []) | Inr fd \<Rightarrow> (None, [fd])))"

definition reading :: "('k, 'm, fs_err + 'a) fio \<Rightarrow> ('k, 'm, fs_err option \<times> int list) fio" where
  "reading m = ubind m (\<lambda>r. uret (case r of Inl e \<Rightarrow> (Some e, []) | Inr x \<Rightarrow> (None, [])))"

fun run_op :: "unix_fs \<Rightarrow> 'k os \<Rightarrow> fs_op \<Rightarrow> ('k, 'z qfsw_ext, fs_err option \<times> int list) fio" where
  "run_op fs os (OpChmod p m) = plain (chmod fs os p m)"
| "run_op fs os (OpLchown p u g) = plain (lchown fs os p u g)"
| "run_op fs os (OpMkdir p m) = plain (mkdir fs os p m)"
| "run_op fs os (OpMkdirAll p m) = plain (mkdir_all fs os p m)"
| "run_op fs os (OpOpen p fl m) = giving (open_file fs os p fl m)"
| "run_op fs os (OpTouch p fl m) = giving (touch fs os p fl m)"
| "run_op fs os (OpReadDir p) = reading (read_dir fs os p)"
| "run_op fs os (OpStat p) = reading (stat fs os p)"
| "run_op fs os (OpLstat p) = reading (lstat fs os p)"
| "run_op fs os (OpRename p q) = plain (rename fs os p q)"
| "run_op fs os (OpSymlink t p) = plain (symlink fs os t p)"
| "run_op fs os (OpRemove p) = plain (remove fs os p)"
| "run_op fs os (OpRemoveAll p) = plain (unix_remove_all fs os p)"
| "run_op fs os (OpRemoveContents p) = plain (unix_remove_contents fs os p)"
| "run_op fs os (OpQuotaRemove p) = plain (quota_remove fs os p)"
| "run_op fs os (OpQuotaRemoveAll p) = plain (quota_remove_all fs os p)"

fun run_ops :: "unix_fs \<Rightarrow> 'k os \<Rightarrow> fs_op list \<Rightarrow> ('k, 'z qfsw_ext, int list) fio" where
  "run_ops fs os [] = uret []"
| "run_ops fs os (x # xs) =
     ubind (run_op fs os x) (\<lambda>(e, fds). ubind (run_ops fs os xs) (\<lambda>rest. uret (rest @ fds)))"

lemma tri_plain:
  "tri c (good c S T) m (keeps c S T) \<Longrightarrow>
   tri c (good c S T) (plain m) (gains c (\<lambda>r. set (snd r)) S T)"
  unfolding plain_def by (rule tri_bind, assumption) (auto intro: tri_ret)

lemma tri_reading:
  "tri c (good c S T) m (keeps c S T) \<Longrightarrow>
   tri c (good c S T) (reading m) (gains c (\<lambda>r. set (snd r)) S T)"
  unfolding reading_def by (rule tri_bind, assumption) (auto intro!: tri_ret split: sum.split)

lemma tri_giving:
  "tri c (good c S T) m (gains c file_fds S T) \<Longrightarrow>
   tri c (good c S T) (giving m) (gains c (\<lambda>r. set (snd r)) S T)"
  unfolding giving_def by (rule tri_bind, assumption) (auto intro!: tri_ret simp: gains_def split: sum.split)

lemma tri_run_op:
  "tri (fs, os, opn, bs) (good (fs, os, opn, bs) S T) (run_op fs os x)
     (gains (fs, os, opn, bs) (\<lambda>r. set (snd r)) S T)"
proof -
  note keeping = confined_attributes [rule_format] confined_mkdir_all [rule_format] confined_stat [rule_format]
    confined_rename [rule_format] confined_symlink [rule_format] confined_remove [rule_format]
    confined_removals [rule_format] confined_read_dir [rule_format] conf_quota_remove
  show ?thesis
    by (cases x; simp only: run_op.simps)
       (intro tri_plain tri_giving tri_reading tri_open_file tri_touch keeping)+
qed

lemma tri_run_ops:
  "tri (fs, os, opn, bs) (good (fs, os, opn, bs) S T) (run_ops fs os xs)
     (gains (fs, os, opn, bs) set S T)"
proof (induction xs arbitrary: S T)
  case (Cons x xs)
  show ?case unfolding run_ops.simps
  proof (rule tri_bind [OF tri_run_op], goal_cases)
    case (1 r)
    obtain e fds where r: "r = (e, fds)" by (cases r)
    show ?case unfolding r prod.case snd_conv
    proof (rule tri_pre [where P = "good (fs, os, opn, bs) (set fds \<union> S) (set fds \<union> T)"
          and A = "set fds \<inter> T = {} \<and> (fs_use_openat2 fs \<longrightarrow> set fds \<inter> S = {})"], goal_cases)
      case 2
      show ?case
        by (rule tri_bind [OF Cons]) (use 2 in \<open>auto intro!: tri_ret simp: gains_def Un_assoc\<close>)
    qed (simp add: gains_def)
  qed
qed (simp add: tri_ret)

section \<open>A small kernel\<close>

text \<open>
  Descriptors are numbered upwards, every call succeeds on an empty disk, and whatever is opened is
  reported to be at \<open>q\<close>.
\<close>

definition tiny_os :: "string \<Rightarrow> int list os" where
  "tiny_os q =
     \<lparr>os_openat = (\<lambda>d n fl m k. (Inr (foldr max k 2 + 1), (foldr max k 2 + 1) # k)),
      os_openat2 = (\<lambda>d n fl m k. (Inr (foldr max k 2 + 1), (foldr max k 2 + 1) # k)),
      os_eval_symlinks = (\<lambda>p k. (Inr q, k)),
      os_close = (\<lambda>fd k. (None, filter (\<lambda>x. x \<noteq> fd) k)),
      os_at = (\<lambda>c k. (Inr (), k)),
      os_fstatat = (\<lambda>d n fl k. (Inr \<lparr>st_size = 7, st_mode = 0x81A4, st_nlink = 1, st_ino = 1\<rparr>, k)),
      os_fstat = (\<lambda>fd k. (Inr \<lparr>st_size = 7, st_mode = 0x81A4, st_nlink = 1, st_ino = 1\<rparr>, k)),
      os_getdents = (\<lambda>fd k. (Inr [], k)),
      os_readdirnames = (\<lambda>fd n k. (([], Some eof), k)),
      os_read = (\<lambda>fd k. (([], None), k)),
      os_write = (\<lambda>fd s k. ((length s, None), k)),
      os_seek = (\<lambda>fd k. (None, k)),
      os_rounds = 3\<rparr>"

lemma foldr_max_ge: "x \<in> set k \<Longrightarrow> x \<le> foldr max k (a :: int)" "a \<le> foldr max k a"
  by (induction k) (auto simp: le_max_iff_disj)

lemma foldr_max_fresh: "foldr max k 2 + 1 \<notin> set k" "0 < foldr max k (2 :: int) + 1"
  using foldr_max_ge(1) [of "foldr max k 2 + 1" k 2] foldr_max_ge(2) [of 2 k] by auto

lemma tiny_os_ok: "kernel_ok (tiny_os q) set"
  using foldr_max_fresh by (auto simp: kernel_ok_def tiny_os_def opens_fresh_def keeps_open_def)

definition tiny_world :: "int list qfsw" where
  "tiny_world = \<lparr>kst = [0], calls = [], q_limit = 100, q_usage = 40\<rparr>"

section \<open>Properties\<close>



text \<open>
  C6: No descriptor is lost. With \<open>openat2\<close>, when a sequence of operations has returned, the open
  descriptors are exactly those that were open before and those of the files it was given.
\<close>

theorem descriptors_balanced:
  assumes "kernel_ok os opn" and "good_base fs bs" and "calls w = []" and "fs_use_openat2 fs"
    and "run_ops fs os xs w = (Some fds, w')"
  shows "opn (kst w') = opn (kst w) \<union> set fds \<and> set fds \<inter> opn (kst w) = {}"
proof -
  let ?c = "(fs, os, opn, bs)"
  have "good ?c (opn (kst w)) {} w" using assms by (simp add: good.simps)
  from triD [OF tri_run_ops this, of xs] assms(4,5) show ?thesis
    by (auto simp: gains_def good.simps)
qed

theorem descriptors_balanced_witness:
  "set (kst (snd (run_ops example_fs (tiny_os ''/srv/x/a'') [OpTouch ''a/b'' {O_RDWR} 0, OpRemove ''c''] tiny_world)))
     = {0, 5}"
proof -
  let ?r = "run_ops example_fs (tiny_os ''/srv/x/a'') [OpTouch ''a/b'' {O_RDWR} 0, OpRemove ''c''] tiny_world"
  have "fst ?r = Some [5]"
    by code_simp
  then obtain w' where r: "?r = (Some [5], w')" by (cases ?r) simp
  have "fs_use_openat2 example_fs" by (simp add: example_fs_def new_unix_fs_def)
  from descriptors_balanced [OF tiny_os_ok example_good_base _ this r]
  have "set (kst w') = {0, 5}" by (auto simp: tiny_world_def)
  then show ?thesis unfolding r snd_conv .
qed

text \<open>
  Without \<open>openat2\<close> an attempted escape costs a descriptor. When a path's directory turns out to lie
  outside the base, through a link, the operation is refused with \<open>ErrBadPathResolution\<close>, but the
  descriptor of that directory stays open: its number is in nobody's hands.
\<close>

theorem escape_leaks_descriptor:
  assumes ok: "kernel_ok os opn" and rounds: "0 < os_rounds os" and old: "\<not> fs_use_openat2 fs"
    and name: "unsafe_path fs p = Inr name" "path_split name = (dir, base)" "dir \<noteq> []"
    and base: "os_openat os 0x1000 (fs_base fs) {O_CLOEXEC, O_DIRECTORY} 0 (kst w) = (Inr b, k1)"
    and dir: "os_openat os b (trim_suffix dir ''/'') {O_CLOEXEC, O_NOFOLLOW, O_DIRECTORY} 0 k1 = (Inr d, k2)"
    and outside: "os_eval_symlinks os (path_join [''/proc/self/fd/'', itoa d]) k2 = (Inr q, k3)"
      "\<not> inside_base fs q"
  shows "fst (mkdir fs os p m w) = Some (Some (PathError ''openat'' (trim_suffix dir ''/'') ErrBadPathResolution))
       \<and> d \<notin> opn (kst w) \<and> opn (kst (snd (mkdir fs os p m w))) = insert d (opn (kst w))"
proof -
  have d: "d \<notin> opn k1" "opn k2 = insert d (opn k1)"
    using opens_freshD(2) [OF kernel_okD(1) [OF ok] dir] by simp_all
  have b: "b \<notin> opn (kst w)" "opn k1 = insert b (opn (kst w))"
    using opens_freshD(2) [OF kernel_okD(1) [OF ok] base] by simp_all
  have ev: "keeps_open opn (os_eval_symlinks os (path_join [''/proc/self/fd/'', itoa d]))"
    by (rule kernel_okD(3) [OF ok])
  have e: "opn k3 = opn k2" using ev outside(1) by (auto simp: keeps_open_def dest: spec [of _ k2])
  obtain n where n: "os_rounds os = Suc n" using rounds by (cases "os_rounds os") auto
  have c: "opn (snd (os_close os b k3)) = opn k3 - {b}" using ok by (simp add: kernel_okD)
  have mode: "syscall_mode 0 = 0" by (simp add: syscall_mode_def)
  show ?thesis
    using d b c e
    by (auto simp: mkdir_def with_safe_path_def safe_path_def name base dir u_openat_def openat_def
        open_answer_def n old mode ubind_def uret_def sys_def outside check_final_def close_all_def
        sys_close_def)
qed

theorem escape_leaks_descriptor_witness:
  "let fs = new_unix_fs ''/srv/x'' False; w = mkdir fs (tiny_os ''/etc'') ''link/d'' 0x1ED tiny_world
   in fst w = Some (Some (PathError ''openat'' ''link'' ErrBadPathResolution))
      \<and> set (kst (snd w)) = {0, 4}"
proof -
  let ?fs = "new_unix_fs ''/srv/x'' False" and ?os = "tiny_os ''/etc''"
  have "unsafe_path ?fs ''link/d'' = Inr ''link/d''" "path_split ''link/d'' = (''link/'', ''d'')"
    "\<not> inside_base ?fs ''/etc''" "trim_suffix ''link/'' ''/'' = ''link''"
    by code_simp+
  with escape_leaks_descriptor [OF tiny_os_ok, of "''/etc''" ?fs "''link/d''" "''link/d''" "''link/''" "''d''"
      tiny_world 3 "[3, 0]" 4 "[4, 3, 0]" "''/etc''" "[4, 3, 0]" "0x1ED"]
  show ?thesis
    by (simp add: Let_def new_unix_fs_def tiny_world_def) (simp add: tiny_os_def insert_commute)
qed

end
