(* ===== verification/Fs_Returns.thy ===== *)
theory Fs_Returns
  imports Ufs_Remove
begin

text \<open>
  Which operations of the sandboxed filesystem return: all that do not read or empty a directory, on
  every kernel that interrupts a system call fewer times in a row than the loops are followed for.
\<close>

section \<open>Bounded interruption\<close>

text \<open>
  \<open>mu k\<close> bounds how many more times a repeated call is interrupted in the state \<open>k\<close>.
\<close>

definition eintr_falls :: "('k \<Rightarrow> nat) \<Rightarrow> ('k \<Rightarrow> (errno + 'a) \<times> 'k) \<Rightarrow> bool" where
  "eintr_falls mu f \<longleftrightarrow> (\<forall>k. fst (f k) = Inl EINTR \<longrightarrow> mu (snd (f k)) < mu k)"

definition interrupts_bounded :: "'k os \<Rightarrow> ('k \<Rightarrow> nat) \<Rightarrow> bool" where
  "interrupts_bounded os mu \<longleftrightarrow>
     (\<forall>k. mu k < os_rounds os) \<and>
     (\<forall>d n fl m. eintr_falls mu (os_openat os d n fl m)) \<and>
     (\<forall>d n fl m. eintr_falls mu (os_openat2 os d n fl m)) \<and>
     (\<forall>d n b. eintr_falls mu (os_fstatat os d n b)) \<and>
     (\<forall>c. eintr_falls mu (os_at os c))"

definition halts :: "('k, 'm, 'a) fio \<Rightarrow> bool" where
  "halts m \<longleftrightarrow> (\<forall>w. fst (m w) \<noteq> None)"

named_theorems halts_intros \<open>operations that return\<close>

lemma haltsD: "halts m \<Longrightarrow> \<exists>r w'. m w = (Some r, w')"
  by (cases "m w") (auto simp: halts_def dest: spec [of _ w])

lemma halts_ret [halts_intros]: "halts (uret x)"
  by (simp add: halts_def uret_def)

lemma halts_sys [halts_intros]: "halts (sys f ev)"
  by (simp add: halts_def sys_def)

lemma halts_bind [halts_intros]:
  assumes "halts m" and "\<And>x. halts (f x)"
  shows "halts (ubind m f)"
  unfolding halts_def
proof
  fix w
  obtain r w' where "m w = (Some r, w')" using haltsD [OF assms(1)] by blast
  then show "fst (ubind m f w) \<noteq> None" using assms(2) by (simp add: ubind_def halts_def)
qed

lemma halts_if [halts_intros]: "(b \<Longrightarrow> halts f) \<Longrightarrow> (\<not> b \<Longrightarrow> halts g) \<Longrightarrow> halts (if b then f else g)"
  by simp

lemma halts_option [halts_intros]:
  "halts f \<Longrightarrow> (\<And>x. halts (g x)) \<Longrightarrow> halts (case m of None \<Rightarrow> f | Some x \<Rightarrow> g x)"
  by (cases m) auto

lemma halts_sum [halts_intros]:
  "(\<And>x. halts (f x)) \<Longrightarrow> (\<And>x. halts (g x)) \<Longrightarrow> halts (case m of Inl x \<Rightarrow> f x | Inr x \<Rightarrow> g x)"
  by (cases m) auto

lemma halts_prod [halts_intros]: "(\<And>x y. halts (f x y)) \<Longrightarrow> halts (case p of (x, y) \<Rightarrow> f x y)"
  by (cases p) auto

lemma halts_close_all [halts_intros]: "halts (close_all os fds)"
  by (induction fds) (auto simp: close_all_Cons close_all_def [of os "[]"] sys_close_def intro!: halts_intros)

section \<open>The two loops\<close>

lemma ignoring_eintr_halts:
  assumes mu: "\<forall>k. mu k < n" and f: "eintr_falls mu f"
  shows "halts (ignoring_eintr n (sys f ev) :: ('k, 'm, errno + 'a) fio)"
proof -
  have "mu (kst w) < k \<Longrightarrow> fst (ignoring_eintr k (sys f ev) w) \<noteq> None"
    for k and w :: "('k, 'm) fsw_scheme"
  proof (induction k arbitrary: w)
    case (Suc k)
    obtain r k1 where r: "f (kst w) = (r, k1)" by (cases "f (kst w)")
    then have "r = Inl EINTR \<longrightarrow> mu k1 < k"
      using f Suc.prems by (auto simp: eintr_falls_def dest!: spec [of _ "kst w"])
    moreover have "sys f ev w = (Some r, w\<lparr>kst := k1, calls := calls w @ [ev r]\<rparr>)"
      using r by (simp add: sys_def)
    ultimately show ?case
      using Suc.IH [of "w\<lparr>kst := k1, calls := calls w @ [ev r]\<rparr>"] by (auto simp: ubind_def uret_def)
  qed simp
  then show ?thesis using mu by (simp add: halts_def)
qed

lemma open_answer_EINTR: "open_answer op n r = Inl (Errno EINTR) \<Longrightarrow> r = Inl EINTR"
  by (auto simp: open_answer_def split: sum.splits errno.splits)

lemma open_loop_halts:
  assumes "interrupts_bounded os mu"
  shows "halts (open_loop fs os (os_rounds os) d n fl m :: ('k, 'm, fs_err + int) fio)"
proof -
  have fall: "eintr_falls mu (os_openat os d n fl' m')" "eintr_falls mu (os_openat2 os d n fl' m')" for fl' m'
    using assms by (simp_all add: interrupts_bounded_def)
  have "mu (kst w) < k \<Longrightarrow> fst (open_loop fs os k d n fl m w) \<noteq> None"
    for k and w :: "('k, 'm) fsw_scheme"
  proof (induction k arbitrary: w)
    case (Suc k)
    let ?m = "if fs_use_openat2 fs then u_openat2 os d n fl (syscall_mode m) else u_openat os d n fl (syscall_mode m)"
    have "\<exists>r w1. ?m w = (Some r, w1) \<and> (r = Inl (Errno EINTR) \<longrightarrow> mu (kst w1) < mu (kst w))"
      using fall by (simp add: ubind_def sys_def uret_def u_openat_def u_openat2_def eintr_falls_def Let_def)
        (blast dest: open_answer_EINTR)
    then obtain r w1 where "?m w = (Some r, w1)" "r = Inl (Errno EINTR) \<longrightarrow> mu (kst w1) < k"
      using Suc.prems by auto
    then show ?case using Suc.IH [of w1] by (auto simp: ubind_def uret_def)
  qed simp
  moreover have "mu k < os_rounds os" for k using assms by (simp add: interrupts_bounded_def)
  ultimately show ?thesis by (simp add: halts_def)
qed

section \<open>The operations\<close>

lemma openat_halts: "interrupts_bounded os mu \<Longrightarrow> halts (openat fs os d n fl m)"
  unfolding openat_def by (intro halts_intros open_loop_halts)

lemma safe_path_halts: "interrupts_bounded os mu \<Longrightarrow> halts (safe_path fs os p)"
  unfolding safe_path_def Let_def u_openat_def
  by (cases "unsafe_path fs p") (auto split: path_error.split intro!: halts_intros openat_halts)

lemma with_safe_path_halts:
  "interrupts_bounded os mu \<Longrightarrow> (\<And>d n. halts (body d n)) \<Longrightarrow> halts (with_safe_path fs os p fail body)"
  unfolding with_safe_path_def by (intro halts_intros safe_path_halts)

lemma stat_halts:
  assumes "interrupts_bounded os mu"
  shows "halts (u_fstatat os op d n b)" and "halts (u_fstat fs os op p b)"
proof -
  show *: "halts (u_fstatat os op d n b)" for d n
    unfolding u_fstatat_def
    by (intro halts_intros ignoring_eintr_halts [of mu]) (use assms in \<open>simp_all add: interrupts_bounded_def\<close>)
  show "halts (u_fstat fs os op p b)"
    unfolding u_fstat_def by (intro with_safe_path_halts [OF assms] *)
qed

lemma unlink_halts:
  assumes "interrupts_bounded os mu"
  shows "halts (unlinkat os d n b)" and "halts (ignoring_eintr (os_rounds os) (sys_at os c))"
  unfolding unlinkat_def sys_at_def
  by (intro ignoring_eintr_halts [of mu]; use assms in \<open>simp add: interrupts_bounded_def\<close>)+

lemma mkdir_halts:
  assumes b: "interrupts_bounded os mu"
  shows "halts (mkdir fs os p m)" and "halts (mkdir_all fs os p m)"
proof -
  show mk: "halts (mkdir fs os p m)" for p
    unfolding mkdir_def mkdirat_def sys_at_def by (intro halts_intros with_safe_path_halts [OF b])
  have rec: "halts (mkdir_all_rec fs os m p)" for p
    using b
  proof (induction fs os m p rule: mkdir_all_rec.induct)
    case (1 fs os m p)
    have "halts (mkdir_exists fs os p)" "halts (mkdir_last fs os p m)"
      unfolding mkdir_exists_def mkdir_last_def lstat_def stat_def mkdir_def mkdirat_def sys_at_def
      by (intro halts_intros stat_halts [OF 1(2)] with_safe_path_halts [OF 1(2)])+
    then show ?case unfolding mkdir_all_rec.simps [of fs os m p]
      by (intro halts_intros 1(1)) (use 1(2) in simp_all)
  qed
  show "halts (mkdir_all fs os p m)"
    unfolding mkdir_all_def resolving_def
    by (cases "unsafe_path fs p") (auto split: path_error.split intro!: halts_intros rec)
qed

text \<open>The operations that do not read or empty a directory.\<close>

fun direct :: "fs_op \<Rightarrow> bool" where
  "direct (OpReadDir p) = False"
| "direct (OpRemoveAll p) = False"
| "direct (OpRemoveContents p) = False"
| "direct (OpQuotaRemoveAll p) = False"
| "direct x = True"

lemma halts_account: "halts (account i)"
  by (simp add: halts_def account_def)

lemma path_halts:
  assumes b: "interrupts_bounded os mu"
  shows "halts (touch_path fs os p)" and "halts (rename_target fs os p)"
  unfolding touch_path_def rename_target_def
  by (intro halts_intros safe_path_halts [OF b] mkdir_halts [OF b])+

lemma lookup_halts:
  assumes b: "interrupts_bounded os mu"
  shows "halts (stat fs os p)" and "halts (lstat fs os p)" and "halts (lstatat os d n)"
  unfolding stat_def lstat_def lstatat_def by (rule stat_halts [OF b])+

lemma attribute_halts:
  assumes b: "interrupts_bounded os mu"
  shows "halts (chmod fs os p m)" and "halts (lchown fs os p u g)"
  unfolding chmod_def fchmodat_def lchown_def fchown_def sys_at_def
  by (intro halts_intros with_safe_path_halts [OF b])+

lemma open_halts:
  assumes b: "interrupts_bounded os mu"
  shows "halts (open_file fs os p fl m)" and "halts (touch fs os p fl m)"
  unfolding open_file_def touch_def open_fileat_def
  by (intro halts_intros with_safe_path_halts [OF b] openat_halts [OF b] path_halts [OF b];
      auto split: prod.split intro!: halts_intros openat_halts [OF b])+

lemma remove_halts:
  assumes b: "interrupts_bounded os mu"
  shows "halts (remove fs os p)" and "halts (remove_stat fs os p)" and "halts (quota_remove fs os p)"
proof -
  show "halts (remove fs os p)" unfolding remove_def
    by (intro halts_intros with_safe_path_halts [OF b] unlink_halts [OF b])
  show rm: "halts (remove_stat fs os p)" unfolding remove_stat_def
    by (intro halts_intros with_safe_path_halts [OF b] unlink_halts [OF b] lookup_halts [OF b])
  show "halts (quota_remove fs os p)" unfolding quota_remove_def
    by (intro halts_intros halts_account rm)
qed

lemma link_halts:
  assumes b: "interrupts_bounded os mu"
  shows "halts (rename fs os p q)" and "halts (symlink fs os p q)"
proof -
  show "halts (rename fs os p q)" unfolding rename_def rename_to_def
    by (intro halts_intros with_safe_path_halts [OF b] path_halts [OF b] lookup_halts [OF b])
       (simp add: sys_at_def halts_sys)
  show "halts (symlink fs os p q)" unfolding symlink_def
    by (intro halts_bind halts_ret with_safe_path_halts [OF b] unlink_halts [OF b])
qed

lemma run_op_halts:
  assumes b: "interrupts_bounded os mu" and d: "direct x"
  shows "halts (run_op fs os x)"
  using d
  by (cases x) (simp_all add: plain_def giving_def reading_def halts_bind halts_ret attribute_halts [OF b]
      mkdir_halts [OF b] open_halts [OF b] lookup_halts [OF b] link_halts [OF b] remove_halts [OF b])

section \<open>Property\<close>

text \<open>
  C27: The filesystem's operations return. If the kernel interrupts a repeated system call fewer times
  than the loops are followed for, every sequence of operations without directory listings and
  recursive removals comes back with an answer, whatever else the kernel answers.
\<close>

theorem operations_return:
  assumes "interrupts_bounded os mu" and "list_all direct xs"
  shows "\<exists>fds w'. run_ops fs os xs w = (Some fds, w')"
proof -
  have "halts (run_ops fs os xs)"
    using assms(2)
  proof (induction xs)
    case (Cons x xs)
    then show ?case unfolding run_ops.simps by (intro halts_intros run_op_halts [OF assms(1)]) simp_all
  qed (simp add: halts_ret)
  then show ?thesis by (rule haltsD)
qed

theorem operations_return_witness:
  "\<exists>fds w'. run_ops example_fs (tiny_os ''/'')
     [OpMkdirAll ''a/b'' 0, OpTouch ''a/b/c'' {O_RDWR} 0, OpRename ''a/b/c'' ''d'', OpRemove ''d'']
     tiny_world = (Some fds, w')"
  by (rule operations_return [where mu = "\<lambda>_. 0"])
     (simp_all add: interrupts_bounded_def eintr_falls_def tiny_os_def)

end
