(* ===== verification/Filesystem.thy ===== *)
theory Filesystem
  imports Fs_Returns
begin

text \<open>
  A server's files: \<open>src/server/filesystem/filesystem.go\<close> and \<open>disk_space.go\<close> over the quota of the
  sandboxed filesystem. Its world extends the quota's with the cache of the measured disk usage. A
  reader is the bytes it will deliver and the error after them, if it does not end there.
\<close>

section \<open>State and errors\<close>

datatype error_code =
    ErrCodeIsDirectory | ErrCodeDiskSpace | ErrCodeUnknownArchive | ErrCodePathResolution
  | ErrCodeDenylistFile | ErrCodeUnknownError | CodeNotExist

datatype sfs_err = CodeError error_code | UfsError fs_err | SfsWrap string sfs_err

record sfs_cfg =
  sc_fs :: unix_fs
  sc_interval :: int
  sc_is_test :: bool
  sc_uid :: int
  sc_gid :: int

text \<open>
  The last two fields are the variables that the callback of a running \<open>DirectorySize\<close> captures: the
  numbers of the hard-linked files it has seen and the size so far.
\<close>

record 'k sfsw = "'k qfsw" +
  sf_last_lookup :: "time option"
  sf_in_progress :: bool
  sf_hard_links :: "nat list"
  sf_size :: int

type_synonym ('k, 'z, 'a) sio = "('k, 'z sfsw_ext qfsw_ext, 'a) fio"

record reader =
  rd_data :: string
  rd_err :: "fs_err option"

definition modify :: "(('k, 'm) fsw_scheme \<Rightarrow> ('k, 'm) fsw_scheme) \<Rightarrow> ('k, 'm, unit) fio" where
  "modify f = (\<lambda>w. (Some (), f w))"

definition asking :: "(('k, 'm) fsw_scheme \<Rightarrow> 'a) \<Rightarrow> ('k, 'm, 'a) fio" where
  "asking f = (\<lambda>w. (Some (f w), w))"

section \<open>Disk space\<close>

text \<open>
  \<open>DirectorySize\<close> measures the regular files of a walk; of a file with several names only the first is
  counted.
\<close>

definition count_file :: "sys_stat \<Rightarrow> nat list \<times> int \<Rightarrow> nat list \<times> int" where
  "count_file s acc =
     (let hard_links = fst acc; sz = snd acc
      in if 1 < st_nlink s
         then if st_ino s \<in> set hard_links then acc
              else (hard_links @ [st_ino s], wrap64 (sz + st_size s))
         else (hard_links, wrap64 (sz + st_size s)))"

definition size_callback :: "'k os \<Rightarrow> ('k, 'z sfsw_ext qfsw_ext) walk_fn" where
  "size_callback os dirfd name rel d err =
     (case err of
        Some e \<Rightarrow> uret (Some (WalkErr (Annotated ''walkdirat err'' e)))
      | None \<Rightarrow>
          (case d of
             None \<Rightarrow> uret None
           | Some m \<Rightarrow>
               if \<not> mode_is_regular m then uret None
               else ubind (lstatat os dirfd name)
                      (\<lambda>r. case r of
                             Inl e \<Rightarrow> uret (Some (WalkErr (Annotated ''lstatat err'' e)))
                           | Inr info \<Rightarrow>
                               ubind (modify (\<lambda>w. let (ls, n) = count_file (fi_sys info) (sf_hard_links w, sf_size w)
                                                  in w\<lparr>sf_hard_links := ls, sf_size := n\<rparr>))
                                 (\<lambda>_. uret None))))"

definition directory_size :: "sfs_cfg \<Rightarrow> 'k os \<Rightarrow> string \<Rightarrow> ('k, 'z, int \<times> sfs_err option) sio" where
  "directory_size sc os root =
     with_safe_path (sc_fs sc) os root (\<lambda>e. (0, Some (UfsError e)))
       (\<lambda>dirfd name.
          ubind (modify (\<lambda>w. w\<lparr>sf_hard_links := [], sf_size := 0\<rparr>))
            (\<lambda>_. ubind (walk_dirat (sc_fs sc) os dirfd name (size_callback os))
               (\<lambda>err. asking (\<lambda>w. (sf_size w,
                        case err of None \<Rightarrow> None
                        | Some e \<Rightarrow> Some (SfsWrap ''server/filesystem: directorysize: failed to walk directory''
                                           (UfsError e)))))))"

text \<open>\<open>now\<close> is the answer of the clock when the lookup is done.\<close>

definition update_cached_disk_usage :: "sfs_cfg \<Rightarrow> 'k os \<Rightarrow> time \<Rightarrow> ('k, 'z, int \<times> sfs_err option) sio" where
  "update_cached_disk_usage sc os now =
     ubind (modify (\<lambda>w. w\<lparr>sf_in_progress := True\<rparr>))
       (\<lambda>_. ubind (directory_size sc os ''/'')
          (\<lambda>(sz, err). ubind (modify (\<lambda>w. w\<lparr>sf_last_lookup := Some now\<rparr>))
             (\<lambda>_. ubind (modify (\<lambda>w. snd (set_usage sz w)))
                (\<lambda>_. ubind (modify (\<lambda>w. w\<lparr>sf_in_progress := False\<rparr>))
                   (\<lambda>_. uret (sz, err))))))"

text \<open>
  The second result says that a lookup was started in a goroutine of its own, which then runs
  \<open>update_cached_disk_usage\<close>. A zero time is before every cut-off.
\<close>

definition lookup_expired :: "sfs_cfg \<Rightarrow> time \<Rightarrow> time option \<Rightarrow> bool" where
  "lookup_expired sc now looked =
     (case looked of
        None \<Rightarrow> True
      | Some t \<Rightarrow> \<not> now + wrap64 (wrap64 (nanosecond_per_second * sc_interval sc) * -1) < t)"

definition disk_usage :: "sfs_cfg \<Rightarrow> 'k os \<Rightarrow> time \<Rightarrow> bool \<Rightarrow> ('k, 'z, (int \<times> sfs_err option) \<times> bool) sio" where
  "disk_usage sc os now allow_stale =
     (if sc_interval sc = 0 then uret ((0, None), False)
      else ubind (asking (\<lambda>w. (lookup_expired sc now (sf_last_lookup w), sf_in_progress w)))
             (\<lambda>(expired, in_progress).
                if expired \<and> \<not> allow_stale
                then ubind (update_cached_disk_usage sc os now) (\<lambda>r. uret (r, False))
                else asking (\<lambda>w. ((q_usage w, None), expired \<and> \<not> in_progress))))"

definition has_space_available :: "sfs_cfg \<Rightarrow> 'k os \<Rightarrow> time \<Rightarrow> bool \<Rightarrow> ('k, 'z, bool \<times> bool) sio" where
  "has_space_available sc os now allow_stale =
     ubind (disk_usage sc os now allow_stale)
       (\<lambda>((sz, err), started).
          asking (\<lambda>w. (if q_limit w = 0 then True else sz \<le> q_limit w, started)))"

definition has_space_err :: "sfs_cfg \<Rightarrow> 'k os \<Rightarrow> time \<Rightarrow> bool \<Rightarrow> ('k, 'z, sfs_err option) sio" where
  "has_space_err sc os now allow_stale =
     ubind (has_space_available sc os now allow_stale)
       (\<lambda>(available, started). uret (if \<not> available then Some (CodeError ErrCodeDiskSpace) else None))"

definition has_space_for :: "int \<Rightarrow> ('k, 'z, sfs_err option) sio" where
  "has_space_for sz = asking (\<lambda>w. if \<not> can_fit sz w then Some (CodeError ErrCodeDiskSpace) else None)"

section \<open>Writing\<close>

text \<open>
  \<open>io.Copy\<close> into a file, of a reader that may be limited to a number of bytes: a limited reader that
  has delivered them all ends without asking the reader below for more.
\<close>

definition limited :: "int option \<Rightarrow> reader \<Rightarrow> reader" where
  "limited lim r =
     (case lim of
        None \<Rightarrow> r
      | Some n \<Rightarrow>
          if nat n \<le> length (rd_data r) then \<lparr>rd_data = take (nat n) (rd_data r), rd_err = None\<rparr> else r)"

definition io_copy :: "'k os \<Rightarrow> int \<Rightarrow> reader \<Rightarrow> ('k, 'm, int \<times> fs_err option) fio" where
  "io_copy os fd r =
     (if rd_data r = [] then uret (0, rd_err r)
      else ubind (sys (os_write os fd (rd_data r)) (\<lambda>_. CWrite fd (rd_data r)))
             (\<lambda>(n, e). uret (int n, if e \<noteq> None then e else rd_err r)))"

definition chown_file :: "sfs_cfg \<Rightarrow> 'k os \<Rightarrow> string \<Rightarrow> ('k, 'm, fs_err option) fio" where
  "chown_file sc os name =
     (if sc_is_test sc then uret None else lchown (sc_fs sc) os name (sc_uid sc) (sc_gid sc))"

text \<open>The size of the file that is to be replaced.\<close>

definition current_size :: "sfs_cfg \<Rightarrow> 'k os \<Rightarrow> string \<Rightarrow> ('k, 'm, sfs_err + int) fio" where
  "current_size sc os p =
     ubind (stat (sc_fs sc) os p)
       (\<lambda>r. uret (case r of
                    Inl e \<Rightarrow> if \<not> errors_is e ErrNotExist
                              then Inl (SfsWrap ''server/filesystem: writefile: failed to stat file'' (UfsError e))
                              else Inr 0
                  | Inr st \<Rightarrow> if fi_is_dir st then Inl (CodeError ErrCodeIsDirectory) else Inr (fi_size st)))"

definition write_touched :: "sfs_cfg \<Rightarrow> 'k os \<Rightarrow> string \<Rightarrow> reader \<Rightarrow> int \<Rightarrow> int \<Rightarrow> int
    \<Rightarrow> ('k, 'z, sfs_err option) sio" where
  "write_touched sc os p r new_size cur fd =
     ubind (if new_size = 0 then ubind (account (wrap64 (- cur))) (\<lambda>_. uret None)
            else ubind (io_copy os fd (limited (Some new_size) r))
                   (\<lambda>(n, err). ubind (account (wrap64 (n - cur))) (\<lambda>_. uret err)))
       (\<lambda>err. ubind (chown_file sc os p)
          (\<lambda>e. uret (if e \<noteq> None then map_option UfsError e else map_option UfsError err)))"

definition fs_write :: "sfs_cfg \<Rightarrow> 'k os \<Rightarrow> string \<Rightarrow> reader \<Rightarrow> int \<Rightarrow> file_mode
    \<Rightarrow> ('k, 'z, sfs_err option) sio" where
  "fs_write sc os p r new_size mode =
     ubind (current_size sc os p)
       (\<lambda>c. case c of
              Inl e \<Rightarrow> uret (Some e)
            | Inr cur \<Rightarrow>
                ubind (has_space_for (wrap64 (new_size - cur)))
                  (\<lambda>full. case full of
                            Some e \<Rightarrow> uret (Some e)
                          | None \<Rightarrow>
                              ubind (touch (sc_fs sc) os p {O_RDWR, O_TRUNC} mode)
                                (\<lambda>t. case t of
                                       Inl e \<Rightarrow> uret (Some (UfsError e))
                                     | Inr fd \<Rightarrow>
                                         ubind (write_touched sc os p r new_size cur fd)
                                           (\<lambda>res. ubind (close_fd os fd) (\<lambda>_. uret res)))))"

text \<open>The older \<open>Writefile\<close>: no check of the quota, and the reader is not limited.\<close>

definition fs_writefile :: "sfs_cfg \<Rightarrow> 'k os \<Rightarrow> string \<Rightarrow> reader \<Rightarrow> ('k, 'z, sfs_err option) sio" where
  "fs_writefile sc os p r =
     ubind (current_size sc os p)
       (\<lambda>c. case c of
              Inl e \<Rightarrow> uret (Some e)
            | Inr cur \<Rightarrow>
                ubind (touch (sc_fs sc) os p {O_RDWR, O_TRUNC} 0x1A4)
                  (\<lambda>t. case t of
                         Inl e \<Rightarrow> uret (Some (SfsWrap ''error touching file'' (UfsError e)))
                       | Inr fd \<Rightarrow>
                           ubind (io_copy os fd r)
                             (\<lambda>(n, err). ubind (account (wrap64 (n - cur)))
                                (\<lambda>_. ubind (chown_file sc os p)
                                   (\<lambda>e. ubind (close_fd os fd)
                                      (\<lambda>_. uret (case e of
                                              Some x \<Rightarrow> Some (SfsWrap ''error chowning file'' (UfsError x))
                                            | None \<Rightarrow> map_option UfsError err)))))))"

section \<open>Copying\<close>

text \<open>
  \<open>findCopySuffix\<close> tries \<open> copy\<close>, \<open> copy 1\<close> to \<open> copy 50\<close> and then settles for the time, \<open>stamp\<close>. The loop
  stands at its round \<open>i\<close> with \<open>k\<close> rounds to go.
\<close>

definition copy_suffix :: "nat \<Rightarrow> string" where
  "copy_suffix i = (if 0 < i then '' copy '' @ itoa (int i) else '' copy'')"

fun copy_suffix_loop :: "'k os \<Rightarrow> int \<Rightarrow> string \<Rightarrow> string \<Rightarrow> string \<Rightarrow> nat \<Rightarrow> nat \<Rightarrow> string
    \<Rightarrow> ('k, 'm, fs_err + string) fio" where
  "copy_suffix_loop os dirfd name ext stamp i 0 sfx = uret (Inr (name @ sfx @ ext))"
| "copy_suffix_loop os dirfd name ext stamp i (Suc k) sfx =
     (let suffix1 = copy_suffix i
      in ubind (lstatat os dirfd (name @ suffix1 @ ext))
           (\<lambda>r. case r of
                  Inl e \<Rightarrow> if \<not> errors_is e ErrNotExist then uret (Inl e)
                            else uret (Inr (name @ suffix1 @ ext))
                | Inr _ \<Rightarrow>
                    copy_suffix_loop os dirfd name ext stamp (Suc i) k
                      (if i = 50 then ''copy.'' @ stamp else suffix1)))"

definition find_copy_suffix :: "'k os \<Rightarrow> string \<Rightarrow> int \<Rightarrow> string \<Rightarrow> string \<Rightarrow> ('k, 'm, fs_err + string) fio" where
  "find_copy_suffix os stamp dirfd name ext = copy_suffix_loop os dirfd name ext stamp 0 51 '' copy''"

definition copy_parts :: "string \<Rightarrow> string \<times> string" where
  "copy_parts base =
     (let ext = path_ext base; base_name = trim_suffix base ext
      in if has_suffix base_name ''.tar'' then (trim_suffix base_name ''.tar'', ''.tar'' @ ext)
         else (base_name, ext))"

definition copy_into :: "sfs_cfg \<Rightarrow> 'k os \<Rightarrow> int \<Rightarrow> int \<Rightarrow> string \<Rightarrow> int \<Rightarrow> int
    \<Rightarrow> ('k, 'z, sfs_err option) sio" where
  "copy_into sc os dirfd source new_name cur dst =
     ubind (sys (os_read os source) (\<lambda>_. CRead source))
       (\<lambda>(bytes, rerr). ubind (io_copy os dst (limited (Some cur) \<lparr>rd_data = bytes, rd_err = rerr\<rparr>))
          (\<lambda>(n, err). ubind (account n)
             (\<lambda>_. if \<not> sc_is_test sc
                  then ubind (lchownat os dirfd new_name (sc_uid sc) (sc_gid sc))
                         (\<lambda>e. uret (map_option UfsError (if e \<noteq> None then e else err)))
                  else uret (map_option UfsError err))))"

definition copy_opened :: "sfs_cfg \<Rightarrow> 'k os \<Rightarrow> string \<Rightarrow> int \<Rightarrow> string \<Rightarrow> int \<Rightarrow> ('k, 'z, sfs_err option) sio" where
  "copy_opened sc os stamp dirfd name source =
     ubind (sys (os_fstat os source) (\<lambda>_. CFstat source))
       (\<lambda>st. case st of
               Inl e \<Rightarrow> uret (Some (UfsError e))
             | Inr s \<Rightarrow>
                 (let info = fill_file_stat s name
                  in if fi_is_dir info \<or> \<not> fi_is_regular info then uret (Some (UfsError ErrNotExist))
                     else ubind (has_space_for (fi_size info))
                            (\<lambda>full. case full of
                                      Some e \<Rightarrow> uret (Some e)
                                    | None \<Rightarrow>
                                        (let (base_name, ext) = copy_parts (fi_name info)
                                         in ubind (find_copy_suffix os stamp dirfd base_name ext)
                                              (\<lambda>nn. case nn of
                                                      Inl e \<Rightarrow> uret (Some (UfsError e))
                                                    | Inr new_name \<Rightarrow>
                                                        ubind (open_fileat (sc_fs sc) os dirfd new_name
                                                                 {O_WRONLY, O_CREATE} (fi_mode info))
                                                          (\<lambda>d. case d of
                                                                 Inl e \<Rightarrow> uret (Some (UfsError e))
                                                               | Inr dst \<Rightarrow> copy_into sc os dirfd source new_name
                                                                              (fi_size info) dst))))))"

definition fs_copy :: "sfs_cfg \<Rightarrow> 'k os \<Rightarrow> string \<Rightarrow> string \<Rightarrow> ('k, 'z, sfs_err option) sio" where
  "fs_copy sc os stamp p =
     with_safe_path (sc_fs sc) os p (\<lambda>e. Some (UfsError e))
       (\<lambda>dirfd name.
          ubind (open_fileat (sc_fs sc) os dirfd name {} 0)
            (\<lambda>r. case r of
                   Inl e \<Rightarrow> uret (Some (UfsError e))
                 | Inr source \<Rightarrow>
                     ubind (copy_opened sc os stamp dirfd name source)
                       (\<lambda>res. ubind (close_fd os source) (\<lambda>_. uret res))))"

section \<open>Directories\<close>

definition create_directory :: "sfs_cfg \<Rightarrow> 'k os \<Rightarrow> string \<Rightarrow> string \<Rightarrow> ('k, 'm, fs_err option) fio" where
  "create_directory sc os name p = mkdir_all (sc_fs sc) os (path_join [p, name]) 0x1ED"

definition fs_delete :: "sfs_cfg \<Rightarrow> 'k os \<Rightarrow> string \<Rightarrow> ('k, 'z qfsw_ext, fs_err option) fio" where
  "fs_delete sc os p = quota_remove_all (sc_fs sc) os p"

definition chown_callback :: "sfs_cfg \<Rightarrow> 'k os \<Rightarrow> ('k, 'm) walk_fn" where
  "chown_callback sc os dirfd name rel d err =
     (case err of
        Some e \<Rightarrow> uret (Some (WalkErr e))
      | None \<Rightarrow> ubind (lchownat os dirfd name (sc_uid sc) (sc_gid sc)) (\<lambda>e. uret (map_option WalkErr e)))"

definition fs_chown :: "sfs_cfg \<Rightarrow> 'k os \<Rightarrow> string \<Rightarrow> ('k, 'm, sfs_err option) fio" where
  "fs_chown sc os p =
     (if sc_is_test sc then uret None
      else with_safe_path (sc_fs sc) os p (\<lambda>e. Some (UfsError e))
        (\<lambda>dirfd name.
           ubind (lchownat os dirfd name (sc_uid sc) (sc_gid sc))
             (\<lambda>e. case e of
                    Some x \<Rightarrow> uret (Some (SfsWrap ''server/filesystem: chown: failed to chown path'' (UfsError x)))
                  | None \<Rightarrow>
                      ubind (lstatat os dirfd name)
                        (\<lambda>st. if (case st of Inl _ \<Rightarrow> True | Inr s \<Rightarrow> \<not> fi_is_dir s) then uret None
                              else ubind (walk_dirat (sc_fs sc) os dirfd name (chown_callback sc os))
                                     (\<lambda>err. uret (map_option (\<lambda>x. SfsWrap
                                        ''server/filesystem: chown: failed to chown during walk function''
                                        (UfsError x)) err))))))"

text \<open>
  \<open>TruncateRootDirectory\<close>: \<open>os.RemoveAll\<close> and \<open>os.Mkdir\<close> of the base, functions of the kernel here; then a new
  quota with the limit of the old one (none in tests) and nothing used.
\<close>

definition truncate_root :: "sfs_cfg \<Rightarrow> ('k \<Rightarrow> fs_err option \<times> 'k) \<Rightarrow> ('k \<Rightarrow> fs_err option \<times> 'k)
    \<Rightarrow> ('k, 'z, fs_err option) sio" where
  "truncate_root sc os_remove_all os_mkdir w =
     (case os_remove_all (kst w) of
        (Some e, k1) \<Rightarrow> (Some (Some e), w\<lparr>kst := k1\<rparr>)
      | (None, k1) \<Rightarrow>
          (case os_mkdir k1 of
             (Some e, k2) \<Rightarrow> (Some (Some e), w\<lparr>kst := k2\<rparr>)
           | (None, k2) \<Rightarrow>
               (Some None, w\<lparr>kst := k2, q_limit := (if sc_is_test sc then 0 else q_limit w), q_usage := 0\<rparr>)))"

text \<open>
  Listings. Directories come first, then names in the order of their bytes; two entries of a
  directory have different names, so the order of \<open>slices.SortFunc\<close> is determined.
\<close>

definition entry_le :: "dir_entry \<Rightarrow> dir_entry \<Rightarrow> bool" where
  "entry_le a b =
     (if mode_is_dir (en_mode a) \<noteq> mode_is_dir (en_mode b) then mode_is_dir (en_mode a)
      else lexordp_eq (map of_char (en_name a) :: nat list) (map of_char (en_name b)))"

fun insert_entry :: "dir_entry \<Rightarrow> dir_entry list \<Rightarrow> dir_entry list" where
  "insert_entry e [] = [e]"
| "insert_entry e (x # xs) = (if entry_le e x then e # x # xs else x # insert_entry e xs)"

definition sort_entries :: "dir_entry list \<Rightarrow> dir_entry list" where
  "sort_entries es = foldr insert_entry es []"

record file_stat =
  fst_info :: file_info
  fst_mimetype :: string

text \<open>
  \<open>mimetype.DetectReader\<close> is a parameter: the type of a file, or an error, from the bytes its reader
  gives and the error after them. A file that cannot be opened or told keeps the default.
\<close>

type_synonym mime_detector = "string \<Rightarrow> fs_err option \<Rightarrow> fs_err + string"

definition entry_mimetype :: "sfs_cfg \<Rightarrow> 'k os \<Rightarrow> mime_detector \<Rightarrow> string \<Rightarrow> dir_entry
    \<Rightarrow> ('k, 'm, string) fio" where
  "entry_mimetype sc os detect p e =
     (if mode_is_dir (en_mode e) then uret ''inode/directory''
      else ubind (u_open (sc_fs sc) os (path_join [p, en_name e]))
             (\<lambda>r. case r of
                    Inl _ \<Rightarrow> uret ''application/octet-stream''
                  | Inr fd \<Rightarrow>
                      ubind (sys (os_read os fd) (\<lambda>_. CRead fd))
                        (\<lambda>(bytes, rerr). ubind (close_fd os fd)
                           (\<lambda>_. uret (case detect bytes rerr of Inl _ \<Rightarrow> ''application/octet-stream'' | Inr m \<Rightarrow> m)))))"

definition entry_info :: "'k os \<Rightarrow> dir_entry \<Rightarrow> ('k, 'm, fs_err + file_info) fio" where
  "entry_info os e = lstatat os (en_dirfd e) (en_name e)"

text \<open>\<open>done\<close> tells, for each round, whether the request's context has ended.\<close>

fun page_entries :: "sfs_cfg \<Rightarrow> 'k os \<Rightarrow> mime_detector \<Rightarrow> string \<Rightarrow> (dir_entry \<Rightarrow> bool) \<Rightarrow> dir_entry list
    \<Rightarrow> ('k, 'm, sfs_err + file_stat list) fio" where
  "page_entries sc os detect p ended [] = uret (Inr [])"
| "page_entries sc os detect p ended (e # es) =
     (if ended e then uret (Inl (SfsWrap ''context canceled'' (UfsError ErrClosed)))
      else ubind (entry_info os e)
             (\<lambda>r. case r of
                    Inl x \<Rightarrow> uret (Inl (UfsError x))
                  | Inr info \<Rightarrow>
                      ubind (entry_mimetype sc os detect p e)
                        (\<lambda>mt. ubind (page_entries sc os detect p ended es)
                           (\<lambda>rest. uret (case rest of
                                           Inl x \<Rightarrow> Inl x
                                         | Inr out \<Rightarrow> Inr (\<lparr>fst_info = info, fst_mimetype = mt\<rparr> # out))))))"

text \<open>A page is a panic when its bounds are out of order.\<close>

datatype 'a listing = Listed 'a | ListPanic

definition page_slice :: "int \<Rightarrow> int \<Rightarrow> 'a list \<Rightarrow> 'a list listing" where
  "page_slice offset limit es =
     (let total = int (length es); end0 = wrap64 (offset + limit);
          end1 = (if end0 > total then total else end0)
      in if end1 < offset then ListPanic
         else Listed (take (nat (end1 - offset)) (drop (nat offset) es)))"

definition list_directory_paged :: "sfs_cfg \<Rightarrow> 'k os \<Rightarrow> mime_detector \<Rightarrow> (dir_entry \<Rightarrow> bool)
    \<Rightarrow> string \<Rightarrow> int \<Rightarrow> int \<Rightarrow> ('k, 'm, (sfs_err + file_stat list \<times> int) listing) fio" where
  "list_directory_paged sc os detect ended p offset0 limit =
     (let offset = (if offset0 < 0 then 0 else offset0)
      in if limit \<le> 0 then uret (Listed (Inr ([], 0)))
         else ubind (read_dir (sc_fs sc) os p)
                (\<lambda>r. case r of
                       Inl e \<Rightarrow> uret (Listed (Inl (UfsError e)))
                     | Inr entries \<Rightarrow>
                         (let total = int (length entries)
                          in if total \<le> offset then uret (Listed (Inr ([], total)))
                             else (case page_slice offset limit (sort_entries entries) of
                                     ListPanic \<Rightarrow> uret ListPanic
                                   | Listed page \<Rightarrow>
                                       ubind (page_entries sc os detect p ended page)
                                         (\<lambda>out. uret (Listed (case out of
                                                                Inl e \<Rightarrow> Inl e
                                                              | Inr st \<Rightarrow> Inr (st, total))))))))"

text \<open>
  \<open>ReadDirMap\<close> keeps the directory open while it asks for the information, and so do \<open>ListDirectory\<close>
  and \<open>ReadDirStat\<close>, which are built on it.
\<close>

fun map_entries :: "(dir_entry \<Rightarrow> ('k, 'm, fs_err + 'a) fio) \<Rightarrow> dir_entry list \<Rightarrow> ('k, 'm, fs_err + 'a list) fio" where
  "map_entries f [] = uret (Inr [])"
| "map_entries f (e # es) =
     ubind (f e)
       (\<lambda>r. case r of
              Inl x \<Rightarrow> uret (Inl x)
            | Inr v \<Rightarrow> ubind (map_entries f es)
                         (\<lambda>rest. uret (case rest of Inl x \<Rightarrow> Inl x | Inr vs \<Rightarrow> Inr (v # vs))))"

definition read_dir_map :: "unix_fs \<Rightarrow> 'k os \<Rightarrow> string \<Rightarrow> (dir_entry \<Rightarrow> ('k, 'm, fs_err + 'a) fio)
    \<Rightarrow> ('k, 'm, fs_err + 'a list) fio" where
  "read_dir_map fs os path f =
     with_safe_path fs os path Inl
       (\<lambda>dirfd name.
          ubind (openat fs os dirfd name {O_DIRECTORY} 0)
            (\<lambda>(fd, err).
               case err of
                 Some e \<Rightarrow> uret (Inl e)
               | None \<Rightarrow>
                   ubind (read_dir_fd os fd ''.'' path)
                     (\<lambda>r. ubind (case r of
                                   Inl e \<Rightarrow> uret (Inl e)
                                 | Inr entries \<Rightarrow> map_entries f entries)
                            (\<lambda>res. ubind (close_fd os fd) (\<lambda>_. uret res)))))"

definition read_dir_stat :: "sfs_cfg \<Rightarrow> 'k os \<Rightarrow> string \<Rightarrow> ('k, 'm, fs_err + file_info list) fio" where
  "read_dir_stat sc os path = read_dir_map (sc_fs sc) os path (entry_info os)"

definition list_entry :: "sfs_cfg \<Rightarrow> 'k os \<Rightarrow> mime_detector \<Rightarrow> string \<Rightarrow> dir_entry
    \<Rightarrow> ('k, 'm, fs_err + file_stat) fio" where
  "list_entry sc os detect p e =
     ubind (entry_info os e)
       (\<lambda>r. case r of
              Inl x \<Rightarrow> uret (Inl x)
            | Inr info \<Rightarrow>
                ubind (entry_mimetype sc os detect p e)
                  (\<lambda>mt. uret (Inr \<lparr>fst_info = info, fst_mimetype = mt\<rparr>)))"

definition stat_le :: "file_stat \<Rightarrow> file_stat \<Rightarrow> bool" where
  "stat_le a b =
     (if fi_is_dir (fst_info a) \<noteq> fi_is_dir (fst_info b) then fi_is_dir (fst_info a)
      else lexordp_eq (map of_char (fi_name (fst_info a)) :: nat list) (map of_char (fi_name (fst_info b))))"

fun insert_stat :: "file_stat \<Rightarrow> file_stat list \<Rightarrow> file_stat list" where
  "insert_stat e [] = [e]"
| "insert_stat e (x # xs) = (if stat_le e x then e # x # xs else x # insert_stat e xs)"

definition list_directory :: "sfs_cfg \<Rightarrow> 'k os \<Rightarrow> mime_detector \<Rightarrow> string
    \<Rightarrow> ('k, 'm, fs_err + file_stat list) fio" where
  "list_directory sc os detect p =
     ubind (read_dir_map (sc_fs sc) os p (list_entry sc os detect p))
       (\<lambda>r. uret (case r of Inl e \<Rightarrow> Inl e | Inr out \<Rightarrow> Inr (foldr insert_stat out [])))"

section \<open>Files handed out\<close>

text \<open>\<open>name\<close> is the name the file was opened with; after the detection the file is read from its start again.\<close>

definition stat_from_file :: "'k os \<Rightarrow> mime_detector \<Rightarrow> string \<Rightarrow> int \<Rightarrow> ('k, 'm, fs_err + file_stat) fio" where
  "stat_from_file os detect name fd =
     ubind (sys (os_fstat os fd) (\<lambda>_. CFstat fd))
       (\<lambda>r. case r of
              Inl e \<Rightarrow> uret (Inl e)
            | Inr s \<Rightarrow>
                (let info = fill_file_stat s name
                 in if fi_is_dir info then uret (Inr \<lparr>fst_info = info, fst_mimetype = ''inode/directory''\<rparr>)
                    else ubind (sys (os_read os fd) (\<lambda>_. CRead fd))
                           (\<lambda>(bytes, rerr). case detect bytes rerr of
                                Inl e \<Rightarrow> uret (Inl e)
                              | Inr m \<Rightarrow>
                                  ubind (sys (os_seek os fd) (\<lambda>_. CSeek fd))
                                    (\<lambda>e. uret (case e of
                                                 Some x \<Rightarrow> Inl x
                                               | None \<Rightarrow> Inr \<lparr>fst_info = info, fst_mimetype = m\<rparr>)))))"

definition fs_file :: "sfs_cfg \<Rightarrow> 'k os \<Rightarrow> mime_detector \<Rightarrow> string \<Rightarrow> ('k, 'm, fs_err + int \<times> file_stat) fio" where
  "fs_file sc os detect p =
     ubind (u_open (sc_fs sc) os p)
       (\<lambda>r. case r of
              Inl e \<Rightarrow> uret (Inl e)
            | Inr fd \<Rightarrow>
                ubind (stat_from_file os detect p fd)
                  (\<lambda>st. case st of
                          Inl e \<Rightarrow> ubind (close_fd os fd) (\<lambda>_. uret (Inl e))
                        | Inr s \<Rightarrow> uret (Inr (fd, s))))"

definition fs_stat :: "sfs_cfg \<Rightarrow> 'k os \<Rightarrow> mime_detector \<Rightarrow> string \<Rightarrow> ('k, 'm, fs_err + file_stat) fio" where
  "fs_stat sc os detect p =
     ubind (u_open (sc_fs sc) os p)
       (\<lambda>r. case r of
              Inl e \<Rightarrow> uret (Inl e)
            | Inr fd \<Rightarrow>
                ubind (stat_from_file os detect p fd) (\<lambda>st. ubind (close_fd os fd) (\<lambda>_. uret st)))"

definition fs_touch :: "sfs_cfg \<Rightarrow> 'k os \<Rightarrow> string \<Rightarrow> oflag set \<Rightarrow> ('k, 'm, fs_err + int) fio" where
  "fs_touch sc os p flag = touch (sc_fs sc) os p flag 0x1A4"

end
