(* ===== verification/World_Order.thy ===== *)
theory World_Order
  imports Filesystem
begin

text \<open>
  Relations between the world before and after an operation. A relation that is reflexive and
  transitive and that holds across every system call of some kind holds across every operation made
  of such calls. There are three kinds: calls that change something, calls that ask for a file's
  information, and the others.
\<close>

definition is_stat :: "call \<Rightarrow> bool" where
  "is_stat c = (case c of CStat d n b r \<Rightarrow> True | _ \<Rightarrow> False)"

definition for_change :: "oflag set \<Rightarrow> bool" where
  "for_change fl \<longleftrightarrow> fl \<inter> {O_WRONLY, O_RDWR, O_CREATE, O_TRUNC, O_APPEND, O_EXCL} \<noteq> {}"

fun changing :: "call \<Rightarrow> bool" where
  "changing (COpenat d n fl m r) = for_change fl"
| "changing (COpenat2 d n fl m r) = for_change fl"
| "changing (CAt a r) = True"
| "changing (CWrite fd s) = True"
| "changing c = False"

lemma is_stat_simps [simp]:
  "is_stat (CStat d n b r)" "\<not> is_stat (COpenat d n fl m r')" "\<not> is_stat (COpenat2 d n fl m r')"
  "\<not> is_stat (CEval d p)" "\<not> is_stat (CClose d)" "\<not> is_stat (CAt a u)" "\<not> is_stat (CFstat d)"
  "\<not> is_stat (CReaddir d)" "\<not> is_stat (CRead d)" "\<not> is_stat (CWrite d s)" "\<not> is_stat (CSeek d)"
  by (simp_all add: is_stat_def)

lemma for_change_simps [simp]:
  "\<not> for_change {}" "for_change (insert O_CLOEXEC fl) = for_change fl"
  "for_change (insert O_NOFOLLOW fl) = for_change fl" "for_change (insert O_LARGEFILE fl) = for_change fl"
  "for_change (insert O_DIRECTORY fl) = for_change fl"
  by (auto simp: for_change_def)

definition moves :: "(('k, 'm) fsw_scheme \<Rightarrow> ('k, 'm) fsw_scheme \<Rightarrow> bool) \<Rightarrow> ('k, 'm, 'a) fio \<Rightarrow> bool" where
  "moves R m \<longleftrightarrow> (\<forall>w. R w (snd (m w)))"

lemma movesD: "moves R m \<Longrightarrow> R w (snd (m w))"
  by (simp add: moves_def)

named_theorems moves_intros \<open>operations that a relation holds across\<close>

lemma moves_if [moves_intros]: "(b \<Longrightarrow> moves R f) \<Longrightarrow> (\<not> b \<Longrightarrow> moves R g) \<Longrightarrow> moves R (if b then f else g)"
  by simp

lemma moves_option [moves_intros]:
  "(m = None \<Longrightarrow> moves R f) \<Longrightarrow> (\<And>x. m = Some x \<Longrightarrow> moves R (g x)) \<Longrightarrow>
   moves R (case m of None \<Rightarrow> f | Some x \<Rightarrow> g x)"
  by (cases m) auto

lemma moves_sum [moves_intros]:
  "(\<And>x. m = Inl x \<Longrightarrow> moves R (f x)) \<Longrightarrow> (\<And>x. m = Inr x \<Longrightarrow> moves R (g x)) \<Longrightarrow>
   moves R (case m of Inl x \<Rightarrow> f x | Inr x \<Rightarrow> g x)"
  by (cases m) auto

lemma moves_prod [moves_intros]: "(\<And>x y. moves R (f x y)) \<Longrightarrow> moves R (case p of (x, y) \<Rightarrow> f x y)"
  by (cases p) auto

section \<open>Reading\<close>

locale reading_order =
  fixes R :: "('k, 'm) fsw_scheme \<Rightarrow> ('k, 'm) fsw_scheme \<Rightarrow> bool"
  assumes R_refl: "R w w"
    and R_trans: "R w1 w2 \<Longrightarrow> R w2 w3 \<Longrightarrow> R w1 w3"
    and R_read: "\<not> changing c \<Longrightarrow> \<not> is_stat c \<Longrightarrow> R w (w\<lparr>kst := k, calls := calls w @ [c]\<rparr>)"
begin

lemma ret [moves_intros]: "moves R (uret x)"
  by (simp add: moves_def uret_def R_refl)

lemma stuck [moves_intros]: "moves R ustuck"
  by (simp add: moves_def ustuck_def R_refl)

lemma asks [moves_intros]: "moves R (asking f)"
  by (simp add: moves_def asking_def R_refl)

lemma bind [moves_intros]:
  assumes "moves R m" and "\<And>x. moves R (f x)"
  shows "moves R (ubind m f)"
  unfolding moves_def
proof
  fix w
  obtain r w1 where m: "m w = (r, w1)" by (cases "m w")
  then have "R w w1" using movesD [OF assms(1), of w] by simp
  then show "R w (snd (ubind m f w))"
    using m by (cases r) (auto simp: ubind_def intro: R_trans movesD [OF assms(2)])
qed

lemma sys_by: "(\<And>w k r. R w (w\<lparr>kst := k, calls := calls w @ [ev r]\<rparr>)) \<Longrightarrow> moves R (sys f ev)"
  by (simp add: moves_def sys_def)

lemma sys_read: "(\<And>r. \<not> changing (ev r) \<and> \<not> is_stat (ev r)) \<Longrightarrow> moves R (sys f ev)"
  by (rule sys_by) (simp add: R_read)

lemma sys_intros [moves_intros]:
  "moves R (sys h (CEval fd))" "moves R (sys j (\<lambda>_. CFstat fd))" "moves R (sys l (\<lambda>_. CReaddir fd))"
  "moves R (sys o' (\<lambda>_. CRead fd))" "moves R (sys q (\<lambda>_. CSeek fd))" "moves R (sys_close os fd)"
  unfolding sys_close_def by (simp_all add: sys_read)

lemma ignoring_eintr [moves_intros]: "moves R m \<Longrightarrow> moves R (ignoring_eintr n m)"
  by (induction n) (auto intro!: moves_intros)

lemma close_all [moves_intros]: "moves R (close_all os fds)"
  by (induction fds) (auto simp: close_all_Cons close_all_def [of os "[]"] intro!: moves_intros)

lemma close_fd [moves_intros]: "moves R (close_fd os fd)"
  unfolding close_fd_def by (intro moves_intros)

lemma openat_by:
  assumes "\<And>f m. moves R (sys f (COpenat d p (insert O_CLOEXEC (insert O_NOFOLLOW fl)) m))"
    and "\<And>f m. moves R (sys f (COpenat2 d p (insert O_LARGEFILE (insert O_CLOEXEC (insert O_NOFOLLOW fl))) m))"
  shows "moves R (openat fs os d p fl m)"
proof -
  have "moves R (open_loop fs os n d p (insert O_NOFOLLOW fl) m)" for n
    by (induction n) (auto simp: u_openat_def u_openat2_def Let_def intro!: moves_intros assms)
  then show ?thesis unfolding openat_def by (intro moves_intros)
qed

lemma openat_read: "\<not> for_change fl \<Longrightarrow> moves R (openat fs os d p fl m)"
  by (rule openat_by) (simp_all add: sys_read)

lemma safe_path [moves_intros]: "moves R (safe_path fs os p)"
  unfolding safe_path_def Let_def u_openat_def
  by (cases "unsafe_path fs p") (auto split: path_error.split intro!: moves_intros openat_read sys_read)

lemma with_safe_path [moves_intros]:
  "(\<And>d n. moves R (body d n)) \<Longrightarrow> moves R (with_safe_path fs os p fail body)"
  unfolding with_safe_path_def by (intro moves_intros)

lemma open_read [moves_intros]: "moves R (u_open fs os p)"
  unfolding u_open_def open_file_def open_fileat_def by (intro moves_intros openat_read) simp

lemma walk_children [moves_intros]: "(\<And>e. moves R (visit e)) \<Longrightarrow> moves R (walk_children visit ds)"
  by (induction ds) (auto intro!: moves_intros)

lemma read_dir_fd_by:
  assumes "\<And>d n. moves R (mode_from_dirent os d fd n)"
  shows "moves R (read_dir_fd os fd name rel)"
proof -
  have batch: "moves R (read_batch os fd name rel ds)" for ds
    by (induction ds) (auto intro!: moves_intros assms)
  have "moves R (read_dir_loop os k fd name rel)" for k
    by (induction k) (auto intro!: moves_intros batch)
  then show ?thesis by (simp add: read_dir_fd_def)
qed

text \<open>A kernel that gives the type of every directory entry is never asked for it.\<close>

lemma read_dir_fd_typed:
  assumes typed: "\<And>k ds. fst (os_getdents os fd k) = Inr ds \<Longrightarrow> \<forall>d \<in> set ds. sd_type d \<noteq> DT_OTHER"
  shows "moves R (read_dir_fd os fd name rel)"
proof -
  have batch: "moves R (read_batch os fd name rel ds)" if "\<forall>d \<in> set ds. sd_type d \<noteq> DT_OTHER" for ds
    using that by (induction ds) (auto simp: mode_from_dirent_def intro!: moves_intros split: dtype.split)
  have step: "R w (snd (ubind (sys (os_getdents os fd) (\<lambda>_. CReaddir fd)) f w))"
    if "\<And>r. (\<forall>ds. r = Inr ds \<longrightarrow> (\<forall>d \<in> set ds. sd_type d \<noteq> DT_OTHER)) \<Longrightarrow> moves R (f r)"
    for f :: "errno + sys_dirent list \<Rightarrow> ('k, 'm, fs_err + dir_entry list) fio" and w
  proof -
    let ?r = "os_getdents os fd (kst w)"
    let ?w1 = "w\<lparr>kst := snd ?r, calls := calls w @ [CReaddir fd]\<rparr>"
    have "moves R (f (fst ?r))" by (rule that) (simp add: typed)
    then have "R ?w1 (snd (f (fst ?r) ?w1))" by (rule movesD)
    moreover have "R w ?w1" by (rule R_read) simp_all
    ultimately show ?thesis by (auto simp: ubind_def sys_def intro: R_trans)
  qed
  have "moves R (read_dir_loop os k fd name rel)" for k
  proof (induction k)
    case (Suc k)
    show ?case unfolding read_dir_loop.simps moves_def
      by (intro allI step moves_intros Suc.IH batch) auto
  qed (simp add: stuck)
  then show ?thesis by (simp add: read_dir_fd_def)
qed

lemma walk_dir_by:
  assumes dirs: "\<And>fd name rel. moves R (read_dir_fd os fd name rel)"
    and fn: "\<And>dirfd n rel d err. moves R (fn dirfd n rel d err)"
  shows "moves R (walk_dir fs os fn k fd n rel d)"
proof (induction k arbitrary: fd n rel d)
  case (Suc k)
  then show ?case unfolding walk_dir.simps by (intro moves_intros dirs fn openat_read) simp
qed (simp add: stuck)

lemma stat_from_file [moves_intros]: "moves R (stat_from_file os detect n fd)"
  unfolding stat_from_file_def Let_def by (intro moves_intros)

lemma files [moves_intros]: "moves R (fs_file sc os detect p)" "moves R (fs_stat sc os detect p)"
  unfolding fs_file_def fs_stat_def by (intro moves_intros)+

end

section \<open>Calls that change something\<close>
locale world_order = reading_order +
  assumes R_change: "changing c \<Longrightarrow> R w (w\<lparr>kst := k, calls := calls w @ [c]\<rparr>)"
begin

lemma sys_plain: "(\<And>r. \<not> is_stat (ev r)) \<Longrightarrow> moves R (sys f ev)"
  by (rule sys_by) (metis R_read R_change)

lemma sys_change [moves_intros]:
  "moves R (sys f (COpenat d n fl m))" "moves R (sys g (COpenat2 d n fl m))"
  "moves R (sys p (\<lambda>_. CWrite fd s))" "moves R (sys_at os a)"
  unfolding sys_at_def by (simp_all add: sys_plain)

lemma openat [moves_intros]: "moves R (openat fs os d p fl m)"
  by (intro openat_by moves_intros)

lemma open_fileat [moves_intros]: "moves R (open_fileat fs os d p fl m)"
  unfolding open_fileat_def by (intro moves_intros)

lemma attributes [moves_intros]:
  "moves R (lchown fs os p u g)" "moves R (lchownat os d n u g)" "moves R (mkdir fs os p m)"
  "moves R (symlink fs os p q)" "moves R (unlinkat os d n b)" "moves R (chmod fs os p m)"
  unfolding lchown_def fchown_def lchownat_def mkdir_def mkdirat_def symlink_def unlinkat_def chmod_def fchmodat_def
  by (intro moves_intros)+

lemma io_copy [moves_intros]: "moves R (io_copy os fd r)"
  unfolding io_copy_def by (intro moves_intros)

end

section \<open>Asking for information\<close>

locale quiet_order = reading_order +
  assumes R_stat: "R w (w\<lparr>kst := k, calls := calls w @ [CStat d n b r]\<rparr>)"
begin

lemma sys_stat [moves_intros]: "moves R (sys f (CStat d n b))"
  by (rule sys_by) (rule R_stat)

lemma lookups [moves_intros]:
  "moves R (u_fstatat os op d n b)" "moves R (u_fstat fs os op p b)" "moves R (stat fs os p)"
  "moves R (lstat fs os p)" "moves R (lstatat os d n)"
  unfolding u_fstatat_def u_fstat_def stat_def lstat_def lstatat_def by (intro moves_intros)+

lemma copy_suffix [moves_intros]: "moves R (find_copy_suffix os stamp d n e)"
proof -
  have "moves R (copy_suffix_loop os d n e stamp i k sfx)" for i k sfx
    by (induction k arbitrary: i sfx) (auto simp: Let_def intro!: moves_intros)
  then show ?thesis by (simp add: find_copy_suffix_def)
qed

lemma read_dir_fd [moves_intros]: "moves R (read_dir_fd os fd name rel)"
  by (rule read_dir_fd_by)
    (auto simp: mode_from_dirent_def mode_type_of_def intro!: moves_intros split: dtype.split)

lemma read_dir_map [moves_intros]:
  assumes "\<And>e. moves R (f e)"
  shows "moves R (read_dir_map fs os p f)"
proof -
  have "moves R (map_entries f es)" for es
    by (induction es) (auto intro!: moves_intros assms)
  then show ?thesis unfolding read_dir_map_def by (intro moves_intros openat_read) simp_all
qed

lemma read_dir_stat [moves_intros]: "moves R (read_dir_stat sc os p)"
  unfolding read_dir_stat_def entry_info_def by (intro moves_intros)

lemma walk_dirat:
  assumes "\<And>dirfd n rel d err. moves R (fn dirfd n rel d err)"
  shows "moves R (walk_dirat fs os d n fn)"
  unfolding walk_dirat_def by (intro moves_intros assms walk_dir_by)

lemma current_size [moves_intros]: "moves R (current_size sc os p)"
  unfolding current_size_def by (intro moves_intros)

end

section \<open>All calls\<close>

locale stat_order = world_order + quiet_order
begin

lemma mkdir_all [moves_intros]: "moves R (mkdir_all fs os p m)"
proof -
  have "moves R (mkdir_all_rec fs os m p)" for p
  proof (induction fs os m p rule: mkdir_all_rec.induct)
    case (1 fs os m p)
    show ?case unfolding mkdir_all_rec.simps [of fs os m p] mkdir_exists_def mkdir_last_def
      by (intro moves_intros 1)
  qed
  then show ?thesis unfolding mkdir_all_def resolving_def
    by (cases "unsafe_path fs p") (auto split: path_error.split intro: ret)
qed

lemma touch [moves_intros]: "moves R (touch fs os p fl m)"
  unfolding touch_def touch_path_def by (auto split: prod.split intro!: moves_intros)

lemma rename [moves_intros]: "moves R (rename fs os p q)"
  unfolding rename_def rename_target_def rename_to_def by (intro moves_intros)

lemma remove_stat [moves_intros]: "moves R (remove_stat fs os p)"
  unfolding remove_stat_def by (intro moves_intros)

lemma chowns [moves_intros]: "moves R (chown_file sc os p)" "moves R (fs_chown sc os p)"
  unfolding chown_file_def fs_chown_def chown_callback_def by (intro moves_intros walk_dirat)+

end

text \<open>\<open>UnixFS\<close> knows nothing of the fields that its world is extended with.\<close>

definition same_rest :: "('k, 'm) fsw_scheme \<Rightarrow> ('k, 'm) fsw_scheme \<Rightarrow> bool" where
  "same_rest w w' \<longleftrightarrow> fsw.more w' = fsw.more w"

abbreviation still :: "('k, 'm, 'a) fio \<Rightarrow> bool" where
  "still \<equiv> moves same_rest"

interpretation st: stat_order same_rest
  by unfold_locales (auto simp: same_rest_def)

section \<open>Results\<close>

definition results :: "('k, 'm, 'a) fio \<Rightarrow> ('a \<Rightarrow> bool) \<Rightarrow> bool" where
  "results m A \<longleftrightarrow> (\<forall>w x. fst (m w) = Some x \<longrightarrow> A x)"

lemma results_bind:
  "(\<And>x. results (f x) A) \<Longrightarrow> results (ubind m f) A"
  unfolding results_def ubind_def by (auto split: prod.splits option.splits)

lemma resultsD: "results m A \<Longrightarrow> fst (m w) = Some x \<Longrightarrow> A x"
  by (simp add: results_def)

lemma results_bind_dep:
  fixes m :: "('k, 'm, 'a) fio"
  assumes "results m B" and "\<And>x. B x \<Longrightarrow> results (f x) A"
  shows "results (ubind m f) A"
  unfolding results_def
proof (intro allI impI)
  fix w :: "('k, 'm) fsw_scheme" and x
  assume r: "fst (ubind m f w) = Some x"
  obtain y w1 where m: "m w = (Some y, w1)" "fst (f y w1) = Some x"
    using r by (auto simp: ubind_def split: prod.splits option.splits)
  have "B y" by (rule resultsD [OF assms(1), of w]) (simp add: m)
  from assms(2) [OF this] m(2) show "A x" by (rule resultsD)
qed

lemma results_ret: "A x \<Longrightarrow> results (uret x) A"
  by (simp add: results_def uret_def)

lemma results_if: "results m A \<Longrightarrow> results m' A \<Longrightarrow> results (if b then m else m') A"
  by simp

lemma results_eintr:
  assumes "results m B"
  shows "results (ignoring_eintr n m) B"
proof (induction n)
  case (Suc n)
  then show ?case by (auto intro!: results_bind_dep [OF assms] results_ret)
qed (simp add: results_def ustuck_def)

lemma results_with_safe_path:
  assumes "\<And>d n. results (body d n) A" and "\<And>e. A (fail e)"
  shows "results (with_safe_path fs os p fail body) A"
proof -
  have inner: "results (ubind (close_all os cl) (\<lambda>_. uret r)) A" if "A r" for cl r
    using that by (intro results_bind results_ret)
  have "results (case err of Some e \<Rightarrow> uret (fail e) | None \<Rightarrow> body d n) A" for err d n
    using assms by (cases err) (auto intro: results_ret)
  then show ?thesis unfolding with_safe_path_def
    by (intro results_bind) (auto split: prod.split intro: results_bind_dep inner)
qed

lemma results_eq: "results m A \<Longrightarrow> (\<And>x. A x \<Longrightarrow> B x) \<Longrightarrow> results m B"
  by (simp add: results_def)

section \<open>Around a body\<close>

lemma with_safe_path_cases:
  assumes run: "with_safe_path fs os p fail body w = (Some r, w')"
  obtains (refused) d n cl e w1 where "safe_path fs os p w = (Some (d, n, cl, Some e), w1)"
      "r = fail e" "w' = snd (close_all os cl w1)"
    | (entered) d n cl w1 w2 where "safe_path fs os p w = (Some (d, n, cl, None), w1)"
      "body d n w1 = (Some r, w2)" "w' = snd (close_all os cl w2)"
proof -
  obtain d n cl e w1 where sp: "safe_path fs os p w = (Some (d, n, cl, e), w1)"
    using run by (auto simp: with_safe_path_def ubind_def split: prod.splits option.splits)
  show thesis
  proof (cases e)
    case None
    with sp run show thesis
      by (auto simp: with_safe_path_def ubind_def uret_def split: prod.splits option.splits
          intro!: entered [of d n cl w1])
  next
    case (Some x)
    with sp run show thesis
      by (auto simp: with_safe_path_def ubind_def uret_def split: prod.splits option.splits
          intro!: refused [of d n cl x w1])
  qed
qed

end
