(* ===== verification/Disk_Usage.thy ===== *)
theory Disk_Usage
  imports World_Order
begin

text \<open>
  \<open>DirectorySize\<close>, with the cache of its result: the size is that of every file the walk was told
  about, a file with several names counted once.
\<close>

section \<open>What is counted\<close>

definition linked :: "sys_stat \<Rightarrow> bool" where
  "linked s \<longleftrightarrow> 1 < st_nlink s"

text \<open>The specification: a file with several names stands for all the later files of its number.\<close>

fun counted :: "sys_stat list \<Rightarrow> sys_stat list" where
  "counted [] = []"
| "counted (s # ss) =
     s # counted (if linked s then filter (\<lambda>t. \<not> (linked t \<and> st_ino t = st_ino s)) ss else ss)"

definition total_size :: "sys_stat list \<Rightarrow> int" where
  "total_size ss = sum_list (map st_size (counted ss))"

definition unseen :: "nat list \<Rightarrow> sys_stat list \<Rightarrow> sys_stat list" where
  "unseen seen ss = filter (\<lambda>t. \<not> (linked t \<and> st_ino t \<in> set seen)) ss"

lemma unseen_simps [simp]:
  "unseen seen [] = []"
  "unseen seen (s # ss) = (if linked s \<and> st_ino s \<in> set seen then unseen seen ss else s # unseen seen ss)"
  by (simp_all add: unseen_def)

lemma unseen_more:
  "unseen (seen @ [st_ino s]) ss = filter (\<lambda>t. \<not> (linked t \<and> st_ino t = st_ino s)) (unseen seen ss)"
  by (induction ss) auto

lemma wrap64_add: "wrap64 (wrap64 a + b) = wrap64 (a + b)"
proof -
  have "((a + 2 ^ 63) mod 2 ^ 64 - 2 ^ 63 + b + 2 ^ 63) mod 2 ^ 64 = ((a + 2 ^ 63) mod 2 ^ 64 + b) mod 2 ^ 64"
    by (simp add: algebra_simps)
  also have "\<dots> = (a + b + 2 ^ 63) mod (2 ^ 64 :: int)"
    by (simp only: mod_add_left_eq) (simp add: algebra_simps)
  finally show ?thesis unfolding wrap64_def by simp
qed

lemma fold_count_file:
  "snd (fold count_file ss (seen, wrap64 n)) = wrap64 (n + total_size (unseen seen ss))"
proof (induction ss arbitrary: seen n)
  case (Cons s ss)
  have "count_file s (seen, wrap64 n) =
      (if linked s \<and> st_ino s \<in> set seen then (seen, wrap64 n)
       else (if linked s then seen @ [st_ino s] else seen, wrap64 (n + st_size s)))"
    by (auto simp: count_file_def linked_def Let_def wrap64_add)
  then show ?case
    by (auto simp: Cons.IH total_size_def unseen_more add.assoc)
qed (simp add: total_size_def)

section \<open>The walk counts every answer\<close>

fun stat_answer :: "call \<Rightarrow> sys_stat list" where
  "stat_answer (CStat d n b (Inr s)) = [s]"
| "stat_answer _ = []"

definition stat_answers :: "call list \<Rightarrow> sys_stat list" where
  "stat_answers cs = concat (map stat_answer cs)"

lemma stat_answers_simps [simp]:
  "stat_answers [] = []" "stat_answers (cs @ ds) = stat_answers cs @ stat_answers ds"
  "stat_answers [c] = stat_answer c"
  by (simp_all add: stat_answers_def)

lemma stat_answer_plain: "\<not> is_stat c \<Longrightarrow> stat_answer c = []"
  by (cases c) auto

definition counts :: "('k, 'z) sfsw_scheme \<Rightarrow> ('k, 'z) sfsw_scheme \<Rightarrow> bool" where
  "counts w w' \<longleftrightarrow>
     (\<exists>ss. stat_answers (calls w') = stat_answers (calls w) @ ss \<and>
        (sf_hard_links w', sf_size w') = fold count_file ss (sf_hard_links w, sf_size w))"

lemma countsI:
  "stat_answers (calls w') = stat_answers (calls w) @ ss \<Longrightarrow>
   (sf_hard_links w', sf_size w') = fold count_file ss (sf_hard_links w, sf_size w) \<Longrightarrow> counts w w'"
  by (auto simp: counts_def)

interpretation ct: world_order counts
proof (unfold_locales, goal_cases)
  case (1 w)
  show ?case by (rule countsI [of _ _ "[]"]) simp_all
next
  case (2 w1 w2 w3)
  then obtain ss ts where
    "stat_answers (calls w2) = stat_answers (calls w1) @ ss"
    "(sf_hard_links w2, sf_size w2) = fold count_file ss (sf_hard_links w1, sf_size w1)"
    "stat_answers (calls w3) = stat_answers (calls w2) @ ts"
    "(sf_hard_links w3, sf_size w3) = fold count_file ts (sf_hard_links w2, sf_size w2)"
    by (auto simp: counts_def)
  then show ?case by (intro countsI [of _ _ "ss @ ts"]) simp_all
next
  case (3 c w k)
  then show ?case by (intro countsI [of _ _ "[]"]) (simp_all add: stat_answer_plain)
next
  case (4 c w k)
  then have "\<not> is_stat c" by (cases c) simp_all
  then show ?case by (intro countsI [of _ _ "[]"]) (simp_all add: stat_answer_plain)
qed

text \<open>The information of a file is the last answer; an error leaves no answer behind.\<close>

definition no_answer :: "('k, 'm) fsw_scheme \<Rightarrow> ('k, 'm) fsw_scheme \<Rightarrow> bool" where
  "no_answer w w' \<longleftrightarrow> stat_answers (calls w') = stat_answers (calls w) \<and> fsw.more w' = fsw.more w"

lemma lstatat_answers:
  fixes w :: "('k, 'm) fsw_scheme"
  obtains (stuck) w1 where "lstatat os d n w = (None, w1)" "no_answer w w1"
    | (fails) e w1 where "lstatat os d n w = (Some (Inl e), w1)" "no_answer w w1"
    | (info) i w1 where "lstatat os d n w = (Some (Inr i), w1)"
        "stat_answers (calls w1) = stat_answers (calls w) @ [fi_sys i]" "fsw.more w1 = fsw.more w"
proof -
  let ?m = "\<lambda>k. ignoring_eintr k (sys (os_fstatat os d n True) (CStat d n True))"
  let ?P = "\<lambda>r w w1. case r of
      Some (Inr s) \<Rightarrow> stat_answers (calls w1) = stat_answers (calls w) @ [s] \<and> fsw.more w1 = fsw.more w
    | _ \<Rightarrow> no_answer w w1"
  have P: "?P (fst (?m k w)) w (snd (?m k w))" for k and w :: "('k, 'm) fsw_scheme"
  proof (induction k arbitrary: w)
    case (Suc k)
    obtain r k1 where f: "os_fstatat os d n True (kst w) = (r, k1)" by (cases "os_fstatat os d n True (kst w)")
    let ?w1 = "w\<lparr>kst := k1, calls := calls w @ [CStat d n True r]\<rparr>"
    have s: "?m (Suc k) w = (if r = Inl EINTR then ?m k ?w1 else (Some r, ?w1))"
      by (simp add: ubind_def sys_def uret_def f)
    show ?case
    proof (cases "r = Inl EINTR")
      case True
      then have same: "stat_answers (calls ?w1) = stat_answers (calls w)" "fsw.more ?w1 = fsw.more w" by simp_all
      have "?m (Suc k) w = ?m k ?w1" using s True by simp
      then show ?thesis using Suc.IH [of ?w1] same
        by (auto simp: no_answer_def split: option.splits sum.splits)
    next
      case False
      then have "?m (Suc k) w = (Some r, ?w1)" using s by simp
      then show ?thesis by (cases r) (simp_all add: no_answer_def)
    qed
  qed (simp add: ustuck_def no_answer_def)
  show thesis
  proof (cases "?m (os_rounds os) w")
    case (Pair r w1)
    have P1: "?P r w w1" using P [of w "os_rounds os"] unfolding Pair fst_conv snd_conv .
    show thesis
    proof (cases r)
      case None
      with Pair P1 show thesis by (intro stuck [of w1]) (simp_all add: lstatat_def u_fstatat_def ubind_def)
    next
      case (Some a)
      show thesis
      proof (cases a)
        case (Inl e)
        with Pair P1 Some show thesis
          by (intro fails [of _ w1]) (simp_all add: lstatat_def u_fstatat_def ubind_def uret_def)
      next
        case (Inr s)
        with Pair P1 Some show thesis
          by (intro info [of _ w1]) (auto simp: lstatat_def u_fstatat_def ubind_def uret_def fill_file_stat_def)
      qed
    qed
  qed
qed


lemma no_answer_counts: 
  fixes w :: "('k, 'z) sfsw_scheme"
  assumes "no_answer w w1"
  shows "counts w w1"
proof -
  have "sf_hard_links w1 = sf_hard_links w" "sf_size w1 = sf_size w"
    using assms by (cases w; cases w1; simp add: no_answer_def)+
  then show ?thesis using assms by (intro countsI [of _ _ "[]"]) (simp_all add: no_answer_def)
qed

lemma callback_counts:
  fixes os :: "'k os"
  shows "moves counts (size_callback os d n rel t err :: ('k, 'z, walk_err option) sio)"
proof -
  have visit: "moves counts (ubind (lstatat os d n)
      (\<lambda>r. case r of
             Inl e \<Rightarrow> uret (Some (WalkErr (Annotated ''lstatat err'' e)))
           | Inr info \<Rightarrow>
               ubind (modify (\<lambda>w. let (ls, n) = count_file (fi_sys info) (sf_hard_links w, sf_size w)
                                  in w\<lparr>sf_hard_links := ls, sf_size := n\<rparr>))
                 (\<lambda>_. uret None)) :: ('k, 'z, walk_err option) sio)"
    unfolding moves_def
  proof
    fix w :: "('k, 'z) sfsw_scheme"
    show "counts w (snd (ubind (lstatat os d n)
      (\<lambda>r. case r of
             Inl e \<Rightarrow> uret (Some (WalkErr (Annotated ''lstatat err'' e)))
           | Inr info \<Rightarrow>
               ubind (modify (\<lambda>w. let (ls, n) = count_file (fi_sys info) (sf_hard_links w, sf_size w)
                                  in w\<lparr>sf_hard_links := ls, sf_size := n\<rparr>))
                 (\<lambda>_. uret None)) w))"
    proof (cases rule: lstatat_answers [of os d n w])
      case (info i w1)
      obtain ls m where c: "count_file (fi_sys i) (sf_hard_links w1, sf_size w1) = (ls, m)"
        by (cases "count_file (fi_sys i) (sf_hard_links w1, sf_size w1)")
      have "sf_hard_links w1 = sf_hard_links w" "sf_size w1 = sf_size w"
        using info(3) by (cases w; cases w1; simp)+
      with info c show ?thesis
        by (intro countsI [of _ _ "[fi_sys i]"]) (simp_all add: ubind_def modify_def uret_def)
    qed (simp_all add: ubind_def uret_def no_answer_counts)
  qed
  show ?thesis unfolding size_callback_def by (intro moves_intros visit)
qed

definition typed_entries :: "'k os \<Rightarrow> bool" where
  "typed_entries os \<longleftrightarrow>
     (\<forall>fd k ds. fst (os_getdents os fd k) = Inr ds \<longrightarrow> (\<forall>d \<in> set ds. sd_type d \<noteq> DT_OTHER))"

lemma walk_counts:
  assumes "typed_entries os"
  shows "moves counts (walk_dir fs os (size_callback os) k d n rel t :: ('k, 'z, walk_err option) sio)"
proof (rule ct.walk_dir_by [OF ct.read_dir_fd_typed callback_counts])
  show "\<forall>d \<in> set ds. sd_type d \<noteq> DT_OTHER" if "fst (os_getdents os fd k) = Inr ds" for fd k ds
    using assms that by (auto simp: typed_entries_def)
qed

text \<open>The walk as a whole: the first answer, the root's own, is not counted.\<close>

definition counts_below :: "('k, 'z) sfsw_scheme \<Rightarrow> ('k, 'z) sfsw_scheme \<Rightarrow> bool" where
  "counts_below w w' \<longleftrightarrow>
     (\<exists>roots ss. stat_answers (calls w') = stat_answers (calls w) @ roots @ ss \<and> length roots \<le> 1 \<and>
        (sf_hard_links w', sf_size w') = fold count_file ss (sf_hard_links w, sf_size w))"

lemma counts_is_below: "counts w w' \<Longrightarrow> counts_below w w'"
  unfolding counts_def counts_below_def by (metis append_Nil list.size(3) zero_le)

lemma walk_dirat_counts:
  fixes w :: "('k, 'z) sfsw_scheme"
  assumes "typed_entries os"
  shows "counts_below w (snd (walk_dirat fs os d n (size_callback os) w))"
proof (cases rule: lstatat_answers [of os d n w])
  case (stuck w1)
  then show ?thesis by (simp add: walk_dirat_def ubind_def counts_is_below no_answer_counts)
next
  case (fails e w1)
  then have "counts w (snd (walk_dirat fs os d n (size_callback os) w))"
    by (simp add: walk_dirat_def ubind_def size_callback_def uret_def no_answer_counts)
  then show ?thesis by (rule counts_is_below)
next
  case (info i w1)
  let ?m = "walk_dir fs os (size_callback os) (os_rounds os) d n ''.'' (fi_mode i)"
  have e: "sf_hard_links w1 = sf_hard_links w" "sf_size w1 = sf_size w"
    using info(3) by (cases w; cases w1; simp)+
  have "snd (walk_dirat fs os d n (size_callback os) w) = snd (?m w1)"
    using info(1) by (cases "?m w1"; cases "fst (?m w1)") (auto simp: walk_dirat_def ubind_def uret_def)
  moreover have "counts w1 (snd (?m w1))" by (rule movesD [OF walk_counts [OF assms]])
  ultimately obtain ss where
    "stat_answers (calls (snd (?m w1))) = stat_answers (calls w1) @ ss"
    "(sf_hard_links (snd (?m w1)), sf_size (snd (?m w1))) = fold count_file ss (sf_hard_links w1, sf_size w1)"
    "snd (walk_dirat fs os d n (size_callback os) w) = snd (?m w1)"
    by (auto simp: counts_def)
  then show ?thesis unfolding counts_below_def using info(2) e
    by (intro exI [of _ "[fi_sys i]"] exI [of _ ss]) simp
qed

definition no_stats :: "('k, 'm) fsw_scheme \<Rightarrow> ('k, 'm) fsw_scheme \<Rightarrow> bool" where
  "no_stats w w' \<longleftrightarrow> stat_answers (calls w') = stat_answers (calls w)"

interpretation ns: world_order no_stats
  by unfold_locales (auto simp: no_stats_def stat_answer_plain elim: changing.elims)

text \<open>What a body makes of the answers, the operation around it makes of them.\<close>

lemma with_safe_path_stats:
  fixes w :: "('k, 'm) fsw_scheme"
  assumes run: "with_safe_path fs os p fail body w = (Some r, w')"
    and fail: "\<And>e. P (fail e) []"
    and body: "\<And>d n w1 w2 r. body d n w1 = (Some r, w2) \<Longrightarrow>
        \<exists>ss. stat_answers (calls w2) = stat_answers (calls w1) @ ss \<and> P r ss"
  shows "\<exists>ss. stat_answers (calls w') = stat_answers (calls w) @ ss \<and> P r ss"
proof -
  have opened: "stat_answers (calls w1) = stat_answers (calls w)"
    if "safe_path fs os p w = (x, w1)" for x and w1 :: "('k, 'm) fsw_scheme"
    using movesD [OF ns.safe_path, of w fs os p] that by (simp add: no_stats_def)
  have closed: "stat_answers (calls (snd (close_all os cl w1))) = stat_answers (calls w1)"
    for cl and w1 :: "('k, 'm) fsw_scheme"
    using movesD [OF ns.close_all, of w1 os cl] by (simp add: no_stats_def)
  show ?thesis
    using run
  proof (cases rule: with_safe_path_cases)
    case (refused d n cl e w1)
    then show ?thesis using opened closed fail by auto
  next
    case (entered d n cl w1 w2)
    then show ?thesis using opened closed body [OF entered(2)] by auto
  qed
qed

section \<open>A kernel with one directory\<close>

text \<open>
  The kernel of the examples: every directory has the two names \<open>a\<close> and \<open>b\<close> of one file of five bytes,
  and a descriptor that is not open is no good. Its state is the descriptors that are open and whether
  the directory is still to be read.
\<close>

definition dir_os :: "(int list \<times> bool) os" where
  "dir_os =
     (let open1 = (\<lambda>d n fl m (k, b). (Inr (foldr max k 2 + 1), ((foldr max k 2 + 1) # k, b)));
          a_file = \<lparr>st_size = 5, st_mode = 0x81A4, st_nlink = 2, st_ino = 7\<rparr>;
          a_dir = \<lparr>st_size = 4096, st_mode = 0x41ED, st_nlink = 2, st_ino = 1\<rparr>
      in \<lparr>os_openat = open1, os_openat2 = open1,
          os_eval_symlinks = (\<lambda>p k. (Inr p, k)),
          os_close = (\<lambda>fd (k, b). (None, (filter (\<lambda>x. x \<noteq> fd) k, b))),
          os_at = (\<lambda>c k. (Inr (), k)),
          os_fstatat = (\<lambda>d n fl (k, b).
             (if d \<in> set k then Inr (if n = ''.'' then a_dir else a_file) else Inl (EOTHER 9), (k, b))),
          os_fstat = (\<lambda>fd k. (Inr a_file, k)),
          os_getdents = (\<lambda>fd (k, b).
             (Inr (if b then [\<lparr>sd_ino = 7, sd_name = ''b'', sd_type = DT_REG\<rparr>,
                              \<lparr>sd_ino = 7, sd_name = ''a'', sd_type = DT_REG\<rparr>] else []), (k, False))),
          os_readdirnames = (\<lambda>fd n k. (([], Some eof), k)),
          os_read = (\<lambda>fd k. ((''hello'', None), k)),
          os_write = (\<lambda>fd s k. ((length s, None), k)),
          os_seek = (\<lambda>fd k. (None, k)),
          os_rounds = 4\<rparr>)"

lemma dir_os_ok: "kernel_ok dir_os (set \<circ> fst)"
  using foldr_max_fresh
  by (auto simp: kernel_ok_def dir_os_def opens_fresh_def keeps_open_def Let_def split: prod.split)

definition dir_world :: "(int list \<times> bool) sfsw" where
  "dir_world = \<lparr>kst = ([0], True), calls = [], q_limit = 100, q_usage = 40, sf_last_lookup = None,
     sf_in_progress = False, sf_hard_links = [], sf_size = 0\<rparr>"

definition example_sfs :: sfs_cfg where
  "example_sfs = \<lparr>sc_fs = example_fs, sc_interval = 150, sc_is_test = False, sc_uid = 988, sc_gid = 988\<rparr>"

section \<open>Property\<close>

text \<open>
  C22: A directory's size counts every file once. Whatever the walk meets and however it ends, the size
  that \<open>DirectorySize\<close> answers is the sum of the sizes of all files it was given the information of (the
  root's own apart), where of several names of one file, told by their number, only the first counts;
  the kernel is one that tells the type of each directory entry.
\<close>

theorem directory_size_once:
  fixes w :: "('k, 'z) sfsw_scheme"
  assumes typed: "typed_entries os" and run: "directory_size sc os root w = (Some (n, err), w')"
  shows "\<exists>own ss. stat_answers (calls w') = stat_answers (calls w) @ own @ ss \<and> length own \<le> 1 \<and>
           n = wrap64 (total_size ss)"
proof -
  let ?P = "\<lambda>r as. \<exists>own ss. as = own @ ss \<and> length own \<le> 1 \<and> fst r = wrap64 (total_size ss)"
  have "\<exists>as. stat_answers (calls w') = stat_answers (calls w) @ as \<and> ?P (n, err) as"
  proof (rule with_safe_path_stats [OF run [unfolded directory_size_def], where P = ?P], goal_cases)
    case (1 e)
    then show ?case by (simp add: total_size_def wrap64_def)
  next
    case (2 d nm w1 w2 r)
    let ?w0 = "w1\<lparr>sf_hard_links := [], sf_size := 0\<rparr>"
    let ?m = "walk_dirat (sc_fs sc) os d nm (size_callback os)"
    have w2: "w2 = snd (?m ?w0)" "fst r = sf_size w2"
      using 2 by (cases "?m ?w0"; cases "fst (?m ?w0)"; auto simp: ubind_def modify_def asking_def)+
    obtain own ss where ss: "length own \<le> 1"
      "stat_answers (calls (snd (?m ?w0))) = stat_answers (calls ?w0) @ own @ ss"
      "(sf_hard_links (snd (?m ?w0)), sf_size (snd (?m ?w0))) = fold count_file ss ([], 0)"
      using walk_dirat_counts [OF typed, of ?w0 "sc_fs sc" d nm] by (auto simp: counts_below_def)
    have "snd (fold count_file ss ([], 0)) = wrap64 (total_size ss)"
      using fold_count_file [of ss "[]" 0] by (simp add: wrap64_def unseen_def)
    then have "sf_size (snd (?m ?w0)) = wrap64 (total_size ss)" using ss(3) by (metis snd_conv)
    then show ?case unfolding w2 using ss(1,2) by auto
  qed
  then show ?thesis by auto
qed

theorem directory_size_once_witness:
  "\<exists>w' own ss. directory_size example_sfs dir_os ''/'' dir_world = (Some (5, None), w') \<and>
     stat_answers (calls w') = own @ ss \<and> length own \<le> 1 \<and> 5 = wrap64 (total_size ss)"
proof -
  let ?r = "directory_size example_sfs dir_os ''/'' dir_world"
  have "fst ?r = Some (5, None)" by code_simp
  then obtain w' where r: "?r = (Some (5, None), w')" by (cases ?r) simp
  have typed: "typed_entries dir_os"
    by (auto simp: typed_entries_def dir_os_def Let_def split: prod.splits if_splits)
  from directory_size_once [OF typed r] r show ?thesis by (auto simp: dir_world_def)
qed

end
