(* ===== verification/Fs_Accounting.thy ===== *)
theory Fs_Accounting
  imports Disk_Usage
begin

text \<open>
  What the server's file operations do to the account of its disk space: the quota is kept by
  everything a user does through them, a measured directory counts a file with several names once,
  and the names and pages that copying and listing produce.
\<close>

section \<open>The account, step by step\<close>

text \<open>
  \<open>acct L P m Q\<close>: with the limit \<open>L\<close> and a usage that satisfies \<open>P\<close>, the operation keeps the limit and
  returns with a usage that satisfies \<open>Q\<close>; while it has not returned the usage is within the limit.
\<close>

definition acct :: "int \<Rightarrow> (int \<Rightarrow> bool) \<Rightarrow> ('k, 'z qfsw_ext, 'a) fio \<Rightarrow> ('a \<Rightarrow> int \<Rightarrow> bool) \<Rightarrow> bool" where
  "acct L P m Q \<longleftrightarrow>
     (\<forall>w. q_limit w = L \<longrightarrow> P (q_usage w) \<longrightarrow>
        q_limit (snd (m w)) = L \<and>
        (case fst (m w) of
           None \<Rightarrow> 0 \<le> q_usage (snd (m w)) \<and> q_usage (snd (m w)) \<le> L
         | Some x \<Rightarrow> Q x (q_usage (snd (m w)))))"

abbreviation within :: "int \<Rightarrow> int \<Rightarrow> bool" where
  "within L u \<equiv> 0 \<le> u \<and> u \<le> L"

abbreviation keeps_within :: "int \<Rightarrow> ('k, 'z qfsw_ext, 'a) fio \<Rightarrow> bool" where
  "keeps_within L m \<equiv> acct L (within L) m (\<lambda>_. within L)"

lemma acctD:
  "acct L P m Q \<Longrightarrow> q_limit w = L \<Longrightarrow> P (q_usage w) \<Longrightarrow>
     q_limit (snd (m w)) = L \<and>
     (case fst (m w) of
        None \<Rightarrow> within L (q_usage (snd (m w)))
      | Some x \<Rightarrow> Q x (q_usage (snd (m w))))"
  by (simp add: acct_def)

lemma still_quota:
  fixes w :: "('k, 'z) qfsw_scheme"
  assumes "still m"
  shows "q_limit (snd (m w)) = q_limit w" "q_usage (snd (m w)) = q_usage w"
proof -
  have "fsw.more (snd (m w)) = fsw.more w" using assms by (simp add: moves_def same_rest_def)
  then show "q_limit (snd (m w)) = q_limit w" "q_usage (snd (m w)) = q_usage w"
    by (cases w; cases "snd (m w)"; simp)+
qed

lemma still_sys: "still (sys f ev)"
  by (simp add: moves_def same_rest_def sys_def)

lemma acct_still:
  assumes "still m" and "results m A" and "\<And>u. P u \<Longrightarrow> within L u"
  shows "acct L P m (\<lambda>x u. P u \<and> A x)"
  using assms still_quota [OF assms(1)]
  by (auto simp: acct_def results_def split: option.split)

lemma acct_still_only:
  assumes "still m" and "\<And>u. P u \<Longrightarrow> within L u"
  shows "acct L P m (\<lambda>x. P)"
  using assms still_quota [OF assms(1)] by (auto simp: acct_def split: option.split)

lemma acct_bind:
  fixes m :: "('k, 'z qfsw_ext, 'a) fio"
  assumes "acct L P m R" and "\<And>x. acct L (R x) (f x) Q"
  shows "acct L P (ubind m f) Q"
  unfolding acct_def
proof (intro allI impI)
  fix w :: "('k, 'z) qfsw_scheme"
  assume w: "q_limit w = L" "P (q_usage w)"
  obtain r w1 where m: "m w = (r, w1)" by (cases "m w")
  show "q_limit (snd (ubind m f w)) = L \<and>
      (case fst (ubind m f w) of
         None \<Rightarrow> within L (q_usage (snd (ubind m f w)))
       | Some x \<Rightarrow> Q x (q_usage (snd (ubind m f w))))"
  proof (cases r)
    case None
    then have "ubind m f w = (None, w1)" using m by (simp add: ubind_def)
    with None m acctD [OF assms(1) w] show ?thesis by simp
  next
    case (Some x)
    then have e: "ubind m f w = f x w1" using m by (simp add: ubind_def)
    from Some have "q_limit w1 = L" "R x (q_usage w1)" using acctD [OF assms(1) w] m by simp_all
    from acctD [OF assms(2) this] show ?thesis unfolding e .
  qed
qed

lemma acct_pure: "(A \<Longrightarrow> acct L P m Q) \<Longrightarrow> acct L (\<lambda>u. P u \<and> A) m Q"
  by (cases A) (auto simp: acct_def)

lemma acct_ret: "(\<And>u. P u \<Longrightarrow> Q x u) \<Longrightarrow> acct L P (uret x) Q"
  by (simp add: acct_def uret_def)

lemma acct_mono:
  fixes m :: "('k, 'z qfsw_ext, 'a) fio"
  assumes "acct L P m Q" and "\<And>u. P' u \<Longrightarrow> P u" and "\<And>x u. Q x u \<Longrightarrow> Q' x u"
  shows "acct L P' m Q'"
  unfolding acct_def
proof (intro allI impI)
  fix w :: "('k, 'z) qfsw_scheme"
  assume w: "q_limit w = L" "P' (q_usage w)"
  show "q_limit (snd (m w)) = L \<and>
      (case fst (m w) of None \<Rightarrow> within L (q_usage (snd (m w))) | Some x \<Rightarrow> Q' x (q_usage (snd (m w))))"
    using acctD [OF assms(1) w(1) assms(2) [OF w(2)]] assms(3) by (cases "fst (m w)") auto
qed

lemma acct_option:
  "(x = None \<Longrightarrow> acct L P m Q) \<Longrightarrow> (\<And>y. x = Some y \<Longrightarrow> acct L P (f y) Q) \<Longrightarrow>
   acct L P (case x of None \<Rightarrow> m | Some y \<Rightarrow> f y) Q"
  by (cases x) auto

lemma acct_sum:
  "(\<And>y. x = Inl y \<Longrightarrow> acct L P (f y) Q) \<Longrightarrow> (\<And>y. x = Inr y \<Longrightarrow> acct L P (g y) Q) \<Longrightarrow>
   acct L P (case x of Inl y \<Rightarrow> f y | Inr y \<Rightarrow> g y) Q"
  by (cases x) auto

lemma acct_if:
  "(b \<Longrightarrow> acct L P m Q) \<Longrightarrow> (\<not> b \<Longrightarrow> acct L P m' Q) \<Longrightarrow> acct L P (if b then m else m') Q"
  by simp

text \<open>Adding to the usage, in the range where nothing wraps.\<close>

lemma acct_account:
  fixes Q :: "unit \<Rightarrow> int \<Rightarrow> bool"
  assumes "\<And>u. P u \<Longrightarrow> in_i64 (u + i) \<and> Q () (max 0 (u + i))"
  shows "acct L P (account i) Q"
  unfolding acct_def
proof (intro allI impI)
  fix w :: "('k, 'z) qfsw_scheme"
  assume "q_limit w = L" "P (q_usage w)"
  with assms [of "q_usage w"] show "q_limit (snd (account i w)) = L \<and>
      (case fst (account i w) of None \<Rightarrow> within L (q_usage (snd (account i w)))
       | Some x \<Rightarrow> Q x (q_usage (snd (account i w))))"
    by (cases "q_usage w + i < 0") (auto simp: account_def quota_add_def)
qed

section \<open>What the kernel says about sizes\<close>

text \<open>
  Every file is smaller than \<open>2 ^ 62\<close> bytes, and a write reports at most the bytes it was given.
\<close>

definition sizes_ok :: "'k os \<Rightarrow> bool" where
  "sizes_ok os \<longleftrightarrow>
     (\<forall>d n b k s. fst (os_fstatat os d n b k) = Inr s \<longrightarrow> 0 \<le> st_size s \<and> st_size s < 2 ^ 62) \<and>
     (\<forall>fd k s. fst (os_fstat os fd k) = Inr s \<longrightarrow> 0 \<le> st_size s \<and> st_size s < 2 ^ 62) \<and>
     (\<forall>fd s k. fst (fst (os_write os fd s k)) \<le> length s)"

definition size_range :: "int \<Rightarrow> bool" where
  "size_range n \<longleftrightarrow> 0 \<le> n \<and> n < 2 ^ 62"

definition info_ok :: "fs_err + file_info \<Rightarrow> bool" where
  "info_ok r = (case r of Inl e \<Rightarrow> True | Inr i \<Rightarrow> size_range (fi_size i))"

lemma results_fstatat:
  assumes "sizes_ok os"
  shows "results (u_fstatat os op d n b) info_ok"
proof -
  have "results (sys (os_fstatat os d n b) (CStat d n b))
      (\<lambda>r. case r of Inl e \<Rightarrow> True | Inr s \<Rightarrow> size_range (st_size s))"
    using assms by (auto simp: results_def sys_def sizes_ok_def size_range_def split: sum.split)
  from results_eintr [OF this] show ?thesis
    unfolding u_fstatat_def
    by (rule results_bind_dep) (auto intro!: results_ret simp: info_ok_def fill_file_stat_def split: sum.splits)
qed

lemma results_current_size:
  assumes "sizes_ok os"
  shows "results (current_size sc os p) (\<lambda>r. case r of Inl e \<Rightarrow> True | Inr n \<Rightarrow> size_range n)"
proof -
  have "results (stat (sc_fs sc) os p) info_ok"
    unfolding stat_def u_fstat_def
    by (intro results_with_safe_path results_fstatat assms) (simp add: info_ok_def)
  then show ?thesis unfolding current_size_def
    by (rule results_bind_dep) (auto intro!: results_ret simp: info_ok_def size_range_def split: sum.splits)
qed

lemma results_io_copy:
  assumes "sizes_ok os"
  shows "results (io_copy os fd (limited (Some n) r)) (\<lambda>(k, e). 0 \<le> k \<and> k \<le> max 0 n)"
proof -
  have len: "int (length (rd_data (limited (Some n) r))) \<le> max 0 n"
    by (auto simp: limited_def)
  let ?d = "rd_data (limited (Some n) r)"
  have "results (sys (os_write os fd ?d) (\<lambda>_. CWrite fd ?d)) (\<lambda>(k, e). k \<le> length ?d)"
    using assms by (auto simp: results_def sys_def sizes_ok_def) (metis fst_conv)
  then show ?thesis unfolding io_copy_def using len
    by (auto intro!: results_ret intro: results_bind_dep split: prod.splits)
qed

lemma acct_use:
  assumes "still m" and "results m A" and "\<And>u. P u \<Longrightarrow> within L u" and "\<And>x. A x \<Longrightarrow> acct L P (f x) Q"
  shows "acct L P (ubind m f) Q"
  by (rule acct_bind [OF acct_still [OF assms(1-3)]], simp, rule acct_pure, rule assms(4))

lemma acct_skip:
  assumes "still m" and "\<And>u. P u \<Longrightarrow> within L u" and "\<And>x. acct L P (f x) Q"
  shows "acct L P (ubind m f) Q"
  by (rule acct_bind [OF acct_still_only [OF assms(1,2)] assms(3)])

section \<open>Removing\<close>

lemma acct_then_ret: "acct L P m (\<lambda>_. Q) \<Longrightarrow> acct L P (ubind m (\<lambda>x. uret (g x))) (\<lambda>_. Q)"
  by (erule acct_bind) (rule acct_ret)

lemma kw_bind:
  assumes "keeps_within L m" and "\<And>x. keeps_within L (f x)"
  shows "keeps_within L (ubind m f)"
  using assms by (rule acct_bind)

lemma kw_still: "still m \<Longrightarrow> keeps_within L m"
  by (rule acct_still_only)

lemma kw_ret: "keeps_within L (uret x)"
  by (rule acct_ret)

lemma kw_stuck: "keeps_within L ustuck"
  by (simp add: acct_def ustuck_def)

lemma kw_sys: "keeps_within L (sys f ev)"
  by (rule kw_still) (rule still_sys)

lemma kw_close: "keeps_within L (close_fd os fd)"
  by (rule kw_still) (rule st.close_fd)

lemma kw_eintr: "keeps_within L m \<Longrightarrow> keeps_within L (ignoring_eintr n m)"
  by (induction n) (auto simp: kw_stuck intro!: kw_bind kw_ret)

lemma kw_free:
  assumes "0 < L" "L \<le> 2 ^ 62" and "size_range s"
  shows "keeps_within L (account (wrap64 (- s)))"
proof -
  have "wrap64 (- s) = - s" using assms by (intro wrap64_id) (simp add: size_range_def in_i64_simps)
  then show ?thesis using assms by (auto intro!: acct_account simp: size_range_def in_i64_simps)
qed

lemma acct_prod: "(\<And>x y. acct L P (f x y) Q) \<Longrightarrow> acct L P (case p of (x, y) \<Rightarrow> f x y) Q"
  by (cases p) simp

lemmas kw_intros = kw_ret kw_stuck kw_sys kw_close kw_eintr acct_if acct_option acct_sum

lemma kw_count_failures:
  "(\<And>n. n \<in> set names \<Longrightarrow> keeps_within L (rm n)) \<Longrightarrow> keeps_within L (count_failures rm names)"
  by (induction names) (auto intro!: kw_bind kw_ret)

lemma kw_remove_all_from:
  fixes ifc :: "('k, 'z qfsw_ext) unix_iface"
  assumes ifc: "\<And>d n b. keeps_within L (if_unlinkat ifc d n b)"
  shows "keeps_within L (remove_all_from ifc os n d p)"
    and "keeps_within L (remove_contents_from ifc os n d p)"
    and "keeps_within L (remove_batches ifc os n d p)"
  using ifc
proof (induction ifc os n d p and ifc os n d p and ifc os n d p
    rule: remove_all_from_remove_contents_from_remove_batches.induct)
  case (2 ifc os n parent base)
  then show ?case unfolding remove_all_from.simps
    by (intro kw_bind kw_intros) auto
next
  case (4 ifc os n parent base)
  then show ?case unfolding remove_contents_from.simps open_fd_at_def
    by (intro kw_bind kw_intros) auto
next
  case (6 ifc os n fd base)
  then show ?case unfolding remove_batches.simps
    by (auto intro!: kw_bind kw_intros kw_count_failures split: prod.split option.split)
qed (simp_all add: kw_stuck)

lemma results_remove_stat:
  assumes "sizes_ok os"
  shows "results (remove_stat fs os p) info_ok"
  unfolding remove_stat_def
proof (rule results_with_safe_path)
  fix d n
  have "results (lstatat os d n) info_ok" unfolding lstatat_def by (rule results_fstatat [OF assms])
  then show "results (ubind (lstatat os d n)
      (\<lambda>r. case r of
             Inl e \<Rightarrow> uret (Inl e)
           | Inr s \<Rightarrow> ubind (unlinkat os d n (fi_is_dir s))
                       (\<lambda>u. uret (case ensure_path_error (err_of u) ''rename'' n of
                                    Some e \<Rightarrow> Inl e
                                  | None \<Rightarrow> Inr s)))) info_ok"
    by (rule results_bind_dep)
      (auto simp: info_ok_def split: sum.splits option.split intro!: results_bind results_ret)
qed (simp add: info_ok_def)

lemma kw_quota_unlinkat:
  assumes L: "0 < L" "L \<le> 2 ^ 62" and ok: "sizes_ok os"
  shows "keeps_within L (quota_unlinkat os d n b)"
proof -
  have r: "results (lstatat os d n) info_ok" unfolding lstatat_def by (rule results_fstatat [OF ok])
  have "keeps_within L (ubind (lstatat os d n)
      (\<lambda>r. case r of
             Inr s \<Rightarrow> if fi_is_regular s then account (wrap64 (- fi_size s)) else uret ()
           | Inl _ \<Rightarrow> uret ()))"
    by (rule acct_use [OF _ r])
      (auto simp: info_ok_def split: sum.splits intro!: kw_free [OF L] kw_ret moves_intros)
  from kw_bind [OF acct_if [OF this kw_ret] kw_still [OF st.attributes(5)]]
  show ?thesis unfolding quota_unlinkat_def .
qed

lemma kw_quota_remove:
  assumes L: "0 < L" "L \<le> 2 ^ 62" and ok: "sizes_ok os"
  shows "keeps_within L (quota_remove fs os p)"
  unfolding quota_remove_def
  by (intro acct_use [OF _ results_remove_stat [OF ok]] moves_intros)
    (auto simp: info_ok_def split: sum.splits intro!: kw_bind kw_free [OF L] kw_ret)

lemma kw_delete:
  assumes L: "0 < L" "L \<le> 2 ^ 62" and ok: "sizes_ok os"
  shows "keeps_within L (fs_delete sc os p)"
proof -
  have all: "keeps_within L (remove_all_from (quota_iface fs os) os k d n)" for fs k d n
    by (rule kw_remove_all_from) (simp add: quota_iface_def kw_quota_unlinkat [OF assms])
  have "keeps_within L (remove_all (quota_iface fs os) os n)" for fs n
    unfolding remove_all_def in_parent_def Let_def
    by (intro kw_bind kw_ret acct_if acct_sum acct_prod kw_close all)
      (simp_all add: quota_iface_def kw_quota_remove [OF assms] kw_still [OF st.open_read])
  then show ?thesis unfolding fs_delete_def quota_remove_all_def resolving_def refuse_root_def
    by (cases "unsafe_path (sc_fs sc) p") (auto intro: kw_ret split: path_error.split)
qed

section \<open>Writing and copying\<close>

lemma acct_space_for:
  fixes P :: "int \<Rightarrow> bool"
  assumes L: "0 < L" and P: "\<And>u. P u \<Longrightarrow> within L u" and s: "\<And>u. P u \<Longrightarrow> in_i64 (u + s)"
  shows "acct L P (has_space_for s) (\<lambda>r u. 0 \<le> u \<and> u \<le> L \<and> (r = None \<longrightarrow> u + s \<le> L))"
  using assms by (fastforce simp: acct_def has_space_for_def asking_def can_fit_def Let_def split: if_splits)

text \<open>
  After the check that \<open>s\<close> more bytes fit, an operation that adds at most \<open>s\<close> stays within the limit.
\<close>

abbreviation room :: "int \<Rightarrow> int \<Rightarrow> int \<Rightarrow> bool" where
  "room L s u \<equiv> 0 \<le> u \<and> u \<le> L \<and> u + s \<le> L"

lemma acct_spend:
  assumes "0 < L" "L \<le> 2 ^ 62" and "s' \<le> max 0 s" and "- (2 ^ 62) \<le> s'" "s' < 2 ^ 62"
  shows "acct L (room L s) (account (wrap64 s')) (\<lambda>_. within L)"
proof -
  have "wrap64 s' = s'" using assms by (intro wrap64_id) (simp add: in_i64_simps)
  then show ?thesis using assms by (auto intro!: acct_account simp: in_i64_simps)
qed

lemma acct_write_touched:
  assumes L: "0 < L" "L \<le> 2 ^ 62" and ok: "sizes_ok os"
    and cur: "size_range cur" and n: "\<bar>n\<bar> < 2 ^ 62"
  shows "acct L (room L (n - cur)) (write_touched sc os p r n cur fd) (\<lambda>_. within L)"
proof -
  have b: "0 \<le> cur" "cur < 2 ^ 62" using cur by (simp_all add: size_range_def)
  have zero: "acct L (room L (n - cur)) (ubind (account (wrap64 (- cur))) (\<lambda>_. uret None)) (\<lambda>_. within L)"
    using b by (intro acct_then_ret acct_spend [OF L]) auto
  have copy: "acct L (room L (n - cur)) (ubind (io_copy os fd (limited (Some n) r))
      (\<lambda>(k, err). ubind (account (wrap64 (k - cur))) (\<lambda>_. uret err))) (\<lambda>_. within L)"
    using b n
    by (intro acct_use [OF st.io_copy results_io_copy [OF ok]])
      (auto intro!: acct_then_ret acct_spend [OF L])
  show ?thesis unfolding write_touched_def
    by (rule acct_bind [OF acct_if [OF zero copy]])
      (intro kw_still st.bind st.chowns(1) st.ret)
qed

lemma acct_write:
  assumes L: "0 < L" "L \<le> 2 ^ 62" and ok: "sizes_ok os" and n: "\<bar>n\<bar> < 2 ^ 62"
  shows "keeps_within L (fs_write sc os p r n m)"
proof -
  have touched: "acct L (room L (n - cur)) (ubind (touch (sc_fs sc) os p {O_RDWR, O_TRUNC} m)
     (\<lambda>t. case t of
            Inl e \<Rightarrow> uret (Some (UfsError e))
          | Inr fd \<Rightarrow> ubind (write_touched sc os p r n cur fd)
                       (\<lambda>res. ubind (close_fd os fd) (\<lambda>_. uret res)))) (\<lambda>_. within L)"
    if "size_range cur" for cur
    by (rule acct_skip [OF st.touch])
      (auto intro!: acct_sum acct_ret acct_bind [OF acct_write_touched [OF L ok that n]] kw_bind kw_close kw_ret)
  have space: "keeps_within L (ubind (has_space_for (wrap64 (n - cur)))
     (\<lambda>full. case full of
               Some e \<Rightarrow> uret (Some e)
             | None \<Rightarrow> ubind (touch (sc_fs sc) os p {O_RDWR, O_TRUNC} m)
                 (\<lambda>t. case t of
                        Inl e \<Rightarrow> uret (Some (UfsError e))
                      | Inr fd \<Rightarrow> ubind (write_touched sc os p r n cur fd)
                                   (\<lambda>res. ubind (close_fd os fd) (\<lambda>_. uret res)))))"
    if cur: "size_range cur" for cur
  proof -
    have w: "wrap64 (n - cur) = n - cur"
      using cur n by (intro wrap64_id) (auto simp: size_range_def in_i64_simps)
    show ?thesis unfolding w
      by (rule acct_bind [OF acct_space_for [OF L(1)]])
        (use cur n L in \<open>auto simp: size_range_def in_i64_simps
          intro!: acct_option acct_ret acct_mono [OF touched [OF cur]]\<close>)
  qed
  show ?thesis unfolding fs_write_def
    by (rule acct_use [OF st.current_size results_current_size [OF ok]])
      (auto intro!: acct_sum acct_ret space split: sum.splits)
qed

lemma acct_copy_into:
  assumes L: "0 < L" "L \<le> 2 ^ 62" and ok: "sizes_ok os" and n: "size_range n"
  shows "acct L (room L n) (copy_into sc os d src nm n dst) (\<lambda>_. within L)"
proof -
  have b: "0 \<le> n" "n < 2 ^ 62" using n by (simp_all add: size_range_def)
  have chown: "keeps_within L (if \<not> sc_is_test sc
      then ubind (lchownat os d nm (sc_uid sc) (sc_gid sc))
             (\<lambda>e. uret (map_option UfsError (if e \<noteq> None then e else err)))
      else uret (map_option UfsError err))" for err
    by (intro acct_if kw_ret kw_bind kw_still st.attributes)
  have "acct L (room L n) (ubind (io_copy os dst (limited (Some n) r))
     (\<lambda>(k, err). ubind (account k)
        (\<lambda>_. if \<not> sc_is_test sc
             then ubind (lchownat os d nm (sc_uid sc) (sc_gid sc))
                    (\<lambda>e. uret (map_option UfsError (if e \<noteq> None then e else err)))
             else uret (map_option UfsError err)))) (\<lambda>_. within L)" for r
  proof (rule acct_use [OF st.io_copy results_io_copy [OF ok]], simp, clarify)
    fix k err assume "0 \<le> k" "k \<le> max 0 n"
    then have k: "wrap64 k = k" "k \<le> max 0 n" "- (2 ^ 62) \<le> k" "k < 2 ^ 62"
      using b by (auto intro!: wrap64_id simp: in_i64_simps)
    show "acct L (room L n) (ubind (account k)
        (\<lambda>_. if \<not> sc_is_test sc
             then ubind (lchownat os d nm (sc_uid sc) (sc_gid sc))
                    (\<lambda>e. uret (map_option UfsError (if e \<noteq> None then e else err)))
             else uret (map_option UfsError err))) (\<lambda>_. within L)"
      by (rule acct_bind [OF acct_spend [OF L k(2-4), unfolded k(1)]]) (rule chown)
  qed
  then show ?thesis unfolding copy_into_def
    by (intro acct_skip [OF still_sys] acct_prod) simp_all
qed

lemma kw_copy_opened:
  assumes L: "0 < L" "L \<le> 2 ^ 62" and ok: "sizes_ok os"
  shows "keeps_within L (copy_opened sc os stamp d nm src)"
proof -
  have named: "acct L (room L n) (ubind (find_copy_suffix os stamp d b ext)
      (\<lambda>nn. case nn of
              Inl e \<Rightarrow> uret (Some (UfsError e))
            | Inr new_name \<Rightarrow>
                ubind (open_fileat (sc_fs sc) os d new_name {O_WRONLY, O_CREATE} md)
                  (\<lambda>t. case t of
                         Inl e \<Rightarrow> uret (Some (UfsError e))
                       | Inr dst \<Rightarrow> copy_into sc os d src new_name n dst))) (\<lambda>_. within L)"
    if "size_range n" for n b ext md
    by (intro acct_skip [OF st.copy_suffix] acct_skip [OF st.open_fileat] acct_sum acct_ret
        acct_copy_into [OF L ok that]) simp_all
  have space: "keeps_within L (ubind (has_space_for n)
      (\<lambda>full. case full of
                Some e \<Rightarrow> uret (Some e)
              | None \<Rightarrow>
                  (let (b, ext) = copy_parts base
                   in ubind (find_copy_suffix os stamp d b ext)
                        (\<lambda>nn. case nn of
                                Inl e \<Rightarrow> uret (Some (UfsError e))
                              | Inr new_name \<Rightarrow>
                                  ubind (open_fileat (sc_fs sc) os d new_name {O_WRONLY, O_CREATE} md)
                                    (\<lambda>t. case t of
                                           Inl e \<Rightarrow> uret (Some (UfsError e))
                                         | Inr dst \<Rightarrow> copy_into sc os d src new_name n dst)))))"
    if n: "size_range n" for n base md
    by (rule acct_bind [OF acct_space_for [OF L(1)]])
      (use n L in \<open>auto simp: size_range_def in_i64_simps Let_def split: prod.split
        intro!: acct_option acct_ret acct_mono [OF named [OF n]]\<close>)
  have sizes: "results (sys (os_fstat os src) (\<lambda>_. CFstat src))
      (\<lambda>r. case r of Inl e \<Rightarrow> True | Inr s \<Rightarrow> size_range (st_size s))"
    using ok by (auto simp: results_def sys_def sizes_ok_def size_range_def split: sum.split)
  show ?thesis unfolding copy_opened_def
  proof (rule acct_use [OF still_sys sizes], simp, goal_cases)
    case (1 r)
    then show ?case
      by (cases r) (auto simp: Let_def fill_file_stat_def intro!: acct_if kw_ret space [unfolded Let_def])
  qed
qed

lemma kw_safe_path:
  assumes "\<And>d n. keeps_within L (body d n)"
  shows "keeps_within L (with_safe_path fs os p fail body)"
  unfolding with_safe_path_def
  by (intro kw_bind kw_still [OF st.safe_path] acct_prod acct_option kw_ret assms
      kw_still [OF st.close_all])

lemma kw_copy:
  assumes L: "0 < L" "L \<le> 2 ^ 62" and ok: "sizes_ok os"
  shows "keeps_within L (fs_copy sc os stamp p)"
  unfolding fs_copy_def
  by (intro kw_safe_path kw_bind kw_still [OF st.open_fileat] acct_sum kw_ret kw_close
      kw_copy_opened [OF assms])

section \<open>The quota is kept\<close>

text \<open>What a user does with a server's files.\<close>

datatype server_op =
    SvWrite string reader int file_mode
  | SvCopy string string
  | SvDelete string
  | SvMkdir string string
  | SvRename string string
  | SvSymlink string string
  | SvChown string

fun run_server_op :: "sfs_cfg \<Rightarrow> 'k os \<Rightarrow> server_op \<Rightarrow> ('k, 'z, unit) sio" where
  "run_server_op sc os (SvWrite p r n m) = ubind (fs_write sc os p r n m) (\<lambda>_. uret ())"
| "run_server_op sc os (SvCopy stamp p) = ubind (fs_copy sc os stamp p) (\<lambda>_. uret ())"
| "run_server_op sc os (SvDelete p) = ubind (fs_delete sc os p) (\<lambda>_. uret ())"
| "run_server_op sc os (SvMkdir n p) = ubind (create_directory sc os n p) (\<lambda>_. uret ())"
| "run_server_op sc os (SvRename p q) = ubind (rename (sc_fs sc) os p q) (\<lambda>_. uret ())"
| "run_server_op sc os (SvSymlink p q) = ubind (symlink (sc_fs sc) os p q) (\<lambda>_. uret ())"
| "run_server_op sc os (SvChown p) = ubind (fs_chown sc os p) (\<lambda>_. uret ())"

fun run_server_ops :: "sfs_cfg \<Rightarrow> 'k os \<Rightarrow> server_op list \<Rightarrow> ('k, 'z, unit) sio" where
  "run_server_ops sc os [] = uret ()"
| "run_server_ops sc os (x # xs) = ubind (run_server_op sc os x) (\<lambda>_. run_server_ops sc os xs)"

fun sane_size :: "server_op \<Rightarrow> bool" where
  "sane_size (SvWrite p r n m) \<longleftrightarrow> \<bar>n\<bar> < 2 ^ 62"
| "sane_size _ \<longleftrightarrow> True"

lemma kw_server_op:
  assumes L: "0 < L" "L \<le> 2 ^ 62" and ok: "sizes_ok os" and x: "sane_size x"
  shows "keeps_within L (run_server_op sc os x)"
  using x
proof (cases x)
  case (SvWrite p r n m)
  with x show ?thesis by (auto intro!: kw_bind kw_ret acct_write [OF L ok])
qed (simp_all add: create_directory_def kw_bind kw_ret kw_copy [OF L ok] kw_delete [OF L ok]
       kw_still moves_intros st.chowns(2))

lemma kw_server_ops:
  assumes L: "0 < L" "L \<le> 2 ^ 62" and ok: "sizes_ok os"
  shows "list_all sane_size xs \<Longrightarrow> keeps_within L (run_server_ops sc os xs)"
  by (induction xs) (auto intro!: kw_ret kw_bind kw_server_op [OF assms])

section \<open>Property\<close>

text \<open>
  C21: The disk quota holds. If a server's usage is within its limit, no sequence of writes, copies,
  deletions, new directories, renames, links and changes of owner takes it out, whatever the kernel
  answers and even while an operation is still going: the kernel's file sizes and the announced sizes of
  the writes lie below \<open>2 ^ 62\<close>, and a write reports at most the bytes it was given.
\<close>

theorem quota_limit_kept:
  fixes w :: "('k, 'z) sfsw_scheme"
  assumes "sizes_ok os" and "list_all sane_size xs"
    and "0 < q_limit w" and "q_limit w \<le> 2 ^ 62" and "0 \<le> q_usage w" and "q_usage w \<le> q_limit w"
  shows "let w' = snd (run_server_ops sc os xs w)
         in q_limit w' = q_limit w \<and> 0 \<le> q_usage w' \<and> q_usage w' \<le> q_limit w"
  using acctD [OF kw_server_ops [OF assms(3,4,1,2), of sc] refl] assms(5,6)
  by (cases "fst (run_server_ops sc os xs w)") (simp_all add: Let_def)

theorem quota_limit_kept_witness:
  "let w' = snd (run_server_ops example_sfs dir_os
       [SvWrite ''a'' \<lparr>rd_data = ''hello world'', rd_err = None\<rparr> 60 0x1A4, SvDelete ''b''] dir_world)
   in q_limit w' = 100 \<and> 0 \<le> q_usage w' \<and> q_usage w' \<le> 100 \<and> q_usage w' = 41"
proof -
  let ?xs = "[SvWrite ''a'' \<lparr>rd_data = ''hello world'', rd_err = None\<rparr> 60 0x1A4, SvDelete ''b'']"
  have "q_usage (snd (run_server_ops example_sfs dir_os ?xs dir_world)) = 41" by code_simp
  moreover have "sizes_ok dir_os"
    by (auto simp: sizes_ok_def dir_os_def Let_def split: if_splits)
  ultimately show ?thesis
    using quota_limit_kept [of dir_os ?xs dir_world example_sfs]
    by (simp add: Let_def dir_world_def)
qed

end
