(* ===== verification/Fs_Listing.thy ===== *)
theory Fs_Listing
  imports Disk_Usage "HOL-Library.Multiset"
begin

text \<open>
  The names and pages of the server's filesystem: the name of a copy, the order and the pages of a
  listing, and what \<open>ListDirectoryPaged\<close> asks of the descriptors that \<open>ReadDir\<close> has closed.
\<close>

section \<open>The name of a copy\<close>

text \<open>A directory as the kernel sees it while nobody else changes it: the names that are taken.\<close>

definition settled :: "'k os \<Rightarrow> int \<Rightarrow> (string \<Rightarrow> sys_stat option) \<Rightarrow> bool" where
  "settled os d dir \<longleftrightarrow>
     (\<forall>n k. os_fstatat os d n True k = ((case dir n of None \<Rightarrow> Inl ENOENT | Some s \<Rightarrow> Inr s), k))"

definition copy_name :: "string \<Rightarrow> string \<Rightarrow> nat \<Rightarrow> string" where
  "copy_name name ext i = name @ copy_suffix i @ ext"

lemma lstatat_settled:
  assumes "settled os d dir" and "0 < os_rounds os"
  shows "lstatat os d n w =
     (Some (case dir n of None \<Rightarrow> Inl (errno_to_path_error ENOENT ''lstatat'' n) | Some s \<Rightarrow> Inr (fill_file_stat s n)),
      w\<lparr>calls := calls w @ [CStat d n True (case dir n of None \<Rightarrow> Inl ENOENT | Some s \<Rightarrow> Inr s)]\<rparr>)"
  using assms
  by (cases "os_rounds os") (auto simp: settled_def lstatat_def u_fstatat_def ubind_def sys_def uret_def split: option.splits)

lemma missing_is_not_exist: "errors_is (errno_to_path_error ENOENT op n) ErrNotExist"
  by code_simp

lemma copy_suffix_loop_settled:
  assumes ok: "settled os d dir" "0 < os_rounds os" and "i + k = 51"
  shows "fst (copy_suffix_loop os d name ext stamp i k sfx w) = Some (Inr
     (case List.find (\<lambda>j. dir (copy_name name ext j) = None) [i..<51] of
        Some j \<Rightarrow> copy_name name ext j
      | None \<Rightarrow> name @ (if k = 0 then sfx else ''copy.'' @ stamp) @ ext))"
  using assms(3)
proof (induction k arbitrary: i sfx w)
  case (Suc k)
  let ?n = "copy_name name ext i"
  have up: "[i..<51] = i # [Suc i..<51]" using Suc.prems by (simp add: upt_conv_Cons)
  show ?case
  proof (cases "dir ?n")
    case None
    then show ?thesis
      by (simp add: Let_def up ubind_def uret_def lstatat_settled [OF ok] missing_is_not_exist copy_name_def)
  next
    case (Some s)
    then show ?thesis using Suc.prems
      by (auto simp: Let_def up ubind_def lstatat_settled [OF ok] copy_name_def Suc.IH split: option.splits)
  qed
qed (simp add: uret_def)

text \<open>
  A copy gets the first free name. In a directory that nobody else changes, \<open>findCopySuffix\<close> takes the
  first of \<open>name copy.ext\<close>, \<open>name copy 1.ext\<close> up to \<open>name copy 50.ext\<close> that does not exist, and only when all
  51 exist the name with the time, whether or not that one exists.
\<close>

theorem copy_name_free:
  assumes "settled os d dir" and "0 < os_rounds os"
  shows "\<exists>nm. fst (find_copy_suffix os stamp d name ext w) = Some (Inr nm) \<and>
    ((\<exists>i \<le> 50. nm = copy_name name ext i \<and> dir nm = None \<and> (\<forall>j < i. dir (copy_name name ext j) \<noteq> None)) \<or>
     ((\<forall>j \<le> 50. dir (copy_name name ext j) \<noteq> None) \<and> nm = name @ ''copy.'' @ stamp @ ext))"
proof (cases "List.find (\<lambda>j. dir (copy_name name ext j) = None) [0..<51]")
  case None
  then have "\<forall>j \<le> 50. dir (copy_name name ext j) \<noteq> None" by (auto simp: find_None_iff)
  then show ?thesis
    using copy_suffix_loop_settled [OF assms, of 0 51 name ext stamp "'' copy''" w] None
    by (simp add: find_copy_suffix_def)
next
  case (Some i)
  then have i: "i \<le> 50" "dir (copy_name name ext i) = None" "\<forall>j < i. dir (copy_name name ext j) \<noteq> None"
    by (auto simp: find_Some_iff)
  have "fst (find_copy_suffix os stamp d name ext w) = Some (Inr (copy_name name ext i))"
    using copy_suffix_loop_settled [OF assms, of 0 51 name ext stamp "'' copy''" w] Some
    by (simp add: find_copy_suffix_def)
  with i show ?thesis by blast
qed

definition home_dir :: "string \<Rightarrow> sys_stat option" where
  "home_dir n = (if n \<in> {''a.txt'', ''a copy.txt'', ''a copy 1.txt''}
                 then Some \<lparr>st_size = 5, st_mode = 0x81A4, st_nlink = 1, st_ino = 7\<rparr> else None)"

theorem copy_name_free_witness:
  "let os = dir_os\<lparr>os_fstatat := \<lambda>d n b k. (case home_dir n of None \<Rightarrow> Inl ENOENT | Some s \<Rightarrow> Inr s, k)\<rparr>
   in \<exists>nm. fst (find_copy_suffix os ''now'' 3 ''a'' ''.txt'' dir_world) = Some (Inr nm) \<and> nm = ''a copy 2.txt''"
proof -
  let ?os = "dir_os\<lparr>os_fstatat := \<lambda>d n b k. (case home_dir n of None \<Rightarrow> Inl ENOENT | Some s \<Rightarrow> Inr s, k)\<rparr>"
  have names: "copy_name ''a'' ''.txt'' 0 = ''a copy.txt''" "copy_name ''a'' ''.txt'' 1 = ''a copy 1.txt''"
    "copy_name ''a'' ''.txt'' 2 = ''a copy 2.txt''"
    by code_simp+
  have free: "home_dir ''a copy.txt'' \<noteq> None" "home_dir ''a copy 1.txt'' \<noteq> None" "home_dir ''a copy 2.txt'' = None"
    by (simp_all add: home_dir_def)
  have "settled ?os 3 home_dir" "0 < os_rounds ?os"
    by (auto simp: settled_def dir_os_def Let_def split: option.splits)
  from copy_name_free [OF this, of "''now''" "''a''" "''.txt''" dir_world]
  obtain nm where nm: "fst (find_copy_suffix ?os ''now'' 3 ''a'' ''.txt'' dir_world) = Some (Inr nm)"
    and cases: "(\<exists>i \<le> 50. nm = copy_name ''a'' ''.txt'' i \<and> home_dir nm = None \<and>
          (\<forall>j < i. home_dir (copy_name ''a'' ''.txt'' j) \<noteq> None)) \<or>
        ((\<forall>j \<le> 50. home_dir (copy_name ''a'' ''.txt'' j) \<noteq> None) \<and> nm = ''a'' @ ''copy.'' @ ''now'' @ ''.txt'')"
    by blast
  have "\<not> (\<forall>j \<le> 50. home_dir (copy_name ''a'' ''.txt'' j) \<noteq> None)"
    using names(3) free(3) by (intro notI) (drule spec [of _ 2], simp)
  with cases obtain i where i: "nm = copy_name ''a'' ''.txt'' i" "home_dir nm = None"
      "\<forall>j < i. home_dir (copy_name ''a'' ''.txt'' j) \<noteq> None"
    by blast
  have "\<not> 2 < i" using i(3) names(3) free(3) by auto
  then have "i = 0 \<or> i = 1 \<or> i = 2" by auto
  then have "nm = ''a copy 2.txt''" using i names free by auto
  with nm show ?thesis by (auto simp: Let_def)
qed

section \<open>Order and pages\<close>

lemma set_insert_entry [simp]: "set (insert_entry e es) = insert e (set es)"
  by (induction es) auto

lemma set_sort_entries [simp]: "set (sort_entries es) = set es"
  by (induction es) (simp_all add: sort_entries_def)

lemma entry_le_total: "entry_le a b \<or> entry_le b a"
  by (auto simp: entry_le_def lexordp_eq_linear)

lemma entry_le_trans: "entry_le a b \<Longrightarrow> entry_le b c \<Longrightarrow> entry_le a c"
  by (auto simp: entry_le_def intro: lexordp_eq_trans split: if_splits)

lemma sorted_insert_entry: "sorted_wrt entry_le es \<Longrightarrow> sorted_wrt entry_le (insert_entry e es)"
proof (induction es)
  case (Cons x es)
  then show ?case using entry_le_total [of e x] by (auto intro: entry_le_trans)
qed simp

lemma mset_insert_entry: "mset (insert_entry e es) = add_mset e (mset es)"
  by (induction es) auto

lemma sort_entries_ok: "sorted_wrt entry_le (sort_entries es)" "mset (sort_entries es) = mset es"
  by (induction es) (simp_all add: sort_entries_def sorted_insert_entry mset_insert_entry)

text \<open>
  A page is what it says, up to the overflow. For an offset inside the listing a page holds the
  entries from the offset on, as many as the limit says; if offset and limit together leave the 64-bit
  range the request panics.
\<close>

theorem page_slice_exact:
  assumes "0 \<le> offset" and "offset < int (length es)" and "0 < limit" and "limit \<le> max_i64"
    and "int (length es) \<le> max_i64"
  shows "page_slice offset limit es =
    (if offset + limit \<le> max_i64 then Listed (take (nat limit) (drop (nat offset) es)) else ListPanic)"
proof (cases "offset + limit \<le> max_i64")
  case True
  then have w: "wrap64 (offset + limit) = offset + limit"
    using assms by (intro wrap64_id) (simp add: in_i64_def min_i64_def)
  show ?thesis
  proof (cases "int (length es) < offset + limit")
    case big: True
    then have "take (nat (int (length es) - offset)) (drop (nat offset) es) = drop (nat offset) es"
      "take (nat limit) (drop (nat offset) es) = drop (nat offset) es"
      using assms by (auto simp: nat_diff_distrib)
    then show ?thesis using True big assms by (simp add: page_slice_def w)
  qed (use True assms in \<open>simp add: page_slice_def w\<close>)
next
  case False
  then have "wrap64 (offset + limit) = offset + limit - 2 ^ 64"
    using assms mod_pos_pos_trivial [of "offset + limit + 2 ^ 63 - 2 ^ 64" "2 ^ 64"]
      minus_mod_self2 [of "offset + limit + 2 ^ 63" "2 ^ 64"]
    by (simp add: wrap64_def max_i64_def)
  then show ?thesis using False assms by (simp add: page_slice_def max_i64_def)
qed

theorem page_slice_exact_witness:
  "page_slice 1 max_i64 [''a'', ''b''] = ListPanic \<and> page_slice 1 5 [''a'', ''b'', ''c''] = Listed [''b'', ''c'']"
  using page_slice_exact [of 1 "[''a'', ''b'']" max_i64] page_slice_exact [of 1 "[''a'', ''b'', ''c'']" 5]
  by (simp add: max_i64_def)

section \<open>Stale descriptors\<close>

text \<open>
  A descriptor that is not open is no good for looking up a name below it (\<open>EBADF\<close>, number 9).
\<close>

definition bad_fd :: "'k os \<Rightarrow> ('k \<Rightarrow> int set) \<Rightarrow> bool" where
  "bad_fd os opn \<longleftrightarrow>
     (\<forall>d n b k. 0 < d \<longrightarrow> d \<notin> opn k \<longrightarrow> slash \<notin> set n \<longrightarrow> fst (os_fstatat os d n b k) = Inl (EOTHER 9))"

definition entries_of :: "int \<Rightarrow> dir_entry list \<Rightarrow> bool" where
  "entries_of fd es \<longleftrightarrow> (\<forall>e \<in> set es. en_dirfd e = fd \<and> slash \<notin> set (en_name e))"

lemma entries_of_simps [simp]:
  "entries_of fd []" "entries_of fd (e # es) \<longleftrightarrow> en_dirfd e = fd \<and> slash \<notin> set (en_name e) \<and> entries_of fd es"
  "entries_of fd (es @ es') \<longleftrightarrow> entries_of fd es \<and> entries_of fd es'"
  by (auto simp: entries_of_def)

definition right_ok :: "('b \<Rightarrow> bool) \<Rightarrow> 'a + 'b \<Rightarrow> bool" where
  "right_ok A r = (case r of Inl e \<Rightarrow> True | Inr x \<Rightarrow> A x)"

lemma right_ok_simps [simp]: "right_ok A (Inl e)" "right_ok A (Inr x) \<longleftrightarrow> A x"
  by (simp_all add: right_ok_def)

lemma results_read_batch:
  fixes os :: "'k os"
  assumes "\<forall>d \<in> set ds. slash \<notin> set (sd_name d)"
  shows "results (read_batch os fd name rel ds :: ('k, 'm, fs_err + dir_entry list) fio) (right_ok (entries_of fd))"
  using assms
proof (induction ds)
  case (Cons de ds)
  then have IH: "results (read_batch os fd name rel ds :: ('k, 'm, fs_err + dir_entry list) fio)
      (right_ok (entries_of fd))" by simp
  have step: "results ((case mt of
       Inl e \<Rightarrow> uret (Inl e)
     | Inr m \<Rightarrow> ubind (read_batch os fd name rel ds)
                 (\<lambda>r. uret (case r of
                        Inl e \<Rightarrow> Inl e
                      | Inr es \<Rightarrow>
                          Inr (\<lparr>en_dirfd = fd, en_name = sd_name de,
                                en_path = (if rel = ''.'' then name else path_join [rel, sd_name de]),
                                en_mode = m\<rparr> # es)))) :: ('k, 'm, fs_err + dir_entry list) fio)
     (right_ok (entries_of fd))" for mt :: "fs_err + file_mode"
    using Cons.prems
  proof (cases mt)
    case (Inr mode)
    show ?thesis unfolding Inr sum.case
      by (rule results_bind_dep [OF IH]) (use Cons.prems in \<open>auto intro!: results_ret split: sum.split\<close>)
  qed (simp add: results_ret)
  show ?case unfolding read_batch.simps
    by (intro results_if IH results_bind step)
qed (simp add: results_ret)

lemma results_read_dir_fd:
  fixes os :: "'k os"
  assumes "kernel_ok os opn"
  shows "results (read_dir_fd os fd name rel :: ('k, 'm, fs_err + dir_entry list) fio) (right_ok (entries_of fd))"
proof -
  have dents: "results (sys (os_getdents os fd) (\<lambda>_. CReaddir fd))
      (right_ok (\<lambda>ds. \<forall>d \<in> set ds. slash \<notin> set (sd_name d)))"
    using assms by (auto simp: results_def sys_def kernel_ok_def right_ok_def split: sum.splits)
  have "results (read_dir_loop os k fd name rel :: ('k, 'm, fs_err + dir_entry list) fio) (right_ok (entries_of fd))"
    for k
  proof (induction k)
    case (Suc k)
    have batch: "results ((case b of
         Inl e \<Rightarrow> uret (Inl e)
       | Inr es \<Rightarrow> ubind (read_dir_loop os k fd name rel)
                    (\<lambda>rest. uret (case rest of Inl e \<Rightarrow> Inl e | Inr fs \<Rightarrow> Inr (es @ fs))))
         :: ('k, 'm, fs_err + dir_entry list) fio)
       (right_ok (entries_of fd))" if "right_ok (entries_of fd) b" for b
      using that by (cases b) (auto intro!: results_ret results_bind_dep [OF Suc.IH] split: sum.split)
    show ?case unfolding read_dir_loop.simps
    proof (rule results_bind_dep [OF dents], goal_cases)
      case (1 r)
      then show ?case using Suc.IH
        by (cases r) (auto intro!: results_ret intro: results_bind_dep [OF results_read_batch] batch)
    qed
  qed (simp add: results_def ustuck_def)
  then show ?thesis by (simp add: read_dir_fd_def)
qed

lemma results_openat:
  fixes os :: "'k os"
  assumes "kernel_ok os opn"
  shows "results (openat fs os d p fl m :: ('k, 'm, int \<times> fs_err option) fio) (\<lambda>(fd, err). err = None \<longrightarrow> 0 < fd)"
proof -
  have pos: "results (sys f ev) (right_ok (\<lambda>fd. 0 < fd))" if "opens_fresh opn f" for f and ev :: "errno + int \<Rightarrow> call"
    unfolding results_def
  proof (intro allI impI)
    fix w x assume "fst (sys f ev w) = Some x"
    then show "right_ok (\<lambda>fd. 0 < fd) x"
      using that by (cases "f (kst w)"; cases x) (auto simp: sys_def opens_fresh_def dest!: spec [of _ "kst w"])
  qed
  have one: "results (u_openat os d n fl' m' :: ('k, 'm, fs_err + int) fio) (right_ok (\<lambda>fd. 0 < fd))"
    "results (u_openat2 os d n fl' m' :: ('k, 'm, fs_err + int) fio) (right_ok (\<lambda>fd. 0 < fd))" for d n fl' m'
    unfolding u_openat_def u_openat2_def Let_def
    by (rule results_bind_dep [OF pos], simp add: kernel_okD [OF assms],
        rule results_ret, auto simp: open_answer_def right_ok_def split: sum.splits errno.splits)+
  have "results (open_loop fs os k d p fl' m :: ('k, 'm, fs_err + int) fio) (right_ok (\<lambda>fd. 0 < fd))" for k fl'
  proof (induction k)
    case (Suc k)
    have "results (if fs_use_openat2 fs then u_openat2 os d p fl' (syscall_mode m)
            else u_openat os d p fl' (syscall_mode m) :: ('k, 'm, fs_err + int) fio) (right_ok (\<lambda>fd. 0 < fd))"
      by (simp add: one)
    then show ?case unfolding open_loop.simps
      by (rule results_bind_dep) (auto intro: Suc.IH results_ret)
  qed (simp add: results_def ustuck_def)
  then show ?thesis unfolding openat_def
    by (rule results_bind_dep)
      (auto simp: right_ok_def check_final_def Let_def split: sum.splits option.splits if_splits
         intro!: results_ret results_bind)
qed


lemma close_all_opn:
  assumes "kernel_ok os opn"
  shows "opn (kst (snd (close_all os fds w))) \<subseteq> opn (kst w)"
proof (induction fds arbitrary: w)
  case (Cons fd fds)
  let ?w1 = "snd (sys_close os fd w)"
  have "opn (kst ?w1) \<subseteq> opn (kst w)"
    using kernel_okD(12) [OF assms, of fd "kst w"] by (auto simp: sys_close_def sys_def)
  then show ?case using Cons.IH [of ?w1] by (auto simp: close_all_Cons ubind_def sys_close_def sys_def)
qed (simp add: close_all_def uret_def)

text \<open>What \<open>ReadDir\<close> returns carries the descriptor it has just closed.\<close>

lemma read_dir_stale:
  fixes w :: "('k, 'm) fsw_scheme"
  assumes ok: "kernel_ok os opn" and run: "read_dir fs os p w = (Some (Inr es), w')"
  obtains fd where "0 < fd" "fd \<notin> opn (kst w')" "entries_of fd es"
proof -
  from run show thesis unfolding read_dir_def
  proof (cases rule: with_safe_path_cases)
    case (entered d n cl w1 w2)
    obtain fd err w3 where o: "openat fs os d n {O_DIRECTORY} 0 w1 = (Some (fd, err), w3)"
      using entered(2) by (auto simp: ubind_def split: prod.splits option.splits)
    have err: "err = None" using entered(2) o by (cases err) (simp_all add: ubind_def uret_def)
    have fd: "0 < fd" using resultsD [OF results_openat [OF ok], of fs d n "{O_DIRECTORY}" 0 w1] o err by simp
    obtain w4 where r: "read_dir_fd os fd n ''.'' w3 = (Some (Inr es), w4)" and c: "w2 = snd (close_fd os fd w4)"
      using entered(2) o err by (auto simp: ubind_def uret_def split: prod.splits option.splits)
    have es: "entries_of fd es" using resultsD [OF results_read_dir_fd [OF ok], of fd n "''.''" w3] r by simp
    have "fd \<notin> opn (kst w2)"
      using kernel_okD(12) [OF ok, of fd "kst w4"] c
      by (auto simp: close_fd_def sys_close_def sys_def ubind_def uret_def split: if_splits)
    then have "fd \<notin> opn (kst w')" using close_all_opn [OF ok, of cl w2] entered(3) by auto
    with fd es show thesis by (intro that)
  qed simp
qed

lemma page_entries_stale:
  assumes bad: "bad_fd os opn" and fd: "0 < fd" "fd \<notin> opn (kst w)" and es: "entries_of fd es"
    and run: "page_entries sc os detect p ended es w = (Some (Inr out), w')"
  shows "es = []"
proof (cases es)
  case (Cons e es')
  have e: "fst (os_fstatat os (en_dirfd e) (en_name e) True k) = Inl (EOTHER 9)" if "k = kst w" for k
    using bad fd es that by (simp add: bad_fd_def Cons)
  have "fst (lstatat os (en_dirfd e) (en_name e) w) = None \<or>
      (\<exists>x. fst (lstatat os (en_dirfd e) (en_name e) w) = Some (Inl x))"
    by (cases "os_rounds os")
      (auto simp: lstatat_def u_fstatat_def ubind_def uret_def sys_def ustuck_def e)
  then show ?thesis using run
    by (auto simp: Cons entry_info_def ubind_def uret_def split: if_splits prod.splits option.splits)
qed

section \<open>Property\<close>

text \<open>
  \<open>ListDirectoryPaged\<close> never lists an entry. Its entries name their directory by the descriptor that
  \<open>ReadDir\<close> has closed, so on a kernel where a closed descriptor is no good every page that should hold
  something is an error: if a list of files is returned at all, it is empty.
\<close>

theorem paged_listing_empty:
  assumes ok: "kernel_ok os opn" and bad: "bad_fd os opn"
    and run: "list_directory_paged sc os detect ended p offset limit w = (Some (Listed (Inr (stats, cnt))), w')"
  shows "stats = []"
proof (cases "limit \<le> 0")
  case True
  then show ?thesis using run by (simp add: list_directory_paged_def uret_def Let_def)
next
  case False
  define off where "off = (if offset < 0 then 0 else offset)"
  obtain es w1 where rd: "read_dir (sc_fs sc) os p w = (Some (Inr es), w1)"
    using run False
    by (auto simp: list_directory_paged_def ubind_def uret_def Let_def split: prod.splits option.splits sum.splits)
  obtain fd where fd: "0 < fd" "fd \<notin> opn (kst w1)" "entries_of fd es"
    by (rule read_dir_stale [OF ok rd])
  show ?thesis
  proof (cases "int (length es) \<le> off")
    case True
    then show ?thesis using run False rd
      by (auto simp: list_directory_paged_def off_def ubind_def uret_def Let_def split: if_splits)
  next
    case inside: False
    then obtain page w2 where page: "page_slice off limit (sort_entries es) = Listed page"
      "page_entries sc os detect p ended page w1 = (Some (Inr stats), w2)"
      using run False rd
      by (auto simp: list_directory_paged_def off_def ubind_def uret_def Let_def
          split: if_splits listing.splits prod.splits option.splits sum.splits)
    have "set page \<subseteq> set es"
      using page(1) by (auto simp: page_slice_def Let_def split: if_splits dest!: in_set_takeD in_set_dropD)
    then have "entries_of fd page" using fd(3) by (auto simp: entries_of_def)
    then have "page = []" by (rule page_entries_stale [OF bad fd(1,2) _ page(2)])
    then show ?thesis using page(2) by (simp add: uret_def)
  qed
qed

theorem paged_listing_empty_witness:
  "\<exists>stats w'. list_directory_paged example_sfs dir_os (\<lambda>s e. Inr s) (\<lambda>e. False) ''/'' 2 10 dir_world =
       (Some (Listed (Inr (stats, 2))), w') \<and> stats = [] \<and>
     fst (list_directory_paged example_sfs dir_os (\<lambda>s e. Inr s) (\<lambda>e. False) ''/'' 0 10 dir_world) =
       Some (Listed (Inl (UfsError (PathError ''lstatat'' ''a'' (Errno (EOTHER 9))))))"
proof -
  let ?r = "list_directory_paged example_sfs dir_os (\<lambda>s e. Inr s) (\<lambda>e. False) ''/'' 2 10 dir_world"
  have "fst ?r = Some (Listed (Inr ([], 2)))" by code_simp
  then obtain stats w' where r: "?r = (Some (Listed (Inr (stats, 2))), w')" by (cases ?r) simp
  have "bad_fd dir_os (set \<circ> fst)"
    by (auto simp: bad_fd_def dir_os_def Let_def split: prod.split)
  from paged_listing_empty [OF dir_os_ok this r] have "stats = []" .
  moreover have "fst (list_directory_paged example_sfs dir_os (\<lambda>s e. Inr s) (\<lambda>e. False) ''/'' 0 10 dir_world) =
      Some (Listed (Inl (UfsError (PathError ''lstatat'' ''a'' (Errno (EOTHER 9))))))" by code_simp
  ultimately show ?thesis using r by blast
qed

end
