(* ===== verification/Sftp.thy ===== *)
theory Sftp
  imports Fs_Listing
begin

text \<open>
  The SFTP handler, \<open>src/sftp/handler.go\<close> with \<open>utils.go\<close> and \<open>event.go\<close>: what a request of a user needs
  of permissions and what it does with the server's filesystem. Its world adds the activity log.
\<close>

section \<open>Handler and requests\<close>

datatype fx_err =
    FxOk | FxPermissionDenied | FxFailure | FxNoSuchFile | FxOpUnsupported | FxQuotaExceeded

definition permission_file_read :: string where "permission_file_read = ''file.read''"
definition permission_file_read_content :: string where "permission_file_read_content = ''file.read-content''"
definition permission_file_create :: string where "permission_file_create = ''file.create''"
definition permission_file_update :: string where "permission_file_update = ''file.update''"
definition permission_file_delete :: string where "permission_file_delete = ''file.delete''"

record sftp_handler =
  sh_permissions :: "string list"
  sh_suspended :: bool
  sh_ro :: bool

record sftp_request =
  rq_method :: string
  rq_filepath :: string
  rq_target :: string
  rq_mode :: file_mode

datatype sftp_event =
    ActivitySftpWrite | ActivitySftpCreate | ActivitySftpCreateDirectory | ActivitySftpRename | ActivitySftpDelete

record 'k sftpw = "'k sfsw" +
  sftp_log :: "(sftp_event \<times> string \<times> string) list"

type_synonym ('k, 'z, 'a) hio = "('k, 'z sftpw_ext, 'a) sio"

text \<open>\<open>MustLog\<close>: the database keeps the event, or the failure is logged.\<close>

definition must_log :: "sftp_event \<Rightarrow> string \<Rightarrow> string \<Rightarrow> ('k, 'z, unit) hio" where
  "must_log e entity target = modify (\<lambda>w. w\<lparr>sftp_log := sftp_log w @ [(e, entity, target)]\<rparr>)"

text \<open>The permissions come from the panel as one string with commas.\<close>

definition handler_permissions :: "string \<Rightarrow> string list" where
  "handler_permissions s = split_char (CHR '','') s"

fun can_loop :: "string list \<Rightarrow> string \<Rightarrow> bool" where
  "can_loop [] permission = False"
| "can_loop (p # ps) permission = (if p = permission \<or> p = ''*'' then True else can_loop ps permission)"

definition can :: "sftp_handler \<Rightarrow> string \<Rightarrow> bool" where
  "can h permission = (if sh_suspended h then False else can_loop (sh_permissions h) permission)"

section \<open>Reading and writing files\<close>

definition fileread :: "sfs_cfg \<Rightarrow> 'k os \<Rightarrow> mime_detector \<Rightarrow> sftp_handler \<Rightarrow> sftp_request
    \<Rightarrow> ('k, 'z, fx_err + int) hio" where
  "fileread sc os detect h rq =
     (if \<not> can h permission_file_read_content then uret (Inl FxPermissionDenied)
      else ubind (fs_file sc os detect (rq_filepath rq))
             (\<lambda>r. uret (case r of
                          Inl e \<Rightarrow> Inl (if \<not> errors_is e ErrNotExist then FxFailure else FxNoSuchFile)
                        | Inr (fd, _) \<Rightarrow> Inr fd)))"

text \<open>
  The check of the space allows a stale value, so the lookup it may start runs in another goroutine and
  is not part of the request.
\<close>

definition filewrite_touch :: "sfs_cfg \<Rightarrow> 'k os \<Rightarrow> sftp_handler \<Rightarrow> sftp_request \<Rightarrow> string
    \<Rightarrow> ('k, 'z, fx_err + int) hio" where
  "filewrite_touch sc os h rq permission =
     (if \<not> can h permission then uret (Inl FxPermissionDenied)
      else ubind (fs_touch sc os (rq_filepath rq) {O_RDWR, O_TRUNC})
             (\<lambda>t. case t of
                    Inl e \<Rightarrow> uret (Inl FxFailure)
                  | Inr fd \<Rightarrow>
                      ubind (fs_chown sc os (rq_filepath rq))
                        (\<lambda>_. ubind (must_log (if permission = permission_file_create then ActivitySftpCreate
                                              else ActivitySftpWrite) (rq_filepath rq) [])
                           (\<lambda>_. uret (Inr fd)))))"

definition filewrite :: "sfs_cfg \<Rightarrow> 'k os \<Rightarrow> mime_detector \<Rightarrow> time \<Rightarrow> sftp_handler \<Rightarrow> sftp_request
    \<Rightarrow> ('k, 'z, fx_err + int) hio" where
  "filewrite sc os detect now h rq =
     (if sh_ro h then uret (Inl FxOpUnsupported)
      else ubind (has_space_available sc os now True)
             (\<lambda>(available, _).
                if \<not> available then uret (Inl FxQuotaExceeded)
                else ubind (fs_stat sc os detect (rq_filepath rq))
                       (\<lambda>st. case st of
                               Inl e \<Rightarrow> if \<not> errors_is e ErrNotExist then uret (Inl FxFailure)
                                         else filewrite_touch sc os h rq permission_file_create
                             | Inr _ \<Rightarrow> filewrite_touch sc os h rq permission_file_update)))"

section \<open>Commands\<close>

text \<open>\<open>fx_of\<close> is how most commands report an error: a missing file as such, anything else as a failure.\<close>

definition fx_of :: "fs_err \<Rightarrow> fx_err" where
  "fx_of e = (if errors_is e ErrNotExist then FxNoSuchFile else FxFailure)"

definition setstat_mode :: "file_mode \<Rightarrow> file_mode" where
  "setstat_mode attrs =
     (let mode = attrs AND 0x1FF;
          mode1 = (if mode = 0 then 0x1A4 else mode)
      in if mode_is_dir attrs then 0x1ED else mode1)"

definition chown_target :: "sfs_cfg \<Rightarrow> 'k os \<Rightarrow> sftp_request \<Rightarrow> ('k, 'z, fx_err) hio" where
  "chown_target sc os rq =
     ubind (fs_chown sc os (if rq_target rq \<noteq> [] then rq_target rq else rq_filepath rq)) (\<lambda>_. uret FxOk)"

definition cmd_setstat :: "sfs_cfg \<Rightarrow> 'k os \<Rightarrow> sftp_handler \<Rightarrow> sftp_request \<Rightarrow> ('k, 'z, fx_err) hio" where
  "cmd_setstat sc os h rq =
     (if \<not> can h permission_file_update then uret FxPermissionDenied
      else ubind (chmod (sc_fs sc) os (rq_filepath rq) (setstat_mode (rq_mode rq)))
             (\<lambda>e. case e of Some x \<Rightarrow> uret (fx_of x) | None \<Rightarrow> chown_target sc os rq))"

definition cmd_rename :: "sfs_cfg \<Rightarrow> 'k os \<Rightarrow> sftp_handler \<Rightarrow> sftp_request \<Rightarrow> ('k, 'z, fx_err) hio" where
  "cmd_rename sc os h rq =
     (if \<not> can h permission_file_update then uret FxPermissionDenied
      else ubind (rename (sc_fs sc) os (rq_filepath rq) (rq_target rq))
             (\<lambda>e. case e of
                    Some x \<Rightarrow> uret (fx_of x)
                  | None \<Rightarrow> ubind (must_log ActivitySftpRename (rq_filepath rq) (rq_target rq))
                              (\<lambda>_. chown_target sc os rq)))"

definition cmd_rmdir :: "sfs_cfg \<Rightarrow> 'k os \<Rightarrow> sftp_handler \<Rightarrow> sftp_request \<Rightarrow> ('k, 'z, fx_err) hio" where
  "cmd_rmdir sc os h rq =
     (if \<not> can h permission_file_delete then uret FxPermissionDenied
      else ubind (fs_delete sc os (path_clean (rq_filepath rq)))
             (\<lambda>e. case e of
                    Some _ \<Rightarrow> uret FxFailure
                  | None \<Rightarrow> ubind (must_log ActivitySftpDelete (rq_filepath rq) []) (\<lambda>_. uret FxOk)))"

definition cmd_mkdir :: "sfs_cfg \<Rightarrow> 'k os \<Rightarrow> sftp_handler \<Rightarrow> sftp_request \<Rightarrow> ('k, 'z, fx_err) hio" where
  "cmd_mkdir sc os h rq =
     (if \<not> can h permission_file_create then uret FxPermissionDenied
      else (let name = split_char slash (path_clean (rq_filepath rq));
                p = join_char slash (butlast name)
            in ubind (create_directory sc os (last name) p)
                 (\<lambda>e. case e of
                        Some _ \<Rightarrow> uret FxFailure
                      | None \<Rightarrow> ubind (must_log ActivitySftpCreateDirectory (rq_filepath rq) [])
                                  (\<lambda>_. chown_target sc os rq))))"

definition cmd_symlink :: "sfs_cfg \<Rightarrow> 'k os \<Rightarrow> sftp_handler \<Rightarrow> sftp_request \<Rightarrow> ('k, 'z, fx_err) hio" where
  "cmd_symlink sc os h rq =
     (if \<not> can h permission_file_create then uret FxPermissionDenied
      else ubind (symlink (sc_fs sc) os (rq_filepath rq) (rq_target rq))
             (\<lambda>e. case e of Some _ \<Rightarrow> uret FxFailure | None \<Rightarrow> chown_target sc os rq))"

definition cmd_remove :: "sfs_cfg \<Rightarrow> 'k os \<Rightarrow> sftp_handler \<Rightarrow> sftp_request \<Rightarrow> ('k, 'z, fx_err) hio" where
  "cmd_remove sc os h rq =
     (if \<not> can h permission_file_delete then uret FxPermissionDenied
      else ubind (fs_delete sc os (rq_filepath rq))
             (\<lambda>e. case e of
                    Some x \<Rightarrow> uret (fx_of x)
                  | None \<Rightarrow> ubind (must_log ActivitySftpDelete (rq_filepath rq) []) (\<lambda>_. uret FxOk)))"

definition filecmd :: "sfs_cfg \<Rightarrow> 'k os \<Rightarrow> sftp_handler \<Rightarrow> sftp_request \<Rightarrow> ('k, 'z, fx_err) hio" where
  "filecmd sc os h rq =
     (if sh_ro h then uret FxOpUnsupported
      else if rq_method rq = ''Setstat'' then cmd_setstat sc os h rq
      else if rq_method rq = ''Rename'' then cmd_rename sc os h rq
      else if rq_method rq = ''Rmdir'' then cmd_rmdir sc os h rq
      else if rq_method rq = ''Mkdir'' then cmd_mkdir sc os h rq
      else if rq_method rq = ''Symlink'' then cmd_symlink sc os h rq
      else if rq_method rq = ''Remove'' then cmd_remove sc os h rq
      else uret FxOpUnsupported)"

section \<open>Listing\<close>

definition filelist :: "sfs_cfg \<Rightarrow> 'k os \<Rightarrow> mime_detector \<Rightarrow> sftp_handler \<Rightarrow> sftp_request
    \<Rightarrow> ('k, 'z, fx_err + file_info list) hio" where
  "filelist sc os detect h rq =
     (if \<not> can h permission_file_read then uret (Inl FxPermissionDenied)
      else if rq_method rq = ''List''
      then ubind (read_dir_stat sc os (rq_filepath rq))
             (\<lambda>r. uret (case r of Inl _ \<Rightarrow> Inl FxFailure | Inr entries \<Rightarrow> Inr entries))
      else if rq_method rq = ''Stat''
      then ubind (fs_stat sc os detect (rq_filepath rq))
             (\<lambda>r. uret (case r of Inl e \<Rightarrow> Inl (fx_of e) | Inr st \<Rightarrow> Inr [fst_info st]))
      else uret (Inl FxOpUnsupported))"

text \<open>
  \<open>ListAt\<close> copies into a buffer of \<open>n\<close> places; the second result says that the list has ended. A negative
  offset is out of the slice's bounds, \<open>None\<close>.
\<close>

definition list_at :: "'a list \<Rightarrow> nat \<Rightarrow> int \<Rightarrow> ('a list \<times> bool) option" where
  "list_at l n offset =
     (if int (length l) \<le> offset then Some ([], True)
      else if offset < 0 then None
      else (let copied = take n (drop (nat offset) l)
            in Some (copied, length copied < n)))"

section \<open>Requests\<close>

text \<open>The library calls one of the four handlers for a request; of the answers a file counts here.\<close>

datatype sftp_call = FileGet sftp_request | FilePut sftp_request | FileCmd sftp_request | FileList sftp_request

fun serve :: "sfs_cfg \<Rightarrow> 'k os \<Rightarrow> mime_detector \<Rightarrow> time \<Rightarrow> sftp_handler \<Rightarrow> sftp_call \<Rightarrow> ('k, 'z, int list) hio" where
  "serve sc os detect now h (FileGet rq) =
     ubind (fileread sc os detect h rq) (\<lambda>r. uret (case r of Inl _ \<Rightarrow> [] | Inr fd \<Rightarrow> [fd]))"
| "serve sc os detect now h (FilePut rq) =
     ubind (filewrite sc os detect now h rq) (\<lambda>r. uret (case r of Inl _ \<Rightarrow> [] | Inr fd \<Rightarrow> [fd]))"
| "serve sc os detect now h (FileCmd rq) = ubind (filecmd sc os h rq) (\<lambda>_. uret [])"
| "serve sc os detect now h (FileList rq) = ubind (filelist sc os detect h rq) (\<lambda>_. uret [])"

text \<open>A session: requests of users one after the other, each through its own handler.\<close>

fun serve_all :: "sfs_cfg \<Rightarrow> 'k os \<Rightarrow> mime_detector \<Rightarrow> (time \<times> sftp_handler \<times> sftp_call) list
    \<Rightarrow> ('k, 'z, int list) hio" where
  "serve_all sc os detect [] = uret []"
| "serve_all sc os detect ((now, h, c) # cs) =
     ubind (serve sc os detect now h c)
       (\<lambda>fds. ubind (serve_all sc os detect cs) (\<lambda>rest. uret (rest @ fds)))"

section \<open>Nothing changes without permission\<close>

lemma can_loop_iff: "can_loop ps p \<longleftrightarrow> p \<in> set ps \<or> ''*'' \<in> set ps"
  by (induction ps) auto

definition reads_only :: "('k, 'm) fsw_scheme \<Rightarrow> ('k, 'm) fsw_scheme \<Rightarrow> bool" where
  "reads_only w w' \<longleftrightarrow> (\<exists>cs. calls w' = calls w @ cs \<and> (\<forall>c \<in> set cs. \<not> changing c))"

interpretation qu: quiet_order reads_only
proof (unfold_locales, goal_cases)
  case (2 w1 w2 w3)
  then obtain cs ds where "calls w2 = calls w1 @ cs" "calls w3 = calls w2 @ ds"
    "\<forall>c \<in> set cs. \<not> changing c" "\<forall>c \<in> set ds. \<not> changing c"
    by (auto simp: reads_only_def)
  then show ?case unfolding reads_only_def by (intro exI [of _ "cs @ ds"]) auto
qed (auto simp: reads_only_def)

text \<open>What a call needs to change something, and to be given a file.\<close>

fun needed :: "sftp_call \<Rightarrow> string set" where
  "needed (FileGet rq) = {}"
| "needed (FileList rq) = {}"
| "needed (FilePut rq) = {permission_file_create, permission_file_update}"
| "needed (FileCmd rq) =
     (if rq_method rq \<in> {''Setstat'', ''Rename''} then {permission_file_update}
      else if rq_method rq \<in> {''Mkdir'', ''Symlink''} then {permission_file_create}
      else if rq_method rq \<in> {''Rmdir'', ''Remove''} then {permission_file_delete}
      else {})"

fun needed_for_file :: "sftp_call \<Rightarrow> string set" where
  "needed_for_file (FileGet rq) = {permission_file_read_content}"
| "needed_for_file (FilePut rq) = {permission_file_create, permission_file_update}"
| "needed_for_file _ = {}"

definition permitted :: "sftp_handler \<Rightarrow> string set \<Rightarrow> bool" where
  "permitted h ps \<longleftrightarrow> (\<exists>p \<in> ps. can h p)"

lemma space_check_quiet: "moves reads_only (has_space_available sc os now True)"
  unfolding has_space_available_def disk_usage_def
  by (auto intro!: moves_intros split: prod.split)

lemma filewrite_quiet:
  assumes "sh_ro h \<or> \<not> permitted h {permission_file_create, permission_file_update}"
  shows "moves reads_only (filewrite sc os detect now h rq)"
proof -
  have "moves reads_only (filewrite_touch sc os h rq p)"
    if "\<not> sh_ro h" "p \<in> {permission_file_create, permission_file_update}" for p
    using that assms by (auto simp: filewrite_touch_def permitted_def qu.ret)
  then show ?thesis unfolding filewrite_def
    by (intro moves_intros space_check_quiet) auto
qed

lemma filecmd_quiet:
  assumes "sh_ro h \<or> \<not> permitted h (needed (FileCmd rq))"
  shows "moves reads_only (filecmd sc os h rq)"
  using assms
  by (auto simp: filecmd_def permitted_def cmd_setstat_def cmd_rename_def cmd_rmdir_def cmd_mkdir_def
      cmd_symlink_def cmd_remove_def qu.ret)

lemma serve_quiet:
  assumes "sh_ro h \<or> \<not> permitted h (needed c)"
  shows "moves reads_only (serve sc os detect now h c)"
proof (cases c)
  case (FileGet rq)
  then show ?thesis unfolding serve.simps fileread_def FileGet by (intro moves_intros)
next
  case (FilePut rq)
  then show ?thesis using assms by (auto intro!: moves_intros filewrite_quiet)
next
  case (FileCmd rq)
  then show ?thesis using assms by (auto simp del: needed.simps intro!: moves_intros filecmd_quiet)
next
  case (FileList rq)
  then show ?thesis unfolding serve.simps filelist_def FileList by (intro moves_intros)
qed

lemma filewrite_touch_files:
  assumes "p \<in> {permission_file_create, permission_file_update}"
  shows "results (filewrite_touch sc os h rq p)
    (\<lambda>r. (\<exists>fd. r = Inr fd) \<longrightarrow> permitted h {permission_file_create, permission_file_update})"
  using assms by (cases "can h p") (auto simp: filewrite_touch_def permitted_def results_def uret_def)

lemma filewrite_files:
  "results (filewrite sc os detect now h rq)
    (\<lambda>r. (\<exists>fd. r = Inr fd) \<longrightarrow> permitted h {permission_file_create, permission_file_update})"
  unfolding filewrite_def
  by (auto intro!: results_if results_bind results_ret filewrite_touch_files split: prod.split sum.split)

lemma serve_files:
  "results (serve sc os detect now h c) (\<lambda>fds. fds \<noteq> [] \<longrightarrow> permitted h (needed_for_file c))"
proof (cases c)
  case (FileGet rq)
  then show ?thesis
    by (cases "can h permission_file_read_content")
      (auto simp: fileread_def permitted_def intro!: results_bind results_ret
        simp flip: results_def simp: ubind_def uret_def results_def)
next
  case (FilePut rq)
  show ?thesis unfolding FilePut serve.simps
    by (rule results_bind_dep [OF filewrite_files]) (auto intro!: results_ret split: sum.split)
qed (auto intro!: results_bind results_ret)

end
