(* ===== verification/Sftp_Access.thy ===== *)
theory Sftp_Access
  imports Sftp
begin

text \<open>
  What an SFTP session may do: the permissions of its user decide about every change, and every request
  stays in the sandbox.
\<close>

section \<open>The sandbox holds for a session\<close>

lemma tri_pure_op:
  assumes "\<And>w. \<exists>x. m w = (Some x, g w)" and "\<And>w. kst (g w) = kst w" and "\<And>w. calls (g w) = calls w"
  shows "tri (fs, os, opn, bs) (good (fs, os, opn, bs) S T) m (keeps (fs, os, opn, bs) S T)"
proof (rule triI, goal_cases)
  case (1 w)
  obtain x where "m w = (Some x, g w)" using assms(1) by blast
  with 1 assms(2,3) show ?case by (simp add: good.simps)
qed

lemma tri_asking: "tri (fs, os, opn, bs) (good (fs, os, opn, bs) S T) (asking f) (keeps (fs, os, opn, bs) S T)"
  by (rule tri_pure_op [where g = "\<lambda>w. w"]) (simp_all add: asking_def)

lemma tri_must_log:
  "tri (fs, os, opn, bs) (good (fs, os, opn, bs) S T) (must_log e p q) (keeps (fs, os, opn, bs) S T)"
  by (rule tri_pure_op [where g = "\<lambda>w. w\<lparr>sftp_log := sftp_log w @ [(e, p, q)]\<rparr>"])
    (simp_all add: must_log_def modify_def)

lemma tri_stat_from_file:
  "fd \<in> T \<Longrightarrow> tri (fs, os, opn, bs) (good (fs, os, opn, bs) S T) (stat_from_file os detect n fd)
     (keeps (fs, os, opn, bs) S T)"
  unfolding stat_from_file_def Let_def
  by (intro tri_bind_keeps tri_sum tri_if tri_ret_keeps tri_sys)
    (auto simp: kernel_okD intro!: tri_bind_keeps tri_sum tri_ret_keeps tri_sys split: prod.split simp del: gains_empty)

abbreviation (input) given :: "fs_err + int \<times> 'a \<Rightarrow> int set" where
  "given r \<equiv> (case r of Inl e \<Rightarrow> {} | Inr x \<Rightarrow> {fst x})"

text \<open>A descriptor just opened, in the hands of a body that closes it or gives it on.\<close>

lemma tri_opened_file:
  assumes "tri (fs, os, opn, bs) (good (fs, os, opn, bs) S T) m (gains (fs, os, opn, bs) file_fds S T)"
    and "\<And>fd. fd \<notin> T \<Longrightarrow> (fs_use_openat2 fs \<longrightarrow> fd \<notin> S) \<Longrightarrow>
      tri (fs, os, opn, bs) (good (fs, os, opn, bs) (insert fd S) (insert fd T)) (body fd) Q"
    and "\<And>e. tri (fs, os, opn, bs) (good (fs, os, opn, bs) S T) (fail e) Q"
  shows "tri (fs, os, opn, bs) (good (fs, os, opn, bs) S T)
    (ubind m (\<lambda>r. case r of Inl e \<Rightarrow> fail e | Inr fd \<Rightarrow> body fd)) Q"
proof (rule tri_bind [OF assms(1)], goal_cases)
  case (1 r)
  show ?case
  proof (cases r)
    case (Inl e)
    show ?thesis unfolding Inl sum.case
      by (rule tri_mono [OF assms(3)]) simp_all
  next
    case (Inr fd)
    show ?thesis unfolding Inr sum.case
      by (rule tri_pre [where A = "fd \<notin> T \<and> (fs_use_openat2 fs \<longrightarrow> fd \<notin> S)", OF _ assms(2)])
        (auto simp: gains_def)
  qed
qed

lemma tri_fs_stat:
  "tri (fs, os, opn, bs) (good (fs, os, opn, bs) S T) (fs_stat sc os detect p) (keeps (fs, os, opn, bs) S T)"
  if "sc_fs sc = fs"
  unfolding fs_stat_def that
  by (intro tri_opened_file [OF tri_u_open] tri_ret_keeps tri_bind_keeps tri_stat_from_file tri_then_close) auto

lemma ubind_assoc: "ubind (ubind m f) g = ubind m (\<lambda>x. ubind (f x) g)"
  by (auto simp: ubind_def fun_eq_iff split: prod.split option.split)

lemma tri_results: "tri c P m Q \<Longrightarrow> results m A \<Longrightarrow> tri c P m (\<lambda>r w. Q r w \<and> A r)"
  unfolding tri_def results_def by (auto split: prod.splits option.splits) (metis fst_conv)

lemma good_kernel_ok: "good (fs, os, opn, bs) S T w \<Longrightarrow> kernel_ok os opn"
  by (simp add: good.simps)

lemma tri_map_entries:
  assumes "\<And>e. e \<in> set es \<Longrightarrow> tri c (good c S T) (f e) (keeps c S T)"
  shows "tri c (good c S T) (map_entries f es) (keeps c S T)"
  using assms
proof (induction es)
  case (Cons e es)
  have "tri c (good c S T) (f e) (keeps c S T)" by (rule Cons.prems) simp
  moreover have "tri c (good c S T) (map_entries f es) (keeps c S T)" by (rule Cons.IH [OF Cons.prems]) simp
  ultimately show ?case unfolding map_entries.simps by (intro tri_bind_keeps tri_sum tri_ret_keeps)
qed (simp add: tri_ret)

lemma tri_read_entries:
  assumes fd: "fd \<in> T"
  shows "tri (fs, os, opn, bs) (good (fs, os, opn, bs) S T)
    (ubind (read_dir_fd os fd name rel)
       (\<lambda>r. case r of Inl e \<Rightarrow> uret (Inl e) | Inr es \<Rightarrow> map_entries (entry_info os) es))
    (keeps (fs, os, opn, bs) S T)"
proof (rule tri_pre [where A = "kernel_ok os opn" and P = "good (fs, os, opn, bs) S T"])
  assume ok: "kernel_ok os opn"
  show "tri (fs, os, opn, bs) (good (fs, os, opn, bs) S T)
    (ubind (read_dir_fd os fd name rel)
       (\<lambda>r. case r of Inl e \<Rightarrow> uret (Inl e) | Inr es \<Rightarrow> map_entries (entry_info os) es))
    (keeps (fs, os, opn, bs) S T)"
    unfolding read_dir_fd_def
  proof (rule tri_bind [OF tri_results [OF tri_read_dir_loop [OF fd] results_read_dir_fd [OF ok, unfolded read_dir_fd_def]]],
      goal_cases)
    case (1 r)
    show ?case
    proof (cases r)
      case (Inl e)
      show ?thesis unfolding Inl sum.case by (rule tri_ret) simp
    next
      case (Inr es)
      show ?thesis unfolding Inr sum.case
      proof (rule tri_pre [where P = "good (fs, os, opn, bs) S T"
            and A = "entries_of fd es \<and> (\<forall>e \<in> set es. proper_comp (en_name e))"], goal_cases)
        case 2
        then show ?case
          by (intro tri_map_entries) (auto simp: entry_info_def entries_of_def single_def fd intro!: tri_lstatat
              simp del: gains_empty)
      qed (simp add: entries_ok_def)
    qed
  qed
qed (simp add: good_kernel_ok)

lemma tri_read_dir_stat:
  assumes "sc_fs sc = fs"
  shows "tri (fs, os, opn, bs) (good (fs, os, opn, bs) S T) (read_dir_stat sc os p) (keeps (fs, os, opn, bs) S T)"
  unfolding read_dir_stat_def read_dir_map_def assms
proof (rule tri_with_safe_path_keeps)
  let ?c = "(fs, os, opn, bs)"
  fix d n and S T :: "int set"
  assume d: "d \<in> T" "single n"
  show "tri ?c (good ?c S T)
     (ubind (openat fs os d n {O_DIRECTORY} 0)
        (\<lambda>(fd, err). case err of
             None \<Rightarrow> ubind (read_dir_fd os fd ''.'' p)
                      (\<lambda>r. ubind (case r of Inl e \<Rightarrow> uret (Inl e) | Inr es \<Rightarrow> map_entries (entry_info os) es)
                             (\<lambda>res. ubind (close_fd os fd) (\<lambda>_. uret res)))
           | Some e \<Rightarrow> uret (Inl e)))
     (keeps ?c S T)"
  proof (rule tri_bind [OF tri_openat [OF dir_open_ok [OF d]]], goal_cases)
    case (1 x)
    obtain fd err where x: "x = (fd, err)" by (cases x)
    show ?case unfolding x prod.case
    proof (rule tri_option, goal_cases)
      case 1
      show ?case
      proof (rule tri_pre [where P = "good ?c (insert fd S) (insert fd T)"
          and A = "fd \<notin> T \<and> (fs_use_openat2 fs \<longrightarrow> fd \<notin> S)"])
        assume a: "fd \<notin> T \<and> (fs_use_openat2 fs \<longrightarrow> fd \<notin> S)"
        have "tri ?c (good ?c (insert fd S) (insert fd T))
            (ubind (ubind (read_dir_fd os fd ''.'' p)
                      (\<lambda>r. case r of Inl e \<Rightarrow> uret (Inl e) | Inr es \<Rightarrow> map_entries (entry_info os) es))
               (\<lambda>res. ubind (close_fd os fd) (\<lambda>_. uret res))) (keeps ?c S T)"
          by (rule tri_bind_keeps [OF tri_read_entries]) (use a in \<open>auto intro!: tri_then_close tri_ret\<close>)
        then show "tri ?c (good ?c (insert fd S) (insert fd T))
            (ubind (read_dir_fd os fd ''.'' p)
               (\<lambda>r. ubind (case r of Inl e \<Rightarrow> uret (Inl e) | Inr es \<Rightarrow> map_entries (entry_info os) es)
                      (\<lambda>res. ubind (close_fd os fd) (\<lambda>_. uret res)))) (keeps ?c S T)"
          by (simp only: ubind_assoc)
      qed (use 1 in \<open>auto simp: opened_def gains_def\<close>)
    next
      case (2 e)
      then show ?case by (auto intro!: tri_ret simp: opened_def)
    qed
  qed
qed

lemma tri_fs_chown:
  assumes "sc_fs sc = fs"
  shows "tri (fs, os, opn, bs) (good (fs, os, opn, bs) S T) (fs_chown sc os p) (keeps (fs, os, opn, bs) S T)"
proof -
  have at: "tri (fs, os, opn, bs) (good (fs, os, opn, bs) S T) (lchownat os d n u g) (keeps (fs, os, opn, bs) S T)"
    if "d \<in> T" "single n" for d n u g S T
    unfolding lchownat_def by (intro tri_bind_keeps tri_ret_keeps tri_sys_at) (simp add: that)
  have cb: "walk_fn_ok (fs, os, opn, bs) (chown_callback sc os)"
    unfolding walk_fn_ok_def chown_callback_def
    by (intro allI impI tri_option tri_ret_keeps tri_bind_keeps at)
  show ?thesis unfolding fs_chown_def assms
    by (intro tri_if tri_ret_keeps tri_with_safe_path_keeps tri_bind_keeps at tri_option tri_lstatat
        tri_walk_dirat cb)
qed

lemma tri_fs_file:
  assumes sc: "sc_fs sc = fs"
  shows "tri (fs, os, opn, bs) (good (fs, os, opn, bs) S T) (fs_file sc os detect p)
     (gains (fs, os, opn, bs) given S T)"
  unfolding fs_file_def sc
proof (rule tri_opened_file [OF tri_u_open], goal_cases)
  case (1 fd)
  show ?case
  proof (rule tri_bind_keeps [OF tri_stat_from_file], simp, rule tri_sum, goal_cases)
    case (1 st e)
    show ?case by (rule tri_then_close) (use \<open>fd \<notin> T\<close> 1 \<open>fs_use_openat2 fs \<longrightarrow> fd \<notin> S\<close> in \<open>auto intro!: tri_ret\<close>)
  next
    case (2 st s)
    show ?case by (rule tri_ret) (use \<open>fd \<notin> T\<close> \<open>fs_use_openat2 fs \<longrightarrow> fd \<notin> S\<close> in \<open>simp add: gains_def\<close>)
  qed
qed (simp add: tri_ret)

definition handed :: "fx_err + int \<Rightarrow> int set" where
  "handed r = (case r of Inl e \<Rightarrow> {} | Inr fd \<Rightarrow> {fd})"

lemma handed_simps [simp]: "handed (Inl e) = {}" "handed (Inr fd) = {fd}"
  by (simp_all add: handed_def)

lemma handed_set [simp]: "set (case r of Inl e \<Rightarrow> [] | Inr fd \<Rightarrow> [fd]) = handed r"
  by (cases r) simp_all

lemma tri_fileread:
  assumes sc: "sc_fs sc = fs"
  shows "tri (fs, os, opn, bs) (good (fs, os, opn, bs) S T) (fileread sc os detect h rq)
     (gains (fs, os, opn, bs) handed S T)"
  unfolding fileread_def
  by (intro tri_if tri_bind [OF tri_fs_file [OF sc]] tri_ret) (auto simp: gains_def split: sum.split)

lemma tri_filewrite_touch:
  assumes sc: "sc_fs sc = fs"
  shows "tri (fs, os, opn, bs) (good (fs, os, opn, bs) S T) (filewrite_touch sc os h rq p)
     (gains (fs, os, opn, bs) handed S T)"
  unfolding filewrite_touch_def fs_touch_def sc
  by (intro tri_if tri_ret tri_opened_file [OF tri_touch] tri_bind_keeps tri_fs_chown tri_must_log)
    (auto simp: sc gains_def)

lemma tri_space_check:
  "tri (fs, os, opn, bs) (good (fs, os, opn, bs) S T) (has_space_available sc os now True)
     (keeps (fs, os, opn, bs) S T)"
  unfolding has_space_available_def disk_usage_def
  by (auto intro!: tri_bind_keeps tri_ret_keeps tri_asking split: prod.split simp del: gains_empty)

lemma tri_filewrite:
  assumes sc: "sc_fs sc = fs"
  shows "tri (fs, os, opn, bs) (good (fs, os, opn, bs) S T) (filewrite sc os detect now h rq)
     (gains (fs, os, opn, bs) handed S T)"
  unfolding filewrite_def
  by (auto intro!: tri_if tri_ret tri_bind_keeps tri_space_check tri_sum tri_fs_stat [OF sc]
      tri_filewrite_touch [OF sc] split: prod.split simp del: gains_empty) (simp_all add: gains_def)

lemma tri_filecmd:
  assumes sc: "sc_fs sc = fs"
  shows "tri (fs, os, opn, bs) (good (fs, os, opn, bs) S T) (filecmd sc os h rq) (keeps (fs, os, opn, bs) S T)"
proof -
  note keeping = confined_attributes [rule_format] confined_mkdir_all [rule_format]
    confined_rename [rule_format] confined_symlink [rule_format] confined_removals [rule_format]
  have target: "tri (fs, os, opn, bs) (good (fs, os, opn, bs) S T) (chown_target sc os rq)
      (keeps (fs, os, opn, bs) S T)"
    unfolding chown_target_def by (intro tri_bind_keeps tri_fs_chown [OF sc] tri_ret_keeps)
  show ?thesis
    unfolding filecmd_def cmd_setstat_def cmd_rename_def cmd_rmdir_def cmd_mkdir_def cmd_symlink_def cmd_remove_def
      Let_def create_directory_def fs_delete_def sc
    by (intro tri_if tri_bind_keeps tri_option tri_ret_keeps keeping target tri_must_log)
qed

lemma tri_filelist:
  assumes sc: "sc_fs sc = fs"
  shows "tri (fs, os, opn, bs) (good (fs, os, opn, bs) S T) (filelist sc os detect h rq)
     (keeps (fs, os, opn, bs) S T)"
  unfolding filelist_def
  by (intro tri_if tri_bind_keeps tri_ret_keeps tri_read_dir_stat [OF sc] tri_fs_stat [OF sc])

lemma tri_serve:
  assumes sc: "sc_fs sc = fs"
  shows "tri (fs, os, opn, bs) (good (fs, os, opn, bs) S T) (serve sc os detect now h c)
     (gains (fs, os, opn, bs) set S T)"
proof (cases c)
  case (FileGet rq)
  show ?thesis unfolding FileGet serve.simps
    by (rule tri_bind [OF tri_fileread [OF sc]], rule tri_ret) (simp add: gains_def)
next
  case (FilePut rq)
  show ?thesis unfolding FilePut serve.simps
    by (rule tri_bind [OF tri_filewrite [OF sc]], rule tri_ret) (simp add: gains_def)
next
  case (FileCmd rq)
  show ?thesis unfolding FileCmd serve.simps
    by (rule tri_bind_keeps [OF tri_filecmd [OF sc]]) (simp add: tri_ret)
next
  case (FileList rq)
  show ?thesis unfolding FileList serve.simps
    by (rule tri_bind_keeps [OF tri_filelist [OF sc]]) (simp add: tri_ret)
qed

text \<open>Operations that hand out descriptors, one after the other.\<close>

lemma tri_handing_on:
  assumes "tri (fs, os, opn, bs) (good (fs, os, opn, bs) S T) m (gains (fs, os, opn, bs) set S T)"
    and "\<And>S T. tri (fs, os, opn, bs) (good (fs, os, opn, bs) S T) next1 (gains (fs, os, opn, bs) set S T)"
  shows "tri (fs, os, opn, bs) (good (fs, os, opn, bs) S T)
    (ubind m (\<lambda>fds. ubind next1 (\<lambda>rest. uret (rest @ fds)))) (gains (fs, os, opn, bs) set S T)"
proof (rule tri_bind [OF assms(1)], goal_cases)
  case (1 fds)
  show ?case
  proof (rule tri_pre [where P = "good (fs, os, opn, bs) (set fds \<union> S) (set fds \<union> T)"
        and A = "set fds \<inter> T = {} \<and> (fs_use_openat2 fs \<longrightarrow> set fds \<inter> S = {})"], goal_cases)
    case 2
    show ?case
      by (rule tri_bind [OF assms(2)]) (use 2 in \<open>auto intro!: tri_ret simp: gains_def Un_assoc\<close>)
  qed (simp add: gains_def)
qed

lemma tri_serve_all:
  assumes sc: "sc_fs sc = fs"
  shows "tri (fs, os, opn, bs) (good (fs, os, opn, bs) S T) (serve_all sc os detect xs)
     (gains (fs, os, opn, bs) set S T)"
proof (induction xs arbitrary: S T)
  case (Cons x xs)
  obtain now h c where x: "x = (now, h, c)" by (cases x)
  show ?case unfolding x serve_all.simps by (rule tri_handing_on [OF tri_serve [OF sc] Cons])
qed (simp add: tri_ret)

section \<open>Properties\<close>


definition sftp_world :: "(int list \<times> bool) sftpw" where
  "sftp_world = \<lparr>kst = ([0], True), calls = [], q_limit = 100, q_usage = 40, sf_last_lookup = None,
     sf_in_progress = False, sf_hard_links = [], sf_size = 0, sftp_log = []\<rparr>"

definition sftp_user :: sftp_handler where
  "sftp_user = \<lparr>sh_permissions = [''file.read'', ''file.update''], sh_suspended = False, sh_ro = False\<rparr>"

definition rename_rq :: sftp_request where
  "rename_rq = \<lparr>rq_method = ''Setstat'', rq_filepath = ''/a'', rq_target = [], rq_mode = 0x1FF\<rparr>"


text \<open>
  An SFTP session stays in the sandbox. Whatever a user asks for, and whatever the kernel answers,
  every system call that changes something names one component in a directory known to be inside the
  base and follows no link, and what is open after a session is what was open before and the files
  handed out.
\<close>

theorem sftp_confined:
  fixes w :: "('k, 'z) sftpw_scheme"
  assumes "kernel_ok os opn" and "good_base (sc_fs sc) bs" and "calls w = []"
    and "serve_all sc os detect xs w = (r, w')"
  shows "all_allowed (sc_fs sc) (calls w') \<and>
    (fs_use_openat2 (sc_fs sc) \<longrightarrow> (\<forall>fds. r = Some fds \<longrightarrow> opn (kst w') = set fds \<union> opn (kst w)))"
proof -
  have "good (sc_fs sc, os, opn, bs) (opn (kst w)) {} w" using assms(1-3) by (simp add: good.simps)
  from triD [OF tri_serve_all [OF refl] this, of detect xs] show ?thesis
    using assms(4) by (cases r) (auto simp: gains_def good.simps)
qed

theorem sftp_confined_witness:
  "\<exists>r w'. serve_all example_sfs dir_os (\<lambda>s e. Inr s)
       [(0, sftp_user, FileCmd rename_rq), (0, sftp_user, FilePut rename_rq)] sftp_world = (r, w') \<and>
     r = Some [4] \<and> all_allowed example_fs (calls w') \<and> set (fst (kst w')) = {4, 0}"
proof -
  let ?r = "serve_all example_sfs dir_os (\<lambda>s e. Inr s)
       [(0, sftp_user, FileCmd rename_rq), (0, sftp_user, FilePut rename_rq)] sftp_world"
  have "fst ?r = Some [4]" by code_simp
  then obtain w' where r: "?r = (Some [4], w')" by (cases ?r) simp
  have fs: "sc_fs example_sfs = example_fs" "fs_use_openat2 example_fs"
    by (simp_all add: example_sfs_def example_fs_def new_unix_fs_def)
  have "good_base (sc_fs example_sfs) [''srv'', ''x'']" by (simp add: fs example_good_base)
  from sftp_confined [OF dir_os_ok this _ r] fs r show ?thesis
    by (auto simp: sftp_world_def)
qed

end
