(* ===== verification/Tokens.thy ===== *)
theory Tokens
  imports Go_Strings Prelude
begin

text \<open>
  The tokens of \<open>src/router/tokens\<close>: the store that makes a token good for one request only, the
  claims of a websocket token with its permissions and scopes, and the lists by which the panel
  revokes tokens. Checking a signature is a third-party package.
\<close>

section \<open>One-time tokens\<close>

text \<open>
  \<open>TokenStore\<close> keeps the tokens it has seen in a cache of the package \<open>go-cache\<close>, a parameter here:
  whether a key is found at a time, and adding a key for a duration.
\<close>

record 'c token_cache =
  tc_get :: "time \<Rightarrow> string \<Rightarrow> 'c \<Rightarrow> bool"
  tc_add :: "time \<Rightarrow> string \<Rightarrow> duration \<Rightarrow> 'c \<Rightarrow> 'c"

definition token_lifetime :: duration where
  "token_lifetime = 60 * 60 * nanosecond_per_second"

definition is_valid_token :: "'c token_cache \<Rightarrow> time \<Rightarrow> string \<Rightarrow> 'c \<Rightarrow> bool \<times> 'c" where
  "is_valid_token tc now token c =
     (let exists = tc_get tc now token c;
          c1 = (if \<not> exists then tc_add tc now token token_lifetime c else c)
      in (\<not> exists, c1))"

text \<open>The requests of a day: each presents a token at its time.\<close>

fun present :: "'c token_cache \<Rightarrow> (time \<times> string) list \<Rightarrow> 'c \<Rightarrow> bool list" where
  "present tc [] c = []"
| "present tc ((now, token) # xs) c =
     (let (ok, c1) = is_valid_token tc now token c in ok # present tc xs c1)"

text \<open>
  What the package documents: a key that was added is found until its duration has passed, and adding
  one key does not touch another. \<open>Add\<close> does nothing for a key that is still there.
\<close>

definition cache_ok :: "'c token_cache \<Rightarrow> bool" where
  "cache_ok tc \<longleftrightarrow>
     (\<forall>now k d c t. \<not> tc_get tc now k c \<longrightarrow> now \<le> t \<longrightarrow> t \<le> now + d \<longrightarrow> tc_get tc t k (tc_add tc now k d c)) \<and>
     (\<forall>now k d c t k'. k' \<noteq> k \<longrightarrow> tc_get tc t k' (tc_add tc now k d c) = tc_get tc t k' c)"

section \<open>Scopes\<close>

definition scopes :: "string \<Rightarrow> string list" where
  "scopes s = split_char (CHR '' '') s"

fun scope_loop :: "string list \<Rightarrow> string \<Rightarrow> bool" where
  "scope_loop [] scope = False"
| "scope_loop (v # vs) scope = (if v = scope then True else scope_loop vs scope)"

definition has_scope :: "string \<Rightarrow> string \<Rightarrow> bool" where
  "has_scope s scope = scope_loop (scopes s) scope"

definition scope_websocket :: string where "scope_websocket = ''websocket''"
definition scope_file_upload :: string where "scope_file_upload = ''file-upload''"
definition scope_file_download :: string where "scope_file_download = ''file-download''"
definition scope_backup_download :: string where "scope_backup_download = ''backup-download''"
definition scope_server_transfer :: string where "scope_server_transfer = ''transfer''"

section \<open>Websocket tokens\<close>

record websocket_payload =
  wp_issued_at :: "time option"
  wp_expires :: "time option"
  wp_jti :: string
  wp_scope :: string
  wp_user :: string
  wp_server :: string
  wp_permissions :: "string list"

text \<open>The time of the start and the two lists of denials.\<close>

record denials =
  dn_boot :: time
  dn_jti :: "string \<rightharpoonup> time"
  dn_user :: "string \<rightharpoonup> time"

definition user_key :: "string \<Rightarrow> string \<Rightarrow> string" where
  "user_key s u = s @ '':'' @ u"

definition deny_for_server :: "time \<Rightarrow> string \<Rightarrow> string \<Rightarrow> denials \<Rightarrow> denials" where
  "deny_for_server now s u d = d\<lparr>dn_user := (dn_user d)(user_key s u \<mapsto> now)\<rparr>"

definition deny_jti :: "time \<Rightarrow> string \<Rightarrow> denials \<Rightarrow> denials" where
  "deny_jti now jti d = d\<lparr>dn_jti := (dn_jti d)(jti \<mapsto> now)\<rparr>"

definition issued_before :: "time \<Rightarrow> time option \<Rightarrow> bool" where
  "issued_before t denied = (case denied of None \<Rightarrow> False | Some x \<Rightarrow> t < x)"

definition denylisted :: "denials \<Rightarrow> websocket_payload \<Rightarrow> bool" where
  "denylisted d p =
     (case wp_issued_at p of
        None \<Rightarrow> True
      | Some t \<Rightarrow>
          if t < dn_boot d then True
          else if issued_before t (dn_jti d (wp_jti p)) then True
          else if issued_before t (dn_user d (user_key (wp_server p) (wp_user p))) then True
          else False)"

fun permission_loop :: "denials \<Rightarrow> websocket_payload \<Rightarrow> string list \<Rightarrow> string \<Rightarrow> bool" where
  "permission_loop d p [] permission = False"
| "permission_loop d p (k # ks) permission =
     (if k = permission \<or> (\<not> has_prefix permission ''admin'' \<and> k = ''*'') then \<not> denylisted d p
      else permission_loop d p ks permission)"

definition has_permission :: "denials \<Rightarrow> websocket_payload \<Rightarrow> string \<Rightarrow> bool" where
  "has_permission d p permission = permission_loop d p (wp_permissions p) permission"

lemma scope_loop_iff: "scope_loop vs s \<longleftrightarrow> s \<in> set vs"
  by (induction vs) auto

lemma permission_loop_iff:
  "permission_loop d p ks q \<longleftrightarrow>
     \<not> denylisted d p \<and> (q \<in> set ks \<or> (''*'' \<in> set ks \<and> \<not> has_prefix q ''admin''))"
  by (induction ks) auto

section \<open>Denials over time\<close>

datatype denial = DenyUser time string string | DenyJti time string

fun denial_time :: "denial \<Rightarrow> time" where
  "denial_time (DenyUser t s u) = t"
| "denial_time (DenyJti t j) = t"

fun deny :: "denial \<Rightarrow> denials \<Rightarrow> denials" where
  "deny (DenyUser t s u) d = deny_for_server t s u d"
| "deny (DenyJti t j) d = deny_jti t j d"

fun denies :: "denial \<Rightarrow> websocket_payload \<Rightarrow> bool" where
  "denies (DenyUser t s u) p \<longleftrightarrow> s = wp_server p \<and> u = wp_user p"
| "denies (DenyJti t j) p \<longleftrightarrow> j = wp_jti p"

text \<open>What a later denial leaves of an earlier one: the clock does not go back.\<close>

lemma denylisted_deny:
  assumes "denylisted d p" and "\<forall>x. dn_jti d (wp_jti p) = Some x \<longrightarrow> x \<le> denial_time e"
    and "\<forall>x. dn_user d (user_key (wp_server p) (wp_user p)) = Some x \<longrightarrow> x \<le> denial_time e"
  shows "denylisted (deny e d) p"
  using assms
  by (cases e) (auto simp: denylisted_def issued_before_def deny_for_server_def deny_jti_def
      split: option.splits if_splits)

definition older :: "time \<Rightarrow> denials \<Rightarrow> bool" where
  "older t d \<longleftrightarrow> (\<forall>k x. dn_jti d k = Some x \<longrightarrow> x \<le> t) \<and> (\<forall>k x. dn_user d k = Some x \<longrightarrow> x \<le> t)"

lemma older_deny:
  assumes "older t d" and "t \<le> denial_time e"
  shows "older (denial_time e) (deny e d)"
proof -
  have "older (denial_time e) d" using assms unfolding older_def by (meson order_trans)
  then show ?thesis by (cases e) (auto simp: older_def deny_for_server_def deny_jti_def)
qed

lemma denylisted_denials:
  assumes "denylisted d p" and "older t d" and "sorted (t # map denial_time es)"
  shows "denylisted (fold deny es d) p"
  using assms
proof (induction es arbitrary: d t)
  case (Cons e es)
  have "denylisted (deny e d) p"
    by (rule denylisted_deny [OF Cons.prems(1)])
      (use Cons.prems(2,3) in \<open>fastforce simp: older_def\<close>)+
  moreover have "older (denial_time e) (deny e d)"
    using Cons.prems by (intro older_deny [of t]) auto
  ultimately show ?case using Cons.IH [of "deny e d" "denial_time e"] Cons.prems(3) by simp
qed simp

lemma denied_at_once:
  assumes "denies e p" and "wp_issued_at p = Some t" and "t < denial_time e"
  shows "denylisted (deny e d) p"
  using assms by (cases e) (auto simp: denylisted_def issued_before_def deny_for_server_def deny_jti_def)

section \<open>The store over time\<close>

lemma cache_okD:
  assumes "cache_ok tc"
  shows "\<not> tc_get tc now k c \<Longrightarrow> now \<le> t \<Longrightarrow> t \<le> now + d \<Longrightarrow> tc_get tc t k (tc_add tc now k d c)"
    and "k' \<noteq> k \<Longrightarrow> tc_get tc t k' (tc_add tc now k d c) = tc_get tc t k' c"
  using assms by (auto simp: cache_ok_def)

text \<open>A token that is found until a time is refused until then.\<close>

lemma present_found:
  assumes ok: "cache_ok tc" and found: "\<forall>t. now \<le> t \<longrightarrow> t \<le> until \<longrightarrow> tc_get tc t k c"
    and "sorted (now # map fst xs)" and "i < length xs" and "snd (xs ! i) = k" and "present tc xs c ! i"
  shows "until < fst (xs ! i)"
  using assms(2-)
proof (induction xs arbitrary: now c i)
  case (Cons x xs)
  obtain t k' where x: "x = (t, k')" by (cases x)
  have t: "now \<le> t" "sorted (t # map fst xs)" using Cons.prems(2) by (simp_all add: x)
  define c1 where "c1 = snd (is_valid_token tc t k' c)"
  have step: "present tc (x # xs) c = (\<not> tc_get tc t k' c) # present tc xs c1"
    by (simp add: x is_valid_token_def c1_def Let_def)
  show ?case
  proof (cases i)
    case 0
    then have "k' = k" "\<not> tc_get tc t k c" using Cons.prems(4,5) step by (auto simp: x)
    with Cons.prems(1) t show ?thesis using 0 by (auto simp: x not_le [symmetric])
  next
    case (Suc j)
    have keep: "\<forall>u. t \<le> u \<longrightarrow> u \<le> until \<longrightarrow> tc_get tc u k c1"
    proof (intro allI impI)
      fix u assume u: "t \<le> u" "u \<le> until"
      then have "tc_get tc u k c" "tc_get tc t k c" using Cons.prems(1) t by auto
      then show "tc_get tc u k c1"
        by (cases "k' = k") (auto simp: c1_def is_valid_token_def Let_def cache_okD(2) [OF ok])
    qed
    show ?thesis
      using Cons.IH [OF keep t(2), of j] Cons.prems(3-5) step Suc by simp
  qed
qed simp

section \<open>Properties\<close>

text \<open>
  C9: A token serves once. Of two requests with the same token that are both let through, the second
  comes more than an hour after the first, whatever other tokens are presented.
\<close>

theorem one_time_token:
  assumes ok: "cache_ok tc" and "sorted (map fst xs)" and "i < j" and "j < length xs"
    and "snd (xs ! i) = snd (xs ! j)" and "present tc xs c ! i" and "present tc xs c ! j"
  shows "fst (xs ! i) + token_lifetime < fst (xs ! j)"
  using assms(2-)
proof (induction xs arbitrary: c i j)
  case (Cons x xs)
  obtain t k where x: "x = (t, k)" by (cases x)
  define c1 where "c1 = snd (is_valid_token tc t k c)"
  have step: "present tc (x # xs) c = (\<not> tc_get tc t k c) # present tc xs c1"
    by (simp add: x is_valid_token_def c1_def Let_def)
  obtain j' where j: "j = Suc j'" using Cons.prems(2) by (cases j) auto
  show ?case
  proof (cases i)
    case 0
    then have "\<not> tc_get tc t k c" using Cons.prems(5) step by simp
    then have "\<forall>u. t \<le> u \<longrightarrow> u \<le> t + token_lifetime \<longrightarrow> tc_get tc u k c1"
      by (auto simp: c1_def is_valid_token_def Let_def intro: cache_okD(1) [OF ok])
    from present_found [OF ok this, of xs j'] show ?thesis
      using Cons.prems step j 0 by (simp add: x)
  next
    case (Suc i')
    then show ?thesis using Cons.IH [of i' j' c1] Cons.prems step j by (simp add: x)
  qed
qed simp

definition map_cache :: "(string \<rightharpoonup> time) token_cache" where
  "map_cache =
     \<lparr>tc_get = (\<lambda>now k c. case c k of None \<Rightarrow> False | Some e \<Rightarrow> now \<le> e),
      tc_add = (\<lambda>now k d c. c(k \<mapsto> now + d))\<rparr>"

lemma map_cache_ok: "cache_ok map_cache"
  by (auto simp: cache_ok_def map_cache_def)

theorem one_time_token_witness:
  "present map_cache [(0, ''a''), (5, ''b''), (7, ''a''), (token_lifetime + 1, ''a'')] (\<lambda>_. None) =
     [True, True, False, True] \<and> (0 :: int) + token_lifetime < token_lifetime + 1"
proof -
  let ?xs = "[(0, ''a''), (5, ''b''), (7, ''a''), (token_lifetime + 1, ''a'')]"
  have run: "present map_cache ?xs (\<lambda>_. None) = [True, True, False, True]"
    by (simp add: is_valid_token_def map_cache_def token_lifetime_def nanosecond_per_second_def)
  have "sorted (map fst ?xs)" by (simp add: token_lifetime_def nanosecond_per_second_def)
  from one_time_token [OF map_cache_ok this, of 0 3 "\<lambda>_. None"] run show ?thesis by simp
qed

text \<open>
  Revocation is final. Once the panel has denied a user's tokens for a server, or a token's
  identifier, no token issued before has any permission again, whatever else is denied later.
\<close>

theorem revoked_for_good:
  assumes "denies e p" and "wp_issued_at p = Some t" and "t < denial_time e"
    and "older (denial_time e) d" and "sorted (denial_time e # map denial_time es)"
  shows "\<not> has_permission (fold deny es (deny e d)) p permission"
proof -
  have "older (denial_time e) (deny e d)" by (rule older_deny [OF assms(4)]) simp
  from denylisted_denials [OF denied_at_once [OF assms(1-3)] this assms(5)]
  show ?thesis by (simp add: has_permission_def permission_loop_iff)
qed

theorem revoked_for_good_witness:
  "let p = \<lparr>wp_issued_at = Some 5, wp_expires = None, wp_jti = ''j'', wp_scope = ''websocket'', wp_user = ''u'',
            wp_server = ''s'', wp_permissions = [''*'']\<rparr>;
       d = \<lparr>dn_boot = 1, dn_jti = (\<lambda>_. None), dn_user = (\<lambda>_. None)\<rparr>
   in has_permission d p ''control.console'' \<and>
      \<not> has_permission (fold deny [DenyJti 9 ''k''] (deny (DenyUser 7 ''s'' ''u'') d)) p ''control.console''"
  unfolding Let_def
  by (rule conjI, code_simp, rule revoked_for_good [where t = 5]) (simp_all add: older_def)

end
