(* ===== verification/Process_Env.thy ===== *)
theory Process_Env
  imports Go_Strings
begin

text \<open>
  The contract between a server and the environment its process runs in
  (\<open>src/environment/environment.go\<close>), and the error values that travel between the layers. The
  operations of the Go interface \<open>ProcessEnvironment\<close> that the server's own logic calls are the
  fields of \<open>env_ops\<close>, functions on a state \<open>'w\<close> of the environment; the laws the server
  relies on are the locale \<open>process_env\<close>, discharged for Docker in \<open>Docker_Power\<close>.
\<close>

section \<open>Errors\<close>

text \<open>
  A Go error: a sentinel, one of the causes the code asks for (\<open>client.IsErrNotFound\<close>,
  \<open>context.DeadlineExceeded\<close>, \<open>context.Canceled\<close>), some other failure, or an error wrapped with a
  message. \<open>errors.Is\<close> and \<open>errors.As\<close> look through wrappers; a stack trace adds nothing here.
\<close>

datatype gerr =
    Sentinel string
  | ErrNotFound
  | ErrDeadline
  | ErrCanceled
  | ErrOther string
  | ErrWrap string gerr

fun err_cause :: "gerr \<Rightarrow> gerr" where
  "err_cause (ErrWrap s e) = err_cause e"
| "err_cause e = e"

definition is_not_found :: "gerr \<Rightarrow> bool" where
  "is_not_found e \<longleftrightarrow> err_cause e = ErrNotFound"

definition is_deadline :: "gerr \<Rightarrow> bool" where
  "is_deadline e \<longleftrightarrow> err_cause e = ErrDeadline"

definition is_canceled :: "gerr \<Rightarrow> bool" where
  "is_canceled e \<longleftrightarrow> err_cause e = ErrCanceled"

definition wrap_opt :: "string \<Rightarrow> gerr option \<Rightarrow> gerr option" where
  "wrap_opt msg = map_option (ErrWrap msg)"

lemma wrap_opt_None_iff [simp]: "wrap_opt msg e = None \<longleftrightarrow> e = None"
  by (simp add: wrap_opt_def)

lemma wrap_opt_simps [simp]: "wrap_opt msg None = None" "wrap_opt msg (Some e) = Some (ErrWrap msg e)"
  by (simp_all add: wrap_opt_def)

lemma cause_wrap [simp]:
  "is_not_found (ErrWrap s e) = is_not_found e"
  "is_deadline (ErrWrap s e) = is_deadline e"
  "is_canceled (ErrWrap s e) = is_canceled e"
  by (simp_all add: is_not_found_def is_deadline_def is_canceled_def)

lemma cause_simps [simp]:
  "is_not_found ErrNotFound" "\<not> is_not_found ErrDeadline" "\<not> is_not_found (ErrOther s)"
  "\<not> is_not_found (Sentinel s)" "\<not> is_not_found ErrCanceled"
  "is_deadline ErrDeadline" "\<not> is_deadline ErrNotFound" "\<not> is_deadline (ErrOther s)"
  by (simp_all add: is_not_found_def is_deadline_def)

section \<open>Actions\<close>

text \<open>
  An action runs on a state and ends with an error, with none, or with a panic; the state is kept
  in every case, since deferred calls see it. \<open>seq\<close> is the statement
  \<open>if err := a(); err != nil { return err }\<close> followed by the rest of the function.
\<close>

type_synonym outcome = "gerr option go"
type_synonym 's action = "'s \<Rightarrow> outcome \<times> 's"

definition seq :: "outcome \<times> 's \<Rightarrow> 's action \<Rightarrow> outcome \<times> 's" where
  "seq p f = (if fst p = Ret None then f (snd p) else p)"

definition wrapping :: "string \<Rightarrow> outcome \<times> 's \<Rightarrow> outcome \<times> 's" where
  "wrapping msg p = (case fst p of Ret e \<Rightarrow> (Ret (wrap_opt msg e), snd p) | _ \<Rightarrow> p)"

lemma seq_simps [simp]:
  "seq (Ret None, s) f = f s" "seq (Ret (Some e), s) f = (Ret (Some e), s)"
  "seq (Panic m, s) f = (Panic m, s)" "seq (Block, s) f = (Block, s)"
  by (simp_all add: seq_def)

lemma wrapping_simps [simp]:
  "wrapping msg (Ret e, s) = (Ret (wrap_opt msg e), s)" "wrapping msg (Panic m, s) = (Panic m, s)"
  "wrapping msg (Block, s) = (Block, s)"
  by (simp_all add: wrapping_def)

lemma seq_ok_iff: "seq p f = (Ret None, s) \<longleftrightarrow> fst p = Ret None \<and> f (snd p) = (Ret None, s)"
  by (auto simp: seq_def)

lemma snd_wrapping [simp]: "snd (wrapping msg p) = snd p"
  by (cases p) (simp add: wrapping_def split: go.split)

lemma fst_wrapping_ok [simp]: "fst (wrapping msg p) = Ret None \<longleftrightarrow> fst p = Ret None"
  by (cases p) (simp add: wrapping_def split: go.split)

lemma wrapping_ok_iff: "wrapping msg p = (Ret None, s) \<longleftrightarrow> p = (Ret None, s)"
  by (metis fst_conv fst_wrapping_ok prod.collapse snd_conv snd_wrapping)

lemma seq_inv:
  "P (snd p) \<Longrightarrow> (fst p = Ret None \<Longrightarrow> P (snd (f (snd p)))) \<Longrightarrow> P (snd (seq p f))"
  by (simp add: seq_def)

section \<open>Process states\<close>

datatype proc_state = Offline | Starting | Running | Stopping

text \<open>
  The environment keeps its state as a string; \<open>SetState\<close> panics on any other than these four, so
  the type holds exactly the values the field can have.
\<close>

fun proc_state_string :: "proc_state \<Rightarrow> string" where
  "proc_state_string Offline = ''offline''"
| "proc_state_string Starting = ''starting''"
| "proc_state_string Running = ''running''"
| "proc_state_string Stopping = ''stopping''"

definition parse_proc_state :: "string \<Rightarrow> proc_state option" where
  "parse_proc_state s =
     (if s = ''offline'' then Some Offline else if s = ''starting'' then Some Starting
      else if s = ''running'' then Some Running else if s = ''stopping'' then Some Stopping
      else None)"

lemma parse_proc_state_string [simp]: "parse_proc_state (proc_state_string s) = Some s"
  by (cases s) (simp_all add: parse_proc_state_def)

lemma parse_proc_state_Some: "parse_proc_state str = Some s \<Longrightarrow> str = proc_state_string s"
  by (auto simp: parse_proc_state_def split: if_splits)

definition active :: "proc_state \<Rightarrow> bool" where
  "active s \<longleftrightarrow> s = Running \<or> s = Starting"

text \<open>
  The transition that the server takes for a crash (\<open>OnStateChange\<close>): from a state in which the
  process was up, directly to offline.
\<close>

definition crash_edge :: "proc_state \<Rightarrow> proc_state \<Rightarrow> bool" where
  "crash_edge prev cur \<longleftrightarrow> (prev = Starting \<or> prev = Running) \<and> cur = Offline"

fun crash_free :: "proc_state \<Rightarrow> proc_state list \<Rightarrow> bool" where
  "crash_free s [] = True"
| "crash_free s (t # ts) = (\<not> crash_edge s t \<and> crash_free t ts)"

lemma crash_free_append:
  "crash_free s (ts @ us) \<longleftrightarrow> crash_free s ts \<and> crash_free (last (s # ts)) us"
  by (induction ts arbitrary: s) auto

section \<open>The interface\<close>

record 'w env_ops =
  eo_state :: "'w \<Rightarrow> proc_state"
  eo_set_state :: "proc_state \<Rightarrow> 'w \<Rightarrow> 'w"
  eo_start :: "'w action"
  eo_wait_for_stop :: "duration \<Rightarrow> bool \<Rightarrow> 'w action"
  eo_terminate :: "string \<Rightarrow> 'w action"
  eo_exit_state :: "'w \<Rightarrow> (gerr + (nat \<times> bool)) \<times> 'w"

text \<open>
  What the server relies on: setting a state sets it, a start that succeeds leaves the process
  up, a termination that succeeds leaves it offline, and asking for the exit state changes no
  state.
\<close>

locale process_env =
  fixes ops :: "'w env_ops"
    and envok :: "'w \<Rightarrow> bool"
  assumes set_state: "envok w \<Longrightarrow> eo_state ops (eo_set_state ops s w) = s"
    and start_up: "envok w \<Longrightarrow> eo_start ops w = (Ret None, w') \<Longrightarrow> active (eo_state ops w')"
    and terminate_offline:
      "envok w \<Longrightarrow> eo_terminate ops sig w = (Ret None, w') \<Longrightarrow> eo_state ops w' = Offline"
    and exit_state_pure: "envok w \<Longrightarrow> eo_state ops (snd (eo_exit_state ops w)) = eo_state ops w"
    and ok_set_state: "envok w \<Longrightarrow> envok (eo_set_state ops s w)"
    and ok_start: "envok w \<Longrightarrow> envok (snd (eo_start ops w))"
    and ok_wait: "envok w \<Longrightarrow> envok (snd (eo_wait_for_stop ops d b w))"
    and ok_terminate: "envok w \<Longrightarrow> envok (snd (eo_terminate ops sig w))"
    and ok_exit: "envok w \<Longrightarrow> envok (snd (eo_exit_state ops w))"
begin

lemma start_not_offline:
  "envok w \<Longrightarrow> eo_start ops w = (Ret None, w') \<Longrightarrow> eo_state ops w' \<noteq> Offline"
  using start_up by (fastforce simp: active_def)

end

end
