(* ===== verification/Server_Power.thy ===== *)
theory Server_Power
  imports Process_Env Sync_Primitives
begin

text \<open>
  A server's power handling: \<open>src/server/power.go\<close>, crash detection (\<open>crash.go\<close>, \<open>OnStateChange\<close> of
  \<open>server.go\<close>), the console throttle (\<open>console.go\<close>) and the event listeners (\<open>listeners.go\<close>). The
  environment is any implementation \<open>'w env_ops\<close> of its interface; the panel, the filesystem and the
  configuration parser, which the pre-boot steps call, are the fields of \<open>boot_deps\<close>. What the server
  publishes on its bus is kept in \<open>sv_events\<close>; console lines are kept without their colours.
\<close>

section \<open>State\<close>

datatype server_event =
    SeConsole string | SeStatus proc_state | SeStats | SeInstallOutput string
  | SeInstallStarted | SeInstallCompleted | SeDaemonMessage string
  | SeTransferStatus string | SeTransferLogs string | SeDeleted

record usage =
  us_memory :: int
  us_cpu :: int
  us_uptime :: int
  us_rx :: int
  us_tx :: int

record srv_cfg =
  sf_suspended :: bool
  sf_crash_detection :: bool
  sf_disk_mb :: int

record 'w server =
  sv_installing :: bool
  sv_transferring :: bool
  sv_restoring :: bool
  sv_power_lock :: locker
  sv_cfg :: srv_cfg
  sv_last_crash :: "time option"
  sv_tracked :: proc_state
  sv_usage :: usage
  sv_sockets_cancelled :: nat
  sv_events :: "server_event list"
  sv_env :: 'w

definition err_is_running :: gerr where "err_is_running = Sentinel ''server is running''"
definition err_suspended :: gerr where "err_suspended = Sentinel ''server is currently in a suspended state''"
definition err_installing :: gerr where "err_installing = Sentinel ''server is currently installing''"
definition err_transferring :: gerr where "err_transferring = Sentinel ''server is currently being transferred''"
definition err_restoring :: gerr where "err_restoring = Sentinel ''server is currently being restored''"
definition err_too_frequent :: gerr where
  "err_too_frequent = Sentinel ''server has crashed too soon after the last detected crash''"
definition err_does_not_exist :: gerr where
  "err_does_not_exist = Sentinel ''server does not exist on remote system''"
definition err_lock_gerr :: gerr where "err_lock_gerr = Sentinel ''locker: cannot acquire lock, already locked''"

definition is_too_frequent :: "gerr \<Rightarrow> bool" where
  "is_too_frequent e \<longleftrightarrow> e = err_too_frequent"

definition is_running :: "'w env_ops \<Rightarrow> 'w server \<Rightarrow> bool" where
  "is_running ops s = (eo_state ops (sv_env s) = Running \<or> eo_state ops (sv_env s) = Starting)"

definition emit :: "server_event \<Rightarrow> 'w server \<Rightarrow> 'w server" where
  "emit v s = s\<lparr>sv_events := sv_events s @ [v]\<rparr>"

definition console :: "string \<Rightarrow> 'w server \<Rightarrow> 'w server" where
  "console msg = emit (SeConsole msg)"

text \<open>An operation of the environment, run on the environment of the server.\<close>

definition on_env :: "'w action \<Rightarrow> 'w server action" where
  "on_env f s = (fst (f (sv_env s)), s\<lparr>sv_env := snd (f (sv_env s))\<rparr>)"

section \<open>Before the boot\<close>

text \<open>The panel's answer: an error with the HTTP status if it has one, or the new settings.\<close>

datatype fetch_error = FetchStatus nat gerr | FetchOther gerr

record 'w boot_deps =
  bd_fetch :: "'w \<Rightarrow> (fetch_error + srv_cfg) \<times> 'w"
  bd_set_disk_limit :: "int \<Rightarrow> 'w \<Rightarrow> 'w"
  bd_sync_env :: "srv_cfg \<Rightarrow> 'w \<Rightarrow> 'w"
  bd_has_space_available :: "bool \<Rightarrow> 'w \<Rightarrow> bool \<times> 'w"
  bd_has_space_err :: "bool \<Rightarrow> 'w \<Rightarrow> gerr option \<times> 'w"
  bd_update_files :: "'w \<Rightarrow> 'w"
  bd_check_permissions :: bool
  bd_chown :: "'w \<Rightarrow> gerr option \<times> 'w"

definition disk_space :: "'w server \<Rightarrow> int" where
  "disk_space s = wrap64 (sf_disk_mb (sv_cfg s) * 1024 * 1024)"

definition map_env :: "('w \<Rightarrow> 'w) \<Rightarrow> 'w server \<Rightarrow> 'w server" where
  "map_env f s = s\<lparr>sv_env := f (sv_env s)\<rparr>"

definition sync :: "'w boot_deps \<Rightarrow> 'w server action" where
  "sync d s =
     (let r = bd_fetch d (sv_env s); s0 = s\<lparr>sv_env := snd r\<rparr> in
      case fst r of
        Inl (FetchStatus code e) \<Rightarrow>
          (Ret (Some (if code = 404 then err_does_not_exist else e)), s0)
      | Inl (FetchOther e) \<Rightarrow> (Ret (Some e), s0)
      | Inr c \<Rightarrow>
          (let s1 = s0\<lparr>sv_cfg := c\<rparr>;
               s2 = map_env (bd_set_disk_limit d (disk_space s1)) s1;
               s3 = map_env (bd_sync_env d c) s2
           in (Ret None, if sf_suspended c then s3\<lparr>sv_sockets_cancelled := Suc (sv_sockets_cancelled s3)\<rparr> else s3)))"

definition check_disk :: "'w boot_deps \<Rightarrow> 'w server action" where
  "check_disk d s =
     (if disk_space s \<le> 0 then (Ret None, map_env (\<lambda>w. snd (bd_has_space_available d True w)) s)
      else on_env (\<lambda>w. (Ret (fst (bd_has_space_err d False w)), snd (bd_has_space_err d False w)))
             (console ''Checking server disk space usage, this could take a few seconds...'' s))"

definition check_permissions :: "'w boot_deps \<Rightarrow> 'w server action" where
  "check_permissions d s =
     (if \<not> bd_check_permissions d then (Ret None, s)
      else wrapping ''failed to chown root server directory during pre-boot process''
        (on_env (\<lambda>w. (Ret (fst (bd_chown d w)), snd (bd_chown d w)))
          (console ''Ensuring file permissions are set correctly, this could take a few seconds...'' s)))"

definition server_before_start :: "'w boot_deps \<Rightarrow> 'w server action" where
  "server_before_start d s =
     seq (wrapping ''unable to sync server data from Panel instance'' (sync d s))
       (\<lambda>s1. if sf_suspended (sv_cfg s1) then (Ret (Some err_suspended), s1)
         else seq (check_disk d (map_env (bd_sync_env d (sv_cfg s1)) s1))
           (\<lambda>s2. check_permissions d
             (map_env (bd_update_files d) (console ''Updating process configuration files...'' s2))))"

section \<open>Power actions\<close>

definition power_valid :: "string \<Rightarrow> bool" where
  "power_valid pa \<longleftrightarrow> pa = ''start'' \<or> pa = ''stop'' \<or> pa = ''kill'' \<or> pa = ''restart''"

definition power_is_start :: "string \<Rightarrow> bool" where
  "power_is_start pa \<longleftrightarrow> pa = ''start'' \<or> pa = ''restart''"

definition minutes :: "int \<Rightarrow> duration" where "minutes n = n * 60 * nanosecond_per_second"

text \<open>
  \<open>HandlePowerAction\<close> in its three stretches: \<open>power_enter\<close> up to the lock, with the flag whether
  the deferred release is armed, \<open>power_body\<close>, and \<open>power_leave\<close>, the deferred calls, which run on
  a panic as well. \<open>pick\<close> and \<open>ctx\<close> are the choices of \<open>TryAcquire\<close>.
\<close>

definition power_enter ::
  "string \<Rightarrow> int \<Rightarrow> bool \<Rightarrow> ctx_error option option \<Rightarrow> 'w server \<Rightarrow> (outcome + bool) \<times> 'w server" where
  "power_enter action wait pick ctx s =
     (if sv_installing s \<or> sv_transferring s \<or> sv_restoring s then
        (Inl (Ret (Some (if sv_restoring s then err_restoring
                         else if sv_transferring s then err_transferring else err_installing))), s)
      else if action \<noteq> ''kill'' then
        (if 0 < wait then
           (case try_acquire pick ctx (sv_power_lock s) of
              Ret (None, l) \<Rightarrow> (Inr True, s\<lparr>sv_power_lock := l\<rparr>)
            | Ret (Some e, l) \<Rightarrow>
                (Inl (Ret (Some (ErrWrap (''could not acquire lock on power action after '' @ itoa wait @ '' seconds'')
                   err_lock_gerr))), s\<lparr>sv_power_lock := l\<rparr>)
            | Panic m \<Rightarrow> (Inl (Panic m), s)
            | Block \<Rightarrow> (Inl Block, s))
         else
           (case acquire (sv_power_lock s) of
              Ret (None, l) \<Rightarrow> (Inr True, s\<lparr>sv_power_lock := l\<rparr>)
            | Ret (Some e, l) \<Rightarrow>
                (Inl (Ret (Some (ErrWrap ''failed to acquire exclusive lock for power actions'' err_lock_gerr))),
                 s\<lparr>sv_power_lock := l\<rparr>)
            | Panic m \<Rightarrow> (Inl (Panic m), s)
            | Block \<Rightarrow> (Inl Block, s)))
      else
        (case acquire (sv_power_lock s) of
           Ret (None, l) \<Rightarrow> (Inr True, s\<lparr>sv_power_lock := l\<rparr>)
         | Ret (Some e, l) \<Rightarrow> (Inr False, s\<lparr>sv_power_lock := l\<rparr>)
         | Panic m \<Rightarrow> (Inl (Panic m), s)
         | Block \<Rightarrow> (Inl Block, s)))"

definition boot :: "'w env_ops \<Rightarrow> 'w boot_deps \<Rightarrow> 'w server action" where
  "boot ops d s = seq (server_before_start d s) (on_env (eo_start ops))"

definition power_body :: "'w env_ops \<Rightarrow> 'w boot_deps \<Rightarrow> string \<Rightarrow> 'w server action" where
  "power_body ops d action s =
     (if action = ''start'' then
        (if eo_state ops (sv_env s) \<noteq> Offline then (Ret (Some err_is_running), s) else boot ops d s)
      else if action = ''stop'' \<or> action = ''restart'' then
        seq (on_env (eo_wait_for_stop ops (minutes 10) True) s)
          (\<lambda>s1. if action = ''stop'' then (Ret None, s1) else boot ops d s1)
      else if action = ''kill'' then on_env (eo_terminate ops ''SIGKILL'') s
      else (Ret (Some (ErrOther ''attempting to handle unknown power action'')), s))"

definition power_leave :: "bool \<Rightarrow> 'w server \<Rightarrow> 'w server" where
  "power_leave holds s = (if holds then s\<lparr>sv_power_lock := release (sv_power_lock s)\<rparr> else s)"

definition handle_power_action ::
  "'w env_ops \<Rightarrow> 'w boot_deps \<Rightarrow> string \<Rightarrow> int \<Rightarrow> bool \<Rightarrow> ctx_error option option \<Rightarrow> 'w server action" where
  "handle_power_action ops d action wait pick ctx s =
     (case power_enter action wait pick ctx s of
        (Inl r, s1) \<Rightarrow> (r, s1)
      | (Inr holds, s1) \<Rightarrow>
          (let p = power_body ops d action s1 in (fst p, power_leave holds (snd p))))"

definition executing_power_action :: "'w server \<Rightarrow> bool" where
  "executing_power_action s = is_locked (sv_power_lock s)"

section \<open>Crashes\<close>

record crash_cfg =
  cc_detect_clean_exit :: bool
  cc_timeout :: int

text \<open>
  \<open>None\<close> is the zero time of a server that never crashed. \<open>now\<close> and \<open>now'\<close> are the two readings of the
  clock. The decision is separate from the restart it leads to.
\<close>

datatype crash_decision = CrashReturn "gerr option" | CrashRestart

definition crash_report :: "nat \<Rightarrow> bool \<Rightarrow> 'w server \<Rightarrow> 'w server" where
  "crash_report code oom s =
     console (''Out of memory: '' @ (if oom then ''true'' else ''false''))
       (console (''Exit code: '' @ itoa (int code))
         (console ''---------- Detected server process in a crashed state! ----------'' s))"

definition crash_recent :: "crash_cfg \<Rightarrow> time \<Rightarrow> time option \<Rightarrow> bool" where
  "crash_recent cc now lc =
     (case lc of
        None \<Rightarrow> False
      | Some c \<Rightarrow> cc_timeout cc \<noteq> 0 \<and> now < c + nanosecond_per_second * cc_timeout cc)"

definition crash_decide ::
  "'w env_ops \<Rightarrow> crash_cfg \<Rightarrow> time \<Rightarrow> 'w server \<Rightarrow> crash_decision \<times> 'w server" where
  "crash_decide ops cc now s =
     (if eo_state ops (sv_env s) \<noteq> Offline \<or> \<not> sf_crash_detection (sv_cfg s) then
        (CrashReturn None,
         if \<not> sf_crash_detection (sv_cfg s)
         then console ''Aborting automatic restart, crash detection is disabled for this instance.'' s else s)
      else
        (let r = eo_exit_state ops (sv_env s); s1 = s\<lparr>sv_env := snd r\<rparr> in
         case fst r of
           Inl e \<Rightarrow> (CrashReturn (Some (ErrWrap ''failed to get exit state for server process'' e)), s1)
         | Inr (code, oom) \<Rightarrow>
             if code = 0 \<and> \<not> oom \<and> \<not> cc_detect_clean_exit cc then (CrashReturn None, s1)
             else
               (let s2 = crash_report code oom s1 in
                if crash_recent cc now (sv_last_crash s2) then
                  (CrashReturn (Some err_too_frequent),
                   console (''Aborting automatic restart, last crash occurred less than '' @ itoa (cc_timeout cc)
                            @ '' seconds ago.'') s2)
                else (CrashRestart, s2))))"

definition handle_server_crash ::
  "'w env_ops \<Rightarrow> 'w boot_deps \<Rightarrow> crash_cfg \<Rightarrow> time \<Rightarrow> time \<Rightarrow> 'w server action" where
  "handle_server_crash ops d cc now now' s =
     (case crash_decide ops cc now s of
        (CrashReturn e, s1) \<Rightarrow> (Ret e, s1)
      | (CrashRestart, s1) \<Rightarrow>
          wrapping ''failed to start server after crash detection''
            (handle_power_action ops d ''start'' 0 True None (s1\<lparr>sv_last_crash := Some now'\<rparr>)))"

text \<open>
  \<open>OnStateChange\<close> reads the environment's state three times; \<open>st\<close>, \<open>st2\<close> and \<open>st3\<close> are what it reads.
  The flag says whether the crash handler is started, in a goroutine of its own (\<open>crash_goroutine\<close>).
\<close>

definition reset_usage :: "usage \<Rightarrow> usage" where
  "reset_usage u = u\<lparr>us_memory := 0, us_cpu := 0, us_uptime := 0, us_tx := 0, us_rx := 0\<rparr>"

definition on_state_change :: "proc_state \<Rightarrow> proc_state \<Rightarrow> proc_state \<Rightarrow> 'w server \<Rightarrow> bool \<times> 'w server" where
  "on_state_change st st2 st3 s =
     (let prev = sv_tracked s;
          s1 = s\<lparr>sv_tracked := st\<rparr>;
          s2 = (if prev \<noteq> st2 then emit (SeStatus st) s1 else s1);
          s3 = (if st = Offline then emit SeStats (s2\<lparr>sv_usage := reset_usage (sv_usage s2)\<rparr>) else s2)
      in ((prev = Starting \<or> prev = Running) \<and> st3 = Offline, s3))"

definition crash_goroutine ::
  "'w env_ops \<Rightarrow> 'w boot_deps \<Rightarrow> crash_cfg \<Rightarrow> time \<Rightarrow> time \<Rightarrow> 'w server \<Rightarrow> 'w server" where
  "crash_goroutine ops d cc now now' s =
     (let p = handle_server_crash ops d cc now now' s in
      case fst p of
        Ret (Some e) \<Rightarrow>
          (if is_too_frequent e then snd p
           else console ''Server crash was detected but an error occurred while handling it.'' (snd p))
      | _ \<Rightarrow> snd p)"

section \<open>Console throttle\<close>

record console_throttle =
  ct_limit :: rate
  ct_lock :: locker
  ct_strikes :: nat

definition new_console_throttle :: "time \<Rightarrow> 64 word \<Rightarrow> duration \<Rightarrow> console_throttle" where
  "new_console_throttle now lns period =
     \<lparr>ct_limit = new_rate now lns period, ct_lock = new_locker, ct_strikes = 0\<rparr>"

definition allow :: "time \<Rightarrow> console_throttle \<Rightarrow> bool \<times> console_throttle" where
  "allow now ct =
     (let r = rate_try now (ct_limit ct); ct1 = ct\<lparr>ct_limit := snd r\<rparr> in
      if \<not> fst r then
        (let a = acquire_bool (ct_lock ct1); ct2 = ct1\<lparr>ct_lock := snd a\<rparr>
         in (False, if fst a then ct2\<lparr>ct_strikes := Suc (ct_strikes ct2)\<rparr> else ct2))
      else (True, ct1\<lparr>ct_lock := release (ct_lock ct1)\<rparr>))"

definition throttle_reset :: "time \<Rightarrow> console_throttle \<Rightarrow> console_throttle" where
  "throttle_reset now ct = ct\<lparr>ct_limit := rate_reset now (ct_limit ct)\<rparr>"

section \<open>Listeners\<close>

definition limiter_trigger :: "'w env_ops \<Rightarrow> bool \<Rightarrow> 'w server \<Rightarrow> bool \<times> 'w server" where
  "limiter_trigger ops fired s =
     (if fired then (True, s)
      else (True, snd (on_env (eo_wait_for_stop ops (minutes 1) True)
             (console ''Server is exceeding the assigned disk space limit, stopping process now.'' s))))"

definition limiter_reset :: "bool \<Rightarrow> bool" where "limiter_reset fired = False"

definition process_console_output ::
  "time \<Rightarrow> 'v \<Rightarrow> console_throttle \<times> 'v list \<Rightarrow> console_throttle \<times> 'v list" where
  "process_console_output now v s =
     (let p = allow now (fst s) in (snd p, if fst p then snd s @ [v] else snd s))"

text \<open>
  The panel's process configuration: whether colours are stripped (\<open>strip\<close> is the regular
  expression's replacement), the matchers of the lines that end the start-up, the stop command.
\<close>

record proc_cfg =
  pc_strip_ansi :: bool
  pc_done :: "(string \<Rightarrow> bool) list"
  pc_stop_type :: string
  pc_stop_value :: string

definition on_console_output ::
  "'w env_ops \<Rightarrow> (string \<Rightarrow> string) \<Rightarrow> proc_cfg \<Rightarrow> string \<Rightarrow> 'w server \<Rightarrow> 'w server" where
  "on_console_output ops strip pc data s =
     (if eo_state ops (sv_env s) \<noteq> Starting \<and> \<not> is_running ops s then s
      else
        (let starting = (eo_state ops (sv_env s) = Starting);
             v = (if starting \<and> pc_strip_ansi pc then strip data else data);
             s1 = (if starting \<and> list_ex (\<lambda>m. m v) (pc_done pc)
                   then map_env (eo_set_state ops Running) s else s)
         in if is_running ops s1 \<and> pc_stop_type pc = ''command'' \<and> v = pc_stop_value pc
            then map_env (eo_set_state ops Offline) s1 else s1))"

datatype env_topic =
    TopicResource usage bool
  | TopicState proc_state proc_state proc_state proc_state
  | TopicPullStatus string
  | TopicPullStarted
  | TopicPullCompleted
  | TopicOther

text \<open>
  One event of the environment's bus: resource figures with the verdict of the disk check, a state
  change with its data and the three states read while it is handled, or an image pull. The result's
  flag is that of \<open>on_state_change\<close>.
\<close>

record 'w listener =
  ln_server :: "'w server"
  ln_limiter_fired :: bool
  ln_throttle :: console_throttle

definition on_env_event ::
  "'w env_ops \<Rightarrow> time \<Rightarrow> env_topic \<Rightarrow> 'w listener \<Rightarrow> bool \<times> 'w listener" where
  "on_env_event ops now topic l =
     (case topic of
        TopicResource u has_space \<Rightarrow>
          (let s1 = (ln_server l)\<lparr>sv_usage := u\<rparr>;
               q = (if \<not> has_space then limiter_trigger ops (ln_limiter_fired l) s1
                    else (ln_limiter_fired l, s1))
           in (False, l\<lparr>ln_server := emit SeStats (snd q), ln_limiter_fired := fst q\<rparr>))
      | TopicState dat st st2 st3 \<Rightarrow>
          (let l1 = (if dat = Starting
                     then l\<lparr>ln_limiter_fired := limiter_reset (ln_limiter_fired l),
                            ln_throttle := throttle_reset now (ln_throttle l)\<rparr> else l);
               r = on_state_change st st2 st3 (ln_server l1)
           in (fst r, l1\<lparr>ln_server := snd r\<rparr>))
      | TopicPullStatus m \<Rightarrow> (False, l\<lparr>ln_server := emit (SeInstallOutput m) (ln_server l)\<rparr>)
      | TopicPullStarted \<Rightarrow>
          (False, l\<lparr>ln_server := console
             ''Pulling Docker container image, this could take a few minutes to complete...'' (ln_server l)\<rparr>)
      | TopicPullCompleted \<Rightarrow>
          (False, l\<lparr>ln_server := console ''Finished pulling Docker container image'' (ln_server l)\<rparr>)
      | TopicOther \<Rightarrow> (False, l))"

section \<open>Frame\<close>

text \<open>What the server's own fields keep while the environment and the panel are called.\<close>

definition kept :: "'w server \<Rightarrow> 'w server \<Rightarrow> bool" where
  "kept s s' \<longleftrightarrow> sv_power_lock s' = sv_power_lock s \<and> sv_last_crash s' = sv_last_crash s
     \<and> sv_tracked s' = sv_tracked s \<and> sv_installing s' = sv_installing s
     \<and> sv_transferring s' = sv_transferring s \<and> sv_restoring s' = sv_restoring s"

lemma kept_refl [simp]: "kept s s"
  by (simp add: kept_def)

lemma kept_trans: "kept s s1 \<Longrightarrow> kept s1 s2 \<Longrightarrow> kept s s2"
  by (simp add: kept_def)

lemma kept_prims [simp]:
  "kept s (emit v s)" "kept s (console m s)" "kept s (map_env f s)" "kept s (s\<lparr>sv_cfg := c\<rparr>)"
  "kept s (snd (on_env g s))" "kept s (s\<lparr>sv_env := w\<rparr>)" "kept s (s\<lparr>sv_sockets_cancelled := n\<rparr>)"
  by (simp_all add: kept_def emit_def console_def map_env_def on_env_def)

definition keeping :: "'w server action \<Rightarrow> bool" where
  "keeping f \<longleftrightarrow> (\<forall>s. kept s (snd (f s)))"

lemma keepingI: "(\<And>s. kept s (snd (f s))) \<Longrightarrow> keeping f"
  by (simp add: keeping_def)

lemma keepingD: "keeping f \<Longrightarrow> kept s (snd (f s))"
  by (simp add: keeping_def)

lemma keeping_seq: "keeping f \<Longrightarrow> keeping g \<Longrightarrow> keeping (\<lambda>s. seq (f s) g)"
  by (auto simp: keeping_def seq_def intro: kept_trans)

lemma keeping_wrapping: "keeping f \<Longrightarrow> keeping (\<lambda>s. wrapping m (f s))"
  by (simp add: keeping_def)

lemma keeping_comp: "keeping f \<Longrightarrow> (\<And>s. kept s (g s)) \<Longrightarrow> keeping (\<lambda>s. f (g s))"
  unfolding keeping_def using kept_trans by blast

lemma keeping_on_env: "keeping (on_env f)"
  by (simp add: keeping_def)

lemma kept_console_trans: "kept s (map_env f (console m s))"
  by (rule kept_trans [of _ "console m s"]) simp_all

lemma keeping_sync: "keeping (sync d)"
  by (rule keepingI) (simp add: sync_def Let_def kept_def map_env_def split: sum.split fetch_error.split)

lemma keeping_check_disk: "keeping (check_disk d)"
  by (rule keepingI) (auto simp: check_disk_def intro: kept_trans [OF kept_prims(2) kept_prims(5)])

lemma keeping_check_permissions: "keeping (check_permissions d)"
  by (rule keepingI) (auto simp: check_permissions_def intro: kept_trans [OF kept_prims(2) kept_prims(5)])

lemma keeping_before_start: "keeping (server_before_start d)"
proof -
  have disk: "keeping (\<lambda>s. check_disk d (map_env (bd_sync_env d (sv_cfg s)) s))"
    by (rule keeping_comp [OF keeping_check_disk]) simp
  have perm: "keeping (\<lambda>s. check_permissions d (map_env (bd_update_files d) (console m s)))" for m
    by (rule keeping_comp [OF keeping_check_permissions kept_console_trans])
  have "kept s (snd (if sf_suspended (sv_cfg s) then (Ret (Some err_suspended), s)
      else seq (check_disk d (map_env (bd_sync_env d (sv_cfg s)) s))
        (\<lambda>s2. check_permissions d (map_env (bd_update_files d) (console m s2)))))" for s m
    using keepingD [OF keeping_seq [OF disk perm]] by simp
  then show ?thesis
    unfolding server_before_start_def
    by (intro keeping_seq keeping_wrapping keeping_sync keepingI)
qed

lemma keeping_boot: "keeping (boot ops d)"
  unfolding boot_def by (intro keeping_seq keeping_before_start keeping_on_env)

lemma keeping_power_body: "keeping (power_body ops d action)"
proof (rule keepingI)
  fix s
  have "keeping (\<lambda>s. seq (on_env (eo_wait_for_stop ops (minutes 10) True) s) (boot ops d))"
    by (intro keeping_seq keeping_on_env keeping_boot)
  moreover have "keeping (\<lambda>s. seq (on_env (eo_wait_for_stop ops (minutes 10) True) s) (\<lambda>s1. (Ret None, s1)))"
    by (intro keeping_seq keeping_on_env keepingI) simp
  ultimately show "kept s (snd (power_body ops d action s))"
    by (simp add: power_body_def keeping_def keepingD [OF keeping_boot])
qed

section \<open>The power lock\<close>

text \<open>A context made by \<open>WithTimeout\<close> is live, or done with one of these two errors.\<close>

definition timeout_ctx :: "ctx_error option option \<Rightarrow> bool" where
  "timeout_ctx ctx \<longleftrightarrow> ctx = None \<or> ctx = Some (Some DeadlineExceeded) \<or> ctx = Some (Some Canceled)"

lemma try_acquire_refused:
  "try_acquire pick ctx l = Ret (Some e, l') \<Longrightarrow> l' = l"
  by (auto simp: try_acquire_def Let_def split: option.splits if_splits)

lemma power_enter_spec:
  assumes live: "locker_live (sv_power_lock s)" and ctx: "timeout_ctx ctx"
    and step: "power_enter action wait pick ctx s = (r, s')"
  shows "kept (s'\<lparr>sv_power_lock := sv_power_lock s\<rparr>) s \<and> sv_env s' = sv_env s
       \<and> (r = Inr True \<longrightarrow> \<not> is_locked (sv_power_lock s) \<and> sv_power_lock s' = (sv_power_lock s)\<lparr>lk_buf := 1\<rparr>)
       \<and> (r \<noteq> Inr True \<longrightarrow> s' = s)
       \<and> (r = Inr False \<longrightarrow> action = ''kill'' \<and> is_locked (sv_power_lock s))"
proof -
  have upd: "s\<lparr>sv_power_lock := sv_power_lock s\<rparr> = s" by simp
  consider "sv_installing s \<or> sv_transferring s \<or> sv_restoring s"
    | "\<not> (sv_installing s \<or> sv_transferring s \<or> sv_restoring s)" "action \<noteq> ''kill''" "0 < wait"
    | "\<not> (sv_installing s \<or> sv_transferring s \<or> sv_restoring s)" "action = ''kill'' \<or> \<not> 0 < wait"
    by blast
  then show ?thesis
  proof cases
    case 1
    then show ?thesis using step upd by (auto simp: power_enter_def)
  next
    case 2
    show ?thesis
    proof (cases "try_acquire pick ctx (sv_power_lock s)")
      case (Ret q)
      obtain e l where q: "q = (e, l)" by (cases q)
      show ?thesis
      proof (cases e)
        case None
        then have "\<not> is_locked (sv_power_lock s) \<and> l = (sv_power_lock s)\<lparr>lk_buf := 1\<rparr>"
          using try_acquire_success [OF live, of pick ctx l] Ret q ctx by (auto simp: timeout_ctx_def)
        then show ?thesis using 2 None Ret q step by (auto simp: power_enter_def kept_def)
      next
        case (Some x)
        then have "l = sv_power_lock s" using try_acquire_refused Ret q by blast
        then show ?thesis using 2 Some Ret q step upd by (auto simp: power_enter_def)
      qed
    qed (use 2 step upd in \<open>auto simp: power_enter_def\<close>)
  next
    case 3
    then show ?thesis
      using step upd acquire_live [OF live] by (auto simp: power_enter_def kept_def split: if_splits)
  qed
qed

section \<open>Concurrent power actions\<close>

text \<open>
  Any number of goroutines call \<open>HandlePowerAction\<close> on one server. \<open>T t\<close> is the action that goroutine
  \<open>t\<close> is in the body of, and whether its deferred release is armed; between the entry and the release
  anything may happen to the server but to its lock.
\<close>

type_synonym 'w power_sys = "'w server \<times> (nat \<rightharpoonup> string \<times> bool)"

inductive power_step :: "'w power_sys \<Rightarrow> 'w power_sys \<Rightarrow> bool" where
  enter: "T t = None \<Longrightarrow> timeout_ctx ctx \<Longrightarrow> power_enter a wait pick ctx s = (Inr h, s') \<Longrightarrow>
     power_step (s, T) (s', T(t \<mapsto> (a, h)))"
| refuse: "timeout_ctx ctx \<Longrightarrow> power_enter a wait pick ctx s = (Inl r, s') \<Longrightarrow> power_step (s, T) (s', T)"
| work: "sv_power_lock s' = sv_power_lock s \<Longrightarrow> power_step (s, T) (s', T)"
| leave: "T t = Some (a, h) \<Longrightarrow> power_step (s, T) (power_leave h s, T(t := None))"

inductive power_reach :: "'w server \<Rightarrow> 'w power_sys \<Rightarrow> bool" for s0 where
  init: "power_reach s0 (s0, Map.empty)"
| step: "power_reach s0 x \<Longrightarrow> power_step x y \<Longrightarrow> power_reach s0 y"

definition power_inv :: "'w power_sys \<Rightarrow> bool" where
  "power_inv x \<longleftrightarrow> (case x of (s, T) \<Rightarrow>
     locker_live (sv_power_lock s)
   \<and> (\<forall>t a h. T t = Some (a, h) \<longrightarrow> a \<noteq> ''kill'' \<longrightarrow> h)
   \<and> (\<forall>t u a b. T t = Some (a, True) \<longrightarrow> T u = Some (b, True) \<longrightarrow> t = u)
   \<and> (is_locked (sv_power_lock s) \<longleftrightarrow> (\<exists>t a. T t = Some (a, True))))"

lemma power_inv_lock:
  assumes "sv_power_lock s' = sv_power_lock s" and "power_inv (s, T)"
  shows "power_inv (s', T)"
  using assms(2) unfolding power_inv_def prod.case assms(1) .

lemma power_inv_enter:
  assumes "power_inv (s, T)" "T t = None" "timeout_ctx ctx" "power_enter a wait pick ctx s = (Inr h, s')"
  shows "power_inv (s', T(t \<mapsto> (a, h)))"
proof -
  have live: "locker_live (sv_power_lock s)" using assms(1) by (simp add: power_inv_def)
  note spec = power_enter_spec [OF live assms(3,4)]
  show ?thesis
  proof (cases h)
    case True
    with spec have "\<not> is_locked (sv_power_lock s)" "sv_power_lock s' = (sv_power_lock s)\<lparr>lk_buf := 1\<rparr>" by simp_all
    then show ?thesis
      using True assms(1,2) by (auto simp: power_inv_def locker_live_def is_locked_def)
  next
    case False
    with spec have "s' = s" "a = ''kill''" by simp_all
    moreover have "(\<exists>u b. T u = Some (b, True)) \<longleftrightarrow> (\<exists>u b. (T(t \<mapsto> (a, False))) u = Some (b, True))"
      using assms(2) by (metis (no_types, lifting) fun_upd_apply option.inject option.distinct(1) prod.inject)
    ultimately show ?thesis
      using False assms(1,2) by (simp add: power_inv_def) blast
  qed
qed

lemma power_inv_leave:
  assumes "power_inv (s, T)" "T t = Some (a, h)"
  shows "power_inv (power_leave h s, T(t := None))"
proof -
  have live: "locker_live (sv_power_lock s)" using assms(1) by (simp add: power_inv_def)
  show ?thesis
  proof (cases h)
    case True
    have "\<not> is_locked (release (sv_power_lock s))" by (rule lk.rel_free [OF live])
    moreover have "locker_live (release (sv_power_lock s))" by (rule lk.good_rel [OF live])
    ultimately show ?thesis
      using True assms by (auto simp: power_inv_def power_leave_def)
  next
    case False
    have "(\<exists>u b. T u = Some (b, True)) \<longleftrightarrow> (\<exists>u b. (T(t := None)) u = Some (b, True))"
      using assms(2) False by (metis (no_types, lifting) fun_upd_apply option.inject option.distinct(1) prod.inject)
    then show ?thesis
      using False assms by (simp add: power_inv_def power_leave_def) blast
  qed
qed

lemma power_inv_reach:
  assumes "power_reach s0 x" and "locker_live (sv_power_lock s0)" and "\<not> is_locked (sv_power_lock s0)"
  shows "power_inv x"
  using assms(1)
proof (induction rule: power_reach.induct)
  case init
  then show ?case using assms(2,3) by (simp add: power_inv_def)
next
  case (step x y)
  obtain s T where x: "x = (s, T)" by (cases x)
  with step.IH have inv: "power_inv (s, T)" by simp
  then have live: "locker_live (sv_power_lock s)" by (simp add: power_inv_def)
  from step.hyps(2) [unfolded x] show ?case
  proof (cases rule: power_step.cases)
    case (enter t ctx a wait pick h s')
    then show ?thesis using power_inv_enter [OF inv, of t ctx a wait pick h s'] by simp
  next
    case (refuse ctx a wait pick r s')
    then show ?thesis using power_enter_spec [OF live refuse(2,3)] inv by simp
  next
    case (work s')
    then show ?thesis using power_inv_lock [OF _ inv] by simp
  next
    case (leave t a h)
    then show ?thesis using power_inv_leave [OF inv, of t a h] by simp
  qed
qed

section \<open>What an action achieves, by the environment's contract\<close>

lemma on_env_Ret: "on_env f s = (r, s') \<Longrightarrow> f (sv_env s) = (r, sv_env s')"
  by (auto simp: on_env_def)

context process_env
begin

lemma boot_up:
  assumes env: "\<And>w. envok w" and "boot ops d s = (Ret None, s')"
  shows "active (eo_state ops (sv_env s'))"
  using start_up [OF env on_env_Ret] assms(2) by (auto simp: boot_def seq_ok_iff)

lemma power_success:
  assumes env: "\<And>w. envok w"
    and "handle_power_action ops d action wait pick ctx s = (Ret None, s')"
  shows "(action = ''start'' \<or> action = ''restart'' \<longrightarrow> active (eo_state ops (sv_env s')))
       \<and> (action = ''kill'' \<longrightarrow> eo_state ops (sv_env s') = Offline)"
proof -
  obtain r s1 where e: "power_enter action wait pick ctx s = (r, s1)" by (cases "power_enter action wait pick ctx s")
  have "r \<noteq> Inl (Ret None)"
    using e by (auto simp: power_enter_def split: if_splits go.splits option.splits prod.splits)
  then obtain holds where r: "r = Inr holds"
    using assms(2) e by (cases r) (auto simp: handle_power_action_def)
  obtain s2 where b: "power_body ops d action s1 = (Ret None, s2)" and "sv_env s' = sv_env s2"
    using assms(2) by (cases "power_body ops d action s1")
      (auto simp: handle_power_action_def e r Let_def power_leave_def split: if_splits)
  moreover have "active (eo_state ops (sv_env s2))" if "action = ''start'' \<or> action = ''restart''"
    using that b boot_up [OF env] by (auto simp: power_body_def seq_ok_iff split: if_splits)
  moreover have "eo_state ops (sv_env s2) = Offline" if "action = ''kill''"
    using that b terminate_offline [OF env on_env_Ret] by (auto simp: power_body_def split: if_splits)
  ultimately show ?thesis by simp
qed

end

section \<open>Automatic restarts\<close>

lemma kept_handle_power_action:
  "sv_last_crash (snd (handle_power_action ops d action wait pick ctx s)) = sv_last_crash s"
proof -
  have e: "sv_last_crash (snd (power_enter action wait pick ctx s)) = sv_last_crash s"
    by (simp add: power_enter_def split: go.split prod.split option.split)
  have b: "sv_last_crash (snd (power_body ops d action x)) = sv_last_crash x" for x
    using keepingD [OF keeping_power_body, of x ops d action] by (simp add: kept_def)
  show ?thesis
    using e by (cases "power_enter action wait pick ctx s")
      (auto simp: handle_power_action_def b power_leave_def Let_def split: sum.split)
qed

lemma crash_decide_last: "sv_last_crash (snd (crash_decide ops cc now s)) = sv_last_crash s"
  by (simp add: crash_decide_def Let_def console_def emit_def crash_report_def
      split: sum.split prod.split)

lemma crash_restart_old:
  assumes "crash_decide ops cc now s = (CrashRestart, s1)" and "sv_last_crash s = Some c" and "cc_timeout cc \<noteq> 0"
  shows "c + nanosecond_per_second * cc_timeout cc \<le> now"
  using assms
  by (auto simp: crash_decide_def Let_def console_def emit_def crash_report_def crash_recent_def
      split: sum.splits prod.splits if_splits)

lemma crash_restart_records:
  assumes "crash_decide ops cc now s = (CrashRestart, s1)"
  shows "sv_last_crash (snd (handle_server_crash ops d cc now now' s)) = Some now'"
  using assms by (simp add: handle_server_crash_def kept_handle_power_action)

text \<open>
  A history of the server: crash handlings, each between two readings of the clock, and anything else
  that leaves the time of the last crash alone. The list holds the times of the automatic restarts,
  the latest first.
\<close>

inductive crash_hist ::
  "'w env_ops \<Rightarrow> 'w boot_deps \<Rightarrow> crash_cfg \<Rightarrow> 'w server \<Rightarrow> time \<Rightarrow> time list \<Rightarrow> bool" for ops d cc where
  init: "crash_hist ops d cc s t []"
| other: "crash_hist ops d cc s t rs \<Longrightarrow> sv_last_crash s' = sv_last_crash s \<Longrightarrow> t \<le> t' \<Longrightarrow>
     crash_hist ops d cc s' t' rs"
| restart: "crash_hist ops d cc s t rs \<Longrightarrow> t \<le> now \<Longrightarrow> now \<le> now' \<Longrightarrow>
     crash_decide ops cc now s = (CrashRestart, s1) \<Longrightarrow>
     crash_hist ops d cc (snd (handle_server_crash ops d cc now now' s)) now' (now' # rs)"
| aborted: "crash_hist ops d cc s t rs \<Longrightarrow> t \<le> now \<Longrightarrow> crash_decide ops cc now s = (CrashReturn e, s1) \<Longrightarrow>
     crash_hist ops d cc (snd (handle_server_crash ops d cc now now' s)) now rs"

lemma crash_hist_spaced:
  assumes "crash_hist ops d cc s t rs" and "0 < cc_timeout cc"
  shows "(rs \<noteq> [] \<longrightarrow> sv_last_crash s = Some (hd rs))
       \<and> sorted_wrt (\<lambda>b a. a + nanosecond_per_second * cc_timeout cc \<le> b) rs"
  using assms(1)
proof (induction rule: crash_hist.induct)
  case (restart s t rs now now' s1)
  have "a + nanosecond_per_second * cc_timeout cc \<le> now'" if "a \<in> set rs" for a
  proof -
    have "rs \<noteq> []" using that by auto
    then obtain c cs where rs: "rs = c # cs" by (cases rs) auto
    then have c: "c + nanosecond_per_second * cc_timeout cc \<le> now"
      using crash_restart_old [OF restart.hyps(4)] restart.IH assms(2) by auto
    have "0 < nanosecond_per_second * cc_timeout cc"
      using assms(2) by (simp add: nanosecond_per_second_def)
    then have "a \<le> c" using restart.IH rs that by fastforce
    with c restart.hyps(3) show ?thesis by linarith
  qed
  with restart.IH crash_restart_records [OF restart.hyps(4)] show ?case by simp
next
  case (aborted s t rs now e s1 now')
  have "sv_last_crash s1 = sv_last_crash s"
    using crash_decide_last [of ops cc now s] aborted.hyps(3) by simp
  with aborted.IH aborted.hyps(3) show ?case by (simp add: handle_server_crash_def)
qed simp_all

section \<open>Throttling\<close>

fun throttle_run :: "console_throttle \<Rightarrow> time list \<Rightarrow> (bool \<times> bool) list" where
  "throttle_run ct [] = []"
| "throttle_run ct (t # ts) =
     (let p = allow t ct in (fst p, ct_strikes (snd p) \<noteq> ct_strikes ct) # throttle_run (snd p) ts)"

text \<open>A line strikes if it is refused and the line before it was not.\<close>

fun strike_pattern :: "bool \<Rightarrow> bool list \<Rightarrow> bool list" where
  "strike_pattern prev [] = []"
| "strike_pattern prev (a # as) = (\<not> a \<and> prev) # strike_pattern a as"

lemma throttle_run_pattern:
  "locker_live (ct_lock ct) \<Longrightarrow>
   List.map snd (throttle_run ct ts)
     = strike_pattern (\<not> is_locked (ct_lock ct)) (List.map fst (throttle_run ct ts))"
proof (induction ts arbitrary: ct)
  case (Cons t ts)
  let ?ct = "snd (allow t ct)"
  have acq: "fst (acquire_bool (ct_lock ct)) \<longleftrightarrow> \<not> is_locked (ct_lock ct)" by (rule lk.acq_iff [OF Cons.prems])
  have live: "locker_live (ct_lock ?ct)"
    using lk.good_acq [OF Cons.prems] lk.good_rel [OF Cons.prems] by (simp add: allow_def Let_def)
  have "is_locked (ct_lock ?ct) \<longleftrightarrow> \<not> fst (allow t ct)"
    using lk.acq_locks [OF Cons.prems] lk.rel_free [OF Cons.prems] by (simp add: allow_def Let_def)
  moreover have "ct_strikes ?ct \<noteq> ct_strikes ct \<longleftrightarrow> \<not> fst (allow t ct) \<and> \<not> is_locked (ct_lock ct)"
    using acq by (simp add: allow_def Let_def)
  ultimately show ?case
    using Cons.IH [OF live] by (simp add: Let_def)
qed simp

section \<open>Properties\<close>



definition quiet_server :: "'w \<Rightarrow> 'w server" where
  "quiet_server w =
     \<lparr>sv_installing = False, sv_transferring = False, sv_restoring = False, sv_power_lock = new_locker,
      sv_cfg = \<lparr>sf_suspended = False, sf_crash_detection = True, sf_disk_mb = 0\<rparr>, sv_last_crash = None,
      sv_tracked = Offline, sv_usage = \<lparr>us_memory = 0, us_cpu = 0, us_uptime = 0, us_rx = 0, us_tx = 0\<rparr>,
      sv_sockets_cancelled = 0, sv_events = [], sv_env = w\<rparr>"

text \<open>A panel and a filesystem without surprises, for the concrete runs.\<close>

definition calm_deps :: "'w boot_deps" where
  "calm_deps =
     \<lparr>bd_fetch = (\<lambda>w. (Inr \<lparr>sf_suspended = False, sf_crash_detection = True, sf_disk_mb = 0\<rparr>, w)),
      bd_set_disk_limit = (\<lambda>_ w. w), bd_sync_env = (\<lambda>_ w. w), bd_has_space_available = (\<lambda>_ w. (True, w)),
      bd_has_space_err = (\<lambda>_ w. (None, w)), bd_update_files = (\<lambda>w. w), bd_check_permissions = False,
      bd_chown = (\<lambda>w. (None, w))\<rparr>"

definition dead_ops :: "unit env_ops" where
  "dead_ops = \<lparr>eo_state = (\<lambda>_. Offline), eo_set_state = (\<lambda>_ w. w), eo_start = (\<lambda>w. (Ret None, w)),
     eo_wait_for_stop = (\<lambda>_ _ w. (Ret None, w)), eo_terminate = (\<lambda>_ w. (Ret None, w)),
     eo_exit_state = (\<lambda>w. (Inr (1, False), w))\<rparr>"


text \<open>
  C7: Power actions exclude each other. In every reachable state, however the goroutines interleave, at
  most one of them is in the body of an action other than kill, and \<open>ExecutingPowerAction\<close> says exactly
  whether some goroutine, a kill included, is to release the lock.
\<close>

theorem power_mutual_exclusion:
  assumes "power_reach s0 (s, T)" and "locker_live (sv_power_lock s0)" and "\<not> is_locked (sv_power_lock s0)"
  shows "(\<forall>t u a b h k. T t = Some (a, h) \<longrightarrow> T u = Some (b, k) \<longrightarrow> a \<noteq> ''kill'' \<longrightarrow> b \<noteq> ''kill'' \<longrightarrow> t = u)
       \<and> (executing_power_action s \<longleftrightarrow> (\<exists>t a. T t = Some (a, True)))"
proof -
  have "\<And>t a h. T t = Some (a, h) \<Longrightarrow> a \<noteq> ''kill'' \<Longrightarrow> h"
    and "\<And>t u a b. T t = Some (a, True) \<Longrightarrow> T u = Some (b, True) \<Longrightarrow> t = u"
    and "is_locked (sv_power_lock s) \<longleftrightarrow> (\<exists>t a. T t = Some (a, True))"
    using power_inv_reach [OF assms] unfolding power_inv_def prod.case by blast+
  then show ?thesis unfolding executing_power_action_def by (metis (full_types))
qed

theorem power_mutual_exclusion_witness:
  "\<exists>s T. power_reach (quiet_server ()) (s, T) \<and> T 0 = Some (''start'', True)
     \<and> T 1 = Some (''kill'', False) \<and> executing_power_action s"
proof -
  let ?s = "(quiet_server ())\<lparr>sv_power_lock := \<lparr>lk_buf = 1, lk_closed = False\<rparr>\<rparr>"
  let ?T = "[0 \<mapsto> (''start'', True), 1 \<mapsto> (''kill'', False)] :: nat \<rightharpoonup> string \<times> bool"
  have "power_step (quiet_server (), Map.empty) (?s, [0 \<mapsto> (''start'', True)])"
    by (rule power_step.enter [where ctx = None and wait = 0 and pick = True])
       (simp_all add: timeout_ctx_def power_enter_def quiet_server_def acquire_def new_locker_def)
  moreover have "power_step (?s, [0 \<mapsto> (''start'', True)]) (?s, ?T)"
    by (rule power_step.enter [where ctx = None and wait = 0 and pick = True])
       (simp_all add: timeout_ctx_def power_enter_def quiet_server_def acquire_def new_locker_def)
  ultimately have reach: "power_reach (quiet_server ()) (?s, ?T)"
    by (rule power_reach.step [OF power_reach.step [OF power_reach.init]])
  have "locker_live (sv_power_lock (quiet_server ()))" "\<not> is_locked (sv_power_lock (quiet_server ()))"
    by (simp_all add: quiet_server_def locker_live_new is_locked_def) (simp add: new_locker_def)
  from power_mutual_exclusion [OF reach this]
  have "executing_power_action ?s \<longleftrightarrow> (\<exists>t a. ?T t = Some (a, True))" by (rule conjunct2)
  moreover have "\<exists>t a. ?T t = Some (a, True)" by (rule exI [of _ 0], rule exI [of _ "''start''"]) simp
  ultimately show ?thesis
    using reach by - (rule exI [of _ ?s], rule exI [of _ ?T], simp)
qed

text \<open>
  C26: Automatic restarts are spaced. With a positive crash timeout, in any history of a server any two
  restarts by the crash handler are at least the timeout apart, whatever happens in between.
\<close>

theorem crash_restarts_spaced:
  assumes "crash_hist ops d cc s t rs" and "0 < cc_timeout cc"
  shows "sorted_wrt (\<lambda>b a. a + nanosecond_per_second * cc_timeout cc \<le> b) rs"
  using crash_hist_spaced [OF assms] by blast

theorem crash_restarts_spaced_witness:
  "\<exists>s rs. crash_hist dead_ops calm_deps \<lparr>cc_detect_clean_exit = False, cc_timeout = 60\<rparr> s 5 rs \<and> rs = [5]
     \<and> sorted_wrt (\<lambda>b a. a + nanosecond_per_second * 60 \<le> b) rs"
proof -
  let ?cc = "\<lparr>cc_detect_clean_exit = False, cc_timeout = 60\<rparr>"
  have "\<exists>s1. crash_decide dead_ops ?cc 5 (quiet_server ()) = (CrashRestart, s1)"
    by (simp add: crash_decide_def dead_ops_def quiet_server_def crash_recent_def crash_report_def console_def
        emit_def Let_def)
  then obtain s1 where "crash_decide dead_ops ?cc 5 (quiet_server ()) = (CrashRestart, s1)" by blast
  from crash_hist.restart [OF crash_hist.init _ _ this, of 5 5 calm_deps]
  have h: "crash_hist dead_ops calm_deps ?cc (snd (handle_server_crash dead_ops calm_deps ?cc 5 5 (quiet_server ()))) 5 [5]" by simp
  from crash_restarts_spaced [OF this] h show ?thesis by auto
qed

text \<open>
  One warning per burst. A console throttle warns at a refused line exactly if the line before it was
  let through (or there was none), for every sequence of lines and every clock.
\<close>

theorem throttle_warns_once:
  "List.map snd (throttle_run (new_console_throttle now lns period) ts)
     = strike_pattern True (List.map fst (throttle_run (new_console_throttle now lns period) ts))"
  using throttle_run_pattern [of "new_console_throttle now lns period" ts]
  by (simp add: new_console_throttle_def locker_live_new) (simp add: new_locker_def is_locked_def)

end
