(* ===== verification/Websocket.thy ===== *)
theory Websocket
  imports Tokens Server_Power
begin

text \<open>
  The websocket of a server, \<open>src/router/websocket\<close> and \<open>src/router/router_server_ws.go\<close>: when a
  connection's token is good, what an inbound message may do with the server, which messages go out,
  and the loop that reads them. The connection holds the server of \<open>Server_Power\<close>.
\<close>

section \<open>Messages and errors\<close>

record ws_message =
  ws_event :: string
  ws_args :: "string list"

definition message :: "string \<Rightarrow> string list \<Rightarrow> ws_message" where
  "message e args = \<lparr>ws_event = e, ws_args = args\<rparr>"

definition authentication_success_event :: string where "authentication_success_event = ''auth success''"
definition token_expiring_event :: string where "token_expiring_event = ''token expiring''"
definition token_expired_event :: string where "token_expired_event = ''token expired''"
definition authentication_event :: string where "authentication_event = ''auth''"
definition set_state_event :: string where "set_state_event = ''set state''"
definition send_server_logs_event :: string where "send_server_logs_event = ''send logs''"
definition send_command_event :: string where "send_command_event = ''send command''"
definition send_stats_event :: string where "send_stats_event = ''send stats''"
definition error_event :: string where "error_event = ''daemon error''"
definition jwt_error_event :: string where "jwt_error_event = ''jwt error''"
definition throttled_event :: string where "throttled_event = ''throttled''"

definition status_event :: string where "status_event = ''status''"
definition stats_event :: string where "stats_event = ''stats''"
definition console_output_event :: string where "console_output_event = ''console output''"
definition install_output_event :: string where "install_output_event = ''install output''"
definition backup_completed_event :: string where "backup_completed_event = ''backup completed''"
definition transfer_logs_event :: string where "transfer_logs_event = ''transfer logs''"

definition permission_connect :: string where "permission_connect = ''websocket.connect''"
definition permission_send_command :: string where "permission_send_command = ''control.console''"
definition permission_send_power_start :: string where "permission_send_power_start = ''control.start''"
definition permission_send_power_stop :: string where "permission_send_power_stop = ''control.stop''"
definition permission_send_power_restart :: string where "permission_send_power_restart = ''control.restart''"
definition permission_receive_errors :: string where "permission_receive_errors = ''admin.websocket.errors''"
definition permission_receive_install :: string where "permission_receive_install = ''admin.websocket.install''"
definition permission_receive_transfer :: string where "permission_receive_transfer = ''admin.websocket.transfer''"
definition permission_receive_backups :: string where "permission_receive_backups = ''backup.read''"

datatype ws_err =
    ErrJwtNotPresent | ErrJwtNoConnectPerm | ErrJwtUuidMismatch | ErrJwtOnDenylist | ErrJwtExpired
  | ErrVerify string | ErrServer gerr

fun is_jwt_error :: "ws_err \<Rightarrow> bool" where
  "is_jwt_error ErrJwtNotPresent = True"
| "is_jwt_error ErrJwtNoConnectPerm = True"
| "is_jwt_error ErrJwtUuidMismatch = True"
| "is_jwt_error ErrJwtOnDenylist = True"
| "is_jwt_error ErrJwtExpired = True"
| "is_jwt_error e = False"

section \<open>The connection\<close>

text \<open>
  What surrounds a connection while it handles one message: the operations of the server's environment,
  the token package (verification, and the expiry check at the current time), the lists of denials, and
  what writing to the connection answers. \<open>wd_attached\<close> is \<open>None\<close> for an environment other than Docker.
\<close>

datatype write_result = WriteOk | WriteCloseSent | WriteErr string

record 'w ws_deps =
  wd_ops :: "'w env_ops"
  wd_boot :: "'w boot_deps"
  wd_running :: "'w \<Rightarrow> bool \<times> 'w"
  wd_readlog :: "'w \<Rightarrow> (gerr + string list) \<times> 'w"
  wd_send_command :: "string \<Rightarrow> 'w action"
  wd_attached :: "'w \<Rightarrow> bool option"
  wd_has_space :: "'w \<Rightarrow> 'w"
  wd_stats_json :: "'w server \<Rightarrow> string"
  wd_verify :: "string \<Rightarrow> ws_err + websocket_payload"
  wd_unexpired :: "websocket_payload \<Rightarrow> bool"
  wd_denials :: denials
  wd_write :: "ws_message \<Rightarrow> write_result"
  wd_uuid :: string
  wd_error_text :: "gerr \<Rightarrow> string"
  wd_expired_text :: string

record 'w ws_conn =
  wc_jwt :: "websocket_payload option"
  wc_user :: string
  wc_server_id :: string
  wc_server :: "'w server"
  wc_sent :: "ws_message list"
  wc_activity :: "(string \<times> string \<times> string) list"
  wc_listening :: bool

fun ws_err_text :: "'w ws_deps \<Rightarrow> ws_err \<Rightarrow> string" where
  "ws_err_text d ErrJwtNotPresent = ''jwt: no jwt present''"
| "ws_err_text d ErrJwtNoConnectPerm = ''jwt: missing connect permission''"
| "ws_err_text d ErrJwtUuidMismatch = ''jwt: server uuid mismatch''"
| "ws_err_text d ErrJwtOnDenylist = ''jwt: created too far in past (denylist)''"
| "ws_err_text d ErrJwtExpired = wd_expired_text d"
| "ws_err_text d (ErrVerify s) = s"
| "ws_err_text d (ErrServer e) = wd_error_text d e"

definition unsafe_send_json :: "'w ws_deps \<Rightarrow> ws_message \<Rightarrow> 'w ws_conn \<Rightarrow> write_result \<times> 'w ws_conn" where
  "unsafe_send_json d v c = (wd_write d v, c\<lparr>wc_sent := wc_sent c @ [v]\<rparr>)"

definition may :: "'w ws_deps \<Rightarrow> websocket_payload \<Rightarrow> string \<Rightarrow> bool" where
  "may d j permission = has_permission (wd_denials d) j permission"

definition new_token_payload :: "'w ws_deps \<Rightarrow> string \<Rightarrow> ws_err + websocket_payload" where
  "new_token_payload d token =
     (case wd_verify d token of
        Inl e \<Rightarrow> Inl e
      | Inr p \<Rightarrow>
          if denylisted (wd_denials d) p then Inl ErrJwtOnDenylist
          else if \<not> may d p permission_connect \<or> \<not> has_scope (wp_scope p) scope_websocket
          then Inl ErrJwtNoConnectPerm
          else Inr p)"

definition token_valid :: "'w ws_deps \<Rightarrow> 'w ws_conn \<Rightarrow> ws_err option" where
  "token_valid d c =
     (case wc_jwt c of
        None \<Rightarrow> Some ErrJwtNotPresent
      | Some j \<Rightarrow>
          if \<not> wd_unexpired d j then Some ErrJwtExpired
          else if denylisted (wd_denials d) j then Some ErrJwtOnDenylist
          else if \<not> may d j permission_connect \<or> \<not> has_scope (wp_scope j) scope_websocket
          then Some ErrJwtNoConnectPerm
          else if wc_server_id c \<noteq> wp_server j then Some ErrJwtUuidMismatch
          else None)"

text \<open>The messages that need a permission of their own.\<close>

definition withheld :: "'w ws_deps \<Rightarrow> websocket_payload \<Rightarrow> string \<Rightarrow> bool" where
  "withheld d j e =
     (if e = install_output_event \<and> \<not> may d j permission_receive_install then True
      else if has_prefix e backup_completed_event \<and> \<not> may d j permission_receive_backups then True
      else if e = transfer_logs_event \<and> \<not> may d j permission_receive_transfer then True
      else False)"

definition send_json :: "'w ws_deps \<Rightarrow> ws_message \<Rightarrow> 'w ws_conn \<Rightarrow> string option \<times> 'w ws_conn" where
  "send_json d v c =
     (case token_valid d c of
        Some e \<Rightarrow> (None, snd (unsafe_send_json d (message jwt_error_event [ws_err_text d e]) c))
      | None \<Rightarrow>
          if (case wc_jwt c of None \<Rightarrow> False | Some j \<Rightarrow> withheld d j (ws_event v)) then (None, c)
          else (case unsafe_send_json d v c of
                  (WriteOk, c1) \<Rightarrow> (None, c1)
                | (WriteCloseSent, c1) \<Rightarrow> (None, c1)
                | (WriteErr s, c1) \<Rightarrow> (Some s, c1)))"

definition error_message :: "'w ws_deps \<Rightarrow> string \<Rightarrow> string" where
  "error_message d msg = ''Error Event ['' @ wd_uuid d @ '']: '' @ msg"

definition send_error_json :: "'w ws_deps \<Rightarrow> ws_err \<Rightarrow> 'w ws_conn \<Rightarrow> write_result \<times> 'w ws_conn" where
  "send_error_json d err c =
     (let jwt_error = is_jwt_error err;
          shown = (jwt_error \<or> (case wc_jwt c of None \<Rightarrow> False | Some j \<Rightarrow> may d j permission_receive_errors));
          e = (if shown \<and> jwt_error then jwt_error_event else error_event);
          text = (if shown then ws_err_text d err
                  else ''an unexpected error was encountered while handling this request'')
      in unsafe_send_json d (message e [error_message d text]) c)"

definition set_jwt :: "websocket_payload \<Rightarrow> 'w ws_conn \<Rightarrow> 'w ws_conn" where
  "set_jwt token c = c\<lparr>wc_user := wp_user token, wc_jwt := Some token\<rparr>"

definition save_activity :: "string \<Rightarrow> string \<Rightarrow> 'w ws_conn \<Rightarrow> 'w ws_conn" where
  "save_activity e what c = c\<lparr>wc_activity := wc_activity c @ [(wc_user c, e, what)]\<rparr>"

section \<open>Inbound messages\<close>

abbreviation quietly :: "'a \<times> 'b \<Rightarrow> 'b" where "quietly \<equiv> snd"

definition send_stats :: "'w ws_deps \<Rightarrow> 'w ws_conn \<Rightarrow> 'w ws_conn" where
  "send_stats d c = quietly (send_json d (message stats_event [wd_stats_json d (wc_server c)]) c)"

definition map_server_env :: "('w \<Rightarrow> 'w) \<Rightarrow> 'w ws_conn \<Rightarrow> 'w ws_conn" where
  "map_server_env f c = c\<lparr>wc_server := map_env f (wc_server c)\<rparr>"

definition inbound_auth :: "'w ws_deps \<Rightarrow> ws_message \<Rightarrow> 'w ws_conn \<Rightarrow> ws_err option \<times> 'w ws_conn" where
  "inbound_auth d m c =
     (case new_token_payload d (concat (ws_args m)) of
        Inl e \<Rightarrow> (Some e, c)
      | Inr token \<Rightarrow>
          (let new_connection = (wc_jwt c = None);
               c1 = set_jwt token c;
               c2 = quietly (unsafe_send_json d (message authentication_success_event []) c1)
           in if \<not> new_connection then (None, c2)
              else (let c3 = c2\<lparr>wc_listening := True\<rparr>;
                        state = eo_state (wd_ops d) (sv_env (wc_server c3));
                        c4 = quietly (send_json d (message status_event [proc_state_string state]) c3)
                    in if state = Offline
                          \<and> \<not> sv_installing (wc_server c4) \<and> \<not> sv_transferring (wc_server c4)
                       then (None, send_stats d (map_server_env (wd_has_space d) c4))
                       else (None, c4))))"

definition power_permission :: "string \<Rightarrow> string option" where
  "power_permission action =
     (if action = ''start'' then Some permission_send_power_start
      else if action = ''stop'' then Some permission_send_power_stop
      else if action = ''restart'' then Some permission_send_power_restart
      else if action = ''kill'' then Some permission_send_power_stop
      else None)"

text \<open>
  \<open>GetJwt\<close> is there whenever the token was found valid; without it the code would fail on a nil
  pointer, which is the panic here.
\<close>

definition inbound_set_state :: "'w ws_deps \<Rightarrow> ws_message \<Rightarrow> 'w ws_conn \<Rightarrow> ws_err option go \<times> 'w ws_conn" where
  "inbound_set_state d m c =
     (let action = concat (ws_args m)
      in case (power_permission action, wc_jwt c) of
           (Some p, None) \<Rightarrow> (Panic ''nil pointer dereference'', c)
         | (perm, jwt) \<Rightarrow>
             if perm \<noteq> None \<and> \<not> may d (the jwt) (the perm) then (Ret None, c)
             else (let (r, s1) = handle_power_action (wd_ops d) (wd_boot d) action 0 False None (wc_server c);
                       c1 = c\<lparr>wc_server := s1\<rparr>
                   in case r of
                        Panic msg \<Rightarrow> (Panic msg, c1)
                      | Block \<Rightarrow> (Block, c1)
                      | Ret None \<Rightarrow> (Ret None, save_activity (''server:power.'' @ action) [] c1)
                      | Ret (Some e) \<Rightarrow>
                          if err_cause e = err_lock_gerr
                          then (Ret None, quietly (send_json d (message error_event [error_message d
                                 ''another power action is currently being processed for this server, please try again later''])
                                 c1))
                          else (Ret (Some (ErrServer e)), c1)))"

definition inbound_logs :: "'w ws_deps \<Rightarrow> 'w ws_conn \<Rightarrow> ws_err option \<times> 'w ws_conn" where
  "inbound_logs d c =
     (let running = wd_running d (sv_env (wc_server c));
          c1 = map_server_env (\<lambda>_. snd running) c
      in if \<not> fst running then (None, c1)
         else (let logs = wd_readlog d (sv_env (wc_server c1));
                   c2 = map_server_env (\<lambda>_. snd logs) c1
               in case fst logs of
                    Inl e \<Rightarrow> (Some (ErrServer e), c2)
                  | Inr ls \<Rightarrow>
                      (None, foldl (\<lambda>c l. quietly (send_json d (message console_output_event [l]) c)) c2 ls)))"

definition inbound_command :: "'w ws_deps \<Rightarrow> ws_message \<Rightarrow> 'w ws_conn \<Rightarrow> ws_err option go \<times> 'w ws_conn" where
  "inbound_command d m c =
     (case wc_jwt c of
        None \<Rightarrow> (Panic ''nil pointer dereference'', c)
      | Some j \<Rightarrow>
          if \<not> may d j permission_send_command then (Ret None, c)
          else if eo_state (wd_ops d) (sv_env (wc_server c)) = Offline then (Ret None, c)
          else if eo_state (wd_ops d) (sv_env (wc_server c)) = Starting
                  \<and> wd_attached d (sv_env (wc_server c)) = Some False
          then (Ret None, c)
          else (let command = concat (ws_args m);
                    (r, s1) = on_env (wd_send_command d command) (wc_server c);
                    c1 = c\<lparr>wc_server := s1\<rparr>
                in case r of
                     Panic msg \<Rightarrow> (Panic msg, c1)
                   | Block \<Rightarrow> (Block, c1)
                   | Ret (Some e) \<Rightarrow> (Ret (Some (ErrServer e)), c1)
                   | Ret None \<Rightarrow> (Ret None, save_activity ''server:console.command'' command c1)))"

definition handle_inbound :: "'w ws_deps \<Rightarrow> ws_message \<Rightarrow> 'w ws_conn \<Rightarrow> ws_err option go \<times> 'w ws_conn" where
  "handle_inbound d m c =
     (case (if ws_event m \<noteq> authentication_event then token_valid d c else None) of
        Some e \<Rightarrow>
          (Ret None, quietly (unsafe_send_json d (message jwt_error_event [ws_err_text d e]) c))
      | None \<Rightarrow>
          if sf_suspended (sv_cfg (wc_server c)) then (Ret (Some (ErrServer err_suspended)), c)
          else if ws_event m = authentication_event
          then (let (e, c1) = inbound_auth d m c in (Ret e, c1))
          else if ws_event m = set_state_event then inbound_set_state d m c
          else if ws_event m = send_server_logs_event
          then (let (e, c1) = inbound_logs d c in (Ret e, c1))
          else if ws_event m = send_stats_event then (Ret None, send_stats d c)
          else if ws_event m = send_command_event then inbound_command d m c
          else (Ret None, c))"

section \<open>Opening and reading\<close>

definition check_origin :: "string \<Rightarrow> string list \<Rightarrow> string \<Rightarrow> bool" where
  "check_origin panel allowed o' =
     (if o' = panel then True else List.find (\<lambda>origin. origin = ''*'' \<or> origin = o') allowed \<noteq> None)"

datatype socket_open = TooManySockets | UpgradeFailed | SocketSuspended | SocketOpen

definition open_socket :: "nat \<Rightarrow> bool \<Rightarrow> bool \<Rightarrow> socket_open" where
  "open_socket sockets upgraded suspended =
     (if 30 \<le> sockets then TooManySockets
      else if \<not> upgraded then UpgradeFailed
      else if suspended then SocketSuspended
      else SocketOpen)"

text \<open>
  The loop that reads frames. A frame comes with the answer of the connection's rate limiter, and its
  text as a message if it can be decoded.
\<close>

record frame =
  fr_allowed :: bool
  fr_text :: bool
  fr_size :: nat
  fr_message :: "ws_message option"

datatype reaction = ThrottleNotice | Dispatch ws_message

fun read_loop :: "frame list \<Rightarrow> bool \<Rightarrow> reaction list" where
  "read_loop [] throttled = []"
| "read_loop (f # fs) throttled =
     (if \<not> fr_allowed f
      then (if \<not> throttled then ThrottleNotice # read_loop fs True else read_loop fs throttled)
      else if \<not> fr_text f \<or> 32768 < fr_size f then read_loop fs False
      else (case fr_message f of
              None \<Rightarrow> read_loop fs False
            | Some m \<Rightarrow> Dispatch m # read_loop fs False))"

text \<open>The goroutine that handles a message: only a suspended server closes the connection.\<close>

definition dispatch :: "'w ws_deps \<Rightarrow> ws_message \<Rightarrow> 'w ws_conn \<Rightarrow> bool go \<times> 'w ws_conn" where
  "dispatch d m c =
     (case handle_inbound d m c of
        (Ret None, c1) \<Rightarrow> (Ret False, c1)
      | (Ret (Some e), c1) \<Rightarrow>
          if (case e of ErrServer g \<Rightarrow> err_cause g = err_suspended | _ \<Rightarrow> False) then (Ret True, c1)
          else (Ret False, quietly (send_error_json d e c1))
      | (Panic msg, c1) \<Rightarrow> (Panic msg, c1)
      | (Block, c1) \<Rightarrow> (Block, c1))"

section \<open>Outbound messages\<close>

text \<open>An event of the server's bus: its data is a string or is sent as JSON.\<close>

definition event_message :: "string \<Rightarrow> string + string \<Rightarrow> ws_message" where
  "event_message topic data = message topic [case data of Inl str \<Rightarrow> str | Inr json \<Rightarrow> json]"

text \<open>The notice that a tick of the expiry timer sends, in Unix seconds.\<close>

definition expiry_notice :: "int \<Rightarrow> int \<Rightarrow> ws_message option" where
  "expiry_notice expires now =
     (if expires - now \<le> 0 then Some (message token_expired_event [])
      else if expires - now \<le> 60 then Some (message token_expiring_event [])
      else None)"

section \<open>The limits of inbound messages\<close>

text \<open>\<open>rate.Limiter\<close> is a parameter: a new one for an interval and a burst, and asking it.\<close>

definition limit_values_for :: "string \<Rightarrow> duration \<times> nat" where
  "limit_values_for e =
     (if e = authentication_event \<or> e = send_server_logs_event then (5 * nanosecond_per_second, 2)
      else if e = send_command_event then (nanosecond_per_second, 10)
      else (nanosecond_per_second, 4))"

definition limiter_name :: "string \<Rightarrow> string" where
  "limiter_name e =
     (if e = authentication_event \<or> e = send_server_logs_event \<or> e = send_command_event then e
      else ''_default'')"

record 'r limiter_bucket =
  lb_limits :: "string \<rightharpoonup> 'r"
  lb_throttles :: "string \<rightharpoonup> bool"

definition new_limiter :: "'r limiter_bucket" where
  "new_limiter = \<lparr>lb_limits = Map.empty, lb_throttles = Map.empty\<rparr>"

definition limiter_for :: "(duration \<Rightarrow> nat \<Rightarrow> 'r) \<Rightarrow> string \<Rightarrow> 'r limiter_bucket \<Rightarrow> 'r \<times> 'r limiter_bucket" where
  "limiter_for new e l =
     (let name = limiter_name e
      in case lb_limits l name of
           Some v \<Rightarrow> (v, l)
         | None \<Rightarrow> (let (interval, burst) = limit_values_for e; v = new interval burst
                    in (v, l\<lparr>lb_limits := (lb_limits l)(name \<mapsto> v)\<rparr>)))"

text \<open>The limiter is shared: what asking it leaves behind is stored under its name.\<close>

definition is_throttled :: "'w ws_deps \<Rightarrow> (duration \<Rightarrow> nat \<Rightarrow> 'r) \<Rightarrow> ('r \<Rightarrow> bool \<times> 'r) \<Rightarrow> string
    \<Rightarrow> 'r limiter_bucket \<times> 'w ws_conn \<Rightarrow> bool \<times> 'r limiter_bucket \<times> 'w ws_conn" where
  "is_throttled d new allow1 e lc =
     (let (v, l) = limiter_for new e (fst lc);
          (ok, v1) = allow1 v;
          l1 = l\<lparr>lb_limits := (lb_limits l)(limiter_name e \<mapsto> v1)\<rparr>
      in if ok then (False, l1\<lparr>lb_throttles := (lb_throttles l1)(e \<mapsto> False)\<rparr>, snd lc)
         else if lb_throttles l1 e \<noteq> Some True
         then (True, l1\<lparr>lb_throttles := (lb_throttles l1)(e \<mapsto> True)\<rparr>,
               quietly (unsafe_send_json d (message throttled_event [e]) (snd lc)))
         else (True, l1, snd lc))"

end
