(* ===== verification/Websocket_Guard.thy ===== *)
theory Websocket_Guard
  imports Websocket
begin

text \<open>What a websocket connection may do and what it is told, by the permissions of its token.\<close>

section \<open>The server is touched with permission only\<close>

lemma sends_keep [simp]:
  "wc_server (snd (unsafe_send_json d v c)) = wc_server c" "wc_server (snd (send_json d v c)) = wc_server c"
  "wc_jwt (snd (unsafe_send_json d v c)) = wc_jwt c" "wc_jwt (snd (send_json d v c)) = wc_jwt c"
  "wc_server_id (snd (unsafe_send_json d v c)) = wc_server_id c" "wc_server_id (snd (send_json d v c)) = wc_server_id c"
  by (simp_all add: unsafe_send_json_def send_json_def split: option.split prod.split write_result.split)


text \<open>An action that is none of the four leaves the server as it is.\<close>

lemma unknown_action_same:
  assumes "power_permission action = None"
  shows "snd (handle_power_action ops bd action 0 pick ctx s) = s"
proof -
  have "action \<noteq> ''start'' \<and> action \<noteq> ''stop'' \<and> action \<noteq> ''restart'' \<and> action \<noteq> ''kill''"
    using assms by (auto simp: power_permission_def split: if_splits)
  then show ?thesis
    by (cases s; cases "sv_power_lock s")
      (auto simp: handle_power_action_def power_enter_def power_body_def power_leave_def acquire_def release_def
        Let_def split: if_splits)
qed

definition pure_looks :: "'w ws_deps \<Rightarrow> bool" where
  "pure_looks d \<longleftrightarrow> (\<forall>w. snd (wd_running d w) = w \<and> snd (wd_readlog d w) = w \<and> wd_has_space d w = w)"

lemma map_env_same: "f (sv_env (wc_server c)) = sv_env (wc_server c) \<Longrightarrow> map_server_env f c = c"
  by (simp add: map_server_env_def map_env_def)

lemma send_stats_keeps [simp]: "wc_server (send_stats d c) = wc_server c"
  by (simp add: send_stats_def)

lemma set_jwt_keeps [simp]: "wc_server (set_jwt p c) = wc_server c"
  by (simp add: set_jwt_def)

lemma inbound_auth_keeps:
  assumes "pure_looks d"
  shows "wc_server (snd (inbound_auth d m c)) = wc_server c"
  using assms
  by (auto simp: inbound_auth_def Let_def pure_looks_def map_env_same split: sum.split)

lemma foldl_keeps: "(\<And>c l. wc_server (f c l) = wc_server c) \<Longrightarrow> wc_server (foldl f c ls) = wc_server c"
  by (induction ls arbitrary: c) simp_all

lemma inbound_logs_keeps:
  assumes "pure_looks d"
  shows "wc_server (snd (inbound_logs d c)) = wc_server c"
  using assms
  by (auto simp: inbound_logs_def Let_def pure_looks_def map_env_same foldl_keeps split: sum.split)

lemma inbound_set_state_keeps:
  assumes "wc_server (snd (inbound_set_state d m c)) \<noteq> wc_server c"
  obtains j p where "wc_jwt c = Some j" "power_permission (concat (ws_args m)) = Some p" "may d j p"
proof (cases "power_permission (concat (ws_args m))")
  case None
  obtain r s1 where h: "handle_power_action (wd_ops d) (wd_boot d) (concat (ws_args m)) 0 False None (wc_server c) = (r, s1)"
    by fastforce
  have "s1 = wc_server c"
    using unknown_action_same [OF None, of "wd_ops d" "wd_boot d" False None "wc_server c"] h by simp
  then have "wc_server (snd (inbound_set_state d m c)) = wc_server c"
    by (simp add: inbound_set_state_def Let_def None h save_activity_def split: go.split option.split)
  with assms show ?thesis by simp
next
  case (Some p)
  show ?thesis
  proof (cases "wc_jwt c")
    case None
    then show ?thesis using assms Some by (simp add: inbound_set_state_def Let_def)
  next
    case jwt: (Some j)
    show ?thesis
    proof (cases "may d j p")
      case False
      then show ?thesis using assms Some jwt by (simp add: inbound_set_state_def Let_def)
    qed (use that jwt Some in blast)
  qed
qed

lemma inbound_command_keeps:
  assumes "wc_server (snd (inbound_command d m c)) \<noteq> wc_server c"
  obtains j where "wc_jwt c = Some j" "may d j permission_send_command"
  using assms by (cases "wc_jwt c") (auto simp: inbound_command_def split: if_splits)

text \<open>The permissions for a message, by the action it asks for.\<close>

definition permission_for :: "ws_message \<Rightarrow> string option" where
  "permission_for m =
     (if ws_event m = set_state_event then power_permission (concat (ws_args m))
      else if ws_event m = send_command_event then Some permission_send_command
      else None)"

section \<open>What is said needs a valid token\<close>

definition control :: "ws_message \<Rightarrow> bool" where
  "control v \<longleftrightarrow> ws_event v \<in> {jwt_error_event, error_event, authentication_success_event}"





















section \<open>Properties\<close>

text \<open>
  C4: The server is touched with permission only. If handling an inbound message changes the server (looking
  at its log, its state or its space changes nothing), the connection's token is valid at that time, the
  server is not suspended, and the token has the permission for the very action or for commands; messages
  of other kinds change nothing.
\<close>

theorem inbound_needs_permission:
  assumes "pure_looks d" and changed: "wc_server (snd (handle_inbound d m c)) \<noteq> wc_server c"
  shows "\<exists>j p. wc_jwt c = Some j \<and> permission_for m = Some p \<and> may d j p \<and> token_valid d c = None \<and>
    \<not> sf_suspended (sv_cfg (wc_server c))"
proof -
  have other: "set_state_event \<noteq> send_command_event" "set_state_event \<noteq> authentication_event"
    "send_command_event \<noteq> authentication_event" by code_simp+
  have auth: "ws_event m \<noteq> authentication_event"
    using changed inbound_auth_keeps [OF assms(1), of m c]
    by (auto simp: handle_inbound_def split: if_splits prod.splits)
  have ok: "token_valid d c = None" "\<not> sf_suspended (sv_cfg (wc_server c))"
    using changed auth by (auto simp: handle_inbound_def split: option.splits)
  consider "ws_event m = set_state_event" "wc_server (snd (inbound_set_state d m c)) \<noteq> wc_server c"
    | "ws_event m = send_command_event" "wc_server (snd (inbound_command d m c)) \<noteq> wc_server c"
    using changed auth ok inbound_logs_keeps [OF assms(1), of c]
    by (auto simp: handle_inbound_def split: if_splits prod.splits)
  then show ?thesis
  proof cases
    case 1
    with ok inbound_set_state_keeps [OF 1(2)] show ?thesis by (simp add: permission_for_def) blast
  next
    case 2
    with ok other inbound_command_keeps [OF 2(2)] show ?thesis by (simp add: permission_for_def) blast
  qed
qed

text \<open>A server whose environment is only its state, for the concrete runs.\<close>

definition live_ops :: "proc_state env_ops" where
  "live_ops = \<lparr>eo_state = (\<lambda>w. w), eo_set_state = (\<lambda>t w. t), eo_start = (\<lambda>w. (Ret None, Running)),
     eo_wait_for_stop = (\<lambda>_ _ w. (Ret None, Offline)), eo_terminate = (\<lambda>_ w. (Ret None, Offline)),
     eo_exit_state = (\<lambda>w. (Inr (0, False), w))\<rparr>"

definition example_ws :: "proc_state ws_deps" where
  "example_ws =
     \<lparr>wd_ops = live_ops, wd_boot = calm_deps, wd_running = (\<lambda>w. (w \<noteq> Offline, w)),
      wd_readlog = (\<lambda>w. (Inr [''line''], w)), wd_send_command = (\<lambda>_ w. (Ret None, w)), wd_attached = (\<lambda>_. Some True),
      wd_has_space = (\<lambda>w. w), wd_stats_json = (\<lambda>_. ''{}''),
      wd_verify = (\<lambda>_. Inl (ErrVerify ''jwt: malformed token'')), wd_unexpired = (\<lambda>p. True),
      wd_denials = \<lparr>dn_boot = 0, dn_jti = (\<lambda>_. None), dn_user = (\<lambda>_. None)\<rparr>,
      wd_write = (\<lambda>_. WriteOk), wd_uuid = ''u'', wd_error_text = (\<lambda>_. ''error''), wd_expired_text = ''expired''\<rparr>"

definition example_conn :: "proc_state ws_conn" where
  "example_conn =
     \<lparr>wc_jwt = Some \<lparr>wp_issued_at = Some 5, wp_expires = None, wp_jti = ''j'', wp_scope = ''websocket'',
                     wp_user = ''u'', wp_server = ''srv'', wp_permissions = [''websocket.connect'', ''control.stop'']\<rparr>,
      wc_user = ''u'', wc_server_id = ''srv'', wc_server = quiet_server Running, wc_sent = [],
      wc_activity = [], wc_listening = True\<rparr>"

theorem inbound_needs_permission_witness:
  "let m = message set_state_event [''kill'']; c' = snd (handle_inbound example_ws m example_conn)
   in sv_env (wc_server c') = Offline \<and> wc_activity c' = [(''u'', ''server:power.kill'', [])] \<and>
      (\<exists>j. wc_jwt example_conn = Some j \<and> may example_ws j permission_send_power_stop)"
proof -
  let ?m = "message set_state_event [''kill'']"
  let ?c' = "snd (handle_inbound example_ws ?m example_conn)"
  have run: "sv_env (wc_server ?c') = Offline" "wc_activity ?c' = [(''u'', ''server:power.kill'', [])]"
    by code_simp+
  have "pure_looks example_ws"
    by (simp add: pure_looks_def example_ws_def)
  moreover have "wc_server ?c' \<noteq> wc_server example_conn"
    using run(1) by (auto simp: example_conn_def quiet_server_def)
  ultimately obtain j p where "wc_jwt example_conn = Some j" "permission_for ?m = Some p" "may example_ws j p"
    using inbound_needs_permission [of example_ws ?m example_conn] by blast
  moreover have "permission_for ?m = Some permission_send_power_stop" by code_simp
  ultimately show ?thesis using run by (simp add: Let_def)
qed



end
