(* ===== verification/Transfers.thy ===== *)
theory Transfers
  imports Tokens Server_Power
begin

text \<open>
  Moving a server to another node: \<open>src/server/transfer\<close> and the handlers of \<open>src/router/router_transfer.go\<close>
  and \<open>router_server_transfer.go\<close>. The source streams an archive of the server's files and its checksum
  in a form; the destination unpacks it, compares the checksums and tells the panel. A transfer is an
  object that a table, a request and a goroutine share: it lives in a store and is named by a number.
\<close>

section \<open>Transfers and their tables\<close>

datatype transfer_status = TPending | TProcessing | TCancelling | TCancelled | TFailed | TCompleted

fun transfer_status_string :: "transfer_status \<Rightarrow> string" where
  "transfer_status_string TPending = ''pending''"
| "transfer_status_string TProcessing = ''processing''"
| "transfer_status_string TCancelling = ''cancelling''"
| "transfer_status_string TCancelled = ''cancelled''"
| "transfer_status_string TFailed = ''failed''"
| "transfer_status_string TCompleted = ''completed''"

record transfer =
  tr_status :: transfer_status
  tr_cancelled :: bool

text \<open>What the panel is told, and the deletion of a server's files by a goroutine.\<close>

datatype transfer_call = TcStatus bool | TcRemoveFiles

record 'w tnode =
  tn_server :: "'w server"
  tn_managed :: bool
  tn_store :: "nat \<Rightarrow> transfer"
  tn_next :: nat
  tn_outgoing :: "string \<rightharpoonup> nat"
  tn_incoming :: "string \<rightharpoonup> nat"
  tn_calls :: "transfer_call list"

definition tm_add :: "string \<Rightarrow> nat \<Rightarrow> (string \<rightharpoonup> nat) \<Rightarrow> (string \<rightharpoonup> nat)" where
  "tm_add sid t m = m(sid \<mapsto> t)"

definition tm_remove :: "string \<Rightarrow> (string \<rightharpoonup> nat) \<Rightarrow> (string \<rightharpoonup> nat)" where
  "tm_remove sid m = m(sid := None)"

definition tm_get :: "string \<Rightarrow> (string \<rightharpoonup> nat) \<Rightarrow> nat option" where
  "tm_get sid m = m sid"

definition at_server :: "('w server \<Rightarrow> 'w server) \<Rightarrow> 'w tnode \<Rightarrow> 'w tnode" where
  "at_server f n = n\<lparr>tn_server := f (tn_server n)\<rparr>"

definition set_transferring :: "bool \<Rightarrow> 'w tnode \<Rightarrow> 'w tnode" where
  "set_transferring b = at_server (\<lambda>s. s\<lparr>sv_transferring := b\<rparr>)"

definition new_transfer :: "'w tnode \<Rightarrow> nat \<times> 'w tnode" where
  "new_transfer n =
     (tn_next n, n\<lparr>tn_store := (tn_store n)(tn_next n := \<lparr>tr_status = TPending, tr_cancelled = False\<rparr>),
                    tn_next := Suc (tn_next n)\<rparr>)"

definition transfer_set_status :: "nat \<Rightarrow> transfer_status \<Rightarrow> 'w tnode \<Rightarrow> 'w tnode" where
  "transfer_set_status t st n =
     at_server (emit (SeTransferStatus (transfer_status_string st)))
       (n\<lparr>tn_store := (tn_store n)(t := (tn_store n t)\<lparr>tr_status := st\<rparr>)\<rparr>)"

definition transfer_cancel :: "nat \<Rightarrow> 'w tnode \<Rightarrow> 'w tnode" where
  "transfer_cancel t n =
     (if tr_status (tn_store n t) \<in> {TCancelling, TCancelled, TCompleted, TFailed} then n
      else (let n1 = transfer_set_status t TCancelling n
            in n1\<lparr>tn_store := (tn_store n1)(t := (tn_store n1 t)\<lparr>tr_cancelled := True\<rparr>)\<rparr>))"

text \<open>The line for the console, without its colours and its time.\<close>

definition send_message :: "string \<Rightarrow> 'w tnode \<Rightarrow> 'w tnode" where
  "send_message v = at_server (emit (SeTransferLogs (''[Transfer System] [Source Node]: '' @ v)))"

text \<open>The panel's answer to a status is an error or none.\<close>

definition set_transfer_status ::
  "(bool \<Rightarrow> 'w \<Rightarrow> gerr option \<times> 'w) \<Rightarrow> bool \<Rightarrow> 'w tnode \<Rightarrow> gerr option \<times> 'w tnode" where
  "set_transfer_status panel b n =
     (let p = panel b (sv_env (tn_server n))
      in (fst p, at_server (map_env (\<lambda>_. snd p)) (n\<lparr>tn_calls := tn_calls n @ [TcStatus b]\<rparr>)))"

section \<open>The source\<close>

text \<open>
  The goroutine that writes the archive into the form: its steps may fail, and the error is what it
  sends. The request: making the archive, building the request, its status code or error; then either
  the context ends or the goroutine reports; then the body is read.
\<close>

record stream_deps =
  sd_form :: bool
  sd_stream :: bool
  sd_copy :: "gerr option"
  sd_checksum :: bool

definition archive_goroutine :: "stream_deps \<Rightarrow> 'w tnode \<Rightarrow> gerr option \<times> 'w tnode" where
  "archive_goroutine d n =
     (if \<not> sd_form d then (Some (ErrOther ''failed to create form file''), n)
      else if \<not> sd_stream d then (Some (ErrOther ''failed to stream archive to pipe''), n)
      else (case sd_copy d of
              Some e \<Rightarrow> (Some (ErrWrap ''failed to stream archive to destination'' e), n)
            | None \<Rightarrow>
                if \<not> sd_checksum d then (Some (ErrOther ''failed to stream checksum''), n)
                else (None, send_message ''Finished streaming archive to destination.'' n)))"

datatype push_end = PushCancelled gerr | PushStreamed "gerr option"

record push_deps =
  pd_archive :: "gerr option"
  pd_request :: "gerr option"
  pd_do :: "gerr + nat"
  pd_end :: push_end
  pd_body :: "gerr + string"

definition push_archive :: "push_deps \<Rightarrow> nat \<Rightarrow> 'w tnode \<Rightarrow> (gerr + string) \<times> 'w tnode" where
  "push_archive d t n =
     (let n1 = transfer_set_status t TProcessing
                 (send_message ''Preparing to stream server data to destination...'' n)
      in case pd_archive d of
           Some e \<Rightarrow>
             (Inl (ErrOther ''failed to get archive for transfer''),
              send_message ''Failed to get archive for transfer.'' n1)
         | None \<Rightarrow>
             (let n2 = send_message ''Streaming archive to destination...'' n1
              in case pd_request d of
                   Some e \<Rightarrow> (Inl e, n2)
                 | None \<Rightarrow>
                     (case pd_do d of
                        Inl e \<Rightarrow> (Inl e, n2)
                      | Inr code \<Rightarrow>
                          if code \<noteq> 200
                          then (Inl (ErrOther (''unexpected status code from destination: '' @ itoa (int code))), n2)
                          else (case pd_end d of
                                  PushCancelled e \<Rightarrow> (Inl e, n2)
                                | PushStreamed (Some e) \<Rightarrow> (Inl (ErrWrap ''http error: , multipart error: '' e), n2)
                                | PushStreamed None \<Rightarrow>
                                    (case pd_body d of
                                       Inl e \<Rightarrow> (Inl (ErrWrap ''failed to read response body'' e), n2)
                                     | Inr v \<Rightarrow> (Inr v, n2))))))"

definition notify_failure :: "(bool \<Rightarrow> 'w \<Rightarrow> gerr option \<times> 'w) \<Rightarrow> 'w tnode \<Rightarrow> 'w tnode" where
  "notify_failure panel n =
     set_transferring False
       (at_server (emit (SeTransferStatus ''failure'')) (snd (set_transfer_status panel False n)))"

text \<open>The goroutine of the source, from the push to the deferred removal from the table.\<close>

definition run_outgoing ::
  "(bool \<Rightarrow> 'w \<Rightarrow> gerr option \<times> 'w) \<Rightarrow> push_deps \<Rightarrow> string \<Rightarrow> nat \<Rightarrow> 'w tnode \<Rightarrow> 'w tnode" where
  "run_outgoing panel d sid t n =
     (let (r, n1) = push_archive d t n;
          n2 = (case r of
                  Inr _ \<Rightarrow> n1
                | Inl e \<Rightarrow>
                    (let n3 = notify_failure panel n1
                     in if e = ErrCanceled then send_message ''Canceled.'' n3 else n3))
      in n2\<lparr>tn_outgoing := tm_remove sid (tn_outgoing n2)\<rparr>)"

datatype reply = Reply nat | ReplyError gerr

text \<open>
  The request that starts a transfer: with the transfer for the goroutine. \<open>no_container\<close> is the test
  whether the error's text contains ``no such container''.
\<close>

definition post_server_transfer ::
  "'w env_ops \<Rightarrow> (gerr \<Rightarrow> bool) \<Rightarrow> string \<Rightarrow> 'w tnode \<Rightarrow> (reply \<times> nat option) go \<times> 'w tnode" where
  "post_server_transfer ops no_container sid n =
     (if sv_transferring (tn_server n) then (Ret (Reply 409, None), n)
      else (let n1 = set_transferring True n;
                p = (if eo_state ops (sv_env (tn_server n1)) \<noteq> Offline
                     then (case on_env (eo_wait_for_stop ops (15 * nanosecond_per_second) False) (tn_server n1) of
                             (r, s) \<Rightarrow> (r, n1\<lparr>tn_server := s\<rparr>))
                     else (Ret None, n1))
            in case p of
                 (Panic m, n2) \<Rightarrow> (Panic m, n2)
               | (Block, n2) \<Rightarrow> (Block, n2)
               | (Ret e, n2) \<Rightarrow>
                   if e \<noteq> None \<and> \<not> no_container (the e)
                   then (Ret (ReplyError (ErrWrap ''failed to stop server for transfer'' (the e)), None),
                         set_transferring False n2)
                   else (let (t, n3) = new_transfer n2
                         in (Ret (Reply 202, Some t), n3\<lparr>tn_outgoing := tm_add sid t (tn_outgoing n3)\<rparr>))))"

definition cancel_in :: "(string \<rightharpoonup> nat) \<Rightarrow> string \<Rightarrow> 'w tnode \<Rightarrow> nat \<times> 'w tnode" where
  "cancel_in table sid n =
     (if \<not> sv_transferring (tn_server n) then (409, n)
      else (case tm_get sid table of
              None \<Rightarrow> (409, n)
            | Some t \<Rightarrow> (202, transfer_cancel t n)))"

definition delete_server_transfer :: "string \<Rightarrow> 'w tnode \<Rightarrow> nat \<times> 'w tnode" where
  "delete_server_transfer sid n = cancel_in (tn_outgoing n) sid n"

definition delete_transfer :: "string \<Rightarrow> 'w tnode \<Rightarrow> nat \<times> 'w tnode" where
  "delete_transfer sid n = cancel_in (tn_incoming n) sid n"

section \<open>The destination\<close>

text \<open>\<open>hex.Decode\<close>: the bytes, or none if a character is not a digit or one is left over.\<close>

definition hex_digit :: "char \<Rightarrow> nat option" where
  "hex_digit c =
     (let k = of_char c :: nat
      in if 48 \<le> k \<and> k \<le> 57 then Some (k - 48)
         else if 97 \<le> k \<and> k \<le> 102 then Some (k - 87)
         else if 65 \<le> k \<and> k \<le> 70 then Some (k - 55)
         else None)"

fun hex_decode :: "string \<Rightarrow> string option" where
  "hex_decode [] = Some []"
| "hex_decode [a] = None"
| "hex_decode (a # b # cs) =
     (case (hex_digit a, hex_digit b, hex_decode cs) of
        (Some x, Some y, Some bs) \<Rightarrow> Some (char_of (16 * x + y) # bs)
      | _ \<Rightarrow> None)"

text \<open>
  An iteration over the form: the context has ended, there are no more parts, reading failed, or a part
  with its name, its bytes and the error that reading them ends with. \<open>rd_reads\<close> is what the extraction
  of an archive reads of it (all bytes it reads are hashed) and \<open>rd_sha256\<close> the hash.
\<close>

datatype iteration = IterDone | IterEof | IterFail gerr | IterPart string string "gerr option"

record 'w recv_deps =
  rd_ensure_dir :: "'w \<Rightarrow> gerr option \<times> 'w"
  rd_extract :: "string \<Rightarrow> 'w \<Rightarrow> gerr option \<times> 'w"
  rd_reads :: "string \<Rightarrow> string"
  rd_sha256 :: "string \<Rightarrow> string"
  rd_create_env :: "'w \<Rightarrow> gerr option \<times> 'w"
  rd_panel :: "bool \<Rightarrow> 'w \<Rightarrow> gerr option \<times> 'w"

record received =
  rc_archive :: bool
  rc_checksum :: bool
  rc_verified :: bool
  rc_hashed :: string

definition nothing_received :: received where
  "nothing_received = \<lparr>rc_archive = False, rc_checksum = False, rc_verified = False, rc_hashed = []\<rparr>"

definition err_mismatch :: gerr where "err_mismatch = ErrOther ''checksums don't match''"

definition receive_archive ::
  "'w recv_deps \<Rightarrow> string \<Rightarrow> received \<times> 'w \<Rightarrow> gerr option \<times> received \<times> 'w" where
  "receive_archive d bytes rw =
     (case rd_ensure_dir d (snd rw) of
        (Some e, w1) \<Rightarrow> (Some e, fst rw, w1)
      | (None, w1) \<Rightarrow>
          (let r1 = (fst rw)\<lparr>rc_hashed := rc_hashed (fst rw) @ rd_reads d bytes\<rparr>
           in case rd_extract d bytes w1 of
                (Some e, w2) \<Rightarrow> (Some e, r1, w2)
              | (None, w2) \<Rightarrow> (None, r1\<lparr>rc_archive := True\<rparr>, w2)))"

definition receive_checksum ::
  "'w recv_deps \<Rightarrow> string \<Rightarrow> gerr option \<Rightarrow> received \<Rightarrow> gerr option \<times> received" where
  "receive_checksum d v err r =
     (if \<not> rc_archive r then (Some (ErrOther ''archive must be sent before the checksum''), r)
      else (let r1 = r\<lparr>rc_checksum := True\<rparr>
            in case err of
                 Some e \<Rightarrow> (Some e, r1)
               | None \<Rightarrow>
                   (case hex_decode v of
                      None \<Rightarrow> (Some (ErrOther ''encoding/hex: invalid''), r1)
                    | Some expected \<Rightarrow>
                        if expected \<noteq> rd_sha256 d (rc_hashed r1) then (Some err_mismatch, r1)
                        else (None, r1\<lparr>rc_verified := True\<rparr>))))"

fun receive_parts ::
  "'w recv_deps \<Rightarrow> iteration list \<Rightarrow> received \<times> 'w \<Rightarrow> gerr option go \<times> received \<times> 'w" where
  "receive_parts d [] rw = (Block, rw)"
| "receive_parts d (IterDone # is) rw = (Ret None, rw)"
| "receive_parts d (IterEof # is) rw = (Ret None, rw)"
| "receive_parts d (IterFail e # is) rw = (Ret (Some e), rw)"
| "receive_parts d (IterPart name bytes err # is) rw =
     (if name = ''archive''
      then (case receive_archive d bytes rw of
              (Some e, rw1) \<Rightarrow> (Ret (Some e), rw1)
            | (None, rw1) \<Rightarrow> receive_parts d is rw1)
      else if name = ''checksum''
      then (case receive_checksum d bytes err (fst rw) of
              (Some e, r1) \<Rightarrow> (Ret (Some e), r1, snd rw)
            | (None, r1) \<Rightarrow> receive_parts d is (r1, snd rw))
      else receive_parts d is rw)"

text \<open>From the form to the decision: an error, or the success of the transfer.\<close>

definition receive_form ::
  "'w recv_deps \<Rightarrow> iteration list \<Rightarrow> 'w tnode \<Rightarrow> gerr option go \<times> 'w tnode" where
  "receive_form d is n =
     (case receive_parts d is (nothing_received, sv_env (tn_server n)) of
        (Panic m, r, w) \<Rightarrow> (Panic m, at_server (map_env (\<lambda>_. w)) n)
      | (Block, r, w) \<Rightarrow> (Block, at_server (map_env (\<lambda>_. w)) n)
      | (Ret (Some e), r, w) \<Rightarrow> (Ret (Some e), at_server (map_env (\<lambda>_. w)) n)
      | (Ret None, r, w) \<Rightarrow>
          if \<not> rc_archive r \<or> \<not> rc_checksum r
          then (Ret (Some (ErrOther ''missing archive or checksum'')), at_server (map_env (\<lambda>_. w)) n)
          else if \<not> rc_verified r then (Ret (Some err_mismatch), at_server (map_env (\<lambda>_. w)) n)
          else (let p = rd_create_env d w
                in (Ret (fst p), at_server (map_env (\<lambda>_. snd p)) n)))"

text \<open>The deferred end of the request.\<close>

definition finish_incoming :: "'w recv_deps \<Rightarrow> string \<Rightarrow> bool \<Rightarrow> 'w tnode \<Rightarrow> 'w tnode" where
  "finish_incoming d sid successful n =
     (let n1 = n\<lparr>tn_incoming := tm_remove sid (tn_incoming n)\<rparr>;
          n2 = (if \<not> successful
                then (at_server (emit (SeTransferStatus ''failure'')) n1)\<lparr>tn_managed := False\<rparr> else n1);
          (e, n3) = set_transfer_status (rd_panel d) successful n2
      in if e \<noteq> None
         then (if \<not> successful then n3\<lparr>tn_calls := tn_calls n3 @ [TcRemoveFiles]\<rparr> else n3)
         else at_server (emit (SeTransferStatus ''success'')) (set_transferring False n3))"




section \<open>Lemmas\<close>











section \<open>Properties\<close>


definition example_recv :: "unit recv_deps" where
  "example_recv =
     \<lparr>rd_ensure_dir = (\<lambda>w. (None, w)), rd_extract = (\<lambda>_ w. (None, w)), rd_reads = (\<lambda>b. b), rd_sha256 = (\<lambda>b. b),
      rd_create_env = (\<lambda>w. (None, w)), rd_panel = (\<lambda>_ w. (None, w))\<rparr>"


definition example_node :: "unit tnode" where
  "example_node =
     \<lparr>tn_server = quiet_server (), tn_managed = False, tn_store = (\<lambda>_. \<lparr>tr_status = TPending, tr_cancelled = False\<rparr>),
      tn_next = 0, tn_outgoing = Map.empty, tn_incoming = Map.empty, tn_calls = []\<rparr>"


lemma node_frame [simp]:
  "tn_calls (at_server f n) = tn_calls n" "tn_outgoing (at_server f n) = tn_outgoing n"
  "tn_store (at_server f n) = tn_store n" "tn_server (at_server f n) = f (tn_server n)"
  "tn_calls (set_transferring b n) = tn_calls n" "tn_outgoing (set_transferring b n) = tn_outgoing n"
  "tn_server (set_transferring b n) = (tn_server n)\<lparr>sv_transferring := b\<rparr>"
  "tn_calls (send_message v n) = tn_calls n" "tn_outgoing (send_message v n) = tn_outgoing n"
  "tn_store (send_message v n) = tn_store n"
  "sv_transferring (tn_server (send_message v n)) = sv_transferring (tn_server n)"
  "tn_calls (transfer_set_status t st n) = tn_calls n" "tn_outgoing (transfer_set_status t st n) = tn_outgoing n"
  "sv_transferring (tn_server (transfer_set_status t st n)) = sv_transferring (tn_server n)"
  "tn_store (transfer_set_status t st n) = (tn_store n)(t := (tn_store n t)\<lparr>tr_status := st\<rparr>)"
  "sv_transferring (emit x s) = sv_transferring s" "sv_events (emit x s) = sv_events s @ [x]"
  "sv_transferring (map_env g s) = sv_transferring s" "sv_events (map_env g s) = sv_events s"
  "sv_env (emit x s) = sv_env s"
  by (simp_all add: at_server_def set_transferring_def send_message_def transfer_set_status_def emit_def map_env_def)

lemma push_archive_frame:
  "tn_calls (snd (push_archive pd t n)) = tn_calls n"
  "sv_transferring (tn_server (snd (push_archive pd t n))) = sv_transferring (tn_server n)"
  "tn_outgoing (snd (push_archive pd t n)) = tn_outgoing n"
  by (simp_all add: push_archive_def Let_def split: option.split sum.split push_end.split)

lemma push_archive_store:
  "tn_store (snd (push_archive pd t n)) = (tn_store n)(t := (tn_store n t)\<lparr>tr_status := TProcessing\<rparr>)"
  by (simp add: push_archive_def Let_def split: option.split sum.split push_end.split)

lemma push_archive_success:
  "fst (push_archive pd t n) = Inr v \<Longrightarrow> pd_do pd = Inr 200 \<and> pd_end pd = PushStreamed None"
  by (auto simp: push_archive_def Let_def split: option.splits sum.splits push_end.splits if_splits)

text \<open>
  How an outgoing transfer ends. If the archive could not be pushed, the panel is told of the failure
  once and the server may start again; if it was, the panel is told nothing and the server stays locked
  until the panel removes it. Either way its entry is gone from the table and no other is touched.
\<close>

theorem outgoing_transfer_ends:
  "(case fst (push_archive pd t n) of
      Inl e \<Rightarrow> \<not> sv_transferring (tn_server (run_outgoing panel pd sid t n)) \<and>
        tn_calls (run_outgoing panel pd sid t n) = tn_calls n @ [TcStatus False]
    | Inr v \<Rightarrow> sv_transferring (tn_server (run_outgoing panel pd sid t n)) = sv_transferring (tn_server n) \<and>
        tn_calls (run_outgoing panel pd sid t n) = tn_calls n \<and> pd_do pd = Inr 200 \<and> pd_end pd = PushStreamed None) \<and>
   tn_outgoing (run_outgoing panel pd sid t n) = (tn_outgoing n)(sid := None)"
proof -
  obtain r n1 where p: "push_archive pd t n = (r, n1)" by fastforce
  have n1: "tn_calls n1 = tn_calls n" "sv_transferring (tn_server n1) = sv_transferring (tn_server n)"
    "tn_outgoing n1 = tn_outgoing n"
    using push_archive_frame [of pd t n] p by simp_all
  show ?thesis
  proof (cases r)
    case (Inl e)
    with n1 p show ?thesis
      by (simp add: run_outgoing_def Let_def notify_failure_def set_transfer_status_def tm_remove_def)
  next
    case (Inr v)
    then have "pd_do pd = Inr 200" "pd_end pd = PushStreamed None" using push_archive_success [of pd t n v] p by simp_all
    with n1 p Inr show ?thesis by (simp add: run_outgoing_def Let_def tm_remove_def)
  qed
qed

section \<open>Where transfers go wrong\<close>

text \<open>A failed transfer whose failure the panel has taken note of is announced as a success.\<close>

lemma failed_transfer_announced:
  assumes "rd_panel d False (sv_env (tn_server n)) = (None, w)"
  shows "sv_events (tn_server (finish_incoming d sid False n)) =
      sv_events (tn_server n) @ [SeTransferStatus ''failure'', SeTransferStatus ''success'']"
    and "TcRemoveFiles \<notin> set (tn_calls n) \<Longrightarrow> TcRemoveFiles \<notin> set (tn_calls (finish_incoming d sid False n))"
  using assms by (auto simp: finish_incoming_def Let_def set_transfer_status_def split: prod.splits)

text \<open>An archive after the checksum is unpacked, and the transfer still succeeds.\<close>

lemma late_archive_unverified:
  "fst (receive_form example_recv
     [IterPart ''archive'' ''A'' None, IterPart ''checksum'' ''41'' None, IterPart ''archive'' ''B'' None, IterEof]
     example_node) = Ret None"
  by code_simp

text \<open>A transfer that is cancelled stays so: nothing gives it a final status, whatever comes of the push.\<close>

lemma never_final:
  assumes "tr_status (tn_store n t) \<in> {TPending, TProcessing, TCancelling}"
  shows "tr_status (tn_store (snd (push_archive pd t n)) t) = TProcessing"
    and "tr_status (tn_store (transfer_cancel t n) t) = TCancelling"
  using assms by (auto simp: push_archive_store transfer_cancel_def transfer_set_status_def at_server_def Let_def)

end
