(* ===== verification/Utils.thy ===== *)
theory Utils
  imports Go_Strings Prelude
begin

text \<open>
  The helpers of \<open>src/system/utils.go\<close>: the reader that cuts a stream of console output into lines of
  bounded length, the first non-empty string, the conversion of a number and the size of a file in
  words. Bytes are characters. The swap of an atomic flag is in \<open>Sync_Primitives\<close>.
\<close>

section \<open>Small helpers\<close>

fun first_not_empty :: "string list \<Rightarrow> string" where
  "first_not_empty [] = []"
| "first_not_empty (v # vs) = (if v \<noteq> [] then v else first_not_empty vs)"

text \<open>\<open>strconv.Atoi\<close> is a parameter: the number, or the text of the error.\<close>

definition must_int :: "(string \<Rightarrow> string + int) \<Rightarrow> string \<Rightarrow> int go" where
  "must_int atoi v =
     (case atoi v of
        Inl e \<Rightarrow> Panic (''system/utils: could not parse int: '' @ e)
      | Inr i \<Rightarrow> Ret i)"

text \<open>The unit and the divisor of a size: the loop over \<open>n\<close>, with the exponent it counts.\<close>

function unit_loop :: "nat \<Rightarrow> nat \<Rightarrow> nat \<Rightarrow> nat \<times> nat" where
  "unit_loop n d e = (if 1024 \<le> n then unit_loop (n div 1024) (d * 1024) (Suc e) else (d, e))"
  by pat_completeness auto
termination by (relation "measure (\<lambda>(n, d, e). n)") auto

declare unit_loop.simps [simp del]

text \<open>
  \<open>fmt\<close> renders a quotient with one digit. An index beyond the six units would be a panic.
\<close>

definition format_bytes :: "(nat \<Rightarrow> nat \<Rightarrow> string) \<Rightarrow> nat \<Rightarrow> string go" where
  "format_bytes fmt b =
     (if b < 1024 then Ret (itoa (int b) @ '' B'')
      else (let (d, e) = unit_loop (b div 1024) 1024 0
            in if e < 6 then Ret (fmt b d @ '' '' @ [''KMGTPE'' ! e] @ ''iB'')
               else Panic ''index out of range''))"

section \<open>The reader of lines\<close>

definition max_buffer_size :: nat where "max_buffer_size = 64 * 1024"

text \<open>What \<open>bufio.Reader.ReadLine\<close> answers: the bytes, whether the line goes on, and the error.\<close>

datatype read_err = ReadEof | ReadFailed string

type_synonym read_answer = "string \<times> bool \<times> read_err option"

text \<open>\<open>bytes.Replace\<close> of a blank and a carriage return by a carriage return and a line feed.\<close>

fun replace_returns :: "string \<Rightarrow> string" where
  "replace_returns (a # b # cs) =
     (if a = CHR '' '' \<and> b = CHR 0x0D then CHR 0x0D # CHR 0x0A # replace_returns cs
      else a # replace_returns (b # cs))"
| "replace_returns cs = cs"

text \<open>
  The inner loop gathers one line in the buffer. It may end the function with an error, hand over the
  line with the error that came with it, or wait for ever when the reader has no further answer.
\<close>

datatype line_end = LineAbort string | LineDone "read_err option" | LineBlocked

fun scan_line :: "read_answer list \<Rightarrow> string \<Rightarrow> line_end \<times> string \<times> read_answer list" where
  "scan_line [] buf = (LineBlocked, buf, [])"
| "scan_line ((l, more, err) # rs) buf =
     (let line = replace_returns l;
          ns = length buf + length line
      in if max_buffer_size < ns
         then (LineDone err, buf @ take (length line - (ns - max_buffer_size)) line, rs)
         else (let buf1 = buf @ line
               in case err of
                    Some (ReadFailed e) \<Rightarrow> (LineAbort e, buf1, rs)
                  | _ \<Rightarrow> if \<not> more \<or> err = Some ReadEof then (LineDone err, buf1, rs)
                         else scan_line rs buf1))"

lemma scan_line_shorter:
  "scan_line rs buf = (LineDone err, c, rs') \<Longrightarrow> length rs' < length rs"
  by (induction rs buf rule: scan_line.induct)
    (auto simp: Let_def less_Suc_eq split: if_splits option.splits read_err.splits)

text \<open>The outer loop: the lines handed to the callback, and how the function ends.\<close>

function scan_reader :: "read_answer list \<Rightarrow> string list \<times> string option go" where
  "scan_reader rs =
     (case scan_line rs [] of
        (LineBlocked, _, _) \<Rightarrow> ([], Block)
      | (LineAbort e, _, _) \<Rightarrow> ([], Ret (Some e))
      | (LineDone err, buf, rs1) \<Rightarrow>
          (let sent = (if 0 < length buf then [buf] else []);
               (later, r) = (if err = Some ReadEof then ([], Ret None) else scan_reader rs1)
           in (sent @ later, r)))"
  by pat_completeness auto
termination
  by (relation "measure length") (auto dest: scan_line_shorter [OF sym])

declare scan_reader.simps [simp del]

section \<open>Lemmas\<close>

lemma length_replace_returns [simp]: "length (replace_returns s) = length s"
  by (induction s rule: replace_returns.induct) auto

lemma scan_line_length:
  "scan_line rs buf = (LineDone err, c, rs') \<Longrightarrow> length buf \<le> max_buffer_size \<Longrightarrow> length c \<le> max_buffer_size"
  by (induction rs buf rule: scan_line.induct)
    (auto simp: Let_def split: if_splits option.splits read_err.splits)

text \<open>A line as the reader delivers it: in pieces, all but the last with the mark that it goes on.\<close>

fun pieces :: "string list \<Rightarrow> read_answer list" where
  "pieces [] = []"
| "pieces [p] = [(p, False, None)]"
| "pieces (p # q # ps) = (p, True, None) # pieces (q # ps)"

definition stream_of :: "string list list \<Rightarrow> read_answer list" where
  "stream_of ls = concat (map pieces ls) @ [([], False, Some ReadEof)]"

definition line_text :: "string list \<Rightarrow> string" where
  "line_text ps = concat (map replace_returns ps)"

lemma scan_line_pieces:
  assumes "ps \<noteq> []" and "length buf + length (line_text ps) \<le> max_buffer_size"
  shows "scan_line (pieces ps @ rs) buf = (LineDone None, buf @ line_text ps, rs)"
  using assms by (induction ps arbitrary: buf rule: pieces.induct) (auto simp: line_text_def Let_def)

lemma scan_reader_line:
  assumes "ps \<noteq> []" and "length (line_text ps) \<le> max_buffer_size"
  shows "scan_reader (pieces ps @ rs) =
    ((if line_text ps = [] then [] else [line_text ps]) @ fst (scan_reader rs), snd (scan_reader rs))"
  using scan_line_pieces [of ps "[]" rs] assms
  by (subst scan_reader.simps) (auto simp: Let_def split: prod.split)

lemma unit_loop_bound: "n < 1024 ^ Suc k \<Longrightarrow> snd (unit_loop n d e) \<le> e + k"
proof (induction k arbitrary: n d e)
  case 0
  then show ?case by (simp add: unit_loop.simps)
next
  case (Suc k)
  show ?case
  proof (cases "1024 \<le> n")
    case True
    have "n div 1024 < 1024 ^ Suc k" using Suc.prems by (simp add: less_mult_imp_div_less)
    from Suc.IH [OF this, of "d * 1024" "Suc e"] True show ?thesis by (subst unit_loop.simps) simp
  qed (simp add: unit_loop.simps)
qed

section \<open>Properties\<close>

lemma sent_lines_bounded:
  "\<forall>l \<in> set (fst (scan_reader rs)). 0 < length l \<and> length l \<le> max_buffer_size"
proof (induction rs rule: scan_reader.induct)
  case (1 rs)
  show ?case
  proof (cases "scan_line rs []")
    case (fields r buf rs1)
    show ?thesis
    proof (cases r)
      case (LineDone err)
      then have "length buf \<le> max_buffer_size" using scan_line_length [of rs "[]" err buf rs1] fields by simp
      moreover have "err \<noteq> Some ReadEof \<Longrightarrow> \<forall>l \<in> set (fst (scan_reader rs1)). 0 < length l \<and> length l \<le> max_buffer_size"
        using 1 fields LineDone by (metis (no_types, lifting))
      ultimately show ?thesis
        using fields LineDone by (subst scan_reader.simps) (auto simp: Let_def split: prod.splits)
    qed (use fields in \<open>simp_all add: scan_reader.simps\<close>)
  qed
qed

lemma sent_lines_exact:
  assumes "\<forall>ps \<in> set ls. ps \<noteq> [] \<and> length (line_text ps) \<le> max_buffer_size"
  shows "scan_reader (stream_of ls) = (filter (\<lambda>l. l \<noteq> []) (map line_text ls), Ret None)"
  using assms
proof (induction ls)
  case Nil
  show ?case by (subst scan_reader.simps) (simp add: stream_of_def Let_def max_buffer_size_def)
next
  case (Cons ps ls)
  have "stream_of (ps # ls) = pieces ps @ stream_of ls" by (simp add: stream_of_def)
  then show ?case using Cons scan_reader_line [of ps "stream_of ls"] by simp
qed

text \<open>A size of any integer type has a unit.\<close>

lemma format_bytes_returns: "b < 2 ^ 64 \<Longrightarrow> returns (format_bytes fmt b)"
  using unit_loop_bound [of "b div 1024" 5 1024 0]
  by (auto simp: format_bytes_def less_mult_imp_div_less split: prod.split)

text \<open>
  Lines are cut, not lost. If every line of the stream fits into 64 KiB, the callback gets exactly
  the non-empty lines in their order, with the carriage returns replaced, and the function returns
  without an error at the end of the stream. Whatever else the reader answers, no line handed over is
  empty or longer than that.
\<close>

theorem scan_reader_lines:
  assumes "\<forall>ps \<in> set ls. ps \<noteq> [] \<and> length (line_text ps) \<le> max_buffer_size"
  shows "scan_reader (stream_of ls) = (filter (\<lambda>l. l \<noteq> []) (map line_text ls), Ret None) \<and>
    (\<forall>l \<in> set (fst (scan_reader rs)). 0 < length l \<and> length l \<le> max_buffer_size)"
  using sent_lines_exact [OF assms] sent_lines_bounded by blast

theorem scan_reader_lines_witness:
  "scan_reader (stream_of [[''ab'', ''c''], [[]], [''d'' @ [CHR '' '', CHR 0x0D]]]) =
     ([''abc'', ''d'' @ [CHR 0x0D, CHR 0x0A]], Ret None)"
proof -
  have "\<forall>ps \<in> set [[''ab'', ''c''], [[]], [''d'' @ [CHR '' '', CHR 0x0D]]].
      ps \<noteq> [] \<and> length (line_text ps) \<le> max_buffer_size"
    by (simp add: line_text_def max_buffer_size_def)
  from scan_reader_lines [OF this] show ?thesis by (simp add: line_text_def)
qed

text \<open>
  A line that does not fit is not truncated but cut: what the buffer cannot take of one answer is lost,
  and the answers after it begin a new line.
\<close>

lemma long_line_cut:
  assumes "max_buffer_size < length buf + length l"
  shows "scan_line ((l, True, None) # rs) buf =
    (LineDone None, buf @ take (length l - (length buf + length l - max_buffer_size)) (replace_returns l), rs)"
  using assms by (simp add: Let_def)

end
