(* ===== verification/Environment_Config.thy ===== *)
theory Environment_Config
  imports Go_Strings Complex_Main
begin

text \<open>
  The settings a server hands to its environment: port allocations (\<open>src/environment/allocations.go\<close>),
  limits and variables (\<open>settings.go\<close>), the configuration object that holds them (\<open>config.go\<close>),
  the memory overhead of \<open>src/config/config_docker.go\<close> and the environment variables a server
  builds from its configuration (\<open>src/server/server.go\<close>). A Go map that a loop ranges over is given as
  the list of its entries in the order of that loop. A \<open>float64\<close> literal is the rational it is
  written as; the rounded product that bounds the memory is a parameter.
\<close>

section \<open>Allocations\<close>

record allocations =
  al_force_outgoing_ip :: bool
  al_default_ip :: string
  al_default_port :: int
  al_mappings :: "(string \<times> int list) list"

record port_binding =
  pb_host_ip :: string
  pb_host_port :: string

type_synonym port_map = "string \<rightharpoonup> port_binding list"

definition tcp_port :: "int \<Rightarrow> string" where "tcp_port p = itoa p @ ''/tcp''"
definition udp_port :: "int \<Rightarrow> string" where "udp_port p = itoa p @ ''/udp''"

definition valid_port :: "int \<Rightarrow> bool" where
  "valid_port p \<longleftrightarrow> \<not> (p < 1 \<or> p > 65535)"

definition pm_get :: "port_map \<Rightarrow> string \<Rightarrow> port_binding list" where
  "pm_get m k = (case m k of None \<Rightarrow> [] | Some bs \<Rightarrow> bs)"

definition add_binding :: "string \<Rightarrow> int \<Rightarrow> port_map \<Rightarrow> port_map" where
  "add_binding ip port out =
     (if port < 1 \<or> port > 65535 then out
      else let b = \<lparr>pb_host_ip = ip, pb_host_port = itoa port\<rparr>;
               out1 = out(tcp_port port \<mapsto> pm_get out (tcp_port port) @ [b])
           in out1(udp_port port \<mapsto> pm_get out1 (udp_port port) @ [b]))"

definition bindings :: "allocations \<Rightarrow> port_map" where
  "bindings a = fold (\<lambda>(ip, ports) out. fold (add_binding ip) ports out) (al_mappings a) Map.empty"

text \<open>
  \<open>DockerBindings\<close> edits a list while it ranges over it. The range is over the slice as it was,
  but its elements are read from the array that the deletions shift: \<open>arr\<close> is that array,
  \<open>n\<close> the length of the slice in the map, \<open>i\<close> the index of the loop. Deleting at an index
  past the end of the slice panics.
\<close>

definition localhost :: string where "localhost = ''127.0.0.1''"

definition ispn_step :: "nat \<Rightarrow> port_binding list \<times> nat \<Rightarrow> (port_binding list \<times> nat) go" where
  "ispn_step i s =
     (let arr = fst s; n = snd s in
      if pb_host_ip (arr ! i) \<noteq> localhost then Ret (arr, n)
      else if n < i + 1 then Panic ''slice bounds out of range''
      else Ret (take i arr @ take (n - (i + 1)) (drop (i + 1) arr) @ drop (n - 1) arr, n - 1))"

fun ispn_loop :: "nat list \<Rightarrow> port_binding list \<times> nat \<Rightarrow> (port_binding list \<times> nat) go" where
  "ispn_loop [] s = Ret s"
| "ispn_loop (i # is) s = go_bind (ispn_step i s) (ispn_loop is)"

definition ispn_delete :: "port_binding list \<Rightarrow> port_binding list go" where
  "ispn_delete bs =
     go_bind (ispn_loop [0..<length bs] (bs, length bs)) (\<lambda>s. Ret (take (snd s) (fst s)))"

definition remap_local :: "string \<Rightarrow> port_binding list \<Rightarrow> port_binding list" where
  "remap_local iface bs =
     List.map (\<lambda>b. if pb_host_ip b \<noteq> localhost then b
                   else \<lparr>pb_host_ip = iface, pb_host_port = pb_host_port b\<rparr>) bs"

definition docker_binding_list :: "string \<Rightarrow> bool \<Rightarrow> port_binding list \<Rightarrow> port_binding list go" where
  "docker_binding_list iface ispn bs = (if ispn then ispn_delete bs else Ret (remap_local iface bs))"

text \<open>\<open>keys\<close> are the map's keys, in the order of the range.\<close>

fun convert_bindings :: "string \<Rightarrow> bool \<Rightarrow> string list \<Rightarrow> port_map \<Rightarrow> port_map go" where
  "convert_bindings iface ispn [] out = Ret out"
| "convert_bindings iface ispn (p # ps) out =
     go_bind (docker_binding_list iface ispn (pm_get out p))
       (\<lambda>bs. convert_bindings iface ispn ps (out(p \<mapsto> bs)))"

definition docker_bindings :: "string \<Rightarrow> bool \<Rightarrow> string list \<Rightarrow> allocations \<Rightarrow> port_map go" where
  "docker_bindings iface ispn keys a = convert_bindings iface ispn keys (bindings a)"

definition exposed :: "string \<Rightarrow> bool \<Rightarrow> string list \<Rightarrow> allocations \<Rightarrow> string set go" where
  "exposed iface ispn keys a = go_bind (docker_bindings iface ispn keys a) (\<lambda>m. Ret (dom m))"

section \<open>Limits\<close>

record limits =
  lm_memory :: int
  lm_swap :: int
  lm_io_weight :: int
  lm_cpu :: int
  lm_disk_space :: int
  lm_threads :: string
  lm_oom_disabled :: bool

record overhead =
  oh_override :: bool
  oh_default :: rat
  oh_multipliers :: "(int \<times> rat) list"

fun first_at_least :: "int \<Rightarrow> int list \<Rightarrow> int option" where
  "first_at_least m [] = None"
| "first_at_least m (k # ks) = (if m > k then first_at_least m ks else Some k)"

definition get_multiplier :: "overhead \<Rightarrow> int \<Rightarrow> rat" where
  "get_multiplier oh mem =
     (if \<not> oh_override oh then
        (if mem \<le> 2048 then 115 / 100 else if mem \<le> 4096 then 110 / 100 else 105 / 100)
      else
        (case first_at_least mem (sort (List.map fst (oh_multipliers oh))) of
           None \<Rightarrow> oh_default oh
         | Some k \<Rightarrow> (case map_of (oh_multipliers oh) k of None \<Rightarrow> 0 | Some f \<Rightarrow> f)))"

definition converted_cpu_limit :: "limits \<Rightarrow> int" where
  "converted_cpu_limit l = (if lm_cpu l = 0 then -1 else wrap64 (lm_cpu l * 1000))"

text \<open>\<open>bounded\<close> is \<open>int64(math.Round(float64(limit) * multiplier * 1024 * 1024))\<close>.\<close>

definition converted_swap :: "(int \<Rightarrow> int) \<Rightarrow> limits \<Rightarrow> int" where
  "converted_swap bounded l =
     (if lm_swap l < 0 then -1
      else wrap64 (wrap64 (lm_swap l * 1024 * 1024) + bounded (lm_memory l)))"

record resources =
  rs_memory :: int
  rs_memory_reservation :: int
  rs_memory_swap :: int
  rs_blkio_weight :: int
  rs_oom_kill_disable :: bool
  rs_pids_limit :: int
  rs_cpu_quota :: int
  rs_cpu_period :: int
  rs_cpu_shares :: int
  rs_cpuset :: string

definition as_container_resources :: "int \<Rightarrow> (int \<Rightarrow> int) \<Rightarrow> limits \<Rightarrow> resources" where
  "as_container_resources pids bounded l =
     (let r = \<lparr>rs_memory = bounded (lm_memory l),
               rs_memory_reservation = wrap64 (lm_memory l * 1024 * 1024),
               rs_memory_swap = converted_swap bounded l,
               rs_blkio_weight = lm_io_weight l,
               rs_oom_kill_disable = lm_oom_disabled l,
               rs_pids_limit = pids,
               rs_cpu_quota = 0, rs_cpu_period = 0, rs_cpu_shares = 0, rs_cpuset = []\<rparr>;
          r1 = (if lm_cpu l > 0
                then r\<lparr>rs_cpu_quota := wrap64 (lm_cpu l * 1000), rs_cpu_period := 100000,
                       rs_cpu_shares := 1024\<rparr>
                else r)
      in if lm_threads l \<noteq> [] then r1\<lparr>rs_cpuset := lm_threads l\<rparr> else r1)"

section \<open>Variables\<close>

text \<open>
  The dynamic values of the panel's variables; floats are of a type \<open>'f\<close> which \<open>fmt\<close> renders
  with \<open>%f\<close>. The \<open>int32\<close> case asserts the wrong type.
\<close>

datatype 'f env_val =
    EInt int | EInt32 int | EInt64 int | EFloat32 'f | EFloat64 'f | EBool bool | EString string | EOtherVal

fun env_val_string :: "('f \<Rightarrow> string) \<Rightarrow> 'f env_val \<Rightarrow> string go" where
  "env_val_string fmt (EInt i) = Ret (itoa i)"
| "env_val_string fmt (EInt32 i) = Panic ''interface conversion: interface is int32, not int64''"
| "env_val_string fmt (EInt64 i) = Ret (itoa i)"
| "env_val_string fmt (EFloat32 f) = Ret (fmt f)"
| "env_val_string fmt (EFloat64 f) = Ret (fmt f)"
| "env_val_string fmt (EBool b) = Ret (if b then ''true'' else ''false'')"
| "env_val_string fmt (EString s) = Ret s"
| "env_val_string fmt EOtherVal = Ret []"

definition variables_get :: "('f \<Rightarrow> string) \<Rightarrow> (string \<rightharpoonup> 'f env_val) \<Rightarrow> string \<Rightarrow> string go" where
  "variables_get fmt v key = (case v key of None \<Rightarrow> Ret [] | Some x \<Rightarrow> env_val_string fmt x)"

text \<open>\<open>strings.ToUpper\<close> on ASCII, which the panel's variable names are.\<close>

definition upper_char :: "char \<Rightarrow> char" where
  "upper_char c = (if 97 \<le> (of_char c :: nat) \<and> (of_char c :: nat) \<le> 122
                   then char_of ((of_char c :: nat) - 32) else c)"

definition to_upper :: "string \<Rightarrow> string" where "to_upper = List.map upper_char"

record server_env_config =
  sc_timezone :: string
  sc_invocation :: string
  sc_memory_limit :: int
  sc_default_ip :: string
  sc_default_port :: int

definition reserved_vars :: "server_env_config \<Rightarrow> string list" where
  "reserved_vars c =
     [''TZ='' @ sc_timezone c, ''STARTUP='' @ sc_invocation c,
      ''SERVER_MEMORY='' @ itoa (sc_memory_limit c),
      ''SERVER_IP='' @ sc_default_ip c, ''SERVER_PORT='' @ itoa (sc_default_port c)]"

fun env_loop ::
  "('f \<Rightarrow> string) \<Rightarrow> (string \<rightharpoonup> 'f env_val) \<Rightarrow> string list \<Rightarrow> string list \<Rightarrow> string list go" where
  "env_loop fmt v [] out = Ret out"
| "env_loop fmt v (k # ks) out =
     (if list_ex (\<lambda>e. has_prefix e (to_upper k @ ''='')) out then env_loop fmt v ks out
      else go_bind (variables_get fmt v k)
             (\<lambda>s. env_loop fmt v ks (out @ [to_upper k @ ''='' @ s])))"

definition get_environment_variables ::
  "('f \<Rightarrow> string) \<Rightarrow> server_env_config \<Rightarrow> (string \<rightharpoonup> 'f env_val) \<Rightarrow> string list \<Rightarrow> string list go" where
  "get_environment_variables fmt c v keys = env_loop fmt v keys (reserved_vars c)"

definition var_name :: "string \<Rightarrow> string" where
  "var_name e = takeWhile (\<lambda>c. c \<noteq> CHR ''='') e"

section \<open>The configuration object\<close>

record mount =
  mt_default :: bool
  mt_target :: string
  mt_source :: string
  mt_read_only :: bool

record settings =
  st_mounts :: "mount list"
  st_allocations :: allocations
  st_limits :: limits
  st_labels :: "string \<rightharpoonup> string"

record env_configuration =
  ec_env_vars :: "string list"
  ec_settings :: settings

definition new_configuration :: "settings \<Rightarrow> string list \<Rightarrow> env_configuration" where
  "new_configuration s ev = \<lparr>ec_env_vars = ev, ec_settings = s\<rparr>"

definition set_settings :: "settings \<Rightarrow> env_configuration \<Rightarrow> env_configuration" where
  "set_settings s c = c\<lparr>ec_settings := s\<rparr>"

definition set_environment_variables :: "string list \<Rightarrow> env_configuration \<Rightarrow> env_configuration" where
  "set_environment_variables ev c = c\<lparr>ec_env_vars := ev\<rparr>"

definition cfg_limits :: "env_configuration \<Rightarrow> limits" where
  "cfg_limits c = st_limits (ec_settings c)"

definition cfg_allocations :: "env_configuration \<Rightarrow> allocations" where
  "cfg_allocations c = st_allocations (ec_settings c)"

definition cfg_mounts :: "env_configuration \<Rightarrow> mount list" where
  "cfg_mounts c = st_mounts (ec_settings c)"

definition cfg_labels :: "env_configuration \<Rightarrow> string \<rightharpoonup> string" where
  "cfg_labels c = st_labels (ec_settings c)"

definition cfg_environment_variables :: "env_configuration \<Rightarrow> string list" where
  "cfg_environment_variables c = ec_env_vars c"

section \<open>Ports\<close>

lemma itoa_inject [simp]: "0 \<le> p \<Longrightarrow> 0 \<le> q \<Longrightarrow> itoa p = itoa q \<longleftrightarrow> p = q"
  by (simp add: itoa_def eq_nat_nat_iff)

lemma valid_port_pos [simp]: "valid_port p \<Longrightarrow> 0 \<le> p"
  by (simp add: valid_port_def)

lemma port_keys [simp]:
  "tcp_port p \<noteq> udp_port q" "udp_port q \<noteq> tcp_port p"
  "valid_port p \<Longrightarrow> valid_port q \<Longrightarrow> tcp_port p = tcp_port q \<longleftrightarrow> p = q"
  "valid_port p \<Longrightarrow> valid_port q \<Longrightarrow> udp_port p = udp_port q \<longleftrightarrow> p = q"
  by (auto simp: tcp_port_def udp_port_def append_eq_append_conv_if)

definition mapping_pairs :: "allocations \<Rightarrow> (string \<times> int) list" where
  "mapping_pairs a = concat (List.map (\<lambda>(ip, ports). List.map (Pair ip) ports) (al_mappings a))"

lemma bindings_pairs: "bindings a = fold (\<lambda>(ip, p). add_binding ip p) (mapping_pairs a) Map.empty"
proof -
  have inner: "fold (\<lambda>(ip, p). add_binding ip p) (List.map (Pair ip) ports) m = fold (add_binding ip) ports m"
    for ip ports m by (induction ports arbitrary: m) simp_all
  have "fold (\<lambda>(ip, ports) out. fold (add_binding ip) ports out) xs m
      = fold (\<lambda>(ip, p). add_binding ip p) (concat (List.map (\<lambda>(ip, ports). List.map (Pair ip) ports) xs)) m"
    for xs m by (induction xs arbitrary: m) (auto simp: inner)
  then show ?thesis by (simp add: bindings_def mapping_pairs_def)
qed

definition bindings_of :: "int \<Rightarrow> (string \<times> int) list \<Rightarrow> port_binding list" where
  "bindings_of p ps = List.map (\<lambda>(ip, q). \<lparr>pb_host_ip = ip, pb_host_port = itoa q\<rparr>) (filter (\<lambda>(ip, q). q = p) ps)"

lemma add_binding_valid:
  "valid_port q \<Longrightarrow> add_binding ip q m =
     (let b = \<lparr>pb_host_ip = ip, pb_host_port = itoa q\<rparr>;
          m1 = m(tcp_port q \<mapsto> pm_get m (tcp_port q) @ [b])
      in m1(udp_port q \<mapsto> pm_get m1 (udp_port q) @ [b]))"
  by (simp add: add_binding_def valid_port_def)

lemma add_binding_invalid [simp]: "\<not> valid_port q \<Longrightarrow> add_binding ip q m = m"
  by (simp add: add_binding_def valid_port_def)

lemma add_binding_get:
  assumes "valid_port p"
  shows "pm_get (add_binding ip q m) (tcp_port p) = pm_get m (tcp_port p) @ bindings_of p [(ip, q)]"
    and "pm_get (add_binding ip q m) (udp_port p) = pm_get m (udp_port p) @ bindings_of p [(ip, q)]"
  using assms by (cases "valid_port q"; auto simp: add_binding_valid Let_def pm_get_def bindings_of_def)+

lemma add_bindings_get:
  assumes "valid_port p"
  shows "pm_get (fold (\<lambda>(ip, q). add_binding ip q) ps m) (tcp_port p) = pm_get m (tcp_port p) @ bindings_of p ps"
    and "pm_get (fold (\<lambda>(ip, q). add_binding ip q) ps m) (udp_port p) = pm_get m (udp_port p) @ bindings_of p ps"
  by (induction ps arbitrary: m) (auto simp: add_binding_get [OF assms] bindings_of_def)

lemma add_binding_dom:
  "dom (add_binding ip q m) = dom m \<union> (if valid_port q then {tcp_port q, udp_port q} else {})"
  by (cases "valid_port q") (auto simp: add_binding_valid Let_def)

lemma add_bindings_dom:
  "dom (fold (\<lambda>(ip, q). add_binding ip q) ps m)
     = dom m \<union> (\<Union>q \<in> {q \<in> snd ` set ps. valid_port q}. {tcp_port q, udp_port q})"
proof (induction ps arbitrary: m)
  case (Cons x ps)
  then show ?case by (cases x) (simp add: add_binding_dom, blast)
qed simp

section \<open>Local bindings\<close>

lemma ispn_loop_skip:
  "(\<And>i. i \<in> set is \<Longrightarrow> pb_host_ip (arr ! i) \<noteq> localhost) \<Longrightarrow> ispn_loop is (arr, n) = Ret (arr, n)"
  by (induction "is") (auto simp: ispn_step_def)

lemma ispn_loop_append: "ispn_loop (xs @ ys) s = go_bind (ispn_loop xs s) (ispn_loop ys)"
proof (induction xs arbitrary: s)
  case (Cons x xs)
  have "ispn_loop (xs @ ys) = (\<lambda>t. go_bind (ispn_loop xs t) (ispn_loop ys))"
    by (rule ext) (rule Cons.IH)
  then show ?case by (simp add: go_bind_assoc)
qed simp

definition is_local :: "port_binding \<Rightarrow> bool" where
  "is_local b \<longleftrightarrow> pb_host_ip b = localhost"

lemma ispn_delete_none: "filter is_local bs = [] \<Longrightarrow> ispn_delete bs = Ret bs"
  using ispn_loop_skip [of "[0..<length bs]" bs "length bs"]
  by (simp add: ispn_delete_def is_local_def filter_empty_conv)

lemma ispn_delete_one:
  assumes "bs = xs @ l # ys" and "is_local l" and "filter is_local (xs @ ys) = []"
  shows "ispn_delete bs = Ret (xs @ ys)"
proof -
  have no: "\<And>b. b \<in> set xs \<union> set ys \<Longrightarrow> pb_host_ip b \<noteq> localhost"
    using assms(3) by (auto simp: filter_empty_conv is_local_def)
  let ?arr = "xs @ ys @ [last (l # ys)]"
  have "[0..<length bs] = [0..<length xs] @ [length xs..<length bs]"
    using upt_add_eq_append [of 0 "length xs" "Suc (length ys)"] assms(1) by simp
  also have "[length xs..<length bs] = length xs # [Suc (length xs)..<length bs]"
    using assms(1) by (intro upt_conv_Cons) simp
  finally have split: "[0..<length bs] = [0..<length xs] @ length xs # [Suc (length xs)..<length bs]" .
  have first: "ispn_loop [0..<length xs] (bs, length bs) = Ret (bs, length bs)"
    using assms(1) no by (intro ispn_loop_skip) (simp add: nth_append)
  have "drop (length bs - 1) bs = [last (l # ys)]"
    using assms(1) by (cases ys rule: rev_cases) simp_all
  then have mid: "ispn_step (length xs) (bs, length bs) = Ret (?arr, length bs - 1)"
    using assms(1,2) by (simp add: ispn_step_def is_local_def)
  have "pb_host_ip (?arr ! i) \<noteq> localhost" if "i \<in> set [Suc (length xs)..<length bs]" for i
  proof -
    have "ys \<noteq> []" using that assms(1) by auto
    then obtain y zs where "ys = zs @ [y]" by (cases ys rule: rev_cases) auto
    then have "set (ys @ [last (l # ys)]) = set ys" by auto
    moreover have "i - length xs < length (ys @ [last (l # ys)])" using that assms(1) by auto
    ultimately have "(ys @ [last (l # ys)]) ! (i - length xs) \<in> set ys" by (metis nth_mem)
    moreover have "?arr ! i = (ys @ [last (l # ys)]) ! (i - length xs)"
      using that by (simp add: nth_append)
    ultimately show ?thesis using no by simp
  qed
  then have rest: "ispn_loop [Suc (length xs)..<length bs] (?arr, length bs - 1) = Ret (?arr, length bs - 1)"
    by (rule ispn_loop_skip)
  have "ispn_loop [0..<length bs] (bs, length bs) = Ret (?arr, length bs - 1)"
    unfolding split ispn_loop_append first by (simp only: go_bind.simps ispn_loop.simps mid rest)
  then show ?thesis
    using assms(1) by (simp add: ispn_delete_def)
qed

lemma ispn_delete_filter:
  assumes "length (filter is_local bs) \<le> 1"
  shows "ispn_delete bs = Ret (filter (\<lambda>b. \<not> is_local b) bs)"
proof (cases "filter is_local bs")
  case Nil
  then show ?thesis by (simp add: ispn_delete_none filter_empty_conv)
next
  case (Cons l ls)
  with assms have "filter is_local bs = [l]" by simp
  then obtain xs ys where bs: "bs = xs @ l # ys" "is_local l" "filter is_local xs = []" "filter is_local ys = []"
    unfolding filter_eq_Cons_iff by (metis filter_empty_conv)
  then have "filter (\<lambda>b. \<not> is_local b) bs = xs @ ys" by (simp add: filter_empty_conv)
  with bs ispn_delete_one [OF bs(1,2)] show ?thesis by simp
qed

section \<open>Environment variables\<close>

definition named :: "string \<Rightarrow> bool" where "named e \<longleftrightarrow> CHR ''='' \<in> set e"

lemma upper_char_eq: "upper_char c = CHR ''='' \<longleftrightarrow> c = CHR ''=''"
proof (cases "97 \<le> (of_char c :: nat) \<and> (of_char c :: nat) \<le> 122")
  case True
  then have *: "(of_char c :: nat) - 32 \<noteq> 61" "(of_char c :: nat) \<noteq> 61" "(of_char c :: nat) - 32 < 256"
    by auto
  have "char_of ((of_char c :: nat) - 32) \<noteq> CHR ''=''"
  proof
    assume "char_of ((of_char c :: nat) - 32) = CHR ''=''"
    then have "(of_char (char_of ((of_char c :: nat) - 32) :: char) :: nat) = 61" by simp
    with *(1,3) show False by simp
  qed
  moreover have "c \<noteq> CHR ''=''" using *(2) by auto
  moreover note True
  ultimately show ?thesis by (simp add: upper_char_def)
qed (auto simp: upper_char_def)

lemma takeWhile_sep_free: "c \<notin> set u \<Longrightarrow> takeWhile (\<lambda>x. x \<noteq> c) u = u"
  by (induction u) auto

lemma named_prefix_iff:
  assumes "CHR ''='' \<notin> set u" and "named e"
  shows "has_prefix e (u @ ''='') \<longleftrightarrow> var_name e = u"
proof
  assume "has_prefix e (u @ ''='')"
  then obtain t where "e = u @ CHR ''='' # t" by (auto simp: has_prefix_iff)
  with assms(1) show "var_name e = u" by (simp add: var_name_def takeWhile_append takeWhile_sep_free)
next
  assume v: "var_name e = u"
  obtain a t where "dropWhile (\<lambda>c. c \<noteq> CHR ''='') e = a # t"
    using assms(2) by (cases "dropWhile (\<lambda>c. c \<noteq> CHR ''='') e") (auto simp: named_def)
  moreover then have "a = CHR ''=''" using hd_dropWhile [of "\<lambda>c. c \<noteq> CHR ''=''" e] by auto
  ultimately have "e = u @ ''='' @ t"
    using v takeWhile_dropWhile_id [of "\<lambda>c. c \<noteq> CHR ''=''" e] by (simp add: var_name_def)
  then show "has_prefix e (u @ ''='')" by (simp add: has_prefix_iff)
qed

lemma to_upper_no_eq [simp]: "CHR ''='' \<notin> set (to_upper k) \<longleftrightarrow> CHR ''='' \<notin> set k"
  by (auto simp: to_upper_def image_iff upper_char_eq eq_commute [of "CHR ''=''" "upper_char _"])

lemma var_name_append: "CHR ''='' \<notin> set u \<Longrightarrow> var_name (u @ ''='' @ t) = u"
  by (simp add: var_name_def takeWhile_append takeWhile_sep_free)

text \<open>The loop only appends, every name it appends is new, and every key gets an entry.\<close>

lemma env_loop_spec:
  assumes "env_loop fmt v ks out = Ret out'" and "\<forall>k \<in> set ks. CHR ''='' \<notin> set k"
    and "\<forall>e \<in> set out. named e" and "distinct (List.map var_name out)"
  shows "\<exists>new. out' = out @ new \<and> (\<forall>e \<in> set out'. named e) \<and> distinct (List.map var_name out')
             \<and> var_name ` set out' = var_name ` set out \<union> to_upper ` set ks"
  using assms
proof (induction fmt v ks out rule: env_loop.induct)
  case (2 fmt v k ks out)
  let ?u = "to_upper k"
  have u: "CHR ''='' \<notin> set ?u" using 2(4) by simp
  have ex: "list_ex (\<lambda>e. has_prefix e (?u @ ''='')) out \<longleftrightarrow> ?u \<in> var_name ` set out"
    using 2(5) named_prefix_iff [OF u] by (auto simp: list_ex_iff image_iff eq_commute [of "?u"])
  show ?case
  proof (cases "list_ex (\<lambda>e. has_prefix e (?u @ ''='')) out")
    case True
    then show ?thesis using 2(1) [OF True] 2(3-6) ex by auto
  next
    case False
    then obtain s where loop: "env_loop fmt v ks (out @ [?u @ ''='' @ s]) = Ret out'"
      using 2(3) by auto
    have n: "var_name (?u @ ''='' @ s) = ?u" by (rule var_name_append [OF u])
    have "\<forall>e \<in> set (out @ [?u @ ''='' @ s]). named e" using 2(5) by (auto simp: named_def)
    moreover have "distinct (List.map var_name (out @ [?u @ ''='' @ s]))"
      using 2(6) n ex False by auto
    ultimately show ?thesis
      using 2(2) [OF False loop] 2(4) n by auto
  qed
qed simp


section \<open>Limits\<close>

lemma first_at_least_sorted:
  assumes "sorted ks" and "\<exists>k \<in> set ks. m \<le> k"
  shows "first_at_least m ks = Some (Min {k \<in> set ks. m \<le> k})"
  using assms
proof (induction ks)
  case (Cons k ks)
  show ?case
  proof (cases "m > k")
    case True
    then have "{x \<in> set (k # ks). m \<le> x} = {x \<in> set ks. m \<le> x}" by auto
    with True Cons show ?thesis by auto
  next
    case False
    with Cons.prems(1) have "Min {x \<in> set (k # ks). m \<le> x} = k"
      by (intro Min_eqI) auto
    with False show ?thesis by simp
  qed
qed simp

lemma get_multiplier_least:
  assumes "oh_override oh" and "\<exists>k \<in> fst ` set (oh_multipliers oh). mem \<le> k"
  shows "map_of (oh_multipliers oh) (Min {k \<in> fst ` set (oh_multipliers oh). mem \<le> k})
           = Some (get_multiplier oh mem)"
proof -
  let ?K = "{k \<in> fst ` set (oh_multipliers oh). mem \<le> k}"
  have "first_at_least mem (sort (List.map fst (oh_multipliers oh))) = Some (Min ?K)"
    using first_at_least_sorted [of "sort (List.map fst (oh_multipliers oh))" mem] assms(2) by auto
  moreover have "Min ?K \<in> ?K" using assms(2) by (intro Min_in) auto
  then obtain f where "map_of (oh_multipliers oh) (Min ?K) = Some f"
    by (metis (mono_tags, lifting) CollectD map_of_eq_None_iff not_None_eq)
  ultimately show ?thesis using assms(1) by (simp add: get_multiplier_def)
qed

section \<open>Properties\<close>

definition local_free :: "string \<Rightarrow> bool \<Rightarrow> port_binding list \<Rightarrow> port_binding list" where
  "local_free iface ispn bs = (if ispn then filter (\<lambda>b. \<not> is_local b) bs else remap_local iface bs)"

lemma local_free_not_local: "iface \<noteq> localhost \<Longrightarrow> b \<in> set (local_free iface ispn bs) \<Longrightarrow> \<not> is_local b"
  by (auto simp: local_free_def remap_local_def is_local_def split: if_splits)

lemma docker_binding_list_local_free:
  "length (filter is_local bs) \<le> 1 \<Longrightarrow> docker_binding_list iface ispn bs = Ret (local_free iface ispn bs)"
  by (simp add: docker_binding_list_def local_free_def ispn_delete_filter)

lemma convert_bindings_spec:
  assumes "distinct keys" and "\<And>k. k \<in> set keys \<Longrightarrow> length (filter is_local (pm_get out k)) \<le> 1"
  shows "convert_bindings iface ispn keys out
           = Ret (\<lambda>k. if k \<in> set keys then Some (local_free iface ispn (pm_get out k)) else out k)"
  using assms
proof (induction keys arbitrary: out)
  case (Cons k keys)
  let ?out = "out(k \<mapsto> local_free iface ispn (pm_get out k))"
  have same: "pm_get ?out k' = pm_get out k'" if "k' \<in> set keys" for k'
    using that Cons.prems(1) by (auto simp: pm_get_def)
  have "docker_binding_list iface ispn (pm_get out k) = Ret (local_free iface ispn (pm_get out k))"
    using Cons.prems(2) [of k] by (intro docker_binding_list_local_free) simp
  moreover have "convert_bindings iface ispn keys ?out
           = Ret (\<lambda>k. if k \<in> set keys then Some (local_free iface ispn (pm_get ?out k)) else ?out k)"
  proof (rule Cons.IH)
    show "length (filter is_local (pm_get ?out k')) \<le> 1" if "k' \<in> set keys" for k'
      using Cons.prems(2) [of k'] that by (simp only: same) simp
  qed (use Cons.prems in simp)
  ultimately show ?case
    using Cons.prems(1) same by (auto simp: fun_eq_iff)
qed simp

lemma bindings_of_local_one:
  assumes "distinct (filter (\<lambda>x. fst x = localhost) ps)"
  shows "length (filter is_local (bindings_of p ps)) \<le> 1"
proof -
  have "length (filter is_local (bindings_of p ps)) = length (filter (\<lambda>x. x = (localhost, p)) ps)"
    by (induction ps) (auto simp: bindings_of_def is_local_def)
  also have "filter (\<lambda>x. x = (localhost, p)) ps = filter (\<lambda>x. x = (localhost, p)) (filter (\<lambda>x. fst x = localhost) ps)"
    by (induction ps) auto
  also have "length \<dots> = card (set (filter (\<lambda>x. x = (localhost, p)) (filter (\<lambda>x. fst x = localhost) ps)))"
    by (rule distinct_card [symmetric]) (rule distinct_filter [OF assms])
  also have "\<dots> \<le> card {(localhost, p)}" by (intro card_mono) auto
  finally show ?thesis by simp
qed

lemma bindings_keys:
  assumes "k \<in> dom (bindings a)"
  shows "\<exists>p. valid_port p \<and> (k = tcp_port p \<or> k = udp_port p)"
  using assms by (auto simp: bindings_pairs add_bindings_dom)

lemma bindings_get:
  "valid_port p \<Longrightarrow> pm_get (bindings a) (tcp_port p) = bindings_of p (mapping_pairs a)"
  "valid_port p \<Longrightarrow> pm_get (bindings a) (udp_port p) = bindings_of p (mapping_pairs a)"
  by (simp_all add: bindings_pairs add_bindings_get) (simp_all add: pm_get_def)

text \<open>
  What a server exposes. If no address lists 127.0.0.1 twice for the same port, \<open>DockerBindings\<close>
  returns, whatever the order of the map, a binding per mapping and valid port, the same for TCP and
  UDP and in the order of the mappings; 127.0.0.1 is nowhere in it: its bindings are left out with
  ISPN and moved to the bridge interface without; all others are kept as they are.
\<close>

theorem docker_bindings_exact:
  assumes "distinct keys" and "set keys = dom (bindings a)" and "iface \<noteq> localhost"
    and one: "distinct (filter (\<lambda>x. fst x = localhost) (mapping_pairs a))"
  shows "\<exists>m. docker_bindings iface ispn keys a = Ret m
           \<and> dom m = (\<Union>p \<in> {p \<in> snd ` set (mapping_pairs a). valid_port p}. {tcp_port p, udp_port p})
           \<and> (\<forall>p. valid_port p \<longrightarrow>
                pm_get m (tcp_port p) = local_free iface ispn (bindings_of p (mapping_pairs a))
              \<and> pm_get m (udp_port p) = local_free iface ispn (bindings_of p (mapping_pairs a)))
           \<and> (\<forall>k. \<forall>b \<in> set (pm_get m k). \<not> is_local b)"
proof -
  let ?m = "\<lambda>k. if k \<in> set keys then Some (local_free iface ispn (pm_get (bindings a) k)) else bindings a k"
  have few: "length (filter is_local (pm_get (bindings a) k)) \<le> 1" if "k \<in> set keys" for k
    using bindings_keys [of k a] that assms(2) bindings_of_local_one [OF one] bindings_get by metis
  have "docker_bindings iface ispn keys a = Ret ?m"
    unfolding docker_bindings_def by (rule convert_bindings_spec [OF assms(1) few])
  moreover have m: "pm_get ?m k = local_free iface ispn (pm_get (bindings a) k)" for k
    using assms(2) by (auto simp: pm_get_def local_free_def remap_local_def split: option.split)
  moreover have "dom ?m = dom (bindings a)" using assms(2) by (auto split: if_splits)
  moreover have "dom (bindings a)
      = (\<Union>p \<in> {p \<in> snd ` set (mapping_pairs a). valid_port p}. {tcp_port p, udp_port p})"
    by (simp add: bindings_pairs add_bindings_dom)
  ultimately show ?thesis
    using local_free_not_local [OF assms(3)] bindings_get
    by - (rule exI [of _ ?m], simp)
qed

definition sample_allocations :: allocations where
  "sample_allocations = \<lparr>al_force_outgoing_ip = False, al_default_ip = ''10.0.0.1'', al_default_port = 80,
     al_mappings = [(''10.0.0.1'', [80]), (localhost, [80])]\<rparr>"

theorem docker_bindings_exact_witness:
  "\<exists>m. docker_bindings ''172.18.0.1'' True [''80/udp'', ''80/tcp''] sample_allocations = Ret m
     \<and> pm_get m ''80/tcp'' = [\<lparr>pb_host_ip = ''10.0.0.1'', pb_host_port = ''80''\<rparr>]"
proof -
  have eighty: "tcp_port 80 = ''80/tcp''" "udp_port 80 = ''80/udp''" "itoa 80 = ''80''"
    by (simp_all add: tcp_port_def udp_port_def itoa_eval)
  have d: "dom (bindings sample_allocations) = {''80/udp'', ''80/tcp''}"
    unfolding bindings_pairs add_bindings_dom
    by (auto simp: sample_allocations_def mapping_pairs_def valid_port_def eighty)
  have pre: "distinct [''80/udp'', ''80/tcp'']" "set [''80/udp'', ''80/tcp''] = dom (bindings sample_allocations)"
    "(''172.18.0.1'' :: string) \<noteq> localhost"
    "distinct (filter (\<lambda>x. fst x = localhost) (mapping_pairs sample_allocations))"
    unfolding d by (simp_all add: localhost_def mapping_pairs_def sample_allocations_def)
  obtain m where m: "docker_bindings ''172.18.0.1'' True [''80/udp'', ''80/tcp''] sample_allocations = Ret m"
    and get: "\<forall>p. valid_port p \<longrightarrow>
      pm_get m (tcp_port p) = local_free ''172.18.0.1'' True (bindings_of p (mapping_pairs sample_allocations))
    \<and> pm_get m (udp_port p) = local_free ''172.18.0.1'' True (bindings_of p (mapping_pairs sample_allocations))"
    using docker_bindings_exact [OF pre, of True] by blast
  have "pm_get m (tcp_port 80)
      = local_free ''172.18.0.1'' True (bindings_of 80 (mapping_pairs sample_allocations))"
    using get by (simp add: valid_port_def)
  with m show ?thesis
    by (auto simp: eighty local_free_def bindings_of_def sample_allocations_def mapping_pairs_def is_local_def localhost_def)
qed

text \<open>With ISPN, a port listed twice for 127.0.0.1 (and nowhere else) makes \<open>DockerBindings\<close> panic.\<close>

lemma ispn_duplicate_panics:
  "pb_host_ip b = localhost \<Longrightarrow> ispn_delete [b, b] = Panic ''slice bounds out of range''"
  by (simp add: ispn_delete_def ispn_step_def)

text \<open>
  A server's environment variables have distinct names, the five that Elytra sets itself are never
  overridden, whatever the panel's variables are called, and every variable of the panel (no name
  containing \<open>=\<close>) is present under its upper-case name.
\<close>

theorem env_variables_unique:
  assumes "get_environment_variables fmt c v keys = Ret out"
    and "\<forall>k \<in> set keys. CHR ''='' \<notin> set k"
  shows "distinct (List.map var_name out)
       \<and> (\<exists>new. out = reserved_vars c @ new)
       \<and> var_name ` set out
           = {''TZ'', ''STARTUP'', ''SERVER_MEMORY'', ''SERVER_IP'', ''SERVER_PORT''} \<union> to_upper ` set keys"
proof -
  have names: "List.map var_name (reserved_vars c)
      = [''TZ'', ''STARTUP'', ''SERVER_MEMORY'', ''SERVER_IP'', ''SERVER_PORT'']"
    by (simp add: reserved_vars_def var_name_def)
  have "\<forall>e \<in> set (reserved_vars c). named e"
    by (simp add: reserved_vars_def named_def)
  moreover have "distinct (List.map var_name (reserved_vars c))"
    unfolding names by simp
  moreover have "var_name ` set (reserved_vars c)
      = {''TZ'', ''STARTUP'', ''SERVER_MEMORY'', ''SERVER_IP'', ''SERVER_PORT''}"
    using arg_cong [OF names, of set] by simp
  ultimately show ?thesis
    using env_loop_spec [OF assms(1)[unfolded get_environment_variables_def] assms(2)] by auto
qed

definition sample_env_config :: server_env_config where
  "sample_env_config = \<lparr>sc_timezone = ''UTC'', sc_invocation = ''./run'', sc_memory_limit = 1024,
     sc_default_ip = ''10.0.0.1'', sc_default_port = 25565\<rparr>"

theorem env_variables_unique_witness:
  "distinct (List.map var_name (reserved_vars sample_env_config @ [''MODE=x'']))"
proof -
  let ?v = "[''startup'' \<mapsto> EString ''rm'', ''mode'' \<mapsto> EString ''x'', ''Mode'' \<mapsto> EBool True] :: string \<rightharpoonup> unit env_val"
  have up: "to_upper ''startup'' = ''STARTUP''" "to_upper ''mode'' = ''MODE''" "to_upper ''Mode'' = ''MODE''"
    by code_simp+
  have "get_environment_variables (\<lambda>_. []) sample_env_config ?v [''startup'', ''mode'', ''Mode'']
      = Ret (reserved_vars sample_env_config @ [''MODE=x''])"
    by (simp add: get_environment_variables_def reserved_vars_def up has_prefix_def variables_get_def)
  then show ?thesis by (rule env_variables_unique [THEN conjunct1]) simp
qed

end
