(* ===== verification/Docker_Env.thy ===== *)
theory Docker_Env
  imports Process_Env Environment_Config
begin

text \<open>
  The Docker environment: its object (\<open>src/environment/docker/environment.go\<close>), the calls that
  create, attach, update and destroy the container (\<open>container.go\<close>) and the memory figure of its
  statistics (\<open>stats.go\<close>). The Docker client and the daemon behind it are a parameter: a record of
  functions on a daemon state \<open>'d\<close>, whose errors include those that an expired context causes.
  The events published on the environment's bus are kept, in order, in \<open>de_events\<close>.
\<close>

section \<open>The Docker client\<close>

record container_state =
  cs_running :: bool
  cs_exit_code :: int
  cs_oom_killed :: bool
  cs_started_at :: string
  cs_log_path :: string

record container_spec =
  sp_hostname :: string
  sp_domainname :: string
  sp_exposed :: "string set"
  sp_image :: string
  sp_env :: "string list"
  sp_labels :: "string \<rightharpoonup> string"
  sp_user :: string
  sp_ports :: port_map
  sp_mounts :: "(string \<times> string \<times> bool) list"
  sp_tmpfs :: "string \<rightharpoonup> string"
  sp_resources :: resources
  sp_dns :: "string list"
  sp_log :: "(string \<times> (string \<rightharpoonup> string)) option"
  sp_security_opt :: "string list"
  sp_readonly_rootfs :: bool
  sp_cap_drop :: "string list"
  sp_network_mode :: string
  sp_userns_mode :: string

text \<open>
  Waiting for the container ends because the parent context did, with a value of the error channel
  (a receive on a closed channel gives no error), or because the container stopped.
\<close>

datatype wait_result = WaitParentDone gerr | WaitErr "gerr option" | WaitOk

record 'd docker_client =
  dc_inspect :: "'d \<Rightarrow> (gerr + container_state) \<times> 'd"
  dc_remove :: "bool \<Rightarrow> bool \<Rightarrow> 'd \<Rightarrow> gerr option \<times> 'd"
  dc_create :: "container_spec \<Rightarrow> 'd \<Rightarrow> gerr option \<times> 'd"
  dc_start :: "'d \<Rightarrow> gerr option \<times> 'd"
  dc_stop :: "int \<Rightarrow> 'd \<Rightarrow> gerr option \<times> 'd"
  dc_kill :: "string \<Rightarrow> 'd \<Rightarrow> gerr option \<times> 'd"
  dc_wait :: "'d \<Rightarrow> wait_result \<times> 'd"
  dc_attach :: "'d \<Rightarrow> gerr option \<times> 'd"
  dc_reader_wait :: "'d \<Rightarrow> gerr option \<times> 'd"
  dc_update :: "resources \<Rightarrow> 'd \<Rightarrow> gerr option \<times> 'd"
  dc_write :: "string \<Rightarrow> 'd \<Rightarrow> gerr option \<times> 'd"
  dc_logs :: "int \<Rightarrow> 'd \<Rightarrow> (gerr + string list) \<times> 'd"
  dc_network_inspect :: "string \<Rightarrow> 'd \<Rightarrow> gerr option \<times> 'd"
  dc_network_create :: "string \<Rightarrow> string \<Rightarrow> 'd \<Rightarrow> gerr option \<times> 'd"
  dc_image_pull :: "string \<Rightarrow> string \<Rightarrow> 'd \<Rightarrow> (gerr + ((string \<times> string) list \<times> gerr option)) \<times> 'd"
  dc_image_list :: "'d \<Rightarrow> (gerr + string list list) \<times> 'd"
  dc_log_exists :: "string \<Rightarrow> 'd \<Rightarrow> bool \<times> 'd"
  dc_log_truncate :: "string \<Rightarrow> 'd \<Rightarrow> gerr option \<times> 'd"

section \<open>The environment\<close>

datatype env_event =
    EvState proc_state
  | EvPullStarted
  | EvPullStatus string
  | EvPullCompleted

record 'd docker_env =
  de_id :: string
  de_state :: proc_state
  de_stream :: bool
  de_stop_type :: string
  de_stop_value :: string
  de_image :: string
  de_config :: env_configuration
  de_events :: "env_event list"
  de_daemon :: 'd

text \<open>The parts of Elytra's configuration that the container is built from.\<close>

record docker_settings =
  dk_interface :: string
  dk_ispn :: bool
  dk_network_mode :: string
  dk_domainname :: string
  dk_rootless :: "(int \<times> int) option"
  dk_user :: "int \<times> int"
  dk_tmpfs_size :: int
  dk_dns :: "string list"
  dk_log_type :: string
  dk_log_config :: "string \<rightharpoonup> string"
  dk_userns_mode :: string
  dk_pid_limit :: int
  dk_registries :: "(string \<times> string) list"
  dk_bounded :: "int \<Rightarrow> int"

definition new_docker_env ::
  "string \<Rightarrow> string \<Rightarrow> string \<Rightarrow> string \<Rightarrow> env_configuration \<Rightarrow> 'd \<Rightarrow> 'd docker_env" where
  "new_docker_env ident img stop_type stop_value c d =
     \<lparr>de_id = ident, de_state = Offline, de_stream = False, de_stop_type = stop_type,
      de_stop_value = stop_value, de_image = img, de_config = c, de_events = [], de_daemon = d\<rparr>"

definition set_stream :: "bool \<Rightarrow> 'd docker_env \<Rightarrow> 'd docker_env" where
  "set_stream b e = e\<lparr>de_stream := b\<rparr>"

definition is_attached :: "'d docker_env \<Rightarrow> bool" where
  "is_attached e = de_stream e"

definition publish :: "env_event \<Rightarrow> 'd docker_env \<Rightarrow> 'd docker_env" where
  "publish v e = e\<lparr>de_events := de_events e @ [v]\<rparr>"

definition set_stop_configuration :: "string \<Rightarrow> string \<Rightarrow> 'd docker_env \<Rightarrow> 'd docker_env" where
  "set_stop_configuration ty val e = e\<lparr>de_stop_type := ty, de_stop_value := val\<rparr>"

definition set_image :: "string \<Rightarrow> 'd docker_env \<Rightarrow> 'd docker_env" where
  "set_image i e = e\<lparr>de_image := i\<rparr>"

definition set_state :: "proc_state \<Rightarrow> 'd docker_env \<Rightarrow> 'd docker_env" where
  "set_state s e = (if de_state e \<noteq> s then publish (EvState s) (e\<lparr>de_state := s\<rparr>) else e)"

definition set_state_string :: "string \<Rightarrow> 'd docker_env \<Rightarrow> 'd docker_env go" where
  "set_state_string str e =
     (case parse_proc_state str of
        None \<Rightarrow> Panic (''invalid server state received: '' @ str)
      | Some s \<Rightarrow> Ret (set_state s e))"

text \<open>A call of the client: its result, and the environment with the daemon's new state.\<close>

definition call :: "('d \<Rightarrow> 'r \<times> 'd) \<Rightarrow> 'd docker_env \<Rightarrow> 'r \<times> 'd docker_env" where
  "call f e = (fst (f (de_daemon e)), e\<lparr>de_daemon := snd (f (de_daemon e))\<rparr>)"

definition call_err :: "('d \<Rightarrow> gerr option \<times> 'd) \<Rightarrow> 'd docker_env action" where
  "call_err f e = (Ret (fst (call f e)), snd (call f e))"

definition exists_container :: "'d docker_client \<Rightarrow> 'd docker_env \<Rightarrow> (gerr + bool) \<times> 'd docker_env" where
  "exists_container dc e =
     (case call (dc_inspect dc) e of
        (Inl err, e1) \<Rightarrow> (if is_not_found err then (Inr False, e1) else (Inl err, e1))
      | (Inr _, e1) \<Rightarrow> (Inr True, e1))"

definition env_is_running :: "'d docker_client \<Rightarrow> 'd docker_env \<Rightarrow> (gerr + bool) \<times> 'd docker_env" where
  "env_is_running dc e =
     (case call (dc_inspect dc) e of
        (Inl err, e1) \<Rightarrow> (Inl err, e1)
      | (Inr c, e1) \<Rightarrow> (Inr (cs_running c), e1))"

definition exit_state :: "'d docker_client \<Rightarrow> 'd docker_env \<Rightarrow> (gerr + (nat \<times> bool)) \<times> 'd docker_env" where
  "exit_state dc e =
     (case call (dc_inspect dc) e of
        (Inl err, e1) \<Rightarrow>
          (if is_not_found err then (Inr (1, False), e1)
           else (Inl (ErrWrap ''environment/docker: failed to inspect container'' err), e1))
      | (Inr c, e1) \<Rightarrow> (Inr (nat (cs_exit_code c mod 2 ^ 32), cs_oom_killed c), e1))"

section \<open>Images\<close>

fun registry_auth :: "string \<Rightarrow> (string \<times> string) list \<Rightarrow> string" where
  "registry_auth img [] = []"
| "registry_auth img ((reg, auth) # rs) = (if has_prefix img reg then auth else registry_auth img rs)"

definition pull_image :: "'d docker_client \<Rightarrow> docker_settings \<Rightarrow> string \<Rightarrow> 'd docker_env action" where
  "pull_image dc cfg img e =
     (case call (dc_image_pull dc img (registry_auth img (dk_registries cfg))) e of
        (Inl err, e1) \<Rightarrow>
          (case call (dc_image_list dc) e1 of
             (Inl ierr, e2) \<Rightarrow> (Ret (Some (ErrWrap ''environment/docker: failed to list images'' ierr)), e2)
           | (Inr images, e2) \<Rightarrow>
               if img \<in> set (concat images) then (Ret None, e2)
               else (Ret (Some (ErrWrap (''environment/docker: failed to pull \"'' @ img @ ''\" image for server'') err)), e2))
      | (Inr (lns, serr), e1) \<Rightarrow>
          (Ret serr, fold (\<lambda>(st, pr). publish (EvPullStatus (st @ '' '' @ pr))) lns e1))"

definition ensure_image_exists ::
  "'d docker_client \<Rightarrow> docker_settings \<Rightarrow> string \<Rightarrow> 'd docker_env action" where
  "ensure_image_exists dc cfg img e =
     (let e1 = publish EvPullStarted e;
          p = (if has_prefix img ''~'' then (Ret None, e1) else pull_image dc cfg img e1)
      in (fst p, publish EvPullCompleted (snd p)))"

section \<open>Creating the container\<close>

definition convert_mounts :: "mount list \<Rightarrow> (string \<times> string \<times> bool) list" where
  "convert_mounts = List.map (\<lambda>m. (mt_source m, mt_target m, mt_read_only m))"

definition container_user :: "docker_settings \<Rightarrow> string" where
  "container_user cfg =
     (case dk_rootless cfg of
        Some (uid, gid) \<Rightarrow> itoa uid @ '':'' @ itoa gid
      | None \<Rightarrow> itoa (fst (dk_user cfg)) @ '':'' @ itoa (snd (dk_user cfg)))"

definition network_name :: "string \<Rightarrow> string" where
  "network_name ip =
     ''ip-'' @ List.map (\<lambda>c. if c = CHR '':'' then CHR ''-'' else c)
                 (List.map (\<lambda>c. if c = CHR ''.'' then CHR ''-'' else c) ip)"

text \<open>The dedicated network of a forced outgoing address is made if it does not exist.\<close>

definition ensure_network :: "'d docker_client \<Rightarrow> allocations \<Rightarrow> 'd docker_env action" where
  "ensure_network dc a e =
     (if \<not> al_force_outgoing_ip a then (Ret None, e)
      else
        (case call (dc_network_inspect dc (network_name (al_default_ip a))) e of
           (None, e1) \<Rightarrow> (Ret None, e1)
         | (Some err, e1) \<Rightarrow>
             if \<not> is_not_found err then (Ret (Some err), e1)
             else call_err (dc_network_create dc (network_name (al_default_ip a)) (al_default_ip a)) e1))"

definition system_labels :: "(string \<rightharpoonup> string) \<Rightarrow> string \<rightharpoonup> string" where
  "system_labels labels = labels(''Service'' \<mapsto> ''Elytra'', ''ContainerType'' \<mapsto> ''server_process'')"

definition local_server_ip :: "docker_settings \<Rightarrow> string list \<Rightarrow> string list" where
  "local_server_ip cfg =
     List.map (\<lambda>v. if v = ''SERVER_IP=127.0.0.1'' then ''SERVER_IP='' @ dk_interface cfg else v)"

definition container_spec_of ::
  "docker_settings \<Rightarrow> port_map \<Rightarrow> string set \<Rightarrow> 'd docker_env \<Rightarrow> container_spec" where
  "container_spec_of cfg ports exposed_ports e =
     (let c = de_config e; a = cfg_allocations c in
      \<lparr>sp_hostname = de_id e, sp_domainname = dk_domainname cfg, sp_exposed = exposed_ports,
       sp_image = trim_prefix (de_image e) ''~'',
       sp_env = cfg_environment_variables c,
       sp_labels = system_labels (cfg_labels c),
       sp_user = container_user cfg,
       sp_ports = ports,
       sp_mounts = convert_mounts (cfg_mounts c),
       sp_tmpfs = [''/tmp'' \<mapsto> ''rw,exec,nosuid,size='' @ itoa (dk_tmpfs_size cfg) @ ''M''],
       sp_resources = as_container_resources (dk_pid_limit cfg) (dk_bounded cfg) (cfg_limits c),
       sp_dns = dk_dns cfg,
       sp_log = (if dk_log_type cfg = [] then None else Some (dk_log_type cfg, dk_log_config cfg)),
       sp_security_opt = [''no-new-privileges''],
       sp_readonly_rootfs = True,
       sp_cap_drop = [''setpcap'', ''mknod'', ''audit_write'', ''net_raw'', ''dac_override'',
                      ''fowner'', ''fsetid'', ''net_bind_service'', ''sys_chroot'', ''setfcap''],
       sp_network_mode = (if al_force_outgoing_ip a then network_name (al_default_ip a)
                          else dk_network_mode cfg),
       sp_userns_mode = dk_userns_mode cfg\<rparr>)"

text \<open>
  \<open>keys\<close> is the order in which the port map is ranged over. The slice of environment variables
  is shared with the configuration, so rewriting \<open>SERVER_IP\<close> in it changes the configuration.
\<close>

definition docker_create ::
  "'d docker_client \<Rightarrow> docker_settings \<Rightarrow> string list \<Rightarrow> 'd docker_env action" where
  "docker_create dc cfg keys e =
     (case call (dc_inspect dc) e of
        (Inr _, e1) \<Rightarrow> (Ret None, e1)
      | (Inl err, e1) \<Rightarrow>
          if \<not> is_not_found err
          then (Ret (Some (ErrWrap ''environment/docker: failed to inspect container'' err)), e1)
          else
            seq (ensure_image_exists dc cfg (de_image e1) e1)
              (\<lambda>e2.
                let a = cfg_allocations (de_config e2);
                    e3 = e2\<lparr>de_config := set_environment_variables
                           (local_server_ip cfg (cfg_environment_variables (de_config e2))) (de_config e2)\<rparr>
                in case docker_bindings (dk_interface cfg) (dk_ispn cfg) keys a of
                     Panic m \<Rightarrow> (Panic m, e3)
                   | Block \<Rightarrow> (Block, e3)
                   | Ret ports \<Rightarrow>
                       seq (ensure_network dc a e3)
                         (\<lambda>e4. wrapping ''environment/docker: failed to create container''
                           (call_err (dc_create dc (container_spec_of cfg ports (dom ports) e4)) e4))))"

section \<open>Attach, update, destroy, commands\<close>

definition attach :: "'d docker_client \<Rightarrow> 'd docker_env action" where
  "attach dc e =
     (if is_attached e then (Ret None, e)
      else
        (case call (dc_attach dc) e of
           (Some err, e1) \<Rightarrow> (Ret (Some (ErrWrap ''environment/docker: error while attaching to container'' err)), e1)
         | (None, e1) \<Rightarrow>
             wrapping ''environment/docker: context canceled while waiting for reader to start''
               (call_err (dc_reader_wait dc) (set_stream True e1))))"

text \<open>What the reader goroutine of \<open>Attach\<close> does when the container's stream ends.\<close>

definition reader_end :: "'d docker_env \<Rightarrow> 'd docker_env" where
  "reader_end e = set_stream False (set_state Offline e)"

definition in_situ_update :: "'d docker_client \<Rightarrow> docker_settings \<Rightarrow> 'd docker_env action" where
  "in_situ_update dc cfg e =
     (case call (dc_inspect dc) e of
        (Inl err, e1) \<Rightarrow>
          (if is_not_found err then (Ret None, e1)
           else (Ret (Some (ErrWrap ''environment/docker: could not inspect container'' err)), e1))
      | (Inr _, e1) \<Rightarrow>
          wrapping ''environment/docker: could not update container''
            (call_err (dc_update dc
               (as_container_resources (dk_pid_limit cfg) (dk_bounded cfg) (cfg_limits (de_config e1)))) e1))"

definition destroy :: "'d docker_client \<Rightarrow> 'd docker_env action" where
  "destroy dc e =
     (let p = call (dc_remove dc True True) (set_state Stopping e);
          e1 = set_state Offline (snd p)
      in case fst p of
           None \<Rightarrow> (Ret None, e1)
         | Some err \<Rightarrow> if is_not_found err then (Ret None, e1) else (Ret (Some err), e1))"

definition err_not_attached :: gerr where "err_not_attached = Sentinel ''not attached to instance''"

definition send_command :: "'d docker_client \<Rightarrow> string \<Rightarrow> 'd docker_env action" where
  "send_command dc c e =
     (if \<not> is_attached e
      then (Ret (Some (ErrWrap ''environment/docker: cannot send command to container'' err_not_attached)), e)
      else
        (let e1 = (if de_stop_type e = ''command'' \<and> c = de_stop_value e then set_state Stopping e else e)
         in wrapping ''environment/docker: could not write to container stream''
              (call_err (dc_write dc (c @ [CHR 0x0A])) e1)))"

definition readlog :: "'d docker_client \<Rightarrow> int \<Rightarrow> 'd docker_env \<Rightarrow> (gerr + string list) \<times> 'd docker_env" where
  "readlog dc n e = call (dc_logs dc n) e"

section \<open>Statistics\<close>

definition calculate_docker_memory :: "(string \<rightharpoonup> 64 word) \<Rightarrow> 64 word \<Rightarrow> 64 word" where
  "calculate_docker_memory stats usage =
     (case stats ''total_inactive_file'' of
        Some v \<Rightarrow>
          if v < usage then usage - v
          else (let v = (case stats ''inactive_file'' of None \<Rightarrow> 0 | Some v \<Rightarrow> v)
                in if v < usage then usage - v else usage)
      | None \<Rightarrow> (let v = (case stats ''inactive_file'' of None \<Rightarrow> 0 | Some v \<Rightarrow> v)
                in if v < usage then usage - v else usage))"

lemma calculate_docker_memory_le: "calculate_docker_memory stats usage \<le> usage"
proof -
  have "usage - v \<le> usage" if "v < usage" for v :: "64 word"
    using that by (intro word_sub_le) simp
  then show ?thesis
    by (auto simp: calculate_docker_memory_def Let_def split: option.split)
qed

end
