(* ===== verification/Installation.thy ===== *)
theory Installation
  imports Utils Server_Power Environment_Config Docker_Env
begin

text \<open>
  The installation of a server, \<open>src/server/install.go\<close>: the script is fetched from the panel, run in a
  container of its own, and the panel is told how it went. The panel, the Docker client and the host's
  files are functions of the server's world; each request to them is recorded in \<open>ist_calls\<close>.
\<close>

section \<open>What is asked of the surroundings\<close>

record install_script =
  isc_image :: string
  isc_entrypoint :: string
  isc_text :: string

text \<open>A limit of processes that is \<open>None\<close> is Docker's nil pointer: nothing is set.\<close>

record install_spec =
  ip_name :: string
  ip_hostname :: string
  ip_cmd :: "string list"
  ip_image :: string
  ip_env :: "string list"
  ip_labels :: "(string \<times> string) list"
  ip_mounts :: "(string \<times> string \<times> bool) list"
  ip_resources :: resources
  ip_pids_limit :: "int option"
  ip_tmpfs :: "(string \<times> string) list"
  ip_dns :: "string list"
  ip_network_mode :: string
  ip_userns_mode :: string

datatype inst_call =
    IScript | ITmpDir string | IOpenScript string | IWriteScript string string
  | IPull string string | IListImages | IRemove string | IDataDir | ICreate install_spec
  | IStart string | IStream string | IWaitFor string | IRemoveTmp string
  | ILogs string | IOpenLog string | IHeader string | ICopyLogs string | IStatus bool bool

text \<open>The parts of Elytra's and of the server's configuration that the process reads.\<close>

record install_cfg =
  ic_skip :: bool
  ic_server_id :: string
  ic_server_path :: string
  ic_env_vars :: "string list go"
  ic_build :: limits
  ic_memory :: int
  ic_cpu :: int
  ic_registries :: "(string \<times> string) list"
  ic_tmpfs_size :: int
  ic_dns :: "string list"
  ic_network_mode :: string
  ic_userns_mode :: string
  ic_tmp_root :: string
  ic_log_root :: string
  ic_pids :: int
  ic_bounded :: "int \<Rightarrow> int"

text \<open>
  The answers: most requests give an error or none. Waiting gives \<open>None\<close> when the container has
  stopped, or the value of the error channel. A pull gives the error of reading its progress.
\<close>

record 'w inst_deps =
  id_cfg :: "'w \<Rightarrow> install_cfg"
  id_docker :: "gerr option"
  id_do :: "inst_call \<Rightarrow> 'w \<Rightarrow> gerr option \<times> 'w"
  id_script :: "'w \<Rightarrow> (gerr + install_script) \<times> 'w"
  id_pull :: "string \<Rightarrow> string \<Rightarrow> 'w \<Rightarrow> (gerr + gerr option) \<times> 'w"
  id_images :: "'w \<Rightarrow> (gerr + string list list) \<times> 'w"
  id_create :: "install_spec \<Rightarrow> 'w \<Rightarrow> (gerr + string) \<times> 'w"
  id_wait :: "string \<Rightarrow> 'w \<Rightarrow> gerr option option \<times> 'w"

record 'w inst =
  ist_server :: "'w server"
  ist_calls :: "inst_call list"

definition on_server :: "('w server \<Rightarrow> 'w server) \<Rightarrow> 'w inst \<Rightarrow> 'w inst" where
  "on_server f s = s\<lparr>ist_server := f (ist_server s)\<rparr>"

definition ask :: "inst_call \<Rightarrow> ('w \<Rightarrow> 'r \<times> 'w) \<Rightarrow> 'w inst \<Rightarrow> 'r \<times> 'w inst" where
  "ask c f s =
     (let p = f (sv_env (ist_server s))
      in (fst p, on_server (map_env (\<lambda>_. snd p)) (s\<lparr>ist_calls := ist_calls s @ [c]\<rparr>)))"

definition doing :: "'w inst_deps \<Rightarrow> inst_call \<Rightarrow> 'w inst action" where
  "doing d c s = (case ask c (id_do d c) s of (e, s1) \<Rightarrow> (Ret e, s1))"

definition cfg_of :: "'w inst_deps \<Rightarrow> 'w inst \<Rightarrow> install_cfg" where
  "cfg_of d s = id_cfg d (sv_env (ist_server s))"

section \<open>Before the script runs\<close>

definition temp_dir :: "install_cfg \<Rightarrow> string" where
  "temp_dir c = path_join [ic_tmp_root c, ic_server_id c]"

definition log_path :: "install_cfg \<Rightarrow> string" where
  "log_path c = path_join [ic_log_root c, ''/install'', ic_server_id c @ ''.log'']"

definition installer_name :: "install_cfg \<Rightarrow> string" where
  "installer_name c = ic_server_id c @ ''_installer''"

text \<open>\<open>strings.ReplaceAll\<close> of a carriage return with a line feed by a line feed.\<close>

fun unix_lines :: "string \<Rightarrow> string" where
  "unix_lines (a # b # cs) =
     (if a = CHR 0x0D \<and> b = CHR 0x0A then CHR 0x0A # unix_lines cs else a # unix_lines (b # cs))"
| "unix_lines cs = cs"

definition remove_container :: "'w inst_deps \<Rightarrow> 'w inst action" where
  "remove_container d s =
     (case doing d (IRemove (installer_name (cfg_of d s))) s of
        (Ret (Some e), s1) \<Rightarrow> (Ret (if is_not_found e then None else Some e), s1)
      | p \<Rightarrow> p)"

definition write_script_to_disk :: "'w inst_deps \<Rightarrow> install_script \<Rightarrow> 'w inst action" where
  "write_script_to_disk d sc s =
     (let dir = temp_dir (cfg_of d s); path = path_join [dir, ''install.sh'']
      in seq (wrapping ''could not create temporary directory for install process'' (doing d (ITmpDir dir) s))
           (\<lambda>s1. seq (wrapping ''failed to write server installation script to disk before mount''
                        (doing d (IOpenScript path) s1))
              (doing d (IWriteScript path (unix_lines (isc_text sc))))))"

definition pull_installation_image :: "'w inst_deps \<Rightarrow> install_script \<Rightarrow> 'w inst action" where
  "pull_installation_image d sc s =
     (let img = isc_image sc; auth = registry_auth img (ic_registries (cfg_of d s))
      in case ask (IPull img auth) (id_pull d img auth) s of
           (Inl e, s1) \<Rightarrow>
             (case ask IListImages (id_images d) s1 of
                (Inl ierr, s2) \<Rightarrow> (Ret (Some ierr), s2)
              | (Inr images, s2) \<Rightarrow>
                  if img \<in> set (concat images) then (Ret None, s2) else (Ret (Some e), s2))
         | (Inr serr, s1) \<Rightarrow> (Ret serr, s1))"

definition before_execute :: "'w inst_deps \<Rightarrow> install_script \<Rightarrow> 'w inst action" where
  "before_execute d sc s =
     seq (wrapping ''failed to write installation script to disk'' (write_script_to_disk d sc s))
       (\<lambda>s1. seq (wrapping ''failed to pull updated installation container image for server''
                    (pull_installation_image d sc s1))
          (\<lambda>s2. wrapping ''failed to remove existing install container for server'' (remove_container d s2)))"

section \<open>Running the script\<close>

definition resource_limits :: "install_cfg \<Rightarrow> resources \<times> int option" where
  "resource_limits c =
     (let b = ic_build c;
          b1 = (if lm_memory b < ic_memory c then b\<lparr>lm_memory := ic_memory c\<rparr> else b);
          b2 = (if ic_cpu c = 0 then b1\<lparr>lm_cpu := 0\<rparr>
                else if lm_cpu b1 \<noteq> 0 \<and> lm_cpu b1 < ic_cpu c then b1\<lparr>lm_cpu := ic_cpu c\<rparr> else b1)
      in (as_container_resources (ic_pids c) (ic_bounded c) b2, None))"

definition install_spec_of :: "install_cfg \<Rightarrow> install_script \<Rightarrow> string list \<Rightarrow> install_spec" where
  "install_spec_of c sc env =
     \<lparr>ip_name = installer_name c, ip_hostname = ''installer'',
      ip_cmd = [isc_entrypoint sc, ''/mnt/install/install.sh''], ip_image = isc_image sc, ip_env = env,
      ip_labels = [(''Service'', ''Elytra''), (''ContainerType'', ''server_installer'')],
      ip_mounts = [(ic_server_path c, ''/mnt/server'', False), (temp_dir c, ''/mnt/install'', False)],
      ip_resources = fst (resource_limits c), ip_pids_limit = snd (resource_limits c),
      ip_tmpfs = [(''/tmp'', ''rw,exec,nosuid,size='' @ itoa (ic_tmpfs_size c) @ ''M'')],
      ip_dns = ic_dns c, ip_network_mode = ic_network_mode c, ip_userns_mode = ic_userns_mode c\<rparr>"

text \<open>
  The container is created, started and waited for. The output is followed by a goroutine of its own
  (\<open>stream_goroutine\<close>), whose start is the call \<open>IStream\<close>.
\<close>

definition await_container :: "'w inst_deps \<Rightarrow> string \<Rightarrow> 'w inst \<Rightarrow> (gerr + string) \<times> 'w inst" where
  "await_container d i s =
     (case ask (IStart i) (id_do d (IStart i)) s of
        (Some e, s1) \<Rightarrow> (Inl e, s1)
      | (None, s1) \<Rightarrow>
          (case ask (IWaitFor i) (id_wait d i) (snd (ask (IStream i) (\<lambda>w. ((), w)) s1)) of
             (None, s2) \<Rightarrow> (Inr i, s2)
           | (Some None, s2) \<Rightarrow>
               (Inr i, on_server (emit (SeDaemonMessage ''Installation process completed.'')) s2)
           | (Some (Some e), s2) \<Rightarrow> (Inl e, s2)))"

definition run_container :: "'w inst_deps \<Rightarrow> install_spec \<Rightarrow> 'w inst \<Rightarrow> (gerr + string) \<times> 'w inst" where
  "run_container d spec s =
     (case ask (ICreate spec) (id_create d spec) s of
        (Inl e, s1) \<Rightarrow> (Inl e, s1)
      | (Inr i, s1) \<Rightarrow> await_container d i s1)"

definition execute_script ::
  "'w inst_deps \<Rightarrow> install_script \<Rightarrow> 'w inst \<Rightarrow> (gerr + string) go \<times> 'w inst" where
  "execute_script d sc s =
     (let c = cfg_of d s
      in case ic_env_vars c of
           Panic m \<Rightarrow> (Panic m, s)
         | Block \<Rightarrow> (Block, s)
         | Ret env \<Rightarrow>
             (case ask IDataDir (id_do d IDataDir) s of
                (Some e, s1) \<Rightarrow> (Ret (Inl e), s1)
              | (None, s1) \<Rightarrow>
                  (let p = run_container d (install_spec_of c sc env) s1;
                       q = doing d (IRemoveTmp (temp_dir c)) (snd p)
                   in (Ret (fst p), snd q))))"

definition stream_goroutine :: "gerr + read_answer list \<Rightarrow> 'w server \<Rightarrow> 'w server" where
  "stream_goroutine logs s =
     (let s1 = emit (SeDaemonMessage ''Starting installation process, this could take a few minutes...'') s
      in case logs of
           Inl e \<Rightarrow> s1
         | Inr rs \<Rightarrow> foldl (\<lambda>s l. emit (SeInstallOutput l) s) s1 (fst (scan_reader rs)))"

section \<open>After the script has run\<close>

text \<open>
  The logs are written to a file. When the container is not found there are none, and copying from
  the nil reader fails on a nil pointer; the deferred removal runs all the same.
\<close>

definition write_log :: "'w inst_deps \<Rightarrow> string \<Rightarrow> bool \<Rightarrow> 'w inst action" where
  "write_log d path has_reader s =
     seq (doing d (IOpenLog path) s)
       (\<lambda>s1. seq (doing d (IHeader path) s1)
          (\<lambda>s2. if has_reader then doing d (ICopyLogs path) s2
                else (Panic ''nil pointer dereference'', s2)))"

definition after_execute :: "'w inst_deps \<Rightarrow> string \<Rightarrow> 'w inst action" where
  "after_execute d i s =
     (let p = (case ask (ILogs i) (id_do d (ILogs i)) s of
                 (Some e, s1) \<Rightarrow>
                   if \<not> is_not_found e then (Ret (Some e), s1)
                   else write_log d (log_path (cfg_of d s1)) False s1
               | (None, s1) \<Rightarrow> write_log d (log_path (cfg_of d s1)) True s1)
      in (fst p, snd (remove_container d (snd p))))"

definition run_script :: "'w inst_deps \<Rightarrow> install_script \<Rightarrow> 'w inst action" where
  "run_script d sc s =
     seq (before_execute d sc s)
       (\<lambda>s1. case execute_script d sc s1 of
          (Panic m, s2) \<Rightarrow> (Panic m, s2)
        | (Block, s2) \<Rightarrow> (Block, s2)
        | (Ret (Inl e), s2) \<Rightarrow> (Ret (Some e), snd (remove_container d s2))
        | (Ret (Inr i), s2) \<Rightarrow>
            (case after_execute d i s2 of
               (Ret e, s3) \<Rightarrow> (Ret None, s3)
             | p \<Rightarrow> p))"

section \<open>The installation lock and the panel\<close>

definition set_installing :: "bool \<Rightarrow> 'w inst \<Rightarrow> 'w inst" where
  "set_installing b = on_server (\<lambda>s. s\<lparr>sv_installing := b\<rparr>)"

definition run_installation :: "'w inst_deps \<Rightarrow> install_script \<Rightarrow> 'w inst action" where
  "run_installation d sc s =
     (let (swapped, flag) = swap_if True (sv_installing (ist_server s))
      in if \<not> swapped then (Ret (Some (ErrOther ''install: cannot obtain installation lock'')), s)
         else (let p = run_script d sc (set_installing flag s)
               in (fst p, set_installing False (snd p))))"

definition internal_install :: "'w inst_deps \<Rightarrow> 'w inst action" where
  "internal_install d s =
     (case ask IScript (id_script d) s of
        (Inl e, s1) \<Rightarrow> (Ret (Some e), s1)
      | (Inr sc, s1) \<Rightarrow>
          (case id_docker d of
             Some e \<Rightarrow> (Ret (Some e), s1)
           | None \<Rightarrow> run_installation d sc s1))"

definition sync_install_state :: "'w inst_deps \<Rightarrow> bool \<Rightarrow> bool \<Rightarrow> 'w inst action" where
  "sync_install_state d successful reinstall = doing d (IStatus successful reinstall)"

definition install_server :: "'w env_ops \<Rightarrow> 'w inst_deps \<Rightarrow> bool \<Rightarrow> 'w inst action" where
  "install_server ops d reinstall s =
     (let p = (if \<not> ic_skip (cfg_of d s) then internal_install d (on_server (emit SeInstallStarted) s)
               else (Ret None, s))
      in case fst p of
           Ret err \<Rightarrow>
             (let s1 = snd (sync_install_state d (err = None) reinstall (snd p));
                  s2 = on_server (map_env (eo_set_state ops Offline)) s1
              in (Ret err, on_server (emit SeInstallCompleted) s2))
         | r \<Rightarrow> (r, snd p))"

definition reinstall_server :: "'w env_ops \<Rightarrow> 'w boot_deps \<Rightarrow> 'w inst_deps \<Rightarrow> 'w inst action" where
  "reinstall_server ops bd d s =
     (let lift = (\<lambda>f s. let p = f (ist_server s) in (fst p, s\<lparr>ist_server := snd p\<rparr>));
          stop = (if eo_state ops (sv_env (ist_server s)) \<noteq> Offline
                  then wrapping ''install: failed to stop running environment''
                    (lift (on_env (eo_wait_for_stop ops (10 * nanosecond_per_second) True)) s)
                  else (Ret None, s))
      in seq stop
           (\<lambda>s1. seq (wrapping ''install: failed to sync server state with Panel'' (lift (sync bd) s1))
              (install_server ops d True)))"

section \<open>The calls of an installation\<close>

text \<open>
  \<open>Adds P p s\<close>: the computation that ended in \<open>p\<close> has added calls with the property to those of \<open>s\<close>, and
  left the installation flag as it was.
\<close>

definition adds :: "(inst_call list \<Rightarrow> bool) \<Rightarrow> 'r \<times> 'w inst \<Rightarrow> 'w inst \<Rightarrow> bool" where
  "adds P p s \<longleftrightarrow> sv_installing (ist_server (snd p)) = sv_installing (ist_server s) \<and>
     (\<exists>cs es. ist_calls (snd p) = ist_calls s @ cs \<and> P cs \<and>
       sv_events (ist_server (snd p)) = sv_events (ist_server s) @ es)"

lemma adds_mono: "adds P p s \<Longrightarrow> (\<And>cs. P cs \<Longrightarrow> Q cs) \<Longrightarrow> adds Q p s"
  by (auto simp: adds_def)

lemma adds_cong: "adds P p s \<Longrightarrow> snd q = snd p \<Longrightarrow> adds P q s"
  by (simp add: adds_def)

lemma adds_weaken: "adds P p s \<Longrightarrow> snd q = snd p \<Longrightarrow> (\<And>cs. P cs \<Longrightarrow> Q cs) \<Longrightarrow> adds Q q s"
  by (auto simp: adds_def)

lemma adds_refl: "P [] \<Longrightarrow> adds P (r, s) s"
  by (auto simp: adds_def)

lemma adds_trans:
  assumes "adds P p s" and "adds Q q (snd p)" and "\<And>cs ds. P cs \<Longrightarrow> Q ds \<Longrightarrow> R (cs @ ds)"
  shows "adds R q s"
proof -
  obtain cs ds es fs where "ist_calls (snd p) = ist_calls s @ cs" "P cs" "ist_calls (snd q) = ist_calls (snd p) @ ds" "Q ds"
    "sv_events (ist_server (snd p)) = sv_events (ist_server s) @ es"
    "sv_events (ist_server (snd q)) = sv_events (ist_server (snd p)) @ fs"
    using assms(1,2) by (auto simp: adds_def)
  with assms show ?thesis unfolding adds_def
    by (intro conjI exI [of _ "cs @ ds"] exI [of _ "es @ fs"]) (auto simp: adds_def)
qed

lemma adds_ask: "P [c] \<Longrightarrow> adds P (ask c f s) s"
  by (auto simp: adds_def ask_def on_server_def map_env_def Let_def)

lemma snd_doing [simp]: "snd (doing d c s) = snd (ask c (id_do d c) s)"
  by (simp add: doing_def split: prod.split)

lemma adds_doing: "P [c] \<Longrightarrow> adds P (doing d c s) s"
  by (rule adds_cong [OF adds_ask]) simp_all

lemma adds_wrapping: "adds P p s \<Longrightarrow> adds P (wrapping msg p) s"
  by (rule adds_cong) simp_all

lemma adds_emit: "P [] \<Longrightarrow> adds P (r, on_server (emit v) s) s"
  by (auto simp: adds_def on_server_def emit_def)

text \<open>Every call but the report to the panel, and of those every one but the creation.\<close>

definition unreported :: "inst_call list \<Rightarrow> bool" where
  "unreported cs \<longleftrightarrow> (\<forall>b r. IStatus b r \<notin> set cs)"

definition plain :: "inst_call list \<Rightarrow> bool" where
  "plain cs \<longleftrightarrow> unreported cs \<and> (\<forall>spec. ICreate spec \<notin> set cs)"

lemma plain_append: "plain cs \<Longrightarrow> plain ds \<Longrightarrow> plain (cs @ ds)"
  by (auto simp: plain_def unreported_def)

lemma adds_plain_seq:
  "adds plain p s \<Longrightarrow> (\<And>s1. adds plain (f s1) s1) \<Longrightarrow> adds plain (seq p f) s"
  by (simp add: seq_def) (metis adds_trans plain_append)

lemma plain_simps [simp]:
  "plain []" "plain [IScript]" "plain [ITmpDir x]" "plain [IOpenScript x]" "plain [IWriteScript x y]" "plain [IPull x y]"
  "plain [IListImages]" "plain [IRemove x]" "plain [IDataDir]" "plain [IRemoveTmp x]" "plain [ILogs x]"
  "plain [IOpenLog x]" "plain [IHeader x]" "plain [ICopyLogs x]" "plain [IStart x]" "plain [IWaitFor x]" "plain [IStream x]"
  by (simp_all add: plain_def unreported_def)

lemmas adds_plain = adds_plain_seq adds_wrapping adds_doing adds_ask plain_simps

lemma snd_remove_container [simp]:
  "snd (remove_container d s) = snd (doing d (IRemove (installer_name (cfg_of d s))) s)"
  by (simp add: remove_container_def del: snd_doing split: prod.split go.split option.split)

lemma plain_remove_container: "adds plain (remove_container d s) s"
  by (rule adds_cong [OF adds_doing]) simp_all

lemma plain_pull: "adds plain (pull_installation_image d sc s) s"
proof -
  let ?p = "ask (IPull (isc_image sc) (registry_auth (isc_image sc) (ic_registries (cfg_of d s))))
      (id_pull d (isc_image sc) (registry_auth (isc_image sc) (ic_registries (cfg_of d s)))) s"
  have "adds plain ?p s" "adds plain (ask IListImages (id_images d) (snd ?p)) (snd ?p)"
    by (intro adds_plain)+
  then have "adds plain ?p s" "adds plain (ask IListImages (id_images d) (snd ?p)) s"
    by (auto intro: adds_trans plain_append)
  then show ?thesis
    by (auto simp: pull_installation_image_def Let_def split: prod.splits sum.splits elim: adds_cong)
qed

lemma plain_before_execute: "adds plain (before_execute d sc s) s"
  unfolding before_execute_def write_script_to_disk_def Let_def
  by (intro adds_plain plain_pull plain_remove_container)

lemma plain_write_log: "adds plain (write_log d path b s) s"
  unfolding write_log_def
  by (intro adds_plain) (auto intro: adds_refl adds_doing)

text \<open>
  A host that keeps the server's identifier and its directories: the names of the container and of the
  temporary directory do not change during the installation.
\<close>

definition fixed_host :: "'w inst_deps \<Rightarrow> string \<Rightarrow> string \<Rightarrow> bool" where
  "fixed_host d name tmp \<longleftrightarrow>
     (\<forall>w. installer_name (id_cfg d w) = name \<and> temp_dir (id_cfg d w) = tmp)"

lemma fixed_hostD:
  "fixed_host d name tmp \<Longrightarrow> installer_name (cfg_of d s) = name"
  "fixed_host d name tmp \<Longrightarrow> temp_dir (cfg_of d s) = tmp"
  by (simp_all add: fixed_host_def cfg_of_def)

definition swept :: "string \<Rightarrow> string \<Rightarrow> inst_call list \<Rightarrow> bool" where
  "swept name tmp cs \<longleftrightarrow> plain cs \<or>
     (\<exists>us spec vs. cs = us @ ICreate spec # vs \<and> plain us \<and> plain vs \<and> ip_name spec = name \<and>
        IRemoveTmp tmp \<in> set vs)"

definition tidy :: "string \<Rightarrow> string \<Rightarrow> inst_call list \<Rightarrow> bool" where
  "tidy name tmp cs \<longleftrightarrow> plain cs \<or>
     (\<exists>us spec vs. cs = us @ ICreate spec # vs \<and> plain us \<and> plain vs \<and> ip_name spec = name \<and>
        IRemoveTmp tmp \<in> set vs \<and> IRemove name \<in> set vs)"

lemma swept_tidy:
  assumes "swept name tmp cs" and "plain ds" and "IRemove name \<in> set ds"
  shows "tidy name tmp (cs @ ds)"
  using assms(1) unfolding swept_def
proof (elim disjE exE conjE)
  assume "plain cs"
  then show ?thesis using plain_append assms(2) by (simp add: tidy_def)
next
  fix us spec vs
  assume "cs = us @ ICreate spec # vs" "plain us" "plain vs" "ip_name spec = name" "IRemoveTmp tmp \<in> set vs"
  then show ?thesis using plain_append [of vs ds] assms(2,3) unfolding tidy_def
    by (intro disjI2 exI [of _ us] exI [of _ spec] exI [of _ "vs @ ds"]) simp
qed

lemma plain_swept: "plain cs \<Longrightarrow> swept name tmp cs"
  by (simp add: swept_def)

lemma plain_then_tidy:
  assumes "plain us" and "tidy name tmp cs"
  shows "tidy name tmp (us @ cs)"
  using assms(2) unfolding tidy_def
proof (elim disjE exE conjE)
  assume "plain cs"
  then show "plain (us @ cs) \<or> (\<exists>us' spec vs. us @ cs = us' @ ICreate spec # vs \<and> plain us' \<and> plain vs \<and>
      ip_name spec = name \<and> IRemoveTmp tmp \<in> set vs \<and> IRemove name \<in> set vs)"
    using plain_append assms(1) by simp
next
  fix us1 spec vs
  assume "cs = us1 @ ICreate spec # vs" "plain us1" "plain vs" "ip_name spec = name" "IRemoveTmp tmp \<in> set vs"
    "IRemove name \<in> set vs"
  then show "plain (us @ cs) \<or> (\<exists>us' spec vs. us @ cs = us' @ ICreate spec # vs \<and> plain us' \<and> plain vs \<and>
      ip_name spec = name \<and> IRemoveTmp tmp \<in> set vs \<and> IRemove name \<in> set vs)"
    using plain_append [OF assms(1)]
    by (intro disjI2 exI [of _ "us @ us1"] exI [of _ spec] exI [of _ vs]) simp
qed

lemma adds_then_plain: "adds plain p s \<Longrightarrow> adds plain q (snd p) \<Longrightarrow> adds plain q s"
  by (rule adds_trans [where P = plain and Q = plain]) (auto intro: plain_append)

lemma adds_await: "adds plain (await_container d i s) s"
proof -
  obtain e s1 where p: "ask (IStart i) (id_do d (IStart i)) s = (e, s1)" by fastforce
  let ?q = "ask (IStream i) (\<lambda>w. ((), w)) s1"
  obtain r s2 where q: "ask (IWaitFor i) (id_wait d i) (snd ?q) = (r, s2)" by fastforce
  have 1: "adds plain (e, s1) s" using adds_ask [of plain "IStart i"] p plain_simps by metis
  have "adds plain ?q s1" by (intro adds_plain)
  from adds_then_plain [OF 1] this have 2: "adds plain ?q s" by simp
  have "adds plain (r, s2) (snd ?q)" using adds_ask [of plain "IWaitFor i"] q plain_simps by metis
  from adds_then_plain [OF 2 this] have 3: "adds plain (r, s2) s" .
  have 4: "adds plain (t, on_server (emit v) s2) s" for t :: "gerr + string" and v
    by (rule adds_then_plain [OF 3]) (simp add: adds_emit)
  show ?thesis
    using 1 3 4 adds_cong [OF 1] adds_cong [OF 3]
    by (auto simp: await_container_def p q split: option.split)
qed

lemma adds_run_container:
  "adds (\<lambda>cs. \<exists>vs. cs = ICreate spec # vs \<and> plain vs) (run_container d spec s) s"
proof -
  obtain r s1 where p: "ask (ICreate spec) (id_create d spec) s = (r, s1)" by fastforce
  have create: "adds (\<lambda>cs. cs = [ICreate spec]) (r, s1) s"
    using adds_ask [of "\<lambda>cs. cs = [ICreate spec]" "ICreate spec"] p by metis
  show ?thesis
  proof (cases r)
    case (Inl e)
    then show ?thesis by (intro adds_weaken [OF create]) (auto simp: run_container_def p)
  next
    case (Inr i)
    have "adds plain (await_container d i s1) (snd (r, s1))" using adds_await by simp
    from adds_trans [OF create this, of "\<lambda>cs. \<exists>vs. cs = ICreate spec # vs \<and> plain vs"] Inr
    show ?thesis by (simp add: run_container_def p)
  qed
qed

lemma adds_execute_script:
  assumes "fixed_host d name tmp"
  shows "adds (swept name tmp) (execute_script d sc s) s"
proof (cases "ic_env_vars (cfg_of d s)")
  case (Ret env)
  let ?spec = "install_spec_of (cfg_of d s) sc env"
  obtain e s1 where p: "ask IDataDir (id_do d IDataDir) s = (e, s1)" by fastforce
  have 1: "adds plain (e, s1) s" using adds_ask [of plain IDataDir] p plain_simps by metis
  show ?thesis
  proof (cases e)
    case (Some x)
    then show ?thesis
      by (intro adds_weaken [OF 1] plain_swept) (simp_all add: execute_script_def Let_def Ret p)
  next
    case None
    let ?r = "run_container d ?spec s1" and ?t = "IRemoveTmp tmp"
    let ?q = "doing d ?t (snd ?r)"
    have "adds (\<lambda>cs. \<exists>vs. cs = ICreate ?spec # vs \<and> plain vs) ?r (snd (e, s1))"
      using adds_run_container by simp
    from adds_trans [OF 1 this, of "\<lambda>cs. \<exists>us vs. cs = us @ ICreate ?spec # vs \<and> plain us \<and> plain vs"]
    have 2: "adds (\<lambda>cs. \<exists>us vs. cs = us @ ICreate ?spec # vs \<and> plain us \<and> plain vs) ?r s" by auto
    have 3: "adds (\<lambda>cs. cs = [?t]) ?q (snd ?r)" by (rule adds_doing) simp
    have "swept name tmp (cs @ [?t])" if "\<exists>us vs. cs = us @ ICreate ?spec # vs \<and> plain us \<and> plain vs" for cs
    proof -
      from that obtain us vs where cs: "cs = us @ ICreate ?spec # vs" "plain us" "plain vs" by blast
      have "ip_name ?spec = name" using fixed_hostD(1) [OF assms] by (simp add: install_spec_of_def)
      then show ?thesis unfolding swept_def using cs plain_append [of vs "[?t]"]
        by (intro disjI2 exI [of _ us] exI [of _ ?spec] exI [of _ "vs @ [?t]"]) simp
    qed
    with adds_trans [OF 2 3] have "adds (swept name tmp) ?q s" by simp
    then show ?thesis
      using fixed_hostD(2) [OF assms] by (simp add: execute_script_def Let_def Ret p None adds_def)
  qed
qed (simp_all add: execute_script_def Let_def adds_refl plain_swept)

lemma adds_remove_container:
  "fixed_host d name tmp \<Longrightarrow> adds (\<lambda>cs. cs = [IRemove name]) (r, snd (remove_container d s)) s"
  by (rule adds_cong [OF adds_doing]) (simp_all add: fixed_hostD(1))

lemma adds_after_execute:
  assumes "fixed_host d name tmp"
  shows "adds (\<lambda>cs. plain cs \<and> IRemove name \<in> set cs) (after_execute d i s) s"
proof -
  obtain e s1 where p: "ask (ILogs i) (id_do d (ILogs i)) s = (e, s1)" by fastforce
  have 1: "adds plain (e, s1) s" using adds_ask [of plain "ILogs i"] p plain_simps by metis
  have w: "adds plain (write_log d path b s1) s" for path b
    by (rule adds_then_plain [OF 1]) (simp add: plain_write_log)
  have fin: "adds (\<lambda>cs. plain cs \<and> IRemove name \<in> set cs) (r, snd (remove_container d (snd q))) s"
    if "adds plain q s" for q :: "outcome \<times> 'a inst" and r :: outcome
    by (rule adds_trans [OF that adds_remove_container [OF assms]]) (simp add: plain_append)
  show ?thesis
    using fin [OF w] fin [OF adds_cong [OF 1]]
    by (auto simp: after_execute_def Let_def p split: option.split)
qed

lemma adds_run_script:
  assumes "fixed_host d name tmp"
  shows "adds (tidy name tmp) (run_script d sc s) s"
proof (cases "fst (before_execute d sc s) = Ret None")
  case False
  then show ?thesis
    by (intro adds_weaken [OF plain_before_execute [of d sc s]]) (simp_all add: run_script_def seq_def tidy_def)
next
  case True
  obtain s1 where b: "before_execute d sc s = (Ret None, s1)" using True by (metis prod.collapse)
  obtain r s2 where x: "execute_script d sc s1 = (r, s2)" by fastforce
  have 1: "adds plain (Ret None :: outcome, s1) s" using plain_before_execute [of d sc s] b by simp
  have ex: "adds (swept name tmp) (r, s2) s1" using adds_execute_script [OF assms, of sc s1] x by simp
  have tail: "adds (tidy name tmp) q s"
    if "adds (\<lambda>ds. plain ds \<and> IRemove name \<in> set ds) q s2" for q :: "outcome \<times> 'a inst"
  proof -
    have "adds (tidy name tmp) q s1"
      by (rule adds_trans [OF ex, of "\<lambda>ds. plain ds \<and> IRemove name \<in> set ds"]) (use that swept_tidy in auto)
    then show ?thesis
      by (intro adds_trans [OF 1, of "tidy name tmp"]) (auto intro: plain_then_tidy)
  qed
  have stuck: "adds (tidy name tmp) (q, s2) s" if "\<forall>y. r \<noteq> Ret y" for q :: outcome
  proof -
    have "s2 = s1" using that x by (auto simp: execute_script_def Let_def split: go.splits prod.splits option.splits)
    then show ?thesis by (intro adds_weaken [OF 1]) (simp_all add: tidy_def)
  qed
  have failed: "adds (tidy name tmp) (q, snd (remove_container d s2)) s" for q :: outcome
    by (rule tail, rule adds_mono [OF adds_remove_container [OF assms]]) simp
  have ran: "adds (tidy name tmp) (q, snd (after_execute d i s2)) s" for q :: outcome and i
    by (rule tail, rule adds_cong [OF adds_after_execute [OF assms]]) simp
  show ?thesis
    using stuck failed ran
    by (auto simp: run_script_def b x split: go.split sum.split prod.split) (metis snd_conv)+
qed

lemma adds_run_installation:
  assumes "fixed_host d name tmp"
  shows "adds (tidy name tmp) (run_installation d sc s) s"
  using adds_run_script [OF assms, of sc "set_installing True s"]
  by (auto simp: run_installation_def Let_def swap_if_def set_installing_def on_server_def adds_def tidy_def plain_simps
      split: prod.split)

lemma adds_internal_install:
  assumes "fixed_host d name tmp"
  shows "adds (tidy name tmp) (internal_install d s) s"
proof -
  obtain r s1 where p: "ask IScript (id_script d) s = (r, s1)" by fastforce
  have 1: "adds plain (r, s1) s" using adds_ask [of plain IScript] p plain_simps by metis
  have "adds (tidy name tmp) (run_installation d sc s1) s" for sc
    by (rule adds_trans [OF 1, of "tidy name tmp"]) (simp_all add: adds_run_installation [OF assms] plain_then_tidy)
  moreover have "adds (tidy name tmp) (q, s1) s" for q :: outcome
    by (rule adds_weaken [OF 1]) (simp_all add: tidy_def)
  ultimately show ?thesis by (auto simp: internal_install_def p split: sum.split option.split)
qed

lemma tidy_unreported: "tidy name tmp cs \<Longrightarrow> IStatus b r \<notin> set cs"
  by (auto simp: tidy_def plain_def unreported_def)


lemma install_cases:
  assumes "fixed_host d name tmp"
  obtains p where "adds (tidy name tmp) p s" "\<forall>e. fst p \<noteq> Ret e" "install_server ops d re s = p"
  | e s1 where "adds (tidy name tmp) (Ret e, s1) s"
      "install_server ops d re s =
        (Ret e, on_server (emit SeInstallCompleted) (on_server (map_env (eo_set_state ops Offline))
          (snd (ask (IStatus (e = None) re) (id_do d (IStatus (e = None) re)) s1))))"
proof -
  let ?p = "if \<not> ic_skip (cfg_of d s) then internal_install d (on_server (emit SeInstallStarted) s) else (Ret None, s)"
  have started: "adds plain ((), on_server (emit SeInstallStarted) s) s" by (rule adds_emit) simp
  have "adds (tidy name tmp) (internal_install d (on_server (emit SeInstallStarted) s)) s"
    by (rule adds_trans [OF started, of "tidy name tmp"]) (simp_all add: adds_internal_install [OF assms] plain_then_tidy)
  then have p: "adds (tidy name tmp) ?p s" by (simp add: adds_refl tidy_def)
  show ?thesis
  proof (cases "\<exists>e. fst ?p = Ret e")
    case True
    then obtain e s1 where q: "?p = (Ret e, s1)" by (metis prod.collapse)
    from that(2) [of e s1] p q show ?thesis
      by (simp add: install_server_def Let_def sync_install_state_def)
  next
    case False
    then have "install_server ops d re s = ?p"
      by (cases "fst ?p") (auto simp: install_server_def Let_def prod_eq_iff)
    with that(1) [of ?p] p False show ?thesis by blast
  qed
qed

section \<open>Properties\<close>

text \<open>
  The panel learns how an installation went. If \<open>Install\<close> returns, the panel has been told exactly
  once, as the last request, and the success it was told is that of the result; the server is then
  offline, the completion is the last event, and the installation flag is as it was before.
\<close>

theorem install_reports_outcome:
  assumes "fixed_host d name tmp" and law: "\<forall>w. eo_state ops (eo_set_state ops Offline w) = Offline"
    and "install_server ops d re s = (Ret e, s')"
  shows "\<exists>cs es. ist_calls s' = ist_calls s @ cs @ [IStatus (e = None) re] \<and> (\<forall>b r. IStatus b r \<notin> set cs) \<and>
    sv_events (ist_server s') = sv_events (ist_server s) @ es @ [SeInstallCompleted] \<and>
    eo_state ops (sv_env (ist_server s')) = Offline \<and>
    sv_installing (ist_server s') = sv_installing (ist_server s)"
proof (cases rule: install_cases [OF assms(1), where s = s and ops = ops and re = re])
  case (1 p)
  with assms(3) show ?thesis by simp
next
  case (2 e1 s1)
  from 2(1) obtain cs es where "ist_calls s1 = ist_calls s @ cs" "tidy name tmp cs"
    "sv_events (ist_server s1) = sv_events (ist_server s) @ es"
    "sv_installing (ist_server s1) = sv_installing (ist_server s)" by (auto simp: adds_def)
  with 2(2) assms(3) law tidy_unreported [of name tmp cs] show ?thesis
    by (intro exI [of _ cs] exI [of _ es])
      (auto simp: on_server_def ask_def map_env_def emit_def Let_def)
qed


text \<open>A host on which every request succeeds.\<close>

definition example_install_cfg :: install_cfg where
  "example_install_cfg =
     \<lparr>ic_skip = False, ic_server_id = ''srv'', ic_server_path = ''/volumes/srv'', ic_env_vars = Ret [''TZ=UTC''],
      ic_build = \<lparr>lm_memory = 512, lm_swap = 0, lm_io_weight = 500, lm_cpu = 50, lm_disk_space = 0, lm_threads = [],
                  lm_oom_disabled = False\<rparr>,
      ic_memory = 1024, ic_cpu = 100, ic_registries = [], ic_tmpfs_size = 100, ic_dns = [], ic_network_mode = ''nw'',
      ic_userns_mode = [], ic_tmp_root = ''/tmp'', ic_log_root = ''/log'', ic_pids = 512, ic_bounded = (\<lambda>m. m * 1048576)\<rparr>"

definition example_installs :: "unit inst_deps" where
  "example_installs =
     \<lparr>id_cfg = (\<lambda>_. example_install_cfg), id_docker = None, id_do = (\<lambda>_ w. (None, w)),
      id_script = (\<lambda>w. (Inr \<lparr>isc_image = ''img'', isc_entrypoint = ''bash'', isc_text = ''exit''\<rparr>, w)),
      id_pull = (\<lambda>_ _ w. (Inr None, w)), id_images = (\<lambda>w. (Inr [], w)), id_create = (\<lambda>_ w. (Inr ''c'', w)),
      id_wait = (\<lambda>_ w. (None, w))\<rparr>"

definition example_inst :: "unit inst" where
  "example_inst = \<lparr>ist_server = quiet_server (), ist_calls = []\<rparr>"

lemma example_cfg_simps:
  "\<not> ic_skip example_install_cfg" "ic_env_vars example_install_cfg = Ret [''TZ=UTC'']"
  by (simp_all add: example_install_cfg_def)

lemmas example_run = example_cfg_simps install_server_def internal_install_def run_installation_def run_script_def before_execute_def
  write_script_to_disk_def pull_installation_image_def remove_container_def execute_script_def run_container_def
  await_container_def after_execute_def write_log_def sync_install_state_def example_installs_def doing_def ask_def cfg_of_def
  on_server_def set_installing_def map_env_def emit_def swap_if_def example_inst_def quiet_server_def seq_def Let_def

lemma example_fixed_host: "fixed_host example_installs ''srv_installer'' ''/tmp/srv''"
  unfolding fixed_host_def by (intro allI conjI; code_simp)

theorem install_reports_outcome_witness:
  "\<exists>s'. install_server dead_ops example_installs True example_inst = (Ret None, s') \<and>
     (\<exists>cs. ist_calls s' = cs @ [IStatus True True])"
proof -
  have r: "fst (install_server dead_ops example_installs True example_inst) = Ret None"
    by (simp add: example_run)
  obtain s' where s': "install_server dead_ops example_installs True example_inst = (Ret None, s')"
    using r by (cases "install_server dead_ops example_installs True example_inst") simp
  have "\<forall>w. eo_state dead_ops (eo_set_state dead_ops Offline w) = Offline" by (simp add: dead_ops_def)
  from install_reports_outcome [OF example_fixed_host this s'] s' show ?thesis
    by (auto simp: example_inst_def)
qed


section \<open>Where the installation goes wrong\<close>

text \<open>
  A second installation that is asked for while one runs is refused by the flag, but the panel is told
  that the installation has failed, the environment is set to offline and the completion is published,
  while the first goes on.
\<close>

lemma second_install_misreports:
  assumes "sv_installing (ist_server s)" and "\<not> ic_skip (cfg_of d s)" and "id_docker d = None"
    and "ask IScript (id_script d) (on_server (emit SeInstallStarted) s) = (Inr sc, s1)"
  shows "\<exists>e s'. install_server ops d re s = (Ret (Some e), s') \<and> sv_installing (ist_server s') \<and>
    IStatus False re \<in> set (ist_calls s') \<and> SeInstallCompleted \<in> set (sv_events (ist_server s'))"
proof -
  have "sv_installing (ist_server s1)"
    using assms(1,4) by (auto simp: ask_def Let_def on_server_def emit_def map_env_def)
  then show ?thesis
    using assms by (auto simp: install_server_def Let_def internal_install_def run_installation_def swap_if_def
        sync_install_state_def on_server_def emit_def map_env_def ask_def)
qed

text \<open>Logs of a container that is gone are copied from a nil reader.\<close>

lemma missing_logs_panic:
  assumes "ask (ILogs i) (id_do d (ILogs i)) s = (Some e, s1)" and "is_not_found e"
    and ok: "\<And>c w. c \<noteq> ILogs i \<Longrightarrow> fst (id_do d c w) = None"
  shows "fst (after_execute d i s) = Panic ''nil pointer dereference''"
proof -
  have "fst (doing d c s) = Ret None" if "c \<noteq> ILogs i" for c s
    using ok [OF that] by (simp add: doing_def ask_def Let_def)
  then have "fst (write_log d path False s1) = Panic ''nil pointer dereference''" for path
    by (simp add: write_log_def seq_def)
  then show ?thesis using assms(1,2) by (simp add: after_execute_def Let_def)
qed

text \<open>
  The container gets the larger of the two memory limits and, unless one of the processor limits is
  unlimited, the larger of those. A memory limit of zero is no limit to Docker, but counts as the
  smallest here: an unlimited server is installed under the installer's limit.
\<close>

lemma resource_limits_larger:
  "rs_memory (fst (resource_limits c)) = ic_bounded c (max (lm_memory (ic_build c)) (ic_memory c))"
  "lm_cpu (ic_build c) = 0 \<or> ic_cpu c = 0 \<Longrightarrow> rs_cpu_quota (fst (resource_limits c)) = 0"
  "0 < lm_cpu (ic_build c) \<Longrightarrow> 0 < ic_cpu c \<Longrightarrow>
     rs_cpu_quota (fst (resource_limits c)) = wrap64 (max (lm_cpu (ic_build c)) (ic_cpu c) * 1000)"
  by (auto simp: resource_limits_def as_container_resources_def Let_def max_def)

end
