(* ===== verification/Rustic_Config.thy ===== *)
theory Rustic_Config
  imports Go_Strings Prelude
begin

text \<open>
  The helpers of the rustic backups, \<open>src/server/backup/rustic.go\<close> and \<open>rustic_s3.go\<close>: validation of a
  configuration, of paths and of snapshot identifiers, tags, the text of the configuration file with its
  escaping, and the keys of an S3 listing. An error is its text.
\<close>

section \<open>Configuration\<close>

record s3_config =
  s3_bucket :: string
  s3_region :: string
  s3_endpoint :: string
  s3_key_id :: string
  s3_secret :: string
  s3_token :: string
  s3_path_style :: bool

record rustic_cfg =
  rf_backup :: string
  rf_server :: string
  rf_password :: string
  rf_type :: string
  rf_s3 :: "s3_config option"
  rf_local_path :: string
  rf_ignore :: string
  rf_tags :: "(string \<times> string) list"

definition wrap_text :: "string \<Rightarrow> string \<Rightarrow> string" where
  "wrap_text msg e = msg @ '': '' @ e"

definition validate_config :: "rustic_cfg \<Rightarrow> string option" where
  "validate_config c =
     (if rf_password c = [] then Some ''repository password is required''
      else if rf_type c = ''local''
      then (if rf_local_path c = [] then Some ''local path is required for local backups'' else None)
      else if rf_type c = ''s3''
      then (case rf_s3 c of
              None \<Rightarrow> Some ''S3 configuration is required for S3 backups''
            | Some s \<Rightarrow>
                if s3_bucket s = [] then Some ''S3 bucket is required''
                else if s3_key_id s = [] \<or> s3_secret s = [] then Some ''S3 credentials are required''
                else if rf_server c = [] then Some ''server UUID is required for S3 backups''
                else None)
      else Some (''unsupported backup type: '' @ rf_type c))"

text \<open>\<open>stat\<close> gives the error of asking for the path's information.\<close>

definition validate_path :: "(string \<Rightarrow> string option) \<Rightarrow> string \<Rightarrow> string option" where
  "validate_path stat path =
     (if path = [] then Some ''path cannot be empty''
      else if contains path ''..'' then Some ''path contains directory traversal''
      else if \<not> has_prefix path ''/'' then Some ''path must be absolute''
      else map_option (wrap_text ''path not accessible'') (stat path))"

section \<open>Snapshot identifiers\<close>

definition is_lower_hex :: "char \<Rightarrow> bool" where
  "is_lower_hex c =
     (let k = of_char c :: nat in (48 \<le> k \<and> k \<le> 57) \<or> (97 \<le> k \<and> k \<le> 102))"

definition is_valid_snapshot_id :: "string \<Rightarrow> bool" where
  "is_valid_snapshot_id i =
     (if List.length i = 36 \<and> count_list i (CHR ''-'') = 4 then True
      else list_all is_lower_hex i \<and> (List.length i = 8 \<or> List.length i = 64))"

definition is_blank :: "char \<Rightarrow> bool" where
  "is_blank c = (c \<in> {CHR '' '', CHR 0x09, CHR 0x0A, CHR 0x0C, CHR 0x0D})"

text \<open>One match of the pattern \<open>snapshot ID successfully saved\<close> at the start of a text.\<close>

definition blanks_then :: "string \<Rightarrow> string \<Rightarrow> string option" where
  "blanks_then word s =
     (let t = dropWhile is_blank s
      in if t \<noteq> s \<and> has_prefix t word then Some (drop (List.length word) t) else None)"

definition saved_here :: "string \<Rightarrow> string option" where
  "saved_here s =
     (if \<not> has_prefix s ''snapshot'' then None
      else (let t = drop 8 s; u = dropWhile is_blank t; i = takeWhile is_lower_hex u
            in if t = u \<or> List.length i < 8 \<or> 64 < List.length i then None
               else (case blanks_then ''successfully'' (drop (List.length i) u) of
                       None \<Rightarrow> None
                     | Some v \<Rightarrow> (case blanks_then ''saved'' v of None \<Rightarrow> None | Some _ \<Rightarrow> Some i))))"

fun extract_snapshot_id :: "string \<Rightarrow> string" where
  "extract_snapshot_id [] = []"
| "extract_snapshot_id (c # cs) =
     (case saved_here (c # cs) of Some i \<Rightarrow> i | None \<Rightarrow> extract_snapshot_id cs)"

section \<open>Tags\<close>

text \<open>A Go map is read in any order, so the pairs are a list; writing builds the map.\<close>

definition format_tags :: "(string \<times> string) list \<Rightarrow> string list" where
  "format_tags = List.map (\<lambda>(k, v). if v = [] then k else k @ '':'' @ v)"

definition parse_tag :: "(string \<rightharpoonup> string) \<Rightarrow> string \<Rightarrow> (string \<rightharpoonup> string)" where
  "parse_tag m tag =
     (case split_first (CHR '':'') tag of
        [k, v] \<Rightarrow> m(k \<mapsto> v)
      | _ \<Rightarrow> m(tag \<mapsto> []))"

definition parse_tags :: "string list \<Rightarrow> (string \<rightharpoonup> string)" where
  "parse_tags tags = foldl parse_tag Map.empty tags"

section \<open>The configuration file\<close>

text \<open>\<open>strings.ReplaceAll\<close> of a character.\<close>

definition replace_char :: "char \<Rightarrow> string \<Rightarrow> string \<Rightarrow> string" where
  "replace_char c by s = concat (List.map (\<lambda>x. if x = c then by else [x]) s)"

definition escape_toml :: "string \<Rightarrow> string" where
  "escape_toml s =
     replace_char (CHR 0x09) [CHR 0x5C, CHR ''t'']
       (replace_char (CHR 0x0D) [CHR 0x5C, CHR ''r'']
         (replace_char (CHR 0x0A) [CHR 0x5C, CHR ''n'']
           (replace_char (CHR 0x22) [CHR 0x5C, CHR 0x22]
             (replace_char (CHR 0x5C) [CHR 0x5C, CHR 0x5C] s))))"

definition toml_line :: "string \<Rightarrow> string \<Rightarrow> string" where
  "toml_line key v = key @ '' = '' @ [CHR 0x22] @ escape_toml v @ [CHR 0x22, CHR 0x0A]"

definition config_content :: "rustic_cfg \<Rightarrow> s3_config \<Rightarrow> string \<Rightarrow> string" where
  "config_content c s root =
     ''[repository]'' @ [CHR 0x0A] @ toml_line ''repository'' ''opendal:s3'' @
     toml_line ''password'' (rf_password c) @ [CHR 0x0A] @
     ''[repository.options]'' @ [CHR 0x0A] @ toml_line ''bucket'' (s3_bucket s) @ toml_line ''root'' root @
     toml_line ''access_key_id'' (s3_key_id s) @ toml_line ''secret_access_key'' (s3_secret s) @
     toml_line ''region'' (s3_region s) @
     (if s3_token s \<noteq> [] then toml_line ''session_token'' (s3_token s) else []) @
     (if s3_endpoint s \<noteq> [] then toml_line ''endpoint'' (s3_endpoint s) else []) @
     (if s3_path_style s then toml_line ''enable_virtual_host_style'' ''false'' else [])"

section \<open>The keys of a listing\<close>

text \<open>The text before and after the first occurrence of a mark: \<open>strings.Index\<close> and the two slices.\<close>

fun cut_at :: "string \<Rightarrow> string \<Rightarrow> (string \<times> string) option" where
  "cut_at mark [] = (if mark = [] then Some ([], []) else None)"
| "cut_at mark (c # cs) =
     (if has_prefix (c # cs) mark then Some ([], drop (List.length mark) (c # cs))
      else map_option (\<lambda>(b, a). (c # b, a)) (cut_at mark cs))"

lemma cut_at_shorter: "cut_at mark s = Some (b, a) \<Longrightarrow> mark \<noteq> [] \<Longrightarrow> List.length a < List.length s"
proof (induction s arbitrary: b a)
  case (Cons c cs)
  show ?case
  proof (cases "has_prefix (c # cs) mark")
    case True
    then show ?thesis using Cons.prems by (cases mark) auto
  next
    case False
    then obtain b' where "cut_at mark cs = Some (b', a)" using Cons.prems by auto
    from Cons.IH [OF this Cons.prems(2)] show ?thesis by simp
  qed
qed (simp split: if_splits)

function extract_keys :: "string \<Rightarrow> string list" where
  "extract_keys content =
     (case cut_at ''<Key>'' content of
        None \<Rightarrow> []
      | Some (_, rest) \<Rightarrow>
          (case cut_at ''</Key>'' rest of
             None \<Rightarrow> []
           | Some (key, rest1) \<Rightarrow> key # extract_keys rest1))"
  by pat_completeness auto
termination
proof (relation "measure List.length", goal_cases)
  case (2 content x pre rest y key rest1)
  then have "cut_at ''<Key>'' content = Some (pre, rest)" "cut_at ''</Key>'' rest = Some (key, rest1)" by simp_all
  from this [THEN cut_at_shorter] show ?case by simp
qed simp

declare extract_keys.simps [simp del]

section \<open>Lemmas\<close>

lemma replace_char_append [simp]: "replace_char c by (s @ t) = replace_char c by s @ replace_char c by t"
  by (simp add: replace_char_def)


lemma replace_char_Nil [simp]: "replace_char c by [] = []"
  by (simp add: replace_char_def)







lemma contains_Cons_no: "\<not> contains (x # s) sub \<Longrightarrow> \<not> has_prefix (x # s) sub \<and> \<not> contains s sub"
  by simp

lemma cut_at_first:
  assumes "c \<notin> set t" and "\<not> contains pre (c # t)"
  shows "cut_at (c # t) (pre @ (c # t) @ rest) = Some (pre, rest)"
  using assms(2)
proof (induction pre)
  case (Cons x xs)
  have "\<not> has_prefix (x # xs @ (c # t) @ rest) (c # t)"
  proof
    assume "has_prefix (x # xs @ (c # t) @ rest) (c # t)"
    then have p: "x = c" "take (List.length t) (xs @ (c # t) @ rest) = t" by (simp_all add: has_prefix_def)
    show False
    proof (cases "List.length t \<le> List.length xs")
      case True
      then have "has_prefix (x # xs) (c # t)" using p by (simp add: has_prefix_def)
      with Cons.prems show False by simp
    next
      case False
      then have "t ! List.length xs = c"
        using p(2) by (metis nth_append_length nth_take append_Cons not_le)
      with False assms(1) show False by (metis not_le nth_mem)
    qed
  qed
  with Cons show ?case by simp
qed simp

lemma cut_at_end:
  assumes "CHR ''<'' \<notin> set k"
  shows "cut_at ''</Key>'' (k @ ''</Key>'' @ rest) = Some (k, rest)"
proof -
  have "\<not> contains k ''</Key>''"
    using assms by (induction k) (auto simp: has_prefix_def)
  from cut_at_first [of "CHR ''<''" "''/Key>''" k rest] this show ?thesis by simp
qed

lemma split_first_absent: "c \<notin> set s \<Longrightarrow> split_first c s = [s]"
  by (simp add: split_first_def)

lemma split_first_present: "c \<notin> set k \<Longrightarrow> split_first c (k @ c # v) = [k, v]"
  by (auto simp: split_first_def takeWhile_append dropWhile_append split: if_splits)

lemma parse_tag_formatted:
  assumes "CHR '':'' \<notin> set k"
  shows "parse_tag m (if v = [] then k else k @ '':'' @ v) = m(k \<mapsto> v)"
  using assms split_first_present [OF assms, of v] by (simp add: parse_tag_def split_first_absent)

lemma parse_tags_from:
  assumes "\<forall>(k, v) \<in> set ts. CHR '':'' \<notin> set k" and "distinct (map fst ts)"
  shows "foldl parse_tag m (format_tags ts) = m ++ map_of ts"
  using assms
proof (induction ts arbitrary: m)
  case (Cons p ts)
  obtain k v where p: "p = (k, v)" by (cases p)
  have "foldl parse_tag m (format_tags (p # ts)) = foldl parse_tag (m(k \<mapsto> v)) (format_tags ts)"
    using Cons.prems(1) parse_tag_formatted [of k m v] by (simp add: format_tags_def p)
  also have "\<dots> = (m(k \<mapsto> v)) ++ map_of ts" using Cons by simp
  also have "\<dots> = m ++ map_of (p # ts)"
    using Cons.prems(2) by (simp add: p dom_map_of_conv_image_fst map_add_upd_left)
  finally show ?case .
qed (simp add: format_tags_def)

section \<open>Properties\<close>


text \<open>
  Tags survive the way through rustic. Formatting the tags of a snapshot and parsing them gives the
  map back, in whatever order they are formatted, if no name has a colon.
\<close>

theorem tags_roundtrip:
  assumes "\<forall>(k, v) \<in> set ts. CHR '':'' \<notin> set k" and "distinct (map fst ts)"
  shows "parse_tags (format_tags ts) = map_of ts"
  using parse_tags_from [OF assms, of Map.empty] by (simp add: parse_tags_def)

theorem tags_roundtrip_witness:
  "parse_tags (format_tags [(''type'', ''server_backup''), (''url'', ''a:b''), (''x'', [])]) =
     map_of [(''type'', ''server_backup''), (''url'', ''a:b''), (''x'', [])]"
  by (rule tags_roundtrip) simp_all

text \<open>
  The keys of a listing. From a listing whose keys have no angle bracket the keys are read in order,
  whatever stands between them.
\<close>

theorem listed_keys:
  assumes "\<forall>(pre, k) \<in> set ks. \<not> contains pre ''<Key>'' \<and> CHR ''<'' \<notin> set k" and "\<not> contains end_text ''<Key>''"
  shows "extract_keys (concat (map (\<lambda>(pre, k). pre @ ''<Key>'' @ k @ ''</Key>'') ks) @ end_text) = map snd ks"
  using assms(1)
proof (induction ks)
  case Nil
  have "cut_at ''<Key>'' end_text = None"
    using assms(2) by (induction end_text) auto
  then show ?case by (simp add: extract_keys.simps)
next
  case (Cons p ks)
  obtain pre k where p: "p = (pre, k)" by (cases p)
  let ?rest = "concat (map (\<lambda>(pre, k). pre @ ''<Key>'' @ k @ ''</Key>'') ks) @ end_text"
  have "cut_at ''<Key>'' (pre @ ''<Key>'' @ (k @ ''</Key>'' @ ?rest)) = Some (pre, k @ ''</Key>'' @ ?rest)"
    using cut_at_first [of "CHR ''<''" "''Key>''" pre "k @ ''</Key>'' @ ?rest"] Cons.prems by (simp add: p)
  moreover have "cut_at ''</Key>'' (k @ ''</Key>'' @ ?rest) = Some (k, ?rest)"
    using cut_at_end [of k ?rest] Cons.prems by (simp add: p)
  ultimately show ?case using Cons by (subst extract_keys.simps) (simp add: p)
qed

theorem listed_keys_witness:
  "extract_keys ''<R><Key>a/b</Key><Key>c</Key></R>'' = [''a/b'', ''c'']"
  using listed_keys [of "[(''<R>'', ''a/b''), ([], ''c'')]" "''</R>''"] by simp

text \<open>The check of an identifier lets through what is no identifier, even an option of the program.\<close>

lemma option_as_snapshot_id: "is_valid_snapshot_id ''--repository=/tmp/a-b-cccccccccccccc''"
  by code_simp

end
