(* ===== verification/Rustic_Repo.thy ===== *)
theory Rustic_Repo
  imports Rustic_Config
begin

text \<open>
  The two repositories that hold rustic's snapshots, \<open>src/server/backup/rustic_local.go\<close> and
  \<open>rustic_s3.go\<close>. Each operation runs the program with its arguments and reads its output, or makes
  signed requests to the object store. The program, the files of the host, the store and the decoding of
  JSON are functions of a world \<open>'w\<close>; what is run and requested is recorded.
\<close>

section \<open>The world\<close>

text \<open>\<open>cm_env\<close> is what is added to the environment of the process.\<close>

record cmd =
  cm_args :: "string list"
  cm_env :: "(string \<times> string) list"
  cm_dir :: "string option"

text \<open>\<open>cr_timeout\<close>: the deadline of the command's context had passed when it returned.\<close>

record cmd_result =
  cr_output :: string
  cr_stdout :: string
  cr_err :: "string option"
  cr_timeout :: bool

record http_req =
  hq_method :: string
  hq_host :: string
  hq_path :: string
  hq_query :: string
  hq_headers :: "(string \<times> string) list"

datatype rust_call = RcRun cmd | RcHttp http_req | RcFile string string

record snapshot_info =
  si_id :: string
  si_time :: time
  si_paths :: "string list"
  si_tags :: "string list"
  si_added :: "int option"

record snapshot =
  sn_id :: string
  sn_backup :: string
  sn_size :: int
  sn_created :: time
  sn_tags :: "string \<rightharpoonup> string"
  sn_paths :: "string list"

record repository_info =
  ri_total :: int
  ri_count :: nat
  ri_update :: time

text \<open>
  \<open>ud_file\<close> is an operation on a path of the host with its error. The decoders of JSON give an error or
  the part of the document that the code uses. An answer of the store has its status, the body as far as
  it could be read, and the error of reading it.
\<close>

record 'w rust_deps =
  ud_path_binary :: "string option"
  ud_cfg_binary :: string
  ud_repo_base :: string
  ud_run :: "cmd \<Rightarrow> 'w \<Rightarrow> cmd_result \<times> 'w"
  ud_file :: "string \<Rightarrow> string \<Rightarrow> 'w \<Rightarrow> string option \<times> 'w"
  ud_missing :: "string \<Rightarrow> 'w \<Rightarrow> bool"
  ud_temp :: "string \<Rightarrow> 'w \<Rightarrow> (string + string) \<times> 'w"
  ud_now :: "'w \<Rightarrow> time"
  ud_snapshots :: "string \<Rightarrow> string + snapshot_info list"
  ud_groups :: "string \<Rightarrow> string + snapshot_info list list"
  ud_flat_sizes :: "string \<Rightarrow> string + (string \<times> int) list"
  ud_blobs :: "string \<Rightarrow> string + int list"
  ud_files :: "string \<Rightarrow> string + int list"
  ud_host :: "string \<Rightarrow> string + string"
  ud_query_escape :: "string \<Rightarrow> string"
  ud_sha256_hex :: "string \<Rightarrow> string"
  ud_hmac :: "string \<Rightarrow> string \<Rightarrow> string"
  ud_hex :: "string \<Rightarrow> string"
  ud_date :: "time \<Rightarrow> string"
  ud_stamp :: "time \<Rightarrow> string"
  ud_http :: "http_req \<Rightarrow> 'w \<Rightarrow> (string + (nat \<times> string \<times> string option)) \<times> 'w"

text \<open>\<open>ru_temp\<close> and \<open>ru_conf\<close> are the fields of the S3 repository that change.\<close>

record 'w rust =
  ru_world :: 'w
  ru_calls :: "rust_call list"
  ru_temp :: string
  ru_conf :: string

type_synonym ('w, 'a) rio = "'w rust \<Rightarrow> (string + 'a) \<times> 'w rust"

definition rret :: "'a \<Rightarrow> ('w, 'a) rio" where "rret x s = (Inr x, s)"
definition rfail :: "string \<Rightarrow> ('w, 'a) rio" where "rfail e s = (Inl e, s)"

definition rbind :: "('w, 'a) rio \<Rightarrow> ('a \<Rightarrow> ('w, 'b) rio) \<Rightarrow> ('w, 'b) rio" where
  "rbind m f s = (case m s of (Inl e, s1) \<Rightarrow> (Inl e, s1) | (Inr x, s1) \<Rightarrow> f x s1)"

definition rwrap :: "string \<Rightarrow> ('w, 'a) rio \<Rightarrow> ('w, 'a) rio" where
  "rwrap msg m s = (case m s of (Inl e, s1) \<Rightarrow> (Inl (wrap_text msg e), s1) | (Inr x, s1) \<Rightarrow> (Inr x, s1))"

definition rask :: "rust_call \<Rightarrow> ('w \<Rightarrow> 'r \<times> 'w) \<Rightarrow> ('w, 'r) rio" where
  "rask c f s =
     (let p = f (ru_world s) in (Inr (fst p), s\<lparr>ru_world := snd p, ru_calls := ru_calls s @ [c]\<rparr>))"

definition rfile :: "'w rust_deps \<Rightarrow> string \<Rightarrow> string \<Rightarrow> ('w, unit) rio" where
  "rfile d what path =
     rbind (rask (RcFile what path) (ud_file d what path))
       (\<lambda>e. case e of None \<Rightarrow> rret () | Some x \<Rightarrow> rfail x)"

definition rlook :: "('w \<Rightarrow> 'a) \<Rightarrow> ('w, 'a) rio" where "rlook f s = (Inr (f (ru_world s)), s)"

definition rdecode :: "string \<Rightarrow> string + 'a \<Rightarrow> ('w, 'a) rio" where
  "rdecode msg r = (case r of Inl e \<Rightarrow> rfail (wrap_text msg e) | Inr x \<Rightarrow> rret x)"

section \<open>Commands\<close>

definition get_rustic_binary :: "'w rust_deps \<Rightarrow> string + string" where
  "get_rustic_binary d =
     (case ud_path_binary d of
        Some p \<Rightarrow> Inr p
      | None \<Rightarrow> if ud_cfg_binary d \<noteq> [] then Inr (ud_cfg_binary d) else Inl ''rustic binary not found'')"

text \<open>\<open>filepath.Dir\<close> of the repositories' path, which has a slash.\<close>

definition get_cache_dir :: "'w rust_deps \<Rightarrow> string" where
  "get_cache_dir d =
     (if ud_repo_base d \<noteq> []
      then path_join [path_clean (fst (path_split (ud_repo_base d))), ''rustic-cache'']
      else ''/var/lib/elytra/rustic-cache'')"

definition cache_env :: "'w rust_deps \<Rightarrow> (string \<times> string) list" where
  "cache_env d = (if get_cache_dir d \<noteq> [] then [(''RUSTIC_CACHE_DIR'', get_cache_dir d)] else [])"

record local_repo =
  lr_cfg :: rustic_cfg
  lr_path :: string

record s3_repo =
  sr_cfg :: rustic_cfg
  sr_s3 :: s3_config

type_synonym 'w builder = "string list \<Rightarrow> ('w, cmd) rio"

definition local_build :: "'w rust_deps \<Rightarrow> local_repo \<Rightarrow> 'w builder" where
  "local_build d r args =
     (case get_rustic_binary d of
        Inl e \<Rightarrow> rfail e
      | Inr b \<Rightarrow>
          rret \<lparr>cm_args = b # args,
                cm_env = [(''RUSTIC_REPOSITORY'', lr_path r), (''RUSTIC_PASSWORD'', rf_password (lr_cfg r))] @ cache_env d,
                cm_dir = None\<rparr>)"

definition s3_build :: "'w rust_deps \<Rightarrow> 'w builder" where
  "s3_build d args s =
     (case get_rustic_binary d of
        Inl e \<Rightarrow> (Inl e, s)
      | Inr b \<Rightarrow>
          if ru_temp s = [] \<or> ru_conf s = [] then (Inl ''config file not initialized'', s)
          else (Inr \<lparr>cm_args = b # [''--use-profile'', ''elytra''] @ args, cm_env = cache_env d,
                     cm_dir = Some (ru_temp s)\<rparr>, s))"

definition run_cmd :: "'w rust_deps \<Rightarrow> cmd \<Rightarrow> ('w, cmd_result) rio" where
  "run_cmd d c = rask (RcRun c) (ud_run d c)"

section \<open>What both repositories do\<close>

definition snapshot_of :: "snapshot_info \<Rightarrow> snapshot" where
  "snapshot_of i =
     \<lparr>sn_id = si_id i, sn_backup = (case parse_tags (si_tags i) ''backup_uuid'' of None \<Rightarrow> [] | Some b \<Rightarrow> b),
      sn_size = (case si_added i of Some a \<Rightarrow> if 0 < a then a else 1024 | None \<Rightarrow> 1024),
      sn_created = si_time i, sn_tags = parse_tags (si_tags i), sn_paths = si_paths i\<rparr>"

definition repo_info :: "'w rust_deps \<Rightarrow> 'w builder \<Rightarrow> ('w, repository_info) rio" where
  "repo_info d build =
     rbind (build [''repoinfo'', ''--json'']) (\<lambda>c. rbind (run_cmd d c) (\<lambda>r.
       case cr_err r of
         Some e \<Rightarrow> rfail (wrap_text ''failed to get repository info'' e)
       | None \<Rightarrow>
           rbind (rdecode ''failed to parse repository info'' (ud_blobs d (cr_stdout r))) (\<lambda>bs.
             rbind (rlook (ud_now d)) (\<lambda>now.
               rret \<lparr>ri_total = foldl (\<lambda>t b. wrap64 (t + b)) 0 bs, ri_count = List.length bs, ri_update = now\<rparr>))))"

definition get_snapshot :: "'w rust_deps \<Rightarrow> 'w builder \<Rightarrow> string \<Rightarrow> ('w, snapshot) rio" where
  "get_snapshot d build i =
     (if \<not> is_valid_snapshot_id i then rfail ''invalid snapshot ID format''
      else rbind (build [''snapshots'', ''--json'', i]) (\<lambda>c. rbind (run_cmd d c) (\<lambda>r.
        case cr_err r of
          Some e \<Rightarrow> rfail (wrap_text ''failed to get snapshot'' e)
        | None \<Rightarrow>
            rbind (rdecode ''failed to parse snapshot info'' (ud_snapshots d (cr_stdout r))) (\<lambda>is.
              case is of [] \<Rightarrow> rfail ''snapshot not found'' | x # _ \<Rightarrow> rret (snapshot_of x)))))"

definition filter_args :: "(string \<times> string) list \<Rightarrow> string list" where
  "filter_args flt =
     concat (List.map (\<lambda>(k, v). [''--filter-tags'', if v = [] then k else k @ '':'' @ v]) flt)"

definition list_snapshots ::
  "'w rust_deps \<Rightarrow> 'w builder \<Rightarrow> (string \<times> string) list \<Rightarrow> ('w, snapshot list) rio" where
  "list_snapshots d build flt =
     rbind (build ([''snapshots'', ''--json''] @ filter_args flt)) (\<lambda>c. rbind (run_cmd d c) (\<lambda>r.
       case cr_err r of
         Some e \<Rightarrow> rfail (wrap_text ''failed to list snapshots'' e)
       | None \<Rightarrow>
           rbind (rdecode ''failed to parse snapshot list'' (ud_groups d (cr_stdout r))) (\<lambda>gs.
             rret (List.map snapshot_of (concat gs)))))"

definition repository_size :: "'w rust_deps \<Rightarrow> 'w builder \<Rightarrow> ('w, int) rio" where
  "repository_size d build =
     rbind (rwrap ''failed to build size query command'' (build [''repoinfo'', ''--json''])) (\<lambda>c.
       rbind (run_cmd d c) (\<lambda>r.
         if cr_err r \<noteq> None
         then rfail (if cr_timeout r then ''repository size query timed out after 30 seconds''
                     else ''failed to get repository size'')
         else (case ud_files d (cr_stdout r) of
                 Inl _ \<Rightarrow> rfail ''failed to parse repository info''
               | Inr fs \<Rightarrow> rret (foldl (\<lambda>t f. wrap64 (t + f)) 0 fs))))"

definition backup_args :: "string \<Rightarrow> (string \<times> string) list \<Rightarrow> string list" where
  "backup_args path tags = ''backup'' # concat (List.map (\<lambda>t. [''--tag'', t]) (format_tags tags)) @ [path]"

definition with_ignore_file :: "string \<Rightarrow> cmd \<Rightarrow> cmd" where
  "with_ignore_file f c = (if f \<noteq> [] then c\<lparr>cm_env := cm_env c @ [(''RUSTIC_IGNORE_FILE'', f)]\<rparr> else c)"

definition saved_snapshot :: "'w rust_deps \<Rightarrow> 'w builder \<Rightarrow> cmd_result \<Rightarrow> ('w, snapshot) rio" where
  "saved_snapshot d build r =
     (let i = extract_snapshot_id (cr_output r)
      in if i = [] then rfail ''failed to extract snapshot ID from output'' else get_snapshot d build i)"

definition forget_args :: "string \<Rightarrow> string list" where
  "forget_args i = [''forget'', ''--prune'', ''--keep-delete'', ''1d'', i]"

section \<open>The local repository\<close>

definition new_local_repository :: "rustic_cfg \<Rightarrow> string + local_repo" where
  "new_local_repository c =
     (if rf_local_path c = [] then Inl ''local path is required''
      else (let p = path_clean (rf_local_path c)
            in if \<not> has_prefix p ''/'' then Inl ''repository path must be absolute''
               else Inr \<lparr>lr_cfg = c, lr_path = p\<rparr>))"

definition local_exists :: "'w rust_deps \<Rightarrow> local_repo \<Rightarrow> ('w, bool) rio" where
  "local_exists d r =
     rbind (rlook (ud_missing d (path_join [lr_path r, ''config'']))) (\<lambda>missing.
       if missing then rret False
       else rbind (local_build d r [''snapshots'', ''--json'']) (\<lambda>c. rbind (run_cmd d c) (\<lambda>x.
              rret (cr_err x = None))))"

definition local_initialize :: "'w rust_deps \<Rightarrow> local_repo \<Rightarrow> ('w, unit) rio" where
  "local_initialize d r =
     rbind (rwrap ''failed to check repository existence'' (local_exists d r)) (\<lambda>there.
       if there then rret ()
       else rbind (rwrap ''failed to create repository directory'' (rfile d ''mkdir'' (lr_path r))) (\<lambda>_.
         rbind (rwrap ''failed to build init command'' (local_build d r [''init''])) (\<lambda>c.
           rbind (run_cmd d c) (\<lambda>x.
             if cr_err x \<noteq> None then rfail ''repository initialization failed'' else rret ()))))"

definition local_info :: "'w rust_deps \<Rightarrow> local_repo \<Rightarrow> ('w, repository_info) rio" where
  "local_info d r = repo_info d (local_build d r)"

definition local_create_snapshot ::
  "'w rust_deps \<Rightarrow> local_repo \<Rightarrow> string \<Rightarrow> (string \<times> string) list \<Rightarrow> string \<Rightarrow> ('w, snapshot) rio" where
  "local_create_snapshot d r path tags ignore_file =
     rbind (rwrap ''failed to build backup command'' (local_build d r (backup_args path tags))) (\<lambda>c.
       rbind (run_cmd d (with_ignore_file ignore_file c)) (\<lambda>x.
         if cr_err x \<noteq> None then rfail ''backup failed'' else saved_snapshot d (local_build d r) x))"

definition local_get_snapshot :: "'w rust_deps \<Rightarrow> local_repo \<Rightarrow> string \<Rightarrow> ('w, snapshot) rio" where
  "local_get_snapshot d r = get_snapshot d (local_build d r)"

definition local_list_snapshots ::
  "'w rust_deps \<Rightarrow> local_repo \<Rightarrow> (string \<times> string) list \<Rightarrow> ('w, snapshot list) rio" where
  "local_list_snapshots d r = list_snapshots d (local_build d r)"

definition local_delete_snapshot :: "'w rust_deps \<Rightarrow> local_repo \<Rightarrow> string \<Rightarrow> ('w, unit) rio" where
  "local_delete_snapshot d r i =
     (if \<not> is_valid_snapshot_id i then rfail ''invalid snapshot ID format''
      else rbind (rwrap ''failed to build delete command'' (local_build d r (forget_args i))) (\<lambda>c.
        rbind (run_cmd d c) (\<lambda>x.
          if cr_err x = None then rret ()
          else if contains (cr_output x) ''not found'' \<or> contains (cr_output x) ''NotFound'' then rret ()
          else if cr_timeout x then rfail ''snapshot deletion timed out after 60 seconds''
          else rfail ''failed to delete snapshot'')))"

definition local_repository_size :: "'w rust_deps \<Rightarrow> local_repo \<Rightarrow> ('w, int) rio" where
  "local_repository_size d r = repository_size d (local_build d r)"

definition sizes_query :: "'w rust_deps \<Rightarrow> 'w builder \<Rightarrow> ('w, string) rio" where
  "sizes_query d build =
     rbind (rwrap ''failed to build snapshot list command'' (build [''snapshots'', ''--json''])) (\<lambda>c.
       rbind (run_cmd d c) (\<lambda>x.
         if cr_err x \<noteq> None
         then rfail (if cr_timeout x then ''snapshot list query timed out after 60 seconds''
                     else ''failed to get snapshot list'')
         else rret (cr_output x)))"

definition local_snapshot_sizes :: "'w rust_deps \<Rightarrow> local_repo \<Rightarrow> ('w, string \<rightharpoonup> int) rio" where
  "local_snapshot_sizes d r =
     rbind (sizes_query d (local_build d r)) (\<lambda>out.
       case ud_flat_sizes d out of
         Inl _ \<Rightarrow> rfail ''failed to parse snapshot list''
       | Inr xs \<Rightarrow> rret (foldl (\<lambda>m (i, n). m(i \<mapsto> n)) Map.empty xs))"

definition local_restore_snapshot ::
  "'w rust_deps \<Rightarrow> local_repo \<Rightarrow> string \<Rightarrow> string \<Rightarrow> string \<Rightarrow> ('w, unit) rio" where
  "local_restore_snapshot d r i target source =
     (if \<not> is_valid_snapshot_id i then rfail ''invalid snapshot ID format''
      else rbind (rwrap ''failed to build restore command'' (local_build d r [''restore'', i @ '':'' @ source, target])) (\<lambda>c.
        rbind (run_cmd d c) (\<lambda>x.
          case cr_err x of None \<Rightarrow> rret () | Some e \<Rightarrow> rfail (wrap_text ''restore failed'' e))))"

definition local_destroy :: "'w rust_deps \<Rightarrow> local_repo \<Rightarrow> ('w, unit) rio" where
  "local_destroy d r =
     rbind (rlook (ud_missing d (lr_path r))) (\<lambda>missing.
       if missing then rret ()
       else rwrap ''failed to remove repository directory'' (rfile d ''removeall'' (lr_path r)))"

definition local_close :: "('w, unit) rio" where
  "local_close = rret ()"

section \<open>The S3 repository\<close>

definition repo_root :: "s3_repo \<Rightarrow> string" where
  "repo_root r = ''rustic-repos/'' @ rf_server (sr_cfg r)"

definition corrupted_root :: "s3_repo \<Rightarrow> string" where
  "corrupted_root r = ''rustic-corrupted-repos/'' @ rf_server (sr_cfg r)"

text \<open>Opening and writing the configuration file are the file operations \<open>open\<close> and \<open>write\<close>.\<close>

definition create_config_file_at_path :: "'w rust_deps \<Rightarrow> s3_repo \<Rightarrow> string \<Rightarrow> string \<Rightarrow> ('w, unit) rio" where
  "create_config_file_at_path d r path root =
     (if path = [] then rfail ''config path cannot be empty''
      else if root = [] then rfail ''repository root cannot be empty''
      else rbind (rwrap ''failed to create config file'' (rfile d ''open'' path)) (\<lambda>_.
        rwrap ''failed to write config file''
          (rfile d ''write'' (config_content (sr_cfg r) (sr_s3 r) root))))"

definition and_on_error :: "('w, unit) rio \<Rightarrow> ('w, 'a) rio \<Rightarrow> ('w, 'a) rio" where
  "and_on_error c m s = (case m s of (Inl e, s1) \<Rightarrow> (Inl e, snd (c s1)) | (Inr x, s1) \<Rightarrow> (Inr x, s1))"

definition create_config_file :: "'w rust_deps \<Rightarrow> s3_repo \<Rightarrow> ('w, unit) rio" where
  "create_config_file d r s =
     (if ru_temp s \<noteq> [] then (Inr (), s)
      else rbind (rwrap ''failed to create temp directory''
               (rbind (rask (RcFile ''mkdirtemp'' ''elytra-rustic-s3-'') (ud_temp d ''elytra-rustic-s3-''))
                 (\<lambda>t. case t of Inl e \<Rightarrow> rfail e | Inr p \<Rightarrow> rret p)))
             (\<lambda>temp. rbind
               (and_on_error (rfile d ''removeall'' temp)
                 (rbind (rwrap ''failed to set temp directory permissions'' (rfile d ''chmod'' temp)) (\<lambda>_.
                    rwrap ''failed to create config file''
                      (create_config_file_at_path d r (path_join [temp, ''elytra.toml'']) (repo_root r)))))
               (\<lambda>_ s1. (Inr (), s1\<lparr>ru_temp := temp, ru_conf := path_join [temp, ''elytra.toml'']\<rparr>))) s)"

definition new_s3_repository :: "'w rust_deps \<Rightarrow> rustic_cfg \<Rightarrow> ('w, s3_repo) rio" where
  "new_s3_repository d c =
     (case rf_s3 c of
        None \<Rightarrow> rfail ''S3 configuration is required''
      | Some s3 \<Rightarrow>
          if rf_server c = [] then rfail ''server UUID is required for S3 repositories''
          else (let r = \<lparr>sr_cfg = c, sr_s3 = s3\<rparr>
                in rbind (rwrap ''failed to create S3 config file'' (create_config_file d r)) (\<lambda>_. rret r)))"

definition s3_close :: "'w rust_deps \<Rightarrow> ('w, unit) rio" where
  "s3_close d s =
     (if ru_temp s \<noteq> []
      then rbind (rfile d ''removeall'' (ru_temp s)) (\<lambda>_ s1. (Inr (), s1\<lparr>ru_temp := [], ru_conf := []\<rparr>)) s
      else (Inr (), s))"

subsection \<open>Requests to the object store\<close>

definition nl :: string where "nl = [CHR 0x0A]"

definition sign_request :: "'w rust_deps \<Rightarrow> s3_repo \<Rightarrow> time \<Rightarrow> string \<Rightarrow> http_req \<Rightarrow> http_req" where
  "sign_request d r now payload q =
     (let date = ud_date d now; stamp = ud_stamp d now;
          hash = (if payload \<noteq> [] then ud_sha256_hex d payload else ''UNSIGNED-PAYLOAD'');
          headers = ''host:'' @ hq_host q @ nl @ ''x-amz-content-sha256:'' @ hash @ nl @ ''x-amz-date:'' @ stamp @ nl;
          signed = ''host;x-amz-content-sha256;x-amz-date'';
          canonical = hq_method q @ nl @ hq_path q @ nl @ hq_query q @ nl @ headers @ nl @ signed @ nl @ hash;
          scope = date @ ''/'' @ s3_region (sr_s3 r) @ ''/s3/aws4_request'';
          to_sign = ''AWS4-HMAC-SHA256'' @ nl @ stamp @ nl @ scope @ nl @ ud_sha256_hex d canonical;
          key = ud_hmac d (ud_hmac d (ud_hmac d (ud_hmac d (''AWS4'' @ s3_secret (sr_s3 r)) date)
                  (s3_region (sr_s3 r))) ''s3'') ''aws4_request'';
          authorization = ''AWS4-HMAC-SHA256 Credential='' @ s3_key_id (sr_s3 r) @ ''/'' @ scope @
            '', SignedHeaders='' @ signed @ '', Signature='' @ ud_hex d (ud_hmac d key to_sign)
      in q\<lparr>hq_headers := hq_headers q @ [(''X-Amz-Date'', stamp), (''X-Amz-Content-Sha256'', hash),
             (''Authorization'', authorization)]\<rparr>)"

text \<open>A request for a path of the bucket, signed and sent; building it fails if the endpoint is no URL.\<close>

definition s3_request :: "'w rust_deps \<Rightarrow> s3_repo \<Rightarrow> string \<Rightarrow> string \<Rightarrow> string \<Rightarrow> (string \<times> string) list
    \<Rightarrow> ('w, nat \<times> string \<times> string option) rio" where
  "s3_request d r method path query headers =
     (let endpoint = (if s3_endpoint (sr_s3 r) = []
                      then ''https://s3.'' @ s3_region (sr_s3 r) @ ''.amazonaws.com'' else s3_endpoint (sr_s3 r))
      in rbind (rdecode ''invalid S3 endpoint'' (ud_host d endpoint)) (\<lambda>host.
           rbind (rlook (ud_now d)) (\<lambda>now.
             let q = sign_request d r now []
                       \<lparr>hq_method = method, hq_host = host, hq_path = path, hq_query = query, hq_headers = headers\<rparr>
             in rbind (rask (RcHttp q) (ud_http d q)) (\<lambda>a. rdecode ''failed to execute request'' a))))"

definition list_s3_objects :: "'w rust_deps \<Rightarrow> s3_repo \<Rightarrow> string \<Rightarrow> ('w, string list) rio" where
  "list_s3_objects d r p =
     rbind (s3_request d r ''GET'' (''/'' @ s3_bucket (sr_s3 r))
              (''list-type=2&prefix='' @ ud_query_escape d (p @ ''/'')) []) (\<lambda>(status, body, broken).
       if status \<noteq> 200
       then rfail (''S3 list failed with status '' @ itoa (int status) @ '': '' @ body)
       else (case broken of
               Some e \<Rightarrow> rfail (wrap_text ''failed to read response'' e)
             | None \<Rightarrow> rret (extract_keys body)))"

definition copy_s3_object :: "'w rust_deps \<Rightarrow> s3_repo \<Rightarrow> string \<Rightarrow> string \<Rightarrow> ('w, unit) rio" where
  "copy_s3_object d r source dest =
     rbind (s3_request d r ''PUT'' (''/'' @ s3_bucket (sr_s3 r) @ ''/'' @ dest) []
              [(''X-Amz-Copy-Source'', ud_query_escape d (s3_bucket (sr_s3 r) @ ''/'' @ source))]) (\<lambda>(status, body, broken).
       if status \<noteq> 200 then rfail (''S3 copy failed with status '' @ itoa (int status) @ '': '' @ body) else rret ())"

definition delete_s3_object :: "'w rust_deps \<Rightarrow> s3_repo \<Rightarrow> string \<Rightarrow> ('w, unit) rio" where
  "delete_s3_object d r key =
     rbind (s3_request d r ''DELETE'' (''/'' @ s3_bucket (sr_s3 r) @ ''/'' @ key) [] []) (\<lambda>(status, body, broken).
       if status \<noteq> 204 \<and> status \<noteq> 200
       then rfail (''S3 delete failed with status '' @ itoa (int status) @ '': '' @ body) else rret ())"

text \<open>An object that fails is passed over.\<close>

fun each_object :: "(string \<Rightarrow> ('w, unit) rio) \<Rightarrow> string list \<Rightarrow> 'w rust \<Rightarrow> 'w rust" where
  "each_object f [] s = s"
| "each_object f (k # ks) s = each_object f ks (snd (f k s))"

definition copy_s3_repository :: "'w rust_deps \<Rightarrow> s3_repo \<Rightarrow> string \<Rightarrow> string \<Rightarrow> ('w, unit) rio" where
  "copy_s3_repository d r source dest =
     rbind (rwrap ''failed to list source objects'' (list_s3_objects d r source)) (\<lambda>ks s.
       (Inr (), each_object (\<lambda>k. copy_s3_object d r k (dest @ ''/'' @ trim_prefix k (source @ ''/'')))
                  (filter (\<lambda>k. \<not> has_suffix k ''/'') ks) s))"

definition delete_s3_repository :: "'w rust_deps \<Rightarrow> s3_repo \<Rightarrow> string \<Rightarrow> ('w, unit) rio" where
  "delete_s3_repository d r p =
     rbind (rwrap ''failed to list objects for deletion'' (list_s3_objects d r p)) (\<lambda>ks s.
       (Inr (), each_object (delete_s3_object d r) ks s))"

definition backup_corrupted_repository :: "'w rust_deps \<Rightarrow> s3_repo \<Rightarrow> ('w, unit) rio" where
  "backup_corrupted_repository d r s =
     (if rf_server (sr_cfg r) = [] then (Inl ''server UUID is required for backup'', s)
      else rwrap ''failed to delete corrupted repository - manual cleanup required''
             (delete_s3_repository d r (repo_root r))
             (snd (copy_s3_repository d r (repo_root r) (corrupted_root r) s)))"

subsection \<open>Its operations\<close>

definition corrupted :: "string \<Rightarrow> bool" where
  "corrupted out \<longleftrightarrow> contains out ''MAC check failed'' \<or> contains out ''Data decryption failed''"

text \<open>\<open>Exists\<close> answers with a truth value and an error at once.\<close>

definition s3_exists :: "'w rust_deps \<Rightarrow> 'w rust \<Rightarrow> (bool \<times> string option) \<times> 'w rust" where
  "s3_exists d s =
     (case s3_build d [''snapshots'', ''--json''] s of
        (Inl e, s1) \<Rightarrow> ((False, Some e), s1)
      | (Inr c, s1) \<Rightarrow>
          (case run_cmd d c s1 of
             (Inl e, s2) \<Rightarrow> ((False, Some e), s2)
           | (Inr x, s2) \<Rightarrow>
               (case cr_err x of
                  None \<Rightarrow> ((True, None), s2)
                | Some e \<Rightarrow>
                    if contains (cr_output x) ''No repository config file found'' then ((False, None), s2)
                    else if corrupted (cr_output x)
                    then ((False, Some ''repository exists but is incompatible with current rustic version - MAC check failed''), s2)
                    else if contains (cr_output x) ''password'' \<or> contains (cr_output x) ''No suitable key found''
                    then ((True, Some (wrap_text (''repository exists but password incorrect: '' @ cr_output x) e)), s2)
                    else ((True, Some (wrap_text (''repository exists but access failed: '' @ cr_output x) e)), s2))))"

definition initialize_fresh :: "'w rust_deps \<Rightarrow> ('w, unit) rio" where
  "initialize_fresh d =
     rbind (rwrap ''failed to build init command'' (s3_build d [''init''])) (\<lambda>c. rbind (run_cmd d c) (\<lambda>x.
       if cr_err x = None then rret ()
       else if contains (cr_output x) ''Config file already exists''
       then rfail ''repository in corrupted state, S3 deletion incomplete''
       else rfail ''S3 repository initialization failed''))"

definition s3_initialize :: "'w rust_deps \<Rightarrow> s3_repo \<Rightarrow> ('w, unit) rio" where
  "s3_initialize d r s =
     (case s3_exists d s of
        ((_, Some e), s1) \<Rightarrow>
          if corrupted e \<or> contains e ''incompatible with current rustic version''
          then initialize_fresh d (snd (backup_corrupted_repository d r s1))
          else (Inl (wrap_text ''failed to check repository existence'' e), s1)
      | ((True, None), s1) \<Rightarrow> (Inr (), s1)
      | ((False, None), s1) \<Rightarrow> initialize_fresh d s1)"

definition s3_info :: "'w rust_deps \<Rightarrow> ('w, repository_info) rio" where
  "s3_info d = repo_info d (s3_build d)"

definition s3_get_snapshot :: "'w rust_deps \<Rightarrow> string \<Rightarrow> ('w, snapshot) rio" where
  "s3_get_snapshot d = get_snapshot d (s3_build d)"

definition s3_list_snapshots :: "'w rust_deps \<Rightarrow> (string \<times> string) list \<Rightarrow> ('w, snapshot list) rio" where
  "s3_list_snapshots d = list_snapshots d (s3_build d)"

definition s3_repository_size :: "'w rust_deps \<Rightarrow> ('w, int) rio" where
  "s3_repository_size d = repository_size d (s3_build d)"

text \<open>
  Creating a snapshot calls itself after it has repaired a corrupted repository. The number is how many
  calls are followed; \<open>None\<close> is a run that needs more.
\<close>

fun s3_create_snapshot :: "nat \<Rightarrow> 'w rust_deps \<Rightarrow> s3_repo \<Rightarrow> string \<Rightarrow> (string \<times> string) list \<Rightarrow> string
    \<Rightarrow> 'w rust \<Rightarrow> (string + snapshot) option \<times> 'w rust" where
  "s3_create_snapshot 0 d r path tags ignore_file s = (None, s)"
| "s3_create_snapshot (Suc n) d r path tags ignore_file s =
     (case rwrap ''failed to build backup command'' (s3_build d (backup_args path tags)) s of
        (Inl e, s1) \<Rightarrow> (Some (Inl e), s1)
      | (Inr c, s1) \<Rightarrow>
          (case run_cmd d (with_ignore_file ignore_file c) s1 of
             (Inl e, s2) \<Rightarrow> (Some (Inl e), s2)
           | (Inr x, s2) \<Rightarrow>
               if cr_err x = None then map_prod Some id (saved_snapshot d (s3_build d) x s2)
               else if corrupted (cr_output x)
               then (case rwrap ''failed to initialize fresh repository after corruption recovery'' (initialize_fresh d)
                           (snd (backup_corrupted_repository d r s2)) of
                       (Inl e, s3) \<Rightarrow> (Some (Inl e), s3)
                     | (Inr _, s3) \<Rightarrow> s3_create_snapshot n d r path tags ignore_file s3)
               else (Some (Inl ''S3 backup failed''), s2)))"

text \<open>
  One attempt at a deletion: either the command could not be started, or it ended, or the timeout came
  first. The last is \<open>cr_timeout\<close>; a command that cannot start is \<open>ud_file\<close> of the operation \<open>start\<close>.
\<close>

definition delete_with_timeout :: "'w rust_deps \<Rightarrow> string \<Rightarrow> ('w, unit) rio" where
  "delete_with_timeout d i =
     rbind (rwrap ''failed to build delete command'' (s3_build d (forget_args i))) (\<lambda>c.
       rbind (rwrap ''failed to start delete command'' (rfile d ''start'' i)) (\<lambda>_.
         rbind (run_cmd d c) (\<lambda>x.
           if cr_timeout x then rfail ''snapshot deletion timed out after 3m0s''
           else if cr_err x = None then rret ()
           else if contains (cr_output x) ''NotFound'' \<and> contains (cr_output x) ''x-amz-delete-marker'' then rret ()
           else rfail ''failed to delete snapshot'')))"

text \<open>The loop over the attempts, with the number of those left after this one.\<close>

fun delete_attempts :: "nat \<Rightarrow> 'w rust_deps \<Rightarrow> string \<Rightarrow> ('w, unit) rio" where
  "delete_attempts left d i s =
     (case delete_with_timeout d i s of
        (Inr u, s1) \<Rightarrow> (Inr u, s1)
      | (Inl e, s1) \<Rightarrow>
          (case left of
             0 \<Rightarrow> (Inl (wrap_text ''failed to delete snapshot after 3 attempts'' e), s1)
           | Suc n \<Rightarrow> delete_attempts n d i s1))"

definition s3_delete_snapshot :: "'w rust_deps \<Rightarrow> string \<Rightarrow> ('w, unit) rio" where
  "s3_delete_snapshot d i =
     (if \<not> is_valid_snapshot_id i then rfail ''invalid snapshot ID format'' else delete_attempts 2 d i)"

text \<open>The lines of the output from the first that looks like JSON on, without those of the log.\<close>

fun json_lines :: "string list \<Rightarrow> bool \<Rightarrow> string list" where
  "json_lines [] seen = []"
| "json_lines (l # ls) seen =
     (if l = [] \<or> has_prefix l ''[INFO]'' \<or> has_prefix l ''[WARN]'' \<or> has_prefix l ''[ERROR]''
      then json_lines ls seen
      else (let seen1 = (seen \<or> has_prefix l ''['' \<or> has_prefix l ''{'')
            in if seen1 then l # json_lines ls seen1 else json_lines ls seen1))"

definition clean_output :: "string \<Rightarrow> string" where
  "clean_output out =
     join_char (CHR 0x0A) (json_lines (List.map trim_space (split_char (CHR 0x0A) out)) False)"

definition s3_snapshot_sizes :: "'w rust_deps \<Rightarrow> ('w, string \<rightharpoonup> int) rio" where
  "s3_snapshot_sizes d =
     rbind (sizes_query d (s3_build d)) (\<lambda>out.
       case ud_groups d (clean_output out) of
         Inl e \<Rightarrow> rfail (wrap_text (''failed to parse snapshot list: '' @ clean_output out) e)
       | Inr gs \<Rightarrow> rret (foldl (\<lambda>m i. m(sn_id i \<mapsto> sn_size i)) Map.empty (List.map snapshot_of (concat gs))))"

definition s3_restore_snapshot :: "'w rust_deps \<Rightarrow> string \<Rightarrow> string \<Rightarrow> string \<Rightarrow> ('w, unit) rio" where
  "s3_restore_snapshot d i target source =
     (if \<not> is_valid_snapshot_id i then rfail ''invalid snapshot ID format''
      else rbind (rwrap ''failed to build restore command'' (s3_build d [''restore'', i @ '':'' @ source, target])) (\<lambda>c.
        rbind (run_cmd d c) (\<lambda>x.
          case cr_err x of
            None \<Rightarrow> rret ()
          | Some e \<Rightarrow> rfail (wrap_text (''S3 restore failed: '' @ cr_output x) e))))"

definition s3_destroy :: "'w rust_deps \<Rightarrow> ('w, unit) rio" where
  "s3_destroy d =
     rbind (rwrap ''failed to build destroy command''
              (s3_build d [''forget'', ''--keep-none'', ''--prune'', ''--instant-delete''])) (\<lambda>c.
       rbind (run_cmd d c) (\<lambda>x.
         case cr_err x of
           None \<Rightarrow> rret ()
         | Some e \<Rightarrow>
             if contains (cr_output x) ''no repository'' \<or> contains (cr_output x) ''not found''
                \<or> contains (cr_output x) ''No repository config file found''
             then rret ()
             else if cr_timeout x
             then rfail ''repository destruction timed out after 10 minutes - repository may be very large or S3 is slow''
             else rfail (''failed to destroy S3 repository: '' @ e)))"

end
