(* ===== verification/Rustic_Backup.thy ===== *)
theory Rustic_Backup
  imports Rustic_Repo "HOL-Library.AList"
begin

text \<open>
  A backup made with rustic, \<open>src/server/backup/rustic.go\<close> and \<open>rustic_factory.go\<close>: its repository is
  one of the two behind an interface, which is here a record of operations. An operation of a backup whose
  repository has been closed, or was never made, is a call through a nil pointer.
\<close>

section \<open>The interface\<close>

record 'w repo_ops =
  ro_init :: "('w, unit) rio"
  ro_exists :: "'w rust \<Rightarrow> (bool \<times> string option) \<times> 'w rust"
  ro_info :: "('w, repository_info) rio"
  ro_create :: "string \<Rightarrow> (string \<times> string) list \<Rightarrow> string \<Rightarrow> 'w rust \<Rightarrow> (string + snapshot) option \<times> 'w rust"
  ro_get :: "string \<Rightarrow> ('w, snapshot) rio"
  ro_list :: "(string \<times> string) list \<Rightarrow> ('w, snapshot list) rio"
  ro_delete :: "string \<Rightarrow> ('w, unit) rio"
  ro_restore :: "string \<Rightarrow> string \<Rightarrow> string \<Rightarrow> ('w, unit) rio"
  ro_size :: "('w, int) rio"
  ro_sizes :: "('w, string \<rightharpoonup> int) rio"
  ro_destroy :: "('w, unit) rio"
  ro_close :: "('w, unit) rio"

definition local_ops :: "'w rust_deps \<Rightarrow> local_repo \<Rightarrow> 'w repo_ops" where
  "local_ops d r =
     \<lparr>ro_init = local_initialize d r,
      ro_exists = (\<lambda>s. case local_exists d r s of
                         (Inl e, s1) \<Rightarrow> ((False, Some e), s1) | (Inr b, s1) \<Rightarrow> ((b, None), s1)),
      ro_info = local_info d r,
      ro_create = (\<lambda>path tags f s. map_prod Some id (local_create_snapshot d r path tags f s)),
      ro_get = local_get_snapshot d r, ro_list = local_list_snapshots d r,
      ro_delete = local_delete_snapshot d r, ro_restore = local_restore_snapshot d r,
      ro_size = local_repository_size d r, ro_sizes = local_snapshot_sizes d r,
      ro_destroy = local_destroy d r, ro_close = local_close\<rparr>"

text \<open>\<open>n\<close> is the number of calls of the recursive creation of a snapshot that are followed.\<close>

definition s3_ops :: "nat \<Rightarrow> 'w rust_deps \<Rightarrow> s3_repo \<Rightarrow> 'w repo_ops" where
  "s3_ops n d r =
     \<lparr>ro_init = s3_initialize d r, ro_exists = s3_exists d, ro_info = s3_info d,
      ro_create = s3_create_snapshot n d r,
      ro_get = s3_get_snapshot d, ro_list = s3_list_snapshots d,
      ro_delete = s3_delete_snapshot d, ro_restore = s3_restore_snapshot d,
      ro_size = s3_repository_size d, ro_sizes = s3_snapshot_sizes d,
      ro_destroy = s3_destroy d, ro_close = s3_close d\<rparr>"

section \<open>A backup\<close>

record 'w rbackup =
  rb_cfg :: rustic_cfg
  rb_adapter :: string
  rb_repo :: "'w repo_ops option"
  rb_snap :: "snapshot option"

record rustic_details =
  ad_checksum :: string
  ad_checksum_type :: string
  ad_size :: int
  ad_snapshot :: string

definition new_rustic_backup :: "nat \<Rightarrow> 'w rust_deps \<Rightarrow> rustic_cfg \<Rightarrow> ('w, 'w rbackup) rio" where
  "new_rustic_backup n d c =
     (case validate_config c of
        Some e \<Rightarrow> rfail (wrap_text ''invalid configuration'' e)
      | None \<Rightarrow>
          rbind (rwrap ''failed to create repository''
                   (if rf_type c = ''local''
                    then (case new_local_repository c of Inl e \<Rightarrow> rfail e | Inr r \<Rightarrow> rret (local_ops d r))
                    else rbind (new_s3_repository d c) (\<lambda>r. rret (s3_ops n d r))))
            (\<lambda>ops. rret \<lparr>rb_cfg = c, rb_adapter = ''rustic_'' @ rf_type c, rb_repo = Some ops, rb_snap = None\<rparr>))"

definition close_backup :: "'w rbackup \<Rightarrow> 'w rust \<Rightarrow> (string + unit) \<times> 'w rbackup \<times> 'w rust" where
  "close_backup b s =
     (case rb_repo b of
        None \<Rightarrow> (Inr (), b, s)
      | Some ops \<Rightarrow> (let p = ro_close ops s in (fst p, b\<lparr>rb_repo := None\<rparr>, snd p)))"

definition locate_rustic_backup :: "nat \<Rightarrow> 'w rust_deps \<Rightarrow> rustic_cfg \<Rightarrow> string \<Rightarrow> ('w, 'w rbackup) rio" where
  "locate_rustic_backup n d c i =
     rbind (new_rustic_backup n d c) (\<lambda>b s.
       case rb_repo b of
         None \<Rightarrow> (Inr b, s)
       | Some ops \<Rightarrow>
           (case ro_get ops i s of
              (Inl e, s1) \<Rightarrow> (Inl (wrap_text ''snapshot not found'' e), snd (snd (close_backup b s1)))
            | (Inr sn, s1) \<Rightarrow> (Inr (b\<lparr>rb_snap := Some sn\<rparr>), s1)))"

subsection \<open>What the panel's requests make\<close>

text \<open>The two older constructors give a backup even for a configuration that is refused.\<close>

definition broken_backup :: "rustic_cfg \<Rightarrow> 'w rbackup" where
  "broken_backup c = \<lparr>rb_cfg = c, rb_adapter = ''rustic_'' @ rf_type c, rb_repo = None, rb_snap = None\<rparr>"

definition or_broken :: "rustic_cfg \<Rightarrow> ('w, 'w rbackup) rio \<Rightarrow> 'w rust \<Rightarrow> 'w rbackup \<times> 'w rust" where
  "or_broken c m s = (case m s of (Inl _, s1) \<Rightarrow> (broken_backup c, s1) | (Inr b, s1) \<Rightarrow> (b, s1))"

definition new_rustic ::
  "nat \<Rightarrow> 'w rust_deps \<Rightarrow> string \<Rightarrow> string \<Rightarrow> string \<Rightarrow> s3_config option \<Rightarrow> string
     \<Rightarrow> 'w rust \<Rightarrow> 'w rbackup \<times> 'w rust" where
  "new_rustic n d uuid ignore typ s3 password =
     (let c = \<lparr>rf_backup = uuid, rf_server = [], rf_password = password, rf_type = typ, rf_s3 = s3,
               rf_local_path = [], rf_ignore = ignore, rf_tags = []\<rparr>
      in or_broken c (new_rustic_backup n d c))"

definition new_rustic_with_server_path ::
  "nat \<Rightarrow> 'w rust_deps \<Rightarrow> string \<Rightarrow> string \<Rightarrow> string \<Rightarrow> string \<Rightarrow> s3_config option \<Rightarrow> string \<Rightarrow> string
     \<Rightarrow> 'w rust \<Rightarrow> 'w rbackup \<times> 'w rust" where
  "new_rustic_with_server_path n d server uuid ignore typ s3 password path =
     (let c = \<lparr>rf_backup = uuid, rf_server = server, rf_password = password, rf_type = typ, rf_s3 = s3,
               rf_local_path = path, rf_ignore = ignore, rf_tags = []\<rparr>
      in or_broken c (new_rustic_backup n d c))"

definition locate_rustic_by_snapshot_id ::
  "nat \<Rightarrow> 'w rust_deps \<Rightarrow> string \<Rightarrow> string \<Rightarrow> string \<Rightarrow> s3_config option \<Rightarrow> string \<Rightarrow> string
     \<Rightarrow> ('w, 'w rbackup) rio" where
  "locate_rustic_by_snapshot_id n d server i typ s3 password path =
     rbind (new_rustic_backup n d
              \<lparr>rf_backup = [], rf_server = server, rf_password = password, rf_type = typ, rf_s3 = s3,
               rf_local_path = path, rf_ignore = [], rf_tags = []\<rparr>) (\<lambda>b.
       if i = [] then rret (b\<lparr>rb_snap := None\<rparr>)
       else (case rb_repo b of
               None \<Rightarrow> rret b
             | Some ops \<Rightarrow>
                 rbind (rwrap ''failed to get snapshot details'' (ro_get ops i)) (\<lambda>sn.
                   rret (b\<lparr>rb_snap := Some sn\<rparr>))))"

section \<open>Details\<close>

definition backup_size :: "'w rbackup \<Rightarrow> string + int" where
  "backup_size b =
     (case rb_snap b of
        None \<Rightarrow> Inl ''no snapshot available''
      | Some sn \<Rightarrow> if 0 < sn_size sn then Inr (sn_size sn) else Inr 1024)"

text \<open>\<open>sha1\<close> is the library's hash.\<close>

definition backup_checksum :: "(string \<Rightarrow> string) \<Rightarrow> 'w rbackup \<Rightarrow> string + string" where
  "backup_checksum sha1 b =
     (case rb_snap b of None \<Rightarrow> Inl ''no snapshot available'' | Some sn \<Rightarrow> Inr (sha1 (sn_id sn)))"

definition backup_details :: "'w rust_deps \<Rightarrow> (string \<Rightarrow> string) \<Rightarrow> 'w rbackup \<Rightarrow> string + rustic_details" where
  "backup_details d sha1 b =
     res_bind (backup_checksum sha1 b) (\<lambda>sum. res_bind (backup_size b) (\<lambda>n.
       Inr \<lparr>ad_checksum = ud_hex d sum, ad_checksum_type = ''sha1'', ad_size = n,
            ad_snapshot = (case rb_snap b of None \<Rightarrow> [] | Some sn \<Rightarrow> sn_id sn)\<rparr>))"

definition backup_path :: "'w rbackup \<Rightarrow> string" where
  "backup_path b =
     (case rb_snap b of None \<Rightarrow> ''rustic-backup-'' @ rf_backup (rb_cfg b) | Some sn \<Rightarrow> ''rustic-snapshot-'' @ sn_id sn)"

definition can_download :: "'w rbackup \<Rightarrow> bool" where
  "can_download b = (case rb_snap b of None \<Rightarrow> False | Some sn \<Rightarrow> sn_id sn \<noteq> [])"

section \<open>Making a backup\<close>

definition make_temp :: "'w rust_deps \<Rightarrow> string \<Rightarrow> string \<Rightarrow> ('w, string) rio" where
  "make_temp d what name =
     rbind (rask (RcFile what name) (ud_temp d name)) (\<lambda>t. case t of Inl e \<Rightarrow> rfail e | Inr p \<Rightarrow> rret p)"

definition create_ignore_file :: "'w rust_deps \<Rightarrow> string \<Rightarrow> ('w, string) rio" where
  "create_ignore_file d ignore =
     (if ignore = [] then rret []
      else rbind (make_temp d ''createtemp'' ''elytra-rustic-ignore-'') (\<lambda>f.
        and_on_error (rfile d ''remove'' f)
          (rbind (rfile d ''chmod'' f) (\<lambda>_. rbind (rfile d ''write'' ignore) (\<lambda>_. rret f)))))"

definition backup_tags :: "rustic_cfg \<Rightarrow> (string \<times> string) list" where
  "backup_tags c =
     foldl (\<lambda>ts (k, v). AList.update k v ts)
       [(''backup_uuid'', rf_backup c), (''server_uuid'', rf_server c), (''type'', ''server_backup'')] (rf_tags c)"

definition stat_path :: "'w rust_deps \<Rightarrow> 'w rust \<Rightarrow> string \<Rightarrow> string option" where
  "stat_path d s p = fst (ud_file d ''stat'' p (ru_world s))"

text \<open>
  \<open>Block\<close> is a creation that has not returned within the calls that are followed. The ignore file is
  removed when the function is left, also without one.
\<close>

definition generate ::
  "'w rust_deps \<Rightarrow> (string \<Rightarrow> string) \<Rightarrow> string \<Rightarrow> string \<Rightarrow> 'w rbackup \<Rightarrow> 'w rust
     \<Rightarrow> (string + rustic_details) go \<times> 'w rbackup \<times> 'w rust" where
  "generate d sha1 path ignore b s =
     (case validate_path (stat_path d s) path of
        Some e \<Rightarrow> (Ret (Inl (wrap_text ''invalid filesystem path'' e)), b, s)
      | None \<Rightarrow>
          (case rb_repo b of
             None \<Rightarrow> (Panic ''nil pointer dereference'', b, s)
           | Some ops \<Rightarrow>
               (case rbind (rwrap ''failed to initialize repository'' (ro_init ops)) (\<lambda>_.
                       rwrap ''failed to create ignore file'' (create_ignore_file d ignore)) s of
                  (Inl e, s1) \<Rightarrow> (Ret (Inl e), b, s1)
                | (Inr f, s1) \<Rightarrow>
                    (case ro_create ops path (backup_tags (rb_cfg b)) f s1 of
                       (None, s2) \<Rightarrow> (Block, b, s2)
                     | (Some (Inl e), s2) \<Rightarrow>
                         (Ret (Inl (wrap_text ''failed to create snapshot'' e)), b, snd (rfile d ''remove'' f s2))
                     | (Some (Inr sn), s2) \<Rightarrow>
                         (let b1 = b\<lparr>rb_snap := Some sn\<rparr>
                          in (Ret (backup_details d sha1 b1), b1, snd (rfile d ''remove'' f s2)))))))"

section \<open>Removing one\<close>

definition remove_backup :: "'w rbackup \<Rightarrow> 'w rust \<Rightarrow> (string + unit) go \<times> 'w rust" where
  "remove_backup b s =
     (case rb_snap b of
        None \<Rightarrow> (Ret (Inr ()), s)
      | Some sn \<Rightarrow>
          (case rb_repo b of
             None \<Rightarrow> (Panic ''nil pointer dereference'', s)
           | Some ops \<Rightarrow>
               (case ro_delete ops (sn_id sn) s of
                  (Inr _, s1) \<Rightarrow> (Ret (Inr ()), s1)
                | (Inl e, s1) \<Rightarrow>
                    if contains e ''not found'' \<or> contains e ''does not exist'' \<or> contains e ''no such snapshot''
                    then (Ret (Inr ()), s1)
                    else if List.length (sn_id sn) = 36 \<and> count_list (sn_id sn) (CHR ''-'') = 4
                    then (Ret (Inl (wrap_text ''deletion failed - backup UUID used instead of snapshot ID'' e)), s1)
                    else (Ret (Inl (wrap_text ''failed to delete snapshot'' e)), s1))))"

section \<open>Restoring one\<close>

text \<open>
  What \<open>filepath.Walk\<close> finds: an entry with its path below the root, or an error. Getting at the entries
  and the path's error are in \<open>wi_error\<close>.
\<close>

record walk_item =
  wi_path :: string
  wi_dir :: bool
  wi_regular :: bool
  wi_error :: "string option"

fun walk :: "(walk_item \<Rightarrow> ('w, unit) rio) \<Rightarrow> walk_item list \<Rightarrow> ('w, unit) rio" where
  "walk f [] = rret ()"
| "walk f (i # is) = rbind (f i) (\<lambda>_. walk f is)"

definition restore_item ::
  "'w rust_deps \<Rightarrow> string \<Rightarrow> (string \<Rightarrow> ('w, unit) rio) \<Rightarrow> walk_item \<Rightarrow> ('w, unit) rio" where
  "restore_item d temp callback i =
     (case wi_error i of
        Some e \<Rightarrow> rfail e
      | None \<Rightarrow>
          if wi_dir i then rret ()
          else if contains (wi_path i) ''..'' then rret ()
          else rbind (rfile d ''open'' (path_join [temp, wi_path i])) (\<lambda>_. callback (wi_path i)))"

text \<open>What a download and a restore share: a temporary directory with the snapshot in it, removed at the end.\<close>

definition with_restored ::
  "'w rust_deps \<Rightarrow> string \<Rightarrow> string \<Rightarrow> string \<Rightarrow> 'w rbackup \<Rightarrow> snapshot \<Rightarrow> (string \<Rightarrow> ('w, unit) rio) \<Rightarrow> 'w rust
     \<Rightarrow> (string + unit) go \<times> 'w rust" where
  "with_restored d name no_temp no_restore b sn use s =
     (case rwrap no_temp (make_temp d ''mkdirtemp'' name) s of
        (Inl e, s1) \<Rightarrow> (Ret (Inl e), s1)
      | (Inr temp, s1) \<Rightarrow>
          (case sn_paths sn of
             [] \<Rightarrow> (Ret (Inl ''no paths found in snapshot''), snd (rfile d ''removeall'' temp s1))
           | p # _ \<Rightarrow>
               (case rb_repo b of
                  None \<Rightarrow> (Panic ''nil pointer dereference'', snd (rfile d ''removeall'' temp s1))
                | Some ops \<Rightarrow>
                    (let r = rbind (rwrap no_restore (ro_restore ops (sn_id sn) temp p)) (\<lambda>_. use temp) s1
                     in (Ret (fst r), snd (rfile d ''removeall'' temp (snd r)))))))"

definition restore_rustic ::
  "'w rust_deps \<Rightarrow> (string \<Rightarrow> 'w \<Rightarrow> walk_item list) \<Rightarrow> (string \<Rightarrow> ('w, unit) rio) \<Rightarrow> 'w rbackup \<Rightarrow> 'w rust
     \<Rightarrow> (string + unit) go \<times> 'w rbackup \<times> 'w rust" where
  "restore_rustic d tree callback b s =
     (let r = (case rb_snap b of
                 None \<Rightarrow> (Ret (Inl ''no snapshot to restore''), s)
               | Some sn \<Rightarrow>
                   with_restored d ''elytra-rustic-restore-'' ''failed to create temp directory''
                     ''failed to restore snapshot'' b sn
                     (\<lambda>temp. rbind (rlook (tree temp)) (walk (restore_item d temp callback))) s)
      in (fst r, snd (close_backup b (snd r))))"

section \<open>Downloading one\<close>

text \<open>
  An entry of the archive: its header, and its content if it is a regular file. The entry is left out if its
  header cannot be written. The two writers are closed at the end, and what they say is not looked at.
\<close>

definition archive_item :: "'w rust_deps \<Rightarrow> string \<Rightarrow> walk_item \<Rightarrow> ('w, unit) rio" where
  "archive_item d root i =
     (case wi_error i of
        Some e \<Rightarrow> rfail e
      | None \<Rightarrow>
          if wi_dir i then rret ()
          else if contains (wi_path i) ''..'' then rret ()
          else (\<lambda>s. case rfile d ''header'' (wi_path i) s of
                 (Inl _, s1) \<Rightarrow> (Inr (), s1)
               | (Inr _, s1) \<Rightarrow>
                   if \<not> wi_regular i then (Inr (), s1)
                   else rbind (rfile d ''open'' (path_join [root, wi_path i])) (\<lambda>_.
                          rfile d ''copy'' (path_join [root, wi_path i])) s1))"

definition create_tar_gz_archive ::
  "'w rust_deps \<Rightarrow> (string \<Rightarrow> 'w \<Rightarrow> walk_item list) \<Rightarrow> string \<Rightarrow> ('w, unit) rio" where
  "create_tar_gz_archive d tree root s =
     (let r = rbind (rlook (tree root)) (walk (archive_item d root)) s
      in (fst r, snd (rfile d ''close'' ''gzip'' (snd (rfile d ''close'' ''tar'' (snd r))))))"

definition download_tar_gz ::
  "'w rust_deps \<Rightarrow> (string \<Rightarrow> 'w \<Rightarrow> walk_item list) \<Rightarrow> 'w rbackup \<Rightarrow> 'w rust \<Rightarrow> (string + unit) go \<times> 'w rust" where
  "download_tar_gz d tree b s =
     (case rb_snap b of
        None \<Rightarrow> (Ret (Inl ''backup cannot be downloaded''), s)
      | Some sn \<Rightarrow>
          if \<not> can_download b then (Ret (Inl ''backup cannot be downloaded''), s)
          else with_restored d ''elytra-rustic-download-'' ''failed to create temp directory for download''
                 ''failed to restore snapshot for download'' b sn (create_tar_gz_archive d tree) s)"

end
