(* ===== verification/Rustic_Laws.thy ===== *)
theory Rustic_Laws
  imports Rustic_Backup
begin

text \<open>
  What holds of rustic backups: the calls that the operations of a repository make, the contract of the
  interface with both repositories as instances, and the life of a backup.
\<close>

section \<open>The calls of an operation\<close>

text \<open>\<open>calls_only K m\<close>: whatever the world answers, the calls that \<open>m\<close> makes all satisfy \<open>K\<close>.\<close>

definition adds_only :: "(rust_call \<Rightarrow> bool) \<Rightarrow> 'w rust \<Rightarrow> 'w rust \<Rightarrow> bool" where
  "adds_only K s t \<longleftrightarrow> (\<exists>cs. ru_calls t = ru_calls s @ cs \<and> list_all K cs)"

definition calls_only :: "(rust_call \<Rightarrow> bool) \<Rightarrow> ('w rust \<Rightarrow> 'r \<times> 'w rust) \<Rightarrow> bool" where
  "calls_only K m \<longleftrightarrow> (\<forall>s. adds_only K s (snd (m s)))"

named_theorems call_rules \<open>which calls an operation makes\<close>

lemma adds_only_refl [simp]: "adds_only K s s"
  by (simp add: adds_only_def)

lemma adds_only_trans: "adds_only K s t \<Longrightarrow> adds_only K t u \<Longrightarrow> adds_only K s u"
  by (auto simp: adds_only_def)

lemma calls_onlyD: "calls_only K m \<Longrightarrow> m s = (r, t) \<Longrightarrow> adds_only K s t"
  unfolding calls_only_def by (metis snd_conv)

lemma calls_only_at: "calls_only K m \<Longrightarrow> adds_only K s (snd (m s))"
  by (simp add: calls_only_def)

lemma calls_only_ret [call_rules]: "calls_only K (rret x)" "calls_only K (rfail e)" "calls_only K (rlook f)"
  by (simp_all add: calls_only_def rret_def rfail_def rlook_def)

lemma calls_only_bind [call_rules]:
  assumes "calls_only K m" and "\<And>x. calls_only K (f x)"
  shows "calls_only K (rbind m f)"
  unfolding calls_only_def
proof
  fix s
  obtain r t where m: "m s = (r, t)" by (cases "m s")
  have "adds_only K s t" using calls_onlyD [OF assms(1) m] .
  then show "adds_only K s (snd (rbind m f s))"
    using assms(2) by (cases r) (auto simp: rbind_def m calls_only_def intro: adds_only_trans)
qed

lemma calls_only_wrap [call_rules]: "calls_only K m \<Longrightarrow> calls_only K (rwrap msg m)"
  by (auto simp: calls_only_def rwrap_def split: prod.split sum.split dest: spec [where x = "_ :: 'w rust"])
     (metis snd_conv)+

lemma calls_only_ask [call_rules]: "K c \<Longrightarrow> calls_only K (rask c f)"
  by (simp add: calls_only_def adds_only_def rask_def Let_def)

lemma calls_only_if [call_rules]: "calls_only K m \<Longrightarrow> calls_only K n \<Longrightarrow> calls_only K (if b then m else n)"
  by simp

lemma calls_only_option [call_rules]:
  "calls_only K m \<Longrightarrow> (\<And>x. calls_only K (f x)) \<Longrightarrow> calls_only K (case v of None \<Rightarrow> m | Some x \<Rightarrow> f x)"
  by (simp split: option.split)

lemma calls_only_sum [call_rules]:
  "(\<And>e. calls_only K (f e)) \<Longrightarrow> (\<And>x. calls_only K (g x)) \<Longrightarrow> calls_only K (case v of Inl e \<Rightarrow> f e | Inr x \<Rightarrow> g x)"
  by (simp split: sum.split)

lemma calls_only_list [call_rules]:
  "calls_only K m \<Longrightarrow> (\<And>x xs. calls_only K (f x xs)) \<Longrightarrow> calls_only K (case v of [] \<Rightarrow> m | x # xs \<Rightarrow> f x xs)"
  by (simp split: list.split)

lemma calls_only_prod [call_rules]:
  "(\<And>x y. calls_only K (f x y)) \<Longrightarrow> calls_only K (case v of (x, y) \<Rightarrow> f x y)"
  by (simp split: prod.split)

lemma calls_only_file [call_rules]: "K (RcFile what path) \<Longrightarrow> calls_only K (rfile d what path)"
  unfolding rfile_def by (intro call_rules)

lemma calls_only_run: "K (RcRun c) \<Longrightarrow> calls_only K (run_cmd d c)"
  unfolding run_cmd_def by (intro call_rules)

lemma calls_only_decode [call_rules]: "calls_only K (rdecode msg r)"
  unfolding rdecode_def by (intro call_rules)

text \<open>A builder gives commands that may be run.\<close>

definition builds :: "(rust_call \<Rightarrow> bool) \<Rightarrow> 'w builder \<Rightarrow> bool" where
  "builds K build \<longleftrightarrow>
     (\<forall>args s. (\<exists>r. build args s = (r, s)) \<and> (\<forall>c. fst (build args s) = Inr c \<longrightarrow> K (RcRun c)))"

lemma calls_only_built:
  assumes "builds K build" and "\<And>c. K (RcRun c) \<Longrightarrow> calls_only K (f c)"
  shows "calls_only K (rbind (build args) f)" and "calls_only K (rbind (rwrap msg (build args)) f)"
proof -
  have "adds_only K s (snd (rbind (build args) f s)) \<and> adds_only K s (snd (rbind (rwrap msg (build args)) f s))" for s
  proof -
    obtain r where r: "build args s = (r, s)" using assms(1) unfolding builds_def by blast
    have "K (RcRun c)" if "r = Inr c" for c using assms(1) r that unfolding builds_def by (metis fst_conv)
    then show ?thesis using assms(2) by (cases r) (auto simp: rbind_def rwrap_def r calls_only_def)
  qed
  then show "calls_only K (rbind (build args) f)" "calls_only K (rbind (rwrap msg (build args)) f)"
    by (simp_all add: calls_only_def)
qed

definition lets_ignore :: "(rust_call \<Rightarrow> bool) \<Rightarrow> bool" where
  "lets_ignore K \<longleftrightarrow> (\<forall>c f. K (RcRun c) \<longrightarrow> K (RcRun (with_ignore_file f c)))"

lemma calls_only_repo:
  assumes "builds K build"
  shows "calls_only K (repo_info d build)" and "calls_only K (get_snapshot d build i)"
    and "calls_only K (list_snapshots d build flt)" and "calls_only K (repository_size d build)"
    and "calls_only K (sizes_query d build)" and "calls_only K (saved_snapshot d build r)"
  unfolding repo_info_def get_snapshot_def list_snapshots_def repository_size_def sizes_query_def
    saved_snapshot_def Let_def
  by (intro call_rules calls_only_built [OF assms] calls_only_run; assumption?)+

lemma local_builds:
  assumes "\<And>b args. K (RcRun \<lparr>cm_args = b # args,
             cm_env = [(''RUSTIC_REPOSITORY'', lr_path r), (''RUSTIC_PASSWORD'', rf_password (lr_cfg r))] @ cache_env d,
             cm_dir = None\<rparr>)"
  shows "builds K (local_build d r)"
  using assms by (auto simp: builds_def local_build_def rret_def rfail_def split: sum.split)

lemma s3_builds:
  assumes "\<And>b args t. K (RcRun \<lparr>cm_args = b # [''--use-profile'', ''elytra''] @ args, cm_env = cache_env d, cm_dir = Some t\<rparr>)"
  shows "builds K (s3_build d)"
  using assms by (auto simp: builds_def s3_build_def split: sum.split)

section \<open>What the S3 repository does outside\<close>

text \<open>
  A command uses the profile and has no environment but the cache directory and the ignore file; a request
  is for the bucket or an object of it.
\<close>

definition s3_allowed :: "'w rust_deps \<Rightarrow> s3_repo \<Rightarrow> rust_call \<Rightarrow> bool" where
  "s3_allowed d r c =
     (case c of
        RcRun x \<Rightarrow> take 2 (drop 1 (cm_args x)) = [''--use-profile'', ''elytra''] \<and>
                    set (map fst (cm_env x)) \<subseteq> {''RUSTIC_CACHE_DIR'', ''RUSTIC_IGNORE_FILE''}
      | RcHttp q \<Rightarrow> (\<exists>e. ud_host d e = Inr (hq_host q)) \<and>
                    (hq_path q = ''/'' @ s3_bucket (sr_s3 r) \<or> has_prefix (hq_path q) (''/'' @ s3_bucket (sr_s3 r) @ ''/''))
      | RcFile _ _ \<Rightarrow> True)"

lemma s3_allowed_file [simp]: "s3_allowed d r (RcFile what path)"
  by (simp add: s3_allowed_def)

lemma s3_allowed_builds: "builds (s3_allowed d r) (s3_build d)"
  by (rule s3_builds) (auto simp: s3_allowed_def cache_env_def)

lemma s3_allowed_ignore: "s3_allowed d r (RcRun c) \<Longrightarrow> s3_allowed d r (RcRun (with_ignore_file f c))"
  by (simp add: s3_allowed_def with_ignore_file_def)

lemma s3_request_calls:
  assumes "path = ''/'' @ s3_bucket (sr_s3 r) \<or> has_prefix path (''/'' @ s3_bucket (sr_s3 r) @ ''/'')"
  shows "calls_only (s3_allowed d r) (s3_request d r method path query headers)"
proof -
  have "adds_only (s3_allowed d r) s (snd (s3_request d r method path query headers s))" for s
    using assms
    by (auto simp: s3_request_def rdecode_def rbind_def rfail_def rret_def rlook_def rask_def Let_def adds_only_def
        s3_allowed_def sign_request_def split: sum.split prod.split)
  then show ?thesis by (simp add: calls_only_def)
qed

lemma s3_object_calls [call_rules]:
  "calls_only (s3_allowed d r) (list_s3_objects d r p)"
  "calls_only (s3_allowed d r) (copy_s3_object d r source dest)"
  "calls_only (s3_allowed d r) (delete_s3_object d r key)"
  unfolding list_s3_objects_def copy_s3_object_def delete_s3_object_def
  by (intro call_rules s3_request_calls; simp add: has_prefix_def)+

lemma each_object_calls: "(\<And>k. calls_only K (f k)) \<Longrightarrow> adds_only K s (each_object f ks s)"
  by (induction ks arbitrary: s) (auto simp: calls_only_def intro: adds_only_trans)

lemma each_object_result [call_rules]:
  "(\<And>k. calls_only K (f k)) \<Longrightarrow> calls_only K (\<lambda>s. (Inr (), each_object f ks s))"
  by (simp add: calls_only_def [of K "\<lambda>s. (Inr (), each_object f ks s)"] each_object_calls)

lemma s3_repository_calls [call_rules]:
  "calls_only (s3_allowed d r) (copy_s3_repository d r source dest)"
  "calls_only (s3_allowed d r) (delete_s3_repository d r p)"
  unfolding copy_s3_repository_def delete_s3_repository_def
  by (intro call_rules)+

lemma s3_recovery_calls [call_rules]: "calls_only (s3_allowed d r) (backup_corrupted_repository d r)"
proof -
  have "adds_only (s3_allowed d r) s (snd (backup_corrupted_repository d r s))" for s
    unfolding backup_corrupted_repository_def
    using s3_repository_calls(1) [of d r "repo_root r" "corrupted_root r"]
      calls_only_wrap [OF s3_repository_calls(2) [of d r "repo_root r"]]
    by (auto simp: calls_only_def intro: adds_only_trans)
  then show ?thesis by (simp add: calls_only_def)
qed

lemma initialize_fresh_calls [call_rules]: "calls_only (s3_allowed d r) (initialize_fresh d)"
  unfolding initialize_fresh_def
  by (intro call_rules calls_only_built [OF s3_allowed_builds] calls_only_run; assumption?)

lemma s3_exists_calls: "calls_only (s3_allowed d r) (s3_exists d)"
proof -
  have "adds_only (s3_allowed d r) s (snd (s3_exists d s))" for s
  proof (cases "s3_build d [''snapshots'', ''--json''] s")
    case (Pair a s1)
    then have s1: "s1 = s" and c: "\<And>c. a = Inr c \<Longrightarrow> s3_allowed d r (RcRun c)"
      using s3_allowed_builds [of d r] unfolding builds_def by (metis prod.inject, metis fst_conv)
    have "adds_only (s3_allowed d r) s (snd (run_cmd d c s))" if "a = Inr c" for c
      using calls_only_run [where K = "s3_allowed d r", of c d] c [OF that] by (simp add: calls_only_def)
    then show ?thesis
      by (auto simp: s3_exists_def Pair s1 split: prod.split sum.split option.split)
  qed
  then show ?thesis by (simp add: calls_only_def)
qed

lemma s3_initialize_calls: "calls_only (s3_allowed d r) (s3_initialize d r)"
proof -
  have "adds_only (s3_allowed d r) s (snd (s3_initialize d r s))" for s
  proof (cases "s3_exists d s")
    case (Pair a s1)
    have "adds_only (s3_allowed d r) s s1"
      using s3_exists_calls Pair by (metis calls_onlyD)
    moreover have "adds_only (s3_allowed d r) s1 (snd (backup_corrupted_repository d r s1))"
      and "adds_only (s3_allowed d r) t (snd (initialize_fresh d t))" for t
      by (rule calls_only_at [OF s3_recovery_calls], rule calls_only_at [OF initialize_fresh_calls])
    ultimately show ?thesis
      by (auto simp: s3_initialize_def Pair split: prod.split option.split bool.split intro: adds_only_trans)
  qed
  then show ?thesis by (simp add: calls_only_def)
qed

lemma s3_create_calls: "calls_only (s3_allowed d r) (s3_create_snapshot n d r path tags f)"
proof (induction n)
  case 0
  then show ?case by (simp add: calls_only_def)
next
  case (Suc n)
  let ?K = "s3_allowed d r"
  have "adds_only ?K s (snd (s3_create_snapshot (Suc n) d r path tags f s))" for s
  proof (cases "s3_build d (backup_args path tags) s")
    case (Pair a s1)
    then have s1: "s1 = s" and c: "\<And>c. a = Inr c \<Longrightarrow> ?K (RcRun c)"
      using s3_allowed_builds [of d r] unfolding builds_def by (metis prod.inject, metis fst_conv)
    have run: "adds_only ?K s s2" if "a = Inr c" "run_cmd d (with_ignore_file f c) s = (x, s2)" for c x s2
      using calls_onlyD [OF calls_only_run [where K = ?K] that(2)] s3_allowed_ignore [OF c [OF that(1)]] by blast
    have saved: "adds_only ?K t (snd (saved_snapshot d (s3_build d) x t))" for x t
      by (rule calls_only_at [OF calls_only_repo(6) [OF s3_allowed_builds]])
    have again: "adds_only ?K t (snd (s3_create_snapshot n d r path tags f t))" for t
      using Suc.IH by (simp add: calls_only_def)
    have fresh: "adds_only ?K t t1"
      if "rwrap msg (initialize_fresh d) (snd (backup_corrupted_repository d r t)) = (x, t1)" for msg x t t1
      using calls_onlyD [OF calls_only_wrap [OF initialize_fresh_calls] that] s3_recovery_calls [of d r]
      unfolding calls_only_def by (metis adds_only_trans)
    show ?thesis
      by (auto simp: Pair s1 rwrap_def [of "''failed to build backup command''"]
          split: prod.split sum.split dest!: run fresh intro: adds_only_trans saved again)
  qed
  then show ?case by (simp add: calls_only_def)
qed

lemma delete_with_timeout_calls: "calls_only (s3_allowed d r) (delete_with_timeout d i)"
  unfolding delete_with_timeout_def
  by (intro call_rules calls_only_built [OF s3_allowed_builds] calls_only_run; simp?)

declare delete_attempts.simps [simp del]

lemma delete_attempts_cases:
  "delete_attempts n d i s =
     (case delete_with_timeout d i s of
        (Inr u, s1) \<Rightarrow> (Inr u, s1)
      | (Inl e, s1) \<Rightarrow>
          if n = 0 then (Inl (wrap_text ''failed to delete snapshot after 3 attempts'' e), s1)
          else delete_attempts (n - 1) d i s1)"
  by (subst delete_attempts.simps) (cases n; simp split: prod.split sum.split)

lemma delete_attempts_calls: "calls_only (s3_allowed d r) (delete_attempts n d i)"
proof (induction n)
  case 0
  have "adds_only (s3_allowed d r) s (snd (delete_attempts 0 d i s))" for s
    using calls_only_at [OF delete_with_timeout_calls [of d r i], of s]
    by (subst delete_attempts_cases) (auto split: prod.split sum.split)
  then show ?case by (simp add: calls_only_def)
next
  case (Suc n)
  have "adds_only (s3_allowed d r) s (snd (delete_attempts (Suc n) d i s))" for s
    using calls_only_at [OF delete_with_timeout_calls [of d r i], of s] calls_only_at [OF Suc]
    by (subst delete_attempts_cases) (auto split: prod.split sum.split intro: adds_only_trans)
  then show ?case by (simp add: calls_only_def)
qed

lemma s3_other_calls:
  "calls_only (s3_allowed d r) (s3_delete_snapshot d i)"
  "calls_only (s3_allowed d r) (s3_restore_snapshot d i target source)"
  "calls_only (s3_allowed d r) (s3_snapshot_sizes d)"
  "calls_only (s3_allowed d r) (s3_destroy d)"
  unfolding s3_delete_snapshot_def s3_restore_snapshot_def s3_snapshot_sizes_def s3_destroy_def
  by (intro call_rules delete_attempts_calls calls_only_repo [OF s3_allowed_builds]
      calls_only_built [OF s3_allowed_builds] calls_only_run; assumption?)+

lemma s3_close_calls: "calls_only (s3_allowed d r) (s3_close d)"
proof -
  have "calls_only (s3_allowed d r) (rbind (rfile d ''removeall'' t) (\<lambda>_ s1. (Inr (), s1\<lparr>ru_temp := [], ru_conf := []\<rparr>)))" for t
    by (intro call_rules s3_allowed_file) (simp add: calls_only_def adds_only_def)
  from calls_only_at [OF this] show ?thesis by (simp add: calls_only_def s3_close_def)
qed

section \<open>The contract of the interface\<close>

text \<open>
  What the code that uses a repository may rely on, whichever it is: an identifier that is not well formed is
  refused before anything is done, and closing twice is closing once.
\<close>

locale snapshot_store =
  fixes ops :: "'w repo_ops"
  assumes get_refuses: "\<not> is_valid_snapshot_id i \<Longrightarrow> ro_get ops i s = (Inl ''invalid snapshot ID format'', s)"
    and delete_refuses: "\<not> is_valid_snapshot_id i \<Longrightarrow> ro_delete ops i s = (Inl ''invalid snapshot ID format'', s)"
    and restore_refuses:
      "\<not> is_valid_snapshot_id i \<Longrightarrow> ro_restore ops i target source s = (Inl ''invalid snapshot ID format'', s)"
    and close_once: "ro_close ops s = (Inr u, s1) \<Longrightarrow> ro_close ops s1 = (Inr (), s1)"
begin

lemma remove_refuses:
  assumes "rb_repo b = Some ops" and "rb_snap b = Some sn" and "\<not> is_valid_snapshot_id (sn_id sn)"
  shows "remove_backup b s = (Ret (Inl (wrap_text ''failed to delete snapshot'' ''invalid snapshot ID format'')), s)"
proof -
  have "\<not> (List.length (sn_id sn) = 36 \<and> count_list (sn_id sn) (CHR ''-'') = 4)"
    using assms(3) by (auto simp: is_valid_snapshot_id_def)
  moreover have "\<not> contains ''invalid snapshot ID format'' ''not found''"
    "\<not> contains ''invalid snapshot ID format'' ''does not exist''"
    "\<not> contains ''invalid snapshot ID format'' ''no such snapshot''" by code_simp+
  ultimately show ?thesis
    unfolding remove_backup_def by (simp only: assms delete_refuses [OF assms(3)] option.case prod.case sum.case if_False simp_thms)
qed

lemma restored_refuses:
  assumes "rb_repo b = Some ops" and "\<not> is_valid_snapshot_id (sn_id sn)" and "sn_paths sn \<noteq> []"
    and "make_temp d ''mkdirtemp'' name s = (Inr temp, s1)"
  shows "with_restored d name no_temp no_restore b sn use s =
    (Ret (Inl (wrap_text no_restore ''invalid snapshot ID format'')), snd (rfile d ''removeall'' temp s1))"
  using assms by (cases "sn_paths sn") (simp_all add: with_restored_def rwrap_def rbind_def restore_refuses Let_def)

lemma closed_twice:
  assumes "rb_repo b = Some ops" and "close_backup b s = (Inr (), b1, s1)"
  shows "close_backup b1 s1 = (Inr (), b1, s1)" and "ro_close ops s1 = (Inr (), s1)"
proof -
  have c: "ro_close ops s = (Inr (), s1)" and b1: "rb_repo b1 = None"
    using assms by (auto simp: close_backup_def Let_def prod_eq_iff)
  from c show "ro_close ops s1 = (Inr (), s1)" by (rule close_once)
  from b1 show "close_backup b1 s1 = (Inr (), b1, s1)" by (simp add: close_backup_def)
qed

end

interpretation local_store: snapshot_store "local_ops d r" for d r
  by unfold_locales
    (simp_all add: local_ops_def local_get_snapshot_def get_snapshot_def local_delete_snapshot_def
      local_restore_snapshot_def local_close_def rret_def rfail_def)

lemma s3_close_closed: "s3_close d s = (Inr u, s1) \<Longrightarrow> ru_temp s1 = []"
  by (auto simp: s3_close_def rbind_def split: if_splits prod.splits sum.splits)

lemma s3_close_again: "s3_close d s = (Inr u, s1) \<Longrightarrow> s3_close d s1 = (Inr (), s1)"
  using s3_close_closed [of d s u s1] by (simp add: s3_close_def)

interpretation s3_store: snapshot_store "s3_ops n d r" for n d r
  by unfold_locales
    (simp_all add: s3_ops_def s3_get_snapshot_def get_snapshot_def s3_delete_snapshot_def
      s3_restore_snapshot_def rfail_def s3_close_again)

end
