(* ===== verification/Rustic_Life.thy ===== *)
theory Rustic_Life
  imports Rustic_Laws
begin

text \<open>
  The properties of rustic backups: what reaches the store and the program, the life of a backup from its
  making to its removal or restoring, and the repair of a corrupted repository.
\<close>

section \<open>Lemmas\<close>

text \<open>An operation that leaves the configuration file of the S3 repository where it is.\<close>

definition keeps_conf :: "('w rust \<Rightarrow> 'r \<times> 'w rust) \<Rightarrow> bool" where
  "keeps_conf m \<longleftrightarrow> (\<forall>s. ru_temp (snd (m s)) = ru_temp s \<and> ru_conf (snd (m s)) = ru_conf s)"

named_theorems keeps_rules \<open>operations that leave the configuration file alone\<close>

lemma keeps_conf_elements [keeps_rules]:
  "keeps_conf (rret x)" "keeps_conf (rfail e)" "keeps_conf (rlook f)" "keeps_conf (rask c g)" "keeps_conf (s3_build d args)"
  "keeps_conf (rdecode msg r)"
  by (simp_all add: keeps_conf_def rret_def rfail_def rlook_def rask_def Let_def s3_build_def rdecode_def split: sum.split)

lemma keeps_conf_bind [keeps_rules]: "keeps_conf m \<Longrightarrow> (\<And>x. keeps_conf (f x)) \<Longrightarrow> keeps_conf (rbind m f)"
  by (auto simp: keeps_conf_def rbind_def split: prod.split sum.split) (metis snd_conv)+

lemma keeps_conf_wrap [keeps_rules]: "keeps_conf m \<Longrightarrow> keeps_conf (rwrap msg m)"
  by (auto simp: keeps_conf_def rwrap_def split: prod.split sum.split) (metis snd_conv)+

lemma keeps_conf_if [keeps_rules]: "keeps_conf m \<Longrightarrow> keeps_conf n \<Longrightarrow> keeps_conf (if b then m else n)"
  by simp

lemma keeps_conf_prod [keeps_rules]: "(\<And>x y. keeps_conf (f x y)) \<Longrightarrow> keeps_conf (case v of (x, y) \<Rightarrow> f x y)"
  by (simp split: prod.split)

lemma keeps_conf_option [keeps_rules]:
  "keeps_conf m \<Longrightarrow> (\<And>x. keeps_conf (f x)) \<Longrightarrow> keeps_conf (case v of None \<Rightarrow> m | Some x \<Rightarrow> f x)"
  by (simp split: option.split)

lemma keeps_conf_run [keeps_rules]: "keeps_conf (run_cmd d c)"
  unfolding run_cmd_def by (rule keeps_rules)

lemma keeps_conf_request [keeps_rules]: "keeps_conf (s3_request d r method path query headers)"
  unfolding s3_request_def Let_def by (intro keeps_rules)

lemma keeps_conf_objects [keeps_rules]:
  "keeps_conf (list_s3_objects d r p)" "keeps_conf (copy_s3_object d r source dest)" "keeps_conf (delete_s3_object d r key)"
  unfolding list_s3_objects_def copy_s3_object_def delete_s3_object_def by (intro keeps_rules)+

lemma keeps_conf_each: "(\<And>k. keeps_conf (f k)) \<Longrightarrow> keeps_conf (\<lambda>s. (Inr (), each_object f ks s))"
proof (induction ks)
  case (Cons k ks)
  then show ?case by (simp add: keeps_conf_def)
qed (simp add: keeps_conf_def)

lemma keeps_conf_repository [keeps_rules]:
  "keeps_conf (copy_s3_repository d r source dest)" "keeps_conf (delete_s3_repository d r p)"
  unfolding copy_s3_repository_def delete_s3_repository_def by (intro keeps_rules keeps_conf_each)+

lemma keeps_conf_recovery [keeps_rules]: "keeps_conf (backup_corrupted_repository d r)"
  using keeps_conf_repository(1) [of d r "repo_root r" "corrupted_root r"]
    keeps_conf_wrap [OF keeps_conf_repository(2) [of d r "repo_root r"]]
  by (simp add: keeps_conf_def backup_corrupted_repository_def)

lemma keeps_conf_fresh [keeps_rules]: "keeps_conf (initialize_fresh d)"
  unfolding initialize_fresh_def by (intro keeps_rules)

lemma more_calls_same_snapshot:
  "s3_create_snapshot n d r path tags f s = (Some x, t) \<Longrightarrow> n \<le> m \<Longrightarrow>
     s3_create_snapshot m d r path tags f s = (Some x, t)"
proof (induction n arbitrary: m s)
  case (Suc n)
  then obtain k where "m = Suc k" "n \<le> k" by (cases m) auto
  with Suc show ?case by (auto split: prod.splits sum.splits if_splits)
qed simp

section \<open>What the S3 repository does outside\<close>


section \<open>Deleting a snapshot\<close>






section \<open>Creating a snapshot\<close>

text \<open>What rustic is asked to do, after its name and the profile.\<close>

definition asked :: "cmd \<Rightarrow> string" where
  "asked c = hd (drop 3 (cm_args c))"

lemma asked_ignore [simp]: "asked (with_ignore_file f c) = asked c"
  by (simp add: asked_def with_ignore_file_def)

text \<open>
  The repair of a corrupted repository has no bound. If rustic answers every backup with a failed
  check and can make a repository, creating a snapshot does not return: however many of its calls to itself
  are followed, there is one more, after the objects of the repository have been deleted again.
\<close>

theorem create_never_returns:
  assumes "\<And>w c. asked c = ''backup'' \<Longrightarrow>
      cr_err (fst (ud_run d c w)) \<noteq> None \<and> corrupted (cr_output (fst (ud_run d c w)))"
    and "\<And>w c. asked c = ''init'' \<Longrightarrow> cr_err (fst (ud_run d c w)) = None"
    and "rf_server (sr_cfg r) \<noteq> []" and "get_rustic_binary d = Inr b"
    and "ru_temp s \<noteq> []" and "ru_conf s \<noteq> []"
  shows "fst (s3_create_snapshot n d r path tags f s) = None"
  using assms(5,6)
proof (induction n arbitrary: s)
  case (Suc n)
  obtain c where c: "s3_build d (backup_args path tags) s = (Inr c, s)" and m: "asked c = ''backup''"
    using Suc.prems by (simp add: s3_build_def assms(4) backup_args_def asked_def)
  let ?x = "fst (ud_run d (with_ignore_file f c) (ru_world s))"
  obtain s2 where s2: "run_cmd d (with_ignore_file f c) s = (Inr ?x, s2)" "ru_temp s2 = ru_temp s" "ru_conf s2 = ru_conf s"
    by (simp add: run_cmd_def rask_def Let_def)
  have x: "cr_err ?x \<noteq> None" "corrupted (cr_output ?x)"
    using assms(1) [of "with_ignore_file f c"] m by simp_all
  let ?s3 = "snd (backup_corrupted_repository d r s2)"
  have s3: "ru_temp ?s3 \<noteq> []" "ru_conf ?s3 \<noteq> []"
    using keeps_conf_recovery [of d r] s2 Suc.prems by (simp_all add: keeps_conf_def)
  obtain c1 where c1: "s3_build d [''init''] ?s3 = (Inr c1, ?s3)" and m1: "asked c1 = ''init''"
    using s3 by (simp add: s3_build_def assms(4) asked_def)
  have "cr_err (fst (ud_run d c1 w)) = None" for w by (rule assms(2) [OF m1])
  then obtain s4 where s4: "initialize_fresh d ?s3 = (Inr (), s4)"
    by (simp add: initialize_fresh_def rbind_def rwrap_def c1 run_cmd_def rask_def rret_def Let_def)
  have "ru_temp s4 \<noteq> []" "ru_conf s4 \<noteq> []"
    using keeps_conf_fresh [of d] s3 s4 unfolding keeps_conf_def by (metis snd_conv)+
  from Suc.IH [OF this] x show ?case
    by (auto simp: rwrap_def c s2 s4 split: option.splits)
qed simp

text \<open>A rustic that can make repositories and finds every one corrupted, over a store that lists one object.\<close>

definition mac_world :: "cmd \<Rightarrow> cmd_result" where
  "mac_world c =
     (if asked c = ''backup''
      then \<lparr>cr_output = ''MAC check failed'', cr_stdout = [], cr_err = Some ''exit status 1'', cr_timeout = False\<rparr>
      else \<lparr>cr_output = [], cr_stdout = [], cr_err = None, cr_timeout = False\<rparr>)"

definition mac_deps :: "unit rust_deps" where
  "mac_deps =
     \<lparr>ud_path_binary = Some ''rustic'', ud_cfg_binary = [], ud_repo_base = [],
      ud_run = (\<lambda>c w. (mac_world c, w)), ud_file = (\<lambda>_ _ w. (None, w)), ud_missing = (\<lambda>_ _. False),
      ud_temp = (\<lambda>_ w. (Inr ''/tmp/x'', w)), ud_now = (\<lambda>_. 0),
      ud_snapshots = (\<lambda>_. Inr []), ud_groups = (\<lambda>_. Inr []), ud_flat_sizes = (\<lambda>_. Inr []),
      ud_blobs = (\<lambda>_. Inr []), ud_files = (\<lambda>_. Inr []), ud_host = (\<lambda>_. Inr ''s3.test''),
      ud_query_escape = (\<lambda>s. s), ud_sha256_hex = (\<lambda>s. s), ud_hmac = (\<lambda>k s. s), ud_hex = (\<lambda>s. s),
      ud_date = (\<lambda>_. ''19700101''), ud_stamp = (\<lambda>_. ''19700101T000000Z''),
      ud_http = (\<lambda>q w. (if hq_method q = ''GET'' then Inr (200, ''<Key>k</Key>'', None) else Inr (500, [], None), w))\<rparr>"

definition mac_repo :: s3_repo where
  "mac_repo =
     (let s3 = \<lparr>s3_bucket = ''b'', s3_region = ''r'', s3_endpoint = [], s3_key_id = ''k'', s3_secret = ''s'',
                s3_token = [], s3_path_style = False\<rparr>
      in \<lparr>sr_cfg = \<lparr>rf_backup = ''u'', rf_server = ''v'', rf_password = ''p'', rf_type = ''s3'', rf_s3 = Some s3,
                   rf_local_path = [], rf_ignore = [], rf_tags = []\<rparr>, sr_s3 = s3\<rparr>)"

definition mac_start :: "unit rust" where
  "mac_start = \<lparr>ru_world = (), ru_calls = [], ru_temp = ''/tmp/x'', ru_conf = ''/tmp/x/elytra.toml''\<rparr>"

theorem create_never_returns_witness:
  "fst (s3_create_snapshot 5 mac_deps mac_repo ''/srv'' [] [] mac_start) = None"
proof (rule create_never_returns [where b = "''rustic''"])
  have "corrupted ''MAC check failed''" by code_simp
  then show "cr_err (fst (ud_run mac_deps c w)) \<noteq> None \<and> corrupted (cr_output (fst (ud_run mac_deps c w)))"
    if "asked c = ''backup''" for w c using that by (simp add: mac_deps_def mac_world_def)
  show "rf_server (sr_cfg mac_repo) \<noteq> []" by (simp add: mac_repo_def Let_def)
qed (simp_all add: mac_deps_def mac_world_def mac_start_def get_rustic_binary_def)


section \<open>Making a backup\<close>

lemma backup_tags_from:
  assumes "distinct (map fst ts)" and "\<forall>(k, v) \<in> set ts. CHR '':'' \<notin> set k"
    and "\<forall>(k, v) \<in> set us. CHR '':'' \<notin> set k"
  shows "distinct (map fst (foldl (\<lambda>ts (k, v). AList.update k v ts) ts us)) \<and>
    (\<forall>(k, v) \<in> set (foldl (\<lambda>ts (k, v). AList.update k v ts) ts us). CHR '':'' \<notin> set k) \<and>
    map_of (foldl (\<lambda>ts (k, v). AList.update k v ts) ts us) = foldl (\<lambda>m (k, v). m(k \<mapsto> v)) (map_of ts) us"
  using assms
proof (induction us arbitrary: ts)
  case (Cons p us)
  obtain k v where p: "p = (k, v)" by (cases p)
  have "distinct (map fst (AList.update k v ts))" using Cons.prems(1) by (rule distinct_update)
  moreover have "set (AList.update k v ts) \<subseteq> insert (k, v) (set ts)"
    by (induction ts) (auto simp: split: if_splits)
  then have "\<forall>(k, v) \<in> set (AList.update k v ts). CHR '':'' \<notin> set k"
    using Cons.prems(2,3) p by auto
  ultimately show ?case using Cons.IH [of "AList.update k v ts"] Cons.prems(3) by (simp add: p update_conv')
qed simp

lemma later_tags_absent:
  "k \<notin> fst ` set us \<Longrightarrow> foldl (\<lambda>m (k, v). m(k \<mapsto> v)) m us k = m k"
  by (induction us arbitrary: m) (auto split: prod.split)

text \<open>
  A backup is found again by its tags. If rustic gives back the tags with which a backup was made, the
  snapshot that is read is that of the backup's identifier, and it has the server's; the configuration's
  own tags do not change that if they have other names, without colons.
\<close>

theorem snapshot_names_backup:
  assumes "si_tags i = format_tags (backup_tags c)"
    and "\<forall>(k, v) \<in> set (rf_tags c). CHR '':'' \<notin> set k \<and> k \<noteq> ''backup_uuid'' \<and> k \<noteq> ''server_uuid''"
  shows "sn_backup (snapshot_of i) = rf_backup c \<and>
    sn_tags (snapshot_of i) ''server_uuid'' = Some (rf_server c) \<and> 1 \<le> sn_size (snapshot_of i)"
proof -
  let ?base = "[(''backup_uuid'', rf_backup c), (''server_uuid'', rf_server c), (''type'', ''server_backup'')]"
  let ?ts = "foldl (\<lambda>ts (k, v). AList.update k v ts) ?base (rf_tags c)"
  have "distinct (map fst ?ts) \<and> (\<forall>(k, v) \<in> set ?ts. CHR '':'' \<notin> set k) \<and>
    map_of ?ts = foldl (\<lambda>m (k, v). m(k \<mapsto> v)) (map_of ?base) (rf_tags c)"
    by (rule backup_tags_from) (use assms(2) in auto)
  then have p: "parse_tags (si_tags i) = foldl (\<lambda>m (k, v). m(k \<mapsto> v)) (map_of ?base) (rf_tags c)"
    using parse_tags_from [of ?ts Map.empty] by (simp add: assms(1) backup_tags_def parse_tags_def)
  have "''backup_uuid'' \<notin> fst ` set (rf_tags c)" "''server_uuid'' \<notin> fst ` set (rf_tags c)"
    using assms(2) by force+
  then show ?thesis by (simp add: snapshot_of_def p later_tags_absent split: option.split)
qed

definition tagged_cfg :: rustic_cfg where
  "tagged_cfg = \<lparr>rf_backup = ''u-1'', rf_server = ''v:2'', rf_password = ''p'', rf_type = ''local'', rf_s3 = None,
     rf_local_path = ''/repo'', rf_ignore = [], rf_tags = [(''type'', ''manual''), (''by'', [])]\<rparr>"

definition saved_info :: snapshot_info where
  "saved_info = \<lparr>si_id = ''deadbeef'', si_time = 0, si_paths = [''/srv''], si_tags = format_tags (backup_tags tagged_cfg),
     si_added = None\<rparr>"

theorem snapshot_names_backup_witness:
  "sn_backup (snapshot_of saved_info) = rf_backup tagged_cfg \<and>
    sn_tags (snapshot_of saved_info) ''server_uuid'' = Some (rf_server tagged_cfg) \<and> 1 \<le> sn_size (snapshot_of saved_info)"
  by (rule snapshot_names_backup) (simp_all add: saved_info_def tagged_cfg_def)

text \<open>A rustic that saves one snapshot.\<close>

definition saving_deps :: "unit rust_deps" where
  "saving_deps =
     \<lparr>ud_path_binary = Some ''rustic'', ud_cfg_binary = [], ud_repo_base = [],
      ud_run = (\<lambda>c w. (\<lparr>cr_output = ''snapshot deadbeef successfully saved'', cr_stdout = [], cr_err = None,
                         cr_timeout = False\<rparr>, w)),
      ud_file = (\<lambda>_ _ w. (None, w)), ud_missing = (\<lambda>_ _. False),
      ud_temp = (\<lambda>_ w. (Inr ''/tmp/x'', w)), ud_now = (\<lambda>_. 0),
      ud_snapshots = (\<lambda>_. Inr [saved_info]), ud_groups = (\<lambda>_. Inr [[saved_info]]), ud_flat_sizes = (\<lambda>_. Inr []),
      ud_blobs = (\<lambda>_. Inr []), ud_files = (\<lambda>_. Inr []), ud_host = (\<lambda>_. Inr ''s3.test''),
      ud_query_escape = (\<lambda>s. s), ud_sha256_hex = (\<lambda>s. s), ud_hmac = (\<lambda>k s. s), ud_hex = (\<lambda>s. s),
      ud_date = (\<lambda>_. []), ud_stamp = (\<lambda>_. []), ud_http = (\<lambda>q w. (Inr (200, [], None), w))\<rparr>"

definition saving_backup :: "unit rbackup" where
  "saving_backup = \<lparr>rb_cfg = tagged_cfg, rb_adapter = ''rustic_local'',
     rb_repo = Some (local_ops saving_deps \<lparr>lr_cfg = tagged_cfg, lr_path = ''/repo''\<rparr>), rb_snap = None\<rparr>"

definition saving_start :: "unit rust" where
  "saving_start = \<lparr>ru_world = (), ru_calls = [], ru_temp = [], ru_conf = []\<rparr>"

text \<open>
  A backup that was made is described rightly. If a generation reports success, the path was absolute
  and had no \<open>..\<close>, the repository had been made ready and gave the snapshot of that path with the backup's
  tags, the backup has this snapshot, the details are those of the snapshot with a positive size, and the
  ignore file has been removed after it.
\<close>

theorem generate_result:
  assumes "generate d sha1 path ignore b s = (Ret (Inr ad), b1, s1)"
  shows "has_prefix path ''/'' \<and> \<not> contains path ''..'' \<and>
    (\<exists>ops s0 sa f sb sn s2. rb_repo b = Some ops \<and> ro_init ops s = (Inr (), sa) \<and>
       create_ignore_file d ignore sa = (Inr f, sb) \<and>
       ro_create ops path (backup_tags (rb_cfg b)) f sb = (Some (Inr sn), s2) \<and>
       b1 = b\<lparr>rb_snap := Some sn\<rparr> \<and> s1 = snd (rfile d ''remove'' f s2) \<and>
       ad_snapshot ad = sn_id sn \<and> ad_checksum ad = ud_hex d (sha1 (sn_id sn)) \<and> 0 < ad_size ad)"
proof (cases "rb_repo b")
  case None
  with assms show ?thesis by (simp add: generate_def split: option.splits)
next
  case (Some ops)
  have v: "validate_path (stat_path d s) path = None"
    using assms by (simp add: generate_def split: option.splits)
  from assms obtain sa f sb sn s2 where
    "ro_init ops s = (Inr (), sa)" "create_ignore_file d ignore sa = (Inr f, sb)"
    "ro_create ops path (backup_tags (rb_cfg b)) f sb = (Some (Inr sn), s2)"
    "b1 = b\<lparr>rb_snap := Some sn\<rparr>" "s1 = snd (rfile d ''remove'' f s2)" "backup_details d sha1 b1 = Inr ad"
    by (auto simp: generate_def v Some rbind_def rwrap_def Let_def
        split: option.splits prod.splits sum.splits)
  moreover from this have "ad_snapshot ad = sn_id sn \<and> ad_checksum ad = ud_hex d (sha1 (sn_id sn)) \<and> 0 < ad_size ad"
    by (auto simp: backup_details_def backup_checksum_def backup_size_def split: if_splits)
  ultimately show ?thesis using v Some by (auto simp: validate_path_def split: if_splits)
qed

lemma generate_example:
  "fst (generate saving_deps (\<lambda>s. s) ''/srv'' ''*.log'' saving_backup saving_start) =
    Ret (Inr \<lparr>ad_checksum = ''deadbeef'', ad_checksum_type = ''sha1'', ad_size = 1024, ad_snapshot = ''deadbeef''\<rparr>)"
  by code_simp

theorem generate_result_witness:
  "\<exists>sn. rb_snap (fst (snd (generate saving_deps (\<lambda>s. s) ''/srv'' ''*.log'' saving_backup saving_start))) = Some sn \<and>
     sn_id sn = ''deadbeef''"
proof -
  let ?g = "generate saving_deps (\<lambda>s. s) ''/srv'' ''*.log'' saving_backup saving_start"
  have "?g = (Ret (Inr \<lparr>ad_checksum = ''deadbeef'', ad_checksum_type = ''sha1'', ad_size = 1024,
      ad_snapshot = ''deadbeef''\<rparr>), fst (snd ?g), snd (snd ?g))"
    by (simp add: prod_eq_iff generate_example)
  from generate_result [OF this] show ?thesis by auto
qed

section \<open>Restoring one\<close>

lemma with_restored_end:
  "case make_temp d ''mkdirtemp'' name s of
     (Inl e, s1) \<Rightarrow> snd (with_restored d name no_temp no_restore b sn use s) = s1
   | (Inr temp, s1) \<Rightarrow> \<exists>u. snd (with_restored d name no_temp no_restore b sn use s) = snd (rfile d ''removeall'' temp u)"
  by (cases "make_temp d ''mkdirtemp'' name s")
     (auto simp: with_restored_def rwrap_def Let_def split: option.split sum.split list.split)

text \<open>
  C15: Restoring leaves nothing behind. Whatever happens, also in a panic, the backup has no repository
  afterwards, and the last thing done before the repository is closed is to remove the directory that was
  made for the files.
\<close>

theorem restore_leaves_nothing:
  shows "rb_repo (fst (snd (restore_rustic d tree callback b s))) = None \<and>
    (\<exists>t. snd (snd (restore_rustic d tree callback b s)) = snd (snd (close_backup b t)) \<and>
      (case rb_snap b of
         None \<Rightarrow> t = s
       | Some sn \<Rightarrow>
           (case make_temp d ''mkdirtemp'' ''elytra-rustic-restore-'' s of
              (Inl e, s1) \<Rightarrow> t = s1
            | (Inr temp, s1) \<Rightarrow> \<exists>u. t = snd (rfile d ''removeall'' temp u))))"
proof -
  have "rb_repo (fst (snd (close_backup b t))) = None" for t
    by (simp add: close_backup_def Let_def split: option.split)
  note closed = this
  show ?thesis
  proof (cases "rb_snap b")
    case None
    then show ?thesis by (auto simp: restore_rustic_def closed)
  next
    case (Some sn)
    let ?r = "with_restored d ''elytra-rustic-restore-'' ''failed to create temp directory'' ''failed to restore snapshot''
      b sn (\<lambda>temp. rbind (rlook (tree temp)) (walk (restore_item d temp callback))) s"
    have "restore_rustic d tree callback b s = (fst ?r, snd (close_backup b (snd ?r)))"
      by (simp add: restore_rustic_def Some Let_def)
    with Some closed show ?thesis by (simp, intro exI [of _ "snd ?r"]) (simp add: with_restored_end)
  qed
qed

text \<open>
  The callback gets no path that goes up. Two callbacks that agree on the paths without \<open>..\<close> give the same
  restoration.
\<close>

theorem restore_confined:
  assumes "\<And>p. \<not> contains p ''..'' \<Longrightarrow> f p = g p"
  shows "restore_rustic d tree f b s = restore_rustic d tree g b s"
proof -
  have "restore_item d temp f i = restore_item d temp g i" for temp i
    using assms [of "wi_path i"] by (simp add: restore_item_def split: option.split)
  then have "restore_item d temp f = restore_item d temp g" for temp by blast
  then show ?thesis by (cases "rb_snap b") (simp_all add: restore_rustic_def)
qed

theorem restore_confined_witness:
  "restore_rustic saving_deps (\<lambda>_ _. []) (\<lambda>p. if contains p ''..'' then rfail ''out'' else rret ()) saving_backup saving_start =
   restore_rustic saving_deps (\<lambda>_ _. []) (\<lambda>p. rret ()) saving_backup saving_start"
  by (rule restore_confined) simp

text \<open>A name with two dots in it is not restored, and not downloaded either.\<close>

lemma dotted_name_left_out:
  "restore_item d temp callback \<lparr>wi_path = ''notes..txt'', wi_dir = False, wi_regular = True, wi_error = None\<rparr> s = (Inr (), s)"
  "archive_item d temp \<lparr>wi_path = ''notes..txt'', wi_dir = False, wi_regular = True, wi_error = None\<rparr> s = (Inr (), s)"
proof -
  have "contains ''notes..txt'' ''..''" by code_simp
  then show "restore_item d temp callback \<lparr>wi_path = ''notes..txt'', wi_dir = False, wi_regular = True, wi_error = None\<rparr> s = (Inr (), s)"
    "archive_item d temp \<lparr>wi_path = ''notes..txt'', wi_dir = False, wi_regular = True, wi_error = None\<rparr> s = (Inr (), s)"
    by (simp_all add: restore_item_def archive_item_def rret_def del: contains.simps)
qed

section \<open>Finding one\<close>

definition is_file_call :: "rust_call \<Rightarrow> bool" where
  "is_file_call c = (case c of RcFile _ _ \<Rightarrow> True | _ \<Rightarrow> False)"

lemma is_file_call_file [simp]: "is_file_call (RcFile what path)"
  by (simp add: is_file_call_def)

lemma make_temp_calls [call_rules]: "K (RcFile what name) \<Longrightarrow> calls_only K (make_temp d what name)"
  unfolding make_temp_def by (intro call_rules)

lemma create_config_calls: "calls_only is_file_call (create_config_file d r)"
proof -
  have on: "calls_only is_file_call (and_on_error c m)"
    if "calls_only is_file_call c" "calls_only is_file_call m" for c m :: "('w, unit) rio"
  proof -
    have "adds_only is_file_call s (snd (and_on_error c m s))" for s
      using calls_only_at [OF that(2), of s] calls_only_at [OF that(1)]
      by (auto simp: and_on_error_def split: prod.split sum.split intro: adds_only_trans)
    then show ?thesis by (simp add: calls_only_def)
  qed
  have "calls_only is_file_call (\<lambda>s. (Inr (), s\<lparr>ru_temp := t, ru_conf := c\<rparr>))" for t c
    by (simp add: calls_only_def adds_only_def)
  then have "calls_only is_file_call
      (rbind (rwrap ''failed to create temp directory''
               (rbind (rask (RcFile ''mkdirtemp'' ''elytra-rustic-s3-'') (ud_temp d ''elytra-rustic-s3-''))
                 (\<lambda>t. case t of Inl e \<Rightarrow> rfail e | Inr p \<Rightarrow> rret p)))
             (\<lambda>temp. rbind
               (and_on_error (rfile d ''removeall'' temp)
                 (rbind (rwrap ''failed to set temp directory permissions'' (rfile d ''chmod'' temp)) (\<lambda>_.
                    rwrap ''failed to create config file''
                      (create_config_file_at_path d r (path_join [temp, ''elytra.toml'']) (repo_root r)))))
               (\<lambda>_ s1. (Inr (), s1\<lparr>ru_temp := temp, ru_conf := path_join [temp, ''elytra.toml'']\<rparr>))))"
    unfolding create_config_file_at_path_def by (intro call_rules on is_file_call_file)
  from calls_only_at [OF this] show ?thesis by (simp add: calls_only_def create_config_file_def)
qed

lemma new_rustic_calls: "calls_only is_file_call (new_rustic_backup n d c)"
  unfolding new_rustic_backup_def new_s3_repository_def Let_def
  by (intro call_rules create_config_calls)

lemma new_rustic_ops:
  assumes "new_rustic_backup n d c s = (Inr b, t)"
  shows "\<exists>r q. rb_repo b = Some (local_ops d r) \<or> rb_repo b = Some (s3_ops n d q)"
  using assms
  by (auto simp: new_rustic_backup_def rbind_def rwrap_def rfail_def rret_def
      split: option.splits if_splits prod.splits sum.splits)

text \<open>
  An identifier that is not well formed stops a backup from being found, whichever repository it is in:
  the call fails, and no command has been run and nothing has been asked of the store.
\<close>

theorem locate_refuses_bad_id:
  assumes "\<not> is_valid_snapshot_id i"
  shows "(\<exists>e. fst (locate_rustic_backup n d c i s) = Inl e) \<and>
    adds_only is_file_call s (snd (locate_rustic_backup n d c i s))"
proof (cases "new_rustic_backup n d c s")
  case (Pair a t)
  have t: "adds_only is_file_call s t" by (rule calls_onlyD [OF new_rustic_calls Pair])
  show ?thesis
  proof (cases a)
    case (Inl e)
    with t Pair show ?thesis by (simp add: locate_rustic_backup_def rbind_def)
  next
    case (Inr b)
    then obtain r q where "rb_repo b = Some (local_ops d r) \<or> rb_repo b = Some (s3_ops n d q)"
      using new_rustic_ops Pair by blast
    then obtain ops where ops: "rb_repo b = Some ops" "ops = local_ops d r \<or> ops = s3_ops n d q" by auto
    have get: "ro_get ops i t = (Inl ''invalid snapshot ID format'', t)"
      using ops(2) local_store.get_refuses [OF assms] s3_store.get_refuses [OF assms] by auto
    have "calls_only is_file_call (s3_close d)"
    proof -
      have "calls_only is_file_call (rbind (rfile d ''removeall'' u) (\<lambda>_ s1. (Inr (), s1\<lparr>ru_temp := [], ru_conf := []\<rparr>)))" for u
        by (intro call_rules is_file_call_file) (simp add: calls_only_def adds_only_def)
      from calls_only_at [OF this] show ?thesis by (simp add: calls_only_def s3_close_def)
    qed
    moreover have "calls_only is_file_call local_close"
      by (simp add: local_close_def calls_only_ret)
    ultimately have "adds_only is_file_call t (snd (ro_close ops t))"
      using ops(2) by (auto simp: local_ops_def s3_ops_def intro: calls_only_at)
    with t show ?thesis
      by (auto simp: locate_rustic_backup_def rbind_def Pair Inr ops(1) get close_backup_def Let_def intro: adds_only_trans)
  qed
qed

theorem locate_refuses_bad_id_witness:
  "(\<exists>e. fst (locate_rustic_backup 1 saving_deps tagged_cfg ''--help'' saving_start) = Inl e) \<and>
    adds_only is_file_call saving_start (snd (locate_rustic_backup 1 saving_deps tagged_cfg ''--help'' saving_start))"
  by (rule locate_refuses_bad_id) code_simp

text \<open>After it has been closed, as a restoration does, a backup panics when it is used.\<close>

lemma closed_backup_panics:
  assumes "rb_repo b = None" and "rb_snap b = Some sn"
  shows "fst (remove_backup b s) = Panic ''nil pointer dereference''"
    and "validate_path (stat_path d s) path = None \<Longrightarrow> fst (generate d sha1 path ignore b s) = Panic ''nil pointer dereference''"
  using assms by (simp_all add: remove_backup_def generate_def)

section \<open>Repairing a repository\<close>

lemma each_object_calls_all:
  assumes "\<And>k s. \<exists>q. ru_calls (snd (f k s)) = ru_calls s @ [g k q]"
  shows "\<exists>qs. List.length qs = List.length ks \<and> ru_calls (each_object f ks s) = ru_calls s @ map2 g ks qs"
proof (induction ks arbitrary: s)
  case (Cons k ks)
  obtain q where q: "ru_calls (snd (f k s)) = ru_calls s @ [g k q]" using assms by blast
  obtain qs where "List.length qs = List.length ks"
    "ru_calls (each_object f ks (snd (f k s))) = ru_calls (snd (f k s)) @ map2 g ks qs" using Cons.IH by blast
  with q show ?case by (intro exI [of _ "q # qs"]) simp
qed simp

lemma delete_object_call:
  assumes "ud_host d (if s3_endpoint (sr_s3 r) = [] then ''https://s3.'' @ s3_region (sr_s3 r) @ ''.amazonaws.com''
             else s3_endpoint (sr_s3 r)) = Inr h"
  shows "\<exists>q. ru_calls (snd (delete_s3_object d r k s)) =
    ru_calls s @ [RcHttp \<lparr>hq_method = ''DELETE'', hq_host = h, hq_path = ''/'' @ s3_bucket (sr_s3 r) @ ''/'' @ k,
                    hq_query = [], hq_headers = q\<rparr>]"
  using assms
  by (auto simp: delete_s3_object_def s3_request_def rbind_def rdecode_def rlook_def rask_def rret_def rfail_def Let_def
      sign_request_def split: sum.split prod.split)

text \<open>
  The repair of a corrupted repository deletes what it could not save. The copies of the objects are not
  looked at: every object that is listed before the deletion is asked to be deleted, in order, whatever the
  store answered to its copy and whether it was copied at all.
\<close>

theorem recovery_deletes_all:
  assumes "rf_server (sr_cfg r) \<noteq> []"
    and "list_s3_objects d r (repo_root r) (snd (copy_s3_repository d r (repo_root r) (corrupted_root r) s)) = (Inr ks, t)"
  shows "\<exists>reqs. ru_calls (snd (backup_corrupted_repository d r s)) = ru_calls t @ map RcHttp reqs \<and>
    map (\<lambda>q. (hq_method q, hq_path q)) reqs = map (\<lambda>k. (''DELETE'', ''/'' @ s3_bucket (sr_s3 r) @ ''/'' @ k)) ks"
proof -
  let ?e = "if s3_endpoint (sr_s3 r) = [] then ''https://s3.'' @ s3_region (sr_s3 r) @ ''.amazonaws.com''
             else s3_endpoint (sr_s3 r)"
  obtain h where h: "ud_host d ?e = Inr h"
    using assms(2) by (cases "ud_host d ?e")
      (auto simp: list_s3_objects_def s3_request_def rbind_def rdecode_def rfail_def Let_def)
  let ?q = "\<lambda>k q. \<lparr>hq_method = ''DELETE'', hq_host = h, hq_path = ''/'' @ s3_bucket (sr_s3 r) @ ''/'' @ k,
                    hq_query = [], hq_headers = q\<rparr>"
  obtain qs where qs: "List.length qs = List.length ks"
    "ru_calls (each_object (delete_s3_object d r) ks t) = ru_calls t @ map2 (\<lambda>k q. RcHttp (?q k q)) ks qs"
    using each_object_calls_all [where f = "delete_s3_object d r" and g = "\<lambda>k q. RcHttp (?q k q)"] delete_object_call [OF h]
    by blast
  have "snd (backup_corrupted_repository d r s) = each_object (delete_s3_object d r) ks t"
    using assms by (simp add: backup_corrupted_repository_def delete_s3_repository_def rwrap_def rbind_def)
  moreover have "map2 (\<lambda>k q. RcHttp (?q k q)) ks qs = map RcHttp (map2 ?q ks qs)" by (simp add: split_def)
  moreover have "map (\<lambda>q. (hq_method q, hq_path q)) (map2 ?q ks qs) = map (\<lambda>k. (''DELETE'', ''/'' @ s3_bucket (sr_s3 r) @ ''/'' @ k)) ks"
    using qs(1) by (induction ks qs rule: list_induct2') auto
  ultimately show ?thesis using qs(2) by (intro exI [of _ "map2 ?q ks qs"]) simp
qed

theorem recovery_deletes_all_witness:
  "\<exists>reqs. ru_calls (snd (backup_corrupted_repository mac_deps mac_repo mac_start)) =
      ru_calls (snd (list_s3_objects mac_deps mac_repo (repo_root mac_repo)
        (snd (copy_s3_repository mac_deps mac_repo (repo_root mac_repo) (corrupted_root mac_repo) mac_start)))) @ map RcHttp reqs \<and>
    map (\<lambda>q. (hq_method q, hq_path q)) reqs = [(''DELETE'', ''/b/k'')]"
proof -
  let ?s = "snd (copy_s3_repository mac_deps mac_repo (repo_root mac_repo) (corrupted_root mac_repo) mac_start)"
  have "fst (list_s3_objects mac_deps mac_repo (repo_root mac_repo) ?s) = Inr [''k'']" by code_simp
  then have l: "list_s3_objects mac_deps mac_repo (repo_root mac_repo) ?s =
      (Inr [''k''], snd (list_s3_objects mac_deps mac_repo (repo_root mac_repo) ?s))"
    by (simp add: prod_eq_iff)
  have n: "rf_server (sr_cfg mac_repo) \<noteq> []" by (simp add: mac_repo_def Let_def)
  have b: "s3_bucket (sr_s3 mac_repo) = ''b''" by (simp add: mac_repo_def Let_def)
  show ?thesis using recovery_deletes_all [OF n l] by (simp add: b)
qed

end
