(* ===== verification/Backup_Adapters.thy ===== *)
theory Backup_Adapters
  imports Go_Strings
begin

text \<open>
  The archive backups, \<open>src/server/backup/backup.go\<close>, \<open>backup_local.go\<close> and \<open>backup_s3.go\<close>: an archive in
  the backup directory, kept there or uploaded in parts and removed. The disk, the making and unpacking of
  archives, hashes, the panel and the HTTP client are functions of a world \<open>'w\<close>; an error is its text.
\<close>

section \<open>The world\<close>

text \<open>
  What an attempt to upload gives: an error of the client, with whether the context had ended, or a status
  with its text and the tag of what was stored.
\<close>

datatype put_answer = PutError string bool | PutStatus nat string string

text \<open>
  \<open>bd_put\<close> gets the address, the announced length and the bytes that the body still has, and says how many of
  them it has read. \<open>bd_waits\<close> are the waits that the backoff allows: each is waited for, or the context
  ends in it with an error. \<open>bd_archive\<close> are the files of an archive by name, each with the error of opening it.
\<close>

record 'w adapter_deps =
  bd_dir :: string
  bd_stat :: "string \<Rightarrow> 'w \<Rightarrow> string + (int \<times> bool)"
  bd_read :: "string \<Rightarrow> 'w \<Rightarrow> string + string"
  bd_create :: "string \<Rightarrow> string \<Rightarrow> 'w \<Rightarrow> string option \<times> 'w"
  bd_remove :: "string \<Rightarrow> 'w \<Rightarrow> string option \<times> 'w"
  bd_archive :: "string \<Rightarrow> (string \<times> string option) list \<times> string option"
  bd_sha1 :: "string \<Rightarrow> string"
  bd_hex :: "string \<Rightarrow> string"
  bd_delete_remote :: "string \<Rightarrow> 'w \<Rightarrow> string option \<times> 'w"
  bd_upload_urls :: "string \<Rightarrow> int \<Rightarrow> 'w \<Rightarrow> (string + (string list \<times> int)) \<times> 'w"
  bd_bad_url :: "string \<Rightarrow> string option"
  bd_put :: "string \<Rightarrow> int \<Rightarrow> string \<Rightarrow> 'w \<Rightarrow> (put_answer \<times> nat) \<times> 'w"
  bd_waits :: "string option list"

text \<open>An upload of a part: the address, the announced length, the bytes offered and how many were read.\<close>

record put_call =
  pc_url :: string
  pc_length :: int
  pc_body :: string
  pc_read :: nat

text \<open>The uploader's reader is at \<open>up_rest\<close>.\<close>

record 'w uploading =
  up_world :: 'w
  up_rest :: string
  up_calls :: "put_call list"

section \<open>A backup on disk\<close>

record backup =
  bk_uuid :: string
  bk_ignore :: string
  bk_client :: bool

record backup_part =
  bp_etag :: string
  bp_number :: int

record archive_info =
  ai_checksum :: string
  ai_checksum_type :: string
  ai_size :: int
  ai_parts :: "backup_part list"
  ai_snapshot :: string

record backup_request =
  br_checksum :: string
  br_checksum_type :: string
  br_size :: int
  br_successful :: bool
  br_parts :: "backup_part list"
  br_snapshot :: string

definition set_backup_client :: "bool \<Rightarrow> backup \<Rightarrow> backup" where
  "set_backup_client client b = b\<lparr>bk_client := client\<rparr>"

definition backup_identifier :: "backup \<Rightarrow> string" where "backup_identifier b = bk_uuid b"
definition backup_ignored :: "backup \<Rightarrow> string" where "backup_ignored b = bk_ignore b"

definition archive_path :: "'w adapter_deps \<Rightarrow> backup \<Rightarrow> string" where
  "archive_path d b = path_join [bd_dir d, bk_uuid b @ ''.tar.gz'']"

definition archive_size :: "'w adapter_deps \<Rightarrow> backup \<Rightarrow> 'w \<Rightarrow> string + int" where
  "archive_size d b w = (case bd_stat d (archive_path d b) w of Inl e \<Rightarrow> Inl e | Inr (n, _) \<Rightarrow> Inr n)"

definition archive_checksum :: "'w adapter_deps \<Rightarrow> backup \<Rightarrow> 'w \<Rightarrow> string + string" where
  "archive_checksum d b w =
     (case bd_read d (archive_path d b) w of Inl e \<Rightarrow> Inl e | Inr bytes \<Rightarrow> Inr (bd_sha1 d bytes))"

text \<open>The two run at once; if both fail, \<open>sum_first\<close> says whose error is the group's.\<close>

definition archive_info_of ::
  "'w adapter_deps \<Rightarrow> bool \<Rightarrow> backup \<Rightarrow> backup_part list \<Rightarrow> 'w \<Rightarrow> string + archive_info" where
  "archive_info_of d sum_first b parts w =
     (case (archive_checksum d b w, archive_size d b w) of
        (Inr c, Inr n) \<Rightarrow>
          Inr \<lparr>ai_checksum = bd_hex d c, ai_checksum_type = ''sha1'', ai_size = n, ai_parts = parts, ai_snapshot = []\<rparr>
      | (Inl e, Inl e1) \<Rightarrow> Inl (if sum_first then e else e1)
      | (Inl e, Inr _) \<Rightarrow> Inl e
      | (Inr _, Inl e) \<Rightarrow> Inl e)"

definition to_request :: "archive_info \<Rightarrow> bool \<Rightarrow> backup_request" where
  "to_request a successful =
     \<lparr>br_checksum = ai_checksum a, br_checksum_type = ai_checksum_type a, br_size = ai_size a,
      br_successful = successful, br_parts = ai_parts a, br_snapshot = ai_snapshot a\<rparr>"

section \<open>Backups that stay on disk\<close>

definition new_local :: "bool \<Rightarrow> string \<Rightarrow> string \<Rightarrow> backup" where
  "new_local client uuid ignore = \<lparr>bk_uuid = uuid, bk_ignore = ignore, bk_client = client\<rparr>"

definition locate_local :: "'w adapter_deps \<Rightarrow> bool \<Rightarrow> string \<Rightarrow> 'w \<Rightarrow> string + (backup \<times> int)" where
  "locate_local d client uuid w =
     (let b = new_local client uuid []
      in case bd_stat d (archive_path d b) w of
           Inl e \<Rightarrow> Inl e
         | Inr (n, dir) \<Rightarrow> if dir then Inl ''invalid archive, is directory'' else Inr (b, n))"

definition remove_local :: "'w adapter_deps \<Rightarrow> backup \<Rightarrow> 'w \<Rightarrow> string option \<times> 'w" where
  "remove_local d b = bd_remove d (archive_path d b)"

definition wrap_msg :: "string \<Rightarrow> string \<Rightarrow> string" where
  "wrap_msg msg e = msg @ '': '' @ e"

definition generate_local ::
  "'w adapter_deps \<Rightarrow> bool \<Rightarrow> string \<Rightarrow> backup \<Rightarrow> 'w \<Rightarrow> (string + archive_info) \<times> 'w" where
  "generate_local d sum_first ignore b w =
     (case bd_create d ignore (archive_path d b) w of
        (Some e, w1) \<Rightarrow> (Inl e, w1)
      | (None, w1) \<Rightarrow>
          (case archive_info_of d sum_first b [] w1 of
             Inl e \<Rightarrow> (Inl (wrap_msg ''backup: failed to get archive details for local backup'' e), w1)
           | Inr a \<Rightarrow> (Inr a, w1)))"

text \<open>The files of an archive one after the other, until one cannot be opened or the callback fails.\<close>

fun extract_each ::
  "(string \<Rightarrow> 'w \<Rightarrow> string option \<times> 'w) \<Rightarrow> (string \<times> string option) list \<Rightarrow> 'w \<Rightarrow> string option \<times> 'w" where
  "extract_each callback [] w = (None, w)"
| "extract_each callback ((name, err) # fs) w =
     (case err of
        Some e \<Rightarrow> (Some e, w)
      | None \<Rightarrow>
          (case callback name w of
             (Some e, w1) \<Rightarrow> (Some e, w1)
           | (None, w1) \<Rightarrow> extract_each callback fs w1))"

definition restore_archive ::
  "'w adapter_deps \<Rightarrow> (string \<Rightarrow> 'w \<Rightarrow> string option \<times> 'w) \<Rightarrow> string \<Rightarrow> 'w \<Rightarrow> string option \<times> 'w" where
  "restore_archive d callback bytes w =
     (case bd_archive d bytes of
        (fs, broken) \<Rightarrow>
          (case extract_each callback fs w of
             (Some e, w1) \<Rightarrow> (Some e, w1)
           | (None, w1) \<Rightarrow> (broken, w1)))"

definition restore_local ::
  "'w adapter_deps \<Rightarrow> (string \<Rightarrow> 'w \<Rightarrow> string option \<times> 'w) \<Rightarrow> backup \<Rightarrow> 'w \<Rightarrow> string option \<times> 'w" where
  "restore_local d callback b w =
     (case bd_read d (archive_path d b) w of
        Inl e \<Rightarrow> (Some e, w)
      | Inr bytes \<Rightarrow> restore_archive d callback bytes w)"

section \<open>Backups in a bucket\<close>

definition new_s3 :: "bool \<Rightarrow> string \<Rightarrow> string \<Rightarrow> backup" where
  "new_s3 client uuid ignore = \<lparr>bk_uuid = uuid, bk_ignore = ignore, bk_client = client\<rparr>"

definition drop_archive :: "'w adapter_deps \<Rightarrow> backup \<Rightarrow> 'w \<Rightarrow> 'w" where
  "drop_archive d b w =
     (case bd_stat d (archive_path d b) w of
        Inl _ \<Rightarrow> w
      | Inr _ \<Rightarrow> snd (bd_remove d (archive_path d b) w))"

definition remove_s3 :: "'w adapter_deps \<Rightarrow> backup \<Rightarrow> 'w \<Rightarrow> string option \<times> 'w" where
  "remove_s3 d b w =
     (if \<not> bk_client b then (Some ''backup: no API client available for S3 backup deletion'', w)
      else (case bd_delete_remote d (bk_uuid b) w of
              (Some e, w1) \<Rightarrow> (Some (wrap_msg ''backup: failed to delete S3 backup via Panel API'' e), w1)
            | (None, w1) \<Rightarrow> (None, drop_archive d b w1)))"

definition restore_s3 ::
  "'w adapter_deps \<Rightarrow> (string \<Rightarrow> 'w \<Rightarrow> string option \<times> 'w) \<Rightarrow> string \<Rightarrow> 'w \<Rightarrow> string option \<times> 'w" where
  "restore_s3 d callback reader w = restore_archive d callback reader w"

subsection \<open>Uploading a part\<close>

text \<open>
  \<open>left\<close> is what the limited reader of the part still lets through; it is made once, and the attempts share
  it and the uploader's reader.
\<close>

definition put_once ::
  "'w adapter_deps \<Rightarrow> string \<Rightarrow> int \<Rightarrow> int \<Rightarrow> 'w uploading \<Rightarrow> put_answer \<times> int \<times> 'w uploading" where
  "put_once d url len left u =
     (let body = take (nat left) (up_rest u); r = bd_put d url len body (up_world u);
          n = min (snd (fst r)) (List.length body)
      in (fst (fst r), left - int n,
          \<lparr>up_world = snd r, up_rest = drop n (up_rest u),
           up_calls = up_calls u @ [\<lparr>pc_url = url, pc_length = len, pc_body = body, pc_read = n\<rparr>]\<rparr>))"

text \<open>The result of an attempt: the tag, an error that is final, or one after which it is tried again.\<close>

datatype attempt_result = Stored string | Final string | Again string

definition attempt_of :: "put_answer \<Rightarrow> attempt_result" where
  "attempt_of a =
     (case a of
        PutError e ended \<Rightarrow> if ended then Final e else Again (wrap_msg ''backup: S3 HTTP request failed'' e)
      | PutStatus s text etag \<Rightarrow>
          if s = 200 then Stored etag
          else (let e = ''backup: failed to put S3 object: [HTTP/'' @ itoa (int s) @ ''] '' @ text
                in if 500 \<le> s then Again e else Final e))"

fun put_retry ::
  "'w adapter_deps \<Rightarrow> string option list \<Rightarrow> string \<Rightarrow> int \<Rightarrow> int \<Rightarrow> 'w uploading \<Rightarrow> (string + string) \<times> 'w uploading" where
  "put_retry d ws url len left u =
     (case put_once d url len left u of
        (a, left1, u1) \<Rightarrow>
          (case attempt_of a of
             Stored etag \<Rightarrow> (Inr etag, u1)
           | Final e \<Rightarrow> (Inl e, u1)
           | Again e \<Rightarrow>
               (case ws of
                  [] \<Rightarrow> (Inl e, u1)
                | Some ended # _ \<Rightarrow> (Inl ended, u1)
                | None # ws1 \<Rightarrow> put_retry d ws1 url len left1 u1)))"

definition upload_part ::
  "'w adapter_deps \<Rightarrow> string \<Rightarrow> int \<Rightarrow> 'w uploading \<Rightarrow> (string + string) \<times> 'w uploading" where
  "upload_part d url len u =
     (case bd_bad_url d url of
        Some e \<Rightarrow> (Inl (wrap_msg ''backup: could not create request for S3'' e), u)
      | None \<Rightarrow> put_retry d (bd_waits d) url len len u)"

subsection \<open>Uploading an archive\<close>

definition part_size :: "int \<Rightarrow> int \<Rightarrow> nat \<Rightarrow> nat \<Rightarrow> int" where
  "part_size all_size each n i =
     (if i + 1 < n then each else wrap64 (all_size - wrap64 (int i * each)))"

fun upload_parts ::
  "'w adapter_deps \<Rightarrow> int \<Rightarrow> int \<Rightarrow> nat \<Rightarrow> nat \<Rightarrow> string list \<Rightarrow> backup_part list \<Rightarrow> 'w uploading
     \<Rightarrow> (string + backup_part list) \<times> 'w uploading" where
  "upload_parts d all_size each n i [] done_parts u = (Inr done_parts, u)"
| "upload_parts d all_size each n i (url # urls) done_parts u =
     (case upload_part d url (part_size all_size each n i) u of
        (Inl e, u1) \<Rightarrow> (Inl e, u1)
      | (Inr etag, u1) \<Rightarrow>
          upload_parts d all_size each n (Suc i) urls
            (done_parts @ [\<lparr>bp_etag = etag, bp_number = int i + 1\<rparr>]) u1)"

definition generate_remote_request ::
  "'w adapter_deps \<Rightarrow> backup \<Rightarrow> string \<Rightarrow> 'w \<Rightarrow> (string + backup_part list) \<times> 'w uploading" where
  "generate_remote_request d b bytes w =
     (case archive_size d b w of
        Inl e \<Rightarrow> (Inl e, \<lparr>up_world = w, up_rest = bytes, up_calls = []\<rparr>)
      | Inr all_size \<Rightarrow>
          (case bd_upload_urls d (bk_uuid b) all_size w of
             (Inl e, w1) \<Rightarrow> (Inl e, \<lparr>up_world = w1, up_rest = bytes, up_calls = []\<rparr>)
           | (Inr (urls, each), w1) \<Rightarrow>
               upload_parts d all_size each (List.length urls) 0 urls []
                 \<lparr>up_world = w1, up_rest = bytes, up_calls = []\<rparr>))"

definition generate_s3 ::
  "'w adapter_deps \<Rightarrow> bool \<Rightarrow> string \<Rightarrow> backup \<Rightarrow> 'w \<Rightarrow> (string + archive_info) \<times> put_call list \<times> 'w" where
  "generate_s3 d sum_first ignore b w =
     (case bd_create d ignore (archive_path d b) w of
        (Some e, w1) \<Rightarrow> (Inl e, [], w1)
      | (None, w1) \<Rightarrow>
          (case bd_read d (archive_path d b) w1 of
             Inl e \<Rightarrow> (Inl (wrap_msg ''backup: could not read archive from disk'' e), [], drop_archive d b w1)
           | Inr bytes \<Rightarrow>
               (case generate_remote_request d b bytes w1 of
                  (Inl e, u) \<Rightarrow> (Inl e, up_calls u, drop_archive d b (up_world u))
                | (Inr parts, u) \<Rightarrow>
                    ((case archive_info_of d sum_first b parts (up_world u) of
                        Inl e \<Rightarrow> Inl (wrap_msg ''backup: failed to get archive details after upload'' e)
                      | Inr a \<Rightarrow> Inr a),
                     up_calls u, drop_archive d b (up_world u)))))"

section \<open>Lemmas\<close>

text \<open>A client whose every request reads its body and is stored at once.\<close>

definition stores_all :: "'w adapter_deps \<Rightarrow> bool" where
  "stores_all d \<longleftrightarrow>
     (\<forall>url. bd_bad_url d url = None) \<and>
     (\<forall>url n body w. \<exists>tx etag. fst (bd_put d url n body w) = (PutStatus 200 tx etag, List.length body))"

text \<open>A client that reports an object as stored only if it has read as many bytes as it announced.\<close>

definition stores_whole :: "'w adapter_deps \<Rightarrow> bool" where
  "stores_whole d \<longleftrightarrow>
     (\<forall>url n body w tx etag r. fst (bd_put d url n body w) = (PutStatus 200 tx etag, r) \<longrightarrow>
        n \<le> int r \<and> r \<le> List.length body)"

lemma upload_part_stored:
  assumes "stores_all d"
  shows "\<exists>etag w. upload_part d url len u =
    (Inr etag, \<lparr>up_world = w, up_rest = drop (nat len) (up_rest u),
                up_calls = up_calls u @ [\<lparr>pc_url = url, pc_length = len, pc_body = take (nat len) (up_rest u),
                                          pc_read = min (nat len) (List.length (up_rest u))\<rparr>]\<rparr>)"
proof -
  let ?body = "take (nat len) (up_rest u)"
  from assms obtain tx etag where put: "fst (bd_put d url len ?body (up_world u)) = (PutStatus 200 tx etag, List.length ?body)"
    unfolding stores_all_def by blast
  obtain w where w: "snd (bd_put d url len ?body (up_world u)) = w" by simp
  have r: "drop (min (nat len) (List.length (up_rest u))) (up_rest u) = drop (nat len) (up_rest u)"
    by (simp add: min_def)
  have once: "put_once d url len len u =
    (PutStatus 200 tx etag, len - int (min (nat len) (List.length (up_rest u))),
     \<lparr>up_world = w, up_rest = drop (nat len) (up_rest u),
      up_calls = up_calls u @ [\<lparr>pc_url = url, pc_length = len, pc_body = ?body,
                                pc_read = min (nat len) (List.length (up_rest u))\<rparr>]\<rparr>)"
    using r by (simp add: put_once_def Let_def put w min.commute)
  have "bd_bad_url d url = None" using assms by (simp add: stores_all_def)
  then show ?thesis by (simp add: upload_part_def once attempt_of_def)
qed

lemma in_i64_part:
  assumes "0 \<le> x" and "x \<le> y" and "in_i64 y"
  shows "in_i64 x" and "in_i64 (y - x)"
  using assms by (simp_all add: in_i64_simps)

lemma part_size_nat:
  assumes "in_i64 (int a)" and "i * e \<le> a"
  shows "part_size (int a) (int e) n i = int (if i + 1 < n then e else a - i * e)"
proof -
  have "int i * int e \<le> int a" and "0 \<le> int i * int e" using assms(2) by (simp_all flip: of_nat_mult)
  from in_i64_part [OF this(2,1) assms(1)] show ?thesis
    using assms(2) by (simp add: part_size_def of_nat_diff)
qed

lemma upload_parts_stored:
  assumes "stores_all d" and "n = i + List.length urls" and "List.length bytes = a" and "in_i64 (int a)"
    and "i * e \<le> a" and "urls \<noteq> [] \<Longrightarrow> (n - 1) * e \<le> a"
    and "up_rest u = drop (i * e) bytes"
  shows "\<exists>parts u1 cs. upload_parts d (int a) (int e) n i urls ps u = (Inr (ps @ parts), u1) \<and>
    up_calls u1 = up_calls u @ cs \<and> map bp_number parts = map (\<lambda>k. int k + 1) [i ..< n] \<and> map pc_url cs = urls \<and>
    (urls \<noteq> [] \<longrightarrow> concat (map pc_body cs) = drop (i * e) bytes) \<and>
    (\<forall>c \<in> set cs. pc_length c = int (List.length (pc_body c)) \<and> pc_read c = List.length (pc_body c))"
  using assms
proof (induction urls arbitrary: i ps u)
  case Nil
  then show ?case by simp
next
  case (Cons url urls)
  let ?l = "if i + 1 < n then e else a - i * e"
  have len: "part_size (int a) (int e) n i = int ?l" by (rule part_size_nat) (use Cons.prems in auto)
  obtain etag w where up: "upload_part d url (int ?l) u =
      (Inr etag, \<lparr>up_world = w, up_rest = drop ?l (drop (i * e) bytes),
        up_calls = up_calls u @ [\<lparr>pc_url = url, pc_length = int ?l, pc_body = take ?l (drop (i * e) bytes),
                                  pc_read = min ?l (a - i * e)\<rparr>]\<rparr>)"
    using upload_part_stored [OF Cons.prems(1), of url "int ?l" u] Cons.prems by (auto simp del: of_nat_diff)
  let ?u = "\<lparr>up_world = w, up_rest = drop ?l (drop (i * e) bytes),
        up_calls = up_calls u @ [\<lparr>pc_url = url, pc_length = int ?l, pc_body = take ?l (drop (i * e) bytes),
                                  pc_read = min ?l (a - i * e)\<rparr>]\<rparr>"
  have fits: "?l \<le> a - i * e"
  proof (cases "i + 1 < n")
    case True
    have "Suc i * e \<le> (n - 1) * e" using True by (intro mult_le_mono1) simp
    also have "\<dots> \<le> a" using Cons.prems(6) by simp
    finally show ?thesis using True by simp
  qed simp
  show ?case
  proof (cases "urls = []")
    case True
    then have "n = Suc i" using Cons.prems by simp
    moreover from this have "part_size (int a) (int e) (Suc i) i = int (a - i * e)" using len by simp
    ultimately show ?thesis using up True Cons.prems(3) by (simp del: of_nat_diff)
  next
    case False
    then have l: "?l = e" using Cons.prems(2) by (cases urls) auto
    have "n = Suc i + List.length urls" and "Suc i * e \<le> a"
      using Cons.prems fits l by auto
    then obtain parts u1 cs where "upload_parts d (int a) (int e) n (Suc i) urls
         (ps @ [\<lparr>bp_etag = etag, bp_number = int i + 1\<rparr>]) ?u = (Inr ((ps @ [\<lparr>bp_etag = etag, bp_number = int i + 1\<rparr>]) @ parts), u1)"
      "up_calls u1 = up_calls ?u @ cs" "map bp_number parts = map (\<lambda>k. int k + 1) [Suc i ..< n]" "map pc_url cs = urls"
      "concat (map pc_body cs) = drop (Suc i * e) bytes"
      "\<forall>c \<in> set cs. pc_length c = int (List.length (pc_body c)) \<and> pc_read c = List.length (pc_body c)"
      using Cons.IH [of "Suc i" ?u "ps @ [\<lparr>bp_etag = etag, bp_number = int i + 1\<rparr>]"] Cons.prems False
      by (auto simp: l add.commute)
    moreover have "[i ..< n] = i # [Suc i ..< n]" by (rule upt_conv_Cons) (use Cons.prems(2) in simp)
    moreover have "take e (drop (i * e) bytes) @ drop (e + i * e) bytes = drop (i * e) bytes"
      by (metis append_take_drop_id drop_drop)
    ultimately show ?thesis
      using up fits l Cons.prems(3) by (auto simp: len min_def)
  qed
qed

text \<open>An attempt adds a call with what it was offered.\<close>

lemma put_once_call:
  assumes "put_once d url len left u = (a, left1, u1)"
  shows "\<exists>c. up_calls u1 = up_calls u @ [c] \<and> pc_body c = take (nat left) (up_rest u) \<and>
    left1 = left - int (pc_read c) \<and> up_rest u1 = drop (pc_read c) (up_rest u) \<and> pc_read c \<le> List.length (pc_body c)"
  using assms by (auto simp: put_once_def Let_def)

lemma stored_was_whole:
  assumes "stores_whole d" and "put_once d url len left u = (a, left1, u1)" and "attempt_of a = Stored etag" and "left \<le> len"
    and "up_calls u1 = up_calls u @ [c]"
  shows "0 < len \<Longrightarrow> left = len" and "0 \<le> len \<Longrightarrow> pc_read c = nat len"
proof -
  let ?b = "take (nat left) (up_rest u)"
  obtain tx where "fst (fst (bd_put d url len ?b (up_world u))) = PutStatus 200 tx etag"
    using assms(2,3) by (auto simp: put_once_def Let_def attempt_of_def split: put_answer.splits if_splits)
  then have w: "len \<le> int (snd (fst (bd_put d url len ?b (up_world u))))"
    "snd (fst (bd_put d url len ?b (up_world u))) \<le> List.length ?b"
    using assms(1) unfolding stores_whole_def by (metis prod.collapse)+
  have c: "pc_read c = snd (fst (bd_put d url len ?b (up_world u)))"
    using assms(2,5) w(2) by (auto simp: put_once_def Let_def)
  have l: "int (List.length ?b) \<le> max 0 left" by simp
  show "0 < len \<Longrightarrow> left = len" using w l assms(4) by linarith
  show "0 \<le> len \<Longrightarrow> pc_read c = nat len" using w l assms(4) c by linarith
qed

lemma put_retry_stored:
  assumes "stores_whole d" and "put_retry d ws url len left u = (Inr etag, u1)" and "0 < len" and "left \<le> len"
  shows "left = len \<and> (\<exists>cs c. up_calls u1 = up_calls u @ cs @ [c] \<and> (\<forall>x \<in> set cs. pc_read x = 0) \<and> pc_read c = nat len)"
  using assms(2,4)
proof (induction ws arbitrary: left u)
  case Nil
  obtain a left1 u2 where o: "put_once d url len left u = (a, left1, u2)" by (metis prod_cases3)
  obtain c where c: "up_calls u2 = up_calls u @ [c]" using put_once_call [OF o] by blast
  have a: "attempt_of a = Stored etag" and u2: "u2 = u1"
    using Nil.prems(1) by (auto simp: o split: attempt_result.splits)
  from stored_was_whole [OF assms(1) o a Nil.prems(2) c] assms(3) c u2 show ?case
    by (auto intro!: exI [of _ "[]"])
next
  case (Cons v ws)
  obtain a left1 u2 where o: "put_once d url len left u = (a, left1, u2)" by (metis prod_cases3)
  obtain c where c: "up_calls u2 = up_calls u @ [c]" "left1 = left - int (pc_read c)" using put_once_call [OF o] by blast
  show ?case
  proof (cases "attempt_of a")
    case (Stored tag)
    with Cons.prems(1) have "tag = etag" "u2 = u1" by (simp_all add: o)
    with stored_was_whole [OF assms(1) o Stored Cons.prems(2) c(1)] assms(3) c show ?thesis
      by (auto intro!: exI [of _ "[]"])
  next
    case (Final e)
    with Cons.prems(1) show ?thesis by (simp add: o)
  next
    case (Again e)
    with Cons.prems(1) have r: "put_retry d ws url len left1 u2 = (Inr etag, u1)"
      by (auto simp: o split: option.splits)
    have "left1 \<le> len" using c(2) Cons.prems(2) by simp
    from Cons.IH [OF r this] obtain cs c' where
      "left1 = len" "up_calls u1 = up_calls u2 @ cs @ [c']" "\<forall>x \<in> set cs. pc_read x = 0" "pc_read c' = nat len" by blast
    with c Cons.prems(2) show ?thesis by (intro conjI exI [of _ "c # cs"] exI [of _ c']) auto
  qed
qed

section \<open>Properties\<close>

text \<open>
  C31: An archive is uploaded in pieces that are it. If every request is stored at once, the parts that the
  panel asked for are uploaded in its order, numbered from one; each announces exactly the bytes that it
  sends, all of which are read; and put together the parts are the archive, if all but the last are no more
  than it.
\<close>

theorem upload_in_pieces:
  assumes "stores_all d" and "archive_size d b w = Inr (int (List.length bytes))" and "in_i64 (int (List.length bytes))"
    and "bd_upload_urls d (bk_uuid b) (int (List.length bytes)) w = (Inr (urls, int each), w1)" and "urls \<noteq> []"
    and "(List.length urls - 1) * each \<le> List.length bytes"
  shows "\<exists>parts u. generate_remote_request d b bytes w = (Inr parts, u) \<and>
    map bp_number parts = map (\<lambda>k. int k + 1) [0 ..< List.length urls] \<and> map pc_url (up_calls u) = urls \<and>
    concat (map pc_body (up_calls u)) = bytes \<and>
    (\<forall>c \<in> set (up_calls u). pc_length c = int (List.length (pc_body c)) \<and> pc_read c = List.length (pc_body c))"
  using upload_parts_stored [OF assms(1), of "List.length urls" 0 urls bytes "List.length bytes" each
      "\<lparr>up_world = w1, up_rest = bytes, up_calls = []\<rparr>" "[]"] assms(2-)
  by (auto simp: generate_remote_request_def)

text \<open>
  A part is not sent again. If a request is stored only when as many bytes were read as it announced,
  a part that is uploaded at all has been so by a request before which no other request of it had read a
  byte: the attempts share one reader, and after one that failed in the middle none can succeed.
\<close>

theorem retry_has_no_bytes:
  assumes "stores_whole d" and "upload_part d url len u = (Inr etag, u1)" and "0 < len"
  shows "\<exists>cs c. up_calls u1 = up_calls u @ cs @ [c] \<and> (\<forall>x \<in> set cs. pc_read x = 0) \<and> pc_read c = nat len"
  using put_retry_stored [OF assms(1), of "bd_waits d" url len len u etag u1] assms(2,3)
  by (auto simp: upload_part_def split: option.splits)

text \<open>
  A backup for a bucket leaves no archive on the disk. If a file that is removed is gone, then once the
  archive has been made it is gone at the end, whether the upload and the rest worked or not.
\<close>

theorem s3_leaves_no_archive:
  assumes "\<And>v. \<exists>e. bd_stat d (archive_path d b) (snd (bd_remove d (archive_path d b) v)) = Inl e"
    and "bd_create d ignore (archive_path d b) w = (None, w1)"
  shows "\<exists>e. bd_stat d (archive_path d b) (snd (snd (generate_s3 d sum_first ignore b w))) = Inl e"
proof -
  have "\<exists>e. bd_stat d (archive_path d b) (drop_archive d b v) = Inl e" for v
    using assms(1) [of v] by (cases "bd_stat d (archive_path d b) v") (simp_all add: drop_archive_def)
  then show ?thesis
    by (auto simp: generate_s3_def assms(2) split: sum.split prod.split)
qed

subsection \<open>Examples\<close>

text \<open>
  A disk with one archive, a panel that asks for parts of three bytes, and a client that is given the announced
  length, the body and how many requests there were.
\<close>

definition disk_deps :: "(int \<Rightarrow> string \<Rightarrow> nat \<Rightarrow> put_answer \<times> nat) \<Rightarrow> (string \<times> nat) adapter_deps" where
  "disk_deps put =
     \<lparr>bd_dir = ''/b'', bd_stat = (\<lambda>_ (f, _). if f = [] then Inl ''gone'' else Inr (int (List.length f), False)),
      bd_read = (\<lambda>_ (f, _). if f = [] then Inl ''gone'' else Inr f), bd_create = (\<lambda>_ _ (f, n). (None, (''abcdefgh'', n))),
      bd_remove = (\<lambda>_ (f, n). (None, ([], n))), bd_archive = (\<lambda>_. ([], None)), bd_sha1 = id, bd_hex = id,
      bd_delete_remote = (\<lambda>_ w. (None, w)),
      bd_upload_urls = (\<lambda>_ _ w. (Inr ([''u1'', ''u2'', ''u3''], 3), w)), bd_bad_url = (\<lambda>_. None),
      bd_put = (\<lambda>url n body (f, k). (put n body k, (f, Suc k))), bd_waits = [None, None]\<rparr>"

definition storing :: "int \<Rightarrow> string \<Rightarrow> nat \<Rightarrow> put_answer \<times> nat" where
  "storing n body k = (PutStatus 200 ''OK'' ''tag'', List.length body)"

text \<open>The first request is not taken, or breaks off after two bytes.\<close>

definition refusing :: "int \<Rightarrow> string \<Rightarrow> nat \<Rightarrow> put_answer \<times> nat" where
  "refusing n body k =
     (if k = 0 then (PutStatus 503 ''busy'' [], 0)
      else if n \<le> int (List.length body) then (PutStatus 200 ''OK'' ''tag'', List.length body)
      else (PutError ''short body'' False, List.length body))"

definition breaking :: "int \<Rightarrow> string \<Rightarrow> nat \<Rightarrow> put_answer \<times> nat" where
  "breaking n body k = (if k = 0 then (PutStatus 503 ''busy'' [], 2) else refusing n body k)"

theorem upload_in_pieces_witness:
  "\<exists>parts u. generate_remote_request (disk_deps storing) (new_s3 True ''u'' []) ''abcdefgh'' (''abcdefgh'', 0) = (Inr parts, u) \<and>
    map bp_number parts = map (\<lambda>k. int k + 1) [0 ..< 3] \<and> map pc_url (up_calls u) = [''u1'', ''u2'', ''u3''] \<and>
    concat (map pc_body (up_calls u)) = ''abcdefgh'' \<and>
    (\<forall>c \<in> set (up_calls u). pc_length c = int (List.length (pc_body c)) \<and> pc_read c = List.length (pc_body c))"
  using upload_in_pieces [where d = "disk_deps storing" and b = "new_s3 True ''u'' []" and bytes = "''abcdefgh''"
      and w = "(''abcdefgh'', 0)" and urls = "[''u1'', ''u2'', ''u3'']" and each = 3]
  by (simp add: stores_all_def disk_deps_def storing_def archive_size_def in_i64_simps numeral_3_eq_3)

lemma refusing_whole: "stores_whole (disk_deps refusing)"
  by (auto simp: stores_whole_def disk_deps_def refusing_def split: if_splits)

theorem retry_has_no_bytes_witness:
  "\<exists>cs c. up_calls (snd (upload_part (disk_deps refusing) ''u1'' 3 \<lparr>up_world = ([], 0), up_rest = ''abcdefgh'', up_calls = []\<rparr>)) =
     cs @ [c] \<and> (\<forall>x \<in> set cs. pc_read x = 0) \<and> pc_read c = 3"
proof -
  let ?u = "\<lparr>up_world = ([], 0), up_rest = ''abcdefgh'', up_calls = []\<rparr> :: (string \<times> nat) uploading"
  have "fst (upload_part (disk_deps refusing) ''u1'' 3 ?u) = Inr ''tag''" by code_simp
  then have "upload_part (disk_deps refusing) ''u1'' 3 ?u = (Inr ''tag'', snd (upload_part (disk_deps refusing) ''u1'' 3 ?u))"
    by (simp add: prod_eq_iff)
  from retry_has_no_bytes [OF refusing_whole this] show ?thesis by simp
qed

text \<open>One that breaks off after two bytes is tried twice more, and fails.\<close>

lemma broken_part_fails:
  "fst (upload_part (disk_deps breaking) ''u1'' 3 \<lparr>up_world = ([], 0), up_rest = ''abcdefgh'', up_calls = []\<rparr>) =
     Inl ''backup: S3 HTTP request failed: short body''"
  "List.length (up_calls (snd (upload_part (disk_deps breaking) ''u1'' 3
     \<lparr>up_world = ([], 0), up_rest = ''abcdefgh'', up_calls = []\<rparr>))) = 3"
  by code_simp+

theorem s3_leaves_no_archive_witness:
  "\<exists>e. bd_stat (disk_deps breaking) (archive_path (disk_deps breaking) (new_s3 True ''u'' []))
     (snd (snd (generate_s3 (disk_deps breaking) True [] (new_s3 True ''u'' []) ([], 0)))) = Inl e"
proof (rule s3_leaves_no_archive)
  show "bd_create (disk_deps breaking) [] (archive_path (disk_deps breaking) (new_s3 True ''u'' [])) ([], 0) =
      (None, (''abcdefgh'', 0))" by (simp add: disk_deps_def)
qed (simp add: disk_deps_def split: prod.split)

end
