(* ===== verification/Panel_Client.thy ===== *)
theory Panel_Client
  imports Go_Strings "HOL-Library.Multiset"
begin

text \<open>
  The client of the panel, \<open>src/remote/http.go\<close>, \<open>servers.go\<close>, \<open>errors.go\<close> and \<open>types.go\<close>: a request with its
  retries, what is made of an answer, and the calls that the rest of the program makes. The network is a
  function of a world \<open>'w\<close>; what is sent is recorded with the answer to it.
\<close>

section \<open>The client\<close>

record panel_client =
  pl_base :: string
  pl_token_id :: string
  pl_token :: string
  pl_max_attempts :: int

definition trim_one_slash :: "string \<Rightarrow> string" where
  "trim_one_slash s = (if has_suffix s ''/'' then take (List.length s - 1) s else s)"

definition with_credentials :: "string \<Rightarrow> string \<Rightarrow> panel_client \<Rightarrow> panel_client" where
  "with_credentials i token c = c\<lparr>pl_token_id := i, pl_token := token\<rparr>"

definition new_panel_client :: "string \<Rightarrow> (panel_client \<Rightarrow> panel_client) list \<Rightarrow> panel_client" where
  "new_panel_client base opts =
     foldl (\<lambda>c f. f c)
       \<lparr>pl_base = trim_one_slash base @ ''/api/remote'', pl_token_id = [], pl_token = [], pl_max_attempts = 0\<rparr> opts"

section \<open>Requests and answers\<close>

record api_request =
  aq_method :: string
  aq_url :: string
  aq_query :: "(string \<times> string) list"
  aq_body :: string
  aq_headers :: "(string \<times> string) list"

text \<open>An answer with its status and body, or an error of the HTTP client with whether it is the end of a context.\<close>

datatype answer = NoAnswer string bool | Answer int string

record panel_error =
  pe_code :: string
  pe_status :: string
  pe_detail :: string

datatype api_error = RequestError panel_error int | OtherError string

text \<open>
  \<open>pd_bad_url\<close> is the error of making a request for an address; \<open>pd_errors\<close> reads the errors from a body, as
  far as it can. \<open>pd_waits\<close> are the waits that the exponential backoff allows within its thirty seconds: each
  is waited for, or the context ends before or in it with an error.
\<close>

record 'w panel_deps =
  pd_version :: string
  pd_bad_url :: "string \<Rightarrow> string option"
  pd_send :: "api_request \<Rightarrow> 'w \<Rightarrow> answer \<times> 'w"
  pd_errors :: "string \<Rightarrow> panel_error list"
  pd_waits :: "string option list"

record 'w panel =
  pw_world :: 'w
  pw_sent :: "(api_request \<times> answer) list"

type_synonym ('w, 'a) call = "'w panel \<Rightarrow> (api_error + 'a) \<times> 'w panel"

definition has_error :: "int \<Rightarrow> bool" where
  "has_error status \<longleftrightarrow> 300 \<le> status \<or> status < 200"

definition response_error :: "'w panel_deps \<Rightarrow> int \<Rightarrow> string \<Rightarrow> api_error" where
  "response_error d status body =
     (case pd_errors d body of
        e # _ \<Rightarrow> RequestError e status
      | [] \<Rightarrow> RequestError \<lparr>pe_code = ''_MissingResponseCode'', pe_status = itoa status,
                            pe_detail = ''No error response returned from API endpoint.''\<rparr> status)"

definition error_text :: "api_error \<Rightarrow> string" where
  "error_text e =
     (case e of
        RequestError p status \<Rightarrow>
          ''Error response from Panel: '' @ pe_code p @ '': '' @ pe_detail p @ '' (HTTP/'' @ itoa status @ '')''
      | OtherError s \<Rightarrow> s)"

definition as_request_error :: "api_error \<Rightarrow> (panel_error \<times> int) option" where
  "as_request_error e = (case e of RequestError p status \<Rightarrow> Some (p, status) | OtherError _ \<Rightarrow> None)"

definition api_request_of ::
  "'w panel_deps \<Rightarrow> panel_client \<Rightarrow> string \<Rightarrow> string \<Rightarrow> (string \<times> string) list \<Rightarrow> string \<Rightarrow> api_request" where
  "api_request_of d c verb path query body =
     \<lparr>aq_method = verb, aq_url = pl_base c @ path, aq_query = query, aq_body = body,
      aq_headers = [(''User-Agent'', ''Elytra/v'' @ pd_version d @ '' (id:'' @ pl_token_id c @ '')''),
                    (''Accept'', ''application/vnd.pterodactyl.v1+json''),
                    (''Content-Type'', ''application/json''),
                    (''Authorization'', ''Bearer '' @ pl_token_id c @ ''.'' @ pl_token c)]\<rparr>"

text \<open>An address that is no URL gives an error before anything is sent.\<close>

definition request_once ::
  "'w panel_deps \<Rightarrow> panel_client \<Rightarrow> string \<Rightarrow> string \<Rightarrow> (string \<times> string) list \<Rightarrow> string \<Rightarrow> 'w panel \<Rightarrow> answer \<times> 'w panel" where
  "request_once d c verb path query body s =
     (case pd_bad_url d (pl_base c @ path) of
        Some e \<Rightarrow> (NoAnswer e False, s)
      | None \<Rightarrow>
          (let q = api_request_of d c verb path query body;
               r = pd_send d q (pw_world s)
           in (fst r, \<lparr>pw_world = snd r, pw_sent = pw_sent s @ [(q, fst r)]\<rparr>)))"

text \<open>What an attempt means: a body, an error that is final, or one after which it is tried again.\<close>

datatype outcome = Done_With string | Give_Up api_error | Try_Again api_error

definition outcome_of :: "'w panel_deps \<Rightarrow> answer \<Rightarrow> outcome" where
  "outcome_of d a =
     (case a of
        NoAnswer e ended \<Rightarrow>
          if ended then Give_Up (OtherError e) else Try_Again (OtherError (''http: request creation failed: '' @ e))
      | Answer status body \<Rightarrow>
          if has_error status
          then (if 400 \<le> status \<and> status < 500 then Give_Up (response_error d status body)
                else Try_Again (response_error d status body))
          else Done_With body)"

fun attempts ::
  "'w panel_deps \<Rightarrow> panel_client \<Rightarrow> string \<Rightarrow> string \<Rightarrow> (string \<times> string) list \<Rightarrow> string \<Rightarrow> string option list
     \<Rightarrow> ('w, string) call" where
  "attempts d c verb path query body ws s =
     (case request_once d c verb path query body s of
        (a, s1) \<Rightarrow>
          (case outcome_of d a of
             Done_With b \<Rightarrow> (Inr b, s1)
           | Give_Up e \<Rightarrow> (Inl e, s1)
           | Try_Again e \<Rightarrow>
               (case ws of
                  [] \<Rightarrow> (Inl e, s1)
                | Some ended # _ \<Rightarrow> (Inl (OtherError ended), s1)
                | None # ws1 \<Rightarrow> attempts d c verb path query body ws1 s1)))"

definition panel_backoff :: "'w panel_deps \<Rightarrow> panel_client \<Rightarrow> string option list" where
  "panel_backoff d c = (if 0 < pl_max_attempts c then take (nat (pl_max_attempts c)) (pd_waits d) else pd_waits d)"

definition request ::
  "'w panel_deps \<Rightarrow> panel_client \<Rightarrow> string \<Rightarrow> string \<Rightarrow> (string \<times> string) list \<Rightarrow> string \<Rightarrow> ('w, string) call" where
  "request d c verb path query body = attempts d c verb path query body (panel_backoff d c)"

text \<open>A document that cannot be made is an error before anything is sent.\<close>

definition get :: "'w panel_deps \<Rightarrow> panel_client \<Rightarrow> string \<Rightarrow> (string \<times> string) list \<Rightarrow> ('w, string) call" where
  "get d c path query = request d c ''GET'' path query []"

definition with_document ::
  "'w panel_deps \<Rightarrow> panel_client \<Rightarrow> string \<Rightarrow> string \<Rightarrow> string + string \<Rightarrow> ('w, string) call" where
  "with_document d c verb path doc s =
     (case doc of Inl e \<Rightarrow> (Inl (OtherError e), s) | Inr body \<Rightarrow> request d c verb path [] body s)"

definition post :: "'w panel_deps \<Rightarrow> panel_client \<Rightarrow> string \<Rightarrow> string + string \<Rightarrow> ('w, string) call" where
  "post d c = with_document d c ''POST''"

definition put :: "'w panel_deps \<Rightarrow> panel_client \<Rightarrow> string \<Rightarrow> string + string \<Rightarrow> ('w, string) call" where
  "put d c = with_document d c ''PUT''"

definition bind_json :: "(string \<Rightarrow> string + 'a) \<Rightarrow> ('w, string) call \<Rightarrow> ('w, 'a) call" where
  "bind_json dec m s =
     (case m s of
        (Inl e, s1) \<Rightarrow> (Inl e, s1)
      | (Inr body, s1) \<Rightarrow>
          (case dec body of
             Inl e \<Rightarrow> (Inl (OtherError (''remote: could not unmarshal response: '' @ e)), s1)
           | Inr x \<Rightarrow> (Inr x, s1)))"

definition no_result :: "('w, string) call \<Rightarrow> ('w, unit) call" where
  "no_result m s = (case m s of (Inl e, s1) \<Rightarrow> (Inl e, s1) | (Inr _, s1) \<Rightarrow> (Inr (), s1))"

section \<open>The calls\<close>

definition successful_doc :: "bool \<Rightarrow> string + string" where
  "successful_doc ok = Inr (''{'' @ [CHR 0x22] @ ''successful'' @ [CHR 0x22] @ '':'' @ (if ok then ''true'' else ''false'') @ ''}'')"

text \<open>An error that is wrapped is still the panel's error.\<close>

definition wrap_api :: "string \<Rightarrow> api_error \<Rightarrow> api_error" where
  "wrap_api msg e = (case e of RequestError p s \<Rightarrow> RequestError p s | OtherError x \<Rightarrow> OtherError (msg @ '': '' @ x))"

definition reset_servers_state :: "'w panel_deps \<Rightarrow> panel_client \<Rightarrow> ('w, unit) call" where
  "reset_servers_state d c s =
     (case no_result (post d c ''/servers/reset'' (Inr ''null'')) s of
        (Inl e, s1) \<Rightarrow> (Inl (wrap_api ''remote: failed to reset server state on Panel'' e), s1)
      | (Inr u, s1) \<Rightarrow> (Inr u, s1))"

definition get_server_configuration :: "(string \<Rightarrow> string + 'a) \<Rightarrow> 'w panel_deps \<Rightarrow> panel_client \<Rightarrow> string \<Rightarrow> ('w, 'a) call" where
  "get_server_configuration dec d c uuid = bind_json dec (get d c (''/servers/'' @ uuid) [])"

definition get_installation_script :: "(string \<Rightarrow> string + 'a) \<Rightarrow> 'w panel_deps \<Rightarrow> panel_client \<Rightarrow> string \<Rightarrow> ('w, 'a) call" where
  "get_installation_script dec d c uuid = bind_json dec (get d c (''/servers/'' @ uuid @ ''/install'') [])"

definition set_installation_status :: "'w panel_deps \<Rightarrow> panel_client \<Rightarrow> string \<Rightarrow> string + string \<Rightarrow> ('w, unit) call" where
  "set_installation_status d c uuid doc = no_result (post d c (''/servers/'' @ uuid @ ''/install'') doc)"

definition set_archive_status :: "'w panel_deps \<Rightarrow> panel_client \<Rightarrow> string \<Rightarrow> bool \<Rightarrow> ('w, unit) call" where
  "set_archive_status d c uuid ok = no_result (post d c (''/servers/'' @ uuid @ ''/archive'') (successful_doc ok))"

definition send_transfer_status :: "'w panel_deps \<Rightarrow> panel_client \<Rightarrow> string \<Rightarrow> bool \<Rightarrow> ('w, unit) call" where
  "send_transfer_status d c uuid ok =
     no_result (post d c (''/servers/'' @ uuid @ ''/transfer/'' @ (if ok then ''success'' else ''failure'')) (Inr ''null''))"

datatype 'a sftp_auth = Credentials_Invalid | Auth_Error api_error | Auth_Ok 'a

definition validate_sftp_credentials ::
  "(string \<Rightarrow> string + 'a) \<Rightarrow> 'w panel_deps \<Rightarrow> panel_client \<Rightarrow> string + string \<Rightarrow> 'w panel \<Rightarrow> 'a sftp_auth \<times> 'w panel" where
  "validate_sftp_credentials dec d c doc s =
     (case post d c ''/sftp/auth'' doc s of
        (Inl e, s1) \<Rightarrow>
          ((case as_request_error e of
              Some (_, status) \<Rightarrow> if 400 \<le> status \<and> status < 500 then Credentials_Invalid else Auth_Error e
            | None \<Rightarrow> Auth_Error e), s1)
      | (Inr body, s1) \<Rightarrow>
          ((case dec body of
              Inl e \<Rightarrow> Auth_Error (OtherError (''remote: could not unmarshal response: '' @ e))
            | Inr x \<Rightarrow> Auth_Ok x), s1))"

definition get_backup_upload_urls :: "(string \<Rightarrow> string + 'a) \<Rightarrow> 'w panel_deps \<Rightarrow> panel_client \<Rightarrow> string \<Rightarrow> int \<Rightarrow> ('w, 'a) call" where
  "get_backup_upload_urls dec d c uuid n = bind_json dec (get d c (''/backups/'' @ uuid) [(''size'', itoa n)])"

definition get_server_rustic_config ::
  "(string \<Rightarrow> string + 'a) \<Rightarrow> 'w panel_deps \<Rightarrow> panel_client \<Rightarrow> string \<Rightarrow> string \<Rightarrow> ('w, 'a) call" where
  "get_server_rustic_config dec d c uuid typ = bind_json dec (get d c (''/servers/'' @ uuid @ ''/rustic-config'') [(''type'', typ)])"

definition set_backup_status :: "'w panel_deps \<Rightarrow> panel_client \<Rightarrow> string \<Rightarrow> string + string \<Rightarrow> ('w, unit) call" where
  "set_backup_status d c uuid doc = no_result (post d c (''/backups/'' @ uuid) doc)"

definition send_restoration_status :: "'w panel_deps \<Rightarrow> panel_client \<Rightarrow> string \<Rightarrow> bool \<Rightarrow> ('w, unit) call" where
  "send_restoration_status d c uuid ok = no_result (post d c (''/backups/'' @ uuid @ ''/restore'') (successful_doc ok))"

definition send_activity_logs :: "'w panel_deps \<Rightarrow> panel_client \<Rightarrow> string + string \<Rightarrow> ('w, unit) call" where
  "send_activity_logs d c doc = no_result (post d c ''/activity'' doc)"

definition delete_panel_backup :: "'w panel_deps \<Rightarrow> panel_client \<Rightarrow> string \<Rightarrow> ('w, unit) call" where
  "delete_panel_backup d c uuid = no_result (request d c ''DELETE'' (''/backups/'' @ uuid) [] [])"

definition update_backup_sizes :: "'w panel_deps \<Rightarrow> panel_client \<Rightarrow> string \<Rightarrow> string + string \<Rightarrow> ('w, unit) call" where
  "update_backup_sizes d c uuid doc = no_result (post d c (''/servers/'' @ uuid @ ''/backup-sizes'') doc)"

definition report_job_completion :: "'w panel_deps \<Rightarrow> panel_client \<Rightarrow> string \<Rightarrow> string + string \<Rightarrow> ('w, unit) call" where
  "report_job_completion d c job doc = no_result (put d c (''/elytra-jobs/'' @ job) doc)"

section \<open>The list of servers\<close>

record pagination =
  pg_current :: nat
  pg_last :: nat

definition get_servers_paged ::
  "(string \<Rightarrow> string + ('a list \<times> pagination)) \<Rightarrow> 'w panel_deps \<Rightarrow> panel_client \<Rightarrow> nat \<Rightarrow> int \<Rightarrow> ('w, 'a list \<times> pagination) call" where
  "get_servers_paged dec d c page limit =
     bind_json dec (get d c ''/servers'' [(''page'', itoa (int page)), (''per_page'', itoa limit)])"

text \<open>The other pages in the order in which they are answered; the first that fails ends it.\<close>

fun get_pages ::
  "(string \<Rightarrow> string + ('a list \<times> pagination)) \<Rightarrow> 'w panel_deps \<Rightarrow> panel_client \<Rightarrow> int \<Rightarrow> nat list \<Rightarrow> 'a list \<Rightarrow> ('w, 'a list) call" where
  "get_pages dec d c limit [] servers s = (Inr servers, s)"
| "get_pages dec d c limit (p # ps) servers s =
     (case get_servers_paged dec d c p limit s of
        (Inl e, s1) \<Rightarrow> (Inl e, s1)
      | (Inr (xs, _), s1) \<Rightarrow> get_pages dec d c limit ps (servers @ xs) s1)"

definition other_pages :: "pagination \<Rightarrow> nat list" where
  "other_pages m = (if 1 < pg_last m then [Suc (pg_current m) ..< Suc (pg_last m)] else [])"

text \<open>\<open>order\<close> puts the pages into the order in which they are answered.\<close>

definition get_servers ::
  "(string \<Rightarrow> string + ('a list \<times> pagination)) \<Rightarrow> 'w panel_deps \<Rightarrow> panel_client \<Rightarrow> (nat list \<Rightarrow> nat list) \<Rightarrow> int \<Rightarrow> ('w, 'a list) call" where
  "get_servers dec d c order limit s =
     (case get_servers_paged dec d c 0 limit s of
        (Inl e, s1) \<Rightarrow> (Inl e, s1)
      | (Inr (servers, m), s1) \<Rightarrow> get_pages dec d c limit (order (other_pages m)) servers s1)"

section \<open>Matching a line of output\<close>

record line_matcher =
  lm_raw :: string
  lm_regex :: "(string \<Rightarrow> bool) option"

definition line_matches :: "line_matcher \<Rightarrow> string \<Rightarrow> bool" where
  "line_matches m line = (case lm_regex m of None \<Rightarrow> contains line (lm_raw m) | Some r \<Rightarrow> r line)"

text \<open>\<open>compile\<close> is the library's; a pattern that does not compile leaves no pattern.\<close>

definition matcher_of :: "(string \<Rightarrow> (string \<Rightarrow> bool) option) \<Rightarrow> string \<Rightarrow> line_matcher" where
  "matcher_of compile raw =
     \<lparr>lm_raw = raw,
      lm_regex = (if has_prefix raw ''regex:'' \<and> 6 < List.length raw then compile (drop 6 raw) else None)\<rparr>"

section \<open>Lemmas\<close>

definition tried_again :: "'w panel_deps \<Rightarrow> answer \<Rightarrow> bool" where
  "tried_again d a \<longleftrightarrow> (\<exists>e. outcome_of d a = Try_Again e)"

text \<open>What a run of answers means, with the waits that were left at its beginning.\<close>

definition result_of :: "'w panel_deps \<Rightarrow> string option list \<Rightarrow> answer list \<Rightarrow> api_error + string \<Rightarrow> bool" where
  "result_of d ws as r \<longleftrightarrow>
     as \<noteq> [] \<and> List.length as \<le> Suc (List.length ws) \<and> list_all (tried_again d) (butlast as) \<and>
     (case outcome_of d (last as) of
        Done_With b \<Rightarrow> r = Inr b
      | Give_Up e \<Rightarrow> r = Inl e
      | Try_Again e \<Rightarrow>
          (if List.length as = Suc (List.length ws) then r = Inl e
           else (\<exists>x. ws ! (List.length as - 1) = Some x \<and> r = Inl (OtherError x))))"

lemma request_once_sent:
  assumes "pd_bad_url d (pl_base c @ path) = None"
  shows "\<exists>a w. request_once d c verb path query body s =
    (a, \<lparr>pw_world = w, pw_sent = pw_sent s @ [(api_request_of d c verb path query body, a)]\<rparr>)"
  using assms by (simp add: request_once_def Let_def)

lemma result_of_Cons:
  "tried_again d a \<Longrightarrow> result_of d ws as r \<Longrightarrow> result_of d (None # ws) (a # as) r"
  by (cases as) (auto simp: result_of_def nth_Cons split: outcome.splits if_splits)

lemma result_of_one:
  assumes "case outcome_of d a of
      Done_With b \<Rightarrow> r = Inr b
    | Give_Up e \<Rightarrow> r = Inl e
    | Try_Again e \<Rightarrow> (case ws of [] \<Rightarrow> r = Inl e | Some x # _ \<Rightarrow> r = Inl (OtherError x) | None # _ \<Rightarrow> False)"
  shows "result_of d ws [a] r"
  using assms by (auto simp: result_of_def split: outcome.splits list.splits option.splits)

lemma attempts_sent:
  assumes "pd_bad_url d (pl_base c @ path) = None"
  shows "\<exists>as. pw_sent (snd (attempts d c verb path query body ws s)) =
      pw_sent s @ map (\<lambda>a. (api_request_of d c verb path query body, a)) as \<and>
    result_of d ws as (fst (attempts d c verb path query body ws s))"
proof (induction ws arbitrary: s)
  case Nil
  obtain a w where o: "request_once d c verb path query body s =
      (a, \<lparr>pw_world = w, pw_sent = pw_sent s @ [(api_request_of d c verb path query body, a)]\<rparr>)"
    using request_once_sent [OF assms] by blast
  show ?case by (rule exI [of _ "[a]"]) (auto simp: o intro!: result_of_one split: outcome.split)
next
  case (Cons v ws)
  obtain a w where o: "request_once d c verb path query body s =
      (a, \<lparr>pw_world = w, pw_sent = pw_sent s @ [(api_request_of d c verb path query body, a)]\<rparr>)"
    using request_once_sent [OF assms] by blast
  let ?s = "\<lparr>pw_world = w, pw_sent = pw_sent s @ [(api_request_of d c verb path query body, a)]\<rparr>"
  show ?case
  proof (cases "v = None \<and> tried_again d a")
    case True
    then have step: "attempts d c verb path query body (v # ws) s = attempts d c verb path query body ws ?s"
      by (auto simp: o tried_again_def)
    obtain as where "pw_sent (snd (attempts d c verb path query body ws ?s)) =
        pw_sent ?s @ map (\<lambda>a. (api_request_of d c verb path query body, a)) as"
      "result_of d ws as (fst (attempts d c verb path query body ws ?s))" using Cons.IH [of ?s] by blast
    then show ?thesis
      using True result_of_Cons unfolding step by (intro exI [of _ "a # as"]) auto
  next
    case False
    then show ?thesis
      by (intro exI [of _ "[a]"])
         (auto simp: o tried_again_def intro!: result_of_one split: outcome.split option.split)
  qed
qed

section \<open>Properties\<close>

text \<open>
  What a request does. It is sent one time or more, each time the same, with the client's token and the
  whole body; after every answer but the last one it was right to try again, and the last decides the result:
  an answer of success gives its body, one that is the client's mistake or the end of the context is final,
  and any other is the result if there are no more waits. There are at most as many attempts as waits and one
  more, and with a limit, one more than the limit.
\<close>

theorem request_attempts:
  assumes "pd_bad_url d (pl_base c @ path) = None"
  shows "\<exists>as. pw_sent (snd (request d c verb path query body s)) =
      pw_sent s @ map (\<lambda>a. (api_request_of d c verb path query body, a)) as \<and>
    result_of d (panel_backoff d c) as (fst (request d c verb path query body s)) \<and>
    (0 < pl_max_attempts c \<longrightarrow> int (List.length as) \<le> pl_max_attempts c + 1)"
proof -
  obtain as where as: "pw_sent (snd (request d c verb path query body s)) =
      pw_sent s @ map (\<lambda>a. (api_request_of d c verb path query body, a)) as"
    "result_of d (panel_backoff d c) as (fst (request d c verb path query body s))"
    using attempts_sent [OF assms] unfolding request_def by blast
  moreover have "int (List.length as) \<le> pl_max_attempts c + 1" if "0 < pl_max_attempts c"
    using as(2) that by (auto simp: result_of_def panel_backoff_def)
  ultimately show ?thesis by blast
qed






lemma get_pages_all:
  assumes "\<And>p s. fst (get_servers_paged dec d c p limit s) = Inr (pages p)"
  shows "fst (get_pages dec d c limit ps xs s) = Inr (xs @ concat (map (\<lambda>p. fst (pages p)) ps))"
proof (induction ps arbitrary: xs s)
  case (Cons p ps)
  obtain s1 where "get_servers_paged dec d c p limit s = (Inr (pages p), s1)"
    using assms [of p s] by (metis prod.collapse)
  with Cons show ?case by (cases "pages p") simp
qed simp

text \<open>
  The list of the servers is complete. If the panel answers for every page, the list has the servers of
  the first page and of every further page that the panel counts, each page's as often as it has them, in
  whatever order the pages are answered.
\<close>

theorem servers_complete:
  assumes "\<And>p s. fst (get_servers_paged dec d c p limit s) = Inr (pages p)" and "\<And>ps. mset (order ps) = mset ps"
  shows "\<exists>xs. fst (get_servers dec d c order limit s) = Inr xs \<and>
    mset xs = mset (fst (pages 0)) + \<Sum>\<^sub># (image_mset (\<lambda>p. mset (fst (pages p))) (mset (other_pages (snd (pages 0)))))"
proof -
  obtain ys m where p: "pages 0 = (ys, m)" by (cases "pages 0")
  then obtain s1 where "get_servers_paged dec d c 0 limit s = (Inr (ys, m), s1)"
    using assms(1) [of 0 s] by (metis prod.collapse)
  then have "fst (get_servers dec d c order limit s) = Inr (ys @ concat (map (\<lambda>p. fst (pages p)) (order (other_pages m))))"
    by (simp add: get_servers_def get_pages_all [OF assms(1)])
  moreover have "mset (concat (map (\<lambda>p. fst (pages p)) ps)) = \<Sum>\<^sub># (image_mset (\<lambda>p. mset (fst (pages p))) (mset ps))" for ps
    by (induction ps) simp_all
  ultimately show ?thesis using p assms(2) [of "other_pages m"] by simp
qed

text \<open>A pattern that does not compile is looked for as it is written.\<close>

lemma broken_pattern_literal:
  "compile (drop 6 raw) = None \<Longrightarrow> line_matches (matcher_of compile raw) line = contains line raw"
  by (simp add: line_matches_def matcher_of_def)

subsection \<open>Examples\<close>

text \<open>A panel that is busy for two requests, and the clients of it without and with a limit.\<close>

definition busy_panel :: "nat panel_deps" where
  "busy_panel = \<lparr>pd_version = ''1'', pd_bad_url = (\<lambda>_. None),
     pd_send = (\<lambda>q n. (if n < 2 then Answer 503 [] else Answer 200 ''ok'', Suc n)),
     pd_errors = (\<lambda>_. []), pd_waits = [None, None, None]\<rparr>"

definition some_client :: "int \<Rightarrow> panel_client" where
  "some_client n = (new_panel_client ''https://panel.test/'' [with_credentials ''id'' ''secret''])\<lparr>pl_max_attempts := n\<rparr>"

definition fresh_panel :: "nat panel" where "fresh_panel = \<lparr>pw_world = 0, pw_sent = []\<rparr>"

theorem request_attempts_witness:
  "\<exists>as. pw_sent (snd (request busy_panel (some_client 1) ''POST'' ''/activity'' [] ''x'' fresh_panel)) =
      map (\<lambda>a. (api_request_of busy_panel (some_client 1) ''POST'' ''/activity'' [] ''x'', a)) as \<and>
    result_of busy_panel (panel_backoff busy_panel (some_client 1)) as
      (fst (request busy_panel (some_client 1) ''POST'' ''/activity'' [] ''x'' fresh_panel)) \<and>
    int (List.length as) \<le> 2"
  using request_attempts [where d = busy_panel and c = "some_client 1" and verb = "''POST''" and path = "''/activity''"
      and query = "[]" and body = "''x''" and s = fresh_panel]
  by (simp add: busy_panel_def some_client_def fresh_panel_def)


text \<open>A limit of one is two requests.\<close>

lemma limit_is_of_retries:
  "List.length (pw_sent (snd (request busy_panel (some_client 1) ''GET'' ''/servers'' [] [] fresh_panel))) = 2"
  by code_simp

text \<open>An answer that redirects is tried again, too, which is no server's mistake.\<close>

lemma redirect_tried_again: "tried_again busy_panel (Answer 302 [])"
  by (simp add: tried_again_def outcome_of_def has_error_def)

text \<open>A panel with three pages.\<close>

definition paged_panel :: "nat panel_deps" where
  "paged_panel = busy_panel\<lparr>pd_send := (\<lambda>q n. (Answer 200 (snd (hd (aq_query q))), n))\<rparr>"

definition page_of :: "string \<Rightarrow> string + (string list \<times> pagination)" where
  "page_of body = Inr ([''s'' @ body], \<lparr>pg_current = 1, pg_last = 3\<rparr>)"

theorem servers_complete_witness:
  "\<exists>xs. fst (get_servers page_of paged_panel (some_client 0) rev 50 fresh_panel) = Inr xs \<and>
    mset xs = {#''s'' @ itoa 0, ''s'' @ itoa 2, ''s'' @ itoa 3#}"
proof -
  let ?pages = "\<lambda>p. ([''s'' @ itoa (int p)], \<lparr>pg_current = 1, pg_last = 3\<rparr>)"
  have "fst (get_servers_paged page_of paged_panel (some_client 0) p 50 s) = Inr (?pages p)" for p s
    by (cases "panel_backoff paged_panel (some_client 0)")
       (simp_all add: get_servers_paged_def bind_json_def get_def request_def request_once_def paged_panel_def
        busy_panel_def outcome_of_def has_error_def api_request_of_def page_of_def Let_def)
  from servers_complete [where pages = ?pages and order = rev and s = fresh_panel, OF this] show ?thesis
    by (simp add: other_pages_def upt_rec numeral_3_eq_3 add_mset_commute)
qed

end
