(* ===== verification/Config_Parser.thy ===== *)
theory Config_Parser
  imports Go_Strings Prelude
begin

text \<open>
  The configuration files of a server, \<open>src/parser/parser.go\<close> and \<open>helpers.go\<close>, with
  \<open>src/server/config_parser.go\<close>: the values that the panel wants in them, and the rewriting of text,
  properties, INI, JSON, YAML and XML files. The libraries that read and write the last four, and the JSON
  in which the panel sends the values, are parameters; the regular expressions of the code are definitions.
\<close>

section \<open>Values\<close>

datatype json_type = Jt_String | Jt_Number | Jt_Boolean | Jt_Null | Jt_Object | Jt_Array | Jt_Other

record replace_value =
  rv_value :: string
  rv_type :: json_type

record replacement =
  rp_match :: string
  rp_if :: string
  rp_with :: replace_value

record config_file =
  cf_name :: string
  cf_parser :: string
  cf_replace :: "replacement list"

text \<open>
  \<open>unescape\<close> is the library's reading of a JSON string, with its error. A value that the library cannot
  read is a panic.
\<close>

definition value_string :: "(string \<Rightarrow> string + string) \<Rightarrow> replace_value \<Rightarrow> string go" where
  "value_string unescape v =
     (case rv_type v of
        Jt_String \<Rightarrow>
          (case unescape (rv_value v) of
             Inl e \<Rightarrow> Panic (''parser: could not parse value: '' @ e)
           | Inr s \<Rightarrow> Ret s)
      | Jt_Null \<Rightarrow> Ret ''<nil>''
      | Jt_Boolean \<Rightarrow> Ret (rv_value v)
      | Jt_Number \<Rightarrow> Ret (rv_value v)
      | _ \<Rightarrow> Ret ''<invalid>'')"

subsection \<open>What the panel sends\<close>

text \<open>
  The library's lookup of a key: found with its type, not there, or another error. A replacement takes
  \<open>value\<close> where \<open>replace_with\<close> is missing.
\<close>

datatype 'a lookup = Found 'a | Key_Missing | Lookup_Error string

definition replacement_of ::
  "(string \<Rightarrow> string lookup) \<Rightarrow> (string \<Rightarrow> replace_value lookup) \<Rightarrow> string + replacement" where
  "replacement_of get_string get =
     (case get_string ''match'' of
        Key_Missing \<Rightarrow> Inl ''Key path not found''
      | Lookup_Error e \<Rightarrow> Inl e
      | Found m \<Rightarrow>
          (case get_string ''if_value'' of
             Lookup_Error e \<Rightarrow> Inl e
           | iv \<Rightarrow>
               (let if_value = (case iv of Found x \<Rightarrow> x | _ \<Rightarrow> [])
                in case get ''replace_with'' of
                     Lookup_Error e \<Rightarrow> Inl e
                   | Found v \<Rightarrow> Inr \<lparr>rp_match = m, rp_if = if_value, rp_with = v\<rparr>
                   | Key_Missing \<Rightarrow>
                       (case get ''value'' of
                          Found v \<Rightarrow> Inr \<lparr>rp_match = m, rp_if = if_value, rp_with = v\<rparr>
                        | Key_Missing \<Rightarrow> Inl ''Key path not found''
                        | Lookup_Error e \<Rightarrow> Inl e))))"

text \<open>
  \<open>doc\<close> is the object's keys with their raw text, \<open>dec\<close> reads a string and \<open>dec_list\<close> the replacements. A key
  that is missing is a nil pointer.
\<close>

definition config_file_of ::
  "(string \<Rightarrow> string + string) \<Rightarrow> (string \<Rightarrow> string + replacement list) \<Rightarrow> string + (string \<rightharpoonup> string)
     \<Rightarrow> (string + config_file) go" where
  "config_file_of dec dec_list doc =
     (case doc of
        Inl e \<Rightarrow> Ret (Inl e)
      | Inr m \<Rightarrow>
          (case m ''file'' of
             None \<Rightarrow> Panic ''nil pointer dereference''
           | Some raw \<Rightarrow>
               (case dec raw of
                  Inl e \<Rightarrow> Ret (Inl e)
                | Inr name \<Rightarrow>
                    (case m ''parser'' of
                       None \<Rightarrow> Panic ''nil pointer dereference''
                     | Some raw1 \<Rightarrow>
                         (case dec raw1 of
                            Inl e \<Rightarrow> Ret (Inl e)
                          | Inr p \<Rightarrow>
                              (case m ''replace'' of
                                 None \<Rightarrow> Panic ''nil pointer dereference''
                               | Some raw2 \<Rightarrow>
                                   Ret (Inr \<lparr>cf_name = name, cf_parser = p,
                                             cf_replace = (case dec_list raw2 of Inl _ \<Rightarrow> [] | Inr rs \<Rightarrow> rs)\<rparr>)))))))"

section \<open>Values of the daemon's own configuration\<close>

definition is_word :: "char \<Rightarrow> bool" where
  "is_word c =
     (let k = of_char c :: nat
      in (48 \<le> k \<and> k \<le> 57) \<or> (65 \<le> k \<and> k \<le> 90) \<or> k = 95 \<or> (97 \<le> k \<and> k \<le> 122))"

definition is_space_char :: "char \<Rightarrow> bool" where
  "is_space_char c = (c \<in> {CHR '' '', CHR 0x09, CHR 0x0A, CHR 0x0C, CHR 0x0D})"

definition skip_space :: "string \<Rightarrow> string" where
  "skip_space s = (case s of c # cs \<Rightarrow> if is_space_char c then cs else s | [] \<Rightarrow> [])"

text \<open>A match of \<open>{{\s?config\.([\w.-]+)\s?}}\<close> at the start of a text: the group, and the text after it.\<close>

definition config_here :: "string \<Rightarrow> (string \<times> string) option" where
  "config_here s =
     (if \<not> has_prefix s ''{{'' then None
      else (let t = skip_space (drop 2 s)
            in if \<not> has_prefix t ''config.'' then None
               else (let u = drop 7 t; in_key = (\<lambda>c. is_word c \<or> c = CHR ''.'' \<or> c = CHR ''-'');
                         key = takeWhile in_key u; v = skip_space (dropWhile in_key u)
                     in if key = [] \<or> \<not> has_prefix v ''}}'' then None else Some (key, drop 2 v))))"

fun config_find :: "string \<Rightarrow> string option" where
  "config_find [] = None"
| "config_find (c # cs) = (case config_here (c # cs) of Some (k, _) \<Rightarrow> Some k | None \<Rightarrow> config_find cs)"

text \<open>
  The template of a replacement: \<open>$name\<close> and \<open>${name}\<close> stand for a group, and \<open>$$\<close> for the sign. The only
  groups are the whole match and the first.
\<close>

definition group_text :: "string \<Rightarrow> string \<Rightarrow> string \<Rightarrow> string" where
  "group_text whole key name = (if name = ''0'' then whole else if name = ''1'' then key else [])"

function expand :: "string \<Rightarrow> string \<Rightarrow> string \<Rightarrow> string" where
  "expand whole key [] = []"
| "expand whole key (c # cs) =
     (if c \<noteq> CHR ''$'' then c # expand whole key cs
      else (case cs of
              [] \<Rightarrow> ''$''
            | d # ds \<Rightarrow>
                if d = CHR ''$'' then CHR ''$'' # expand whole key ds
                else if d = CHR ''{''
                then (let name = takeWhile is_word ds; r = dropWhile is_word ds
                      in if name \<noteq> [] \<and> has_prefix r ''}'' then group_text whole key name @ expand whole key (drop 1 r)
                         else CHR ''$'' # expand whole key cs)
                else (let name = takeWhile is_word cs
                      in if name = [] then CHR ''$'' # expand whole key cs
                         else group_text whole key name @ expand whole key (dropWhile is_word cs))))"
  by pat_completeness auto
termination
proof (relation "measure (\<lambda>(_, _, s). List.length s)", goal_cases)
  case (4 whole key c cs d ds x xa)
  have "List.length (dropWhile is_word ds) \<le> List.length ds" by (rule length_dropWhile_le)
  with 4 show ?case by simp
next
  case (7 whole key c cs d ds x)
  have "List.length (dropWhile is_word (d # ds)) \<le> List.length (d # ds)" by (rule length_dropWhile_le)
  with 7 show ?case by (simp del: dropWhile.simps)
qed simp_all

lemma config_here_shorter: "config_here s = Some (k, r) \<Longrightarrow> List.length r < List.length s"
proof -
  assume a: "config_here s = Some (k, r)"
  let ?t = "skip_space (drop 2 s)"
  let ?in = "\<lambda>c. is_word c \<or> c = CHR ''.'' \<or> c = CHR ''-''"
  have p: "has_prefix s ''{{''" and r: "r = drop 2 (skip_space (dropWhile ?in (drop 7 ?t)))"
    using a by (auto simp: config_here_def Let_def split: if_splits)
  have sk: "List.length (skip_space x) \<le> List.length x" for x by (cases x) (simp_all add: skip_space_def)
  have "List.length r \<le> List.length (skip_space (dropWhile ?in (drop 7 ?t)))" by (simp add: r)
  also have "\<dots> \<le> List.length (dropWhile ?in (drop 7 ?t))" by (rule sk)
  also have "\<dots> \<le> List.length (drop 7 ?t)" by (rule length_dropWhile_le)
  also have "\<dots> \<le> List.length ?t" by simp
  also have "\<dots> \<le> List.length s - 2" using sk [of "drop 2 s"] by simp
  also have "\<dots> < List.length s" using p by (cases s) (simp_all add: has_prefix_def)
  finally show ?thesis .
qed

function config_replace :: "string \<Rightarrow> string \<Rightarrow> string" where
  "config_replace template [] = []"
| "config_replace template (c # cs) =
     (case config_here (c # cs) of
        Some (k, r) \<Rightarrow>
          expand (take (List.length (c # cs) - List.length r) (c # cs)) k template @ config_replace template r
      | None \<Rightarrow> c # config_replace template cs)"
  by pat_completeness auto
termination
  by (relation "measure (\<lambda>(_, s). List.length s)") (auto dest!: config_here_shorter)

text \<open>
  \<open>snake\<close> is the library's, \<open>get\<close> the lookup of a path in the part of the configuration that may be asked
  for, with the value's type.
\<close>

record parse_deps =
  pp_unescape :: "string \<Rightarrow> string + string"
  pp_snake :: "string \<Rightarrow> string"
  pp_get :: "string list \<Rightarrow> (string \<times> json_type) lookup"

definition lookup_configuration_value :: "parse_deps \<Rightarrow> replacement \<Rightarrow> (string + string) go" where
  "lookup_configuration_value d r =
     (if rv_type (rp_with r) \<noteq> Jt_String \<or> config_find (rv_value (rp_with r)) = None
      then go_bind (value_string (pp_unescape d) (rp_with r)) (\<lambda>s. Ret (Inr s))
      else go_bind (value_string (pp_unescape d) (rp_with r)) (\<lambda>s.
        let path = List.map (pp_snake d) (split_char (CHR ''.'') (case config_find s of None \<Rightarrow> [] | Some k \<Rightarrow> k))
        in case pp_get d path of
             Key_Missing \<Rightarrow> Ret (Inr [])
           | Lookup_Error e \<Rightarrow> Ret (Inl e)
           | Found (m, t) \<Rightarrow>
               if t = Jt_Object \<or> t = Jt_Array then Ret (Inr s) else Ret (Inr (config_replace m s))))"

section \<open>The file\<close>

text \<open>
  A file that is read and written: the errors of reading it, of going to its start, of emptying it, and of
  writing, with how many bytes are written before that.
\<close>

record file_faults =
  ff_read :: "string option"
  ff_seek :: "string option"
  ff_truncate :: "string option"
  ff_write :: "(string \<times> nat) option"

definition store_file :: "file_faults \<Rightarrow> string \<Rightarrow> string \<Rightarrow> string \<Rightarrow> string option \<times> string" where
  "store_file ff wrap new old =
     (case ff_seek ff of
        Some e \<Rightarrow> (Some e, old)
      | None \<Rightarrow>
          (case ff_truncate ff of
             Some e \<Rightarrow> (Some e, old)
           | None \<Rightarrow>
               (case ff_write ff of
                  Some (e, n) \<Rightarrow> (Some (wrap @ e), take n new)
                | None \<Rightarrow> (None, new))))"

text \<open>
  The lines that a scanner gives, without a return at their ends. It stops at a line that does not fit into
  its buffer of 64 KiB with its end.
\<close>

definition max_token :: nat where "max_token = 65536"

definition raw_lines :: "string \<Rightarrow> string list" where
  "raw_lines s = (let ls = split_char (CHR 0x0A) s in if last ls = [] then butlast ls else ls)"

definition drop_return :: "string \<Rightarrow> string" where
  "drop_return l = (if l \<noteq> [] \<and> last l = CHR 0x0D then butlast l else l)"

definition scan_lines :: "string \<Rightarrow> string list \<times> bool" where
  "scan_lines s =
     (let ok = (\<lambda>l. List.length l < max_token)
      in (List.map drop_return (takeWhile ok (raw_lines s)), \<not> list_all ok (raw_lines s)))"

section \<open>Text files\<close>

text \<open>Every replacement whose text the line starts with writes its value.\<close>

fun line_values :: "(string \<Rightarrow> string + string) \<Rightarrow> replacement list \<Rightarrow> string \<Rightarrow> string list go" where
  "line_values unescape [] line = Ret []"
| "line_values unescape (r # rs) line =
     (if \<not> has_prefix line (rp_match r) then line_values unescape rs line
      else go_bind (value_string unescape (rp_with r)) (\<lambda>v.
        go_bind (line_values unescape rs line) (\<lambda>vs. Ret (v # vs))))"

definition text_line :: "(string \<Rightarrow> string + string) \<Rightarrow> replacement list \<Rightarrow> string \<Rightarrow> string go" where
  "text_line unescape rs line =
     go_bind (line_values unescape rs line) (\<lambda>vs. Ret ((if vs = [] then line else concat vs) @ [CHR 0x0A]))"

fun text_lines :: "(string \<Rightarrow> string + string) \<Rightarrow> replacement list \<Rightarrow> string list \<Rightarrow> string go" where
  "text_lines unescape rs [] = Ret []"
| "text_lines unescape rs (l # ls) =
     go_bind (text_line unescape rs l) (\<lambda>x. go_bind (text_lines unescape rs ls) (\<lambda>y. Ret (x @ y)))"

text \<open>A read error ends the scanner like the end of the file, after what was read.\<close>

definition write_error :: string where "write_error = ''parser: failed to write properties file to disk: ''"

definition parse_text_file :: "parse_deps \<Rightarrow> file_faults \<Rightarrow> config_file \<Rightarrow> string \<Rightarrow> (string option \<times> string) go" where
  "parse_text_file d ff f content =
     go_bind (text_lines (pp_unescape d) (cf_replace f) (fst (scan_lines content))) (\<lambda>new.
       Ret (store_file ff write_error new content))"

section \<open>Properties files\<close>

subsection \<open>\<open>strconv.QuoteToASCII\<close>\<close>

text \<open>The first character of a text in UTF-8 with its width, if it is well formed.\<close>

definition continues :: "nat \<Rightarrow> bool" where "continues b \<longleftrightarrow> 128 \<le> b \<and> b \<le> 191"

definition second_low :: "nat \<Rightarrow> nat" where
  "second_low b = (if b = 224 then 160 else if b = 240 then 144 else 128)"

definition second_high :: "nat \<Rightarrow> nat" where
  "second_high b = (if b = 237 then 159 else if b = 244 then 143 else 191)"

definition utf8_first :: "string \<Rightarrow> (nat \<times> nat) option" where
  "utf8_first s =
     (case List.map (of_char :: char \<Rightarrow> nat) (take 4 s) of
        [] \<Rightarrow> None
      | a # r \<Rightarrow>
          if a < 128 then Some (a, 1)
          else (case r of
                  [] \<Rightarrow> None
                | b # r1 \<Rightarrow>
                    if 194 \<le> a \<and> a \<le> 223
                    then (if continues b then Some ((a - 192) * 64 + (b - 128), 2) else None)
                    else if \<not> (second_low a \<le> b \<and> b \<le> second_high a) then None
                    else (case r1 of
                            [] \<Rightarrow> None
                          | c # r2 \<Rightarrow>
                              if \<not> continues c then None
                              else if 224 \<le> a \<and> a \<le> 239
                              then Some ((a - 224) * 4096 + (b - 128) * 64 + (c - 128), 3)
                              else (case r2 of
                                      [] \<Rightarrow> None
                                    | e # _ \<Rightarrow>
                                        if 240 \<le> a \<and> a \<le> 244 \<and> continues e
                                        then Some ((a - 240) * 262144 + (b - 128) * 4096 + (c - 128) * 64 + (e - 128), 4)
                                        else None))))"

definition hex_digit :: "nat \<Rightarrow> char" where
  "hex_digit n = (if n < 10 then char_of (48 + n) else char_of (87 + n))"

fun hex_width :: "nat \<Rightarrow> nat \<Rightarrow> string" where
  "hex_width 0 n = []"
| "hex_width (Suc w) n = hex_width w (n div 16) @ [hex_digit (n mod 16)]"

definition quote_char :: "nat \<Rightarrow> string" where
  "quote_char r =
     (if r = 34 \<or> r = 92 then [CHR 0x5C, char_of r]
      else if 32 \<le> r \<and> r < 127 then [char_of r]
      else if r = 7 then [CHR 0x5C, CHR ''a''] else if r = 8 then [CHR 0x5C, CHR ''b'']
      else if r = 12 then [CHR 0x5C, CHR ''f''] else if r = 10 then [CHR 0x5C, CHR ''n'']
      else if r = 13 then [CHR 0x5C, CHR ''r''] else if r = 9 then [CHR 0x5C, CHR ''t'']
      else if r = 11 then [CHR 0x5C, CHR ''v'']
      else if r < 128 then [CHR 0x5C, CHR ''x''] @ hex_width 2 r
      else if r < 65536 then [CHR 0x5C, CHR ''u''] @ hex_width 4 r
      else [CHR 0x5C, CHR ''U''] @ hex_width 8 r)"

lemma utf8_first_width: "utf8_first s = Some (r, w) \<Longrightarrow> 0 < w \<and> s \<noteq> []"
  by (auto simp: utf8_first_def split: list.splits if_splits)

function quote_body :: "string \<Rightarrow> string" where
  "quote_body [] = []"
| "quote_body (c # cs) =
     (case utf8_first (c # cs) of
        None \<Rightarrow> [CHR 0x5C, CHR ''x''] @ hex_width 2 (of_char c) @ quote_body cs
      | Some (r, w) \<Rightarrow> quote_char r @ quote_body (drop w (c # cs)))"
  by pat_completeness auto
termination
  by (relation "measure List.length") (auto dest!: utf8_first_width)

definition trim_quotes :: "string \<Rightarrow> string" where
  "trim_quotes s = (let q = (\<lambda>c. c = CHR 0x22) in rev (dropWhile q (rev (dropWhile q s))))"

definition property_value :: "string \<Rightarrow> string" where
  "property_value v = trim_quotes ([CHR 0x22] @ quote_body v @ [CHR 0x22])"

subsection \<open>The file\<close>

text \<open>The library's documents: loading one, a key's value, setting it, and the keys in order.\<close>

record 'p properties_lib =
  pr_load :: "string \<Rightarrow> string + 'p"
  pr_get :: "string \<Rightarrow> 'p \<Rightarrow> string option"
  pr_set :: "string \<Rightarrow> string \<Rightarrow> 'p \<Rightarrow> string + 'p"
  pr_keys :: "'p \<Rightarrow> string list"

text \<open>The comments before the first line with content.\<close>

definition comment_line :: "string \<Rightarrow> bool" where
  "comment_line l \<longleftrightarrow> l = [] \<or> hd l = CHR ''#''"

definition header_comments :: "string \<Rightarrow> string option \<times> string" where
  "header_comments content =
     (case scan_lines content of
        (ls, too_long) \<Rightarrow>
          (if list_all comment_line ls \<and> too_long then Some ''bufio.Scanner: token too long'' else None,
           concat (List.map (\<lambda>l. l @ [CHR 0x0A]) (takeWhile comment_line ls))))"

fun set_properties ::
  "parse_deps \<Rightarrow> 'p properties_lib \<Rightarrow> replacement list \<Rightarrow> 'p \<Rightarrow> (string + 'p) go" where
  "set_properties d lib [] p = Ret (Inr p)"
| "set_properties d lib (r # rs) p =
     go_bind (lookup_configuration_value d r) (\<lambda>x.
       case x of
         Inl e \<Rightarrow> Ret (Inl (''parser: failed to lookup configuration value: '' @ e))
       | Inr v \<Rightarrow>
           if rp_if r \<noteq> [] \<and> pr_get lib (rp_match r) p \<noteq> Some (rp_if r) then set_properties d lib rs p
           else (case pr_set lib (rp_match r) v p of
                   Inl e \<Rightarrow> Ret (Inl (''parser: failed to set replacement value: '' @ e))
                 | Inr p1 \<Rightarrow> set_properties d lib rs p1))"

definition property_lines :: "'p properties_lib \<Rightarrow> 'p \<Rightarrow> string" where
  "property_lines lib p =
     concat (List.map (\<lambda>k. case pr_get lib k p of
                        None \<Rightarrow> []
                      | Some v \<Rightarrow> k @ ''='' @ property_value v @ [CHR 0x0A]) (pr_keys lib p))"

definition parse_properties_file ::
  "parse_deps \<Rightarrow> 'p properties_lib \<Rightarrow> file_faults \<Rightarrow> config_file \<Rightarrow> string \<Rightarrow> (string option \<times> string) go" where
  "parse_properties_file d lib ff f content =
     (case ff_read ff of
        Some e \<Rightarrow> Ret (Some e, content)
      | None \<Rightarrow>
          (case header_comments content of
             (Some e, _) \<Rightarrow> Ret (Some e, content)
           | (None, header) \<Rightarrow>
               (case pr_load lib content of
                  Inl e \<Rightarrow> Ret (Some (''parser: could not load properties file for configuration update: '' @ e), content)
                | Inr p \<Rightarrow>
                    go_bind (set_properties d lib (cf_replace f) p) (\<lambda>x.
                      case x of
                        Inl e \<Rightarrow> Ret (Some e, content)
                      | Inr p1 \<Rightarrow> Ret (store_file ff write_error (header @ property_lines lib p1) content)))))"

section \<open>JSON and YAML\<close>

text \<open>
  The library's documents: a cursor \<open>'h\<close> is a place of the document, which a write at the cursor changes.
  Its errors that the code asks for are a missing path and a place that is no array.
\<close>

datatype gabs_error = Gabs_Not_Found | Gabs_Not_Array | Gabs_Other string

datatype set_value = Set_Bool bool | Set_Int int | Set_Str string | Set_Object_Array

record ('d, 'h) gabs_lib =
  gb_parse :: "string \<Rightarrow> string + 'd"
  gb_root :: 'h
  gb_set_p :: "'h \<Rightarrow> string \<Rightarrow> set_value \<Rightarrow> 'd \<Rightarrow> gabs_error option \<times> 'd"
  gb_element :: "'h \<Rightarrow> string \<Rightarrow> nat \<Rightarrow> 'd \<Rightarrow> gabs_error + 'h"
  gb_children :: "'h \<Rightarrow> string \<Rightarrow> 'd \<Rightarrow> 'h list"
  gb_exists :: "'h \<Rightarrow> string \<Rightarrow> 'd \<Rightarrow> bool"
  gb_text :: "'h \<Rightarrow> string \<Rightarrow> 'd \<Rightarrow> string"
  gb_bytes :: "'h \<Rightarrow> 'd \<Rightarrow> string"
  gb_render :: "'d \<Rightarrow> string"

text \<open>\<open>strconv.ParseBool\<close>, without its error, and \<open>strconv.Atoi\<close>.\<close>

definition parse_bool :: "string \<Rightarrow> bool" where
  "parse_bool s \<longleftrightarrow> s \<in> {''1'', ''t'', ''T'', ''TRUE'', ''true'', ''True''}"

definition atoi :: "string \<Rightarrow> int option" where
  "atoi s =
     (let neg = has_prefix s ''-''; ds = (if neg \<or> has_prefix s ''+'' then drop 1 s else s);
          n = int (digits_value ds); v = (if neg then - n else n)
      in if ds \<noteq> [] \<and> list_all is_digit ds \<and> in_i64 v then Some v else None)"

definition get_key_value :: "replacement \<Rightarrow> string \<Rightarrow> set_value" where
  "get_key_value r value =
     (if rv_type (rp_with r) = Jt_Boolean then Set_Bool (parse_bool value)
      else (case atoi value of Some n \<Rightarrow> Set_Int n | None \<Rightarrow> Set_Str value))"

text \<open>
  A path that names an element of an array: the groups of \<open>^([^\[\]]+)\[([\d]+)](\..+)?$\<close>. A group that takes
  no part is the empty text, so there are four groups whenever there is a match.
\<close>

definition array_path :: "string \<Rightarrow> (string \<times> string \<times> string) option" where
  "array_path s =
     (let plain = (\<lambda>c. c \<noteq> CHR ''['' \<and> c \<noteq> CHR '']''); name = takeWhile plain s; t = dropWhile plain s;
          ds = takeWhile is_digit (drop 1 t); u = dropWhile is_digit (drop 1 t); rest = drop 1 u
      in if name \<noteq> [] \<and> has_prefix t ''['' \<and> ds \<noteq> [] \<and> has_prefix u '']'' \<and>
            (rest = [] \<or> (hd rest = CHR ''.'' \<and> tl rest \<noteq> [] \<and> CHR 0x0A \<notin> set (tl rest)))
         then Some (name, ds, rest) else None)"

definition element_index :: "string \<Rightarrow> nat" where
  "element_index ds = min (digits_value ds) (nat max_i64)"

definition gabs_message :: "string \<Rightarrow> gabs_error \<Rightarrow> gabs_error" where
  "gabs_message msg e = (case e of Gabs_Other x \<Rightarrow> Gabs_Other (msg @ '': '' @ x) | _ \<Rightarrow> e)"

definition set_element ::
  "('d, 'h) gabs_lib \<Rightarrow> string \<Rightarrow> string \<Rightarrow> set_value \<Rightarrow> 'h \<Rightarrow> 'd \<Rightarrow> gabs_error option \<times> 'd" where
  "set_element lib path rest v h doc =
     (case gb_set_p lib h (trim_prefix rest ''.'') v doc of
        (Some e, doc1) \<Rightarrow> (Some (gabs_message (''failed to set value at config path: '' @ path) e), doc1)
      | (None, doc1) \<Rightarrow> (None, doc1))"

definition set_value_at_path ::
  "('d, 'h) gabs_lib \<Rightarrow> 'h \<Rightarrow> string \<Rightarrow> set_value \<Rightarrow> 'd \<Rightarrow> gabs_error option \<times> 'd" where
  "set_value_at_path lib c path v doc =
     (case array_path path of
        None \<Rightarrow> gb_set_p lib c path v doc
      | Some (name, ds, rest) \<Rightarrow>
          (case gb_element lib c name (element_index ds) doc of
             Inr h \<Rightarrow> set_element lib path rest v h doc
           | Inl e \<Rightarrow>
               if element_index ds \<noteq> 0 \<or> (e \<noteq> Gabs_Not_Array \<and> e \<noteq> Gabs_Not_Found)
               then (Some (gabs_message ''error while parsing array element at path'' e), doc)
               else (case gb_set_p lib c name Set_Object_Array doc of
                       (Some e1, doc1) \<Rightarrow> (Some (gabs_message ''failed to create empty array for missing element'' e1), doc1)
                     | (None, doc1) \<Rightarrow>
                         (case gb_element lib c name 0 doc1 of
                            Inl e2 \<Rightarrow> (Some (gabs_message ''failed to find array element at path'' e2), doc1)
                          | Inr h \<Rightarrow> set_element lib path rest v h doc1))))"

text \<open>\<open>compile\<close> is the library's regular expressions: whether a text matches, and its replacement.\<close>

type_synonym regexes = "string \<Rightarrow> ((string \<Rightarrow> bool) \<times> (string \<Rightarrow> string \<Rightarrow> string)) option"

definition set_at_pathway ::
  "('d, 'h) gabs_lib \<Rightarrow> regexes \<Rightarrow> replacement \<Rightarrow> 'h \<Rightarrow> string \<Rightarrow> string \<Rightarrow> 'd \<Rightarrow> gabs_error option \<times> 'd" where
  "set_at_pathway lib compile r c path value doc =
     (if rp_if r = [] then set_value_at_path lib c path (get_key_value r value) doc
      else if has_prefix (rp_if r) ''regex:''
      then (if gb_exists lib c path doc then (Some Gabs_Not_Found, doc)
            else (case compile (drop 6 (rp_if r)) of
                    None \<Rightarrow> (None, doc)
                  | Some (matches, replace) \<Rightarrow>
                      (let v = trim_quotes (gb_text lib c path doc)
                       in if matches v then set_value_at_path lib c path (Set_Str (replace v value)) doc else (None, doc))))
      else if gb_exists lib c path doc \<and> gb_bytes lib c doc \<noteq> rp_if r then (None, doc)
      else set_value_at_path lib c path (get_key_value r value) doc)"

definition trim_dots :: "string \<Rightarrow> string" where
  "trim_dots s = (let q = (\<lambda>c. c = CHR ''.'') in rev (dropWhile q (rev (dropWhile q s))))"

text \<open>The text before and after the first \<open>.*\<close>.\<close>

fun split_wildcard :: "string \<Rightarrow> string \<times> string" where
  "split_wildcard [] = ([], [])"
| "split_wildcard (c # cs) =
     (if has_prefix (c # cs) ''.*'' then ([], drop 1 cs) else (case split_wildcard cs of (a, b) \<Rightarrow> (c # a, b)))"

fun set_children ::
  "('d, 'h) gabs_lib \<Rightarrow> regexes \<Rightarrow> replacement \<Rightarrow> 'h list \<Rightarrow> string \<Rightarrow> string \<Rightarrow> 'd \<Rightarrow> gabs_error option \<times> 'd" where
  "set_children lib compile r [] path value doc = (None, doc)"
| "set_children lib compile r (h # hs) path value doc =
     (case set_at_pathway lib compile r h path value doc of
        (Some e, doc1) \<Rightarrow>
          if e = Gabs_Not_Found then set_children lib compile r hs path value doc1
          else (Some (gabs_message ''failed to set config value of array child'' e), doc1)
      | (None, doc1) \<Rightarrow> set_children lib compile r hs path value doc1)"

definition set_replacement ::
  "('d, 'h) gabs_lib \<Rightarrow> regexes \<Rightarrow> replacement \<Rightarrow> string \<Rightarrow> 'd \<Rightarrow> gabs_error option \<times> 'd" where
  "set_replacement lib compile r value doc =
     (if contains (rp_match r) ''.*''
      then (case split_wildcard (rp_match r) of
              (before, after) \<Rightarrow>
                set_children lib compile r (gb_children lib (gb_root lib) (trim_dots before) doc) (trim_dots after) value doc)
      else (case set_at_pathway lib compile r (gb_root lib) (rp_match r) value doc of
              (Some e, doc1) \<Rightarrow>
                if e = Gabs_Not_Found then (None, doc1)
                else (Some (gabs_message (''unable to set config value at pathway: '' @ rp_match r) e), doc1)
            | (None, doc1) \<Rightarrow> (None, doc1)))"

definition gabs_text :: "gabs_error \<Rightarrow> string" where
  "gabs_text e =
     (case e of Gabs_Not_Found \<Rightarrow> ''field not found'' | Gabs_Not_Array \<Rightarrow> ''not an array'' | Gabs_Other x \<Rightarrow> x)"

fun set_replacements ::
  "parse_deps \<Rightarrow> ('d, 'h) gabs_lib \<Rightarrow> regexes \<Rightarrow> replacement list \<Rightarrow> 'd \<Rightarrow> (string + 'd) go" where
  "set_replacements d lib compile [] doc = Ret (Inr doc)"
| "set_replacements d lib compile (r # rs) doc =
     go_bind (lookup_configuration_value d r) (\<lambda>x.
       case x of
         Inl e \<Rightarrow> Ret (Inl e)
       | Inr value \<Rightarrow>
           (case set_replacement lib compile r value doc of
              (Some e, _) \<Rightarrow> Ret (Inl (gabs_text e))
            | (None, doc1) \<Rightarrow> set_replacements d lib compile rs doc1))"

definition iterate_over_json ::
  "parse_deps \<Rightarrow> ('d, 'h) gabs_lib \<Rightarrow> regexes \<Rightarrow> replacement list \<Rightarrow> string \<Rightarrow> (string + 'd) go" where
  "iterate_over_json d lib compile rs bytes =
     (case gb_parse lib bytes of
        Inl e \<Rightarrow> Ret (Inl e)
      | Inr doc \<Rightarrow> set_replacements d lib compile rs doc)"

definition parse_json_file ::
  "parse_deps \<Rightarrow> ('d, 'h) gabs_lib \<Rightarrow> regexes \<Rightarrow> file_faults \<Rightarrow> config_file \<Rightarrow> string \<Rightarrow> (string option \<times> string) go" where
  "parse_json_file d lib compile ff f content =
     (case ff_read ff of
        Some e \<Rightarrow> Ret (Some e, content)
      | None \<Rightarrow>
          go_bind (iterate_over_json d lib compile (cf_replace f) content) (\<lambda>x.
            case x of
              Inl e \<Rightarrow> Ret (Some e, content)
            | Inr doc \<Rightarrow> Ret (store_file ff write_error (gb_render lib doc) content)))"

text \<open>A YAML file is read as YAML, written as JSON, changed, and written as YAML.\<close>

definition parse_yaml_file ::
  "parse_deps \<Rightarrow> ('d, 'h) gabs_lib \<Rightarrow> regexes \<Rightarrow> (string \<Rightarrow> string + string) \<Rightarrow> ('d \<Rightarrow> string + string) \<Rightarrow> file_faults
     \<Rightarrow> config_file \<Rightarrow> string \<Rightarrow> (string option \<times> string) go" where
  "parse_yaml_file d lib compile to_json to_yaml ff f content =
     (case ff_read ff of
        Some e \<Rightarrow> Ret (Some e, content)
      | None \<Rightarrow>
          (case to_json content of
             Inl e \<Rightarrow> Ret (Some e, content)
           | Inr json \<Rightarrow>
               go_bind (iterate_over_json d lib compile (cf_replace f) json) (\<lambda>x.
                 case x of
                   Inl e \<Rightarrow> Ret (Some e, content)
                 | Inr doc \<Rightarrow>
                     (case to_yaml doc of
                        Inl e \<Rightarrow> Ret (Some e, content)
                      | Inr new \<Rightarrow> Ret (store_file ff write_error new content)))))"

section \<open>INI files\<close>

text \<open>The parts of a name: a dot inside of brackets, and after the first part, is part of it.\<close>

fun ini_parts :: "string \<Rightarrow> int \<Rightarrow> string list \<Rightarrow> string \<Rightarrow> string list" where
  "ini_parts [] depth path v = path @ [v]"
| "ini_parts (c # cs) depth path v =
     (if c = CHR ''['' then ini_parts cs (depth + 1) path v
      else if c = CHR '']'' then ini_parts cs (depth - 1) path v
      else if c = CHR ''.'' \<and> \<not> (0 < depth \<or> List.length path = 1) then ini_parts cs depth (path @ [v]) []
      else ini_parts cs depth path (v @ [c]))"

definition ini_path :: "string \<Rightarrow> string list" where
  "ini_path s = ini_parts s 0 [] []"

text \<open>The library's documents: a section, which may be made, and the keys of a section.\<close>

record 'i ini_lib =
  in_load :: "string \<Rightarrow> string + 'i"
  in_section :: "string \<Rightarrow> 'i \<Rightarrow> bool"
  in_new_section :: "string \<Rightarrow> 'i \<Rightarrow> string option \<times> 'i"
  in_has_key :: "string \<Rightarrow> string \<Rightarrow> 'i \<Rightarrow> bool"
  in_set :: "string \<Rightarrow> string \<Rightarrow> string \<Rightarrow> 'i \<Rightarrow> 'i"
  in_new_key :: "string \<Rightarrow> string \<Rightarrow> string \<Rightarrow> 'i \<Rightarrow> string option \<times> 'i"
  in_render :: "'i \<Rightarrow> string"

definition ini_write :: "'i ini_lib \<Rightarrow> string \<Rightarrow> string \<Rightarrow> string \<Rightarrow> 'i \<Rightarrow> string option \<times> 'i" where
  "ini_write lib sec k v ini =
     (if in_has_key lib sec k ini then (None, in_set lib sec k v ini) else in_new_key lib sec k v ini)"

definition ini_replace :: "'i ini_lib \<Rightarrow> string list \<Rightarrow> string \<Rightarrow> 'i \<Rightarrow> string option \<times> 'i" where
  "ini_replace lib path v ini =
     (let two = List.length path = 2; k = (if two then path ! 1 else hd path); sec = (if two then hd path else [])
      in if in_section lib sec ini then ini_write lib sec k v ini
         else (case in_new_section lib (hd path) ini of
                 (Some e, ini1) \<Rightarrow> (Some e, ini1)
               | (None, ini1) \<Rightarrow> ini_write lib (hd path) k v ini1))"

fun ini_replacements :: "parse_deps \<Rightarrow> 'i ini_lib \<Rightarrow> replacement list \<Rightarrow> 'i \<Rightarrow> (string + 'i) go" where
  "ini_replacements d lib [] ini = Ret (Inr ini)"
| "ini_replacements d lib (r # rs) ini =
     go_bind (lookup_configuration_value d r) (\<lambda>x.
       case x of
         Inl e \<Rightarrow> Ret (Inl e)
       | Inr v \<Rightarrow>
           (case ini_replace lib (ini_path (rp_match r)) v ini of
              (Some e, _) \<Rightarrow> Ret (Inl e)
            | (None, ini1) \<Rightarrow> ini_replacements d lib rs ini1))"

definition parse_ini_file ::
  "parse_deps \<Rightarrow> 'i ini_lib \<Rightarrow> file_faults \<Rightarrow> config_file \<Rightarrow> string \<Rightarrow> (string option \<times> string) go" where
  "parse_ini_file d lib ff f content =
     (case (case ff_read ff of Some e \<Rightarrow> Inl e | None \<Rightarrow> in_load lib content) of
        Inl e \<Rightarrow> Ret (Some e, content)
      | Inr ini \<Rightarrow>
          go_bind (ini_replacements d lib (cf_replace f) ini) (\<lambda>x.
            case x of
              Inl e \<Rightarrow> Ret (Some e, content)
            | Inr ini1 \<Rightarrow> Ret (store_file ff [] (in_render lib ini1) content)))"

section \<open>XML files\<close>

text \<open>A value \<open>[name='text']\<close> sets an attribute: the groups of \<open>^\[([\w]+)='(.*)'\]$\<close>.\<close>

definition xml_value :: "string \<Rightarrow> (string \<times> string) option" where
  "xml_value s =
     (let name = takeWhile is_word (drop 1 s); t = dropWhile is_word (drop 1 s); mid = take (List.length t - 4) (drop 2 t)
      in if has_prefix s ''['' \<and> name \<noteq> [] \<and> 4 \<le> List.length t \<and> has_prefix t ([CHR ''='', CHR 0x27]) \<and>
            has_suffix t ([CHR 0x27, CHR '']'']) \<and> CHR 0x0A \<notin> set mid
         then Some (name, mid) else None)"

text \<open>The library's documents, with elements \<open>'h\<close>.\<close>

record ('x, 'h) xml_lib =
  xm_read :: "string \<Rightarrow> string + 'x"
  xm_root :: "'x \<Rightarrow> 'h option"
  xm_declare :: "'x \<Rightarrow> 'x"
  xm_make_root :: "string \<Rightarrow> 'x \<Rightarrow> 'x"
  xm_child :: "'h \<Rightarrow> string \<Rightarrow> 'x \<Rightarrow> 'h option"
  xm_make_child :: "'h \<Rightarrow> string \<Rightarrow> 'x \<Rightarrow> 'h \<times> 'x"
  xm_find :: "string \<Rightarrow> 'x \<Rightarrow> 'h list"
  xm_attribute :: "'h \<Rightarrow> string \<Rightarrow> string \<Rightarrow> 'x \<Rightarrow> 'x"
  xm_text :: "'h \<Rightarrow> string \<Rightarrow> 'x \<Rightarrow> 'x"
  xm_render :: "'x \<Rightarrow> string"

fun xml_structure :: "('x, 'h) xml_lib \<Rightarrow> string list \<Rightarrow> 'h \<Rightarrow> 'x \<Rightarrow> 'x" where
  "xml_structure lib [] h x = x"
| "xml_structure lib (tag # tags) h x =
     (case xm_child lib h tag x of
        Some h1 \<Rightarrow> xml_structure lib tags h1 x
      | None \<Rightarrow> (case xm_make_child lib h tag x of (h1, x1) \<Rightarrow> xml_structure lib tags h1 x1))"

definition xml_set :: "('x, 'h) xml_lib \<Rightarrow> string \<Rightarrow> 'h \<Rightarrow> 'x \<Rightarrow> 'x" where
  "xml_set lib value h x =
     (case xml_value value of Some (k, v) \<Rightarrow> xm_attribute lib h k v x | None \<Rightarrow> xm_text lib h value x)"

text \<open>
  A document without a root gets one from the first replacement. One that still has none, since the first
  replacement was not the one that is at hand, is a nil pointer.
\<close>

definition xml_replace :: "('x, 'h) xml_lib \<Rightarrow> bool \<Rightarrow> string \<Rightarrow> string \<Rightarrow> 'x \<Rightarrow> 'x go" where
  "xml_replace lib first_one m value x =
     (let parts = split_char (CHR ''.'') m;
          x1 = (if first_one \<and> xm_root lib x = None then xm_make_root lib (hd parts) x else x);
          path = ''./'' @ List.map (\<lambda>c. if c = CHR ''.'' then CHR ''/'' else c) m;
          write = (\<lambda>x2. foldl (\<lambda>y h. xml_set lib value h y) x2 (xm_find lib path x2))
      in if CHR ''*'' \<in> set path then Ret (write x1)
         else (case (xm_root lib x1, tl parts) of
                 (_, []) \<Rightarrow> Ret (write x1)
               | (None, _) \<Rightarrow> Panic ''nil pointer dereference''
               | (Some h, tags) \<Rightarrow> Ret (write (xml_structure lib tags h x1))))"

fun xml_replacements :: "parse_deps \<Rightarrow> ('x, 'h) xml_lib \<Rightarrow> bool \<Rightarrow> replacement list \<Rightarrow> 'x \<Rightarrow> (string + 'x) go" where
  "xml_replacements d lib first_one [] x = Ret (Inr x)"
| "xml_replacements d lib first_one (r # rs) x =
     go_bind (lookup_configuration_value d r) (\<lambda>v.
       case v of
         Inl e \<Rightarrow> Ret (Inl e)
       | Inr value \<Rightarrow> go_bind (xml_replace lib first_one (rp_match r) value x) (xml_replacements d lib False rs))"

definition parse_xml_file ::
  "parse_deps \<Rightarrow> ('x, 'h) xml_lib \<Rightarrow> file_faults \<Rightarrow> config_file \<Rightarrow> string \<Rightarrow> (string option \<times> string) go" where
  "parse_xml_file d lib ff f content =
     (case (case ff_read ff of Some e \<Rightarrow> Inl e | None \<Rightarrow> xm_read lib content) of
        Inl e \<Rightarrow> Ret (Some e, content)
      | Inr x \<Rightarrow>
          go_bind (xml_replacements d lib True (cf_replace f) (if xm_root lib x = None then xm_declare lib x else x)) (\<lambda>r.
            case r of
              Inl e \<Rightarrow> Ret (Some e, content)
            | Inr x1 \<Rightarrow> Ret (store_file ff [] (xm_render lib x1) content)))"

section \<open>All of them\<close>

record ('p, 'd, 'h, 'i, 'x, 'e) parse_libs =
  ps_deps :: parse_deps
  ps_properties :: "'p properties_lib"
  ps_gabs :: "('d, 'h) gabs_lib"
  ps_regexes :: regexes
  ps_to_json :: "string \<Rightarrow> string + string"
  ps_to_yaml :: "'d \<Rightarrow> string + string"
  ps_ini :: "'i ini_lib"
  ps_xml :: "('x, 'e) xml_lib"

text \<open>A parser that is not known leaves the file alone.\<close>

definition parse_file ::
  "('p, 'd, 'h, 'i, 'x, 'e) parse_libs \<Rightarrow> file_faults \<Rightarrow> config_file \<Rightarrow> string \<Rightarrow> (string option \<times> string) go" where
  "parse_file l ff f content =
     (let d = ps_deps l
      in if cf_parser f = ''properties'' then parse_properties_file d (ps_properties l) ff f content
         else if cf_parser f = ''file'' then parse_text_file d ff f content
         else if cf_parser f = ''yaml'' \<or> cf_parser f = ''yml''
         then parse_yaml_file d (ps_gabs l) (ps_regexes l) (ps_to_json l) (ps_to_yaml l) ff f content
         else if cf_parser f = ''json'' then parse_json_file d (ps_gabs l) (ps_regexes l) ff f content
         else if cf_parser f = ''ini'' then parse_ini_file d (ps_ini l) ff f content
         else if cf_parser f = ''xml'' then parse_xml_file d (ps_xml l) ff f content
         else Ret (None, content))"

text \<open>
  The files of a server's process are updated one after the other (the pool's workers have a file each);
  \<open>touch\<close> says whether a file can be opened, \<open>faults\<close> what goes wrong with it. A file that fails is passed
  over; a panic is not caught. A file that is not there is made.
\<close>

fun update_configuration_files ::
  "('p, 'd, 'h, 'i, 'x, 'e) parse_libs \<Rightarrow> (string \<Rightarrow> bool) \<Rightarrow> (string \<Rightarrow> file_faults) \<Rightarrow> config_file list
     \<Rightarrow> (string \<rightharpoonup> string) \<Rightarrow> (string \<rightharpoonup> string) go" where
  "update_configuration_files l touch faults [] files = Ret files"
| "update_configuration_files l touch faults (f # fs) files =
     (if \<not> touch (cf_name f) then update_configuration_files l touch faults fs files
      else go_bind (parse_file l (faults (cf_name f)) f (case files (cf_name f) of None \<Rightarrow> [] | Some c \<Rightarrow> c)) (\<lambda>r.
        update_configuration_files l touch faults fs (files(cf_name f \<mapsto> snd r))))"

end
