(* ===== verification/Config_Values.thy ===== *)
theory Config_Values
  imports Config_Parser
begin

text \<open>
  What the parser of configuration files does to them: which values it writes, what becomes of the lines of
  a text file, and what a failure leaves.
\<close>

section \<open>Failures\<close>

lemma store_file_error:
  "ff_write ff = None \<Longrightarrow> store_file ff w new old = (Some e, c) \<Longrightarrow> c = old"
  by (auto simp: store_file_def split: option.splits)

definition keeps_on_error :: "string \<Rightarrow> (string option \<times> string) go \<Rightarrow> bool" where
  "keeps_on_error content m \<longleftrightarrow> (\<forall>e c. m = Ret (Some e, c) \<longrightarrow> c = content)"

lemma keeps_bind:
  "(\<And>x. m = Ret x \<Longrightarrow> keeps_on_error content (f x)) \<Longrightarrow> keeps_on_error content (go_bind m f)"
  by (auto simp: keeps_on_error_def)

lemma keeps_elements:
  "keeps_on_error content (Ret (Some e, content))" "keeps_on_error content (Ret (None, c))"
  "ff_write ff = None \<Longrightarrow> keeps_on_error content (Ret (store_file ff w new content))"
  by (auto simp: keeps_on_error_def dest: store_file_error)

lemma parsers_keep:
  assumes "ff_write ff = None"
  shows "keeps_on_error content (parse_properties_file d pl ff f content)"
    and "keeps_on_error content (parse_text_file d ff f content)"
    and "keeps_on_error content (parse_json_file d gl rx ff f content)"
    and "keeps_on_error content (parse_yaml_file d gl rx tj ty ff f content)"
    and "keeps_on_error content (parse_ini_file d il ff f content)"
    and "keeps_on_error content (parse_xml_file d xl ff f content)"
  unfolding parse_properties_file_def parse_text_file_def parse_yaml_file_def parse_json_file_def
      parse_ini_file_def parse_xml_file_def
  by (auto simp: keeps_elements(1,2) keeps_elements(3) [OF assms] intro!: keeps_bind split: option.split sum.split prod.split)

text \<open>
  A file is changed whole or not at all. If rewriting a configuration file ends with an error, whatever its
  format and whatever the libraries answer, its content is what it was, unless writing itself failed.
\<close>

theorem failed_parse_keeps_file:
  assumes "parse_file l ff f content = Ret (Some e, c)" and "ff_write ff = None"
  shows "c = content"
proof -
  have "keeps_on_error content (parse_file l ff f content)"
    by (simp add: parse_file_def parsers_keep [OF assms(2)] keeps_elements(2) Let_def)
  with assms(1) show ?thesis by (simp add: keeps_on_error_def)
qed

section \<open>Text files\<close>

lemma split_char_lines:
  assumes "\<forall>l \<in> set ls. c \<notin> set l"
  shows "split_char c (concat (map (\<lambda>l. l @ [c]) ls)) = ls @ [[]]"
  using assms
proof (induction ls)
  case (Cons l ls)
  have "split_char c (l @ c # t) = l # split_char c t" if "c \<notin> set l" for l t
    using that by (induction l) (auto split: list.splits)
  with Cons show ?case by simp
qed simp

text \<open>Lines that the scanner gives as they are: short, without a return at the end.\<close>

definition plain_line :: "string \<Rightarrow> bool" where
  "plain_line l \<longleftrightarrow> CHR 0x0A \<notin> set l \<and> List.length l < max_token \<and> drop_return l = l"

definition text_of :: "string list \<Rightarrow> string" where
  "text_of ls = concat (map (\<lambda>l. l @ [CHR 0x0A]) ls)"

lemma scan_text:
  assumes "\<forall>l \<in> set ls. plain_line l"
  shows "scan_lines (text_of ls) = (ls, False)"
proof -
  have "raw_lines (text_of ls) = ls"
    using split_char_lines [of ls "CHR 0x0A"] assms by (simp add: raw_lines_def text_of_def plain_line_def Let_def)
  moreover have "takeWhile (\<lambda>l. List.length l < max_token) ls = ls"
    using assms by (simp add: plain_line_def takeWhile_eq_all_conv)
  moreover have "list_all (\<lambda>l. List.length l < max_token) ls"
    using assms by (auto simp: plain_line_def list_all_iff)
  moreover have "map drop_return ls = ls" using assms by (simp add: plain_line_def map_idI)
  ultimately show ?thesis unfolding scan_lines_def Let_def by (simp only:) simp
qed

text \<open>The value that a replacement writes.\<close>

definition written :: "(string \<Rightarrow> string + string) \<Rightarrow> replacement \<Rightarrow> string" where
  "written unescape r = (case value_string unescape (rp_with r) of Ret v \<Rightarrow> v | _ \<Rightarrow> [])"

definition new_line :: "(string \<Rightarrow> string + string) \<Rightarrow> replacement list \<Rightarrow> string \<Rightarrow> string" where
  "new_line unescape rs l =
     (let hits = filter (\<lambda>r. has_prefix l (rp_match r)) rs
      in if hits = [] then l else concat (map (written unescape) hits))"

lemma line_values_hits:
  assumes "\<forall>r \<in> set rs. returns (value_string unescape (rp_with r))"
  shows "line_values unescape rs l = Ret (map (written unescape) (filter (\<lambda>r. has_prefix l (rp_match r)) rs))"
  using assms
proof (induction rs)
  case (Cons r rs)
  then obtain v where "value_string unescape (rp_with r) = Ret v" by (auto simp: returns_iff)
  with Cons show ?case by (simp add: written_def)
qed simp

lemma text_lines_map:
  assumes "\<forall>r \<in> set rs. returns (value_string unescape (rp_with r))"
  shows "text_lines unescape rs ls = Ret (text_of (map (new_line unescape rs) ls))"
  by (induction ls) (simp_all add: text_line_def line_values_hits [OF assms] new_line_def text_of_def Let_def)

text \<open>
  What becomes of a text file. If its lines are short and end with a line feed, every line that starts with
  the text of a replacement becomes the values of all replacements it starts with, one after the other, and
  every other line stays as it is.
\<close>

theorem text_file_result:
  assumes "\<forall>l \<in> set ls. plain_line l" and "\<forall>r \<in> set (cf_replace f). returns (value_string (pp_unescape d) (rp_with r))"
    and "ff_seek ff = None" and "ff_truncate ff = None" and "ff_write ff = None"
  shows "parse_text_file d ff f (text_of ls) = Ret (None, text_of (map (new_line (pp_unescape d) (cf_replace f)) ls))"
  using assms(3-5) scan_text [OF assms(1)]
  by (simp add: parse_text_file_def text_lines_map [OF assms(2)] store_file_def)

lemma no_replacement [simp]: "new_line unescape [] l = l"
  by (simp add: new_line_def)

lemma unmatched_line_kept: "\<forall>r \<in> set rs. \<not> has_prefix l (rp_match r) \<Longrightarrow> new_line unescape rs l = l"
  by (simp add: new_line_def filter_empty_conv)

text \<open>A line of 64 KiB or more, and all after it, are lost, without an error.\<close>

lemma long_line_loses_rest:
  assumes "\<forall>l \<in> set ls. plain_line l" and "max_token \<le> List.length long" and "CHR 0x0A \<notin> set long"
    and "cf_replace f = []" and "ff_seek ff = None" and "ff_truncate ff = None" and "ff_write ff = None"
  shows "parse_text_file d ff f (text_of ls @ long @ CHR 0x0A # rest) = Ret (None, text_of ls)"
proof -
  have split: "split_char c (concat (map (\<lambda>l. l @ [c]) ls) @ l1 @ c # t) = ls @ l1 # split_char c t"
    if "\<forall>l \<in> set ls. c \<notin> set l" "c \<notin> set l1" for ls l1 t c
  proof -
    have one: "split_char c (l @ c # t) = l # split_char c t" if "c \<notin> set l" for l t
      using that by (induction l) (auto split: list.splits)
    show ?thesis using that by (induction ls) (simp_all add: one)
  qed
  have ne: "split_char (CHR 0x0A) rest \<noteq> []" by (cases rest) (auto split: list.splits)
  have "split_char (CHR 0x0A) (text_of ls @ long @ CHR 0x0A # rest) = ls @ long # split_char (CHR 0x0A) rest"
    using split [of ls "CHR 0x0A" long rest] assms(1,3) by (simp add: text_of_def plain_line_def)
  then have "raw_lines (text_of ls @ long @ CHR 0x0A # rest) =
      ls @ long # (if last (split_char (CHR 0x0A) rest) = [] then butlast (split_char (CHR 0x0A) rest)
                   else split_char (CHR 0x0A) rest)"
    using ne by (simp add: raw_lines_def Let_def butlast_append)
  then obtain us where "raw_lines (text_of ls @ long @ CHR 0x0A # rest) = ls @ long # us" by blast
  moreover have "takeWhile (\<lambda>l. List.length l < max_token) (ls @ long # us) = ls"
    using assms(1,2) by (simp add: takeWhile_append plain_line_def takeWhile_eq_all_conv [THEN iffD2])
  moreover have "map drop_return ls = ls" using assms(1) by (simp add: plain_line_def map_idI)
  ultimately have "fst (scan_lines (text_of ls @ long @ CHR 0x0A # rest)) = ls"
    by (simp add: scan_lines_def Let_def)
  then show ?thesis
    using text_lines_map [of "[]" "pp_unescape d" ls] assms(4-7)
    by (simp add: parse_text_file_def store_file_def new_line_def map_idI)
qed

section \<open>Values of the daemon's configuration\<close>

definition key_char :: "char \<Rightarrow> bool" where
  "key_char c \<longleftrightarrow> is_word c \<or> c = CHR ''.'' \<or> c = CHR ''-''"

lemma key_char_not_brace: "key_char c \<Longrightarrow> c \<noteq> CHR ''}'' \<and> \<not> is_space_char c"
  by (auto simp: key_char_def is_word_def is_space_char_def Let_def)

lemma config_here_placeholder:
  assumes "key \<noteq> []" and "\<forall>c \<in> set key. key_char c"
  shows "config_here (''{{config.'' @ key @ ''}}'' @ post) = Some (key, post)"
proof -
  let ?in = "\<lambda>c. is_word c \<or> c = CHR ''.'' \<or> c = CHR ''-''"
  have t: "takeWhile ?in (key @ ''}}'' @ post) = key" "dropWhile ?in (key @ ''}}'' @ post) = ''}}'' @ post"
    using assms(2) by (auto simp: key_char_def takeWhile_append dropWhile_append is_word_def)
  show ?thesis
    using assms(1) t
    by (simp add: config_here_def has_prefix_def skip_space_def is_space_char_def Let_def)
qed

lemma config_here_no_brace: "CHR ''{'' \<noteq> c \<Longrightarrow> config_here (c # cs) = None"
  by (auto simp: config_here_def has_prefix_def)

lemma config_find_placeholder:
  assumes "CHR ''{'' \<notin> set pre" and "key \<noteq> []" and "\<forall>c \<in> set key. key_char c"
  shows "config_find (pre @ ''{{config.'' @ key @ ''}}'' @ post) = Some key"
  using assms(1)
proof (induction pre)
  case Nil
  then show ?case using config_here_placeholder [OF assms(2,3), of post] by simp
qed (simp add: config_here_no_brace)

lemma config_replace_none: "CHR ''{'' \<notin> set s \<Longrightarrow> config_replace m s = s"
  by (induction s) (simp_all add: config_here_no_brace)

lemma expand_plain: "CHR ''$'' \<notin> set m \<Longrightarrow> expand w k m = m"
  by (induction m) auto

lemma config_replace_placeholder:
  assumes "CHR ''{'' \<notin> set pre" and "CHR ''{'' \<notin> set post" and "CHR ''$'' \<notin> set m"
    and "key \<noteq> []" and "\<forall>c \<in> set key. key_char c"
  shows "config_replace m (pre @ ''{{config.'' @ key @ ''}}'' @ post) = pre @ m @ post"
  using assms(1)
proof (induction pre)
  case Nil
  then show ?case
    using config_here_placeholder [OF assms(4,5), of post] assms(2,3) by (simp add: expand_plain config_replace_none)
qed (simp add: config_here_no_brace)

text \<open>
  A value of the daemon's configuration is put in. In a text with one \<open>{{config.key}}\<close>, it and nothing else is
  replaced by the value of the key, if the configuration has it and it is no object or list.
\<close>

theorem lookup_substitutes:
  assumes "rv_type (rp_with r) = Jt_String" and "rv_value (rp_with r) = pre @ ''{{config.'' @ key @ ''}}'' @ post"
    and "pp_unescape d (rv_value (rp_with r)) = Inr (rv_value (rp_with r))"
    and "pp_get d (map (pp_snake d) (split_char (CHR ''.'') key)) = Found (m, t)" and "t \<noteq> Jt_Object" and "t \<noteq> Jt_Array"
    and "CHR ''{'' \<notin> set pre" and "CHR ''{'' \<notin> set post" and "CHR ''$'' \<notin> set m"
    and "key \<noteq> []" and "\<forall>c \<in> set key. key_char c"
  shows "lookup_configuration_value d r = Ret (Inr (pre @ m @ post))"
proof -
  have v: "value_string (pp_unescape d) (rp_with r) = Ret (pre @ ''{{config.'' @ key @ ''}}'' @ post)"
    using assms(1-3) by (simp add: value_string_def)
  show ?thesis
    unfolding lookup_configuration_value_def v go_bind.simps assms(2) Let_def
      config_find_placeholder [OF assms(7,10,11)] option.case assms(4) lookup.case prod.case
      config_replace_placeholder [OF assms(7,8,9,10,11)]
    using assms(1,5,6) by simp
qed

text \<open>A key that the configuration does not have makes the value empty, and does not keep it.\<close>

lemma missing_key_erases:
  assumes "rv_type (rp_with r) = Jt_String" and "rv_value (rp_with r) = pre @ ''{{config.'' @ key @ ''}}'' @ post"
    and "pp_unescape d (rv_value (rp_with r)) = Inr (rv_value (rp_with r))"
    and "pp_get d (map (pp_snake d) (split_char (CHR ''.'') key)) = Key_Missing"
    and "CHR ''{'' \<notin> set pre" and "key \<noteq> []" and "\<forall>c \<in> set key. key_char c"
  shows "lookup_configuration_value d r = Ret (Inr [])"
proof -
  have v: "value_string (pp_unescape d) (rp_with r) = Ret (pre @ ''{{config.'' @ key @ ''}}'' @ post)"
    using assms(1-3) by (simp add: value_string_def)
  show ?thesis
    unfolding lookup_configuration_value_def v go_bind.simps assms(2) Let_def
      config_find_placeholder [OF assms(5,6,7)] option.case assms(4) lookup.case
    using assms(1) by simp
qed

section \<open>Properties\<close>

definition plain_char :: "char \<Rightarrow> bool" where
  "plain_char c \<longleftrightarrow> 32 \<le> (of_char c :: nat) \<and> (of_char c :: nat) < 127 \<and> c \<noteq> CHR 0x22 \<and> c \<noteq> CHR 0x5C"

lemma of_char_eq: "(of_char c :: nat) = of_char d \<longleftrightarrow> c = d"
  by (metis char_of_char)

lemma utf8_first_ascii: "(of_char c :: nat) < 128 \<Longrightarrow> utf8_first (c # cs) = Some (of_char c, 1)"
  by (simp add: utf8_first_def)

lemma quote_body_plain: "\<forall>c \<in> set s. plain_char c \<Longrightarrow> quote_body s = s"
proof (induction s)
  case (Cons c s)
  have "(of_char c :: nat) \<noteq> 34" "(of_char c :: nat) \<noteq> 92"
    using Cons.prems of_char_eq [of c "CHR 0x22"] of_char_eq [of c "CHR 0x5C"] by (auto simp: plain_char_def)
  with Cons show ?case by (auto simp: utf8_first_ascii quote_char_def plain_char_def)
qed simp

lemma no_quotes_to_drop: "CHR 0x22 \<notin> set s \<Longrightarrow> dropWhile (\<lambda>c. c = CHR 0x22) s = s"
  by (cases s) auto

lemma trim_quotes_plain:
  assumes "CHR 0x22 \<notin> set s"
  shows "trim_quotes ([CHR 0x22] @ s @ [CHR 0x22]) = s"
proof (cases "s = []")
  case False
  then have "dropWhile (\<lambda>c. c = CHR 0x22) (s @ [CHR 0x22]) = s @ [CHR 0x22]" using assms by (cases s) auto
  then show ?thesis using assms by (simp add: trim_quotes_def no_quotes_to_drop Let_def)
qed (simp add: trim_quotes_def)

text \<open>A value of printable characters without quotes and backslashes is written as it is.\<close>

lemma property_value_plain: "\<forall>c \<in> set v. plain_char c \<Longrightarrow> property_value v = v"
proof -
  assume v: "\<forall>c \<in> set v. plain_char c"
  then have "CHR 0x22 \<notin> set v" by (auto simp: plain_char_def)
  then show "property_value v = v" unfolding property_value_def quote_body_plain [OF v] by (rule trim_quotes_plain)
qed

text \<open>
  A value that ends in a quote is written with a backslash at the end, which makes a reader take the next line
  for a part of it.
\<close>

lemma quoted_value_continues:
  "property_value ''Hello'' = ''Hello''"
  "property_value ([CHR 0x22] @ ''Hello'' @ [CHR 0x22]) = [CHR 0x5C, CHR 0x22] @ ''Hello'' @ [CHR 0x5C]"
  by code_simp+

section \<open>Values at a path\<close>

text \<open>A pattern never changes a value that is there, and looks for its text where there is none.\<close>

lemma pattern_needs_absence:
  "has_prefix (rp_if r) ''regex:'' \<Longrightarrow> gb_exists lib c path doc \<Longrightarrow>
     set_at_pathway lib compile r c path value doc = (Some Gabs_Not_Found, doc)"
  by (auto simp: set_at_pathway_def has_prefix_def)

text \<open>A value to look for is compared with the whole document that the search began in.\<close>

lemma if_value_compares_document:
  "rp_if r \<noteq> [] \<Longrightarrow> \<not> has_prefix (rp_if r) ''regex:'' \<Longrightarrow> gb_exists lib c path doc \<Longrightarrow> gb_bytes lib c doc \<noteq> rp_if r \<Longrightarrow>
     set_at_pathway lib compile r c path value doc = (None, doc)"
  by (simp add: set_at_pathway_def)

text \<open>An element of an array is set at the empty path of it.\<close>

lemma element_set_at_empty_path:
  assumes "array_path path = Some (name, ds, [])" and "gb_element lib c name (element_index ds) doc = Inr h"
    and "gb_set_p lib h [] v doc = (None, doc1)"
  shows "set_value_at_path lib c path v doc = (None, doc1)"
  using assms by (simp add: set_value_at_path_def set_element_def trim_prefix_def has_prefix_def)

section \<open>Names in INI files\<close>

lemma ini_parts_inside:
  "CHR ''['' \<notin> set s \<Longrightarrow> CHR '']'' \<notin> set s \<Longrightarrow> 0 < depth \<or> List.length path = 1 \<Longrightarrow>
     ini_parts (s @ t) depth path v = ini_parts t depth path (v @ s)"
  by (induction s arbitrary: v) auto

text \<open>
  A section in brackets may have dots in its name: what comes after it and a dot is the key, dots included.
\<close>

theorem ini_section_in_brackets:
  assumes "\<forall>c \<in> {CHR ''['', CHR '']''}. c \<notin> set s \<and> c \<notin> set k"
  shows "ini_path (''['' @ s @ ''].'' @ k) = [s, k]"
proof -
  have "ini_path (''['' @ s @ ''].'' @ k) = ini_parts (s @ ''].'' @ k) 1 [] []" by (simp add: ini_path_def)
  also have "\<dots> = ini_parts (''].'' @ k) 1 [] s" using ini_parts_inside [of s 1 "[]" "''].'' @ k" "[]"] assms by simp
  also have "\<dots> = ini_parts (k @ []) 0 [s] []" by simp
  also have "\<dots> = [s, k]" using ini_parts_inside [of k 0 "[s]" "[]" "[]"] assms by simp
  finally show ?thesis .
qed

lemma ini_path_lengths: "List.length (ini_path s) \<in> {1, 2}"
proof -
  have "List.length path \<le> 1 \<Longrightarrow> List.length (ini_parts s depth path v) \<in> {1, 2}" for path depth v
    by (induction s depth path v rule: ini_parts.induct) (auto simp: le_Suc_eq)
  then show ?thesis by (simp add: ini_path_def)
qed

section \<open>Examples\<close>

definition example_value :: "string \<Rightarrow> replacement" where
  "example_value v = \<lparr>rp_match = ''bind='', rp_if = [], rp_with = \<lparr>rv_value = v, rv_type = Jt_String\<rparr>\<rparr>"

definition example_deps :: parse_deps where
  "example_deps = \<lparr>pp_unescape = Inr, pp_snake = (\<lambda>s. s),
     pp_get = (\<lambda>p. if p = [''docker'', ''interface''] then Found (''172.18.0.1'', Jt_String) else Key_Missing)\<rparr>"

definition no_faults :: file_faults where
  "no_faults = \<lparr>ff_read = None, ff_seek = None, ff_truncate = None, ff_write = None\<rparr>"

theorem lookup_substitutes_witness:
  "lookup_configuration_value example_deps (example_value ''tcp://{{config.docker.interface}}:25565'') =
     Ret (Inr (''tcp://'' @ ''172.18.0.1'' @ '':25565''))"
  by (rule lookup_substitutes [where key = "''docker.interface''" and t = Jt_String])
     (simp_all add: example_value_def example_deps_def key_char_def is_word_def Let_def)

theorem text_file_result_witness:
  "parse_text_file example_deps no_faults
     \<lparr>cf_name = ''a.txt'', cf_parser = ''file'', cf_replace = [example_value ''bind=x'', example_value ''!'']\<rparr>
     (text_of [''port=1'', ''bind=y'']) = Ret (None, text_of [''port=1'', ''bind=x!''])"
  using text_file_result [of "[''port=1'', ''bind=y'']"
      "\<lparr>cf_name = ''a.txt'', cf_parser = ''file'', cf_replace = [example_value ''bind=x'', example_value ''!'']\<rparr>"
      example_deps no_faults]
  by (simp add: plain_line_def drop_return_def max_token_def no_faults_def example_value_def example_deps_def
      value_string_def new_line_def written_def has_prefix_def Let_def)

text \<open>An INI library that cannot read anything.\<close>

definition broken_libs :: "(unit, unit, unit, unit, unit, unit) parse_libs" where
  "broken_libs =
     \<lparr>ps_deps = example_deps,
      ps_properties = \<lparr>pr_load = (\<lambda>_. Inr ()), pr_get = (\<lambda>_ _. None), pr_set = (\<lambda>_ _ p. Inr p), pr_keys = (\<lambda>_. [])\<rparr>,
      ps_gabs = \<lparr>gb_parse = (\<lambda>_. Inl ''bad''), gb_root = (), gb_set_p = (\<lambda>_ _ _ d. (None, d)), gb_element = (\<lambda>_ _ _ _. Inr ()),
        gb_children = (\<lambda>_ _ _. []), gb_exists = (\<lambda>_ _ _. False), gb_text = (\<lambda>_ _ _. []), gb_bytes = (\<lambda>_ _. []),
        gb_render = (\<lambda>_. [])\<rparr>,
      ps_regexes = (\<lambda>_. None), ps_to_json = Inr, ps_to_yaml = (\<lambda>_. Inr []),
      ps_ini = \<lparr>in_load = (\<lambda>_. Inl ''bad''), in_section = (\<lambda>_ _. True), in_new_section = (\<lambda>_ i. (None, i)),
        in_has_key = (\<lambda>_ _ _. True), in_set = (\<lambda>_ _ _ i. i), in_new_key = (\<lambda>_ _ _ i. (None, i)), in_render = (\<lambda>_. [])\<rparr>,
      ps_xml = \<lparr>xm_read = (\<lambda>_. Inl ''bad''), xm_root = (\<lambda>_. None), xm_declare = (\<lambda>x. x), xm_make_root = (\<lambda>_ x. x),
        xm_child = (\<lambda>_ _ _. None), xm_make_child = (\<lambda>_ _ x. ((), x)), xm_find = (\<lambda>_ _. []),
        xm_attribute = (\<lambda>_ _ _ x. x), xm_text = (\<lambda>_ _ x. x), xm_render = (\<lambda>_. [])\<rparr>\<rparr>"

definition example_ini :: config_file where
  "example_ini = \<lparr>cf_name = ''a.ini'', cf_parser = ''ini'', cf_replace = []\<rparr>"

theorem failed_parse_keeps_file_witness:
  "\<exists>e c. parse_file broken_libs no_faults example_ini ''x'' = Ret (Some e, c) \<and> c = ''x''"
proof -
  have "parse_file broken_libs no_faults example_ini ''x'' = Ret (Some ''bad'', ''x'')"
    by (simp add: parse_file_def broken_libs_def example_ini_def parse_ini_file_def no_faults_def)
  from failed_parse_keeps_file [OF this] this show ?thesis by (simp add: no_faults_def)
qed

theorem ini_section_in_brackets_witness: "ini_path ''[a.b].c.d'' = [''a.b'', ''c.d'']"
  using ini_section_in_brackets [of "''a.b''" "''c.d''"] by simp

text \<open>Two replacements of one line stand in it one after the other; a text file has no values of the daemon's.\<close>

lemma text_file_keeps_placeholder:
  "written (pp_unescape example_deps) (example_value ''{{config.docker.interface}}'') = ''{{config.docker.interface}}''"
  by (simp add: written_def value_string_def example_value_def example_deps_def)

end
