(* ===== verification/Activity_Cron.thy ===== *)
theory Activity_Cron
  imports Sync_Primitives Go_Strings "HOL-Library.Sublist"
begin

text \<open>
  The activity log on its way to the panel, \<open>src/internal/cron/activity_cron.go\<close> and \<open>sftp_cron.go\<close> with
  \<open>src/internal/models/activity.go\<close>: two jobs take the records from the database, send them, and delete what
  they have sent; that of SFTP merges the records of a minute. The database and the panel are functions of a
  world; what is sent and deleted is recorded.
\<close>

section \<open>Activity\<close>

text \<open>
  What the metadata has under a key: a list, a list that is nil, or something else. The files of an SFTP
  event are paths or moves.
\<close>

datatype meta_item = Mi_Path string | Mi_Move string string | Mi_Other string

datatype meta_value = Meta_List "meta_item list" | Meta_Nil | Meta_Other string

record activity =
  ac_id :: int
  ac_user :: "string option"
  ac_server :: string
  ac_event :: string
  ac_meta :: "string \<rightharpoonup> meta_value"
  ac_ip :: string
  ac_time :: time

definition set_user :: "string \<Rightarrow> activity \<Rightarrow> activity" where
  "set_user u a = a\<lparr>ac_user := (if u = [] then None else Some u)\<rparr>"

text \<open>
  \<open>BeforeCreate\<close>: the port is removed from an address that has one, and a time that was not set is the
  present.
\<close>

definition zero_time :: time where "zero_time = - 62135596800 * nanosecond_per_second"

definition before_create :: "time \<Rightarrow> activity \<Rightarrow> activity" where
  "before_create now a =
     a\<lparr>ac_ip := (case split_host_port (trim_space (ac_ip a)) of Some (h, _) \<Rightarrow> h | None \<Rightarrow> ac_ip a),
       ac_time := (if ac_time a = zero_time then now else ac_time a)\<rparr>"

section \<open>Who writes records\<close>

record request_activity =
  ra_server :: string
  ra_user :: string
  ra_ip :: string

definition new_request_activity :: "string \<Rightarrow> string \<Rightarrow> string \<Rightarrow> request_activity" where
  "new_request_activity server user ip = \<lparr>ra_server = server, ra_user = user, ra_ip = ip\<rparr>"

definition request_user :: "string \<Rightarrow> request_activity \<Rightarrow> request_activity" where
  "request_user u r = r\<lparr>ra_user := u\<rparr>"

definition request_event :: "string \<Rightarrow> (string \<rightharpoonup> meta_value) \<Rightarrow> request_activity \<Rightarrow> activity" where
  "request_event e meta r =
     set_user (ra_user r)
       \<lparr>ac_id = 0, ac_user = None, ac_server = ra_server r, ac_event = e, ac_meta = meta, ac_ip = ra_ip r,
        ac_time = zero_time\<rparr>"

text \<open>The identifier is given by the database; an error is not seen by the caller.\<close>

definition create_record :: "(activity \<Rightarrow> 'w \<Rightarrow> string option \<times> 'w) \<Rightarrow> time \<Rightarrow> activity \<Rightarrow> 'w \<Rightarrow> string option \<times> 'w" where
  "create_record store now a = store (before_create now a)"

definition save_request_activity ::
  "(activity \<Rightarrow> 'w \<Rightarrow> string option \<times> 'w) \<Rightarrow> time \<Rightarrow> request_activity \<Rightarrow> string \<Rightarrow> (string \<rightharpoonup> meta_value) \<Rightarrow> 'w \<Rightarrow> 'w" where
  "save_request_activity store now r e meta w = snd (create_record store now (request_event e meta r) w)"

definition sftp_metadata :: "string \<Rightarrow> string \<Rightarrow> (string \<rightharpoonup> meta_value)" where
  "sftp_metadata entity target =
     [''files'' \<mapsto> Meta_List [if target = [] then Mi_Path entity else Mi_Move entity target]]"

definition sftp_log ::
  "(activity \<Rightarrow> 'w \<Rightarrow> string option \<times> 'w) \<Rightarrow> time \<Rightarrow> request_activity \<Rightarrow> string \<Rightarrow> string \<Rightarrow> string \<Rightarrow> 'w \<Rightarrow> string option \<times> 'w" where
  "sftp_log store now r e entity target = create_record store now (request_event e (sftp_metadata entity target) r)"

text \<open>The address of a record is what is before the port, and the brackets are gone.\<close>

lemma stored_address:
  "split_host_port (trim_space (ra_ip r)) = Some (h, p) \<Longrightarrow> ac_ip (before_create now (request_event e meta r)) = h"
  by (simp add: before_create_def request_event_def set_user_def)

lemma stored_addresses:
  "ac_ip (before_create 5 (request_event ''e'' Map.empty (new_request_activity ''s'' ''u'' ''203.0.113.9:4711''))) = ''203.0.113.9''"
  "ac_ip (before_create 5 (request_event ''e'' Map.empty (new_request_activity ''s'' ''u'' ''[2001:db8::1]:4711''))) = ''2001:db8::1''"
  "ac_ip (before_create 5 (request_event ''e'' Map.empty (new_request_activity ''s'' ''u'' ''2001:db8::1''))) = ''2001:db8::1''"
  by code_simp+

section \<open>Merging\<close>

text \<open>The key has the minute of the timestamp; the times of the database are UTC.\<close>

record map_key =
  mk_user :: string
  mk_server :: string
  mk_ip :: string
  mk_event :: string
  mk_minute :: int

definition nanoseconds_per_minute :: int where "nanoseconds_per_minute = 60 * nanosecond_per_second"

definition activity_key :: "activity \<Rightarrow> map_key" where
  "activity_key a =
     \<lparr>mk_user = (case ac_user a of None \<Rightarrow> [] | Some u \<Rightarrow> u), mk_server = ac_server a, mk_ip = ac_ip a,
      mk_event = ac_event a, mk_minute = ac_time a div nanoseconds_per_minute\<rparr>"

text \<open>The map is a list of its entries, whose order has no meaning in the code.\<close>

record event_map =
  em_max :: int
  em_ids :: "int list"
  em_map :: "(map_key \<times> activity) list"

definition for_activity :: "activity \<Rightarrow> event_map \<Rightarrow> activity option \<times> event_map" where
  "for_activity a em =
     (case map_of (em_map em) (activity_key a) of
        Some v \<Rightarrow> (Some v, em)
      | None \<Rightarrow>
          if em_max em \<le> int (List.length (em_map em)) then (None, em)
          else (let v = a\<lparr>ac_meta := [''files'' \<mapsto> Meta_List []]\<rparr>
                in (Some v, em\<lparr>em_map := em_map em @ [(activity_key a, v)]\<rparr>)))"

definition files_of :: "activity \<Rightarrow> meta_item list" where
  "files_of a = (case ac_meta a ''files'' of Some (Meta_List fs) \<Rightarrow> fs | _ \<Rightarrow> [])"

definition put_entry :: "map_key \<Rightarrow> activity \<Rightarrow> (map_key \<times> activity) list \<Rightarrow> (map_key \<times> activity) list" where
  "put_entry k v = List.map (\<lambda>(k1, v1). if k1 = k then (k1, v) else (k1, v1))"

definition push_activity :: "activity \<Rightarrow> event_map \<Rightarrow> event_map" where
  "push_activity a em =
     (case for_activity a em of
        (None, em1) \<Rightarrow> em1
      | (Some m, em1) \<Rightarrow>
          (let m1 = (if ac_time a < ac_time m then m\<lparr>ac_time := ac_time a\<rparr> else m);
               m2 = (case ac_meta a ''files'' of
                       Some (Meta_List fs) \<Rightarrow> m1\<lparr>ac_meta := (ac_meta m1)(''files'' \<mapsto> Meta_List (files_of m1 @ fs))\<rparr>
                     | _ \<Rightarrow> m1)
           in em1\<lparr>em_ids := em_ids em1 @ [ac_id a], em_map := put_entry (activity_key a) m2 (em_map em1)\<rparr>))"

definition push_all :: "activity list \<Rightarrow> event_map \<Rightarrow> event_map" where
  "push_all as em = foldl (\<lambda>e a. push_activity a e) em as"

definition elements :: "event_map \<Rightarrow> activity list" where
  "elements em = List.map snd (em_map em)"

section \<open>The jobs\<close>

text \<open>What was found, sent and deleted, with the error.\<close>

datatype cron_call = Cc_Fetch "activity list" | Cc_Send "activity list" "string option" | Cc_Delete "int list" "string option"

record 'w cron_deps =
  cd_fetch_sftp :: "nat \<Rightarrow> int \<Rightarrow> 'w \<Rightarrow> (string + activity list) \<times> 'w"
  cd_fetch_other :: "int \<Rightarrow> 'w \<Rightarrow> (string + activity list) \<times> 'w"
  cd_send :: "activity list \<Rightarrow> 'w \<Rightarrow> string option \<times> 'w"
  cd_delete :: "int list \<Rightarrow> 'w \<Rightarrow> string option \<times> 'w"
  cd_valid_ip :: "string \<Rightarrow> bool"

record 'w cron =
  cw_world :: 'w
  cw_calls :: "cron_call list"
  cw_running :: bool

definition cron_fetch ::
  "('w \<Rightarrow> (string + activity list) \<times> 'w) \<Rightarrow> 'w cron \<Rightarrow> (string + activity list) \<times> 'w cron" where
  "cron_fetch q s =
     (case q (cw_world s) of
        (Inl e, w1) \<Rightarrow> (Inl e, s\<lparr>cw_world := w1\<rparr>)
      | (Inr as, w1) \<Rightarrow> (Inr as, s\<lparr>cw_world := w1, cw_calls := cw_calls s @ [Cc_Fetch as]\<rparr>))"

definition cron_send :: "'w cron_deps \<Rightarrow> activity list \<Rightarrow> 'w cron \<Rightarrow> string option \<times> 'w cron" where
  "cron_send d as s =
     (let r = cd_send d as (cw_world s) in (fst r, s\<lparr>cw_world := snd r, cw_calls := cw_calls s @ [Cc_Send as (fst r)]\<rparr>))"

definition cron_delete :: "'w cron_deps \<Rightarrow> int list \<Rightarrow> 'w cron \<Rightarrow> string option \<times> 'w cron" where
  "cron_delete d ids s =
     (let r = cd_delete d ids (cw_world s) in (fst r, s\<lparr>cw_world := snd r, cw_calls := cw_calls s @ [Cc_Delete ids (fst r)]\<rparr>))"

definition chunk_size :: nat where "chunk_size = 32000"

function delete_chunks :: "'w cron_deps \<Rightarrow> int list \<Rightarrow> 'w cron \<Rightarrow> string option \<times> 'w cron" where
  "delete_chunks d ids s =
     (if ids = [] then (None, s)
      else (case cron_delete d (take chunk_size ids) s of
              (Some e, s1) \<Rightarrow> (Some e, s1)
            | (None, s1) \<Rightarrow> delete_chunks d (drop chunk_size ids) s1))"
  by pat_completeness auto
termination
  by (relation "measure (\<lambda>(_, ids, _). List.length ids)") (auto simp: chunk_size_def)

declare delete_chunks.simps [simp del]

text \<open>A job that is running is not started again.\<close>

definition while_running :: "('w cron \<Rightarrow> 'r \<times> 'w cron) \<Rightarrow> 'r \<Rightarrow> 'w cron \<Rightarrow> 'r \<times> 'w cron" where
  "while_running m busy s =
     (case swap_if True (cw_running s) of
        (False, _) \<Rightarrow> (busy, s)
      | (True, flag) \<Rightarrow> (let r = m (s\<lparr>cw_running := flag\<rparr>) in (fst r, (snd r)\<lparr>cw_running := False\<rparr>)))"

definition err_cron_running :: string where "err_cron_running = ''cron: job already running''"

subsection \<open>Activity\<close>

definition send_activity :: "'w cron_deps \<Rightarrow> int \<Rightarrow> 'w cron \<Rightarrow> string option \<times> 'w cron" where
  "send_activity d limit s =
     (case cron_fetch (cd_fetch_other d limit) s of
        (Inl e, s1) \<Rightarrow> (Some e, s1)
      | (Inr as, s1) \<Rightarrow>
          (let bad = List.map ac_id (filter (\<lambda>a. \<not> cd_valid_ip d (ac_ip a)) as);
               good = filter (\<lambda>a. cd_valid_ip d (ac_ip a)) as
           in if as = [] then (None, s1)
              else (case (if bad \<noteq> [] then cron_delete d bad s1 else (None, s1)) of
                      (Some e, s2) \<Rightarrow> (Some e, s2)
                    | (None, s2) \<Rightarrow>
                        if good = [] then (None, s2)
                        else (case cron_send d good s2 of
                                (Some e, s3) \<Rightarrow> (Some (''cron: failed to send activity events to Panel: '' @ e), s3)
                              | (None, s3) \<Rightarrow> delete_chunks d (List.map ac_id good) s3))))"

definition activity_run :: "'w cron_deps \<Rightarrow> int \<Rightarrow> 'w cron \<Rightarrow> string option \<times> 'w cron" where
  "activity_run d limit = while_running (send_activity d limit) (Some err_cron_running)"

subsection \<open>SFTP\<close>

text \<open>
  The pages of the database are read while they have records that are taken. The number is how many pages are
  followed; \<open>None\<close> is a run that needs more.
\<close>

fun read_pages ::
  "nat \<Rightarrow> 'w cron_deps \<Rightarrow> int \<Rightarrow> nat \<Rightarrow> activity list \<Rightarrow> event_map \<Rightarrow> 'w cron \<Rightarrow> (string + event_map) option \<times> 'w cron" where
  "read_pages 0 d limit offset as em s = (None, s)"
| "read_pages (Suc n) d limit offset as em s =
     (if as = [] then (Some (Inr em), s)
      else (let em1 = push_all as em
            in if List.length (em_ids em) < List.length (em_ids em1)
               then (case cron_fetch (cd_fetch_sftp d offset limit) s of
                       (Inl e, s1) \<Rightarrow> (Some (Inl e), s1)
                     | (Inr as1, s1) \<Rightarrow> read_pages n d limit (offset + List.length as1) as1 em1 s1)
               else (Some (Inr em1), s)))"

definition empty_events :: "int \<Rightarrow> event_map" where
  "empty_events limit = \<lparr>em_max = limit, em_ids = [], em_map = []\<rparr>"

definition send_sftp :: "nat \<Rightarrow> 'w cron_deps \<Rightarrow> int \<Rightarrow> 'w cron \<Rightarrow> string option option \<times> 'w cron" where
  "send_sftp n d limit s =
     (case cron_fetch (cd_fetch_sftp d 0 limit) s of
        (Inl e, s0) \<Rightarrow> (Some (Some e), s0)
      | (Inr as, s0) \<Rightarrow>
          (case read_pages n d limit (List.length as) as (empty_events limit) s0 of
             (None, s1) \<Rightarrow> (None, s1)
           | (Some (Inl e), s1) \<Rightarrow> (Some (Some e), s1)
           | (Some (Inr em), s1) \<Rightarrow>
               if em_map em = [] then (Some None, s1)
               else (case cron_send d (elements em) s1 of
                       (Some e, s2) \<Rightarrow> (Some (Some (''failed to send sftp activity logs to Panel: '' @ e)), s2)
                     | (None, s2) \<Rightarrow> map_prod Some id (delete_chunks d (em_ids em) s2))))"

definition sftp_run :: "nat \<Rightarrow> 'w cron_deps \<Rightarrow> int \<Rightarrow> 'w cron \<Rightarrow> string option option \<times> 'w cron" where
  "sftp_run n d limit = while_running (send_sftp n d limit) (Some (Some err_cron_running))"


subsection \<open>The schedule\<close>

text \<open>
  The two jobs at their interval, once in the life of the program. \<open>tz\<close> says whether the time zone is known;
  a failure leaves the flag set.
\<close>

definition scheduler :: "(string \<Rightarrow> string option) \<Rightarrow> string \<Rightarrow> int \<Rightarrow> bool \<Rightarrow> (string + (string \<times> duration) list) \<times> bool" where
  "scheduler tz zone seconds started =
     (case swap_if True started of
        (False, b) \<Rightarrow> (Inl ''cron: cannot call scheduler more than once in application lifecycle'', b)
      | (True, b) \<Rightarrow>
          (case tz zone of
             Some e \<Rightarrow> (Inl (''cron: failed to parse configured system timezone: '' @ e), b)
           | None \<Rightarrow>
               (let interval = wrap64 (seconds * nanosecond_per_second)
                in (Inr [(''activity'', interval), (''sftp'', interval)], b))))"

lemma scheduled_once:
  "snd (scheduler tz zone n b)" "\<exists>e. fst (scheduler tz zone n True) = Inl e"
  by (auto simp: scheduler_def swap_if_def Let_def split: option.split)

section \<open>What the merging keeps\<close>

definition files_with :: "map_key \<Rightarrow> activity list \<Rightarrow> meta_item list" where
  "files_with k acc = concat (List.map files_of (filter (\<lambda>a. activity_key a = k) acc))"

definition first_time :: "map_key \<Rightarrow> activity list \<Rightarrow> time" where
  "first_time k acc = Min (ac_time ` {a \<in> set acc. activity_key a = k})"

text \<open>The entry of a key stands for the records \<open>acc\<close> of that key.\<close>

definition stands_for :: "map_key \<Rightarrow> activity \<Rightarrow> activity list \<Rightarrow> bool" where
  "stands_for k v acc \<longleftrightarrow>
     activity_key v = k \<and> k \<in> activity_key ` set acc \<and> files_of v = files_with k acc \<and> ac_time v = first_time k acc \<and>
     dom (ac_meta v) = {''files''}"

definition merged :: "activity list \<Rightarrow> event_map \<Rightarrow> bool" where
  "merged acc em \<longleftrightarrow>
     em_ids em = List.map ac_id acc \<and> distinct (List.map fst (em_map em)) \<and>
     fst ` set (em_map em) = activity_key ` set acc \<and> (\<forall>(k, v) \<in> set (em_map em). stands_for k v acc)"

lemma merged_empty [simp]: "merged [] (empty_events limit)"
  by (simp add: merged_def empty_events_def)

lemma empty_events_simps [simp]: "em_map (empty_events limit) = []" "em_max (empty_events limit) = limit"
  by (simp_all add: empty_events_def)

lemma first_time_snoc:
  "first_time k (acc @ [a]) =
     (if activity_key a \<noteq> k then first_time k acc
      else if k \<in> activity_key ` set acc then min (ac_time a) (first_time k acc) else ac_time a)"
proof -
  let ?S = "{b \<in> set acc. activity_key b = k}"
  have c: "{b \<in> set (acc @ [a]). activity_key b = k} = (if activity_key a = k then insert a ?S else ?S)"
    by auto
  have e: "?S = {} \<longleftrightarrow> k \<notin> activity_key ` set acc" by auto
  have n: "Min (insert (ac_time a) (ac_time ` ?S)) = min (ac_time a) (Min (ac_time ` ?S))" if "?S \<noteq> {}"
    by (rule Min_insert) (use that in auto)
  show ?thesis
  proof (cases "?S = {}")
    case True
    then have "k \<notin> activity_key ` set acc" using e by simp
    then show ?thesis unfolding first_time_def c True by simp
  next
    case False
    then have "k \<in> activity_key ` set acc" using e by metis
    then show ?thesis unfolding first_time_def c using n [OF False] by simp
  qed
qed

lemma files_with_snoc:
  "files_with k (acc @ [a]) = files_with k acc @ (if activity_key a = k then files_of a else [])"
  by (simp add: files_with_def)

lemma files_with_other: "k \<notin> activity_key ` set acc \<Longrightarrow> files_with k acc = []"
  by (auto simp: files_with_def filter_empty_conv)

lemma fst_put_entry [simp]: "List.map fst (put_entry k v l) = List.map fst l"
  by (induction l) (auto simp: put_entry_def)

lemma in_put_entry:
  "(k1, v1) \<in> set (put_entry k v l) \<longleftrightarrow> (if k1 = k then v1 = v \<and> k \<in> fst ` set l else (k1, v1) \<in> set l)"
  by (induction l) (auto simp: put_entry_def split: if_splits)

lemma put_entry_stands:
  "\<lbrakk>\<forall>(k, v) \<in> set l. k \<noteq> k1 \<longrightarrow> stands_for k v acc; stands_for k1 v1 acc\<rbrakk> \<Longrightarrow>
   \<forall>(k, v) \<in> set (put_entry k1 v1 l). stands_for k v acc"
  by (auto simp: in_put_entry split: if_splits)

lemma fst_set_put_entry [simp]: "fst ` set (put_entry k v l) = fst ` set l"
  using fst_put_entry [of k v l] by (metis set_map)

lemma length_put_entry [simp]: "List.length (put_entry k v l) = List.length l"
  by (simp add: put_entry_def)

lemma earlier_key:
  "activity_key a = activity_key v \<Longrightarrow> activity_key (v\<lparr>ac_time := ac_time a\<rparr>) = activity_key v"
  by (simp add: activity_key_def)

lemma key_meta [simp]: "activity_key (v\<lparr>ac_meta := m\<rparr>) = activity_key v"
  by (simp add: activity_key_def)

text \<open>The entry after a record of its key was pushed.\<close>

definition joined :: "activity \<Rightarrow> activity \<Rightarrow> activity" where
  "joined a m =
     (let m1 = (if ac_time a < ac_time m then m\<lparr>ac_time := ac_time a\<rparr> else m)
      in case ac_meta a ''files'' of
           Some (Meta_List fs) \<Rightarrow> m1\<lparr>ac_meta := (ac_meta m1)(''files'' \<mapsto> Meta_List (files_of m1 @ fs))\<rparr>
         | _ \<Rightarrow> m1)"

lemma joined_simps:
  "files_of (joined a m) = files_of m @ files_of a"
  "ac_time (joined a m) = min (ac_time a) (ac_time m)"
  "activity_key a = activity_key m \<Longrightarrow> activity_key (joined a m) = activity_key m"
  "dom (ac_meta m) = {''files''} \<Longrightarrow> dom (ac_meta (joined a m)) = {''files''}"
  by (auto simp: joined_def files_of_def earlier_key Let_def split: option.splits meta_value.splits)

lemma push_activity_cases:
  "push_activity a em =
     (case map_of (em_map em) (activity_key a) of
        Some m \<Rightarrow> em\<lparr>em_ids := em_ids em @ [ac_id a], em_map := put_entry (activity_key a) (joined a m) (em_map em)\<rparr>
      | None \<Rightarrow>
          if em_max em \<le> int (List.length (em_map em)) then em
          else em\<lparr>em_ids := em_ids em @ [ac_id a],
                  em_map := put_entry (activity_key a) (joined a (a\<lparr>ac_meta := [''files'' \<mapsto> Meta_List []]\<rparr>))
                              (em_map em @ [(activity_key a, a\<lparr>ac_meta := [''files'' \<mapsto> Meta_List []]\<rparr>)])\<rparr>)"
  by (simp add: push_activity_def for_activity_def joined_def Let_def split: option.split)

lemma push_existing:
  assumes m: "merged acc em" and v: "map_of (em_map em) (activity_key a) = Some v"
  shows "merged (acc @ [a]) (push_activity a em)"
proof -
  have i: "(activity_key a, v) \<in> set (em_map em)" using v by (rule map_of_SomeD)
  then have s: "stands_for (activity_key a) v acc" using m by (auto simp: merged_def)
  have j: "stands_for (activity_key a) (joined a v) (acc @ [a])"
    using s by (auto simp: stands_for_def joined_simps files_with_snoc first_time_snoc)
  have o: "stands_for k u (acc @ [a])" if "k \<noteq> activity_key a" "stands_for k u acc" for k u
    using that by (auto simp: stands_for_def files_with_snoc first_time_snoc)
  have all: "\<forall>(k, u) \<in> set (put_entry (activity_key a) (joined a v) (em_map em)). stands_for k u (acc @ [a])"
    by (rule put_entry_stands) (use m o j in \<open>auto simp: merged_def\<close>)
  have old: "activity_key a \<in> activity_key ` set acc" using s by (simp add: stands_for_def)
  show ?thesis
    using m v all old by (simp add: push_activity_cases merged_def insert_absorb)
qed

lemma push_new:
  assumes m: "merged acc em" and v: "map_of (em_map em) (activity_key a) = None"
    and room: "int (List.length (em_map em)) < em_max em"
  shows "merged (acc @ [a]) (push_activity a em)"
proof -
  let ?e = "a\<lparr>ac_meta := [''files'' \<mapsto> Meta_List []]\<rparr>"
  have n: "activity_key a \<notin> fst ` set (em_map em)" using v by (simp add: map_of_eq_None_iff)
  then have n1: "activity_key a \<notin> activity_key ` set acc" using m by (simp add: merged_def)
  have e: "files_of ?e = []" by (simp add: files_of_def)
  have j: "stands_for (activity_key a) (joined a ?e) (acc @ [a])"
    using n1 e
    by (auto simp: stands_for_def joined_simps files_with_snoc first_time_snoc files_with_other)
  have o: "stands_for k u (acc @ [a])" if "k \<noteq> activity_key a" "stands_for k u acc" for k u
    using that by (auto simp: stands_for_def files_with_snoc first_time_snoc)
  have all: "\<forall>(k, u) \<in> set (put_entry (activity_key a) (joined a ?e) (em_map em @ [(activity_key a, ?e)])).
      stands_for k u (acc @ [a])"
    by (rule put_entry_stands) (use m o j in \<open>auto simp: merged_def\<close>)
  show ?thesis
    using m v n room all by (simp add: push_activity_cases merged_def)
qed

lemma push_merges:
  assumes "merged acc em"
  shows "merged (acc @ [a]) (push_activity a em) \<or> push_activity a em = em"
proof (cases "map_of (em_map em) (activity_key a)")
  case None
  then show ?thesis
    using push_new [OF assms None]
    by (cases "int (List.length (em_map em)) < em_max em") (auto simp: push_activity_cases)
next
  case (Some v)
  then show ?thesis using push_existing [OF assms Some] by simp
qed

lemma push_max [simp]: "em_max (push_activity a em) = em_max em"
  by (simp add: push_activity_cases split: option.split)

lemma push_bound:
  "int (List.length (em_map em)) \<le> max 0 (em_max em) \<Longrightarrow>
   int (List.length (em_map (push_activity a em))) \<le> max 0 (em_max em)"
  by (auto simp: push_activity_cases split: option.split)

lemma pushes_merge_aux:
  "merged acc em \<Longrightarrow> int (List.length (em_map em)) \<le> max 0 (em_max em) \<Longrightarrow>
   \<exists>acc1. subseq acc1 as \<and> merged (acc @ acc1) (foldl (\<lambda>e a. push_activity a e) em as) \<and>
     em_max (foldl (\<lambda>e a. push_activity a e) em as) = em_max em \<and>
     int (List.length (em_map (foldl (\<lambda>e a. push_activity a e) em as))) \<le> max 0 (em_max em)"
proof (induction as arbitrary: acc em)
  case Nil
  then show ?case by auto
next
  case (Cons a as)
  note b = push_bound [OF Cons.prems(2), of a]
  consider "merged (acc @ [a]) (push_activity a em)" | "push_activity a em = em"
    using push_merges [OF Cons.prems(1)] by blast
  then show ?case
  proof cases
    case 1
    from Cons.IH [OF 1] b obtain acc1 where
      "subseq acc1 as" "merged ((acc @ [a]) @ acc1) (foldl (\<lambda>e a. push_activity a e) (push_activity a em) as)"
      "em_max (foldl (\<lambda>e a. push_activity a e) (push_activity a em) as) = em_max em"
      "int (List.length (em_map (foldl (\<lambda>e a. push_activity a e) (push_activity a em) as))) \<le> max 0 (em_max em)"
      by auto
    then show ?thesis by (intro exI [of _ "a # acc1"]) auto
  next
    case 2
    from Cons.IH [OF Cons.prems] obtain acc1 where
      "subseq acc1 as" "merged (acc @ acc1) (foldl (\<lambda>e a. push_activity a e) em as)"
      "em_max (foldl (\<lambda>e a. push_activity a e) em as) = em_max em"
      "int (List.length (em_map (foldl (\<lambda>e a. push_activity a e) em as))) \<le> max 0 (em_max em)"
      by auto
    then show ?thesis using 2 by (intro exI [of _ acc1]) (auto intro: list_emb_Cons)
  qed
qed


section \<open>What a run sends and deletes\<close>

text \<open>The calls of \<open>delete_chunks\<close>: pieces of the identifiers, in order, of at most the limit of the database.\<close>

definition deletes_only :: "int list \<Rightarrow> cron_call list \<Rightarrow> bool" where
  "deletes_only ids cs \<longleftrightarrow>
     (\<exists>ps es. cs = List.map2 Cc_Delete ps es \<and> List.length ps = List.length es \<and> prefix (concat ps) ids \<and>
        (\<forall>p \<in> set ps. p \<noteq> [] \<and> List.length p \<le> chunk_size))"

lemma delete_chunks_calls:
  "\<exists>cs. cw_calls (snd (delete_chunks d ids s)) = cw_calls s @ cs \<and> deletes_only ids cs \<and>
     (fst (delete_chunks d ids s) = None \<longrightarrow> concat [p. Cc_Delete p e \<leftarrow> cs] = ids \<and> (\<forall>c \<in> set cs. \<exists>p. c = Cc_Delete p None))"
proof (induction d ids s rule: delete_chunks.induct)
  case (1 d ids s)
  show ?case
  proof (cases "ids = []")
    case True
    then show ?thesis
      by (auto simp: delete_chunks.simps deletes_only_def intro!: exI [of _ "[]"])
  next
    case False
    let ?r = "cron_delete d (take chunk_size ids) s"
    have c: "cw_calls (snd ?r) = cw_calls s @ [Cc_Delete (take chunk_size ids) (fst ?r)]"
      by (simp add: cron_delete_def Let_def)
    have n: "take chunk_size ids \<noteq> []" using False by (simp add: chunk_size_def)
    have l: "List.length (take chunk_size ids) \<le> chunk_size" by simp
    show ?thesis
    proof (cases "fst ?r")
      case (Some e)
      then have r: "delete_chunks d ids s = (Some e, snd ?r)"
        using False by (subst delete_chunks.simps) (simp add: prod_eq_iff split: prod.split)
      have "deletes_only ids [Cc_Delete (take chunk_size ids) (Some e)]"
        unfolding deletes_only_def using n l
        by (intro exI [of _ "[take chunk_size ids]"] exI [of _ "[Some e]"]) (simp add: take_is_prefix)
      then show ?thesis using r c Some by auto
    next
      case None
      then have r: "delete_chunks d ids s = delete_chunks d (drop chunk_size ids) (snd ?r)"
        using False by (subst delete_chunks.simps) (auto split: prod.split option.split)
      obtain cs where cs: "cw_calls (snd (delete_chunks d (drop chunk_size ids) (snd ?r))) = cw_calls (snd ?r) @ cs"
          "deletes_only (drop chunk_size ids) cs"
          "fst (delete_chunks d (drop chunk_size ids) (snd ?r)) = None \<longrightarrow>
             concat [p. Cc_Delete p e \<leftarrow> cs] = drop chunk_size ids \<and> (\<forall>c \<in> set cs. \<exists>p. c = Cc_Delete p None)"
        using 1 [OF False _ ] None by (metis prod.collapse)
      then obtain ps es where p: "cs = List.map2 Cc_Delete ps es" "List.length ps = List.length es"
          "prefix (concat ps) (drop chunk_size ids)" "\<forall>p \<in> set ps. p \<noteq> [] \<and> List.length p \<le> chunk_size"
        by (auto simp: deletes_only_def)
      have "prefix (take chunk_size ids @ concat ps) (take chunk_size ids @ drop chunk_size ids)"
        using p(3) by (simp only: same_prefix_prefix)
      then have "deletes_only ids (Cc_Delete (take chunk_size ids) None # cs)"
        unfolding deletes_only_def using p n l
        by (intro exI [of _ "take chunk_size ids # ps"] exI [of _ "None # es"]) simp
      then show ?thesis using r c cs None by (auto simp: append_take_drop_id)
    qed
  qed
qed


lemma pushes_merge:
  assumes "merged acc em" and "int (List.length (em_map em)) \<le> max 0 (em_max em)"
  obtains acc1 where "subseq acc1 as" "merged (acc @ acc1) (push_all as em)" "em_max (push_all as em) = em_max em"
    "int (List.length (em_map (push_all as em))) \<le> max 0 (em_max em)"
  using pushes_merge_aux [OF assms, of as] unfolding push_all_def by blast

lemma cron_fetch_simps:
  "cron_fetch q s = (Inr as, s1) \<Longrightarrow> cw_calls s1 = cw_calls s @ [Cc_Fetch as]"
  "cron_fetch q s = (Inl e, s1) \<Longrightarrow> cw_calls s1 = cw_calls s"
  by (auto simp: cron_fetch_def split: prod.splits sum.splits)

lemma read_pages_calls:
  "\<lbrakk>merged acc em; int (List.length (em_map em)) \<le> max 0 (em_max em)\<rbrakk> \<Longrightarrow>
   \<exists>pages. cw_calls (snd (read_pages n d limit offset as em s)) = cw_calls s @ List.map Cc_Fetch pages \<and>
     (\<forall>em1. fst (read_pages n d limit offset as em s) = Some (Inr em1) \<longrightarrow>
        (\<exists>acc1. subseq acc1 (as @ concat pages) \<and> merged (acc @ acc1) em1 \<and>
           int (List.length (em_map em1)) \<le> max 0 (em_max em)))"
proof (induction n arbitrary: acc em as offset s)
  case 0
  then show ?case by (auto intro: exI [of _ "[]"])
next
  case (Suc n)
  show ?case
  proof (cases "as = []")
    case True
    then show ?thesis using Suc.prems by (intro exI [of _ "[]"]) auto
  next
    case False
    obtain acc1 where a: "subseq acc1 as" "merged (acc @ acc1) (push_all as em)" "em_max (push_all as em) = em_max em"
      "int (List.length (em_map (push_all as em))) \<le> max 0 (em_max em)"
      using pushes_merge [OF Suc.prems] by metis
    show ?thesis
    proof (cases "List.length (em_ids em) < List.length (em_ids (push_all as em))")
      case False
      then show ?thesis using a \<open>as \<noteq> []\<close> by (intro exI [of _ "[]"]) auto
    next
      case True
      obtain r s1 where f: "cron_fetch (cd_fetch_sftp d offset limit) s = (r, s1)" by fastforce
      show ?thesis
      proof (cases r)
        case (Inl e)
        then show ?thesis using True \<open>as \<noteq> []\<close> f cron_fetch_simps(2) by (intro exI [of _ "[]"]) auto
      next
        case (Inr as1)
        have c: "cw_calls s1 = cw_calls s @ [Cc_Fetch as1]" using f Inr cron_fetch_simps(1) by blast
        have e: "read_pages (Suc n) d limit offset as em s =
            read_pages n d limit (offset + List.length as1) as1 (push_all as em) s1"
          using True \<open>as \<noteq> []\<close> f Inr by simp
        obtain pages where p: "cw_calls (snd (read_pages (Suc n) d limit offset as em s)) = cw_calls s1 @ List.map Cc_Fetch pages"
          "\<forall>em1. fst (read_pages (Suc n) d limit offset as em s) = Some (Inr em1) \<longrightarrow>
             (\<exists>acc2. subseq acc2 (as1 @ concat pages) \<and> merged ((acc @ acc1) @ acc2) em1 \<and>
                int (List.length (em_map em1)) \<le> max 0 (em_max em))"
          using Suc.IH [OF a(2), where as = as1 and offset = "offset + List.length as1" and s = s1] a(3,4) unfolding e by auto
        have "\<exists>acc2. subseq acc2 (as @ concat (as1 # pages)) \<and> merged (acc @ acc2) em1 \<and>
            int (List.length (em_map em1)) \<le> max 0 (em_max em)"
          if em1: "fst (read_pages (Suc n) d limit offset as em s) = Some (Inr em1)" for em1
        proof -
          obtain acc2 where "subseq acc2 (as1 @ concat pages)" "merged ((acc @ acc1) @ acc2) em1"
            "int (List.length (em_map em1)) \<le> max 0 (em_max em)"
            using p(2) em1 by blast
          then show ?thesis using a(1) by (intro exI [of _ "acc1 @ acc2"]) (auto intro: list_emb_append_mono)
        qed
        then show ?thesis using p(1) c by (intro exI [of _ "as1 # pages"]) auto
      qed
    qed
  qed
qed


lemma elements_length [simp]: "List.length (elements em) = List.length (em_map em)"
  by (simp add: elements_def)

lemma send_calls:
  "cw_calls (snd (cron_send d as s)) = cw_calls s @ [Cc_Send as (fst (cron_send d as s))]"
  "cw_calls (snd (cron_delete d ids s)) = cw_calls s @ [Cc_Delete ids (fst (cron_delete d ids s))]"
  by (simp_all add: cron_send_def cron_delete_def Let_def)

text \<open>What may follow the reading of the pages.\<close>

definition sent_then_deleted :: "int \<Rightarrow> activity list \<Rightarrow> cron_call list \<Rightarrow> bool" where
  "sent_then_deleted limit as cs \<longleftrightarrow>
     cs = [] \<or>
     (\<exists>acc em. subseq acc as \<and> merged acc em \<and> int (List.length (elements em)) \<le> max 0 limit \<and>
        ((\<exists>e. cs = [Cc_Send (elements em) (Some e)]) \<or>
         (\<exists>ds. cs = Cc_Send (elements em) None # ds \<and> deletes_only (List.map ac_id acc) ds)))"

lemma send_sftp_calls:
  "\<exists>pages rest. cw_calls (snd (send_sftp n d limit s)) = cw_calls s @ List.map Cc_Fetch pages @ rest \<and>
     sent_then_deleted limit (concat pages) rest"
proof -
  obtain r s0 where f: "cron_fetch (cd_fetch_sftp d 0 limit) s = (r, s0)" by fastforce
  show ?thesis
  proof (cases r)
    case (Inl e)
    then show ?thesis using f cron_fetch_simps(2) [of _ s e s0]
      by (intro exI [of _ "[]"]) (auto simp: send_sftp_def sent_then_deleted_def)
  next
    case (Inr as)
    have c0: "cw_calls s0 = cw_calls s @ [Cc_Fetch as]" using f Inr cron_fetch_simps(1) by blast
    let ?r = "read_pages n d limit (List.length as) as (empty_events limit) s0"
    obtain pages where p: "cw_calls (snd ?r) = cw_calls s0 @ List.map Cc_Fetch pages"
      "\<forall>em. fst ?r = Some (Inr em) \<longrightarrow> (\<exists>acc. subseq acc (as @ concat pages) \<and> merged acc em \<and>
         int (List.length (em_map em)) \<le> max 0 limit)"
      using read_pages_calls [of "[]" "empty_events limit" n d limit "List.length as" as s0] by auto
    show ?thesis
    proof (cases "\<exists>em. fst ?r = Some (Inr em) \<and> em_map em \<noteq> []")
      case False
      then have "snd (send_sftp n d limit s) = snd ?r"
        using f Inr by (auto simp: send_sftp_def split: prod.split option.split sum.split)
      then show ?thesis using p(1) c0
        by (intro exI [of _ "as # pages"] exI [of _ "[]"]) (simp add: sent_then_deleted_def)
    next
      case True
      then obtain em where em: "fst ?r = Some (Inr em)" "em_map em \<noteq> []" by blast
      obtain acc where a: "subseq acc (concat (as # pages))" "merged acc em" "int (List.length (em_map em)) \<le> max 0 limit"
        using p(2) em(1) by auto
      let ?s = "cron_send d (elements em) (snd ?r)"
      have u: "snd (send_sftp n d limit s) =
          (if fst ?s = None then snd (delete_chunks d (em_ids em) (snd ?s)) else snd ?s)"
        using f Inr em by (auto simp: send_sftp_def prod_eq_iff split: prod.split option.split)
      have ids: "em_ids em = List.map ac_id acc" using a(2) by (simp add: merged_def)
      show ?thesis
      proof (cases "fst ?s")
        case (Some e)
        have "sent_then_deleted limit (concat (as # pages)) [Cc_Send (elements em) (Some e)]"
          unfolding sent_then_deleted_def using a by auto
        moreover have "cw_calls (snd (send_sftp n d limit s)) =
            cw_calls s @ List.map Cc_Fetch (as # pages) @ [Cc_Send (elements em) (Some e)]"
          using u Some p(1) c0 send_calls(1) [of d "elements em" "snd ?r"] by simp
        ultimately show ?thesis by blast
      next
        case None
        obtain ds where ds: "cw_calls (snd (delete_chunks d (em_ids em) (snd ?s))) = cw_calls (snd ?s) @ ds"
          "deletes_only (em_ids em) ds"
          using delete_chunks_calls [of d "em_ids em" "snd ?s"] by blast
        have "sent_then_deleted limit (concat (as # pages)) (Cc_Send (elements em) None # ds)"
          unfolding sent_then_deleted_def using a ds(2) ids by auto
        moreover have "cw_calls (snd (send_sftp n d limit s)) =
            cw_calls s @ List.map Cc_Fetch (as # pages) @ (Cc_Send (elements em) None # ds)"
          using u None ds(1) p(1) c0 send_calls(1) [of d "elements em" "snd ?r"] by simp
        ultimately show ?thesis by blast
      qed
    qed
  qed
qed

lemma while_running_cases:
  "while_running m busy s =
     (if cw_running s then (busy, s)
      else (fst (m (s\<lparr>cw_running := True\<rparr>)), (snd (m (s\<lparr>cw_running := True\<rparr>)))\<lparr>cw_running := False\<rparr>))"
  by (simp add: while_running_def swap_if_def Let_def)

text \<open>
  C38: A run of the SFTP job asks the panel to take the merged records at most once, at most as many as were
  configured, and deletes records only when the panel has taken what they were merged into: each entry has the
  files of all the records of its user, server, address, event and minute and the earliest of their times. The
  deleted ones are in pieces that the database takes.
\<close>

theorem sftp_sends_before_deleting:
  "\<exists>pages rest. cw_calls (snd (sftp_run n d limit s)) = cw_calls s @ List.map Cc_Fetch pages @ rest \<and>
     sent_then_deleted limit (concat pages) rest"
proof (cases "cw_running s")
  case True
  then show ?thesis
    by (intro exI [of _ "[]"]) (simp add: sftp_run_def while_running_cases sent_then_deleted_def)
next
  case False
  then show ?thesis
    using send_sftp_calls [of n d limit "s\<lparr>cw_running := True\<rparr>"] by (simp add: sftp_run_def while_running_cases)
qed

text \<open>\<open>S\<close> are the identifiers that may be deleted: of records that were sent, and of found records with no address.\<close>

fun covered :: "(string \<Rightarrow> bool) \<Rightarrow> int set \<Rightarrow> cron_call list \<Rightarrow> bool" where
  "covered valid S [] = True"
| "covered valid S (Cc_Fetch as # cs) = covered valid (S \<union> ac_id ` {a \<in> set as. \<not> valid (ac_ip a)}) cs"
| "covered valid S (Cc_Send as None # cs) = covered valid (S \<union> ac_id ` set as) cs"
| "covered valid S (Cc_Send as (Some e) # cs) = covered valid S cs"
| "covered valid S (Cc_Delete ids e # cs) = (set ids \<subseteq> S \<and> covered valid S cs)"

lemma covered_deletes:
  assumes "deletes_only ids cs" and "set ids \<subseteq> S"
  shows "covered valid S cs"
proof -
  obtain ps es where c: "cs = List.map2 Cc_Delete ps es" and p: "prefix (concat ps) ids"
    using assms(1) by (auto simp: deletes_only_def)
  have "set (concat ps) \<subseteq> S" using set_mono_prefix [OF p] assms(2) by blast
  then show ?thesis unfolding c
    by (induction ps es rule: list_induct2') auto
qed

lemma covered_mono: "covered valid S cs \<Longrightarrow> S \<subseteq> T \<Longrightarrow> covered valid T cs"
proof (induction valid S cs arbitrary: T rule: covered.induct)
  case (2 valid S as cs)
  then show ?case by (metis (no_types, lifting) Un_mono covered.simps(2) order_refl)
next
  case (3 valid S as cs)
  then show ?case by (metis (no_types, lifting) Un_mono covered.simps(3) order_refl)
qed auto

lemma send_activity_calls:
  "\<exists>cs. cw_calls (snd (send_activity d limit s)) = cw_calls s @ cs \<and> covered (cd_valid_ip d) {} cs"
proof -
  obtain r s1 where f: "cron_fetch (cd_fetch_other d limit) s = (r, s1)" by fastforce
  show ?thesis
  proof (cases r)
    case (Inl e)
    then show ?thesis using f cron_fetch_simps(2) [of _ s e s1] by (auto simp: send_activity_def)
  next
    case (Inr as)
    have c1: "cw_calls s1 = cw_calls s @ [Cc_Fetch as]" using f Inr cron_fetch_simps(1) by blast
    define bad where "bad = List.map ac_id (filter (\<lambda>a. \<not> cd_valid_ip d (ac_ip a)) as)"
    define good where "good = filter (\<lambda>a. cd_valid_ip d (ac_ip a)) as"
    define b where "b = (if bad \<noteq> [] then cron_delete d bad s1 else (None, s1))"
    have u: "send_activity d limit s =
      (if as = [] then (None, s1)
       else if fst b \<noteq> None then b
       else if good = [] then (None, snd b)
       else if fst (cron_send d good (snd b)) \<noteq> None
       then (map_option (\<lambda>e. ''cron: failed to send activity events to Panel: '' @ e) (fst (cron_send d good (snd b))),
             snd (cron_send d good (snd b)))
       else delete_chunks d (List.map ac_id good) (snd (cron_send d good (snd b))))"
      unfolding send_activity_def f Inr prod.case sum.case Let_def
        bad_def [symmetric] good_def [symmetric] b_def [symmetric]
      by (cases b; cases "fst b"; cases "cron_send d good (snd b)"; cases "fst (cron_send d good (snd b))") simp_all
    define S where "S = ac_id ` {a \<in> set as. \<not> cd_valid_ip d (ac_ip a)}"
    have S: "set bad = S" by (simp add: bad_def S_def)
    obtain bs where bs: "cw_calls (snd b) = cw_calls s1 @ bs" "\<And>cs. covered (cd_valid_ip d) S cs \<Longrightarrow> covered (cd_valid_ip d) S (bs @ cs)"
    proof (cases "bad = []")
      case True
      then show ?thesis using that [of "[]"] by (simp add: b_def)
    next
      case False
      then show ?thesis using that [of "[Cc_Delete bad (fst b)]"] S by (simp add: b_def send_calls)
    qed
    have "\<exists>cs. cw_calls (snd (send_activity d limit s)) = cw_calls s1 @ cs \<and> covered (cd_valid_ip d) S cs"
    proof (cases "as = [] \<or> fst b \<noteq> None \<or> good = []")
      case True
      then consider "as = []" | "as \<noteq> []" "snd (send_activity d limit s) = snd b" unfolding u by force
      then show ?thesis
      proof cases
        case 1
        then show ?thesis by (intro exI [of _ "[]"]) (simp add: u)
      next
        case 2
        then show ?thesis using bs(1) bs(2) [of "[]"] by auto
      qed
    next
      case False
      note go = this
      let ?s = "cron_send d good (snd b)"
      show ?thesis
      proof (cases "fst ?s")
        case (Some e)
        then have "snd (send_activity d limit s) = snd ?s" using go by (simp add: u)
        then show ?thesis
          using bs(1) bs(2) [of "[Cc_Send good (Some e)]"] Some send_calls(1) [of d good "snd b"] by auto
      next
        case None
        obtain ds where ds: "cw_calls (snd (delete_chunks d (List.map ac_id good) (snd ?s))) = cw_calls (snd ?s) @ ds"
          "deletes_only (List.map ac_id good) ds"
          using delete_chunks_calls [of d "List.map ac_id good" "snd ?s"] by blast
        have "covered (cd_valid_ip d) S (Cc_Send good None # ds)"
          using covered_deletes [OF ds(2), of "S \<union> ac_id ` set good"] by simp
        then show ?thesis
          using bs(1) bs(2) [of "Cc_Send good None # ds"] None send_calls(1) [of d good "snd b"] go ds(1)
          by (intro exI [of _ "bs @ Cc_Send good None # ds"]) (simp add: u)
      qed
    qed
    then obtain cs where "cw_calls (snd (send_activity d limit s)) = cw_calls s1 @ cs" "covered (cd_valid_ip d) S cs"
      by blast
    then show ?thesis using c1 by (intro exI [of _ "Cc_Fetch as # cs"]) (simp add: S_def)
  qed
qed

text \<open>
  The job for the other records deletes a record only when the panel has taken it, or when the record has no
  address.
\<close>

theorem activity_deletes_sent:
  "\<exists>cs. cw_calls (snd (activity_run d limit s)) = cw_calls s @ cs \<and> covered (cd_valid_ip d) {} cs"
  using send_activity_calls [of d limit "s\<lparr>cw_running := True\<rparr>"]
  by (cases "cw_running s") (auto simp: activity_run_def while_running_cases intro: exI [of _ "[]"])

section \<open>The pages come to an end\<close>

lemma read_pages_end:
  assumes "\<And>offset w as. N \<le> offset \<Longrightarrow> fst (cd_fetch_sftp d offset limit w) = Inr as \<Longrightarrow> as = []"
    and "as = [] \<and> 0 < n \<or> 1 < n \<and> N + 1 < n + offset"
  shows "fst (read_pages n d limit offset as em s) \<noteq> None"
  using assms(2)
proof (induction n arbitrary: offset as em s)
  case (Suc n)
  show ?case
  proof (cases "as = [] \<or> \<not> List.length (em_ids em) < List.length (em_ids (push_all as em))")
    case True
    then show ?thesis by auto
  next
    case False
    obtain r s1 where f: "cron_fetch (cd_fetch_sftp d offset limit) s = (r, s1)" by fastforce
    show ?thesis
    proof (cases r)
      case (Inl e)
      then show ?thesis using False f by simp
    next
      case (Inr as1)
      have "fst (cd_fetch_sftp d offset limit (cw_world s)) = Inr as1"
        using f Inr by (auto simp: cron_fetch_def split: prod.splits sum.splits)
      then have e: "N \<le> offset \<Longrightarrow> as1 = []" using assms(1) by blast
      have n: "0 < n" "N < n + offset" using Suc.prems False by auto
      have "as1 = [] \<and> 0 < n \<or> 1 < n \<and> N + 1 < n + (offset + List.length as1)"
      proof (cases "as1 = []")
        case False
        then have "1 \<le> List.length as1" by (cases as1) auto
        then show ?thesis using n e False by linarith
      qed (use n in simp)
      then show ?thesis using Suc.IH False f Inr by simp
    qed
  qed
qed simp


lemma send_sftp_ends:
  assumes "\<And>offset w as. N \<le> offset \<Longrightarrow> fst (cd_fetch_sftp d offset limit w) = Inr as \<Longrightarrow> as = []"
    and "N + 2 \<le> n"
  shows "fst (send_sftp n d limit s) \<noteq> None"
proof -
  obtain r s0 where f: "cron_fetch (cd_fetch_sftp d 0 limit) s = (r, s0)" by fastforce
  show ?thesis
  proof (cases r)
    case (Inl e)
    then show ?thesis using f by (simp add: send_sftp_def)
  next
    case (Inr as)
    have "fst (read_pages n d limit (List.length as) as (empty_events limit) s0) \<noteq> None"
      by (rule read_pages_end [of N d limit]) (use assms in \<open>cases as; auto\<close>)+
    then show ?thesis
      using f Inr by (auto simp: send_sftp_def map_prod_def split: prod.split option.split sum.split)
  qed
qed

text \<open>
  The SFTP job comes to an end, whatever the database has: it asks for at most two pages more than there are
  records.
\<close>

theorem sftp_run_ends:
  assumes "\<And>offset w as. N \<le> offset \<Longrightarrow> fst (cd_fetch_sftp d offset limit w) = Inr as \<Longrightarrow> as = []"
    and "N + 2 \<le> n"
  shows "\<exists>e. fst (sftp_run n d limit s) = Some e"
  using send_sftp_ends [of N d limit n, OF assms(1) assms(2)]
  by (auto simp: sftp_run_def while_running_cases)

section \<open>A table\<close>

text \<open>A database with three records of which two are of one minute, and a panel that takes them.\<close>

definition upload_at :: "int \<Rightarrow> string \<Rightarrow> time \<Rightarrow> activity" where
  "upload_at i f t =
     \<lparr>ac_id = i, ac_user = Some ''u'', ac_server = ''s'', ac_event = ''server:sftp.write'',
      ac_meta = [''files'' \<mapsto> Meta_List [Mi_Path f]], ac_ip = ''203.0.113.9'', ac_time = t\<rparr>"

definition three_uploads :: "activity list" where
  "three_uploads = [upload_at 1 ''a'' (59 * nanosecond_per_second), upload_at 2 ''b'' (58 * nanosecond_per_second),
     upload_at 3 ''c'' (61 * nanosecond_per_second)]"

definition table_deps :: "activity list \<Rightarrow> unit cron_deps" where
  "table_deps tbl =
     \<lparr>cd_fetch_sftp = (\<lambda>offset limit w. (Inr (take (nat limit) (drop offset tbl)), w)),
      cd_fetch_other = (\<lambda>limit w. (Inr (take (nat limit) tbl), w)),
      cd_send = (\<lambda>as w. (None, w)), cd_delete = (\<lambda>ids w. (None, w)), cd_valid_ip = (\<lambda>i. i \<noteq> [])\<rparr>"

definition idle_cron :: "unit cron" where
  "idle_cron = \<lparr>cw_world = (), cw_calls = [], cw_running = False\<rparr>"

theorem sftp_run_ends_witness:
  "\<exists>e. fst (sftp_run 5 (table_deps three_uploads) 2 idle_cron) = Some e"
  by (rule sftp_run_ends [of 3]) (auto simp: table_deps_def three_uploads_def)

lemma three_uploads_merged:
  "em_ids (push_all three_uploads (empty_events 2)) = [1, 2, 3]"
  "List.map (\<lambda>a. (ac_id a, files_of a, ac_time a)) (elements (push_all three_uploads (empty_events 2))) =
     [(1, [Mi_Path ''a'', Mi_Path ''b''], 58000000000), (3, [Mi_Path ''c''], 61000000000)]"
  "em_ids (push_all three_uploads (empty_events 1)) = [1, 2]"
  by code_simp+

text \<open>
  Two records two seconds apart are not merged when a minute ends between them: the groups are the minutes of
  the clock and do not start with their first record.
\<close>

lemma minutes_of_the_clock:
  "activity_key (upload_at 1 ''a'' (59 * nanosecond_per_second)) \<noteq> activity_key (upload_at 3 ''c'' (61 * nanosecond_per_second))"
  "activity_key (upload_at 1 ''a'' 0) = activity_key (upload_at 2 ''b'' (59 * nanosecond_per_second))"
  by code_simp+

text \<open>A record with no address, which the panel would show with no address, is deleted and never sent.\<close>

lemma no_address_no_record:
  "cw_calls (snd (activity_run (table_deps [(upload_at 1 ''a'' 0)\<lparr>ac_ip := []\<rparr>]) 2 idle_cron)) =
     [Cc_Fetch [(upload_at 1 ''a'' 0)\<lparr>ac_ip := []\<rparr>], Cc_Delete [1] None]"
  by (simp add: activity_run_def while_running_cases idle_cron_def send_activity_def table_deps_def cron_fetch_def
      upload_at_def cron_delete_def)

end
