(* ===== verification/Downloads.thy ===== *)
theory Downloads
  imports Go_Strings Prelude
begin

text \<open>
  Downloads from elsewhere into a server's files, \<open>src/router/downloader/downloader.go\<close>: the addresses that
  may not be asked, a download from its request to the file, and the table of those that are going on. The
  network and the server's filesystem are functions of a world.
\<close>

unbundle bit_operations_syntax

section \<open>Addresses\<close>

datatype ip = V4 "32 word" | V6 "128 word"

text \<open>\<open>IP.To4\<close>: an address of the fourth version is in the last four bytes of one of the sixth.\<close>

definition to4 :: "ip \<Rightarrow> ip" where
  "to4 i =
     (case i of
        V4 w \<Rightarrow> V4 w
      | V6 w \<Rightarrow> if drop_bit 32 w = 65535 then V4 (ucast w) else V6 w)"

definition net_mask :: "nat \<Rightarrow> 'a::len word" where
  "net_mask n = NOT (mask (LENGTH('a) - n))"

datatype ip_net = Net4 "32 word" nat | Net6 "128 word" nat

definition net_contains :: "ip_net \<Rightarrow> ip \<Rightarrow> bool" where
  "net_contains b i =
     (case (b, to4 i) of
        (Net4 n l, V4 w) \<Rightarrow> n AND net_mask l = w AND net_mask l
      | (Net6 n l, V6 w) \<Rightarrow> n AND net_mask l = w AND net_mask l
      | _ \<Rightarrow> False)"

definition ip4 :: "nat \<Rightarrow> nat \<Rightarrow> nat \<Rightarrow> nat \<Rightarrow> 32 word" where
  "ip4 a b c d = of_nat (((a * 256 + b) * 256 + c) * 256 + d)"

definition internal_ranges :: "ip_net list" where
  "internal_ranges =
     [Net4 (ip4 127 0 0 0) 8, Net4 (ip4 10 0 0 0) 8, Net4 (ip4 172 16 0 0) 12, Net4 (ip4 192 168 0 0) 16,
      Net4 (ip4 169 254 0 0) 16, Net6 1 128, Net6 (push_bit 112 0xFE80) 10, Net6 (push_bit 112 0xFC00) 7]"

definition is_loopback :: "ip \<Rightarrow> bool" where
  "is_loopback i = (case to4 i of V4 w \<Rightarrow> drop_bit 24 w = 127 | V6 w \<Rightarrow> w = 1)"

definition is_link_local_unicast :: "ip \<Rightarrow> bool" where
  "is_link_local_unicast i =
     (case to4 i of V4 w \<Rightarrow> drop_bit 16 w = 169 * 256 + 254 | V6 w \<Rightarrow> drop_bit 118 w = 0x3FA)"

text \<open>The second byte of a multicast address of the sixth version has the scope in its low half.\<close>

definition multicast6 :: "128 word \<Rightarrow> 128 word \<Rightarrow> bool" where
  "multicast6 scope w \<longleftrightarrow> drop_bit 120 w = 0xFF \<and> drop_bit 112 w AND 0x0F = scope"

definition is_link_local_multicast :: "ip \<Rightarrow> bool" where
  "is_link_local_multicast i = (case to4 i of V4 w \<Rightarrow> drop_bit 8 w = 224 * 65536 | V6 w \<Rightarrow> multicast6 2 w)"

definition is_interface_local_multicast :: "ip \<Rightarrow> bool" where
  "is_interface_local_multicast i = (case i of V4 w \<Rightarrow> False | V6 w \<Rightarrow> multicast6 1 w)"

definition internal_address :: "ip \<Rightarrow> bool" where
  "internal_address i \<longleftrightarrow>
     is_loopback i \<or> is_link_local_unicast i \<or> is_link_local_multicast i \<or> is_interface_local_multicast i \<or>
     (\<exists>b \<in> set internal_ranges. net_contains b i)"

datatype dial_error = Dial_Failed string | Dial_Bad_Address | Dial_Internal

text \<open>
  A connection is made first, and then the address of its other end is looked at. The second result says
  whether there is a connection that is open; the HTTP client forgets it when there is an error.
\<close>

definition dial_checked :: "(string \<Rightarrow> ip option) \<Rightarrow> string + string \<Rightarrow> dial_error option \<times> bool" where
  "dial_checked parse_ip conn =
     (case conn of
        Inl e \<Rightarrow> (Some (Dial_Failed e), False)
      | Inr addr \<Rightarrow>
          (case split_host_port addr of
             None \<Rightarrow> (Some (Dial_Failed ''address''), True)
           | Some (h, _) \<Rightarrow>
               (case parse_ip h of
                  None \<Rightarrow> (Some Dial_Bad_Address, True)
                | Some i \<Rightarrow> if internal_address i then (Some Dial_Internal, True) else (None, True))))"

section \<open>The table of downloads\<close>

record download_request =
  dq_directory :: string
  dq_url :: string
  dq_url_path :: string
  dq_file_name :: string
  dq_use_header :: bool

text \<open>The progress is a quotient.\<close>

record download =
  dl_id :: string
  dl_server :: string
  dl_request :: download_request
  dl_path :: string
  dl_progress :: "int \<times> int"

record downloader =
  dr_cache :: "string \<rightharpoonup> download"
  dr_servers :: "string \<rightharpoonup> string list"

definition empty_downloader :: downloader where
  "empty_downloader = \<lparr>dr_cache = Map.empty, dr_servers = Map.empty\<rparr>"

definition track :: "download \<Rightarrow> downloader \<Rightarrow> downloader" where
  "track dl r =
     (case dr_cache r (dl_id dl) of
        Some _ \<Rightarrow> r
      | None \<Rightarrow>
          (let ids = (case dr_servers r (dl_server dl) of None \<Rightarrow> [] | Some ids \<Rightarrow> ids)
           in r\<lparr>dr_cache := (dr_cache r)(dl_id dl \<mapsto> dl),
                dr_servers := (dr_servers r)(dl_server dl \<mapsto> ids @ [dl_id dl])\<rparr>))"

definition find_download :: "string \<Rightarrow> downloader \<Rightarrow> download option" where
  "find_download i r = dr_cache r i"

definition remove_download :: "string \<Rightarrow> downloader \<Rightarrow> downloader" where
  "remove_download i r =
     (case dr_cache r i of
        None \<Rightarrow> r
      | Some dl \<Rightarrow>
          r\<lparr>dr_cache := (dr_cache r)(i := None),
            dr_servers :=
              (case dr_servers r (dl_server dl) of
                 None \<Rightarrow> dr_servers r
               | Some ids \<Rightarrow> (dr_servers r)(dl_server dl \<mapsto> filter (\<lambda>k. k \<noteq> i) ids))\<rparr>)"

text \<open>\<open>uuid\<close> is the random identifier.\<close>

definition new_download :: "string \<Rightarrow> string \<Rightarrow> download_request \<Rightarrow> downloader \<Rightarrow> download \<times> downloader" where
  "new_download uuid server q r =
     (let dl = \<lparr>dl_id = uuid, dl_server = server, dl_request = q, dl_path = [], dl_progress = (0, 1)\<rparr> in (dl, track dl r))"

definition by_server :: "string \<Rightarrow> downloader \<Rightarrow> download list" where
  "by_server sid r =
     (case dr_servers r sid of
        None \<Rightarrow> []
      | Some ids \<Rightarrow> List.map_filter (dr_cache r) ids)"

definition belongs_to :: "download \<Rightarrow> string \<Rightarrow> bool" where
  "belongs_to dl sid \<longleftrightarrow> dl_server dl = sid"

section \<open>A download\<close>

record http_response =
  hr_status :: int
  hr_status_text :: string
  hr_length :: int
  hr_disposition :: string

text \<open>
  \<open>dd_dial\<close> connects and gives the address of the other end. \<open>dd_answer\<close> is the answer over the connection.
  \<open>dd_params\<close> reads the parameters of a \<open>Content-Disposition\<close>. \<open>dd_write\<close> writes at most as much of the body
  as was announced to a path of the server, and says how much it has read.
\<close>

record 'w download_deps =
  dd_bad_url :: "string \<Rightarrow> string option"
  dd_dial :: "string \<Rightarrow> 'w \<Rightarrow> (string + string) \<times> 'w"
  dd_parse_ip :: "string \<Rightarrow> ip option"
  dd_answer :: "string \<Rightarrow> 'w \<Rightarrow> http_response option \<times> 'w"
  dd_params :: "string \<Rightarrow> string + (string \<rightharpoonup> string)"
  dd_write :: "string \<Rightarrow> int \<Rightarrow> 'w \<Rightarrow> (string option \<times> int) \<times> 'w"

text \<open>The request of the client: redirects are not followed, and all errors are one.\<close>

definition checked_get :: "'w download_deps \<Rightarrow> string \<Rightarrow> 'w \<Rightarrow> http_response option \<times> 'w" where
  "checked_get d u w =
     (let p = dd_dial d u w
      in if fst (dial_checked (dd_parse_ip d) (fst p)) \<noteq> None then (None, snd p) else dd_answer d u (snd p))"

definition url_file_name :: "string \<Rightarrow> string" where
  "url_file_name p = last (split_char (CHR ''/'') p)"

definition chosen_path :: "download_request \<Rightarrow> string \<Rightarrow> string" where
  "chosen_path q header =
     (if header \<noteq> [] then header else if dq_file_name q \<noteq> [] then dq_file_name q else url_file_name (dq_url_path q))"

definition header_name :: "'w download_deps \<Rightarrow> download_request \<Rightarrow> http_response \<Rightarrow> string + string" where
  "header_name d q r =
     (if \<not> dq_use_header q \<or> hr_disposition r = [] then Inr []
      else (case dd_params d (hr_disposition r) of
              Inl e \<Rightarrow> Inl (''downloader: invalid '' @ [CHR 0x22] @ ''Content-Disposition'' @ [CHR 0x22] @ '' header: '' @ e)
            | Inr ps \<Rightarrow> Inr (case ps ''filename'' of None \<Rightarrow> [] | Some v \<Rightarrow> v)))"

definition download_path :: "download \<Rightarrow> string" where
  "download_path dl = path_join [dq_directory (dl_request dl), dl_path dl]"

definition fetch_download :: "'w download_deps \<Rightarrow> download \<Rightarrow> 'w \<Rightarrow> string option \<times> download \<times> 'w" where
  "fetch_download d dl w =
     (case dd_bad_url d (dq_url (dl_request dl)) of
        Some e \<Rightarrow> (Some (''downloader: failed to create request: '' @ e), dl, w)
      | None \<Rightarrow>
          (case checked_get d (dq_url (dl_request dl)) w of
             (None, w1) \<Rightarrow> (Some ''downloader: download request failed'', dl, w1)
           | (Some r, w1) \<Rightarrow>
               if hr_status r \<noteq> 200
               then (Some (''downloader: got bad response status from endpoint: '' @ hr_status_text r), dl, w1)
               else if hr_length r < 1 then (Some ''downloader: request is missing ContentLength'', dl, w1)
               else (case header_name d (dl_request dl) r of
                       Inl e \<Rightarrow> (Some e, dl, w1)
                     | Inr h \<Rightarrow>
                         (let dl1 = dl\<lparr>dl_path := chosen_path (dl_request dl) h\<rparr>
                          in case dd_write d (download_path dl1) (hr_length r) w1 of
                               ((e, n), w2) \<Rightarrow>
                                 (map_option (\<lambda>x. ''downloader: failed to write file to server directory: '' @ x) e,
                                  (if 0 < n then dl1\<lparr>dl_progress := (n, hr_length r)\<rparr> else dl1), w2)))))"

text \<open>A download that has ended in any way is no longer in the table.\<close>

definition execute_download ::
  "'w download_deps \<Rightarrow> download \<Rightarrow> downloader \<Rightarrow> 'w \<Rightarrow> string option \<times> download \<times> downloader \<times> 'w" where
  "execute_download d dl r w =
     (let p = fetch_download d dl w in (fst p, fst (snd p), remove_download (dl_id dl) r, snd (snd p)))"

definition cancel_download :: "download \<Rightarrow> downloader \<Rightarrow> downloader" where
  "cancel_download dl r = remove_download (dl_id dl) r"

section \<open>Which addresses are refused\<close>

lemma uint_drop: "uint (drop_bit k w) = uint w div 2 ^ k" for w :: "'a::len word"
  unfolding unsigned_drop_bit_eq by (simp add: drop_bit_eq_div bintr_uint)

lemma masked_eq_div:
  "a AND net_mask l = b AND net_mask l \<longleftrightarrow>
     uint a div 2 ^ (LENGTH('a) - l) = uint b div 2 ^ (LENGTH('a) - l)" for a b :: "'a::len word"
proof -
  let ?k = "LENGTH('a) - l"
  have d: "x AND NOT (mask ?k) = push_bit ?k (drop_bit ?k x)" for x :: "'a word"
    by (rule bit_word_eqI) (auto simp: bit_simps)
  have p: "drop_bit ?k (push_bit ?k (drop_bit ?k x)) = drop_bit ?k x" for x :: "'a word"
    by (rule bit_word_eqI) (auto simp: bit_simps dest: bit_imp_le_length)
  have "a AND net_mask l = b AND net_mask l \<longleftrightarrow> drop_bit ?k a = drop_bit ?k b"
    by (metis d p net_mask_def)
  also have "\<dots> \<longleftrightarrow> uint (drop_bit ?k a) = uint (drop_bit ?k b)" by (rule word_uint_eq_iff)
  also have "\<dots> \<longleftrightarrow> uint a div 2 ^ ?k = uint b div 2 ^ ?k"
    by (simp add: uint_drop)
  finally show ?thesis .
qed

text \<open>The first and the last address of what is refused.\<close>

definition refused_intervals :: "(int \<times> int) list" where
  "refused_intervals =
     List.map (\<lambda>(a, b). (uint a, uint b))
       [(ip4 10 0 0 0, ip4 10 255 255 255), (ip4 127 0 0 0, ip4 127 255 255 255), (ip4 169 254 0 0, ip4 169 254 255 255),
        (ip4 172 16 0 0, ip4 172 31 255 255), (ip4 192 168 0 0, ip4 192 168 255 255), (ip4 224 0 0 0, ip4 224 0 0 255)]"

lemma drop_bit_uint:
  "drop_bit k w = of_nat n \<longleftrightarrow> uint w div 2 ^ k = int n" if "int n < 2 ^ LENGTH('a)" for w :: "'a::len word"
proof -
  have "drop_bit k w = of_nat n \<longleftrightarrow> uint (drop_bit k w) = uint (of_nat n :: 'a word)" by (rule word_uint_eq_iff)
  also have "uint (of_nat n :: 'a word) = int n"
    using that by (simp add: unsigned_of_nat take_bit_nat_eq_self_iff nat_less_numeral_power_cancel_iff flip: of_nat_less_iff)
  also have "uint (drop_bit k w) = uint w div 2 ^ k" by (simp add: uint_drop)
  finally show ?thesis .
qed

lemma div_interval: "0 < k \<Longrightarrow> x div k = n \<longleftrightarrow> n * k \<le> x \<and> x < n * k + k" for x k n :: int
proof
  assume "0 < k" "n * k \<le> x \<and> x < n * k + k"
  then show "x div k = n" by (intro int_div_pos_eq [of _ _ _ "x - n * k"]) (auto simp: mult.commute)
next
  assume "0 < k" "x div k = n"
  then have "x = n * k + x mod k" "0 \<le> x mod k" "x mod k < k" by auto
  then show "n * k \<le> x \<and> x < n * k + k" by linarith
qed

lemma contains_v4:
  "net_contains (Net4 n l) (V4 w) \<longleftrightarrow> uint n div 2 ^ (32 - l) = uint w div 2 ^ (32 - l)"
  by (simp add: net_contains_def to4_def masked_eq_div)

lemma net6_v4: "\<not> net_contains (Net6 n l) (V4 w)"
  by (simp add: net_contains_def to4_def)

lemma uint_ip4:
  "a < 256 \<Longrightarrow> b < 256 \<Longrightarrow> c < 256 \<Longrightarrow> d < 256 \<Longrightarrow>
   uint (ip4 a b c d) = ((int a * 256 + int b) * 256 + int c) * 256 + int d"
  unfolding ip4_def unsigned_of_nat by (simp add: take_bit_nat_eq_self)

text \<open>
  The addresses of the fourth version that are refused are those of the six intervals and no other, whichever
  of the tests of the code refuses them.
\<close>

theorem refused_v4:
  "internal_address (V4 w) \<longleftrightarrow> (\<exists>(a, b) \<in> set refused_intervals. a \<le> uint w \<and> uint w \<le> b)"
proof -
  have l: "is_loopback (V4 w) \<longleftrightarrow> uint w div 2 ^ 24 = 127"
    using drop_bit_uint [where n = 127 and w = w] by (simp add: is_loopback_def to4_def)
  have u: "is_link_local_unicast (V4 w) \<longleftrightarrow> uint w div 2 ^ 16 = 43518"
    using drop_bit_uint [where n = 43518 and w = w] by (simp add: is_link_local_unicast_def to4_def)
  have m: "is_link_local_multicast (V4 w) \<longleftrightarrow> uint w div 2 ^ 8 = 14680064"
    using drop_bit_uint [where n = 14680064 and w = w] by (simp add: is_link_local_multicast_def to4_def)
  show ?thesis
    unfolding internal_address_def l u m refused_intervals_def internal_ranges_def
    by (simp add: contains_v4 uint_ip4 is_interface_local_multicast_def net6_v4 div_interval) linarith
qed


text \<open>
  Addresses that are not for the internet and that are asked all the same: those of carriers
  (\<open>100.64.0.0/10\<close>), the one that means this host, and all other multicast.
\<close>

lemma not_refused:
  "\<not> internal_address (V4 (ip4 100 64 0 1))" "\<not> internal_address (V4 (ip4 0 0 0 0))"
  "\<not> internal_address (V4 (ip4 224 0 1 1))"
  by (simp_all add: refused_v4 refused_intervals_def uint_ip4)

text \<open>An address of the fourth version that is written as one of the sixth is refused all the same.\<close>

lemma refused_mapped:
  assumes "drop_bit 32 w = 65535"
  shows "internal_address (V6 w) \<longleftrightarrow> internal_address (V4 (ucast w))"
proof -
  have "drop_bit 120 w = drop_bit 88 (drop_bit 32 w)" by simp
  then have "\<not> multicast6 1 w" unfolding multicast6_def assms by simp
  then show ?thesis
    by (simp add: internal_address_def is_loopback_def is_link_local_unicast_def is_link_local_multicast_def
        is_interface_local_multicast_def net_contains_def to4_def assms cong: ip_net.case_cong)
qed

text \<open>
  A connection that is refused is open when the client gets the error: the other end was reached.
\<close>

lemma refused_after_connecting:
  assumes "split_host_port addr = Some (h, p)" and "parse_ip h = Some i" and "internal_address i"
  shows "dial_checked parse_ip (Inr addr) = (Some Dial_Internal, True)"
  using assms by (simp add: dial_checked_def)

text \<open>
  Nothing of an address that is refused is written: a download whose connection ends there fails before there
  is an answer, and the world is that after the connection.
\<close>

theorem internal_download_fails:
  assumes "fst (dd_dial d (dq_url (dl_request dl)) w) = Inr addr"
    and "split_host_port addr = Some (h, p)" and "dd_parse_ip d h = Some (V4 a)"
    and "(lo, hi) \<in> set refused_intervals" and "lo \<le> uint a" and "uint a \<le> hi"
    and "dd_bad_url d (dq_url (dl_request dl)) = None"
  shows "execute_download d dl r w =
    (Some ''downloader: download request failed'', dl, remove_download (dl_id dl) r, snd (dd_dial d (dq_url (dl_request dl)) w))"
proof -
  have "internal_address (V4 a)" using assms(4-6) by (auto simp: refused_v4)
  then show ?thesis
    using assms by (simp add: execute_download_def fetch_download_def checked_get_def dial_checked_def Let_def)
qed

definition demo_request :: download_request where
  "demo_request = \<lparr>dq_directory = ''/plugins'', dq_url = ''http://example.org/d/a.jar'', dq_url_path = ''/d/a.jar'',
     dq_file_name = [], dq_use_header = True\<rparr>"

text \<open>Every name is at one address; the world counts the files written.\<close>

definition demo_downloads :: "string \<Rightarrow> ip \<Rightarrow> nat download_deps" where
  "demo_downloads addr i =
     \<lparr>dd_bad_url = (\<lambda>u. None), dd_dial = (\<lambda>u w. (Inr addr, w)), dd_parse_ip = (\<lambda>h. Some i),
      dd_answer = (\<lambda>u w. (Some \<lparr>hr_status = 200, hr_status_text = ''200 OK'', hr_length = 3, hr_disposition = []\<rparr>, w)),
      dd_params = (\<lambda>h. Inl ''x''), dd_write = (\<lambda>p n w. ((None, n), w + 1))\<rparr>"

lemma demo_download_runs:
  "let (dl, r) = new_download ''id'' ''srv'' demo_request empty_downloader;
       (e, dl1, r1, w) = execute_download (demo_downloads ''93.184.216.34:80'' (V4 (ip4 93 184 216 34))) dl r 0
   in e = None \<and> download_path dl1 = ''/plugins/a.jar'' \<and> dl_progress dl1 = (3, 3) \<and> by_server ''srv'' r = [dl] \<and>
      by_server ''srv'' r1 = [] \<and> w = 1"
proof -
  have a: "\<not> internal_address (V4 (ip4 93 184 216 34))" by (simp add: refused_v4 refused_intervals_def uint_ip4)
  have h: "split_host_port ''93.184.216.34:80'' = Some (''93.184.216.34'', ''80'')"
    and u: "url_file_name ''/d/a.jar'' = ''a.jar''" and j: "path_join [''/plugins'', ''a.jar''] = ''/plugins/a.jar''"
    by code_simp+
  show ?thesis
    by (simp add: new_download_def demo_request_def empty_downloader_def track_def execute_download_def
        fetch_download_def checked_get_def dial_checked_def demo_downloads_def a h u j header_name_def chosen_path_def
        download_path_def by_server_def remove_download_def map_filter_simps Let_def)
qed

theorem internal_download_fails_witness:
  "execute_download (demo_downloads ''10.1.2.3:80'' (V4 (ip4 10 1 2 3)))
     (fst (new_download ''id'' ''srv'' demo_request empty_downloader)) empty_downloader 0 =
   (Some ''downloader: download request failed'', fst (new_download ''id'' ''srv'' demo_request empty_downloader),
    remove_download (dl_id (fst (new_download ''id'' ''srv'' demo_request empty_downloader))) empty_downloader, 0)"
proof -
  have "split_host_port ''10.1.2.3:80'' = Some (''10.1.2.3'', ''80'')" by code_simp
  then show ?thesis
    using internal_download_fails [where d = "demo_downloads ''10.1.2.3:80'' (V4 (ip4 10 1 2 3))"
        and dl = "fst (new_download ''id'' ''srv'' demo_request empty_downloader)" and w = 0
        and addr = "''10.1.2.3:80''" and h = "''10.1.2.3''" and p = "''80''" and a = "ip4 10 1 2 3"
        and lo = "uint (ip4 10 0 0 0)" and hi = "uint (ip4 10 255 255 255)" and r = empty_downloader]
    by (simp add: demo_downloads_def refused_intervals_def uint_ip4)
qed

section \<open>The table\<close>

text \<open>What happens to the table: a download with a new identifier comes, or one goes.\<close>

inductive table_reachable :: "downloader \<Rightarrow> bool" where
  table_start: "table_reachable empty_downloader"
| table_new: "table_reachable r \<Longrightarrow> table_reachable (snd (new_download uuid server q r))"
| table_gone: "table_reachable r \<Longrightarrow> table_reachable (remove_download i r)"

definition ids_of :: "string \<Rightarrow> downloader \<Rightarrow> string list" where
  "ids_of sid r = (case dr_servers r sid of None \<Rightarrow> [] | Some ids \<Rightarrow> ids)"

definition table_ok :: "downloader \<Rightarrow> bool" where
  "table_ok r \<longleftrightarrow>
     (\<forall>sid. distinct (ids_of sid r) \<and>
        (\<forall>i. i \<in> set (ids_of sid r) \<longleftrightarrow> (\<exists>dl. dr_cache r i = Some dl \<and> dl_server dl = sid))) \<and>
     (\<forall>i dl. dr_cache r i = Some dl \<longrightarrow> dl_id dl = i)"

lemma ids_of_track:
  "ids_of sid (track dl r) =
     (if dr_cache r (dl_id dl) = None \<and> sid = dl_server dl then ids_of sid r @ [dl_id dl] else ids_of sid r)"
  by (auto simp: track_def ids_of_def Let_def split: option.split)

lemma cache_track: "dr_cache (track dl r) = (if dr_cache r (dl_id dl) = None then (dr_cache r)(dl_id dl \<mapsto> dl) else dr_cache r)"
  by (auto simp: track_def Let_def split: option.split)

lemma ids_of_remove:
  "ids_of sid (remove_download i r) =
     (if \<exists>dl. dr_cache r i = Some dl \<and> dl_server dl = sid then filter (\<lambda>k. k \<noteq> i) (ids_of sid r) else ids_of sid r)"
  by (auto simp: remove_download_def ids_of_def split: option.split)

lemma cache_remove: "dr_cache (remove_download i r) = (dr_cache r)(i := None)"
  by (auto simp: remove_download_def fun_upd_idem split: option.split)

lemma track_ok: "table_ok r \<Longrightarrow> table_ok (track dl r)"
  unfolding table_ok_def ids_of_track cache_track by (auto split: if_splits)

lemma remove_ok: "table_ok r \<Longrightarrow> table_ok (remove_download i r)"
  unfolding table_ok_def ids_of_remove cache_remove by (auto split: if_splits)

lemma table_reachable_ok: "table_reachable r \<Longrightarrow> table_ok r"
proof (induction rule: table_reachable.induct)
  case table_start
  then show ?case by (simp add: table_ok_def ids_of_def empty_downloader_def)
next
  case (table_new r uuid server q)
  then show ?case by (simp add: new_download_def track_ok Let_def)
next
  case (table_gone r i)
  then show ?case by (simp add: remove_ok)
qed


text \<open>
  Whatever downloads came and went, the table has for a server each of its downloads once, and those are all
  that are known for it.
\<close>

theorem downloads_by_server:
  assumes "table_reachable r"
  shows "distinct (by_server sid r) \<and> set (by_server sid r) = {dl \<in> ran (dr_cache r). dl_server dl = sid}"
proof -
  have ok: "table_ok r" using assms by (rule table_reachable_ok)
  then have m: "i \<in> set (ids_of sid r) \<longleftrightarrow> (\<exists>dl. dr_cache r i = Some dl \<and> dl_server dl = sid)" for i
    by (simp add: table_ok_def)
  have b: "by_server sid r = List.map (\<lambda>i. the (dr_cache r i)) (ids_of sid r)"
  proof -
    have "List.map_filter (dr_cache r) ids = List.map (\<lambda>i. the (dr_cache r i)) ids"
      if "\<forall>i \<in> set ids. dr_cache r i \<noteq> None" for ids
      using that by (induction ids) (auto simp: map_filter_simps)
    moreover have "\<forall>i \<in> set (ids_of sid r). dr_cache r i \<noteq> None" using m by auto
    ultimately show ?thesis by (auto simp: by_server_def ids_of_def map_filter_simps split: option.split)
  qed
  have i: "dl_id dl = i" if "dr_cache r i = Some dl" for i dl
    using that ok by (simp add: table_ok_def)
  have "inj_on (\<lambda>i. the (dr_cache r i)) (set (ids_of sid r))"
  proof (rule inj_onI)
    fix a b
    assume ab: "a \<in> set (ids_of sid r)" "b \<in> set (ids_of sid r)" "the (dr_cache r a) = the (dr_cache r b)"
    then obtain x y where "dr_cache r a = Some x" "dr_cache r b = Some y" using m by blast
    then show "a = b" using i ab(3) by (metis option.sel)
  qed
  moreover have "(\<lambda>i. the (dr_cache r i)) ` set (ids_of sid r) = {dl \<in> ran (dr_cache r). dl_server dl = sid}"
  proof (intro equalityI subsetI)
    fix dl
    assume "dl \<in> {dl \<in> ran (dr_cache r). dl_server dl = sid}"
    then obtain i where "dr_cache r i = Some dl" "dl_server dl = sid" by (auto simp: ran_def)
    then show "dl \<in> (\<lambda>i. the (dr_cache r i)) ` set (ids_of sid r)" using m by (intro image_eqI [of _ _ i]) auto
  next
    fix dl
    assume "dl \<in> (\<lambda>i. the (dr_cache r i)) ` set (ids_of sid r)"
    then obtain i x where x: "dl = the (dr_cache r i)" "dr_cache r i = Some x" "dl_server x = sid" using m by blast
    then have "x \<in> ran (dr_cache r)" using ranI by metis
    then show "dl \<in> {dl \<in> ran (dr_cache r). dl_server dl = sid}" using x by simp
  qed
  moreover have "distinct (ids_of sid r)" using ok by (simp add: table_ok_def)
  ultimately show ?thesis by (simp add: b distinct_map)
qed

theorem downloads_by_server_witness:
  "distinct (by_server ''srv'' (snd (new_download ''id'' ''srv'' demo_request empty_downloader))) \<and>
   set (by_server ''srv'' (snd (new_download ''id'' ''srv'' demo_request empty_downloader))) =
     {dl \<in> ran (dr_cache (snd (new_download ''id'' ''srv'' demo_request empty_downloader))). dl_server dl = ''srv''}"
  by (rule downloads_by_server) (intro table_reachable.intros)

lemma executed_is_gone:
  "find_download (dl_id dl) (fst (snd (snd (execute_download d dl r w)))) = None"
  by (simp add: execute_download_def find_download_def cache_remove Let_def)

end
