(* ===== verification/Archive.thy ===== *)
theory Archive
  imports Sftp Fs_Listing
begin

text \<open>
  Archives of a server's files, \<open>src/server/filesystem/archive.go\<close> with \<open>src/internal/progress/progress.go\<close>:
  which files a walk takes, under which names, and what is handed to the writer of the archive. The world
  extends the filesystem's by the writer, \<open>archive/tar\<close>: it keeps the entries begun so far, and how many bytes
  the last of them still lacks.
\<close>

section \<open>The writer\<close>

datatype tar_type = Tar_Regular | Tar_Directory | Tar_Symlink | Tar_Device | Tar_Fifo

record tar_header =
  th_name :: string
  th_type :: tar_type
  th_link :: string
  th_size :: int

record tar_entry =
  te_header :: tar_header
  te_data :: string

text \<open>\<open>ar_progress\<close> is the counter of a \<open>Progress\<close>, if there is one.\<close>

record 'k arw = "'k sfsw" +
  ar_entries :: "tar_entry list"
  ar_missing :: int
  ar_progress :: "64 word option"

type_synonym ('k, 'z, 'a) aio = "('k, 'z arw_ext sfsw_ext qfsw_ext, 'a) fio"

text \<open>
  What the compressor and the writer behind it do with a header and with bytes, and when they are closed, as
  functions of the kernel. \<open>to_readlink\<close> is \<open>os.Readlink\<close>, which reads names without a directory in the
  working directory of the program, and \<open>to_matches\<close> the third-party matcher of an ignore list.
\<close>

record 'k tar_out =
  to_header :: "tar_header \<Rightarrow> 'k \<Rightarrow> fs_err option \<times> 'k"
  to_bytes :: "string \<Rightarrow> 'k \<Rightarrow> fs_err option \<times> 'k"
  to_close :: "'k \<Rightarrow> 'k"
  to_readlink :: "string \<Rightarrow> 'k \<Rightarrow> fs_err + string"
  to_matches :: "string list \<Rightarrow> string \<Rightarrow> bool"

text \<open>\<open>outside\<close> is an effect that is no system call on the server's files.\<close>

definition outside :: "('k \<Rightarrow> 'a \<times> 'k) \<Rightarrow> ('k, 'm, 'a) fio" where
  "outside f = (\<lambda>w. (Some (fst (f (kst w))), w\<lparr>kst := snd (f (kst w))\<rparr>))"

text \<open>\<open>tar.FileInfoHeader\<close>.\<close>

definition file_info_header :: "file_info \<Rightarrow> string \<Rightarrow> fs_err + tar_header" where
  "file_info_header s link =
     (let m = fi_mode s; h = \<lparr>th_name = fi_name s, th_type = Tar_Regular, th_link = [], th_size = 0\<rparr>
      in if mode_is_regular m then Inr (h\<lparr>th_size := fi_size s\<rparr>)
         else if mode_is_dir m then Inr (h\<lparr>th_type := Tar_Directory, th_name := fi_name s @ ''/''\<rparr>)
         else if m AND mode_symlink \<noteq> 0 then Inr (h\<lparr>th_type := Tar_Symlink, th_link := link\<rparr>)
         else if m AND mode_device \<noteq> 0 then Inr (h\<lparr>th_type := Tar_Device\<rparr>)
         else if m AND mode_named_pipe \<noteq> 0 then Inr (h\<lparr>th_type := Tar_Fifo\<rparr>)
         else Inl (FsMessage (if m AND mode_socket \<noteq> 0 then ''archive/tar: sockets not supported''
                              else ''archive/tar: unknown file mode'')))"

text \<open>A header is refused while bytes of the entry before it are missing.\<close>

definition write_header :: "'k tar_out \<Rightarrow> tar_header \<Rightarrow> ('k, 'z, fs_err option) aio" where
  "write_header t h =
     ubind (asking ar_missing)
       (\<lambda>n. if 0 < n then uret (Some (FsMessage (''archive/tar: missed writing '' @ itoa n @ '' bytes'')))
            else ubind (outside (to_header t h))
                   (\<lambda>e. if e \<noteq> None then uret e
                        else ubind (modify (\<lambda>w. w\<lparr>ar_entries := ar_entries w @ [\<lparr>te_header = h, te_data = []\<rparr>],
                                                   ar_missing := th_size h\<rparr>))
                               (\<lambda>_. uret None)))"

definition add_data :: "string \<Rightarrow> tar_entry list \<Rightarrow> tar_entry list" where
  "add_data b es = butlast es @ [last es\<lparr>te_data := te_data (last es) @ b\<rparr>]"

text \<open>\<open>TarProgress.Write\<close>; no more is ever written than is missing.\<close>

definition tar_write :: "'k tar_out \<Rightarrow> string \<Rightarrow> ('k, 'z, fs_err option) aio" where
  "tar_write t b =
     ubind (modify (\<lambda>w. w\<lparr>ar_progress := map_option (\<lambda>p. p + of_nat (length b)) (ar_progress w)\<rparr>))
       (\<lambda>_. ubind (outside (to_bytes t b))
          (\<lambda>e. if e \<noteq> None then uret e
               else ubind (modify (\<lambda>w. w\<lparr>ar_entries := add_data b (ar_entries w), ar_missing := ar_missing w - int (length b)\<rparr>))
                      (\<lambda>_. uret None)))"

section \<open>Which files\<close>

record archive =
  ar_ignore :: string
  ar_base :: string
  ar_files :: "string list"

text \<open>Names of files that start with the path of the server lose it.\<close>

definition archive_files :: "string \<Rightarrow> string list \<Rightarrow> string list" where
  "archive_files root =
     List.map (\<lambda>f. if \<not> has_prefix f root then f else trim_prefix (trim_prefix f root) ''/'')"

definition cut_slash :: "archive \<Rightarrow> archive" where
  "cut_slash a = a\<lparr>ar_base := trim_prefix (ar_base a) ''/''\<rparr>"

definition file_matches :: "string \<Rightarrow> string \<Rightarrow> bool" where
  "file_matches f relative \<longleftrightarrow>
     f = relative \<or> has_prefix (trim_suffix relative ''/'' @ ''/'') (trim_suffix f ''/'' @ ''/'')"

definition selected :: "string list \<Rightarrow> string \<Rightarrow> bool" where
  "selected fs relative \<longleftrightarrow> (\<exists>f \<in> set fs. file_matches f relative)"

text \<open>Files that are named come before files that are ignored.\<close>

definition takes :: "'k tar_out \<Rightarrow> archive \<Rightarrow> string \<Rightarrow> bool" where
  "takes t a relative =
     (if ar_files a = [] \<and> ar_ignore a \<noteq> [] then \<not> to_matches t (split_char (CHR 0x0A) (ar_ignore a)) relative
      else if ar_files a \<noteq> [] then selected (ar_files a) relative
      else True)"

text \<open>\<open>filepath.Base\<close>.\<close>

definition path_base :: "string \<Rightarrow> string" where
  "path_base p =
     (if p = [] then ''.''
      else (let q = rev (dropWhile (\<lambda>c. c = CHR ''/'') (rev p))
            in if q = [] then ''/'' else snd (path_split q)))"

definition base_prefix :: "string \<Rightarrow> string" where
  "base_prefix b = (if b \<noteq> [] then path_base b @ ''/'' else [])"

definition archive_name :: "archive \<Rightarrow> string \<Rightarrow> string" where
  "archive_name a relative =
     (let base = base_prefix (ar_base a) in if base \<noteq> [] then trim_prefix relative base else relative)"

section \<open>Adding a file\<close>

definition quoted :: "string \<Rightarrow> string" where
  "quoted name = CHR 0x27 # name @ [CHR 0x27]"

text \<open>\<open>os.IsNotExist\<close> looks below one \<open>PathError\<close> only.\<close>

fun underlying :: "fs_err \<Rightarrow> fs_err" where
  "underlying (PathError op path e) = e"
| "underlying (LinkError op old new e) = e"
| "underlying e = e"

definition os_is_not_exist :: "fs_err \<Rightarrow> bool" where
  "os_is_not_exist e \<longleftrightarrow> underlying e \<in> {ErrNotExist, Errno ENOENT}"

text \<open>\<open>io.CopyBuffer\<close> from a file, limited to the size of the header.\<close>

definition copy_to_archive :: "'k os \<Rightarrow> 'k tar_out \<Rightarrow> int \<Rightarrow> int \<Rightarrow> ('k, 'z, fs_err option) aio" where
  "copy_to_archive os t fd sz =
     ubind (sys (os_read os fd) (\<lambda>_. CRead fd))
       (\<lambda>(bytes, rerr).
          let r = limited (Some sz) \<lparr>rd_data = bytes, rd_err = rerr\<rparr>
          in if rd_data r = [] then uret (rd_err r)
             else ubind (tar_write t (rd_data r)) (\<lambda>e. uret (if e \<noteq> None then e else rd_err r)))"

definition write_file :: "sfs_cfg \<Rightarrow> 'k os \<Rightarrow> 'k tar_out \<Rightarrow> int \<Rightarrow> string \<Rightarrow> tar_header
    \<Rightarrow> ('k, 'z, fs_err option) aio" where
  "write_file sc os t dirfd name h =
     ubind (open_fileat (sc_fs sc) os dirfd name {} 0)
       (\<lambda>r. case r of
              Inl e \<Rightarrow> if os_is_not_exist e then uret None
                        else uret (Some (Annotated (''failed to open '' @ quoted (th_name h) @ '' for copying'') e))
            | Inr fd \<Rightarrow>
                ubind (copy_to_archive os t fd (th_size h))
                  (\<lambda>res. ubind (close_fd os fd)
                     (\<lambda>_. uret (map_option (Annotated (''failed to copy '' @ quoted (th_name h) @ '' to archive'')) res))))"

text \<open>The target of a link, or nothing when the link cannot be read: then the entry is left out.\<close>

definition link_target :: "'k tar_out \<Rightarrow> file_info \<Rightarrow> ('k, 'm, string option) fio" where
  "link_target t s =
     (if fi_mode s AND mode_symlink \<noteq> 0
      then asking (\<lambda>w. case to_readlink t (fi_name s) (kst w) of Inl e \<Rightarrow> None | Inr x \<Rightarrow> Some x)
      else uret (Some []))"

text \<open>
  The information of an entry is asked for below its directory. A socket is left out; a link keeps the name
  that the information has, which is the last component.
\<close>

definition add_to_archive :: "sfs_cfg \<Rightarrow> 'k os \<Rightarrow> 'k tar_out \<Rightarrow> int \<Rightarrow> string \<Rightarrow> string
    \<Rightarrow> ('k, 'z, fs_err option) aio" where
  "add_to_archive sc os t dirfd name relative =
     ubind (lstatat os dirfd name)
       (\<lambda>r. case r of
              Inl e \<Rightarrow> uret (if errors_is e ErrNotExist then None
                              else Some (Annotated (''failed executing os.Lstat on '' @ quoted name) e))
            | Inr s \<Rightarrow>
                if fi_mode s AND mode_socket \<noteq> 0 then uret None
                else ubind (link_target t s)
                       (\<lambda>target. case target of
                          None \<Rightarrow> uret None
                        | Some link \<Rightarrow>
                            (case file_info_header s link of
                               Inl e \<Rightarrow> uret (Some (Annotated (''failed to get tar#FileInfoHeader for '' @ quoted name) e))
                             | Inr h0 \<Rightarrow>
                                 (let h = (if fi_mode s AND mode_symlink = 0 then h0\<lparr>th_name := relative\<rparr> else h0)
                                  in ubind (write_header t h)
                                       (\<lambda>e. case e of
                                              Some x \<Rightarrow> uret (Some (Annotated (''failed to write tar#FileInfoHeader for '' @ quoted name) x))
                                            | None \<Rightarrow> if th_size h < 1 then uret None
                                                      else write_file sc os t dirfd name h)))))"

section \<open>The archive\<close>

text \<open>\<open>ended\<close> is the error of the context when an entry is reached, if it has ended by then.\<close>

definition archive_callback :: "sfs_cfg \<Rightarrow> 'k os \<Rightarrow> 'k tar_out \<Rightarrow> archive \<Rightarrow> (string \<Rightarrow> fs_err option)
    \<Rightarrow> ('k, 'z arw_ext sfsw_ext qfsw_ext) walk_fn" where
  "archive_callback sc os t a ended dirfd name relative d err =
     (case err of
        Some e \<Rightarrow> uret (Some (WalkErr e))
      | None \<Rightarrow>
          (case ended relative of
             Some e \<Rightarrow> uret (Some (WalkErr e))
           | None \<Rightarrow>
               if (case d of Some m \<Rightarrow> mode_is_dir m | None \<Rightarrow> False) then uret None
               else (let n = archive_name a relative
                     in if \<not> takes t a n then uret None
                        else ubind (add_to_archive sc os t dirfd name n) (\<lambda>e. uret (map_option WalkErr e)))))"

definition archive_stream :: "sfs_cfg \<Rightarrow> 'k os \<Rightarrow> 'k tar_out \<Rightarrow> archive \<Rightarrow> (string \<Rightarrow> fs_err option)
    \<Rightarrow> ('k, 'z, fs_err option) aio" where
  "archive_stream sc os t a0 ended =
     (let a1 = cut_slash a0; a = a1\<lparr>ar_files := archive_files (fs_base (sc_fs sc)) (ar_files a1)\<rparr>
      in ubind (with_safe_path (sc_fs sc) os (ar_base a) Some
                  (\<lambda>dirfd name. walk_dirat (sc_fs sc) os dirfd name (archive_callback sc os t a ended)))
           (\<lambda>res. ubind (outside (\<lambda>k. ((), to_close t k))) (\<lambda>_. uret res)))"

text \<open>\<open>Create\<close> makes the file of the archive, which is not one of the server's: \<open>open_dst\<close>.\<close>

definition archive_create :: "sfs_cfg \<Rightarrow> 'k os \<Rightarrow> 'k tar_out \<Rightarrow> archive \<Rightarrow> (string \<Rightarrow> fs_err option)
    \<Rightarrow> ('k \<Rightarrow> fs_err option \<times> 'k) \<Rightarrow> ('k \<Rightarrow> 'k) \<Rightarrow> ('k, 'z, fs_err option) aio" where
  "archive_create sc os t a ended open_dst close_dst =
     ubind (outside open_dst)
       (\<lambda>e. if e \<noteq> None then uret e
            else ubind (archive_stream sc os t a ended)
                   (\<lambda>res. ubind (outside (\<lambda>k. ((), close_dst k))) (\<lambda>_. uret res)))"

end
