(* ===== verification/Fs_Invariants.thy ===== *)
theory Fs_Invariants
  imports World_Order
begin

text \<open>
  Conditions on the fields that a world is extended with. System calls do not touch them, so every operation
  that only makes such calls keeps them; an operation that does touch them is taken step by step.
\<close>

definition triple :: "(('k, 'm) fsw_scheme \<Rightarrow> bool) \<Rightarrow> (('k, 'm) fsw_scheme \<Rightarrow> bool) \<Rightarrow> ('k, 'm, 'a) fio
    \<Rightarrow> ('a \<Rightarrow> ('k, 'm) fsw_scheme \<Rightarrow> bool) \<Rightarrow> bool" where
  "triple I P m Q \<longleftrightarrow>
     (\<forall>w. P w \<longrightarrow> (case fst (m w) of None \<Rightarrow> I (snd (m w)) | Some x \<Rightarrow> Q x (snd (m w))))"

definition rest_only :: "(('k, 'm) fsw_scheme \<Rightarrow> bool) \<Rightarrow> bool" where
  "rest_only P \<longleftrightarrow> (\<forall>w w'. fsw.more w' = fsw.more w \<longrightarrow> P w \<longrightarrow> P w')"

named_theorems triple_intros \<open>triples by the shape of the operation\<close>

lemma triple_bind:
  assumes "triple I P m R" and "\<And>x. triple I (R x) (f x) Q"
  shows "triple I P (ubind m f) Q"
  unfolding triple_def
proof (intro allI impI)
  fix w
  assume "P w"
  then have m: "case fst (m w) of None \<Rightarrow> I (snd (m w)) | Some x \<Rightarrow> R x (snd (m w))"
    using assms(1) by (simp add: triple_def)
  show "case fst (ubind m f w) of None \<Rightarrow> I (snd (ubind m f w)) | Some x \<Rightarrow> Q x (snd (ubind m f w))"
  proof (cases "fst (m w)")
    case None
    then show ?thesis using m by (cases "m w") (simp add: ubind_def)
  next
    case (Some x)
    then have "ubind m f w = f x (snd (m w))" by (cases "m w") (simp add: ubind_def)
    moreover have "R x (snd (m w))" using m Some by simp
    ultimately show ?thesis using assms(2) [of x] by (simp only: triple_def)
  qed
qed

lemma triple_ret: "(\<And>w. P w \<Longrightarrow> Q x w) \<Longrightarrow> triple I P (uret x) Q"
  by (simp add: triple_def uret_def)

lemma triple_ret_same [triple_intros]: "triple I P (uret x) (\<lambda>_. P)"
  by (rule triple_ret)

lemma triple_if [triple_intros]:
  "(b \<Longrightarrow> triple I P f Q) \<Longrightarrow> (\<not> b \<Longrightarrow> triple I P g Q) \<Longrightarrow> triple I P (if b then f else g) Q"
  by simp

lemma triple_option [triple_intros]:
  "(m = None \<Longrightarrow> triple I P f Q) \<Longrightarrow> (\<And>x. m = Some x \<Longrightarrow> triple I P (g x) Q) \<Longrightarrow>
   triple I P (case m of None \<Rightarrow> f | Some x \<Rightarrow> g x) Q"
  by (cases m) auto

lemma triple_sum [triple_intros]:
  "(\<And>x. m = Inl x \<Longrightarrow> triple I P (f x) Q) \<Longrightarrow> (\<And>x. m = Inr x \<Longrightarrow> triple I P (g x) Q) \<Longrightarrow>
   triple I P (case m of Inl x \<Rightarrow> f x | Inr x \<Rightarrow> g x) Q"
  by (cases m) auto

lemma triple_prod [triple_intros]: "(\<And>x y. triple I P (f x y) Q) \<Longrightarrow> triple I P (case p of (x, y) \<Rightarrow> f x y) Q"
  by (cases p) auto

lemma triple_conseq:
  "triple I P' m Q' \<Longrightarrow> (\<And>w. P w \<Longrightarrow> P' w) \<Longrightarrow> (\<And>x w. Q' x w \<Longrightarrow> Q x w) \<Longrightarrow> triple I P m Q"
  unfolding triple_def by (metis (mono_tags, lifting) option.case_eq_if)

lemma triple_modify: "(\<And>w. P w \<Longrightarrow> Q () (f w)) \<Longrightarrow> triple I P (modify f) Q"
  by (simp add: triple_def modify_def)

lemma triple_asking: "(\<And>w. P w \<Longrightarrow> Q (f w) w) \<Longrightarrow> triple I P (asking f) Q"
  by (simp add: triple_def asking_def)

lemma triple_pure: "(\<And>w. P w \<Longrightarrow> A) \<Longrightarrow> (A \<Longrightarrow> triple I P m Q) \<Longrightarrow> triple I P m Q"
  by (auto simp: triple_def)

lemma triple_still:
  assumes "still m" and "rest_only P" and "\<And>w. P w \<Longrightarrow> I w"
  shows "triple I P m (\<lambda>_. P)"
  unfolding triple_def
proof (intro allI impI)
  fix w
  assume w: "P w"
  have "fsw.more (snd (m w)) = fsw.more w" using assms(1) by (simp add: moves_def same_rest_def)
  then have "P (snd (m w))" using w assms(2) by (auto simp: rest_only_def)
  then show "case fst (m w) of None \<Rightarrow> I (snd (m w)) | Some x \<Rightarrow> P (snd (m w))"
    using assms(3) by (auto split: option.split)
qed

text \<open>An operation that keeps a condition, whether it returns or not.\<close>

definition across :: "('w \<Rightarrow> bool) \<Rightarrow> 'w \<Rightarrow> 'w \<Rightarrow> bool" where
  "across I w w' \<longleftrightarrow> (I w \<longrightarrow> I w')"

lemma triple_across: "triple I I m (\<lambda>_. I) \<longleftrightarrow> moves (across I) m"
  by (auto simp: triple_def moves_def across_def split: option.splits)

locale world_invariant =
  fixes I :: "('k, 'm) fsw_scheme \<Rightarrow> bool"
  assumes I_rest: "fsw.more w' = fsw.more w \<Longrightarrow> I w \<Longrightarrow> I w'"
begin

lemma I_rest_only: "rest_only I"
  using I_rest by (auto simp: rest_only_def)

lemma step:
  assumes "still m"
  shows "triple I I m (\<lambda>_. I)"
  using assms I_rest_only by (rule triple_still)

end

sublocale world_invariant \<subseteq> keep: stat_order "across I"
proof -
  have "across I w (w\<lparr>kst := k, calls := cs\<rparr>)" for w k cs
    using I_rest [of "w\<lparr>kst := k, calls := cs\<rparr>" w] by (simp add: across_def)
  then show "stat_order (across I)" by unfold_locales (auto simp: across_def)
qed

end
