(* ===== verification/Archive_Laws.thy ===== *)
theory Archive_Laws
  imports Archive Fs_Invariants
begin

text \<open>
  What archives of a server's files are: the files are only read, the entries that were begun have all their
  bytes except perhaps the last, and their names are of files that were asked for.
\<close>

section \<open>Reading only\<close>

lemma reads_only_outside: "moves reads_only (outside f)"
  by (simp add: moves_def outside_def reads_only_def)

lemma reads_only_modify: "(\<And>w. calls (f w) = calls w) \<Longrightarrow> moves reads_only (modify f)"
  by (simp add: moves_def modify_def reads_only_def)

lemma open_read_only: "moves reads_only (open_fileat fs os d n {} m)"
  unfolding open_fileat_def by (intro moves_intros qu.openat_read) simp

lemma write_header_reads: "moves reads_only (write_header t h)"
  unfolding write_header_def by (intro moves_intros reads_only_outside reads_only_modify) simp

lemma tar_write_reads: "moves reads_only (tar_write t b)"
  unfolding tar_write_def by (intro moves_intros reads_only_outside reads_only_modify) simp_all

lemma add_to_archive_reads: "moves reads_only (add_to_archive sc os t d n rel)"
  unfolding add_to_archive_def link_target_def write_file_def copy_to_archive_def Let_def
  by (intro moves_intros write_header_reads tar_write_reads open_read_only)

text \<open>
  Streaming an archive makes no system call that changes something, whatever is asked for and whatever the
  kernel answers.
\<close>

theorem archive_reads_only: "moves reads_only (archive_stream sc os t a ended)"
  unfolding archive_stream_def Let_def
  by (intro moves_intros reads_only_outside qu.walk_dirat)
     (auto simp: archive_callback_def Let_def intro!: moves_intros add_to_archive_reads)

section \<open>Whole entries\<close>

definition whole :: "tar_entry \<Rightarrow> bool" where
  "whole e \<longleftrightarrow> int (length (te_data e)) = max 0 (th_size (te_header e))"

definition asked_for :: "'k tar_out \<Rightarrow> archive \<Rightarrow> tar_entry \<Rightarrow> bool" where
  "asked_for t a e \<longleftrightarrow> th_type (te_header e) \<in> {Tar_Symlink, Tar_Directory} \<or> takes t a (th_name (te_header e))"

definition entries_good :: "'k tar_out \<Rightarrow> archive \<Rightarrow> tar_entry list \<Rightarrow> int \<Rightarrow> bool" where
  "entries_good t a es missing \<longleftrightarrow>
     (\<forall>e \<in> set (butlast es). whole e) \<and> (\<forall>e \<in> set es. asked_for t a e) \<and>
     (if es = [] then missing = 0
      else int (length (te_data (last es))) + max 0 missing = max 0 (th_size (te_header (last es))))"

lemma entries_good_whole: "entries_good t a es n \<Longrightarrow> n \<le> 0 \<Longrightarrow> \<forall>e \<in> set es. whole e"
  by (cases es rule: rev_cases) (auto simp: entries_good_def whole_def)

lemma entries_good_snoc:
  "entries_good t a es n \<Longrightarrow> n \<le> 0 \<Longrightarrow> th_type h \<in> {Tar_Symlink, Tar_Directory} \<or> takes t a (th_name h) \<Longrightarrow>
   entries_good t a (es @ [\<lparr>te_header = h, te_data = []\<rparr>]) (th_size h)"
  using entries_good_whole [of t a es n] by (auto simp: entries_good_def asked_for_def)

lemma entries_good_add:
  assumes "entries_good t a es n" and "es \<noteq> []" and "int (length b) \<le> n"
  shows "entries_good t a (add_data b es) (n - int (length b))"
proof (cases es rule: rev_cases)
  case (snoc ys e)
  have "asked_for t a (e\<lparr>te_data := d\<rparr>) = asked_for t a e" for d by (simp add: asked_for_def)
  then show ?thesis using assms by (simp add: entries_good_def add_data_def snoc)
qed (use assms in simp)

definition tar_good :: "'k tar_out \<Rightarrow> archive \<Rightarrow> ('k, ('z arw_ext) sfsw_ext qfsw_ext) fsw_scheme \<Rightarrow> bool" where
  "tar_good t a w \<longleftrightarrow> entries_good t a (ar_entries w) (ar_missing w)"

lemma tar_fields:
  fixes w w' :: "('k, ('z arw_ext) sfsw_ext qfsw_ext) fsw_scheme"
  assumes "fsw.more w' = fsw.more w"
  shows "ar_entries w' = ar_entries w \<and> ar_missing w' = ar_missing w"
proof -
  have "w' = w\<lparr>kst := kst w', calls := calls w'\<rparr>" by (rule fsw.equality) (use assms in simp_all)
  then obtain k cs where "w' = w\<lparr>kst := k, calls := cs\<rparr>" by blast
  then show ?thesis by simp
qed

interpretation tg: world_invariant "tar_good t a"
  by (rule world_invariant.intro) (metis tar_fields tar_good_def)

lemma tar_good_outside: "moves (across (tar_good t a)) (outside f)"
  by (simp add: moves_def across_def outside_def tar_good_def)

text \<open>The header \<open>h\<close> is the last, and nothing of its file is there yet.\<close>

definition header_written :: "'k tar_out \<Rightarrow> archive \<Rightarrow> tar_header \<Rightarrow> ('k, ('z arw_ext) sfsw_ext qfsw_ext) fsw_scheme \<Rightarrow> bool" where
  "header_written t a h w \<longleftrightarrow> tar_good t a w \<and> ar_entries w \<noteq> [] \<and> ar_missing w = th_size h"

lemma header_written_rest: "rest_only (header_written t a h)"
  unfolding rest_only_def header_written_def tar_good_def by (metis tar_fields)

lemma write_header_good:
  assumes "th_type h \<in> {Tar_Symlink, Tar_Directory} \<or> takes t a (th_name h)"
  shows "triple (tar_good t a) (tar_good t a) (write_header t h)
     (\<lambda>r. if r = None then header_written t a h else tar_good t a)"
  unfolding write_header_def
proof (rule triple_bind [where R = "\<lambda>n w. tar_good t a w \<and> ar_missing w = n"], goal_cases)
  case 1
  show ?case by (rule triple_asking) simp
next
  case (2 n)
  let ?P = "\<lambda>w. tar_good t a w \<and> ar_missing w = n"
  have o: "triple (tar_good t a) ?P (outside f) (\<lambda>_. ?P)" for f
    by (auto simp: triple_def outside_def tar_good_def)
  have m: "triple (tar_good t a) ?P
      (modify (\<lambda>w. w\<lparr>ar_entries := ar_entries w @ [\<lparr>te_header = h, te_data = []\<rparr>], ar_missing := th_size h\<rparr>))
      (\<lambda>_. header_written t a h)" if "\<not> 0 < n"
    by (rule triple_modify) (use that assms in \<open>auto simp: header_written_def tar_good_def intro: entries_good_snoc\<close>)
  show ?case
  proof (rule triple_if, goal_cases)
    case 1
    show ?case by (rule triple_ret) simp
  next
    case 2
    show ?case
    proof (rule triple_bind [OF o], rule triple_if, goal_cases)
      case (1 e)
      then show ?case by (intro triple_ret) auto
    next
      case (2 e)
      show ?case by (rule triple_bind [OF m [OF \<open>\<not> 0 < n\<close>]], rule triple_ret) simp
    qed
  qed
qed

lemma tar_write_good:
  "triple (tar_good t a) (\<lambda>w. header_written t a h w \<and> int (length b) \<le> th_size h) (tar_write t b) (\<lambda>_. tar_good t a)"
  unfolding tar_write_def
proof (rule triple_bind [where R = "\<lambda>_ w. header_written t a h w \<and> int (length b) \<le> th_size h"], goal_cases)
  case 1
  show ?case by (rule triple_modify) (auto simp: header_written_def tar_good_def)
next
  case (2 u)
  let ?P = "\<lambda>w. header_written t a h w \<and> int (length b) \<le> th_size h"
  have o: "triple (tar_good t a) ?P (outside f) (\<lambda>_. ?P)" for f
    by (auto simp: triple_def outside_def header_written_def tar_good_def)
  have m: "triple (tar_good t a) ?P
      (modify (\<lambda>w. w\<lparr>ar_entries := add_data b (ar_entries w), ar_missing := ar_missing w - int (length b)\<rparr>))
      (\<lambda>_. tar_good t a)"
    by (rule triple_modify) (auto simp: header_written_def tar_good_def intro!: entries_good_add)
  show ?case
  proof (rule triple_bind [OF o], rule triple_if, goal_cases)
    case (1 e)
    show ?case by (rule triple_ret) (simp add: header_written_def)
  next
    case (2 e)
    show ?case by (rule triple_bind [OF m], rule triple_ret) simp
  qed
qed

lemma limited_length: "length (rd_data (limited (Some n) r)) \<le> nat n"
  by (simp add: limited_def)

lemma copy_good:
  "triple (tar_good t a) (header_written t a h) (copy_to_archive os t fd (th_size h)) (\<lambda>_. tar_good t a)"
  unfolding copy_to_archive_def
proof (rule triple_bind, rule triple_still)
  show "still (sys (os_read os fd) (\<lambda>_. CRead fd))" by (intro moves_intros)
  show "rest_only (header_written t a h)" by (rule header_written_rest)
  show "header_written t a h w \<Longrightarrow> tar_good t a w" for w by (simp add: header_written_def)
  fix x :: "string \<times> fs_err option"
  obtain bytes rerr where x: "x = (bytes, rerr)" by fastforce
  let ?r = "limited (Some (th_size h)) \<lparr>rd_data = bytes, rd_err = rerr\<rparr>"
  have l: "rd_data ?r \<noteq> [] \<Longrightarrow> int (length (rd_data ?r)) \<le> th_size h"
    using limited_length [of "th_size h" "\<lparr>rd_data = bytes, rd_err = rerr\<rparr>"] by (cases "rd_data ?r") auto
  have w: "triple (tar_good t a) (header_written t a h) (tar_write t (rd_data ?r)) (\<lambda>_. tar_good t a)" if "rd_data ?r \<noteq> []"
    by (rule triple_conseq [OF tar_write_good [of t a h]]) (use l [OF that] in auto)
  show "triple (tar_good t a) (header_written t a h)
     (case x of (bytes, rerr) \<Rightarrow>
        let r = limited (Some (th_size h)) \<lparr>rd_data = bytes, rd_err = rerr\<rparr>
        in if rd_data r = [] then uret (rd_err r)
           else ubind (tar_write t (rd_data r)) (\<lambda>e. uret (if e \<noteq> None then e else rd_err r)))
     (\<lambda>_. tar_good t a)"
    unfolding x prod.case Let_def
  proof (rule triple_if, goal_cases)
    case 1
    show ?case by (rule triple_ret) (simp add: header_written_def)
  next
    case 2
    show ?case by (rule triple_bind [OF w [OF 2]], rule triple_ret) simp
  qed
qed

lemma header_written_good: "header_written t a h w \<Longrightarrow> tar_good t a w"
  by (simp add: header_written_def)

lemma write_file_good:
  "triple (tar_good t a) (header_written t a h) (write_file sc os t d n h) (\<lambda>_. tar_good t a)"
  unfolding write_file_def
proof (rule triple_bind, rule triple_still)
  show "still (open_fileat (sc_fs sc) os d n {} 0)" by (intro moves_intros)
  fix r :: "fs_err + int"
  have c: "triple (tar_good t a) (tar_good t a) (close_fd os fd) (\<lambda>_. tar_good t a)" for fd
    by (rule tg.step) (intro moves_intros)
  show "triple (tar_good t a) (header_written t a h)
     (case r of
        Inl e \<Rightarrow> if os_is_not_exist e then uret None
                  else uret (Some (Annotated (''failed to open '' @ quoted (th_name h) @ '' for copying'') e))
      | Inr fd \<Rightarrow>
          ubind (copy_to_archive os t fd (th_size h))
            (\<lambda>res. ubind (close_fd os fd)
               (\<lambda>_. uret (map_option (Annotated (''failed to copy '' @ quoted (th_name h) @ '' to archive'')) res))))
     (\<lambda>_. tar_good t a)"
    by (intro triple_sum triple_if triple_ret triple_bind [OF copy_good] triple_bind [OF c])
       (simp_all add: header_written_good)
qed (auto intro: header_written_rest header_written_good)

lemma link_target_still: "still (link_target t s)"
  unfolding link_target_def by (intro moves_intros)

lemma regular_no_link:
  assumes "mode_is_regular m"
  shows "m AND mode_symlink = 0"
proof -
  have link: "bit mode_symlink n \<longleftrightarrow> n = 27" for n
    unfolding mode_symlink_def bit_push_bit_iff by (auto simp: bit_1_iff)
  then have "bit mode_symlink 27" by simp
  then have "bit mode_type 27" by (simp add: mode_type_def bit_or_iff)
  then have "\<not> bit m 27" using assms unfolding mode_is_regular_def by (metis bit_0_eq bit_and_iff bot_apply bot_bool_def)
  then show ?thesis by (auto intro!: bit_word_eqI simp: link bit_and_iff)
qed

lemma link_type:
  "file_info_header s l = Inr h \<Longrightarrow> fi_mode s AND mode_symlink \<noteq> 0 \<Longrightarrow> th_type h \<in> {Tar_Symlink, Tar_Directory}"
  by (auto simp: file_info_header_def Let_def regular_no_link split: if_splits)

lemma add_to_archive_good:
  assumes "takes t a rel"
  shows "triple (tar_good t a) (tar_good t a) (add_to_archive sc os t d n rel) (\<lambda>_. tar_good t a)"
proof -
  have header: "triple (tar_good t a) (tar_good t a)
      (ubind (write_header t h)
         (\<lambda>e. case e of
                Some x \<Rightarrow> uret (Some (Annotated (''failed to write tar#FileInfoHeader for '' @ quoted n) x))
              | None \<Rightarrow> if th_size h < 1 then uret None else write_file sc os t d n h))
      (\<lambda>_. tar_good t a)"
    if "th_type h \<in> {Tar_Symlink, Tar_Directory} \<or> takes t a (th_name h)" for h
    by (rule triple_bind [OF write_header_good [OF that]])
       (auto intro!: triple_ret write_file_good split: option.split simp: header_written_good)
  have named: "th_type h \<in> {Tar_Symlink, Tar_Directory} \<or> takes t a (th_name h)"
    if "file_info_header s l = Inr h0" and "h = (if fi_mode s AND mode_symlink = 0 then h0\<lparr>th_name := rel\<rparr> else h0)"
    for s l h0 h
    using that assms link_type [OF that(1)] by auto
  show ?thesis unfolding add_to_archive_def Let_def
    by (intro triple_bind [OF tg.step] triple_sum triple_if triple_option triple_ret_same header link_target_still
        named moves_intros) auto
qed

lemma archive_callback_good:
  "moves (across (tar_good t a)) (archive_callback sc os t a ended d n rel m err)"
  unfolding triple_across [symmetric] archive_callback_def Let_def
  by (intro triple_option triple_if triple_ret_same triple_bind [OF add_to_archive_good]) auto

definition prepared :: "sfs_cfg \<Rightarrow> archive \<Rightarrow> archive" where
  "prepared sc a = (cut_slash a)\<lparr>ar_files := archive_files (fs_base (sc_fs sc)) (ar_files (cut_slash a))\<rparr>"

lemma archive_stream_good: "moves (across (tar_good t (prepared sc a))) (archive_stream sc os t a ended)"
  unfolding archive_stream_def Let_def prepared_def [symmetric]
  by (intro moves_intros tg.keep.walk_dirat archive_callback_good tar_good_outside)

text \<open>
  C29: Of an archive that was streamed, or that is being streamed when the run stops, each entry but the last has all
  the bytes that its header announces, the last no more than those, and each entry that is neither a link nor a
  directory has the name of a file that is among those asked for or that is not ignored.
\<close>

theorem archive_well_formed:
  assumes "ar_entries w = []" and "ar_missing w = 0" and "w' = snd (archive_stream sc os t a ended w)"
  shows "(\<forall>e \<in> set (butlast (ar_entries w')). whole e) \<and> (\<forall>e \<in> set (ar_entries w'). asked_for t (prepared sc a) e) \<and>
    (ar_entries w' \<noteq> [] \<longrightarrow>
       int (length (te_data (last (ar_entries w')))) \<le> max 0 (th_size (te_header (last (ar_entries w')))))"
proof -
  have "tar_good t (prepared sc a) w" using assms(1,2) by (simp add: tar_good_def entries_good_def)
  then have "tar_good t (prepared sc a) w'"
    using movesD [OF archive_stream_good [of t sc a os ended], of w] assms(3) by (simp add: across_def)
  then show ?thesis unfolding tar_good_def entries_good_def by (auto split: if_splits)
qed

definition example_out :: "(int list \<times> bool) tar_out" where
  "example_out =
     \<lparr>to_header = (\<lambda>h k. (None, k)), to_bytes = (\<lambda>b k. (None, k)), to_close = id,
      to_readlink = (\<lambda>n k. Inl ErrNotExist), to_matches = (\<lambda>ls r. False)\<rparr>"

definition example_archive :: archive where
  "example_archive = \<lparr>ar_ignore = [], ar_base = ''/'', ar_files = [''a'']\<rparr>"

definition archive_world :: "(int list \<times> bool) arw" where
  "archive_world = \<lparr>kst = ([0], True), calls = [], q_limit = 100, q_usage = 40, sf_last_lookup = None,
     sf_in_progress = False, sf_hard_links = [], sf_size = 0, ar_entries = [], ar_missing = 0, ar_progress = Some 0\<rparr>"

text \<open>Of the two names in the directory, the one that is asked for.\<close>

lemma example_archive_run:
  "fst (archive_stream example_sfs dir_os example_out example_archive (\<lambda>_. None) archive_world) = Some None"
  "ar_entries (snd (archive_stream example_sfs dir_os example_out example_archive (\<lambda>_. None) archive_world)) =
     [\<lparr>te_header = \<lparr>th_name = ''a'', th_type = Tar_Regular, th_link = [], th_size = 5\<rparr>, te_data = ''hello''\<rparr>]"
  by code_simp+

theorem archive_well_formed_witness:
  "\<exists>e. ar_entries (snd (archive_stream example_sfs dir_os example_out example_archive (\<lambda>_. None) archive_world)) = [e] \<and>
     asked_for example_out (prepared example_sfs example_archive) e \<and>
     int (length (te_data e)) \<le> max 0 (th_size (te_header e))"
proof -
  have "ar_entries archive_world = []" "ar_missing archive_world = 0" by (simp_all add: archive_world_def)
  from archive_well_formed [OF this refl, where sc = example_sfs and t = example_out and a = example_archive and os = dir_os
      and ended = "\<lambda>_. None"]
  show ?thesis unfolding example_archive_run(2) by simp
qed

section \<open>Which files\<close>

lemma has_prefix_is_prefix: "has_prefix s p \<longleftrightarrow> prefix p s"
  by (auto simp: has_prefix_def prefix_def) (metis append_take_drop_id)

lemma trim_slash: "p \<noteq> [] \<Longrightarrow> last p \<noteq> c \<Longrightarrow> trim_suffix p [c] = p"
  by (cases p rule: rev_cases) (auto simp: trim_suffix_def has_suffix_def)

lemma split_snoc: "split_char c (p @ [c]) = split_char c p @ [[]]"
  by (induction p) (auto simp: neq_Nil_conv)

lemma prefix_slash_split:
  "prefix (f @ [c]) (r @ [c]) \<longleftrightarrow> prefix (split_char c f) (split_char c r)"
proof
  assume "prefix (f @ [c]) (r @ [c])"
  then obtain z where z: "r @ [c] = f @ c # z" by (auto simp: prefix_def)
  show "prefix (split_char c f) (split_char c r)"
  proof (cases z rule: rev_cases)
    case Nil
    then show ?thesis using z by simp
  next
    case (snoc z1 x)
    then have "r = f @ c # z1" using z by simp
    moreover have "split_char c (f @ c # z1) = split_char c f @ split_char c z1"
      by (induction f) (auto simp: neq_Nil_conv)
    ultimately show ?thesis by simp
  qed
next
  assume "prefix (split_char c f) (split_char c r)"
  then obtain ss where ss: "split_char c r = split_char c f @ ss" by (auto simp: prefix_def)
  have join: "join_char c (as @ bs) = join_char c as @ c # join_char c bs" if "as \<noteq> []" "bs \<noteq> []" for as bs
    using that by (induction c as rule: join_char.induct) (auto simp: neq_Nil_conv)
  show "prefix (f @ [c]) (r @ [c])"
  proof (cases "ss = []")
    case True
    then have "join_char c (split_char c r) = join_char c (split_char c f)" using ss by simp
    then show ?thesis by simp
  next
    case False
    have "join_char c (split_char c r) = join_char c (split_char c f) @ c # join_char c ss"
      unfolding ss by (rule join) (use False in simp_all)
    then show ?thesis by simp
  qed
qed

text \<open>
  A named file is archived, and a named directory with everything below it: a file is taken if and only if the
  components of some name are the first components of its path. A name is only text otherwise: \<open>a\<close> does not
  take \<open>ab\<close>.
\<close>

theorem selected_by_components:
  assumes "relative \<noteq> []" and "last relative \<noteq> CHR ''/''" and "\<forall>f \<in> set fs. f \<noteq> [] \<and> last f \<noteq> CHR ''/''"
  shows "selected fs relative \<longleftrightarrow>
    (\<exists>f \<in> set fs. prefix (split_char (CHR ''/'') f) (split_char (CHR ''/'') relative))"
proof -
  have "file_matches f relative \<longleftrightarrow> prefix (split_char (CHR ''/'') f) (split_char (CHR ''/'') relative)"
    if "f \<in> set fs" for f
  proof -
    have "trim_suffix f ''/'' = f" "trim_suffix relative ''/'' = relative"
      using assms that by (simp_all add: trim_slash)
    then have "file_matches f relative \<longleftrightarrow>
        f = relative \<or> prefix (split_char (CHR ''/'') f) (split_char (CHR ''/'') relative)"
      by (simp only: file_matches_def has_prefix_is_prefix prefix_slash_split)
    then show ?thesis by auto
  qed
  then show ?thesis by (auto simp: selected_def)
qed

theorem selected_by_components_witness:
  "selected [''plugins'', ''server.jar''] ''plugins/a/b'' \<longleftrightarrow>
   (\<exists>f \<in> set [''plugins'', ''server.jar''].
      prefix (split_char (CHR ''/'') f) (split_char (CHR ''/'') ''plugins/a/b''))"
  by (rule selected_by_components) simp_all

lemma selected_not_by_text: "selected [''plugins''] ''plugins/a'' \<and> \<not> selected [''plugins''] ''plugins-old/a''"
  by code_simp

section \<open>What goes wrong\<close>

text \<open>
  The names below a directory do not begin with it, so taking its name off the front hits a directory of the
  same name inside: its files are archived as if they were one level up, where others may have their names.
\<close>

lemma archive_names_collide:
  "archive_name (example_archive\<lparr>ar_base := ''world''\<rparr>) ''world/level.dat'' = ''level.dat''"
  "archive_name (example_archive\<lparr>ar_base := ''world''\<rparr>) ''level.dat'' = ''level.dat''"
  by code_simp+

text \<open>
  A file that is gone when it is to be opened is skipped without an error, but its header is written: the next
  header is refused, and with it the archive.
\<close>

lemma vanished_file_ends_archive:
  assumes "open_fileat (sc_fs sc) os d n {} 0 w = (Some (Inl e), w1)" and "os_is_not_exist e"
    and "ar_missing w = th_size h" and "1 \<le> th_size h"
  shows "write_file sc os t d n h w = (Some None, w1) \<and>
    (\<exists>m. write_header t h2 w1 = (Some (Some (FsMessage m)), w1))"
proof -
  have "same_rest w (snd (open_fileat (sc_fs sc) os d n {} 0 w))" by (rule movesD) (intro moves_intros)
  then have "fsw.more w1 = fsw.more w" using assms(1) by (simp add: same_rest_def)
  from tar_fields [OF this] have m: "ar_missing w1 = th_size h" using assms(3) by simp
  have "write_file sc os t d n h w = (Some None, w1)"
    unfolding write_file_def ubind_def assms(1) using assms(2) by (simp add: uret_def)
  moreover have "write_header t h2 w1 =
      (Some (Some (FsMessage (''archive/tar: missed writing '' @ itoa (th_size h) @ '' bytes''))), w1)"
    unfolding write_header_def ubind_def asking_def using m assms(4) by (simp add: uret_def)
  ultimately show ?thesis by blast
qed

end
