(* ===== verification/Fs_Errors.thy ===== *)
theory Fs_Errors
  imports Filesystem
begin

text \<open>
  The errors of a server's files, \<open>src/server/filesystem/errors.go\<close>: how the code of an error is found below
  what it was wrapped in. An \<open>Error\<close> with the code of unknown errors and a cause is the wrapping of the cause
  under the text that it is shown with.
\<close>

definition unknown_error :: string where "unknown_error = ''filesystem: an error occurred''"

text \<open>\<open>errors.As\<close> with an \<open>Error\<close>: the outermost one of the chain.\<close>

fun find_code :: "sfs_err \<Rightarrow> error_code option" where
  "find_code (CodeError c) = Some c"
| "find_code (SfsWrap t e) = (if t = unknown_error then Some ErrCodeUnknownError else find_code e)"
| "find_code (UfsError e) = None"

definition is_filesystem_error :: "sfs_err \<Rightarrow> bool" where
  "is_filesystem_error e = (find_code e \<noteq> None)"

definition is_error_code :: "sfs_err \<Rightarrow> error_code \<Rightarrow> bool" where
  "is_error_code e c = (find_code e = Some c)"

definition wrap_error :: "sfs_err \<Rightarrow> sfs_err" where
  "wrap_error e = (if is_filesystem_error e then e else SfsWrap unknown_error e)"

text \<open>Whatever is wrapped has a code afterwards, the one it had if it had one.\<close>

lemma find_code_wrap_error:
  "find_code (wrap_error e) = Some (case find_code e of Some c \<Rightarrow> c | None \<Rightarrow> ErrCodeUnknownError)"
  by (simp add: wrap_error_def is_filesystem_error_def split: option.split)

lemma wrap_error_idem [simp]: "wrap_error (wrap_error e) = wrap_error e"
  by (simp add: wrap_error_def is_filesystem_error_def)

lemma wrap_error_cases: "wrap_error e = e \<or> wrap_error e = SfsWrap unknown_error e"
  by (simp add: wrap_error_def)

end
