(* ===== verification/Compress.thy ===== *)
theory Compress
  imports Archive_Laws Fs_Accounting Fs_Errors
begin

text \<open>
  Making archives inside the server and unpacking them, \<open>src/server/filesystem/compress.go\<close> with the counting
  writer of \<open>src/internal/ufs/quota_writer.go\<close>. The archive formats are third-party: what they recognise and
  what they find in the bytes of a file are parameters.
\<close>

section \<open>Counting what is written\<close>

record counted_writer =
  ct_count :: int
  ct_err :: "fs_err option"

definition new_counted :: counted_writer where "new_counted = \<lparr>ct_count = 0, ct_err = None\<rparr>"

text \<open>\<open>CountedWriter.Write\<close> over the \<open>Write\<close> of a file.\<close>

definition counted_write :: "(string \<Rightarrow> 'k \<Rightarrow> (nat \<times> fs_err option) \<times> 'k) \<Rightarrow> string \<Rightarrow> counted_writer \<times> 'k
    \<Rightarrow> (nat \<times> fs_err option) \<times> counted_writer \<times> 'k" where
  "counted_write f b s =
     (if ct_err (fst s) \<noteq> None then ((0, Some eof), s)
      else (let r = f b (snd s); n = fst (fst r); e = snd (fst r);
                c = \<lparr>ct_count = wrap64 (ct_count (fst s) + int n), ct_err = e\<rparr>
            in ((n, if e = Some eof then Some eof else None), c, snd r)))"

definition counted_error :: "counted_writer \<Rightarrow> fs_err option" where
  "counted_error c = (if ct_err c = Some eof then None else ct_err c)"

text \<open>
  A write that fails is reported as one that wrote less without an error; only the next one fails, with the end
  of the file. A caller that does not write again, and does not ask for the error, takes it for a success.
\<close>

lemma failed_write_unseen:
  assumes "f b k = ((n, Some e), k1)" and "e \<noteq> eof"
  shows "fst (counted_write f b (new_counted, k)) = (n, None) \<and>
    fst (counted_write f b2 (snd (counted_write f b (new_counted, k)))) = (0, Some eof) \<and>
    counted_error (fst (snd (counted_write f b (new_counted, k)))) = Some e"
  using assms by (simp add: counted_write_def new_counted_def counted_error_def Let_def)

section \<open>Making an archive\<close>

text \<open>
  \<open>out fd\<close> is the compressor over the counted file \<open>fd\<close>, and \<open>written\<close> what has been counted. \<open>stamp\<close> is the time,
  without colons.
\<close>

definition compress_name :: "string \<Rightarrow> string \<Rightarrow> string" where
  "compress_name dir stamp = path_join [dir, ''archive-'' @ stamp @ ''.tar.gz'']"

definition finish_archive :: "sfs_cfg \<Rightarrow> 'k os \<Rightarrow> string \<Rightarrow> int \<Rightarrow> int \<Rightarrow> ('k, 'z, sfs_err + file_info) sio" where
  "finish_archive sc os d fd n =
     ubind (asking (can_fit n))
       (\<lambda>fit. if \<not> fit
              then ubind (quota_remove (sc_fs sc) os d) (\<lambda>_. uret (Inl (CodeError ErrCodeDiskSpace)))
              else ubind (account n)
                     (\<lambda>_. ubind (sys (os_fstat os fd) (\<lambda>_. CFstat fd))
                        (\<lambda>r. uret (case r of Inl e \<Rightarrow> Inl (UfsError e) | Inr s \<Rightarrow> Inr (fill_file_stat s (path_base d))))))"

definition compress_files :: "sfs_cfg \<Rightarrow> 'k os \<Rightarrow> (int \<Rightarrow> 'k tar_out) \<Rightarrow> ('k \<Rightarrow> int) \<Rightarrow> string \<Rightarrow> string \<Rightarrow> string list
    \<Rightarrow> ('k, 'z, sfs_err + file_info) aio" where
  "compress_files sc os out written stamp dir paths =
     (let a = \<lparr>ar_ignore = [], ar_base = dir, ar_files = paths\<rparr>; d = compress_name dir stamp
      in ubind (open_file (sc_fs sc) os d {O_WRONLY, O_CREATE} 0x1A4)
           (\<lambda>r. case r of
                  Inl e \<Rightarrow> uret (Inl (UfsError e))
                | Inr fd \<Rightarrow>
                    ubind (ubind (archive_stream sc os (out fd) a (\<lambda>_. None))
                             (\<lambda>e. case e of
                                    Some x \<Rightarrow> uret (Inl (UfsError x))
                                  | None \<Rightarrow> ubind (asking (\<lambda>w. written (kst w))) (finish_archive sc os d fd)))
                      (\<lambda>res. ubind (close_fd os fd) (\<lambda>_. uret res))))"

section \<open>Formats\<close>

datatype archive_format = Fmt_Zip | Fmt_Extraction | Fmt_Compression string | Fmt_Other

text \<open>
  An entry of an archive; opening it gives a reader. A single compressed file is read in pieces, each with the
  error that came with it.
\<close>

record archive_entry =
  ae_name :: string
  ae_is_dir :: bool
  ae_open :: "fs_err + reader"
  ae_size :: int
  ae_mode :: file_mode
  ae_time :: time

text \<open>
  \<open>fm_identify\<close> recognises a format from the name and the bytes of a file: nothing if none matches. \<open>fm_entries\<close>
  are the entries in the order in which they are found, and the error after them; \<open>fm_pieces\<close> the pieces of a
  compressed file, or why it cannot be read; \<open>fm_sizes\<close> the sizes a walk over the archive meets, or an error.
  \<open>fm_ignored\<close> is the list of files that may not be touched.
\<close>

record formats =
  fm_identify :: "string \<Rightarrow> string \<Rightarrow> fs_err + archive_format option"
  fm_entries :: "archive_format \<Rightarrow> string \<Rightarrow> archive_entry list \<times> fs_err option"
  fm_pieces :: "archive_format \<Rightarrow> string \<Rightarrow> fs_err + (string \<times> fs_err option) list"
  fm_sizes :: "archive_format \<Rightarrow> string \<Rightarrow> fs_err + (fs_err + int) list"
  fm_ignored :: "string \<Rightarrow> bool"

definition is_ignored :: "formats \<Rightarrow> string list \<Rightarrow> sfs_err option" where
  "is_ignored fm ps = (if \<exists>p \<in> set ps. fm_ignored fm p then Some (CodeError ErrCodeDenylistFile) else None)"

subsection \<open>Is there room?\<close>

text \<open>The file stays open if there is a format: the walk reads from it.\<close>

definition archiver_file_system :: "sfs_cfg \<Rightarrow> 'k os \<Rightarrow> formats \<Rightarrow> string
    \<Rightarrow> ('k, 'm, fs_err + (archive_format \<times> string) option) fio" where
  "archiver_file_system sc os fm p =
     ubind (u_open (sc_fs sc) os p)
       (\<lambda>r. case r of
              Inl e \<Rightarrow> uret (Inl e)
            | Inr fd \<Rightarrow>
                ubind (sys (os_read os fd) (\<lambda>_. CRead fd))
                  (\<lambda>(bytes, rerr).
                     case fm_identify fm (path_base p) bytes of
                       Inl e \<Rightarrow> ubind (close_fd os fd) (\<lambda>_. uret (Inl e))
                     | Inr fmt \<Rightarrow>
                         ubind (sys (os_seek os fd) (\<lambda>_. CSeek fd))
                           (\<lambda>e. if e \<noteq> None then ubind (close_fd os fd) (\<lambda>_. uret (Inl (the e)))
                                else ubind (sys (os_fstat os fd) (\<lambda>_. CFstat fd))
                                       (\<lambda>st. case st of
                                              Inl e \<Rightarrow> ubind (close_fd os fd) (\<lambda>_. uret (Inl e))
                                            | Inr s \<Rightarrow>
                                                if fmt = None \<or> fmt = Some Fmt_Other
                                                then ubind (close_fd os fd) (\<lambda>_. uret (Inr None))
                                                else uret (Inr (Some (the fmt, bytes)))))))"

fun sizes_fit :: "(fs_err + int) list \<Rightarrow> int \<Rightarrow> ('k, 'z) qfsw_scheme \<Rightarrow> sfs_err option" where
  "sizes_fit [] n w = None"
| "sizes_fit (Inl e # ss) n w = Some (UfsError e)"
| "sizes_fit (Inr s # ss) n w =
     (if \<not> can_fit (wrap64 (n + s)) w then Some (CodeError ErrCodeDiskSpace) else sizes_fit ss (wrap64 (n + s)) w)"

definition space_for_decompression :: "sfs_cfg \<Rightarrow> 'k os \<Rightarrow> formats \<Rightarrow> string \<Rightarrow> string
    \<Rightarrow> ('k, 'z, sfs_err option) sio" where
  "space_for_decompression sc os fm dir name =
     ubind (asking q_limit)
       (\<lambda>l. if l \<le> 0 then uret None
            else ubind (archiver_file_system sc os fm (path_join [dir, name]))
                   (\<lambda>r. case r of
                          Inl e \<Rightarrow> uret (Some (UfsError e))
                        | Inr None \<Rightarrow> uret (Some (CodeError ErrCodeUnknownArchive))
                        | Inr (Some (fmt, bytes)) \<Rightarrow>
                            (case fm_sizes fm fmt bytes of
                               Inl e \<Rightarrow> uret (Some (UfsError e))
                             | Inr ss \<Rightarrow> asking (sizes_fit ss 0))))"

subsection \<open>Unpacking\<close>

definition fs_chtimes :: "sfs_cfg \<Rightarrow> 'k os \<Rightarrow> string \<Rightarrow> time \<Rightarrow> ('k, 'm, fs_err option) fio" where
  "fs_chtimes sc os p t = (if sc_is_test sc then uret None else chtimes (sc_fs sc) os p (Some t) (Some t))"

definition extract_entry :: "sfs_cfg \<Rightarrow> 'k os \<Rightarrow> formats \<Rightarrow> string \<Rightarrow> archive_entry \<Rightarrow> ('k, 'z, sfs_err option) sio" where
  "extract_entry sc os fm dir f =
     (if ae_is_dir f then uret None
      else (let p = path_join [dir, ae_name f]
            in if is_ignored fm [p] \<noteq> None then uret None
               else (case ae_open f of
                       Inl e \<Rightarrow> uret (Some (UfsError e))
                     | Inr r \<Rightarrow>
                         ubind (fs_write sc os p r (ae_size f) (ae_mode f))
                           (\<lambda>e. case e of
                                  Some x \<Rightarrow> uret (Some (wrap_error x))
                                | None \<Rightarrow> ubind (fs_chtimes sc os p (ae_time f))
                                            (\<lambda>e. uret (map_option (wrap_error \<circ> UfsError) e))))))"

fun extract_entries :: "sfs_cfg \<Rightarrow> 'k os \<Rightarrow> formats \<Rightarrow> string \<Rightarrow> archive_entry list \<Rightarrow> fs_err option
    \<Rightarrow> ('k, 'z, sfs_err option) sio" where
  "extract_entries sc os fm dir [] after = uret (map_option UfsError after)"
| "extract_entries sc os fm dir (f # fs) after =
     ubind (extract_entry sc os fm dir f)
       (\<lambda>e. if e \<noteq> None then uret e else extract_entries sc os fm dir fs after)"

text \<open>The pieces of a single file. A list that ends without an error stands for a reader that goes on.\<close>

fun write_pieces :: "'k os \<Rightarrow> int \<Rightarrow> (string \<times> fs_err option) list \<Rightarrow> ('k, 'z, sfs_err option) sio" where
  "write_pieces os fd [] = ustuck"
| "write_pieces os fd ((b, err) # ps) =
     (let next = (case err of
                    None \<Rightarrow> write_pieces os fd ps
                  | Some e \<Rightarrow> uret (if e = eof then None else Some (UfsError e)))
      in if b = [] then next
         else ubind (has_space_for (int (length b)))
                (\<lambda>full. if full \<noteq> None then uret full
                        else ubind (sys (os_write os fd b) (\<lambda>_. CWrite fd b))
                               (\<lambda>(n, werr). if werr \<noteq> None then uret (map_option UfsError werr)
                                            else ubind (account (int (length b))) (\<lambda>_. next))))"

definition decompress_single :: "sfs_cfg \<Rightarrow> 'k os \<Rightarrow> formats \<Rightarrow> string \<Rightarrow> string \<Rightarrow> string \<Rightarrow> archive_format \<Rightarrow> string
    \<Rightarrow> ('k, 'z, sfs_err option) sio" where
  "decompress_single sc os fm dir name ext fmt bytes =
     (let p = path_join [dir, trim_suffix name ext]
      in if is_ignored fm [p] \<noteq> None then uret None
         else (case fm_pieces fm fmt bytes of
                 Inl e \<Rightarrow> uret (Some (UfsError e))
               | Inr ps \<Rightarrow>
                   ubind (open_file (sc_fs sc) os p {O_WRONLY, O_CREATE} 0x1A4)
                     (\<lambda>r. case r of
                            Inl e \<Rightarrow> uret (Some (UfsError e))
                          | Inr fd \<Rightarrow> ubind (write_pieces os fd ps) (\<lambda>res. ubind (close_fd os fd) (\<lambda>_. uret res)))))"

definition extract_stream :: "sfs_cfg \<Rightarrow> 'k os \<Rightarrow> formats \<Rightarrow> string \<Rightarrow> string \<Rightarrow> archive_format \<Rightarrow> string
    \<Rightarrow> ('k, 'z, sfs_err option) sio" where
  "extract_stream sc os fm dir name fmt bytes =
     (case fmt of
        Fmt_Compression ext \<Rightarrow> decompress_single sc os fm dir name ext fmt bytes
      | Fmt_Other \<Rightarrow> uret None
      | _ \<Rightarrow> (case fm_entries fm fmt bytes of (fs, after) \<Rightarrow> extract_entries sc os fm dir fs after))"

definition decompress_file :: "sfs_cfg \<Rightarrow> 'k os \<Rightarrow> formats \<Rightarrow> string \<Rightarrow> string \<Rightarrow> ('k, 'z, sfs_err option) sio" where
  "decompress_file sc os fm dir name =
     ubind (u_open (sc_fs sc) os (path_join [dir, name]))
       (\<lambda>r. case r of
              Inl e \<Rightarrow> uret (Some (UfsError e))
            | Inr fd \<Rightarrow>
                ubind (sys (os_read os fd) (\<lambda>_. CRead fd))
                  (\<lambda>(bytes, rerr).
                     ubind (case fm_identify fm (path_base name) bytes of
                              Inl e \<Rightarrow> uret (Some (UfsError e))
                            | Inr None \<Rightarrow> uret (Some (CodeError ErrCodeUnknownArchive))
                            | Inr (Some fmt) \<Rightarrow> extract_stream sc os fm dir name fmt bytes)
                       (\<lambda>res. ubind (close_fd os fd) (\<lambda>_. uret res))))"

definition extract_stream_unsafe :: "sfs_cfg \<Rightarrow> 'k os \<Rightarrow> formats \<Rightarrow> string \<Rightarrow> string \<Rightarrow> ('k, 'z, sfs_err option) sio" where
  "extract_stream_unsafe sc os fm dir bytes =
     (case fm_identify fm ''archive.tar.gz'' bytes of
        Inl e \<Rightarrow> uret (Some (UfsError e))
      | Inr None \<Rightarrow> uret (Some (CodeError ErrCodeUnknownArchive))
      | Inr (Some fmt) \<Rightarrow> extract_stream sc os fm dir [] fmt bytes)"

end
