(* ===== verification/Compress_Laws.thy ===== *)
theory Compress_Laws
  imports Compress
begin

text \<open>
  What unpacking does to the account of a server: the limit holds throughout, and when the check before it has
  found enough room, no file is refused for lack of it.
\<close>

section \<open>The limit holds\<close>

definition sane_entry :: "archive_entry \<Rightarrow> bool" where
  "sane_entry f \<longleftrightarrow> \<bar>ae_size f\<bar> < 2 ^ 62"

definition sane_piece :: "string \<times> fs_err option \<Rightarrow> bool" where
  "sane_piece p \<longleftrightarrow> length (fst p) \<le> 4096"

lemma chtimes_still: "still (fs_chtimes sc os p t)"
  unfolding fs_chtimes_def chtimes_def chtimesat_def by (intro moves_intros)

lemma kw_extract_entry:
  assumes L: "0 < L" "L \<le> 2 ^ 62" and ok: "sizes_ok os" and f: "sane_entry f"
  shows "keeps_within L (extract_entry sc os fm dir f)"
  using f unfolding extract_entry_def Let_def sane_entry_def
  by (intro acct_if kw_ret acct_sum kw_bind [OF acct_write [OF L ok]] acct_option kw_bind [OF kw_still [OF chtimes_still]])

lemma kw_extract_entries:
  assumes L: "0 < L" "L \<le> 2 ^ 62" and ok: "sizes_ok os" and fs: "list_all sane_entry fs"
  shows "keeps_within L (extract_entries sc os fm dir fs after)"
  using fs
proof (induction fs)
  case Nil
  then show ?case by (simp add: kw_ret)
next
  case (Cons f fs)
  then show ?case
    by (auto intro!: kw_bind kw_extract_entry [OF L ok] acct_if kw_ret)
qed

lemma kw_piece:
  assumes L: "0 < L" "L \<le> 2 ^ 62" and b: "length b \<le> 4096" and go: "keeps_within L m"
  shows "keeps_within L
     (ubind (has_space_for (int (length b)))
        (\<lambda>full. if full \<noteq> None then uret full
                else ubind (sys (os_write os fd b) (\<lambda>_. CWrite fd b))
                       (\<lambda>(n, werr). if werr \<noteq> None then uret (map_option UfsError werr)
                                    else ubind (account (int (length b))) (\<lambda>_. m))))"
proof -
  have spend: "acct L (room L (int (length b))) (account (int (length b))) (\<lambda>_. within L)"
    using b L by (intro acct_account) (auto simp: in_i64_simps)
  have space: "acct L (within L) (has_space_for (int (length b)))
      (\<lambda>r u. 0 \<le> u \<and> u \<le> L \<and> (r = None \<longrightarrow> u + int (length b) \<le> L))"
    using b L by (intro acct_space_for [OF L(1)]) (auto simp: in_i64_simps)
  have piece: "acct L (room L (int (length b)))
     (ubind (sys (os_write os fd b) (\<lambda>_. CWrite fd b))
        (\<lambda>(n, werr). if werr \<noteq> None then uret (map_option UfsError werr)
                     else ubind (account (int (length b))) (\<lambda>_. m)))
     (\<lambda>_. within L)"
    by (rule acct_skip) (auto intro!: moves_intros acct_ret acct_bind [OF spend] go)
  show ?thesis
    by (rule acct_bind [OF space]) (intro acct_if acct_ret acct_mono [OF piece], auto)
qed

lemma kw_write_pieces:
  assumes L: "0 < L" "L \<le> 2 ^ 62"
  shows "list_all sane_piece ps \<Longrightarrow> keeps_within L (write_pieces os fd ps)"
proof (induction ps)
  case (Cons p ps)
  obtain b err where p: "p = (b, err)" by fastforce
  show ?case using Cons unfolding p write_pieces.simps Let_def
    by (intro acct_if kw_piece [OF L] acct_option kw_ret) (auto simp: sane_piece_def)
qed (simp add: kw_stuck)

definition sane_formats :: "formats \<Rightarrow> bool" where
  "sane_formats fm \<longleftrightarrow>
     (\<forall>fmt b. list_all sane_entry (fst (fm_entries fm fmt b))) \<and>
     (\<forall>fmt b ps. fm_pieces fm fmt b = Inr ps \<longrightarrow> list_all sane_piece ps)"

lemma kw_decompress:
  assumes L: "0 < L" "L \<le> 2 ^ 62" and ok: "sizes_ok os" and fm: "sane_formats fm"
  shows "keeps_within L (decompress_file sc os fm dir name)"
proof -
  have entries: "list_all sane_entry fs" if "fm_entries fm fmt b = (fs, after)" for fmt b fs after
    using fm that by (metis fst_conv sane_formats_def)
  have single: "keeps_within L (decompress_single sc os fm dir name ext fmt b)" for ext fmt b
    unfolding decompress_single_def Let_def
    using fm
    by (intro acct_if kw_ret acct_sum kw_bind kw_write_pieces [OF L] kw_close kw_still)
       (auto simp: open_file_def sane_formats_def intro!: moves_intros)
  have stream: "keeps_within L (extract_stream sc os fm dir name fmt b)" for fmt b
    unfolding extract_stream_def
    by (auto split: archive_format.split prod.split intro!: single kw_ret kw_extract_entries [OF L ok] dest: entries)
  show ?thesis unfolding decompress_file_def
    by (intro kw_bind acct_sum kw_ret acct_prod acct_option stream kw_close kw_still moves_intros)
qed

text \<open>
  Unpacking an archive keeps a server within its limit: if its usage is within the limit, it is so afterwards,
  and also when the run stops on the way, whatever the archive has and the kernel answers.
\<close>

theorem decompression_within_limit:
  fixes w :: "('k, 'z) sfsw_scheme"
  assumes "sizes_ok os" and "sane_formats fm"
    and "0 < q_limit w" and "q_limit w \<le> 2 ^ 62" and "0 \<le> q_usage w" and "q_usage w \<le> q_limit w"
    and "w' = snd (decompress_file sc os fm dir name w)"
  shows "q_limit w' = q_limit w \<and> 0 \<le> q_usage w' \<and> q_usage w' \<le> q_limit w"
  using acctD [OF kw_decompress [OF assms(3,4,1,2), of sc dir name] refl] assms(5-7)
  by (cases "fst (decompress_file sc os fm dir name w)") simp_all

section \<open>Enough room\<close>

text \<open>
  While \<open>n\<close> more bytes fit, \<open>n\<close> being at least what is announced, a write is not refused for lack of room, and
  what is left of \<open>n\<close> after the announced size fits afterwards.
\<close>

abbreviation fits :: "int \<Rightarrow> int \<Rightarrow> int \<Rightarrow> bool" where
  "fits L n u \<equiv> 0 \<le> u \<and> u \<le> L \<and> u + n \<le> L"

definition roomy :: "int \<Rightarrow> int \<Rightarrow> sfs_err option \<Rightarrow> int \<Rightarrow> bool" where
  "roomy L n r u \<longleftrightarrow> r \<noteq> Some (CodeError ErrCodeDiskSpace) \<and> fits L n u"

lemma can_fit_ok:
  assumes "0 < q_limit w" "q_limit w \<le> 2 ^ 62" and "s \<le> n" "- (2 ^ 62) \<le> s" "fits (q_limit w) n (q_usage w)" "0 \<le> n"
  shows "can_fit s w"
proof -
  have "in_i64 (q_usage w + s)" using assms by (simp add: in_i64_simps)
  then show ?thesis using assms by (simp add: can_fit_def Let_def)
qed

lemma acct_has_space:
  assumes "0 < L" "L \<le> 2 ^ 62" and "s \<le> n" "- (2 ^ 62) \<le> s" "0 \<le> n"
  shows "acct L (fits L n) (has_space_for s) (\<lambda>r u. r = None \<and> fits L n u)"
  using can_fit_ok [OF _ _ assms(3,4) _ assms(5)] assms by (auto simp: acct_def has_space_for_def asking_def)

lemma results_no_space_error:
  assumes "sizes_ok os"
  shows "results (current_size sc os p)
     (\<lambda>r. case r of Inl e \<Rightarrow> e \<noteq> CodeError ErrCodeDiskSpace | Inr n \<Rightarrow> size_range n)"
proof -
  have "results (current_size sc os p) (\<lambda>r. case r of Inl e \<Rightarrow> e \<noteq> CodeError ErrCodeDiskSpace | Inr n \<Rightarrow> True)"
    unfolding current_size_def by (rule results_bind, rule results_ret) (auto split: sum.split)
  then show ?thesis using results_current_size [OF assms, of sc p]
    unfolding results_def by (force split: sum.splits)
qed

lemma acct_add_fits:
  assumes "0 < L" "L \<le> 2 ^ 62" and "- (2 ^ 62) \<le> s" "s \<le> sz" "0 \<le> sz" "0 \<le> n"
  shows "acct L (fits L (sz + n)) (account (wrap64 s)) (\<lambda>_. fits L n)"
proof (cases "s \<le> L")
  case True
  then have "wrap64 s = s" using assms by (intro wrap64_id) (simp add: in_i64_simps)
  then show ?thesis using assms True by (auto intro!: acct_account simp: in_i64_simps)
next
  case False
  then show ?thesis using assms by (auto simp: acct_def)
qed

lemma acct_fits_weaken: "0 \<le> sz \<Longrightarrow> fits L (sz + n) u \<Longrightarrow> fits L n u"
  by simp

lemma roomy_write_touched:
  assumes L: "0 < L" "L \<le> 2 ^ 62" and ok: "sizes_ok os" and cur: "size_range cur" and sz: "size_range sz" and n: "0 \<le> n"
  shows "acct L (fits L (sz + n)) (write_touched sc os p r sz cur fd) (roomy L n)"
proof -
  have b: "0 \<le> cur" "cur < 2 ^ 62" "0 \<le> sz" using cur sz by (simp_all add: size_range_def)
  have zero: "acct L (fits L (sz + n)) (ubind (account (wrap64 (- cur))) (\<lambda>_. uret None)) (\<lambda>_. fits L n)"
    using b n by (intro acct_then_ret acct_add_fits [OF L]) auto
  have copy: "acct L (fits L (sz + n)) (ubind (io_copy os fd (limited (Some sz) r))
      (\<lambda>(k, err). ubind (account (wrap64 (k - cur))) (\<lambda>_. uret err))) (\<lambda>_. fits L n)"
    using b n
    by (intro acct_use [OF st.io_copy results_io_copy [OF ok]])
       (auto intro!: acct_then_ret acct_add_fits [OF L])
  have chown: "acct L (fits L n) (ubind (chown_file sc os p)
      (\<lambda>e. uret (if e \<noteq> None then map_option UfsError e else map_option UfsError err))) (roomy L n)" for err
    using n by (intro acct_skip [OF st.chowns(1)] acct_ret) (auto simp: roomy_def)
  show ?thesis unfolding write_touched_def by (rule acct_bind [OF acct_if [OF zero copy] chown])
qed

lemma roomy_write:
  assumes L: "0 < L" "L \<le> 2 ^ 62" and ok: "sizes_ok os" and sz: "size_range sz" and n: "0 \<le> n"
  shows "acct L (fits L (sz + n)) (fs_write sc os p r sz m) (roomy L n)"
proof -
  have b: "0 \<le> sz" "sz < 2 ^ 62" using sz by (simp_all add: size_range_def)
  have close: "acct L (fits L n) (close_fd os fd) (\<lambda>_. fits L n)" for fd
    using n by (intro acct_still_only st.close_fd) simp
  have closed: "acct L (roomy L n res) (ubind (close_fd os fd) (\<lambda>_. uret res)) (roomy L n)" for fd res
    using n by (intro acct_skip [OF st.close_fd] acct_ret) (auto simp: roomy_def)
  have touched: "acct L (fits L (sz + n)) (ubind (touch (sc_fs sc) os p {O_RDWR, O_TRUNC} m)
     (\<lambda>t. case t of
            Inl e \<Rightarrow> uret (Some (UfsError e))
          | Inr fd \<Rightarrow> ubind (write_touched sc os p r sz cur fd)
                       (\<lambda>res. ubind (close_fd os fd) (\<lambda>_. uret res)))) (roomy L n)"
    if "size_range cur" for cur
    by (rule acct_skip [OF st.touch], use b n in simp, rule acct_sum, rule acct_ret)
       (use b n in \<open>auto simp: roomy_def intro!: acct_bind [OF roomy_write_touched [OF L ok that sz n] closed]\<close>)
  show ?thesis unfolding fs_write_def
  proof (rule acct_use [OF st.current_size results_no_space_error [OF ok]])
    fix c :: "sfs_err + int"
    assume c: "case c of Inl e \<Rightarrow> e \<noteq> CodeError ErrCodeDiskSpace | Inr n \<Rightarrow> size_range n"
    show "acct L (fits L (sz + n))
       (case c of
          Inl e \<Rightarrow> uret (Some e)
        | Inr cur \<Rightarrow>
            ubind (has_space_for (wrap64 (sz - cur)))
              (\<lambda>full. case full of
                        Some e \<Rightarrow> uret (Some e)
                      | None \<Rightarrow>
                          ubind (touch (sc_fs sc) os p {O_RDWR, O_TRUNC} m)
                            (\<lambda>t. case t of
                                   Inl e \<Rightarrow> uret (Some (UfsError e))
                                 | Inr fd \<Rightarrow> ubind (write_touched sc os p r sz cur fd)
                                              (\<lambda>res. ubind (close_fd os fd) (\<lambda>_. uret res)))))
       (roomy L n)"
    proof (rule acct_sum)
      fix e
      assume "c = Inl e"
      then show "acct L (fits L (sz + n)) (uret (Some e)) (roomy L n)"
        using c b by (auto intro!: acct_ret simp: roomy_def)
    next
      fix cur
      assume "c = Inr cur"
      then have cur: "size_range cur" "0 \<le> cur" "cur < 2 ^ 62" using c by (simp_all add: size_range_def)
      have w: "wrap64 (sz - cur) = sz - cur"
        using cur b by (intro wrap64_id) (simp add: in_i64_simps)
      show "acct L (fits L (sz + n))
         (ubind (has_space_for (wrap64 (sz - cur)))
            (\<lambda>full. case full of
                      Some e \<Rightarrow> uret (Some e)
                    | None \<Rightarrow>
                        ubind (touch (sc_fs sc) os p {O_RDWR, O_TRUNC} m)
                          (\<lambda>t. case t of
                                 Inl e \<Rightarrow> uret (Some (UfsError e))
                               | Inr fd \<Rightarrow> ubind (write_touched sc os p r sz cur fd)
                                            (\<lambda>res. ubind (close_fd os fd) (\<lambda>_. uret res)))))
         (roomy L n)"
        unfolding w
      proof (rule acct_bind [OF acct_has_space [OF L, where n = "sz + n"]])
        fix full :: "sfs_err option"
        show "acct L (\<lambda>u. full = None \<and> fits L (sz + n) u)
          (case full of
             Some e \<Rightarrow> uret (Some e)
           | None \<Rightarrow>
               ubind (touch (sc_fs sc) os p {O_RDWR, O_TRUNC} m)
                 (\<lambda>t. case t of
                        Inl e \<Rightarrow> uret (Some (UfsError e))
                      | Inr fd \<Rightarrow> ubind (write_touched sc os p r sz cur fd)
                                   (\<lambda>res. ubind (close_fd os fd) (\<lambda>_. uret res))))
          (roomy L n)"
          by (rule acct_option; (rule acct_mono [OF touched [OF cur(1)]] | rule acct_ret)) auto
      qed (use b n cur in auto)
    qed
  qed (use b n in simp)
qed

lemma roomy_extract_entry:
  assumes L: "0 < L" "L \<le> 2 ^ 62" and ok: "sizes_ok os" and sz: "size_range (ae_size f)" and n: "0 \<le> n"
  shows "acct L (fits L (ae_size f + n)) (extract_entry sc os fm dir f) (roomy L n)"
proof -
  have b: "0 \<le> ae_size f" using sz by (simp add: size_range_def)
  have quiet: "acct L (fits L (ae_size f + n)) (uret x) (roomy L n)" if "x \<noteq> Some (CodeError ErrCodeDiskSpace)" for x
    using b n that by (intro acct_ret) (auto simp: roomy_def)
  have times: "acct L (roomy L n None) (ubind (fs_chtimes sc os p t)
      (\<lambda>e. uret (map_option (wrap_error \<circ> UfsError) e))) (roomy L n)" for p t
    using n by (intro acct_skip [OF chtimes_still] acct_ret) (auto simp: roomy_def wrap_error_def is_filesystem_error_def)
  have wrapped: "acct L (roomy L n (Some x)) (uret (Some (wrap_error x))) (roomy L n)" for x
    by (rule acct_ret) (auto simp: roomy_def wrap_error_def split: if_splits)
  show ?thesis unfolding extract_entry_def Let_def
    by (intro acct_if quiet acct_sum acct_bind [OF roomy_write [OF L ok sz n]])
       (auto split: option.split intro!: times wrapped)
qed

text \<open>
  If the sizes of the files of an archive fit, unpacking it does not fail for lack of room.
\<close>

lemma roomy_extract_entries:
  assumes L: "0 < L" "L \<le> 2 ^ 62" and ok: "sizes_ok os" and fs: "\<forall>f \<in> set fs. size_range (ae_size f)"
  shows "acct L (fits L (sum_list (List.map ae_size fs))) (extract_entries sc os fm dir fs after)
     (\<lambda>r u. r \<noteq> Some (CodeError ErrCodeDiskSpace) \<and> within L u)"
  using fs
proof (induction fs)
  case Nil
  then show ?case by (auto intro!: acct_ret)
next
  case (Cons f fs)
  have n: "0 \<le> sum_list (List.map ae_size fs)"
    using Cons.prems by (intro sum_list_nonneg) (auto simp: size_range_def)
  have f: "size_range (ae_size f)" and ih: "\<forall>f \<in> set fs. size_range (ae_size f)" using Cons.prems by simp_all
  show ?case
    unfolding extract_entries.simps list.map sum_list.Cons
    by (rule acct_bind [OF roomy_extract_entry [OF L ok f n]],
        intro acct_if acct_ret acct_mono [OF Cons.IH [OF ih]]) (auto simp: roomy_def)
qed

text \<open>The check of a walk that meets the files, their sizes being what will be announced.\<close>

lemma sizes_fit_sum:
  assumes "sizes_fit (List.map Inr ss) n w = None" and "\<forall>s \<in> set ss. 0 \<le> s" and "0 \<le> n"
    and "n + sum_list ss < 2 ^ 62" and "0 < q_limit w" and "q_limit w \<le> 2 ^ 62" and "0 \<le> q_usage w"
    and "q_usage w + n \<le> q_limit w"
  shows "q_usage w + n + sum_list ss \<le> q_limit w"
  using assms(1-4,8)
proof (induction ss arbitrary: n)
  case (Cons s ss)
  have p: "0 \<le> s" "0 \<le> sum_list ss" using Cons.prems(2) by (auto intro: sum_list_nonneg)
  have w: "wrap64 (n + s) = n + s" using Cons.prems p by (intro wrap64_id) (simp add: in_i64_simps)
  have f: "can_fit (n + s) w" and r: "sizes_fit (List.map Inr ss) (n + s) w = None"
    using Cons.prems(1) by (simp_all add: w split: if_splits)
  have q: "q_usage w \<le> q_limit w" using Cons.prems by simp
  have "in_i64 (q_usage w + (n + s))" using assms(6,7) q Cons.prems p by (simp add: in_i64_simps)
  then have "q_usage w + (n + s) \<le> q_limit w"
    using f assms(5,7) by (auto simp: can_fit_def Let_def split: if_splits)
  then show ?case using Cons.IH [OF r] Cons.prems p by (simp add: add.assoc)
qed simp

lemma le_sum_list: "\<forall>s \<in> set ss. 0 \<le> s \<Longrightarrow> x \<in> set ss \<Longrightarrow> x \<le> sum_list ss" for x :: int
proof (induction ss)
  case (Cons s ss)
  then have "0 \<le> sum_list ss" by (intro sum_list_nonneg) auto
  then show ?case using Cons by auto
qed simp

text \<open>
  C30: The check for room is enough. If a walk over an archive meets its files with the sizes they announce and finds
  that they fit, then unpacking them right after is never refused for lack of room, whatever the files replace,
  and the usage stays within the limit.
\<close>

theorem space_check_suffices:
  fixes w :: "('k, 'z) sfsw_scheme"
  assumes "sizes_fit (List.map (Inr \<circ> ae_size) fs) 0 w = None" and "\<forall>f \<in> set fs. 0 \<le> ae_size f"
    and "sum_list (List.map ae_size fs) < 2 ^ 62" and "sizes_ok os"
    and "0 < q_limit w" and "q_limit w \<le> 2 ^ 62" and "0 \<le> q_usage w" and "q_usage w \<le> q_limit w"
  shows "fst (extract_entries sc os fm dir fs after w) \<noteq> Some (Some (CodeError ErrCodeDiskSpace)) \<and>
    q_usage (snd (extract_entries sc os fm dir fs after w)) \<le> q_limit w"
proof -
  let ?n = "sum_list (List.map ae_size fs)"
  have p: "\<forall>s \<in> set (List.map ae_size fs). 0 \<le> s" using assms(2) by auto
  have "q_usage w + 0 + ?n \<le> q_limit w"
    by (rule sizes_fit_sum [OF _ p]) (use assms in \<open>simp_all flip: map_map\<close>)
  moreover have "0 \<le> ?n" using p by (intro sum_list_nonneg) auto
  ultimately have fits: "fits (q_limit w) ?n (q_usage w)" using assms by simp
  have "ae_size f \<le> ?n" if "f \<in> set fs" for f
    using p that by (intro le_sum_list) auto
  then have "\<forall>f \<in> set fs. size_range (ae_size f)" using assms(2,3) by (force simp: size_range_def)
  from acctD [OF roomy_extract_entries [OF assms(5,6,4) this, of sc fm dir after] refl fits]
  show ?thesis by (cases "fst (extract_entries sc os fm dir fs after w)") auto
qed

section \<open>Examples\<close>

definition example_entry :: archive_entry where
  "example_entry = \<lparr>ae_name = ''x/a'', ae_is_dir = False, ae_open = Inr \<lparr>rd_data = ''hello world'', rd_err = None\<rparr>,
     ae_size = 11, ae_mode = 0x1A4, ae_time = 0\<rparr>"

definition example_formats :: formats where
  "example_formats =
     \<lparr>fm_identify = (\<lambda>n b. Inr (if has_suffix n ''.gz'' then Some (Fmt_Compression ''.gz'') else Some Fmt_Zip)),
      fm_entries = (\<lambda>f b. ([example_entry], None)),
      fm_pieces = (\<lambda>f b. Inr [(''hello'', None), ([], Some eof)]),
      fm_sizes = (\<lambda>f b. Inr [Inr 11]), fm_ignored = (\<lambda>p. False)\<rparr>"

lemma sizes_ok_dir_os: "sizes_ok dir_os"
  by (auto simp: sizes_ok_def dir_os_def Let_def split: if_splits)

theorem space_check_suffices_witness:
  "fst (extract_entries example_sfs dir_os example_formats ''/'' [example_entry] None dir_world) = Some None \<and>
   fst (extract_entries example_sfs dir_os example_formats ''/'' [example_entry] None dir_world) \<noteq>
     Some (Some (CodeError ErrCodeDiskSpace)) \<and>
   q_usage (snd (extract_entries example_sfs dir_os example_formats ''/'' [example_entry] None dir_world)) \<le> q_limit dir_world"
proof -
  have "fst (extract_entries example_sfs dir_os example_formats ''/'' [example_entry] None dir_world) = Some None"
    by code_simp
  moreover have "sizes_fit (List.map (Inr \<circ> ae_size) [example_entry]) 0 dir_world = None" by code_simp
  ultimately show ?thesis
    using space_check_suffices [of "[example_entry]" dir_world dir_os example_sfs example_formats "''/''" None]
    by (simp add: sizes_ok_dir_os dir_world_def example_entry_def)
qed

theorem decompression_within_limit_witness:
  "let w' = snd (decompress_file example_sfs dir_os example_formats ''/'' ''a.zip'' dir_world)
   in q_limit w' = q_limit dir_world \<and> 0 \<le> q_usage w' \<and> q_usage w' \<le> q_limit dir_world"
proof -
  have fm: "sane_formats example_formats"
    by (simp add: sane_formats_def example_formats_def example_entry_def sane_entry_def sane_piece_def)
  have b: "0 < q_limit dir_world" "q_limit dir_world \<le> 2 ^ 62" "0 \<le> q_usage dir_world" "q_usage dir_world \<le> q_limit dir_world"
    by (simp_all add: dir_world_def)
  show ?thesis
    unfolding Let_def
    by (rule decompression_within_limit [OF sizes_ok_dir_os fm b refl])
qed

section \<open>What goes wrong\<close>

text \<open>
  An archive that does not fit is removed again by an operation that takes its size off the usage, to which it
  was never added: each attempt lowers the usage.
\<close>

lemma refused_archive_lowers_usage:
  "fst (finish_archive example_sfs dir_os ''/a'' 5 1000 dir_world) = Some (Inl (CodeError ErrCodeDiskSpace)) \<and>
   q_usage dir_world = 40 \<and> q_usage (snd (finish_archive example_sfs dir_os ''/a'' 5 1000 dir_world)) = 35"
proof -
  obtain o1 w1 where r: "quota_remove (sc_fs example_sfs) dir_os ''/a'' dir_world = (o1, w1)"
    by (cases "quota_remove (sc_fs example_sfs) dir_os ''/a'' dir_world")
  have "fst (quota_remove (sc_fs example_sfs) dir_os ''/a'' dir_world) = Some None" by code_simp
  moreover have "q_usage (snd (quota_remove (sc_fs example_sfs) dir_os ''/a'' dir_world)) = 35" by code_simp
  moreover have "\<not> can_fit 1000 dir_world" by code_simp
  ultimately show ?thesis
    by (simp add: r finish_archive_def ubind_def asking_def uret_def) (simp add: dir_world_def)
qed

text \<open>
  A single compressed file is unpacked over a file of the same name, of five bytes as well, without taking off
  what is replaced: the usage grows by five.
\<close>

lemma unpacked_file_counted_twice:
  "fst (decompress_file example_sfs dir_os example_formats ''/'' ''a.gz'' dir_world) = Some None"
  "q_usage (snd (decompress_file example_sfs dir_os example_formats ''/'' ''a.gz'' dir_world)) = 45"
  by code_simp+

end
