(* ===== verification/Http_Guard.thy ===== *)
theory Http_Guard
  imports Go_Strings Filesystem "HOL-Library.AList"
begin

text \<open>
  What stands before the handlers of the HTTP interface: the middleware of
  \<open>src/router/middleware/middleware.go\<close>, the answers to errors of \<open>request_error.go\<close> and the routes of
  \<open>src/router/router.go\<close>. The router itself, gin, is third-party: how it registers routes and runs their
  handlers is a parameter, with its documented behaviour as a hypothesis.
\<close>

section \<open>Requests and answers\<close>

text \<open>
  A request with its method, the named parts of its path, its headers (empty if missing), and the identifier
  that will be generated for it.
\<close>

record http_request =
  hr_method :: string
  hr_param :: "string \<Rightarrow> string"
  hr_header :: "string \<Rightarrow> string"
  hr_id :: string

text \<open>
  What is asked of an error: its text, the code of the first \<open>filesystem.Error\<close> in it, whether it is a
  deadline, whether it has a stack trace, and the system call if its outermost part is an \<open>os.SyscallError\<close>.
\<close>

record http_error =
  er_text :: string
  er_code :: "error_code option"
  er_deadline :: bool
  er_stack :: bool
  er_syscall :: "string option"

datatype http_body = Error_Body string | Error_Body_Id string string | Data_Body string

text \<open>The context of a request: the values set in it, the answer so far and the errors recorded.\<close>

record http_ctx =
  cx_request_id :: "string option"
  cx_manager :: bool
  cx_client :: bool
  cx_jobs :: bool
  cx_server :: "string option"
  cx_headers :: "(string \<times> string) list"
  cx_status :: nat
  cx_bodies :: "http_body list"
  cx_errors :: "http_error list"
  cx_aborted :: bool

definition new_ctx :: http_ctx where
  "new_ctx = \<lparr>cx_request_id = None, cx_manager = False, cx_client = False, cx_jobs = False, cx_server = None,
     cx_headers = [], cx_status = 200, cx_bodies = [], cx_errors = [], cx_aborted = False\<rparr>"

definition set_header :: "string \<Rightarrow> string \<Rightarrow> http_ctx \<Rightarrow> http_ctx" where
  "set_header k v c = c\<lparr>cx_headers := AList.update k v (cx_headers c)\<rparr>"

definition abort_with :: "nat \<Rightarrow> http_body \<Rightarrow> http_ctx \<Rightarrow> http_ctx" where
  "abort_with s b c = c\<lparr>cx_aborted := True, cx_status := s, cx_bodies := cx_bodies c @ [b]\<rparr>"

type_synonym 'w http_step = "http_ctx \<times> 'w \<Rightarrow> http_ctx \<times> 'w"

section \<open>Errors\<close>

text \<open>\<open>NewError\<close>: an error without a stack trace is wrapped in one, and is then no \<open>os.SyscallError\<close>.\<close>

definition new_error :: "http_error \<Rightarrow> http_error" where
  "new_error e = (if er_stack e then e else e\<lparr>er_stack := True, er_syscall := None\<rparr>)"

definition capture_and_abort :: "http_error \<Rightarrow> http_ctx \<Rightarrow> http_ctx" where
  "capture_and_abort e c = c\<lparr>cx_aborted := True, cx_errors := cx_errors c @ [new_error e]\<rparr>"

definition has_code :: "http_error \<Rightarrow> error_code \<Rightarrow> bool" where
  "has_code e k = (er_code e = Some k)"

definition as_filesystem_error :: "http_error \<Rightarrow> (nat \<times> string) option" where
  "as_filesystem_error e =
     (if has_code e CodeNotExist \<or> has_code e ErrCodePathResolution
         \<or> contains (er_text e) ''resolves to a location outside the server root''
      then Some (404, ''The requested resources was not found on the system.'')
      else if has_code e ErrCodeDenylistFile \<or> contains (er_text e) ''filesystem: file access prohibited''
      then Some (403, ''This file cannot be modified: present in egg denylist.'')
      else if has_code e ErrCodeIsDirectory \<or> contains (er_text e) ''filesystem: is a directory''
      then Some (400, ''Cannot perform that action: file is a directory.'')
      else if has_code e ErrCodeDiskSpace \<or> contains (er_text e) ''filesystem: not enough disk space''
      then Some (400, ''There is not enough disk space available to perform that action.'')
      else if has_suffix (er_text e) ''file name too long''
      then Some (400, ''Cannot perform that action: file name is too long.'')
      else if er_syscall e = Some ''readdirent''
      then Some (404, ''The requested directory does not exist.'')
      else None)"

text \<open>\<open>Abort\<close> also sets the status of the error, which nothing reads.\<close>

definition error_status :: "http_error \<Rightarrow> nat \<Rightarrow> nat option" where
  "error_status e written =
     (if written \<noteq> 200 then None
      else if er_deadline e then Some 504
      else if contains (er_text e) ''context canceled'' then Some 400
      else None)"

definition answer_message :: "http_error \<Rightarrow> nat \<Rightarrow> string" where
  "answer_message e written =
     (if written = 200 \<and> er_deadline e
      then ''The server could not process this request in time, please try again.''
      else if written = 200 \<and> contains (er_text e) ''context canceled'' then ''Request aborted by client.''
      else ''An unexpected error was encountered while processing this request'')"

definition request_id :: "http_ctx \<Rightarrow> string" where
  "request_id c = (case map_of (cx_headers c) ''X-Request-Id'' of Some i \<Rightarrow> i | None \<Rightarrow> [])"

definition abort_error :: "http_error \<Rightarrow> nat \<Rightarrow> http_ctx \<Rightarrow> http_ctx" where
  "abort_error e s c = abort_with s (Error_Body_Id (answer_message e (cx_status c)) (request_id c)) c"

text \<open>The part of \<open>CaptureErrors\<close> after the rest of the chain.\<close>

definition not_parsable :: string where
  "not_parsable = ''The data passed in the request was not in a parsable format. Please try again.''"

definition answer_errors :: "http_ctx \<Rightarrow> http_ctx" where
  "answer_errors c =
     (if cx_errors c = [] then c
      else (let err = last (cx_errors c); st = (if cx_status c \<noteq> 200 then cx_status c else 500)
            in if er_text err = ''EOF'' then abort_with 400 (Error_Body not_parsable) c
               else (let e = new_error err
                     in case as_filesystem_error e of
                          Some (s, msg) \<Rightarrow> abort_with s (Error_Body_Id msg (request_id c)) c
                        | None \<Rightarrow> abort_error e st c)))"

section \<open>Middleware\<close>

text \<open>
  The configuration as it was when the routes were made, the node's token, which is read at every request,
  and the identifiers of the manager's servers.
\<close>

record 'w http_env =
  en_location :: string
  en_origins :: "string list"
  en_private :: bool
  en_no_downloads :: bool
  en_token :: "'w \<Rightarrow> string"
  en_servers :: "'w \<Rightarrow> string list"

datatype middleware =
    Recovery | Attach_Request_ID | Capture_Errors | Set_Access_Control_Headers | Attach_Server_Manager
  | Attach_Api_Client | Attach_Job_Manager | Logger | Require_Authorization | Server_Exists
  | Remote_Download_Enabled

fun chosen_origin :: "string list \<Rightarrow> string \<Rightarrow> string option" where
  "chosen_origin [] origin = None"
| "chosen_origin (a # as) origin = (if a \<noteq> ''*'' \<and> a \<noteq> origin then chosen_origin as origin else Some a)"

definition access_control_headers :: "'w http_env \<Rightarrow> http_request \<Rightarrow> http_ctx \<Rightarrow> http_ctx" where
  "access_control_headers en rq c =
     (let origin = hr_header rq ''Origin'';
          c1 = set_header ''Access-Control-Allow-Headers'' ''Accept, Accept-Encoding, Authorization, Cache-Control, Content-Type, Content-Length, Origin, X-Real-IP, X-CSRF-Token''
                 (set_header ''Access-Control-Allow-Methods'' ''GET, POST, PATCH, PUT, DELETE, OPTIONS''
                   (set_header ''Access-Control-Allow-Credentials'' ''true''
                     (set_header ''Access-Control-Allow-Origin'' (en_location en) c)));
          c2 = (if en_private en then set_header ''Access-Control-Request-Private-Network'' ''true'' c1 else c1);
          c3 = set_header ''Access-Control-Max-Age'' ''7200'' c2
      in if origin = en_location en then c3
         else (case chosen_origin (en_origins en) origin of
                 Some a \<Rightarrow> set_header ''Access-Control-Allow-Origin'' a c3
               | None \<Rightarrow> c3))"

definition constant_time_compare :: "string \<Rightarrow> string \<Rightarrow> nat" where
  "constant_time_compare a b = (if a = b then 1 else 0)"

definition missing_heads :: string where
  "missing_heads = ''The required authorization heads were not present in the request.''"

definition require_authorization :: "'w http_env \<Rightarrow> http_request \<Rightarrow> 'w http_step \<Rightarrow> 'w http_step" where
  "require_authorization en rq next s =
     (let auth = split_first (CHR '' '') (hr_header rq ''Authorization'')
      in if length auth \<noteq> 2 \<or> auth ! 0 \<noteq> ''Bearer''
         then (abort_with 401 (Error_Body missing_heads) (set_header ''WWW-Authenticate'' ''Bearer'' (fst s)), snd s)
         else if constant_time_compare (auth ! 1) (en_token en (snd s)) \<noteq> 1
         then (abort_with 403 (Error_Body ''You are not authorized to access this endpoint.'') (fst s), snd s)
         else next s)"

definition server_exists :: "'w http_env \<Rightarrow> http_request \<Rightarrow> 'w http_step \<Rightarrow> 'w http_step" where
  "server_exists en rq next s =
     (let p = hr_param rq ''server'';
          found = (if p \<noteq> [] then find (\<lambda>i. p = i) (en_servers en (snd s)) else None)
      in case found of
           None \<Rightarrow> (abort_with 404 (Error_Body ''The requested resource does not exist on this instance.'') (fst s), snd s)
         | Some i \<Rightarrow> next ((fst s)\<lparr>cx_server := Some i\<rparr>, snd s))"

definition remote_download_enabled :: "'w http_env \<Rightarrow> 'w http_step \<Rightarrow> 'w http_step" where
  "remote_download_enabled en next s =
     (if en_no_downloads en
      then (abort_with 400 (Error_Body ''This functionality is not currently enabled on this instance.'') (fst s), snd s)
      else next s)"

definition set_access_control_headers :: "'w http_env \<Rightarrow> http_request \<Rightarrow> 'w http_step \<Rightarrow> 'w http_step" where
  "set_access_control_headers en rq next s =
     (let c = access_control_headers en rq (fst s)
      in if hr_method rq = ''OPTIONS'' then (c\<lparr>cx_aborted := True, cx_status := 204\<rparr>, snd s) else next (c, snd s))"

definition capture_errors :: "'w http_step \<Rightarrow> 'w http_step" where
  "capture_errors next s = (let r = next s in (answer_errors (fst r), snd r))"

definition attach_request_id :: "http_request \<Rightarrow> 'w http_step \<Rightarrow> 'w http_step" where
  "attach_request_id rq next s =
     next (set_header ''X-Request-Id'' (hr_id rq) ((fst s)\<lparr>cx_request_id := Some (hr_id rq)\<rparr>), snd s)"

text \<open>
  The recovery from panics and the log of requests are gin's; the handlers of the model do not panic, and the
  log leaves the answer as it is.
\<close>

fun run_middleware :: "'w http_env \<Rightarrow> http_request \<Rightarrow> middleware \<Rightarrow> 'w http_step \<Rightarrow> 'w http_step" where
  "run_middleware en rq Recovery next = next"
| "run_middleware en rq Attach_Request_ID next = attach_request_id rq next"
| "run_middleware en rq Capture_Errors next = capture_errors next"
| "run_middleware en rq Set_Access_Control_Headers next = set_access_control_headers en rq next"
| "run_middleware en rq Attach_Server_Manager next = (\<lambda>s. next ((fst s)\<lparr>cx_manager := True\<rparr>, snd s))"
| "run_middleware en rq Attach_Api_Client next = (\<lambda>s. next ((fst s)\<lparr>cx_client := True\<rparr>, snd s))"
| "run_middleware en rq Attach_Job_Manager next = (\<lambda>s. next ((fst s)\<lparr>cx_jobs := True\<rparr>, snd s))"
| "run_middleware en rq Logger next = next"
| "run_middleware en rq Require_Authorization next = require_authorization en rq next"
| "run_middleware en rq Server_Exists next = server_exists en rq next"
| "run_middleware en rq Remote_Download_Enabled next = remote_download_enabled en next"

section \<open>The log of requests\<close>

text \<open>The replacement of \<open>tokenRegex\<close> by \<open>$1***$3\<close>.\<close>

function redact :: "string \<Rightarrow> string" where
  "redact [] = []"
| "redact (c # cs) =
     (let v = takeWhile (\<lambda>x. x \<noteq> CHR ''&'') (drop 6 cs); rest = dropWhile (\<lambda>x. x \<noteq> CHR ''&'') (drop 6 cs)
      in if c \<in> {CHR ''?'', CHR ''|'', CHR ''&''} \<and> has_prefix cs ''token='' \<and> v \<noteq> []
         then c # ''token=***'' @ take 1 rest @ redact (drop 1 rest)
         else c # redact cs)"
  by pat_completeness auto
termination
proof (relation "measure length", goal_cases)
  case 1
  show ?case by simp
next
  case (2 c cs v rest)
  have "length (dropWhile (\<lambda>x. x \<noteq> CHR ''&'') (drop 6 cs)) \<le> length cs"
    using length_dropWhile_le [of "\<lambda>x. x \<noteq> CHR ''&''" "drop 6 cs"] by simp
  then have "length (dropWhile (\<lambda>x. x \<noteq> CHR ''&'') (drop 6 cs)) - Suc 0 < Suc (length cs)" by linarith
  then show ?case unfolding 2(2) by simp
next
  case 3
  then show ?case by simp
qed

section \<open>Routes\<close>

datatype registration =
    Use "middleware list"
  | Route string string "middleware list" string
  | Group string "registration list"

definition configure :: "registration list" where
  "configure =
    [Use [Recovery],
     Use [Attach_Request_ID, Capture_Errors, Set_Access_Control_Headers],
     Use [Attach_Server_Manager, Attach_Api_Client, Attach_Job_Manager],
     Use [Logger],
     Route ''GET'' ''/download/backup'' [] ''getDownloadBackup'',
     Route ''GET'' ''/download/file'' [] ''getDownloadFile'',
     Route ''POST'' ''/upload/file'' [] ''postServerUploadFiles'',
     Route ''GET'' ''/api/servers/:server/ws'' [Server_Exists] ''getServerWebsocket'',
     Route ''POST'' ''/api/transfers'' [] ''postTransfers'',
     Use [Require_Authorization],
     Route ''POST'' ''/api/update'' [] ''postUpdateConfiguration'',
     Route ''GET'' ''/api/system'' [] ''getSystemInformation'',
     Route ''GET'' ''/api/servers'' [] ''getAllServers'',
     Route ''POST'' ''/api/servers'' [] ''postCreateServer'',
     Route ''DELETE'' ''/api/transfers/:server'' [] ''deleteTransfer'',
     Route ''POST'' ''/api/deauthorize-user'' [] ''postDeauthorizeUser'',
     Group ''/api/servers/:server''
      [Use [Require_Authorization, Server_Exists],
       Route ''GET'' '''' [] ''getServer'',
       Route ''DELETE'' '''' [] ''deleteServer'',
       Route ''GET'' ''/logs'' [] ''getServerLogs'',
       Route ''POST'' ''/power'' [] ''postServerPower'',
       Route ''POST'' ''/commands'' [] ''postServerCommands'',
       Route ''POST'' ''/install'' [] ''postServerInstall'',
       Route ''POST'' ''/reinstall'' [] ''postServerReinstall'',
       Route ''POST'' ''/sync'' [] ''postServerSync'',
       Route ''POST'' ''/ws/deny'' [] ''postServerDenyWSTokens'',
       Route ''POST'' ''/transfer'' [] ''postServerTransfer'',
       Route ''DELETE'' ''/transfer'' [] ''deleteServerTransfer'',
       Group ''/files''
        [Route ''GET'' ''/contents'' [] ''getServerFileContents'',
         Route ''GET'' ''/list-directory'' [] ''getServerListDirectory'',
         Route ''PUT'' ''/rename'' [] ''putServerRenameFiles'',
         Route ''POST'' ''/copy'' [] ''postServerCopyFile'',
         Route ''POST'' ''/write'' [] ''postServerWriteFile'',
         Route ''POST'' ''/create-directory'' [] ''postServerCreateDirectory'',
         Route ''POST'' ''/delete'' [] ''postServerDeleteFiles'',
         Route ''POST'' ''/compress'' [] ''postServerCompressFiles'',
         Route ''POST'' ''/decompress'' [] ''postServerDecompressFiles'',
         Route ''POST'' ''/chmod'' [] ''postServerChmodFile'',
         Route ''GET'' ''/pull'' [Remote_Download_Enabled] ''getServerPullingFiles'',
         Route ''POST'' ''/pull'' [Remote_Download_Enabled] ''postServerPullRemoteFile'',
         Route ''DELETE'' ''/pull/:download'' [Remote_Download_Enabled] ''deleteServerPullRemoteFile''],
       Group ''/backup''
        [Route ''POST'' '''' [] ''postServerBackup'',
         Route ''POST'' ''/:backup/restore'' [] ''postServerRestoreBackup'',
         Route ''DELETE'' ''/:backup'' [] ''deleteServerBackup''],
       Group ''/jobs''
        [Route ''POST'' '''' [] ''postCreateJob'',
         Route ''GET'' ''/:job_id'' [] ''getJobStatus'',
         Route ''PUT'' ''/:job_id'' [] ''putUpdateJob'',
         Route ''DELETE'' ''/:job_id'' [] ''deleteJob'']]]"

record route =
  rt_method :: string
  rt_path :: string
  rt_chain :: "middleware list"
  rt_handler :: string

text \<open>
  What gin is: \<open>gn_routes p ms rs\<close> are the routes that the registrations \<open>rs\<close> make in a group with the path \<open>p\<close>
  and the handlers \<open>ms\<close>, and \<open>gn_run\<close> runs a chain of middleware before a handler.
\<close>

record 'w gin =
  gn_routes :: "string \<Rightarrow> middleware list \<Rightarrow> registration list \<Rightarrow> route list"
  gn_run :: "'w http_env \<Rightarrow> http_request \<Rightarrow> middleware list \<Rightarrow> 'w http_step \<Rightarrow> 'w http_step"

text \<open>
  As documented: a route has the handlers that its group had when it was registered, then its own; a group
  begins with those of the group that it is made in; each handler that calls \<open>Next\<close> runs what is after it.
\<close>

definition gin_ok :: "'w gin \<Rightarrow> bool" where
  "gin_ok g \<longleftrightarrow>
     (\<forall>p ms. gn_routes g p ms [] = []) \<and>
     (\<forall>p ms us rs. gn_routes g p ms (Use us # rs) = gn_routes g p (ms @ us) rs) \<and>
     (\<forall>p ms m q us h rs. gn_routes g p ms (Route m q us h # rs) =
        \<lparr>rt_method = m, rt_path = p @ q, rt_chain = ms @ us, rt_handler = h\<rparr> # gn_routes g p ms rs) \<and>
     (\<forall>p ms q sub rs. gn_routes g p ms (Group q sub # rs) = gn_routes g (p @ q) ms sub @ gn_routes g p ms rs) \<and>
     (\<forall>en rq h. gn_run g en rq [] h = h) \<and>
     (\<forall>en rq m ms h. gn_run g en rq (m # ms) h = run_middleware en rq m (gn_run g en rq ms h))"

definition serve_request :: "'w gin \<Rightarrow> 'w http_env \<Rightarrow> (string \<Rightarrow> http_request \<Rightarrow> 'w http_step) \<Rightarrow> http_request \<Rightarrow> route \<Rightarrow> 'w
    \<Rightarrow> http_ctx \<times> 'w" where
  "serve_request g en handlers rq r w = gn_run g en rq (rt_chain r) (handlers (rt_handler r) rq) (new_ctx, w)"

definition routes :: "'w gin \<Rightarrow> route list" where
  "routes g = gn_routes g [] [] configure"

end
