(* ===== verification/Http_Laws.thy ===== *)
theory Http_Laws
  imports Http_Guard
begin

text \<open>
  Who reaches a handler of the HTTP interface, and what a client is told of an error.
\<close>

section \<open>The routes\<close>

text \<open>The registrations as gin documents them, and the middleware as it is run.\<close>

fun registered :: "string \<Rightarrow> middleware list \<Rightarrow> registration list \<Rightarrow> route list" where
  "registered p ms [] = []"
| "registered p ms (Use us # rs) = registered p (ms @ us) rs"
| "registered p ms (Route m q us h # rs) =
     \<lparr>rt_method = m, rt_path = p @ q, rt_chain = ms @ us, rt_handler = h\<rparr> # registered p ms rs"
| "registered p ms (Group q sub # rs) = registered (p @ q) ms sub @ registered p ms rs"

fun run_chain :: "'w http_env \<Rightarrow> http_request \<Rightarrow> middleware list \<Rightarrow> 'w http_step \<Rightarrow> 'w http_step" where
  "run_chain en rq [] h = h"
| "run_chain en rq (m # ms) h = run_middleware en rq m (run_chain en rq ms h)"

definition example_gin :: "'w gin" where
  "example_gin = \<lparr>gn_routes = registered, gn_run = run_chain\<rparr>"

lemma example_gin_ok: "gin_ok example_gin"
  by (simp add: gin_ok_def example_gin_def)

lemma gin_routes: "gin_ok g \<Longrightarrow> gn_routes g p ms rs = registered p ms rs"
  by (induction p ms rs rule: registered.induct) (simp_all add: gin_ok_def)

lemma gin_run: "gin_ok g \<Longrightarrow> gn_run g en rq ms h = run_chain en rq ms h"
  by (induction ms) (simp_all add: gin_ok_def)

lemma serve_run: "gin_ok g \<Longrightarrow> serve_request g en hs rq r w = run_chain en rq (rt_chain r) (hs (rt_handler r) rq) (new_ctx, w)"
  by (simp add: serve_request_def gin_run)

text \<open>The handlers that check a token of their own.\<close>

definition public_handlers :: "string list" where
  "public_handlers = [''getDownloadBackup'', ''getDownloadFile'', ''postServerUploadFiles'', ''getServerWebsocket'', ''postTransfers'']"

definition server_route :: "route \<Rightarrow> bool" where
  "server_route r \<longleftrightarrow> has_prefix (rt_path r) ''/api/servers/:server''"

definition pull_route :: "route \<Rightarrow> bool" where
  "pull_route r \<longleftrightarrow> has_prefix (rt_path r) ''/api/servers/:server/files/pull''"

definition common :: "middleware list" where
  "common = [Recovery, Attach_Request_ID, Capture_Errors, Set_Access_Control_Headers, Attach_Server_Manager,
     Attach_Api_Client, Attach_Job_Manager, Logger]"

definition well_guarded :: "route \<Rightarrow> bool" where
  "well_guarded r \<longleftrightarrow>
     rt_method r \<noteq> ''OPTIONS'' \<and>
     (rt_handler r \<notin> set public_handlers \<longrightarrow>
        take 9 (rt_chain r) = common @ [Require_Authorization] \<and>
        (server_route r \<longrightarrow> take 2 (drop 9 (rt_chain r)) = [Require_Authorization, Server_Exists])) \<and>
     (server_route r \<longrightarrow> Server_Exists \<in> set (rt_chain r)) \<and>
     (pull_route r \<longrightarrow> Remote_Download_Enabled \<in> set (rt_chain r))"

lemma all_well_guarded: "list_all well_guarded (registered [] [] configure)"
  by code_simp

lemma routes_well_guarded: "gin_ok g \<Longrightarrow> r \<in> set (routes g) \<Longrightarrow> well_guarded r"
  using all_well_guarded by (simp add: routes_def gin_routes list_all_iff)

section \<open>Reaching a handler\<close>

definition authorized :: "'w http_env \<Rightarrow> http_request \<Rightarrow> 'w \<Rightarrow> bool" where
  "authorized en rq w \<longleftrightarrow> hr_header rq ''Authorization'' = ''Bearer '' @ en_token en w"

lemma split_first_pair:
  "split_first c s = [a, b] \<longleftrightarrow> c \<notin> set a \<and> s = a @ c # b"
proof
  assume l: "split_first c s = [a, b]"
  then have m: "c \<in> set s" by (auto simp: split_first_def split: if_splits)
  then obtain x y where s: "s = x @ c # y" "c \<notin> set x" by (meson split_list_first)
  then have "split_first c s = [x, y]" by (simp add: split_first_def takeWhile_append)
  with l s show "c \<notin> set a \<and> s = a @ c # b" by simp
next
  assume "c \<notin> set a \<and> s = a @ c # b"
  then show "split_first c s = [a, b]" by (simp add: split_first_def takeWhile_append)
qed

lemma require_authorization_passes:
  "authorized en rq w \<Longrightarrow> require_authorization en rq next (c, w) = next (c, w)"
proof -
  assume a: "authorized en rq w"
  have "split_first (CHR '' '') (hr_header rq ''Authorization'') = [''Bearer'', en_token en w]"
    using a by (simp add: split_first_pair authorized_def)
  then show ?thesis by (simp add: require_authorization_def constant_time_compare_def)
qed

lemma require_authorization_refuses:
  assumes "\<not> authorized en rq w"
  shows "\<exists>c'. require_authorization en rq next (c, w) = (c', w) \<and> cx_status c' \<in> {401, 403} \<and> cx_errors c' = cx_errors c"
proof (cases "\<exists>b. split_first (CHR '' '') (hr_header rq ''Authorization'') = [''Bearer'', b]")
  case True
  then obtain b where b: "split_first (CHR '' '') (hr_header rq ''Authorization'') = [''Bearer'', b]" by blast
  then have "b \<noteq> en_token en w" using assms by (auto simp: split_first_pair authorized_def)
  then show ?thesis using b by (simp add: require_authorization_def constant_time_compare_def abort_with_def)
next
  case False
  then have "length (split_first (CHR '' '') (hr_header rq ''Authorization'')) \<noteq> 2 \<or>
      split_first (CHR '' '') (hr_header rq ''Authorization'') ! 0 \<noteq> ''Bearer''"
    by (auto simp: length_Suc_conv numeral_2_eq_2)
  then show ?thesis by (auto simp: require_authorization_def Let_def abort_with_def set_header_def)
qed

lemma server_exists_cases:
  "server_exists en rq next (c, w) =
     (if hr_param rq ''server'' \<noteq> [] \<and> hr_param rq ''server'' \<in> set (en_servers en w)
      then next (c\<lparr>cx_server := Some (hr_param rq ''server'')\<rparr>, w)
      else (abort_with 404 (Error_Body ''The requested resource does not exist on this instance.'') c, w))"
proof -
  have "find (\<lambda>i. p = i) xs = (if p \<in> set xs then Some p else None)" for p :: string and xs
    by (induction xs) auto
  then show ?thesis by (simp add: server_exists_def Let_def)
qed

text \<open>The middleware changes nothing of the world.\<close>

lemma run_chain_reaches:
  "snd (run_chain en rq ms h (c, w)) = w \<or>
   (\<exists>c1. snd (run_chain en rq ms h (c, w)) = snd (h (c1, w)) \<and>
      (Require_Authorization \<in> set ms \<longrightarrow> authorized en rq w) \<and>
      (Remote_Download_Enabled \<in> set ms \<longrightarrow> \<not> en_no_downloads en) \<and>
      (Server_Exists \<in> set ms \<longrightarrow> hr_param rq ''server'' \<in> set (en_servers en w)) \<and>
      (Server_Exists \<in> set ms \<or> cx_server c = Some (hr_param rq ''server'') \<longrightarrow>
         cx_server c1 = Some (hr_param rq ''server'')))"
proof (induction ms arbitrary: c)
  case Nil
  then show ?case by auto
next
  case (Cons m ms)
  show ?case
  proof (cases m)
    case Require_Authorization
    then show ?thesis
      using Cons [of c] require_authorization_passes [of en rq w "run_chain en rq ms h" c]
        require_authorization_refuses [of en rq w "run_chain en rq ms h" c]
      by (cases "authorized en rq w") auto
  next
    case Server_Exists
    then show ?thesis using Cons [of "c\<lparr>cx_server := Some (hr_param rq ''server'')\<rparr>"]
      by (auto simp: server_exists_cases)
  next
    case Remote_Download_Enabled
    then show ?thesis using Cons [of c] by (auto simp: remote_download_enabled_def)
  next
    case Capture_Errors
    then show ?thesis using Cons [of c] by (simp add: capture_errors_def Let_def)
  next
    case Attach_Request_ID
    then show ?thesis
      using Cons [of "set_header ''X-Request-Id'' (hr_id rq) (c\<lparr>cx_request_id := Some (hr_id rq)\<rparr>)"]
      by (simp add: attach_request_id_def set_header_def)
  next
    case Set_Access_Control_Headers
    have "cx_server (access_control_headers en rq c) = cx_server c"
      by (simp add: access_control_headers_def set_header_def Let_def split: option.split)
    then show ?thesis
      using Set_Access_Control_Headers Cons [of "access_control_headers en rq c"]
      by (simp add: set_access_control_headers_def Let_def)
  next
    case Attach_Server_Manager
    then show ?thesis using Cons [of "c\<lparr>cx_manager := True\<rparr>"] by simp
  next
    case Attach_Api_Client
    then show ?thesis using Cons [of "c\<lparr>cx_client := True\<rparr>"] by simp
  next
    case Attach_Job_Manager
    then show ?thesis using Cons [of "c\<lparr>cx_jobs := True\<rparr>"] by simp
  qed (use Cons [of c] in simp_all)
qed

text \<open>The middleware common to all routes, of a request that does not ask for the options.\<close>

lemma serve_common:
  assumes "hr_method rq \<noteq> ''OPTIONS''"
  shows "\<exists>c0. cx_errors c0 = [] \<and> run_chain en rq (common @ ms) h (new_ctx, w) =
    (let s = run_chain en rq ms h (c0, w) in (answer_errors (fst s), snd s))"
proof -
  have e: "cx_errors (access_control_headers en rq c) = cx_errors c" for c
    by (simp add: access_control_headers_def set_header_def Let_def split: option.split)
  show ?thesis
    using assms by (auto simp: common_def capture_errors_def attach_request_id_def set_access_control_headers_def Let_def e
      set_header_def new_ctx_def intro!: exI)
qed

section \<open>Properties\<close>

text \<open>
  C2: A request only has an effect if it may. Whatever the handlers do and however gin behaves within its
  documentation, if serving a request on a route changes anything, then the request carries the node's token,
  the five routes that check a token of their own apart; on a route of a server, the server is one of the
  manager's and the handler found it in its context; and on a route of remote downloads these are enabled.
\<close>

theorem handlers_guarded:
  assumes gin: "gin_ok g" and r: "r \<in> set (routes g)"
    and run: "serve_request g en handlers rq r w = (c', w')" and effect: "w' \<noteq> w"
  shows "(rt_handler r \<notin> set public_handlers \<longrightarrow> hr_header rq ''Authorization'' = ''Bearer '' @ en_token en w) \<and>
    (server_route r \<longrightarrow> hr_param rq ''server'' \<in> set (en_servers en w) \<and>
       (\<exists>c. cx_server c = Some (hr_param rq ''server'') \<and> w' = snd (handlers (rt_handler r) rq (c, w)))) \<and>
    (pull_route r \<longrightarrow> \<not> en_no_downloads en)"
proof -
  have w': "w' = snd (run_chain en rq (rt_chain r) (handlers (rt_handler r) rq) (new_ctx, w))"
    using run by (simp add: serve_run [OF gin])
  have wg: "well_guarded r" using routes_well_guarded [OF gin r] .
  have pub: "Require_Authorization \<in> set (rt_chain r)" if "rt_handler r \<notin> set public_handlers"
  proof -
    have "Require_Authorization \<in> set (take 9 (rt_chain r))" using wg that by (simp add: well_guarded_def)
    then show ?thesis by (rule in_set_takeD)
  qed
  from run_chain_reaches [of en rq "rt_chain r" "handlers (rt_handler r) rq" new_ctx w] effect obtain c1
    where "w' = snd (handlers (rt_handler r) rq (c1, w))"
      "Require_Authorization \<in> set (rt_chain r) \<longrightarrow> authorized en rq w"
      "Remote_Download_Enabled \<in> set (rt_chain r) \<longrightarrow> \<not> en_no_downloads en"
      "Server_Exists \<in> set (rt_chain r) \<longrightarrow> hr_param rq ''server'' \<in> set (en_servers en w)"
      "Server_Exists \<in> set (rt_chain r) \<longrightarrow> cx_server c1 = Some (hr_param rq ''server'')"
    unfolding w' by blast
  then show ?thesis using wg pub by (auto simp: well_guarded_def authorized_def)
qed

text \<open>
  A request that may not have an effect is told so. Without the node's token a route that is not one of the
  five is answered with 401 or 403, and with it, for a server that is not there, with 404; the handler is not
  run and nothing changes.
\<close>

theorem unauthorized_refused:
  assumes gin: "gin_ok g" and r: "r \<in> set (routes g)" and m: "hr_method rq = rt_method r"
    and np: "rt_handler r \<notin> set public_handlers"
    and bad: "hr_header rq ''Authorization'' \<noteq> ''Bearer '' @ en_token en w \<or>
      server_route r \<and> hr_param rq ''server'' \<notin> set (en_servers en w)"
  shows "snd (serve_request g en handlers rq r w) = w \<and>
    cx_status (fst (serve_request g en handlers rq r w)) \<in>
      (if hr_header rq ''Authorization'' \<noteq> ''Bearer '' @ en_token en w then {401, 403} else {404})"
proof -
  let ?h = "handlers (rt_handler r) rq"
  have wg: "well_guarded r" using routes_well_guarded [OF gin r] .
  obtain rest where ch: "rt_chain r = common @ Require_Authorization # rest"
  proof
    have "take 9 (rt_chain r) = common @ [Require_Authorization]" using wg np by (simp add: well_guarded_def)
    then show "rt_chain r = common @ Require_Authorization # drop 9 (rt_chain r)"
      using append_take_drop_id [of 9 "rt_chain r"] by (metis append.assoc append_Cons append_Nil)
  qed
  have opt: "hr_method rq \<noteq> ''OPTIONS''" using wg m by (simp add: well_guarded_def)
  let ?next = "run_chain en rq rest ?h"
  obtain c0 where c0: "cx_errors c0 = []" and s: "serve_request g en handlers rq r w =
      (let s = require_authorization en rq ?next (c0, w) in (answer_errors (fst s), snd s))"
    using serve_common [OF opt, of en "Require_Authorization # rest" ?h w] by (auto simp: serve_run [OF gin] ch)
  show ?thesis
  proof (cases "authorized en rq w")
    case False
    then show ?thesis
      using require_authorization_refuses [OF False, of ?next c0] c0
      by (auto simp: s Let_def answer_errors_def authorized_def)
  next
    case True
    then have sr: "server_route r" and gone: "hr_param rq ''server'' \<notin> set (en_servers en w)"
      using bad by (simp_all add: authorized_def)
    then obtain rest2 where "rest = Require_Authorization # Server_Exists # rest2"
      using wg np ch by (cases rest; cases "tl rest") (auto simp: well_guarded_def common_def)
    then have "require_authorization en rq ?next (c0, w) =
        (abort_with 404 (Error_Body ''The requested resource does not exist on this instance.'') c0, w)"
      using True gone by (simp add: require_authorization_passes server_exists_cases)
    then show ?thesis using True c0 by (simp add: s answer_errors_def abort_with_def authorized_def)
  qed
qed





section \<open>Examples\<close>

definition example_env :: "nat http_env" where
  "example_env = \<lparr>en_location = ''https://panel'', en_origins = [''*''], en_private = False, en_no_downloads = False,
     en_token = (\<lambda>w. ''t''), en_servers = (\<lambda>w. [''s''])\<rparr>"

definition bearer_request :: "string \<Rightarrow> http_request" where
  "bearer_request t = \<lparr>hr_method = ''DELETE'', hr_param = (\<lambda>k. if k = ''server'' then ''s'' else []),
     hr_header = (\<lambda>k. if k = ''Authorization'' then ''Bearer '' @ t else []), hr_id = ''id''\<rparr>"

definition counting_handlers :: "string \<Rightarrow> http_request \<Rightarrow> nat http_step" where
  "counting_handlers n rq s = (fst s, snd s + 1)"

definition delete_route :: route where
  "delete_route = \<lparr>rt_method = ''DELETE'', rt_path = ''/api/servers/:server'',
     rt_chain = common @ [Require_Authorization, Require_Authorization, Server_Exists], rt_handler = ''deleteServer''\<rparr>"

lemma delete_route_there: "delete_route \<in> set (routes (example_gin :: nat gin))"
proof -
  have "list_ex ((=) delete_route) (registered [] [] configure)" by code_simp
  then show ?thesis by (auto simp: routes_def example_gin_def list_ex_iff)
qed

theorem handlers_guarded_witness:
  "hr_header (bearer_request ''t'') ''Authorization'' = ''Bearer '' @ en_token example_env 0 \<and>
   hr_param (bearer_request ''t'') ''server'' \<in> set (en_servers example_env 0)"
proof -
  let ?r = "serve_request example_gin example_env counting_handlers (bearer_request ''t'') delete_route 0"
  have "snd ?r = 1" by code_simp
  then obtain c' where "?r = (c', 1)" by (cases ?r) simp
  from handlers_guarded [OF example_gin_ok delete_route_there this]
  show ?thesis by (simp add: public_handlers_def delete_route_def server_route_def)
qed

theorem unauthorized_refused_witness:
  "snd (serve_request example_gin example_env counting_handlers (bearer_request ''u'') delete_route 0) = 0 \<and>
   cx_status (fst (serve_request example_gin example_env counting_handlers (bearer_request ''u'') delete_route 0)) \<in> {401, 403}"
proof -
  have b: "hr_header (bearer_request ''u'') ''Authorization'' \<noteq> ''Bearer '' @ en_token example_env 0"
    by (simp add: bearer_request_def example_env_def)
  have m: "hr_method (bearer_request ''u'') = rt_method delete_route"
    by (simp add: bearer_request_def delete_route_def)
  have p: "rt_handler delete_route \<notin> set public_handlers" by (simp add: delete_route_def public_handlers_def)
  from unauthorized_refused [OF example_gin_ok delete_route_there m p disjI1 [OF b], of counting_handlers] b
  show ?thesis by simp
qed

definition lost_file :: http_error where
  "lost_file = \<lparr>er_text = ''readdirent /srv/data: no such file or directory'', er_code = None, er_deadline = False,
     er_stack = False, er_syscall = Some ''readdirent''\<rparr>"


section \<open>What goes wrong\<close>

text \<open>
  A request that takes too long is told so with the status of an internal error: \<open>Abort\<close> sets the status 504
  where nothing reads it.
\<close>

lemma deadline_answered_500:
  assumes "er_deadline e" and "er_code e = None" and "er_text e = ''context deadline exceeded''" and "er_stack e"
    and "er_syscall e = None" and "cx_status c = 200" and "cx_errors c = [e]"
  shows "error_status e 200 = Some 504 \<and> cx_status (answer_errors c) = 500"
proof -
  have "as_filesystem_error e = None" using assms by (simp add: as_filesystem_error_def has_code_def has_prefix_def has_suffix_def)
  then show ?thesis using assms by (simp add: error_status_def answer_errors_def new_error_def abort_error_def abort_with_def)
qed

text \<open>
  A directory that cannot be read is meant to be answered with 404, but its error has been wrapped in a stack
  trace when its type is looked at.
\<close>

lemma missing_directory_answered_500:
  "cx_status (answer_errors (capture_and_abort lost_file new_ctx)) = 500"
  "as_filesystem_error lost_file = Some (404, ''The requested directory does not exist.'')"
  by code_simp+

text \<open>With the origin \<open>*\<close> among those allowed, answers allow credentials together with it, which browsers refuse.\<close>

lemma any_origin_with_credentials:
  "cx_headers (access_control_headers example_env (bearer_request ''t'') new_ctx) =
     [(''Access-Control-Allow-Origin'', ''*''), (''Access-Control-Allow-Credentials'', ''true''),
      (''Access-Control-Allow-Methods'', ''GET, POST, PATCH, PUT, DELETE, OPTIONS''),
      (''Access-Control-Allow-Headers'', ''Accept, Accept-Encoding, Authorization, Cache-Control, Content-Type, Content-Length, Origin, X-Real-IP, X-CSRF-Token''),
      (''Access-Control-Max-Age'', ''7200'')]"
  by code_simp

section \<open>Tokens in the log\<close>

lemma redact_plain: "set s \<inter> {CHR ''?'', CHR ''|'', CHR ''&''} = {} \<Longrightarrow> redact (s @ t) = s @ redact t"
  by (induction s) auto

text \<open>The token of a signed address is not logged.\<close>

lemma token_redacted:
  assumes "set p \<inter> {CHR ''?'', CHR ''|'', CHR ''&''} = {}" and "v \<noteq> []" and "CHR ''&'' \<notin> set v"
  shows "redact (p @ ''?token='' @ v) = p @ ''?token=***''"
proof -
  have "redact (''?token='' @ v) = ''?token=***''"
  proof -
    have "\<forall>x \<in> set v. x \<noteq> CHR ''&''" using assms(3) by auto
    then have t: "takeWhile (\<lambda>x. x \<noteq> CHR ''&'') v = v" "dropWhile (\<lambda>x. x \<noteq> CHR ''&'') v = []" by simp_all
    show ?thesis using assms(2) by (simp add: Let_def t)
  qed
  then show ?thesis using assms(1) by (simp add: redact_plain)
qed

text \<open>A second token is: the match of the first has taken the character before it.\<close>

lemma second_token_logged: "redact ''/f?token=a&token=b'' = ''/f?token=***&token=b''"
  by code_simp

end
