(* ===== verification/Server_Files.thy ===== *)
theory Server_Files
  imports Compress Downloads Tokens Activity_Cron Http_Guard
begin

text \<open>
  The requests on a server's files, \<open>src/router/router_server_files.go\<close>: each handler with the checks it makes
  before the operations of the filesystem, the tasks of its group, and its answer. The parts of a request are
  arguments, as they come out of gin: a body that could not be read is \<open>None\<close>.
\<close>

section \<open>Answers\<close>

text \<open>
  \<open>Gone\<close> ends a request without an answer, \<open>Crashed\<close> is a panic. A file is sent with its type, its size, the
  name if it is to be saved, what was sent and the error that stopped it.
\<close>

datatype file_answer =
    Answer nat
  | Not_Bound
  | Refused nat string
  | Captured sfs_err
  | Gone
  | Crashed
  | Listing "file_stat list" int
  | Contents string int "string option" string "fs_err option"
  | Found_Stat file_stat
  | Downloads_Of "download list"
  | Accepted_Download download

text \<open>
  The world has the table of downloads, the store of tokens that were seen and the records of the activity log
  that the database was asked to keep.
\<close>

record ('k, 'c) svw = "'k arw" +
  sv_downloads :: downloader
  sv_seen :: 'c
  sv_saved :: "activity list"

type_synonym ('k, 'c, 'z, 'a) sfio = "('k, ('c, 'z) svw_ext arw_ext sfsw_ext qfsw_ext, 'a) fio"

definition bound :: "'d option \<Rightarrow> ('d \<Rightarrow> ('k, 'm, file_answer) fio) \<Rightarrow> ('k, 'm, file_answer) fio" where
  "bound d f = (case d of None \<Rightarrow> uret Not_Bound | Some x \<Rightarrow> f x)"

text \<open>\<open>errors.Is\<close> with an error of the sandbox.\<close>

fun sfs_is :: "sfs_err \<Rightarrow> fs_err \<Rightarrow> bool" where
  "sfs_is (CodeError c) t = False"
| "sfs_is (UfsError e) t = errors_is e t"
| "sfs_is (SfsWrap msg e) t = sfs_is e t"

definition canceled :: sfs_err where
  "canceled = SfsWrap ''context canceled'' (UfsError ErrClosed)"

definition trim_left_slash :: "string \<Rightarrow> string" where
  "trim_left_slash s = dropWhile (\<lambda>c. c = CHR ''/'') s"

section \<open>Groups of tasks\<close>

text \<open>
  The tasks of a group in the order in which they start, each with whether it sees the context when that has
  ended: because of the first error, or because the request has gone. The first error is the group's.
\<close>

fun run_group :: "bool \<Rightarrow> (bool \<times> ('k, 'm, sfs_err option) fio) list \<Rightarrow> sfs_err option
    \<Rightarrow> ('k, 'm, sfs_err option) fio" where
  "run_group gone [] first = uret first"
| "run_group gone ((sees, t) # ts) first =
     (if sees \<and> first \<noteq> None then run_group gone ts first
      else if sees \<and> gone then run_group gone ts (Some canceled)
      else ubind t (\<lambda>e. run_group gone ts (if first = None then e else first)))"

definition task_group :: "bool \<Rightarrow> ('b list \<Rightarrow> (bool \<times> 'b) list) \<Rightarrow> ('b \<Rightarrow> ('k, 'm, sfs_err option) fio) \<Rightarrow> 'b list
    \<Rightarrow> ('k, 'm, sfs_err option) fio" where
  "task_group gone sched f xs = run_group gone (List.map (\<lambda>(sees, x). (sees, f x)) (sched xs)) None"

section \<open>Reading\<close>

text \<open>\<open>send\<close> is what the client's connection does with the bytes.\<close>

definition get_server_file_contents :: "sfs_cfg \<Rightarrow> 'k os \<Rightarrow> mime_detector \<Rightarrow> (string \<Rightarrow> fs_err option) \<Rightarrow> string \<Rightarrow> string
    \<Rightarrow> ('k, 'm, file_answer) fio" where
  "get_server_file_contents sc os detect send file_query download =
     (let p = trim_left_slash file_query
      in ubind (fs_file sc os detect p)
           (\<lambda>r. case r of
                  Inl e \<Rightarrow> uret (Captured (UfsError e))
                | Inr (fd, st) \<Rightarrow>
                    if fi_mode (fst_info st) AND mode_named_pipe \<noteq> 0
                    then ubind (close_fd os fd) (\<lambda>_. uret (Refused 400 ''Cannot open files of this type.''))
                    else ubind (sys (os_read os fd) (\<lambda>_. CRead fd))
                           (\<lambda>(bytes, rerr).
                              let r = limited (Some (fi_size (fst_info st))) \<lparr>rd_data = bytes, rd_err = rerr\<rparr>;
                                  e = send (rd_data r)
                              in ubind (close_fd os fd)
                                   (\<lambda>_. uret (Contents (fst_mimetype st) (fi_size (fst_info st))
                                            (if download \<noteq> [] then Some (fi_name (fst_info st)) else None)
                                            (rd_data r) (if e \<noteq> None then e else rd_err r))))))"

text \<open>\<open>offset\<close> and \<open>limit\<close> are what \<open>strconv.Atoi\<close> made of the query, errors or not.\<close>

definition list_canceled :: "sfs_err \<Rightarrow> bool" where
  "list_canceled e = (e = canceled)"

definition get_server_list_directory :: "sfs_cfg \<Rightarrow> 'k os \<Rightarrow> mime_detector \<Rightarrow> (dir_entry \<Rightarrow> bool) \<Rightarrow> string \<Rightarrow> int \<Rightarrow> int
    \<Rightarrow> ('k, 'm, file_answer) fio" where
  "get_server_list_directory sc os detect ended dir offset limit =
     (if 0 < limit
      then ubind (list_directory_paged sc os detect ended dir offset limit)
             (\<lambda>r. uret (case r of
                          ListPanic \<Rightarrow> Crashed
                        | Listed (Inl e) \<Rightarrow> if list_canceled e then Gone else Captured e
                        | Listed (Inr (stats, n)) \<Rightarrow> Listing stats n))
      else ubind (list_directory sc os detect dir)
             (\<lambda>r. uret (case r of
                          Inl e \<Rightarrow> Captured (UfsError e)
                        | Inr stats \<Rightarrow> Listing stats (int (length stats)))))"

section \<open>Renaming, copying, deleting\<close>

record rename_data =
  rn_root :: string
  rn_files :: "(string \<times> string) list"

text \<open>A pair is the name and the new name.\<close>

definition rename_task :: "sfs_cfg \<Rightarrow> 'k os \<Rightarrow> formats \<Rightarrow> string \<Rightarrow> string \<times> string \<Rightarrow> ('k, 'm, sfs_err option) fio" where
  "rename_task sc os fm root p =
     (let pf = path_join [root, fst p]; pt = path_join [root, snd p]
      in case is_ignored fm [pf, pt] of
           Some e \<Rightarrow> uret (Some e)
         | None \<Rightarrow>
             ubind (rename (sc_fs sc) os pf pt)
               (\<lambda>e. uret (case e of
                            None \<Rightarrow> None
                          | Some x \<Rightarrow> if errors_is x ErrNotExist then None else Some (UfsError x))))"

definition put_server_rename_files :: "sfs_cfg \<Rightarrow> 'k os \<Rightarrow> formats \<Rightarrow> bool
    \<Rightarrow> ((string \<times> string) list \<Rightarrow> (bool \<times> string \<times> string) list) \<Rightarrow> rename_data option \<Rightarrow> ('k, 'm, file_answer) fio" where
  "put_server_rename_files sc os fm gone sched d =
     bound d (\<lambda>d. if rn_files d = [] then uret (Refused 422 ''No files to move or rename were provided.'')
                  else ubind (task_group gone sched (rename_task sc os fm (rn_root d)) (rn_files d))
                         (\<lambda>e. uret (case e of
                                      None \<Rightarrow> Answer 204
                                    | Some x \<Rightarrow>
                                        if sfs_is x ErrExist
                                        then Refused 400 ''Cannot move or rename file, destination already exists.''
                                        else Captured x)))"

definition post_server_copy_file :: "sfs_cfg \<Rightarrow> 'k os \<Rightarrow> formats \<Rightarrow> string \<Rightarrow> string option \<Rightarrow> ('k, 'z, file_answer) sio" where
  "post_server_copy_file sc os fm stamp location =
     bound location
       (\<lambda>p. case is_ignored fm [p] of
              Some e \<Rightarrow> uret (Captured e)
            | None \<Rightarrow> ubind (fs_copy sc os stamp p) (\<lambda>e. uret (case e of None \<Rightarrow> Answer 204 | Some x \<Rightarrow> Captured x)))"

record files_data =
  fl_root :: string
  fl_files :: "string list"

definition delete_task :: "sfs_cfg \<Rightarrow> 'k os \<Rightarrow> string \<Rightarrow> string \<Rightarrow> ('k, 'z qfsw_ext, sfs_err option) fio" where
  "delete_task sc os root p = ubind (fs_delete sc os (path_join [root, p])) (\<lambda>e. uret (map_option UfsError e))"

definition post_server_delete_files :: "sfs_cfg \<Rightarrow> 'k os \<Rightarrow> (string list \<Rightarrow> (bool \<times> string) list) \<Rightarrow> files_data option
    \<Rightarrow> ('k, 'z qfsw_ext, file_answer) fio" where
  "post_server_delete_files sc os sched d =
     bound d (\<lambda>d. if fl_files d = [] then uret (Refused 422 ''No files were specified for deletion.'')
                  else ubind (task_group False sched (delete_task sc os (fl_root d)) (fl_files d))
                         (\<lambda>e. uret (case e of None \<Rightarrow> Answer 204 | Some x \<Rightarrow> Captured x)))"

section \<open>Writing\<close>

definition directory_conflict :: string where
  "directory_conflict = ''Cannot write file, name conflicts with an existing directory by the same name.''"

text \<open>The body is what the client will send; its announced length is -1 when it is unknown.\<close>

definition post_server_write_file :: "sfs_cfg \<Rightarrow> 'k os \<Rightarrow> formats \<Rightarrow> string \<Rightarrow> reader \<Rightarrow> int \<Rightarrow> ('k, 'z, file_answer) sio" where
  "post_server_write_file sc os fm file_query body content_length =
     (let f = ''/'' @ trim_left_slash file_query
      in case is_ignored fm [f] of
           Some e \<Rightarrow> uret (Captured e)
         | None \<Rightarrow>
             if content_length = -1 then uret (Refused 400 ''Missing Content-Length'')
             else ubind (fs_write sc os f body content_length 0x1A4)
                    (\<lambda>e. uret (case e of
                                 None \<Rightarrow> Answer 204
                               | Some x \<Rightarrow> if is_error_code x ErrCodeIsDirectory then Refused 400 directory_conflict
                                           else Captured x)))"

text \<open>\<open>err_text\<close> is the text of an error of the sandbox.\<close>

definition post_server_create_directory :: "sfs_cfg \<Rightarrow> 'k os \<Rightarrow> (fs_err \<Rightarrow> string) \<Rightarrow> (string \<times> string) option
    \<Rightarrow> ('k, 'm, file_answer) fio" where
  "post_server_create_directory sc os err_text d =
     bound d (\<lambda>(name, p). ubind (create_directory sc os name p)
                (\<lambda>e. uret (case e of
                             None \<Rightarrow> Answer 204
                           | Some x \<Rightarrow> if err_text x = ''not a directory''
                                       then Refused 400 ''Part of the path being created is not a directory (ENOTDIR).''
                                       else Captured (UfsError x))))"

section \<open>Downloads\<close>

definition get_server_pulling_files :: "string \<Rightarrow> ('k, 'c, 'z, file_answer) sfio" where
  "get_server_pulling_files sid = asking (\<lambda>w. Downloads_Of (by_server sid (sv_downloads w)))"

record pull_data =
  pl_directory :: string
  pl_root :: string
  pl_url :: string
  pl_file_name :: string
  pl_use_header :: bool
  pl_foreground :: bool

text \<open>
  The closure \<open>download\<close>: the download has the whole world, its network included; in the background it runs
  when the request has been answered.
\<close>

definition run_download :: "('k, 'c, 'z) svw_scheme download_deps \<Rightarrow> download \<Rightarrow> ('k, 'c, 'z, string option \<times> download) sfio" where
  "run_download dd dl w =
     (case execute_download dd dl (sv_downloads w) w of
        (e, dl1, r1, w1) \<Rightarrow> (Some (e, dl1), w1\<lparr>sv_downloads := r1\<rparr>))"

definition too_many_downloads :: string where
  "too_many_downloads = ''This server has reached its limit of 3 simultaneous remote file downloads at once. Please wait for one to complete before trying again.''"

text \<open>\<open>parse_url\<close> gives the path of a URL or the reason why it has none.\<close>

definition post_server_pull_remote_file :: "sfs_cfg \<Rightarrow> 'k os \<Rightarrow> mime_detector \<Rightarrow> ('k, 'c, 'z) svw_scheme download_deps
    \<Rightarrow> (string \<Rightarrow> string + string) \<Rightarrow> time \<Rightarrow> string \<Rightarrow> string \<Rightarrow> pull_data option \<Rightarrow> ('k, 'c, 'z, file_answer) sfio" where
  "post_server_pull_remote_file sc os detect dd parse_url now uuid sid d =
     bound d
       (\<lambda>d. let root = (if pl_directory d \<noteq> [] \<and> pl_root d = [] then pl_directory d else pl_root d)
            in case parse_url (pl_url d) of
                 Inl e \<Rightarrow> uret (Refused 400 (''An error occurred while parsing that URL: '' @ e))
               | Inr upath \<Rightarrow>
                   ubind (has_space_err sc os now True)
                     (\<lambda>full. case full of
                        Some e \<Rightarrow> uret (Captured e)
                      | None \<Rightarrow>
                          ubind (asking (\<lambda>w. by_server sid (sv_downloads w)))
                            (\<lambda>ds. if 3 \<le> length ds then uret (Refused 400 too_many_downloads)
                               else let q = \<lparr>dq_directory = root, dq_url = pl_url d, dq_url_path = upath,
                                             dq_file_name = pl_file_name d, dq_use_header = pl_use_header d\<rparr>
                                    in ubind (\<lambda>w. let p = new_download uuid sid q (sv_downloads w)
                                                  in (Some (fst p), w\<lparr>sv_downloads := snd p\<rparr>))
                                         (\<lambda>dl. if \<not> pl_foreground d then uret (Accepted_Download dl)
                                            else ubind (run_download dd dl)
                                                   (\<lambda>(e, dl1). case e of
                                                      Some x \<Rightarrow> uret (Captured (UfsError (FsMessage x)))
                                                    | None \<Rightarrow>
                                                        ubind (fs_stat sc os detect (download_path dl1))
                                                          (\<lambda>st. uret (case st of Inl x \<Rightarrow> Captured (UfsError x)
                                                                                | Inr s \<Rightarrow> Found_Stat s)))))))"

definition delete_server_pull_remote_file :: "string \<Rightarrow> string \<Rightarrow> ('k, 'c, 'z, file_answer) sfio" where
  "delete_server_pull_remote_file sid i =
     ubind (modify (\<lambda>w. case find_download i (sv_downloads w) of
                          Some dl \<Rightarrow> if belongs_to dl sid then w\<lparr>sv_downloads := cancel_download dl (sv_downloads w)\<rparr> else w
                        | None \<Rightarrow> w))
       (\<lambda>_. uret (Answer 204))"

section \<open>Archives\<close>

definition post_server_compress_files :: "sfs_cfg \<Rightarrow> 'k os \<Rightarrow> (int \<Rightarrow> 'k tar_out) \<Rightarrow> ('k \<Rightarrow> int) \<Rightarrow> string \<Rightarrow> time
    \<Rightarrow> files_data option \<Rightarrow> ('k, 'z, file_answer) aio" where
  "post_server_compress_files sc os out written stamp now d =
     bound d
       (\<lambda>d. if fl_files d = [] then uret (Refused 422 ''No files were passed through to be compressed.'')
            else ubind (has_space_available sc os now True)
                   (\<lambda>(available, started).
                      if \<not> available
                      then uret (Refused 409 ''This server does not have enough available disk space to generate a compressed archive.'')
                      else ubind (compress_files sc os out written stamp (fl_root d) (fl_files d))
                             (\<lambda>r. uret (case r of
                                          Inl e \<Rightarrow> Captured e
                                        | Inr s \<Rightarrow> Found_Stat \<lparr>fst_info = s, fst_mimetype = ''application/tar+gzip''\<rparr>))))"

definition unknown_archive :: string where
  "unknown_archive = ''The archive provided is in a format Elytra does not understand.''"

definition file_busy :: string where
  "file_busy = ''One or more files this archive is attempting to overwrite are currently in use by another process. Please try again.''"

definition post_server_decompress_files :: "sfs_cfg \<Rightarrow> 'k os \<Rightarrow> formats \<Rightarrow> (sfs_err \<Rightarrow> string) \<Rightarrow> (string \<times> string) option
    \<Rightarrow> ('k, 'z, file_answer) sio" where
  "post_server_decompress_files sc os fm err_text d =
     bound d
       (\<lambda>(root, name). ubind (space_for_decompression sc os fm root name)
          (\<lambda>e. case e of
                 Some x \<Rightarrow> uret (if is_error_code x ErrCodeUnknownArchive then Refused 400 unknown_archive else Captured x)
               | None \<Rightarrow>
                   ubind (decompress_file sc os fm root name)
                     (\<lambda>e. uret (case e of
                                  None \<Rightarrow> Answer 204
                                | Some x \<Rightarrow> if contains (err_text x) ''text file busy'' then Refused 400 file_busy
                                            else Captured x))))"

section \<open>Modes\<close>

text \<open>\<open>strconv.ParseUint(s, 8, 32)\<close>.\<close>

definition octal_digit :: "char \<Rightarrow> bool" where
  "octal_digit c \<longleftrightarrow> is_digit c \<and> char_digit c < 8"

fun octal_value :: "string \<Rightarrow> nat \<Rightarrow> nat" where
  "octal_value [] n = n"
| "octal_value (c # cs) n = octal_value cs (8 * n + char_digit c)"

definition parse_octal :: "string \<Rightarrow> nat option" where
  "parse_octal s =
     (if s = [] \<or> \<not> list_all octal_digit s then None
      else if 2 ^ 32 \<le> octal_value s 0 then None else Some (octal_value s 0))"

definition err_invalid_file_mode :: sfs_err where
  "err_invalid_file_mode = UfsError (FsMessage ''invalid file mode'')"

record chmod_data =
  ch_root :: string
  ch_files :: "(string \<times> string) list"

text \<open>A pair is a file and the mode for it.\<close>

definition chmod_task :: "sfs_cfg \<Rightarrow> 'k os \<Rightarrow> string \<Rightarrow> string \<times> string \<Rightarrow> ('k, 'm, sfs_err option) fio" where
  "chmod_task sc os root p =
     (case parse_octal (snd p) of
        None \<Rightarrow> uret (Some err_invalid_file_mode)
      | Some mode \<Rightarrow>
          ubind (chmod (sc_fs sc) os (path_join [root, fst p]) (of_nat mode))
            (\<lambda>e. uret (case e of
                         None \<Rightarrow> None
                       | Some x \<Rightarrow> if errors_is x ErrNotExist then None else Some (UfsError x))))"

definition post_server_chmod_file :: "sfs_cfg \<Rightarrow> 'k os \<Rightarrow> ((string \<times> string) list \<Rightarrow> (bool \<times> string \<times> string) list)
    \<Rightarrow> chmod_data option \<Rightarrow> ('k, 'm, file_answer) fio" where
  "post_server_chmod_file sc os sched d =
     bound d (\<lambda>d. if ch_files d = [] then uret (Refused 422 ''No files to chmod were provided.'')
                  else ubind (task_group False sched (chmod_task sc os (ch_root d)) (ch_files d))
                         (\<lambda>e. uret (case e of
                                      None \<Rightarrow> Answer 204
                                    | Some x \<Rightarrow> if x = err_invalid_file_mode then Refused 400 ''Invalid file mode.''
                                                else Captured x)))"

section \<open>Uploads\<close>

record upload_payload =
  up_server :: string
  up_user :: string
  up_unique :: string
  up_scope :: string

text \<open>A file of the form; opening it gives a reader.\<close>

record form_file =
  ff_name :: string
  ff_size :: int
  ff_open :: "fs_err + reader"

definition handle_file_upload :: "sfs_cfg \<Rightarrow> 'k os \<Rightarrow> formats \<Rightarrow> string \<Rightarrow> form_file \<Rightarrow> ('k, 'z, sfs_err option) sio" where
  "handle_file_upload sc os fm p f =
     (case ff_open f of
        Inl e \<Rightarrow> uret (Some (UfsError e))
      | Inr r \<Rightarrow>
          (case is_ignored fm [p] of
             Some e \<Rightarrow> uret (Some e)
           | None \<Rightarrow> fs_write sc os p r (ff_size f) 0x1A4))"

definition record_upload :: "time \<Rightarrow> request_activity \<Rightarrow> string \<Rightarrow> (string \<rightharpoonup> meta_value) \<Rightarrow> ('k, 'c, 'z, unit) sfio" where
  "record_upload now r e meta = modify (\<lambda>w. w\<lparr>sv_saved := sv_saved w @ [before_create now (request_event e meta r)]\<rparr>)"

fun upload_files :: "sfs_cfg \<Rightarrow> 'k os \<Rightarrow> formats \<Rightarrow> time \<Rightarrow> request_activity \<Rightarrow> string \<Rightarrow> form_file list
    \<Rightarrow> ('k, 'c, 'z, file_answer) sfio" where
  "upload_files sc os fm now who dir [] = uret (Answer 200)"
| "upload_files sc os fm now who dir (f # fs) =
     ubind (handle_file_upload sc os fm (path_join [dir, ff_name f]) f)
       (\<lambda>e. case e of
              Some x \<Rightarrow> uret (Captured x)
            | None \<Rightarrow>
                ubind (record_upload now who ''server:file.uploaded''
                         [''file'' \<mapsto> Meta_Other (ff_name f), ''directory'' \<mapsto> Meta_Other (path_clean dir)])
                  (\<lambda>_. upload_files sc os fm now who dir fs))"

text \<open>The sum of the sizes is kept, but nothing reads it.\<close>

fun oversized :: "int \<Rightarrow> form_file list \<Rightarrow> form_file option" where
  "oversized limit [] = None"
| "oversized limit (f # fs) = (if wrap64 (wrap64 (limit * 1024) * 1024) < ff_size f then Some f else oversized limit fs)"

definition too_large :: "int \<Rightarrow> form_file \<Rightarrow> string" where
  "too_large limit f = ''File '' @ ff_name f @ '' is larger than the maximum file upload size of '' @ itoa limit @ '' MB.''"

text \<open>
  A signed request is for a server of the manager, with an identifier that has not been seen and the scope that
  is wanted. The identifier is remembered if there is the server, whatever the scope.
\<close>

definition one_time :: "'c token_cache \<Rightarrow> (string \<Rightarrow> bool) \<Rightarrow> time \<Rightarrow> string \<Rightarrow> string \<Rightarrow> string \<Rightarrow> string
    \<Rightarrow> ('k, 'c, 'z, bool) sfio" where
  "one_time tc exists now sid unique scope wanted =
     (\<lambda>w. if \<not> exists sid then (Some False, w)
          else let p = is_valid_token tc now unique (sv_seen w)
               in (Some (fst p \<and> has_scope scope wanted), w\<lparr>sv_seen := snd p\<rparr>))"

text \<open>
  The token's payload, or why it has none; \<open>exists\<close> tells which servers the manager has, and the form has its
  files, if any.
\<close>

definition post_server_upload_files :: "sfs_cfg \<Rightarrow> 'k os \<Rightarrow> formats \<Rightarrow> 'c token_cache \<Rightarrow> (string \<Rightarrow> bool) \<Rightarrow> time \<Rightarrow> int
    \<Rightarrow> fs_err + upload_payload \<Rightarrow> string \<Rightarrow> string \<Rightarrow> form_file list option option \<Rightarrow> ('k, 'c, 'z, file_answer) sfio" where
  "post_server_upload_files sc os fm tc exists now limit token ip dir form =
     (case token of
        Inl e \<Rightarrow> uret (Captured (UfsError e))
      | Inr t \<Rightarrow>
          ubind (one_time tc exists now (up_server t) (up_unique t) (up_scope t) scope_file_upload)
            (\<lambda>ok. if \<not> ok then uret (Refused 404 ''The requested resource was not found on this server.'')
                  else (case form of
                          None \<Rightarrow> uret (Refused 400 ''Failed to get multipart form data from request.'')
                        | Some None \<Rightarrow> uret (Refused 400 ''No files were found on the request body.'')
                        | Some (Some fs) \<Rightarrow>
                            (case oversized limit fs of
                               Some f \<Rightarrow> uret (Refused 400 (too_large limit f))
                             | None \<Rightarrow> upload_files sc os fm now (new_request_activity (up_server t) (up_user t) ip) dir fs))))"

section \<open>What is answered\<close>

text \<open>
  How an answer changes the context of the request. \<open>err_text\<close> gives the texts of errors, \<open>bind_error\<close> is the
  error of a body that could not be read; data is opaque.
\<close>

definition error_seen :: "(sfs_err \<Rightarrow> string) \<Rightarrow> sfs_err \<Rightarrow> http_error" where
  "error_seen err_text e =
     \<lparr>er_text = err_text e, er_code = find_code e, er_deadline = False, er_stack = False, er_syscall = None\<rparr>"

definition answer_ctx :: "(sfs_err \<Rightarrow> string) \<Rightarrow> http_error \<Rightarrow> (file_answer \<Rightarrow> string) \<Rightarrow> file_answer \<Rightarrow> http_ctx \<Rightarrow> http_ctx" where
  "answer_ctx err_text bind_error data a c =
     (case a of
        Answer s \<Rightarrow> c\<lparr>cx_status := s\<rparr>
      | Not_Bound \<Rightarrow> c\<lparr>cx_aborted := True, cx_status := 400, cx_errors := cx_errors c @ [bind_error]\<rparr>
      | Refused s m \<Rightarrow> abort_with s (Error_Body m) c
      | Captured e \<Rightarrow> capture_and_abort (error_seen err_text e) c
      | Gone \<Rightarrow> c\<lparr>cx_aborted := True\<rparr>
      | Crashed \<Rightarrow> c\<lparr>cx_aborted := True, cx_status := 500\<rparr>
      | Contents mime n name b e \<Rightarrow>
          (let c1 = c\<lparr>cx_bodies := cx_bodies c @ [Data_Body b]\<rparr>
           in case e of None \<Rightarrow> c1 | Some x \<Rightarrow> capture_and_abort (error_seen err_text (UfsError x)) c1)
      | Accepted_Download dl \<Rightarrow> c\<lparr>cx_status := 202, cx_bodies := cx_bodies c @ [Data_Body (data a)]\<rparr>
      | _ \<Rightarrow> c\<lparr>cx_bodies := cx_bodies c @ [Data_Body (data a)]\<rparr>)"

section \<open>Requests\<close>

text \<open>What the handlers get from outside the request, and the requests that they answer, downloads apart.\<close>

record ('k, 'c) file_env =
  fe_formats :: formats
  fe_detect :: mime_detector
  fe_send :: "string \<Rightarrow> fs_err option"
  fe_ended :: "dir_entry \<Rightarrow> bool"
  fe_fs_text :: "fs_err \<Rightarrow> string"
  fe_text :: "sfs_err \<Rightarrow> string"
  fe_out :: "int \<Rightarrow> 'k tar_out"
  fe_written :: "'k \<Rightarrow> int"
  fe_tokens :: "'c token_cache"
  fe_exists :: "string \<Rightarrow> bool"
  fe_upload_limit :: int

datatype file_request =
    Fq_Contents string string
  | Fq_List string int int
  | Fq_Rename bool "(string \<times> string) list \<Rightarrow> (bool \<times> string \<times> string) list" "rename_data option"
  | Fq_Copy string "string option"
  | Fq_Delete "string list \<Rightarrow> (bool \<times> string) list" "files_data option"
  | Fq_Write string reader int
  | Fq_Mkdir "(string \<times> string) option"
  | Fq_Pulling string
  | Fq_Cancel string string
  | Fq_Compress string "files_data option"
  | Fq_Decompress "(string \<times> string) option"
  | Fq_Chmod "(string \<times> string) list \<Rightarrow> (bool \<times> string \<times> string) list" "chmod_data option"
  | Fq_Upload "fs_err + upload_payload" string string "form_file list option option"

fun handle_file_request :: "sfs_cfg \<Rightarrow> 'k os \<Rightarrow> ('k, 'c) file_env \<Rightarrow> time \<Rightarrow> file_request \<Rightarrow> ('k, 'c, 'z, file_answer) sfio" where
  "handle_file_request sc os fe now (Fq_Contents p download) =
     get_server_file_contents sc os (fe_detect fe) (fe_send fe) p download"
| "handle_file_request sc os fe now (Fq_List dir offset limit) =
     get_server_list_directory sc os (fe_detect fe) (fe_ended fe) dir offset limit"
| "handle_file_request sc os fe now (Fq_Rename gone sched d) = put_server_rename_files sc os (fe_formats fe) gone sched d"
| "handle_file_request sc os fe now (Fq_Copy stamp d) = post_server_copy_file sc os (fe_formats fe) stamp d"
| "handle_file_request sc os fe now (Fq_Delete sched d) = post_server_delete_files sc os sched d"
| "handle_file_request sc os fe now (Fq_Write p body n) = post_server_write_file sc os (fe_formats fe) p body n"
| "handle_file_request sc os fe now (Fq_Mkdir d) = post_server_create_directory sc os (fe_fs_text fe) d"
| "handle_file_request sc os fe now (Fq_Pulling sid) = get_server_pulling_files sid"
| "handle_file_request sc os fe now (Fq_Cancel sid i) = delete_server_pull_remote_file sid i"
| "handle_file_request sc os fe now (Fq_Compress stamp d) =
     post_server_compress_files sc os (fe_out fe) (fe_written fe) stamp now d"
| "handle_file_request sc os fe now (Fq_Decompress d) =
     post_server_decompress_files sc os (fe_formats fe) (fe_text fe) d"
| "handle_file_request sc os fe now (Fq_Chmod sched d) = post_server_chmod_file sc os sched d"
| "handle_file_request sc os fe now (Fq_Upload token ip dir form) =
     post_server_upload_files sc os (fe_formats fe) (fe_tokens fe) (fe_exists fe) now (fe_upload_limit fe) token ip dir form"

fun handle_file_requests :: "sfs_cfg \<Rightarrow> 'k os \<Rightarrow> ('k, 'c) file_env \<Rightarrow> (time \<times> file_request) list
    \<Rightarrow> ('k, 'c, 'z, file_answer list) sfio" where
  "handle_file_requests sc os fe [] = uret []"
| "handle_file_requests sc os fe ((now, q) # qs) =
     ubind (handle_file_request sc os fe now q)
       (\<lambda>a. ubind (handle_file_requests sc os fe qs) (\<lambda>as. uret (a # as)))"

end
