(* ===== verification/Server_Files_Laws.thy ===== *)
theory Server_Files_Laws
  imports Server_Files Compress_Laws
begin

text \<open>
  What requests on a server's files do: its quota holds through any sequence of them, and an upload only touches
  the files when everything about it has been checked.
\<close>

section \<open>The quota across an archive\<close>












section \<open>The quota across requests\<close>













section \<open>Properties\<close>


lemma oversized_None:
  "oversized limit fs = None \<longleftrightarrow> list_all (\<lambda>f. ff_size f \<le> wrap64 (wrap64 (limit * 1024) * 1024)) fs"
  by (induction fs) auto

text \<open>
  C12: An upload is checked before anything else happens. If it does more than to remember the token, then the
  token was read, its server exists, its identifier had not been seen, its scope allows uploads, and no file of
  the form is larger than the configured limit of megabytes.
\<close>

theorem upload_guarded:
  assumes "post_server_upload_files sc os fm tc exists now limit token ip dir form w = (r, w')"
    and "w' \<noteq> w\<lparr>sv_seen := sv_seen w'\<rparr>" and "\<bar>limit\<bar> < 2 ^ 40"
  shows "\<exists>t fs. token = Inr t \<and> exists (up_server t) \<and> \<not> tc_get tc now (up_unique t) (sv_seen w) \<and>
    has_scope (up_scope t) scope_file_upload \<and> form = Some (Some fs) \<and>
    list_all (\<lambda>f. ff_size f \<le> limit * 2 ^ 20) fs"
proof (cases token)
  case (Inl e)
  then show ?thesis using assms(1,2) by (auto simp: post_server_upload_files_def uret_def)
next
  case (Inr t)
  have b: "wrap64 (wrap64 (limit * 1024) * 1024) = limit * 2 ^ 20"
  proof -
    have l: "- (2 ^ 40) < limit" "limit < 2 ^ 40" using assms(3) by linarith+
    then have "wrap64 (limit * 1024) = limit * 1024" by (intro wrap64_id) (simp add: in_i64_simps)
    moreover have "wrap64 (limit * 1024 * 1024) = limit * 1024 * 1024"
      using l by (intro wrap64_id) (simp add: in_i64_simps)
    ultimately show ?thesis by simp
  qed
  show ?thesis
  proof (cases "exists (up_server t) \<and> fst (is_valid_token tc now (up_unique t) (sv_seen w)) \<and>
      has_scope (up_scope t) scope_file_upload \<and> (\<exists>fs. form = Some (Some fs) \<and> oversized limit fs = None)")
    case True
    then show ?thesis using Inr by (auto simp: oversized_None b is_valid_token_def Let_def)
  next
    case False
    then have "w' = w\<lparr>sv_seen := sv_seen w'\<rparr>"
      using assms(1) Inr
      by (cases form; cases "the form")
        (auto simp: post_server_upload_files_def one_time_def ubind_def uret_def Let_def split: if_splits option.splits)
    with assms(2) show ?thesis by simp
  qed
qed

section \<open>Examples\<close>

definition file_world :: "(int list \<times> bool, string \<rightharpoonup> time) svw" where
  "file_world = \<lparr>kst = ([0], True), calls = [], q_limit = 100, q_usage = 40, sf_last_lookup = None,
     sf_in_progress = False, sf_hard_links = [], sf_size = 0, ar_entries = [], ar_missing = 0, ar_progress = None,
     sv_downloads = empty_downloader, sv_seen = Map.empty, sv_saved = []\<rparr>"

definition example_file_env :: "(int list \<times> bool, string \<rightharpoonup> time) file_env" where
  "example_file_env = \<lparr>fe_formats = example_formats, fe_detect = (\<lambda>b e. Inr ''text/plain''), fe_send = (\<lambda>b. None),
     fe_ended = (\<lambda>e. False), fe_fs_text = (\<lambda>e. []), fe_text = (\<lambda>e. []),
     fe_out = (\<lambda>fd. example_out), fe_written = (\<lambda>k. 20),
     fe_tokens = map_cache, fe_exists = (\<lambda>s. s = ''s''), fe_upload_limit = 1\<rparr>"

definition example_upload :: file_request where
  "example_upload = Fq_Upload (Inr \<lparr>up_server = ''s'', up_user = ''u'', up_unique = ''1'', up_scope = ''file-upload''\<rparr>)
     ''203.0.113.9'' ''/'' (Some (Some [\<lparr>ff_name = ''c'', ff_size = 3, ff_open = Inr \<lparr>rd_data = ''abc'', rd_err = None\<rparr>\<rparr>]))"

definition example_requests :: "(time \<times> file_request) list" where
  "example_requests = [(1, example_upload), (2, Fq_Delete (List.map (Pair True)) (Some \<lparr>fl_root = ''/'', fl_files = [''b'']\<rparr>))]"




theorem upload_guarded_witness:
  "\<exists>t fs. (Inr \<lparr>up_server = ''s'', up_user = ''u'', up_unique = ''1'', up_scope = ''file-upload''\<rparr> :: fs_err + upload_payload) = Inr t \<and>
     fe_exists example_file_env (up_server t) \<and> \<not> tc_get map_cache 1 (up_unique t) (sv_seen file_world) \<and>
     has_scope (up_scope t) scope_file_upload \<and>
     Some (Some [\<lparr>ff_name = ''c'', ff_size = 3, ff_open = Inr \<lparr>rd_data = ''abc'', rd_err = None\<rparr>\<rparr>]) = Some (Some fs) \<and>
     list_all (\<lambda>f. ff_size f \<le> 1 * 2 ^ 20) fs"
proof -
  let ?r = "post_server_upload_files example_sfs dir_os example_formats map_cache (fe_exists example_file_env) 1 1
    (Inr \<lparr>up_server = ''s'', up_user = ''u'', up_unique = ''1'', up_scope = ''file-upload''\<rparr>) ''203.0.113.9'' ''/''
    (Some (Some [\<lparr>ff_name = ''c'', ff_size = 3, ff_open = Inr \<lparr>rd_data = ''abc'', rd_err = None\<rparr>\<rparr>])) file_world"
  obtain r w' where r: "?r = (r, w')" by (cases ?r)
  have "length (sv_saved (snd ?r)) = 1" by code_simp
  then have "length (sv_saved w') = 1" by (simp only: r snd_conv)
  moreover have "sv_saved (file_world\<lparr>sv_seen := c\<rparr>) = []" for c by (simp add: file_world_def)
  ultimately have "w' \<noteq> file_world\<lparr>sv_seen := sv_seen w'\<rparr>" by (metis list.size(3) zero_neq_one)
  from upload_guarded [OF r this] show ?thesis by simp
qed

section \<open>The denylist\<close>

text \<open>
  What is on the denylist is neither copied, nor written or uploaded, nor renamed, nor replaced by a rename; the
  files stay as they are.
\<close>

lemma denylisted_refused:
  assumes "fm_ignored fm p"
  shows "post_server_copy_file sc os fm stamp (Some p) w = (Some (Captured (CodeError ErrCodeDenylistFile)), w)"
    and "p = ''/'' @ trim_left_slash q \<Longrightarrow>
      post_server_write_file sc os fm q body n w = (Some (Captured (CodeError ErrCodeDenylistFile)), w)"
    and "ff_open f = Inr r \<Longrightarrow> handle_file_upload sc os fm p f w = (Some (Some (CodeError ErrCodeDenylistFile)), w)"
    and "p \<in> {path_join [root, fst x], path_join [root, snd x]} \<Longrightarrow>
      rename_task sc os fm root x w = (Some (Some (CodeError ErrCodeDenylistFile)), w)"
  using assms
  by (auto simp: post_server_copy_file_def post_server_write_file_def handle_file_upload_def rename_task_def bound_def
      is_ignored_def uret_def Let_def)

text \<open>Such a refusal is answered with 403, unless the file's name makes the text look like another error.\<close>

lemma denylist_answer:
  assumes "err_text (CodeError ErrCodeDenylistFile) \<noteq> ''EOF''"
    and "\<not> contains (err_text (CodeError ErrCodeDenylistFile)) ''resolves to a location outside the server root''"
  shows "cx_status (answer_errors (answer_ctx err_text be dat (Captured (CodeError ErrCodeDenylistFile)) new_ctx)) = 403"
  using assms
  by (simp add: answer_ctx_def capture_and_abort_def error_seen_def new_error_def new_ctx_def answer_errors_def
      as_filesystem_error_def has_code_def abort_with_def Let_def)

lemma modes_parsed: "parse_octal ''0755'' = Some 493" "parse_octal ''8'' = None" "parse_octal [] = None"
  by (simp_all add: parse_octal_def octal_digit_def is_digit_def char_digit_def)

lemma example_run:
  "fst (handle_file_requests example_sfs dir_os example_file_env example_requests file_world) = Some [Answer 200, Answer 204]"
  by code_simp

end
