(* ===== verification/Signed_Downloads.thy ===== *)
theory Signed_Downloads
  imports Server_Files Backup_Adapters Rustic_Life
begin

text \<open>
  Downloads over signed addresses, \<open>src/router/router_download.go\<close>: a file of a server, and a backup of any
  kind. The tokens of the addresses are read by a library; what they hold is an argument.
\<close>

section \<open>A file\<close>

record file_payload =
  fp_path :: string
  fp_server :: string
  fp_unique :: string
  fp_scope :: string

definition not_found_here :: string where
  "not_found_here = ''The requested resource was not found on this server.''"

text \<open>Errors of the client's connection are dropped, and the file is sent to its end.\<close>

definition get_download_file :: "sfs_cfg \<Rightarrow> 'k os \<Rightarrow> mime_detector \<Rightarrow> 'c token_cache \<Rightarrow> (string \<Rightarrow> bool) \<Rightarrow> time
    \<Rightarrow> fs_err + file_payload \<Rightarrow> ('k, 'c, 'z, file_answer) sfio" where
  "get_download_file sc os detect tc exists now token =
     (case token of
        Inl e \<Rightarrow> uret (Captured (UfsError e))
      | Inr t \<Rightarrow>
          ubind (one_time tc exists now (fp_server t) (fp_unique t) (fp_scope t) scope_file_download)
            (\<lambda>ok. if \<not> ok then uret (Refused 404 not_found_here)
                  else ubind (fs_file sc os detect (fp_path t))
                         (\<lambda>r. case r of
                                Inl e \<Rightarrow> uret (Captured (UfsError e))
                              | Inr (fd, st) \<Rightarrow>
                                  if fi_is_dir (fst_info st)
                                  then ubind (close_fd os fd) (\<lambda>_. uret (Refused 404 not_found_here))
                                  else ubind (sys (os_read os fd) (\<lambda>_. CRead fd))
                                         (\<lambda>(bytes, rerr). ubind (close_fd os fd)
                                            (\<lambda>_. uret (Contents ''application/octet-stream'' (fi_size (fst_info st))
                                                     (Some (fi_name (fst_info st))) bytes None))))))"

section \<open>A backup\<close>

record backup_payload =
  bp_server :: string
  bp_backup :: string
  bp_snapshot_id :: string
  bp_unique :: string
  bp_disk :: string
  bp_repository :: string
  bp_scope :: string

text \<open>The answer of the panel about the repositories of a server.\<close>

record server_rustic =
  sr_password :: string
  sr_repository :: string
  sr_credentials :: "s3_config option"

text \<open>
  The two worlds of the adapters are one here. \<open>dw_sent\<close> records what was sent to clients: a file of the node
  with its size, or an archive of a snapshot.
\<close>

datatype sent_backup = Sent_File string int string | Sent_Archive string

record ('w, 'c) dlw =
  dw_rust :: "'w rust"
  dw_seen :: 'c
  dw_sent :: "sent_backup list"

datatype backup_answer = Bk_Done | Bk_Refused nat string | Bk_Captured string | Bk_Panicked

text \<open>
  \<open>de_uuid\<close> is \<open>uuid.Parse\<close>: why a text is no identifier, if it is none. \<open>de_open\<close> opens a file of the node and
  reads it, \<open>de_rustic\<close> asks the panel, \<open>de_tree\<close> is what a restored snapshot has.
\<close>

record ('w, 'c) download_env =
  de_adapter :: "'w adapter_deps"
  de_rust :: "'w rust_deps"
  de_retries :: nat
  de_tokens :: "'c token_cache"
  de_exists :: "string \<Rightarrow> bool"
  de_uuid :: "string \<Rightarrow> string option"
  de_open :: "string \<Rightarrow> 'w \<Rightarrow> (string + string) \<times> 'w"
  de_rustic :: "string \<Rightarrow> string \<Rightarrow> 'w \<Rightarrow> (string + server_rustic) \<times> 'w"
  de_tree :: "string \<Rightarrow> 'w \<Rightarrow> walk_item list"

definition with_world :: "('w \<Rightarrow> 'a \<times> 'w) \<Rightarrow> ('w, 'c) dlw \<Rightarrow> 'a \<times> ('w, 'c) dlw" where
  "with_world f s =
     (let p = f (ru_world (dw_rust s)) in (fst p, s\<lparr>dw_rust := (dw_rust s)\<lparr>ru_world := snd p\<rparr>\<rparr>))"

definition lost_backup :: string where
  "lost_backup = ''The requested backup was not found on this server.''"

text \<open>The two older branches are the same: a backup that is a file of the node.\<close>

definition send_local_backup :: "('w, 'c) download_env \<Rightarrow> string \<Rightarrow> ('w, 'c) dlw \<Rightarrow> backup_answer \<times> ('w, 'c) dlw" where
  "send_local_backup de uuid s =
     (case locate_local (de_adapter de) True uuid (ru_world (dw_rust s)) of
        Inl e \<Rightarrow> (Bk_Refused 404 lost_backup, s)
      | Inr (b, n) \<Rightarrow>
          (let p = archive_path (de_adapter de) b; q = with_world (de_open de p) s
           in case fst q of
                Inl e \<Rightarrow> (Bk_Captured e, snd q)
              | Inr bytes \<Rightarrow> (Bk_Done, (snd q)\<lparr>dw_sent := dw_sent (snd q) @ [Sent_File p n bytes]\<rparr>)))"

text \<open>A backup without a snapshot's identifier stands for one that failed.\<close>

definition locate_rustic :: "('w, 'c) download_env \<Rightarrow> backup_payload \<Rightarrow> server_rustic
    \<Rightarrow> ('w, 'w rbackup) rio" where
  "locate_rustic de t c =
     locate_rustic_by_snapshot_id (de_retries de) (de_rust de) (bp_server t) (bp_snapshot_id t) (bp_repository t)
       (if bp_repository t = ''s3'' then sr_credentials c else None) (sr_password c) (sr_repository c)"

text \<open>The headers are set before the archive is made; the backup that was located is not closed.\<close>

definition send_rustic_backup :: "('w, 'c) download_env \<Rightarrow> backup_payload \<Rightarrow> ('w, 'c) dlw
    \<Rightarrow> backup_answer \<times> ('w, 'c) dlw" where
  "send_rustic_backup de t s =
     (let q = with_world (de_rustic de (bp_server t) (bp_repository t)) s; s1 = snd q
      in case fst q of
           Inl e \<Rightarrow> (Bk_Refused 404 ''Failed to get rustic configuration for backup.'', s1)
         | Inr c \<Rightarrow>
             if bp_repository t = ''s3'' \<and> sr_credentials c = None
             then (Bk_Refused 400 ''S3 credentials required for S3 rustic backup.'', s1)
             else if bp_repository t \<noteq> ''local'' \<and> bp_repository t \<noteq> ''s3''
             then (Bk_Refused 400 ''Invalid repository type for rustic backup.'', s1)
             else (case locate_rustic de t c (dw_rust s1) of
                     (Inl e, r1) \<Rightarrow> (Bk_Refused 404 lost_backup, s1\<lparr>dw_rust := r1\<rparr>)
                   | (Inr b, r1) \<Rightarrow>
                       if \<not> can_download b
                       then (Bk_Refused 400 ''The requested backup cannot be downloaded.'', s1\<lparr>dw_rust := r1\<rparr>)
                       else (case download_tar_gz (de_rust de) (de_tree de) b r1 of
                               (Ret (Inr _), r2) \<Rightarrow>
                                 (Bk_Done, s1\<lparr>dw_rust := r2, dw_sent := dw_sent s1 @ [Sent_Archive (bp_backup t @ ''.tar.gz'')]\<rparr>)
                             | (Ret (Inl e), r2) \<Rightarrow> (Bk_Captured e, s1\<lparr>dw_rust := r2\<rparr>)
                             | (_, r2) \<Rightarrow> (Bk_Panicked, s1\<lparr>dw_rust := r2\<rparr>))))"

definition get_download_backup :: "('w, 'c) download_env \<Rightarrow> time \<Rightarrow> string + backup_payload \<Rightarrow> ('w, 'c) dlw
    \<Rightarrow> backup_answer \<times> ('w, 'c) dlw" where
  "get_download_backup de now token s =
     (case token of
        Inl e \<Rightarrow> (Bk_Captured e, s)
      | Inr t \<Rightarrow>
          if \<not> de_exists de (bp_server t) then (Bk_Refused 404 not_found_here, s)
          else (let p = is_valid_token (de_tokens de) now (bp_unique t) (dw_seen s);
                    s1 = s\<lparr>dw_seen := snd p\<rparr>
                in if \<not> fst p \<or> \<not> has_scope (bp_scope t) scope_backup_download
                   then (Bk_Refused 404 not_found_here, s1)
                   else (case de_uuid de (bp_backup t) of
                           Some e \<Rightarrow> (Bk_Captured e, s1)
                         | None \<Rightarrow>
                             if bp_disk t = ''rustic_local'' \<or> bp_disk t = ''rustic_s3'' then send_rustic_backup de t s1
                             else send_local_backup de (bp_backup t) s1)))"

section \<open>Who gets what\<close>

lemma can_download_snapshot: "can_download b \<Longrightarrow> rb_snap b \<noteq> None"
  by (auto simp: can_download_def split: option.splits)

lemma located_without_snapshot:
  assumes "bp_snapshot_id t = []" and "locate_rustic de t c r = (Inr b, r1)"
  shows "\<not> can_download b"
proof -
  have "rb_snap b = None"
    using assms by (auto simp: locate_rustic_def locate_rustic_by_snapshot_id_def rbind_def rret_def split: prod.splits sum.splits)
  then show ?thesis using can_download_snapshot by blast
qed

lemma send_local_sent:
  "dw_sent (snd (send_local_backup de uuid s)) = dw_sent s \<or>
   (\<exists>n bytes. dw_sent (snd (send_local_backup de uuid s)) =
      dw_sent s @ [Sent_File (path_join [bd_dir (de_adapter de), uuid @ ''.tar.gz'']) n bytes])"
  by (auto simp: send_local_backup_def locate_local_def new_local_def archive_path_def with_world_def Let_def split: sum.splits prod.splits)

lemma with_world_sent [simp]: "dw_sent (snd (with_world f s)) = dw_sent s"
  by (simp add: with_world_def Let_def)

lemma send_rustic_sent:
  "dw_sent (snd (send_rustic_backup de t s)) = dw_sent s \<or>
   bp_snapshot_id t \<noteq> [] \<and> dw_sent (snd (send_rustic_backup de t s)) = dw_sent s @ [Sent_Archive (bp_backup t @ ''.tar.gz'')]"
proof -
  let ?q = "with_world (de_rustic de (bp_server t) (bp_repository t)) s"
  show ?thesis
  proof (cases "fst ?q")
    case (Inl e)
    then show ?thesis by (simp add: send_rustic_backup_def Let_def)
  next
    case (Inr c)
    obtain l r1 where l: "locate_rustic de t c (dw_rust (snd ?q)) = (l, r1)" by fastforce
    show ?thesis
    proof (cases l)
      case (Inl e)
      then show ?thesis using l Inr by (simp add: send_rustic_backup_def Let_def)
    next
      case b: (Inr b)
      obtain z r2 where z: "download_tar_gz (de_rust de) (de_tree de) b r1 = (z, r2)" by fastforce
      show ?thesis
      proof (cases "can_download b")
        case True
        then have "bp_snapshot_id t \<noteq> []" using located_without_snapshot l b by blast
        then show ?thesis using Inr l b z True by (simp add: send_rustic_backup_def Let_def split: sum.splits go.splits)
      qed (use Inr l b in \<open>simp add: send_rustic_backup_def Let_def\<close>)
    qed
  qed
qed

text \<open>
  C33: A signed address gives a backup away only once, and only the one that it is signed for. If anything is sent,
  the token was read and its identifier unseen, it has the scope for backups, its server exists and the name of
  the backup is an identifier; what is sent is one thing, the file of that name in the directory of the backups
  or, under that name, an archive, which only a token that names a snapshot gets.
\<close>

theorem backup_download_guarded:
  assumes "get_download_backup de now token s = (a, s')" and "dw_sent s' \<noteq> dw_sent s"
  shows "\<exists>t x. token = Inr t \<and> de_exists de (bp_server t) \<and> \<not> tc_get (de_tokens de) now (bp_unique t) (dw_seen s) \<and>
    has_scope (bp_scope t) scope_backup_download \<and> de_uuid de (bp_backup t) = None \<and> dw_sent s' = dw_sent s @ [x] \<and>
    ((\<exists>n bytes. x = Sent_File (path_join [bd_dir (de_adapter de), bp_backup t @ ''.tar.gz'']) n bytes) \<or>
     bp_snapshot_id t \<noteq> [] \<and> x = Sent_Archive (bp_backup t @ ''.tar.gz''))"
proof (cases token)
  case (Inl e)
  then show ?thesis using assms by (simp add: get_download_backup_def)
next
  case (Inr t)
  let ?s1 = "s\<lparr>dw_seen := snd (is_valid_token (de_tokens de) now (bp_unique t) (dw_seen s))\<rparr>"
  have ok: "de_exists de (bp_server t)" "fst (is_valid_token (de_tokens de) now (bp_unique t) (dw_seen s))"
      "has_scope (bp_scope t) scope_backup_download" "de_uuid de (bp_backup t) = None"
    and s': "s' = snd (if bp_disk t = ''rustic_local'' \<or> bp_disk t = ''rustic_s3'' then send_rustic_backup de t ?s1
               else send_local_backup de (bp_backup t) ?s1)"
    using assms Inr by (auto simp: get_download_backup_def Let_def split: if_splits option.splits)
  have "\<not> tc_get (de_tokens de) now (bp_unique t) (dw_seen s)"
    using ok(2) by (simp add: is_valid_token_def Let_def)
  moreover have "dw_sent ?s1 = dw_sent s" by simp
  ultimately show ?thesis
    using ok Inr s' assms(2) send_local_sent [of de "bp_backup t" ?s1] send_rustic_sent [of de t ?s1]
    by (auto split: if_splits)
qed

definition shelf_deps :: "unit adapter_deps" where
  "shelf_deps =
     \<lparr>bd_dir = ''/b'', bd_stat = (\<lambda>_ _. Inr (3, False)), bd_read = (\<lambda>_ _. Inr ''abc''),
      bd_create = (\<lambda>_ _ w. (None, w)), bd_remove = (\<lambda>_ w. (None, w)), bd_archive = (\<lambda>_. ([], None)),
      bd_sha1 = id, bd_hex = id, bd_delete_remote = (\<lambda>_ w. (None, w)), bd_upload_urls = (\<lambda>_ _ w. (Inl ''none'', w)),
      bd_bad_url = (\<lambda>_. None), bd_put = (\<lambda>_ _ _ w. ((PutStatus 200 ''OK'' ''tag'', 0), w)), bd_waits = []\<rparr>"

definition shelf_env :: "(unit, string \<rightharpoonup> time) download_env" where
  "shelf_env =
     \<lparr>de_adapter = shelf_deps, de_rust = saving_deps, de_retries = 1, de_tokens = map_cache,
      de_exists = (\<lambda>s. s = ''s''), de_uuid = (\<lambda>_. None), de_open = (\<lambda>_ w. (Inr ''abc'', w)),
      de_rustic = (\<lambda>_ _ w. (Inl ''none'', w)), de_tree = (\<lambda>_ _. [])\<rparr>"

definition shelf_token :: backup_payload where
  "shelf_token =
     \<lparr>bp_server = ''s'', bp_backup = ''u'', bp_snapshot_id = [], bp_unique = ''k'', bp_disk = [], bp_repository = [],
      bp_scope = scope_backup_download\<rparr>"

definition shelf_start :: "(unit, string \<rightharpoonup> time) dlw" where
  "shelf_start = \<lparr>dw_rust = saving_start, dw_seen = (\<lambda>_. None), dw_sent = []\<rparr>"

lemma shelf_sent:
  "fst (get_download_backup shelf_env 0 (Inr shelf_token) shelf_start) = Bk_Done \<and>
   dw_sent (snd (get_download_backup shelf_env 0 (Inr shelf_token) shelf_start)) = [Sent_File ''/b/u.tar.gz'' 3 ''abc'']"
  by code_simp

theorem backup_download_guarded_witness:
  "dw_sent (snd (get_download_backup shelf_env 0 (Inr shelf_token) shelf_start)) = [Sent_File ''/b/u.tar.gz'' 3 ''abc''] \<and>
   has_scope (bp_scope shelf_token) scope_backup_download \<and> de_exists shelf_env (bp_server shelf_token)"
proof -
  let ?g = "get_download_backup shelf_env 0 (Inr shelf_token) shelf_start"
  have "?g = (fst ?g, snd ?g)" by simp
  from backup_download_guarded [OF this] shelf_sent show ?thesis by (auto simp: shelf_start_def)
qed

text \<open>A file, too, is given away for an unseen token of a known server that has the scope for files.\<close>

lemma file_download_guarded:
  assumes "get_download_file sc os detect tc exists now token w = (Some (Contents m n nm b e), w')"
  shows "\<exists>t. token = Inr t \<and> exists (fp_server t) \<and> \<not> tc_get tc now (fp_unique t) (sv_seen w) \<and>
    has_scope (fp_scope t) scope_file_download"
proof (cases token)
  case (Inl x)
  then show ?thesis using assms by (simp add: get_download_file_def uret_def)
next
  case (Inr t)
  then show ?thesis
    using assms by (auto simp: get_download_file_def one_time_def is_valid_token_def ubind_def uret_def Let_def split: if_splits)
qed

end
