(* ===== verification/Job_Manager.thy ===== *)
theory Job_Manager
  imports Go_Strings
begin

text \<open>
  The job queue of \<open>src/jobs/job.go\<close> and the HTTP handlers over it (\<open>src/router/router_jobs.go\<close>).
  An instance is a pointer shared by the registry, the queue, the worker that executes it and the
  handlers that update or cancel it; so instances live in a store indexed by numbers, and the
  worker's execution is cut into the steps between which other goroutines can act.
\<close>

section \<open>Dynamic values\<close>

text \<open>What \<open>interface{}\<close> holds in job data, results and notifications.\<close>

datatype jval =
    JNull
  | JBool bool
  | JInt int
  | JStr string
  | JList "jval list"
  | JObj "(string \<times> jval) list"

type_synonym jmap = "string \<rightharpoonup> jval"

section \<open>State\<close>

datatype status = StatusPending | StatusRunning | StatusCompleted | StatusFailed | OtherStatus string

fun status_string :: "status \<Rightarrow> string" where
  "status_string StatusPending = ''pending''"
| "status_string StatusRunning = ''running''"
| "status_string StatusCompleted = ''completed''"
| "status_string StatusFailed = ''failed''"
| "status_string (OtherStatus s) = s"

definition parse_status :: "string \<Rightarrow> status" where
  "parse_status s =
     (if s = ''pending'' then StatusPending else if s = ''running'' then StatusRunning
      else if s = ''completed'' then StatusCompleted else if s = ''failed'' then StatusFailed
      else OtherStatus s)"

lemma status_string_parse [simp]: "status_string (parse_status s) = s"
  by (simp add: parse_status_def)

text \<open>
  A job as the manager sees it: its identifier and type, the verdict of \<open>Validate\<close>, and, if it
  implements \<open>WebSocketJob\<close>, the server, the event type and the data of its events.
\<close>

record job =
  j_id :: string
  j_type :: string
  j_validate :: "string option"
  j_ws :: "(string \<times> string \<times> (string \<times> jval) list) option"

record job_inst =
  ji_job :: job
  ji_status :: status
  ji_progress :: int
  ji_message :: string
  ji_error :: string
  ji_result :: "jval option"
  ji_created :: time
  ji_updated :: time

text \<open>
  \<open>jm_sent\<close> and \<open>jm_events\<close> record, in the order in which they are issued, the requests to the
  panel and the events published on a server's bus. \<open>jm_servers\<close> is \<open>None\<close> while no server
  manager is set; otherwise it says which servers the manager knows.
\<close>

record job_manager =
  jm_store :: "nat \<Rightarrow> job_inst"
  jm_next :: nat
  jm_jobs :: "string \<rightharpoonup> nat"
  jm_types :: "string \<rightharpoonup> (jmap \<Rightarrow> string + job)"
  jm_workers :: int
  jm_queue :: "nat list"
  jm_client :: bool
  jm_servers :: "(string \<Rightarrow> bool) option"
  jm_sent :: "(string \<times> jmap) list"
  jm_events :: "(string \<times> string \<times> jmap) list"

definition queue_capacity :: nat where "queue_capacity = 100"

definition new_job_manager :: "int \<Rightarrow> (nat \<Rightarrow> job_inst) \<Rightarrow> job_manager" where
  "new_job_manager workers store =
     \<lparr>jm_store = store, jm_next = 0, jm_jobs = Map.empty, jm_types = Map.empty,
      jm_workers = workers, jm_queue = [], jm_client = False, jm_servers = None,
      jm_sent = [], jm_events = []\<rparr>"

definition register_job_type :: "string \<Rightarrow> (jmap \<Rightarrow> string + job) \<Rightarrow> job_manager \<Rightarrow> job_manager" where
  "register_job_type ty con m = m\<lparr>jm_types := (jm_types m)(ty \<mapsto> con)\<rparr>"

definition set_client :: "bool \<Rightarrow> job_manager \<Rightarrow> job_manager" where
  "set_client c m = m\<lparr>jm_client := c\<rparr>"

definition set_server_manager :: "(string \<Rightarrow> bool) option \<Rightarrow> job_manager \<Rightarrow> job_manager" where
  "set_server_manager sm m = m\<lparr>jm_servers := sm\<rparr>"

section \<open>Reporting\<close>

text \<open>
  The notification's fields, then the \<open>successful\<close> flag, then, for a completed job whose result
  is an object, the result's fields over them. \<open>Unix()\<close> is whole seconds.
\<close>

definition unix_seconds :: "time \<Rightarrow> int" where
  "unix_seconds t = t div nanosecond_per_second"

definition result_fields :: "job_inst \<Rightarrow> jmap" where
  "result_fields i =
     (case ji_result i of
        Some (JObj kvs) \<Rightarrow> map_of kvs
      | _ \<Rightarrow> Map.empty)"

definition notification :: "job_inst \<Rightarrow> jmap" where
  "notification i =
     (let base = [''status'' \<mapsto> JStr (status_string (ji_status i)),
                  ''progress'' \<mapsto> JInt (ji_progress i),
                  ''message'' \<mapsto> JStr (ji_message i),
                  ''job_type'' \<mapsto> JStr (j_type (ji_job i)),
                  ''error_message'' \<mapsto> JStr (ji_error i),
                  ''updated_at'' \<mapsto> JInt (unix_seconds (ji_updated i))]
      in if ji_status i = StatusCompleted then
           base(''successful'' \<mapsto> JBool True) ++ result_fields i
         else if ji_status i = StatusFailed then base(''successful'' \<mapsto> JBool False)
         else base(''successful'' \<mapsto> JBool False))"

definition event_data :: "job_inst \<Rightarrow> (string \<times> jval) list \<Rightarrow> jmap" where
  "event_data i ws =
     (let base = [''job_id'' \<mapsto> JStr (j_id (ji_job i)),
                  ''job_type'' \<mapsto> JStr (j_type (ji_job i)),
                  ''status'' \<mapsto> JStr (status_string (ji_status i)),
                  ''progress'' \<mapsto> JInt (ji_progress i),
                  ''message'' \<mapsto> JStr (ji_message i),
                  ''timestamp'' \<mapsto> JInt (unix_seconds (ji_updated i))] ++ map_of ws;
          e = (if ji_error i \<noteq> [] then base(''error'' \<mapsto> JStr (ji_error i)) else base)
      in if ji_status i = StatusCompleted \<and> ji_result i \<noteq> None then e ++ result_fields i else e)"

definition publish_ws_event :: "job_inst \<Rightarrow> job_manager \<Rightarrow> job_manager" where
  "publish_ws_event i m =
     (case jm_servers m of
        None \<Rightarrow> m
      | Some known \<Rightarrow>
          (case j_ws (ji_job i) of
             None \<Rightarrow> m
           | Some (server_id, event_type, ws) \<Rightarrow>
               if \<not> known server_id then m
               else m\<lparr>jm_events := jm_events m @ [(server_id, event_type, event_data i ws)]\<rparr>))"

definition report_progress :: "nat \<Rightarrow> job_manager \<Rightarrow> job_manager" where
  "report_progress p m =
     (let i = jm_store m p;
          m1 = (if jm_client m
                then m\<lparr>jm_sent := jm_sent m @ [(j_id (ji_job i), notification i)]\<rparr> else m)
      in publish_ws_event i m1)"

definition set_inst :: "nat \<Rightarrow> job_inst \<Rightarrow> job_manager \<Rightarrow> job_manager" where
  "set_inst p i m = m\<lparr>jm_store := (jm_store m)(p := i)\<rparr>"

section \<open>The operations of the manager\<close>

definition create_job ::
  "time \<Rightarrow> string \<Rightarrow> jmap \<Rightarrow> job_manager \<Rightarrow> (string + string) \<times> job_manager" where
  "create_job now ty data m =
     (case jm_types m ty of
        None \<Rightarrow> (Inl (''unknown job type: '' @ ty), m)
      | Some con \<Rightarrow>
          (case con data of
             Inl e \<Rightarrow> (Inl (''failed to create job: '' @ e), m)
           | Inr job \<Rightarrow>
               (case j_validate job of
                  Some e \<Rightarrow> (Inl (''job validation failed: '' @ e), m)
                | None \<Rightarrow>
                    (let p = jm_next m;
                         i = \<lparr>ji_job = job, ji_status = StatusPending, ji_progress = 0,
                              ji_message = ''Job queued'', ji_error = [], ji_result = None,
                              ji_created = now, ji_updated = now\<rparr>;
                         m1 = (set_inst p i m)\<lparr>jm_next := Suc p, jm_jobs := (jm_jobs m)(j_id job \<mapsto> p)\<rparr>;
                         m2 = report_progress p m1
                     in if length (jm_queue m2) < queue_capacity
                        then (Inr (j_id job), m2\<lparr>jm_queue := jm_queue m2 @ [p]\<rparr>)
                        else (Inl ''job queue is full'', m2)))))"

definition get_job :: "string \<Rightarrow> job_manager \<Rightarrow> job_inst option" where
  "get_job jid m = map_option (jm_store m) (jm_jobs m jid)"

definition update_job ::
  "time \<Rightarrow> string \<Rightarrow> status \<Rightarrow> int \<Rightarrow> string \<Rightarrow> jval option \<Rightarrow> job_manager
   \<Rightarrow> string option \<times> job_manager" where
  "update_job now jid st progress msg result m =
     (case jm_jobs m jid of
        None \<Rightarrow> (Some (''job not found: '' @ jid), m)
      | Some p \<Rightarrow>
          (let i = (jm_store m p)\<lparr>ji_status := st, ji_progress := progress, ji_message := msg\<rparr>;
               i1 = (if result \<noteq> None then i\<lparr>ji_result := result\<rparr> else i);
               m1 = set_inst p (i1\<lparr>ji_updated := now\<rparr>) m
           in (None, report_progress p m1)))"

definition cancel_job :: "time \<Rightarrow> string \<Rightarrow> job_manager \<Rightarrow> string option \<times> job_manager" where
  "cancel_job now jid m =
     (case jm_jobs m jid of
        None \<Rightarrow> (Some (''job not found: '' @ jid), m)
      | Some p \<Rightarrow>
          (let i = jm_store m p
           in if ji_status i = StatusCompleted \<or> ji_status i = StatusFailed
              then (Some ''job already finished'', m)
              else (None, report_progress p
                      (set_inst p (i\<lparr>ji_status := StatusFailed, ji_message := ''Job cancelled'',
                                    ji_error := ''Cancelled by user'', ji_updated := now\<rparr>) m))))"

section \<open>Executing a job\<close>

text \<open>
  The body of a job reports progress or a status any number of times and ends with a result, an
  error or a panic. \<open>exec_begin\<close>, \<open>exec_report\<close> and \<open>exec_end\<close> are the stretches of
  \<open>executeJob\<close> and of the reporter between two calls into the job.
\<close>

datatype report = ReportProgress int string | ReportStatus status string
datatype job_outcome = JobReturned "jval option" | JobErrored string | JobPanicked string

definition exec_begin :: "time \<Rightarrow> nat \<Rightarrow> job_manager \<Rightarrow> job_manager" where
  "exec_begin now p m =
     report_progress p
       (set_inst p ((jm_store m p)\<lparr>ji_status := StatusRunning, ji_message := ''Job executing'',
                                   ji_updated := now\<rparr>) m)"

fun exec_report :: "time \<Rightarrow> nat \<Rightarrow> report \<Rightarrow> job_manager \<Rightarrow> job_manager" where
  "exec_report now p (ReportProgress n msg) m =
     report_progress p
       (set_inst p ((jm_store m p)\<lparr>ji_progress := n, ji_message := msg, ji_updated := now\<rparr>) m)"
| "exec_report now p (ReportStatus st msg) m =
     report_progress p
       (set_inst p ((jm_store m p)\<lparr>ji_status := st, ji_message := msg, ji_updated := now\<rparr>) m)"

fun exec_end :: "time \<Rightarrow> nat \<Rightarrow> job_outcome \<Rightarrow> job_manager \<Rightarrow> job_manager" where
  "exec_end now p (JobErrored e) m =
     report_progress p
       (set_inst p ((jm_store m p)\<lparr>ji_status := StatusFailed, ji_error := e,
                                   ji_message := ''Job failed'', ji_updated := now\<rparr>) m)"
| "exec_end now p (JobReturned r) m =
     report_progress p
       (set_inst p ((jm_store m p)\<lparr>ji_status := StatusCompleted, ji_result := r, ji_progress := 100,
                                   ji_message := ''Job completed successfully'', ji_updated := now\<rparr>) m)"
| "exec_end now p (JobPanicked e) m =
     report_progress p
       (set_inst p ((jm_store m p)\<lparr>ji_status := StatusFailed, ji_error := ''job panicked: '' @ e,
                                   ji_updated := now\<rparr>) m)"

fun exec_reports :: "nat \<Rightarrow> (time \<times> report) list \<Rightarrow> job_manager \<Rightarrow> job_manager" where
  "exec_reports p [] m = m"
| "exec_reports p ((t, r) # rs) m = exec_reports p rs (exec_report t p r m)"

definition execute_job ::
  "time \<Rightarrow> (time \<times> report) list \<Rightarrow> time \<Rightarrow> job_outcome \<Rightarrow> nat \<Rightarrow> job_manager \<Rightarrow> job_manager" where
  "execute_job t0 rs t1 out p m = exec_end t1 p out (exec_reports p rs (exec_begin t0 p m))"

text \<open>A worker takes the next instance from the queue.\<close>

definition worker_take :: "job_manager \<Rightarrow> (nat \<times> job_manager) option" where
  "worker_take m =
     (case jm_queue m of
        [] \<Rightarrow> None
      | p # ps \<Rightarrow> Some (p, m\<lparr>jm_queue := ps\<rparr>))"

section \<open>The HTTP handlers\<close>

datatype http_reply = HttpReply nat jmap | NoReply

definition status_not_found :: nat where "status_not_found = 404"

definition get_job_status :: "string \<Rightarrow> job_manager \<Rightarrow> http_reply" where
  "get_job_status jid m =
     (case get_job jid m of
        None \<Rightarrow> HttpReply 404 [''error'' \<mapsto> JStr ''Job not found'']
      | Some i \<Rightarrow> HttpReply 200
          [''job_id'' \<mapsto> JStr (j_id (ji_job i)), ''type'' \<mapsto> JStr (j_type (ji_job i)),
           ''status'' \<mapsto> JStr (status_string (ji_status i)), ''progress'' \<mapsto> JInt (ji_progress i),
           ''message'' \<mapsto> JStr (ji_message i), ''error'' \<mapsto> JStr (ji_error i),
           ''result'' \<mapsto> (case ji_result i of None \<Rightarrow> JNull | Some r \<Rightarrow> r),
           ''created_at'' \<mapsto> JInt (ji_created i), ''updated_at'' \<mapsto> JInt (ji_updated i)])"

text \<open>\<open>None\<close> is a body that \<open>BindJSON\<close> rejects; gin has then already replied.\<close>

definition post_create_job ::
  "time \<Rightarrow> (string \<times> jmap) option \<Rightarrow> job_manager \<Rightarrow> http_reply \<times> job_manager" where
  "post_create_job now req m =
     (case req of
        None \<Rightarrow> (NoReply, m)
      | Some (ty, data) \<Rightarrow>
          (case create_job now ty data m of
             (Inl e, m') \<Rightarrow> (HttpReply 500 [''error'' \<mapsto> JStr e], m')
           | (Inr jid, m') \<Rightarrow> (HttpReply 202 [''job_id'' \<mapsto> JStr jid, ''status'' \<mapsto> JStr ''pending''], m')))"

definition put_update_job ::
  "time \<Rightarrow> string \<Rightarrow> (string \<times> int \<times> string \<times> jval option) option \<Rightarrow> job_manager
   \<Rightarrow> http_reply \<times> job_manager" where
  "put_update_job now jid req m =
     (case req of
        None \<Rightarrow> (NoReply, m)
      | Some (st, progress, msg, result) \<Rightarrow>
          (case update_job now jid (parse_status st) progress msg result m of
             (Some e, m') \<Rightarrow> (HttpReply 404 [''error'' \<mapsto> JStr e], m')
           | (None, m') \<Rightarrow> (HttpReply 200 [''success'' \<mapsto> JBool True], m')))"

definition delete_job :: "time \<Rightarrow> string \<Rightarrow> job_manager \<Rightarrow> http_reply \<times> job_manager" where
  "delete_job now jid m =
     (case cancel_job now jid m of
        (Some e, m') \<Rightarrow> (HttpReply 404 [''error'' \<mapsto> JStr e], m')
      | (None, m') \<Rightarrow> (HttpReply 200 [''success'' \<mapsto> JBool True], m'))"

section \<open>Frame lemmas\<close>

lemma publish_ws_event_frame [simp]:
  "jm_store (publish_ws_event i m) = jm_store m"
  "jm_next (publish_ws_event i m) = jm_next m"
  "jm_jobs (publish_ws_event i m) = jm_jobs m"
  "jm_types (publish_ws_event i m) = jm_types m"
  "jm_queue (publish_ws_event i m) = jm_queue m"
  "jm_client (publish_ws_event i m) = jm_client m"
  "jm_servers (publish_ws_event i m) = jm_servers m"
  "jm_sent (publish_ws_event i m) = jm_sent m"
  by (simp_all add: publish_ws_event_def split: option.split)

lemma report_progress_frame [simp]:
  "jm_store (report_progress p m) = jm_store m"
  "jm_next (report_progress p m) = jm_next m"
  "jm_jobs (report_progress p m) = jm_jobs m"
  "jm_types (report_progress p m) = jm_types m"
  "jm_queue (report_progress p m) = jm_queue m"
  "jm_client (report_progress p m) = jm_client m"
  "jm_servers (report_progress p m) = jm_servers m"
  by (simp_all add: report_progress_def Let_def)

lemma report_progress_sent [simp]:
  "jm_sent (report_progress p m) =
     (if jm_client m then jm_sent m @ [(j_id (ji_job (jm_store m p)), notification (jm_store m p))]
      else jm_sent m)"
  by (simp add: report_progress_def Let_def)

lemma set_inst_frame [simp]:
  "jm_next (set_inst p i m) = jm_next m"
  "jm_jobs (set_inst p i m) = jm_jobs m"
  "jm_types (set_inst p i m) = jm_types m"
  "jm_queue (set_inst p i m) = jm_queue m"
  "jm_client (set_inst p i m) = jm_client m"
  "jm_servers (set_inst p i m) = jm_servers m"
  "jm_sent (set_inst p i m) = jm_sent m"
  "jm_store (set_inst p i m) = (jm_store m)(p := i)"
  by (simp_all add: set_inst_def)

lemma exec_reports_append: "exec_reports p (xs @ ys) m = exec_reports p ys (exec_reports p xs m)"
  by (induction p xs m rule: exec_reports.induct) simp_all

lemma exec_report_frame [simp]:
  "jm_next (exec_report t p r m) = jm_next m"
  "jm_jobs (exec_report t p r m) = jm_jobs m"
  "jm_queue (exec_report t p r m) = jm_queue m"
  "jm_client (exec_report t p r m) = jm_client m"
  "q \<noteq> p \<Longrightarrow> jm_store (exec_report t p r m) q = jm_store m q"
  "ji_job (jm_store (exec_report t p r m) p) = ji_job (jm_store m p)"
  by (cases r; simp)+

lemma exec_reports_frame [simp]:
  "jm_next (exec_reports p rs m) = jm_next m"
  "jm_jobs (exec_reports p rs m) = jm_jobs m"
  "jm_queue (exec_reports p rs m) = jm_queue m"
  "jm_client (exec_reports p rs m) = jm_client m"
  "q \<noteq> p \<Longrightarrow> jm_store (exec_reports p rs m) q = jm_store m q"
  "ji_job (jm_store (exec_reports p rs m) p) = ji_job (jm_store m p)"
  by (induction p rs m rule: exec_reports.induct) simp_all

lemma exec_begin_frame [simp]:
  "jm_next (exec_begin t p m) = jm_next m"
  "jm_jobs (exec_begin t p m) = jm_jobs m"
  "jm_queue (exec_begin t p m) = jm_queue m"
  "jm_client (exec_begin t p m) = jm_client m"
  "q \<noteq> p \<Longrightarrow> jm_store (exec_begin t p m) q = jm_store m q"
  "ji_job (jm_store (exec_begin t p m) p) = ji_job (jm_store m p)"
  by (simp_all add: exec_begin_def)

lemma exec_end_frame [simp]:
  "jm_next (exec_end t p out m) = jm_next m"
  "jm_jobs (exec_end t p out m) = jm_jobs m"
  "jm_queue (exec_end t p out m) = jm_queue m"
  "jm_client (exec_end t p out m) = jm_client m"
  "q \<noteq> p \<Longrightarrow> jm_store (exec_end t p out m) q = jm_store m q"
  "ji_job (jm_store (exec_end t p out m) p) = ji_job (jm_store m p)"
  by (cases out; simp)+

section \<open>The manager as a concurrent system\<close>

text \<open>
  The state of the whole: the manager, the instances that workers are executing, and (history
  only) the instances whose execution ended. At most \<open>jm_workers\<close> goroutines execute jobs. The
  identifiers of new jobs are fresh UUIDs.
\<close>

type_synonym job_sys = "job_manager \<times> nat list \<times> nat list"

definition fresh_ids :: "string \<Rightarrow> jmap \<Rightarrow> job_manager \<Rightarrow> bool" where
  "fresh_ids ty data m \<longleftrightarrow>
     (\<forall>con job. jm_types m ty = Some con \<longrightarrow> con data = Inr job \<longrightarrow> jm_jobs m (j_id job) = None)"

inductive job_step :: "job_sys \<Rightarrow> job_sys \<Rightarrow> bool" where
  create: "fresh_ids ty data m \<Longrightarrow> create_job now ty data m = (r, m') \<Longrightarrow>
     job_step (m, run, fin) (m', run, fin)"
| update: "update_job now jid st n msg res m = (r, m') \<Longrightarrow> job_step (m, run, fin) (m', run, fin)"
| cancel: "cancel_job now jid m = (r, m') \<Longrightarrow> job_step (m, run, fin) (m', run, fin)"
| take: "worker_take m = Some (p, m') \<Longrightarrow> int (length run) < jm_workers m \<Longrightarrow>
     job_step (m, run, fin) (exec_begin now p m', p # run, fin)"
| report: "p \<in> set run \<Longrightarrow> job_step (m, run, fin) (exec_report now p r m, run, fin)"
| finish: "p \<in> set run \<Longrightarrow>
     job_step (m, run, fin) (exec_end now p out m, remove1 p run, p # fin)"

inductive job_reach :: "job_manager \<Rightarrow> job_sys \<Rightarrow> bool" for m0 where
  init: "job_reach m0 (m0, [], [])"
| step: "job_reach m0 s \<Longrightarrow> job_step s t \<Longrightarrow> job_reach m0 t"

inductive_cases job_stepE: "job_step (m, run, fin) t"

text \<open>The last notification issued for a job: what the panel was told last.\<close>

definition last_sent :: "job_manager \<Rightarrow> string \<rightharpoonup> jmap" where
  "last_sent m = map_of (rev (jm_sent m))"

definition registry_ok :: "job_manager \<Rightarrow> bool" where
  "registry_ok m \<longleftrightarrow>
     (\<forall>jid p. jm_jobs m jid = Some p \<longleftrightarrow> p < jm_next m \<and> j_id (ji_job (jm_store m p)) = jid)"

definition queue_ok :: "job_sys \<Rightarrow> bool" where
  "queue_ok = (\<lambda>(m, run, fin).
     distinct (jm_queue m @ run @ fin) \<and> (\<forall>p \<in> set (jm_queue m @ run @ fin). p < jm_next m) \<and>
     length (jm_queue m) \<le> queue_capacity)"

definition panel_ok :: "job_manager \<Rightarrow> bool" where
  "panel_ok m \<longleftrightarrow>
     jm_client m \<longrightarrow>
     (\<forall>p < jm_next m. last_sent m (j_id (ji_job (jm_store m p))) = Some (notification (jm_store m p)))"

definition job_inv :: "job_sys \<Rightarrow> bool" where
  "job_inv s \<longleftrightarrow> registry_ok (fst s) \<and> queue_ok s \<and> panel_ok (fst s)"

text \<open>
  Every operation but creation has the same shape: replace one instance, keeping its job, and
  report it. One lemma for all of them.
\<close>

lemma registry_unique:
  "registry_ok m \<Longrightarrow> p < jm_next m \<Longrightarrow> q < jm_next m \<Longrightarrow>
   j_id (ji_job (jm_store m p)) = j_id (ji_job (jm_store m q)) \<Longrightarrow> p = q"
  unfolding registry_ok_def by (metis option.inject)

lemma last_sent_report:
  "last_sent (report_progress p m) =
     (if jm_client m then (last_sent m)(j_id (ji_job (jm_store m p)) \<mapsto> notification (jm_store m p))
      else last_sent m)"
  by (simp add: last_sent_def)

lemma touch_inv:
  assumes reg: "registry_ok m" and pan: "panel_ok m" and p: "p < jm_next m"
    and job: "ji_job i = ji_job (jm_store m p)"
  shows "registry_ok (report_progress p (set_inst p i m))
       \<and> panel_ok (report_progress p (set_inst p i m))"
proof
  show "registry_ok (report_progress p (set_inst p i m))"
    using reg job by (auto simp: registry_ok_def)
  have "last_sent (set_inst p i m) = last_sent m" by (simp add: last_sent_def)
  then show "panel_ok (report_progress p (set_inst p i m))"
    using pan job registry_unique [OF reg _ p]
    by (auto simp: panel_ok_def last_sent_report)
qed

lemma exec_begin_touch:
  assumes "registry_ok m" and "panel_ok m" and "p < jm_next m"
  shows "registry_ok (exec_begin t p m) \<and> panel_ok (exec_begin t p m)"
  unfolding exec_begin_def by (rule touch_inv [OF assms]) simp

lemma exec_report_touch:
  assumes "registry_ok m" and "panel_ok m" and "p < jm_next m"
  shows "registry_ok (exec_report t p r m) \<and> panel_ok (exec_report t p r m)"
  by (cases r; simp only: exec_report.simps; rule touch_inv [OF assms]; simp)

lemma exec_end_touch:
  assumes "registry_ok m" and "panel_ok m" and "p < jm_next m"
  shows "registry_ok (exec_end t p out m) \<and> panel_ok (exec_end t p out m)"
  by (cases out; simp only: exec_end.simps; rule touch_inv [OF assms]; simp)

lemma create_job_inv:
  assumes fresh: "fresh_ids ty data m" and c: "create_job now ty data m = (r, m')"
    and inv: "job_inv (m, run, fin)"
  shows "job_inv (m', run, fin)"
proof (cases "m' = m")
  case False
  then obtain con job where con: "jm_types m ty = Some con" "con data = Inr job" "j_validate job = None"
    using c by (auto simp: create_job_def split: option.splits sum.splits)
  define p where "p = jm_next m"
  define i where "i = \<lparr>ji_job = job, ji_status = StatusPending, ji_progress = 0,
      ji_message = ''Job queued'', ji_error = [], ji_result = None, ji_created = now, ji_updated = now\<rparr>"
  define m1 where "m1 = (set_inst p i m)\<lparr>jm_next := Suc p, jm_jobs := (jm_jobs m)(j_id job \<mapsto> p)\<rparr>"
  define m2 where "m2 = report_progress p m1"
  have m': "m' = m2 \<or> (length (jm_queue m2) < queue_capacity \<and> m' = m2\<lparr>jm_queue := jm_queue m2 @ [p]\<rparr>)"
    using c con
    by (auto simp: create_job_def Let_def m2_def m1_def i_def p_def split: if_splits)
  have newid: "jm_jobs m (j_id job) = None" using fresh con by (simp add: fresh_ids_def)
  have reg: "registry_ok m" and q: "queue_ok (m, run, fin)" and pan: "panel_ok m"
    using inv by (simp_all add: job_inv_def)
  have old: "j_id (ji_job (jm_store m k)) \<noteq> j_id job" if "k < p" for k
    using that newid reg by (auto simp: registry_ok_def p_def) (metis option.distinct(1))
  have reg1: "registry_ok m1"
    using reg old unfolding registry_ok_def
    by (auto simp: m1_def p_def i_def less_Suc_eq)
  have sent1: "last_sent m1 = last_sent m" by (simp add: last_sent_def m1_def)
  have "registry_ok m2" using reg1 by (simp add: registry_ok_def m2_def)
  moreover have "panel_ok m2"
    using pan old sent1
    by (auto simp: panel_ok_def m2_def last_sent_report) (auto simp: m1_def i_def p_def less_Suc_eq)
  moreover have "queue_ok (m2, run, fin) \<and> p \<notin> set (jm_queue m2 @ run @ fin) \<and> p < jm_next m2"
    using q by (auto simp: queue_ok_def m2_def m1_def p_def less_Suc_eq)
  ultimately show ?thesis
    using m' by (auto simp: job_inv_def queue_ok_def registry_ok_def panel_ok_def last_sent_def)
qed (use inv in simp)

lemma job_inv_step: "job_step s t \<Longrightarrow> job_inv s \<Longrightarrow> job_inv t"
proof (induction rule: job_step.induct)
  case (create ty data m now r m' run fin)
  then show ?case by (rule create_job_inv)
next
  case (update now jid st n msg res m r m' run fin)
  show ?case
  proof (cases "jm_jobs m jid")
    case None
    with update show ?thesis by (simp add: update_job_def)
  next
    case (Some p)
    then have p: "p < jm_next m" using update by (auto simp: job_inv_def registry_ok_def)
    with update Some show ?thesis
      using touch_inv [OF _ _ p] by (auto simp: job_inv_def update_job_def Let_def queue_ok_def)
  qed
next
  case (cancel now jid m r m' run fin)
  show ?case
  proof (cases "jm_jobs m jid")
    case None
    with cancel show ?thesis by (simp add: cancel_job_def)
  next
    case (Some p)
    then have p: "p < jm_next m" using cancel by (auto simp: job_inv_def registry_ok_def)
    with cancel Some show ?thesis
      using touch_inv [OF _ _ p]
      by (auto simp: job_inv_def cancel_job_def Let_def queue_ok_def split: if_splits)
  qed
next
  case (take m p m' run fin now)
  then obtain ps where q: "jm_queue m = p # ps" and m': "m' = m\<lparr>jm_queue := ps\<rparr>"
    by (auto simp: worker_take_def split: list.splits)
  have "registry_ok m'" "panel_ok m'" "p < jm_next m'"
    using take m' q by (auto simp: job_inv_def registry_ok_def panel_ok_def last_sent_def queue_ok_def)
  with take m' q show ?case
    using exec_begin_touch [of m' p now] by (auto simp: job_inv_def queue_ok_def)
next
  case (report p run m fin now r)
  then show ?case
    using exec_report_touch [of m p now r] by (auto simp: job_inv_def queue_ok_def)
next
  case (finish p run m fin now out)
  then have "registry_ok m" "panel_ok m" "p < jm_next m" by (auto simp: job_inv_def queue_ok_def)
  with finish show ?case
    using exec_end_touch [of m p now out]
    by (auto simp: job_inv_def queue_ok_def distinct_remove1 dest: notin_set_remove1)
qed

definition fresh_manager :: "job_manager \<Rightarrow> bool" where
  "fresh_manager m \<longleftrightarrow>
     jm_next m = 0 \<and> jm_jobs m = Map.empty \<and> jm_queue m = [] \<and> jm_sent m = []"

lemma fresh_manager_new [inv_intros]:
  "fresh_manager (new_job_manager w st)"
  "fresh_manager m \<Longrightarrow> fresh_manager (register_job_type ty con m)"
  "fresh_manager m \<Longrightarrow> fresh_manager (set_client c m)"
  "fresh_manager m \<Longrightarrow> fresh_manager (set_server_manager sm m)"
  by (simp_all add: fresh_manager_def new_job_manager_def register_job_type_def set_client_def
      set_server_manager_def)

lemma job_reach_inv: "job_reach m0 s \<Longrightarrow> fresh_manager m0 \<Longrightarrow> job_inv s"
proof (induction rule: job_reach.induct)
  case init
  then show ?case
    by (simp add: job_inv_def fresh_manager_def registry_ok_def queue_ok_def panel_ok_def)
next
  case (step s t)
  then show ?case by (blast intro: job_inv_step)
qed

section \<open>Properties\<close>


definition example_job :: job where
  "example_job = \<lparr>j_id = ''j1'', j_type = ''t'', j_validate = None, j_ws = None\<rparr>"

definition example_inst :: job_inst where
  "example_inst = \<lparr>ji_job = example_job, ji_status = StatusPending, ji_progress = 0,
     ji_message = ''Job queued'', ji_error = [], ji_result = None, ji_created = 5, ji_updated = 5\<rparr>"

definition example_manager :: job_manager where
  "example_manager = set_client True (register_job_type ''t'' (\<lambda>_. Inr example_job)
     (new_job_manager 1 (\<lambda>_. example_inst)))"

definition example_created :: job_manager where
  "example_created = snd (create_job 5 ''t'' Map.empty example_manager)"

lemma example_fresh: "fresh_manager example_manager"
  unfolding example_manager_def by (intro inv_intros)

lemma example_create: "create_job 5 ''t'' Map.empty example_manager = (Inr ''j1'', example_created)"
  by (simp add: example_created_def create_job_def example_manager_def register_job_type_def
      set_client_def new_job_manager_def example_job_def Let_def queue_capacity_def)

lemma example_reach: "job_reach example_manager (example_created, [], [])"
proof (rule job_reach.step [OF job_reach.init job_step.create])
  show "fresh_ids ''t'' Map.empty example_manager"
    by (simp add: fresh_ids_def example_manager_def register_job_type_def set_client_def new_job_manager_def)
qed (rule example_create)

lemma example_created_simps:
  "jm_client example_created" "get_job ''j1'' example_created = Some example_inst"
  "jm_queue example_created = [0]" "jm_jobs example_created ''j1'' = Some 0"
  "jm_store example_created 0 = example_inst"
  by (simp_all add: example_created_def create_job_def example_manager_def register_job_type_def
      set_client_def new_job_manager_def example_job_def example_inst_def Let_def queue_capacity_def get_job_def)


text \<open>
  No job runs twice and the queue is bounded: in every reachable state the instances waiting,
  being executed and done are pairwise different, and at most a hundred wait.
\<close>

theorem jobs_run_once:
  assumes "job_reach m0 (m, run, fin)" and "fresh_manager m0"
  shows "distinct (jm_queue m @ run @ fin) \<and> length (jm_queue m) \<le> 100"
  using job_reach_inv [OF assms] by (simp add: job_inv_def queue_ok_def queue_capacity_def)

theorem jobs_run_once_witness:
  "distinct (jm_queue example_created @ [] @ []) \<and> jm_queue example_created = [0]"
  using jobs_run_once [OF example_reach example_fresh] example_created_simps(3) by simp

text \<open>
  What a run leaves behind, on every branch: a job that returns is completed with its result
  at one hundred percent, whatever it reported before; one that errs or panics is failed and
  keeps the error text; and other instances are untouched.
\<close>

theorem execute_job_outcome:
  "let m' = execute_job t0 rs t1 out p m; i = jm_store m' p in
     (case out of
        JobReturned r \<Rightarrow> ji_status i = StatusCompleted \<and> ji_result i = r \<and> ji_progress i = 100
      | JobErrored e \<Rightarrow> ji_status i = StatusFailed \<and> ji_error i = e \<and> ji_message i = ''Job failed''
      | JobPanicked e \<Rightarrow> ji_status i = StatusFailed \<and> ji_error i = ''job panicked: '' @ e)
     \<and> ji_updated i = t1
     \<and> (\<forall>q. q \<noteq> p \<longrightarrow> jm_store m' q = jm_store m q)"
proof (cases out)
  case (JobReturned r)
  then show ?thesis by (simp add: execute_job_def Let_def)
next
  case (JobErrored e)
  then show ?thesis by (simp add: execute_job_def Let_def)
next
  case (JobPanicked e)
  then show ?thesis by (simp add: execute_job_def Let_def)
qed

theorem execute_job_outcome_witness:
  "ji_status (jm_store (execute_job 1 [] 2 (JobErrored ''x'') 0 example_manager) 0) = StatusFailed"
  using execute_job_outcome [of 1 "[]" 2 "JobErrored ''x''" 0 example_manager] by (simp add: Let_def)

text \<open>
  Cancelling a job that still waits does not stop it. \<open>CancelJob\<close> marks the instance failed
  but leaves it in the queue, and the worker that takes it runs it unconditionally: its final
  status is the run's, the cancellation is overwritten.
\<close>

theorem cancelled_job_still_runs:
  assumes "jm_jobs m jid = Some p" and "ji_status (jm_store m p) = StatusPending"
    and "jm_queue m = p # ps"
  shows "\<exists>m1 m2. cancel_job now jid m = (None, m1)
       \<and> ji_status (jm_store m1 p) = StatusFailed
       \<and> worker_take m1 = Some (p, m2)
       \<and> ji_status (jm_store (execute_job t0 rs t1 (JobReturned r) p m2) p) = StatusCompleted"
proof -
  define m1 where "m1 = snd (cancel_job now jid m)"
  have c: "cancel_job now jid m = (None, m1)" and q: "jm_queue m1 = p # ps"
    and st: "ji_status (jm_store m1 p) = StatusFailed"
    using assms by (simp_all add: m1_def cancel_job_def Let_def)
  have "worker_take m1 = Some (p, m1\<lparr>jm_queue := ps\<rparr>)" using q by (simp add: worker_take_def)
  moreover have "ji_status (jm_store (execute_job t0 rs t1 (JobReturned r) p (m1\<lparr>jm_queue := ps\<rparr>)) p)
      = StatusCompleted"
    by (simp add: execute_job_def)
  ultimately show ?thesis using c st by blast
qed

theorem cancelled_job_still_runs_witness:
  "\<exists>m1 m2. cancel_job 6 ''j1'' example_created = (None, m1) \<and> worker_take m1 = Some (0, m2)
     \<and> ji_status (jm_store (execute_job 7 [] 8 (JobReturned None) 0 m2) 0) = StatusCompleted"
proof -
  have "ji_status (jm_store example_created 0) = StatusPending"
    by (simp add: example_created_simps example_inst_def)
  from cancelled_job_still_runs [OF example_created_simps(4) this example_created_simps(3)]
  show ?thesis by blast
qed

text \<open>
  A full queue leaves an orphan. When a hundred jobs wait, \<open>CreateJob\<close> returns an error, yet the
  new job is registered as pending and reported, and it is in no queue, so no worker will ever
  run it.
\<close>

theorem full_queue_orphan:
  assumes "jm_types m ty = Some con" and "con data = Inr job" and "j_validate job = None"
    and "length (jm_queue m) = 100" and "\<forall>p \<in> set (jm_queue m). p < jm_next m"
  shows "\<exists>m' i. create_job now ty data m = (Inl ''job queue is full'', m')
       \<and> get_job (j_id job) m' = Some i \<and> ji_status i = StatusPending
       \<and> jm_queue m' = jm_queue m \<and> jm_next m \<notin> set (jm_queue m')"
proof -
  define m' where "m' = snd (create_job now ty data m)"
  have "create_job now ty data m = (Inl ''job queue is full'', m')" and q: "jm_queue m' = jm_queue m"
    and "\<exists>i. get_job (j_id job) m' = Some i \<and> ji_status i = StatusPending"
    using assms by (simp_all add: m'_def create_job_def Let_def queue_capacity_def get_job_def)
  moreover have "jm_next m \<notin> set (jm_queue m')" using assms(5) q by auto
  ultimately show ?thesis by blast
qed

theorem full_queue_orphan_witness:
  "\<exists>m' i. create_job 9 ''t'' Map.empty (example_manager\<lparr>jm_queue := replicate 100 0, jm_next := 1\<rparr>)
            = (Inl ''job queue is full'', m') \<and> get_job ''j1'' m' = Some i \<and> ji_status i = StatusPending"
proof -
  let ?m = "example_manager\<lparr>jm_queue := replicate 100 0, jm_next := 1\<rparr>"
  have "jm_types ?m ''t'' = Some (\<lambda>_. Inr example_job)"
    by (simp add: example_manager_def set_client_def register_job_type_def)
  moreover have "j_validate example_job = None" and "j_id example_job = ''j1''"
    by (simp_all add: example_job_def)
  ultimately show ?thesis
    using full_queue_orphan [of ?m "''t''" "\<lambda>_. Inr example_job" Map.empty example_job 9] by auto
qed

end
