(* ===== verification/Server_Manager.thy ===== *)
theory Server_Manager
  imports Process_Env
begin

text \<open>
  The manager of all servers (\<open>src/server/manager.go\<close>): the collection, the states it writes to disk for
  the next start, and the per-server locks of the backup operations. A server is a pointer, given by
  its identifier and a value; the locks are mutexes in a table of references, because the entry of a
  server and the mutex it refers to part ways when the server is removed.
\<close>

section \<open>The collection\<close>

record 'v managed =
  mg_id :: string
  mg_val :: 'v

definition mgr_len :: "'v managed list \<Rightarrow> nat" where "mgr_len = List.length"

definition mgr_keys :: "'v managed list \<Rightarrow> string list" where "mgr_keys = List.map mg_id"

definition mgr_add :: "'v managed \<Rightarrow> 'v managed list \<Rightarrow> 'v managed list" where
  "mgr_add s m = m @ [s]"

fun mgr_find :: "('v managed \<Rightarrow> bool) \<Rightarrow> 'v managed list \<Rightarrow> 'v managed option" where
  "mgr_find f [] = None"
| "mgr_find f (v # vs) = (if f v then Some v else mgr_find f vs)"

definition mgr_get :: "string \<Rightarrow> 'v managed list \<Rightarrow> 'v managed option" where
  "mgr_get uuid = mgr_find (\<lambda>s. mg_id s = uuid)"

definition mgr_filter :: "('v managed \<Rightarrow> bool) \<Rightarrow> 'v managed list \<Rightarrow> 'v managed list" where
  "mgr_filter f m = filter f m"

lemma mgr_find_eq: "mgr_find f m = List.find f m"
  by (induction m) simp_all

section \<open>States on disk\<close>

text \<open>
  \<open>enc\<close> and \<open>dec\<close> are the JSON library's; \<open>state\<close> asks a server's environment. A file that is empty
  (it was just made) decodes to no states.
\<close>

definition current_states :: "('v \<Rightarrow> proc_state) \<Rightarrow> 'v managed list \<Rightarrow> (string \<rightharpoonup> string)" where
  "current_states state m =
     fold (\<lambda>s st. st(mg_id s \<mapsto> proc_state_string (state (mg_val s)))) m Map.empty"

definition persist_states ::
  "((string \<rightharpoonup> string) \<Rightarrow> string) \<Rightarrow> ('v \<Rightarrow> proc_state) \<Rightarrow> 'v managed list \<Rightarrow> string" where
  "persist_states enc state m = enc (current_states state m)"

definition read_states ::
  "(string \<Rightarrow> gerr + (string \<rightharpoonup> string)) \<Rightarrow> string \<Rightarrow> 'v managed list \<Rightarrow> gerr + (string \<rightharpoonup> string)" where
  "read_states dec file m =
     (if file = [] then Inr Map.empty
      else
        (case dec file of
           Inl e \<Rightarrow> Inl e
         | Inr states \<Rightarrow> Inr (\<lambda>i. if mgr_get i m \<noteq> None then states i else None)))"

section \<open>Backup locks\<close>

record lock_table =
  lt_entries :: "string \<rightharpoonup> nat"
  lt_locked :: "nat \<Rightarrow> bool"
  lt_next :: nat

definition empty_table :: lock_table where
  "empty_table = \<lparr>lt_entries = Map.empty, lt_locked = (\<lambda>_. False), lt_next = 0\<rparr>"

text \<open>
  \<open>AcquireBackupLock\<close> looks the mutex up, making it if need be, and then waits for it outside the
  table's own mutex; \<open>ReleaseBackupLock\<close> looks it up again and unlocks what it finds. Unlocking a
  mutex that is not locked ends the whole program.
\<close>

definition backup_lock_entry :: "string \<Rightarrow> lock_table \<Rightarrow> nat \<times> lock_table" where
  "backup_lock_entry sid l =
     (let l1 = (case lt_entries l sid of
                  None \<Rightarrow> l\<lparr>lt_entries := (lt_entries l)(sid \<mapsto> lt_next l),
                            lt_locked := (lt_locked l)(lt_next l := False), lt_next := Suc (lt_next l)\<rparr>
                | Some r \<Rightarrow> l)
      in (the (lt_entries l1 sid), l1))"

definition mutex_lock :: "nat \<Rightarrow> lock_table \<Rightarrow> lock_table go" where
  "mutex_lock r l = (if lt_locked l r then Block else Ret (l\<lparr>lt_locked := (lt_locked l)(r := True)\<rparr>))"

definition acquire_backup_lock :: "string \<Rightarrow> lock_table \<Rightarrow> lock_table go" where
  "acquire_backup_lock sid l = (let p = backup_lock_entry sid l in mutex_lock (fst p) (snd p))"

definition release_backup_lock :: "string \<Rightarrow> lock_table \<Rightarrow> lock_table go" where
  "release_backup_lock sid l =
     (case lt_entries l sid of
        None \<Rightarrow> Ret l
      | Some r \<Rightarrow>
          if lt_locked l r then Ret (l\<lparr>lt_locked := (lt_locked l)(r := False)\<rparr>)
          else Panic ''sync: unlock of unlocked mutex'')"

definition mgr_remove ::
  "('v managed \<Rightarrow> bool) \<Rightarrow> 'v managed list \<times> lock_table \<Rightarrow> 'v managed list \<times> lock_table" where
  "mgr_remove f p =
     (let removed = List.map mg_id (filter f (fst p))
      in (filter (\<lambda>v. \<not> f v) (fst p),
          (snd p)\<lparr>lt_entries := (\<lambda>i. if i \<in> set removed then None else lt_entries (snd p) i)\<rparr>))"

section \<open>Concurrent backup operations\<close>

text \<open>
  A goroutine waits for the mutex it looked up, or holds it. \<open>safe\<close> says whether removals are only of
  servers whose lock nobody waits for or holds.
\<close>

datatype lock_pc = Waiting string nat | Holding string nat

fun pc_server :: "lock_pc \<Rightarrow> string" where
  "pc_server (Waiting sid r) = sid"
| "pc_server (Holding sid r) = sid"

type_synonym lock_sys = "lock_table \<times> (nat \<rightharpoonup> lock_pc)"

inductive lock_step :: "bool \<Rightarrow> lock_sys \<Rightarrow> lock_sys \<Rightarrow> bool" for safe where
  request: "T t = None \<Longrightarrow> backup_lock_entry sid l = (r, l') \<Longrightarrow>
     lock_step safe (l, T) (l', T(t \<mapsto> Waiting sid r))"
| lock: "T t = Some (Waiting sid r) \<Longrightarrow> mutex_lock r l = Ret l' \<Longrightarrow>
     lock_step safe (l, T) (l', T(t \<mapsto> Holding sid r))"
| release: "T t = Some (Holding sid r) \<Longrightarrow> release_backup_lock sid l = Ret l' \<Longrightarrow>
     lock_step safe (l, T) (l', T(t := None))"
| remove: "snd (mgr_remove f (ms :: unit managed list, l)) = l' \<Longrightarrow>
     (safe \<longrightarrow> (\<forall>t pc. T t = Some pc \<longrightarrow> lt_entries l' (pc_server pc) = lt_entries l (pc_server pc))) \<Longrightarrow>
     lock_step safe (l, T) (l', T)"

inductive lock_reach :: "bool \<Rightarrow> lock_sys \<Rightarrow> bool" for safe where
  init: "lock_reach safe (empty_table, Map.empty)"
| step: "lock_reach safe x \<Longrightarrow> lock_step safe x y \<Longrightarrow> lock_reach safe y"

text \<open>
  Every goroutine's mutex is the one its server's entry refers to, different servers have different
  mutexes, and a mutex is locked exactly if one goroutine holds it.
\<close>

definition lock_inv :: "lock_table \<Rightarrow> (nat \<rightharpoonup> lock_pc) \<Rightarrow> bool" where
  "lock_inv l T \<longleftrightarrow>
     (\<forall>t sid r. T t = Some (Waiting sid r) \<or> T t = Some (Holding sid r) \<longrightarrow> lt_entries l sid = Some r)
   \<and> (\<forall>i j r. lt_entries l i = Some r \<longrightarrow> lt_entries l j = Some r \<longrightarrow> i = j)
   \<and> (\<forall>i r. lt_entries l i = Some r \<longrightarrow> r < lt_next l)
   \<and> (\<forall>t sid r. T t = Some (Holding sid r) \<longrightarrow> lt_locked l r)
   \<and> (\<forall>t u i j r. T t = Some (Holding i r) \<longrightarrow> T u = Some (Holding j r) \<longrightarrow> t = u)"

lemma lock_invD:
  assumes "lock_inv l T"
  shows "T t = Some (Waiting sid r) \<Longrightarrow> lt_entries l sid = Some r"
    and "T t = Some (Holding sid r) \<Longrightarrow> lt_entries l sid = Some r"
    and "lt_entries l i = Some r \<Longrightarrow> lt_entries l j = Some r \<Longrightarrow> i = j"
    and "lt_entries l i = Some r \<Longrightarrow> r < lt_next l"
    and "T t = Some (Holding sid r) \<Longrightarrow> lt_locked l r"
    and "T t = Some (Holding i r) \<Longrightarrow> T u = Some (Holding j r) \<Longrightarrow> t = u"
  using assms unfolding lock_inv_def by blast+

lemma lock_invI:
  assumes "\<And>t sid r. T t = Some (Waiting sid r) \<Longrightarrow> lt_entries l sid = Some r"
    and "\<And>t sid r. T t = Some (Holding sid r) \<Longrightarrow> lt_entries l sid = Some r"
    and "\<And>i j r. lt_entries l i = Some r \<Longrightarrow> lt_entries l j = Some r \<Longrightarrow> i = j"
    and "\<And>i r. lt_entries l i = Some r \<Longrightarrow> r < lt_next l"
    and "\<And>t sid r. T t = Some (Holding sid r) \<Longrightarrow> lt_locked l r"
    and "\<And>t u i j r. T t = Some (Holding i r) \<Longrightarrow> T u = Some (Holding j r) \<Longrightarrow> t = u"
  shows "lock_inv l T"
  using assms unfolding lock_inv_def by blast

lemma backup_lock_entry_cases:
  assumes "backup_lock_entry sid l = (r, l')"
  obtains (old) "lt_entries l sid = Some r" "l' = l"
    | (new) "lt_entries l sid = None" "r = lt_next l"
        "l' = l\<lparr>lt_entries := (lt_entries l)(sid \<mapsto> r), lt_locked := (lt_locked l)(r := False), lt_next := Suc r\<rparr>"
  using assms by (cases "lt_entries l sid") (auto simp: backup_lock_entry_def Let_def)

lemma lock_inv_request:
  assumes inv: "lock_inv l T" and t: "T t = None" and "backup_lock_entry sid l = (r, l')"
  shows "lock_inv l' (T(t \<mapsto> Waiting sid r))"
  using assms(3)
proof (cases rule: backup_lock_entry_cases)
  case old
  then show ?thesis
    using lock_invD [OF inv] t by (intro lock_invI) (auto split: if_splits)
next
  case new
  have fresh: "\<And>i. lt_entries l i \<noteq> Some (lt_next l)" using lock_invD(4) [OF inv] by fastforce
  have neq: "\<And>u i q. T u = Some (Waiting i q) \<or> T u = Some (Holding i q) \<Longrightarrow> i \<noteq> sid \<and> q \<noteq> r"
    using lock_invD(1,2) [OF inv] new(1,2) fresh by (metis option.distinct(1))
  show ?thesis
  proof (rule lock_invI)
    show "i = j" if "lt_entries l' i = Some q" "lt_entries l' j = Some q" for i j q
      using that new fresh lock_invD(3) [OF inv] by (auto split: if_splits)
    show "q < lt_next l'" if "lt_entries l' i = Some q" for i q
      using that new lock_invD(4) [OF inv, of i q] by (auto split: if_splits)
    show "lt_locked l' q" if "(T(t \<mapsto> Waiting sid r)) u = Some (Holding i q)" for u i q
      using that new neq [of u i q] lock_invD(5) [OF inv] by (auto split: if_splits)
    show "u = v" if "(T(t \<mapsto> Waiting sid r)) u = Some (Holding i q)" "(T(t \<mapsto> Waiting sid r)) v = Some (Holding j q)" for u v i j q
      using that lock_invD(6) [OF inv] by (auto split: if_splits)
  qed (use new neq lock_invD(1,2) [OF inv] in \<open>auto split: if_splits\<close>)
qed

lemma lock_inv_lock:
  assumes inv: "lock_inv l T" and t: "T t = Some (Waiting sid r)" and "mutex_lock r l = Ret l'"
  shows "lock_inv l' (T(t \<mapsto> Holding sid r))"
proof -
  have l': "\<not> lt_locked l r" "l' = l\<lparr>lt_locked := (lt_locked l)(r := True)\<rparr>"
    using assms(3) by (auto simp: mutex_lock_def split: if_splits)
  then show ?thesis
    using lock_invD [OF inv] t by (intro lock_invI) (auto split: if_splits)
qed

lemma release_held:
  assumes inv: "lock_inv l T" and t: "T t = Some (Holding sid r)"
  shows "release_backup_lock sid l = Ret (l\<lparr>lt_locked := (lt_locked l)(r := False)\<rparr>)"
  using lock_invD(2,5) [OF inv t] by (simp add: release_backup_lock_def)

lemma lock_inv_release:
  assumes inv: "lock_inv l T" and t: "T t = Some (Holding sid r)" and "release_backup_lock sid l = Ret l'"
  shows "lock_inv l' (T(t := None))"
proof -
  have l': "l' = l\<lparr>lt_locked := (lt_locked l)(r := False)\<rparr>"
    using release_held [OF inv t] assms(3) by simp
  show ?thesis
  proof (rule lock_invI)
    show "lt_locked l' q" if "(T(t := None)) u = Some (Holding i q)" for u i q
      using that l' lock_invD(5) [OF inv] lock_invD(6) [OF inv t] by (auto split: if_splits)
  qed (use l' lock_invD [OF inv] in \<open>auto split: if_splits\<close>)
qed

lemma lock_inv_remove:
  assumes inv: "lock_inv l T" and "snd (mgr_remove f (ms, l)) = l'"
    and "\<forall>t pc. T t = Some pc \<longrightarrow> lt_entries l' (pc_server pc) = lt_entries l (pc_server pc)"
  shows "lock_inv l' T"
proof -
  have sub: "lt_entries l' i = Some r \<Longrightarrow> lt_entries l i = Some r" for i r
    using assms(2) by (auto simp: mgr_remove_def Let_def split: if_splits)
  have "lt_next l' = lt_next l" "lt_locked l' = lt_locked l"
    using assms(2) by (auto simp: mgr_remove_def Let_def)
  with sub assms(3) lock_invD [OF inv] show ?thesis
    by (intro lock_invI) (metis pc_server.simps)+
qed

lemma lock_inv_reach: "lock_reach True x \<Longrightarrow> lock_inv (fst x) (snd x)"
proof (induction rule: lock_reach.induct)
  case init
  show ?case by (rule lock_invI) (simp_all add: empty_table_def)
next
  case (step x y)
  obtain l T where x: "x = (l, T)" by (cases x)
  with step.IH have inv: "lock_inv l T" by simp
  from step.hyps(2) [unfolded x] show ?case
  proof (cases rule: lock_step.cases)
    case (request t sid r l')
    then show ?thesis using lock_inv_request [OF inv] by (simp del: fun_upd_apply)
  next
    case (lock t sid r l')
    then show ?thesis using lock_inv_lock [OF inv] by (simp del: fun_upd_apply)
  next
    case (release t sid r l')
    then show ?thesis using lock_inv_release [OF inv] by (simp del: fun_upd_apply)
  next
    case (remove f ms l')
    then show ?thesis using lock_inv_remove [OF inv remove(2)] by simp
  qed
qed

section \<open>Properties\<close>

text \<open>
  C20: Backup operations of a server exclude each other, as long as no server is removed while one of its
  operations holds or waits for the lock: then at most one goroutine holds a server's lock, and the
  release of a held lock always succeeds.
\<close>

theorem backup_mutual_exclusion:
  assumes "lock_reach True (l, T)"
  shows "(\<forall>t u sid r q. T t = Some (Holding sid r) \<longrightarrow> T u = Some (Holding sid q) \<longrightarrow> t = u)
       \<and> (\<forall>t sid r. T t = Some (Holding sid r) \<longrightarrow> returns (release_backup_lock sid l))"
proof -
  have inv: "lock_inv l T" using lock_inv_reach [OF assms] by simp
  have "t = u" if "T t = Some (Holding sid r)" "T u = Some (Holding sid q)" for t u sid r q
  proof -
    have "r = q" using lock_invD(2) [OF inv that(1)] lock_invD(2) [OF inv that(2)] by simp
    with that show ?thesis using lock_invD(6) [OF inv] by blast
  qed
  moreover have "returns (release_backup_lock sid l)" if "T t = Some (Holding sid r)" for t sid r
    using release_held [OF inv that] by simp
  ultimately show ?thesis by blast
qed

definition held_table :: lock_table where
  "held_table = \<lparr>lt_entries = [''s'' \<mapsto> 0], lt_locked = (\<lambda>_. False)(0 := True), lt_next = 1\<rparr>"

lemma example_held: "lock_reach safe (held_table, [0 \<mapsto> Holding ''s'' 0])"
proof -
  let ?l = "held_table\<lparr>lt_locked := (\<lambda>_. False)\<rparr>"
  have "lock_step safe (empty_table, Map.empty) (?l, [0 \<mapsto> Waiting ''s'' 0])"
    by (rule lock_step.request) (auto simp: backup_lock_entry_def empty_table_def held_table_def Let_def)
  moreover have "lock_step safe (?l, [0 \<mapsto> Waiting ''s'' 0]) (held_table, [0 \<mapsto> Waiting ''s'' 0, 0 \<mapsto> Holding ''s'' 0])"
    by (rule lock_step.lock) (auto simp: mutex_lock_def held_table_def)
  ultimately have "lock_reach safe (held_table, [0 \<mapsto> Waiting ''s'' 0, 0 \<mapsto> Holding ''s'' 0])"
    by (rule lock_reach.step [OF lock_reach.step [OF lock_reach.init]])
  then show ?thesis by (simp only: fun_upd_upd)
qed

theorem backup_mutual_exclusion_witness:
  "lock_reach True (held_table, [0 \<mapsto> Holding ''s'' 0]) \<and> returns (release_backup_lock ''s'' held_table)"
proof
  have "[0 \<mapsto> Holding ''s'' 0] 0 = Some (Holding ''s'' 0)" by simp
  with backup_mutual_exclusion [OF example_held, THEN conjunct2]
  show "returns (release_backup_lock ''s'' held_table)" by blast
qed (rule example_held)

text \<open>
  Removing a server breaks the exclusion. A run of three goroutines exists in which the server is
  removed while the first holds its lock, the second then gets a lock of its own, so that both hold it;
  and the first, releasing, unlocks the second's mutex, after which a third one gets in as well.
\<close>

theorem removal_breaks_exclusion:
  "\<exists>l T r q. lock_reach False (l, T) \<and> T 0 = Some (Holding ''s'' r) \<and> T 1 = Some (Holding ''s'' q)
     \<and> (\<exists>l2. release_backup_lock ''s'' l = Ret l2 \<and> \<not> lt_locked l2 q \<and> lt_locked l2 r)"
proof -
  let ?T0 = "[0 \<mapsto> Holding ''s'' 0] :: nat \<rightharpoonup> lock_pc"
  let ?l1 = "held_table\<lparr>lt_entries := Map.empty\<rparr>"
  let ?l2 = "held_table\<lparr>lt_entries := [''s'' \<mapsto> 1], lt_next := 2\<rparr>"
  let ?l3 = "?l2\<lparr>lt_locked := (\<lambda>_. False)(0 := True, 1 := True)\<rparr>"
  let ?T2 = "?T0(1 \<mapsto> Waiting ''s'' 1)"
  let ?T3 = "?T2(1 \<mapsto> Holding ''s'' 1)"
  have "lock_step False (held_table, ?T0) (?l1, ?T0)"
    by (rule lock_step.remove [where f = "\<lambda>_. True" and ms = "[\<lparr>mg_id = ''s'', mg_val = ()\<rparr>]"])
       (auto simp: mgr_remove_def held_table_def)
  moreover have "lock_step False (?l1, ?T0) (?l2, ?T2)"
    by (rule lock_step.request) (auto simp: backup_lock_entry_def held_table_def Let_def fun_eq_iff)
  moreover have "lock_step False (?l2, ?T2) (?l3, ?T3)"
    by (rule lock_step.lock) (auto simp: mutex_lock_def held_table_def)
  ultimately have "lock_reach False (?l3, ?T3)"
    by (rule lock_reach.step [OF lock_reach.step [OF lock_reach.step [OF example_held]]])
  moreover have "release_backup_lock ''s'' ?l3 = Ret (?l3\<lparr>lt_locked := (lt_locked ?l3)(1 := False)\<rparr>)"
    by (simp add: release_backup_lock_def held_table_def)
  ultimately show ?thesis
    by - (rule exI [of _ ?l3], rule exI [of _ ?T3], rule exI [of _ 0], rule exI [of _ 1], simp)
qed

lemma fold_upd_map:
  "i \<notin> mg_id ` set m \<Longrightarrow> fold (\<lambda>s st. st(mg_id s \<mapsto> g s)) m st i = st i"
  by (induction m arbitrary: st) auto

lemma fold_states:
  "distinct (List.map mg_id m) \<Longrightarrow> s \<in> set m \<Longrightarrow>
   fold (\<lambda>s st. st(mg_id s \<mapsto> g s)) m st (mg_id s) = Some (g s)"
  by (induction m arbitrary: st) (auto simp: fold_upd_map)

lemma mgr_get_Some_iff: "mgr_get i m \<noteq> None \<longleftrightarrow> i \<in> mg_id ` set m"
  by (induction m) (auto simp: mgr_get_def)

text \<open>
  States survive a restart. If JSON decodes the states that it encoded and server identifiers are
  distinct, then reading the states back gives, for a later set of servers, exactly the environment
  states of those of them that existed when the states were written.
\<close>

theorem states_roundtrip:
  assumes "dec (enc (current_states state m)) = Inr (current_states state m)"
    and "enc (current_states state m) \<noteq> []" and "distinct (List.map mg_id m)"
  shows "\<exists>out. read_states dec (persist_states enc state m) m' = Inr out
           \<and> (\<forall>s \<in> set m. out (mg_id s)
                = (if mg_id s \<in> mg_id ` set m' then Some (proc_state_string (state (mg_val s))) else None))
           \<and> dom out \<subseteq> mg_id ` set m"
proof -
  let ?st = "current_states state m"
  let ?out = "\<lambda>i. if mgr_get i m' \<noteq> None then ?st i else None"
  have "read_states dec (persist_states enc state m) m' = Inr ?out"
    using assms(1,2) by (simp add: read_states_def persist_states_def)
  moreover have "\<forall>s \<in> set m. ?st (mg_id s) = Some (proc_state_string (state (mg_val s)))"
    unfolding current_states_def by (intro ballI fold_states [OF assms(3)])
  moreover have "dom ?out \<subseteq> mg_id ` set m"
  proof
    fix i assume "i \<in> dom ?out"
    then have "?st i \<noteq> None" by (auto split: if_splits)
    then show "i \<in> mg_id ` set m"
      using fold_upd_map [of i m "\<lambda>s. proc_state_string (state (mg_val s))" Map.empty]
      unfolding current_states_def by fastforce
  qed
  ultimately show ?thesis
    by - (rule exI [of _ ?out], simp only: mgr_get_Some_iff, simp)
qed

definition two_servers :: "proc_state managed list" where
  "two_servers = [\<lparr>mg_id = ''a'', mg_val = Running\<rparr>, \<lparr>mg_id = ''b'', mg_val = Offline\<rparr>]"

theorem states_roundtrip_witness:
  "\<exists>out. read_states (\<lambda>_. Inr [''a'' \<mapsto> ''running'', ''b'' \<mapsto> ''offline'']) (persist_states (\<lambda>_. ''x'') (\<lambda>s. s) two_servers)
      (tl two_servers) = Inr out \<and> out ''b'' = Some ''offline'' \<and> out ''a'' = None"
proof -
  have st: "current_states (\<lambda>s. s) two_servers = [''a'' \<mapsto> ''running'', ''b'' \<mapsto> ''offline'']"
    by (simp add: current_states_def two_servers_def)
  have "distinct (List.map mg_id two_servers)" by (simp add: two_servers_def)
  with states_roundtrip [where m = two_servers and m' = "tl two_servers" and state = "\<lambda>s. s" and enc = "\<lambda>_. ''x''"
      and dec = "\<lambda>_. Inr [''a'' \<mapsto> ''running'', ''b'' \<mapsto> ''offline'']"] st
  show ?thesis by (fastforce simp: two_servers_def)
qed

end
