(* ===== verification/Backup_Jobs.thy ===== *)
theory Backup_Jobs
  imports Job_Manager Server_Manager
begin

text \<open>
  The backup jobs of \<open>src/jobs/backup_job.go\<close> (create, delete, restore, delete all) and
  \<open>Server.RestoreBackup\<close> of \<open>src/server/backup.go\<close>, which a restore runs. The panel, the archives, the
  rustic repositories, the HTTP client and the server's files are a world \<open>'w\<close> which the jobs reach
  through the functions of \<open>backup_env\<close>; what a job itself keeps (its reports, the events it
  publishes, the backup lock, the server's flags) is \<open>jst\<close>.
\<close>

section \<open>Running a job\<close>

datatype 'a jres = JOk 'a | JErr gerr | JPan string

record 'w jst =
  js_reports :: "(int \<times> string) list"
  js_events :: "(string \<times> string) list"
  js_held :: bool
  js_restoring :: bool
  js_suspended :: bool
  js_background :: bool
  js_world :: 'w

type_synonym ('w, 'a) job_m = "'w jst \<Rightarrow> 'a jres \<times> 'w jst"

definition jret :: "'a \<Rightarrow> ('w, 'a) job_m" where "jret x = (\<lambda>s. (JOk x, s))"
definition jfail :: "gerr \<Rightarrow> ('w, 'a) job_m" where "jfail e = (\<lambda>s. (JErr e, s))"
definition jpanic :: "string \<Rightarrow> ('w, 'a) job_m" where "jpanic m = (\<lambda>s. (JPan m, s))"

definition jbind :: "('w, 'a) job_m \<Rightarrow> ('a \<Rightarrow> ('w, 'b) job_m) \<Rightarrow> ('w, 'b) job_m" where
  "jbind m f = (\<lambda>s. case m s of (JOk x, s1) \<Rightarrow> f x s1 | (JErr e, s1) \<Rightarrow> (JErr e, s1) | (JPan p, s1) \<Rightarrow> (JPan p, s1))"

definition jthen :: "('w, unit) job_m \<Rightarrow> ('w, 'b) job_m \<Rightarrow> ('w, 'b) job_m" where
  "jthen m f = jbind m (\<lambda>_. f)"

text \<open>Reports, events, and calls of the world, plain and with an error to be wrapped.\<close>

definition rep :: "int \<Rightarrow> string \<Rightarrow> ('w, unit) job_m" where
  "rep n msg = (\<lambda>s. (JOk (), s\<lparr>js_reports := js_reports s @ [(n, msg)]\<rparr>))"

definition event_out :: "string \<Rightarrow> string \<Rightarrow> ('w, unit) job_m" where
  "event_out topic dat = (\<lambda>s. (JOk (), s\<lparr>js_events := js_events s @ [(topic, dat)]\<rparr>))"

definition ask :: "('w \<Rightarrow> 'a) \<Rightarrow> ('w, 'a) job_m" where
  "ask f = (\<lambda>s. (JOk (f (js_world s)), s))"

definition ext :: "('w \<Rightarrow> 'a \<times> 'w) \<Rightarrow> ('w, 'a) job_m" where
  "ext f = (\<lambda>s. (JOk (fst (f (js_world s))), s\<lparr>js_world := snd (f (js_world s))\<rparr>))"

definition check_err :: "string \<Rightarrow> gerr option \<Rightarrow> ('w, unit) job_m" where
  "check_err msg e = (case e of None \<Rightarrow> jret () | Some x \<Rightarrow> jfail (ErrWrap msg x))"

definition check_sum :: "string \<Rightarrow> gerr + 'a \<Rightarrow> ('w, 'a) job_m" where
  "check_sum msg r = (case r of Inl e \<Rightarrow> jfail (ErrWrap msg e) | Inr x \<Rightarrow> jret x)"

text \<open>Deferred calls run however the body ends.\<close>

definition with_backup_lock :: "('w, 'a) job_m \<Rightarrow> ('w, 'a) job_m" where
  "with_backup_lock m = (\<lambda>s. let p = m (s\<lparr>js_held := True\<rparr>) in (fst p, (snd p)\<lparr>js_held := False\<rparr>))"

definition with_restoring :: "('w, 'a) job_m \<Rightarrow> ('w, 'a) job_m" where
  "with_restoring m = (\<lambda>s. let p = m (s\<lparr>js_restoring := True\<rparr>) in (fst p, (snd p)\<lparr>js_restoring := False\<rparr>))"

text \<open>The text of an error, as \<open>Error()\<close> gives it, and \<open>strings.Contains\<close>.\<close>

fun err_text :: "gerr \<Rightarrow> string" where
  "err_text (Sentinel s) = s"
| "err_text ErrNotFound = ''not found''"
| "err_text ErrDeadline = ''context deadline exceeded''"
| "err_text ErrCanceled = ''context canceled''"
| "err_text (ErrOther s) = s"
| "err_text (ErrWrap s e) = s @ '': '' @ err_text e"

section \<open>The world\<close>

record rustic_config =
  rc_password :: string
  rc_path :: string
  rc_creds :: "string option"

record archive_details =
  ar_checksum :: string
  ar_snapshot :: string
  ar_size :: int

record 'w backup_env =
  be_server :: "string \<Rightarrow> 'w \<Rightarrow> bool"
  be_rustic_config :: "string \<Rightarrow> 'w \<Rightarrow> (gerr + rustic_config) \<times> 'w"
  be_ignored :: "'w \<Rightarrow> (gerr + string) \<times> 'w"
  be_generate :: "string \<Rightarrow> string \<Rightarrow> rustic_config option \<Rightarrow> string \<Rightarrow> 'w \<Rightarrow> (gerr + archive_details) \<times> 'w"
  be_repository :: "string \<Rightarrow> 'w \<Rightarrow> bool"
  be_repo_size :: "string \<Rightarrow> 'w \<Rightarrow> (gerr + int) \<times> 'w"
  be_locate_local :: "string \<Rightarrow> 'w \<Rightarrow> gerr option \<times> 'w"
  be_remove_local :: "string \<Rightarrow> 'w \<Rightarrow> gerr option \<times> 'w"
  be_remove_s3 :: "string \<Rightarrow> 'w \<Rightarrow> gerr option \<times> 'w"
  be_locate_snapshot :: "string \<Rightarrow> string \<Rightarrow> string option \<Rightarrow> string \<Rightarrow> string \<Rightarrow> 'w \<Rightarrow> gerr option \<times> 'w"
  be_remove_snapshot :: "string \<Rightarrow> string \<Rightarrow> 'w \<Rightarrow> gerr option \<times> 'w"
  be_open_repo :: "string \<Rightarrow> rustic_config \<Rightarrow> 'w \<Rightarrow> gerr option \<times> 'w"
  be_destroy_repo :: "string \<Rightarrow> 'w \<Rightarrow> gerr option \<times> 'w"
  be_truncate :: "'w \<Rightarrow> gerr option option \<times> 'w"
  be_offline :: "'w \<Rightarrow> bool"
  be_wait_stop :: "'w \<Rightarrow> gerr option option \<times> 'w"
  be_restore :: "string \<Rightarrow> string \<Rightarrow> 'w \<Rightarrow> gerr option \<times> 'w"
  be_send_status :: "string \<Rightarrow> bool \<Rightarrow> 'w \<Rightarrow> 'w"
  be_request :: "string \<Rightarrow> gerr option"
  be_download :: "string \<Rightarrow> 'w \<Rightarrow> (gerr + (int \<times> string \<times> string)) \<times> 'w"
  be_restore_timeout :: "'w \<Rightarrow> bool"

section \<open>The jobs\<close>

record backup_create =
  bc_id :: string
  bc_server :: string
  bc_uuid :: string
  bc_adapter :: string
  bc_ignore :: string
  bc_name :: string
  bc_context :: "(string \<times> jval) list option"

record backup_delete =
  bx_id :: string
  bx_server :: string
  bx_uuid :: string
  bx_snapshot :: string
  bx_adapter :: string

record backup_restore =
  br_id :: string
  br_server :: string
  br_uuid :: string
  br_snapshot :: string
  br_adapter :: string
  br_truncate :: bool
  br_url :: string

record backup_delete_all =
  ba_id :: string
  ba_server :: string
  ba_backups :: "jmap list"

text \<open>Type assertions on the job's data: a missing key or another type gives the zero value.\<close>

definition get_string :: "jmap \<Rightarrow> string \<Rightarrow> string" where
  "get_string m k = (case m k of Some (JStr s) \<Rightarrow> s | _ \<Rightarrow> [])"

definition get_bool :: "jmap \<Rightarrow> string \<Rightarrow> bool" where
  "get_bool m k = (case m k of Some (JBool b) \<Rightarrow> b | _ \<Rightarrow> False)"

definition get_obj :: "jmap \<Rightarrow> string \<Rightarrow> (string \<times> jval) list option" where
  "get_obj m k = (case m k of Some (JObj kvs) \<Rightarrow> Some kvs | _ \<Rightarrow> None)"

fun obj_maps :: "jval list \<Rightarrow> jmap list" where
  "obj_maps [] = []"
| "obj_maps (JObj kvs # vs) = map_of kvs # obj_maps vs"
| "obj_maps (v # vs) = obj_maps vs"

definition new_backup_create :: "string \<Rightarrow> jmap \<Rightarrow> string + backup_create" where
  "new_backup_create uid data =
     (if get_string data ''server_id'' = [] then Inl ''server_id is required''
      else if get_string data ''backup_uuid'' = [] then Inl ''backup_uuid is required''
      else Inr \<lparr>bc_id = uid, bc_server = get_string data ''server_id'', bc_uuid = get_string data ''backup_uuid'',
                bc_adapter = (if get_string data ''adapter_type'' = [] then ''elytra''
                              else get_string data ''adapter_type''),
                bc_ignore = get_string data ''ignore'', bc_name = get_string data ''name'',
                bc_context = get_obj data ''context''\<rparr>)"

definition new_backup_delete :: "string \<Rightarrow> jmap \<Rightarrow> string + backup_delete" where
  "new_backup_delete uid data =
     (if get_string data ''server_id'' = [] then Inl ''server_id is required''
      else if get_string data ''backup_uuid'' = [] then Inl ''backup_uuid is required''
      else if get_string data ''adapter_type'' = [] then Inl ''adapter_type is required for deletion''
      else Inr \<lparr>bx_id = uid, bx_server = get_string data ''server_id'', bx_uuid = get_string data ''backup_uuid'',
                bx_snapshot = get_string data ''snapshot_id'', bx_adapter = get_string data ''adapter_type''\<rparr>)"

definition new_backup_restore :: "string \<Rightarrow> jmap \<Rightarrow> string + backup_restore" where
  "new_backup_restore uid data =
     (if get_string data ''server_id'' = [] then Inl ''server_id is required''
      else if get_string data ''backup_uuid'' = [] then Inl ''backup_uuid is required''
      else if get_string data ''adapter_type'' = [] then Inl ''adapter_type is required for restoration''
      else Inr \<lparr>br_id = uid, br_server = get_string data ''server_id'', br_uuid = get_string data ''backup_uuid'',
                br_snapshot = get_string data ''snapshot_id'', br_adapter = get_string data ''adapter_type'',
                br_truncate = get_bool data ''truncate_directory'', br_url = get_string data ''download_url''\<rparr>)"

definition new_backup_delete_all :: "string \<Rightarrow> jmap \<Rightarrow> string + backup_delete_all" where
  "new_backup_delete_all uid data =
     (if get_string data ''server_id'' = [] then Inl ''server_id is required''
      else Inr \<lparr>ba_id = uid, ba_server = get_string data ''server_id'',
                ba_backups = (case data ''backups'' of Some (JList vs) \<Rightarrow> obj_maps vs | _ \<Rightarrow> [])\<rparr>)"

definition validate_create :: "backup_create \<Rightarrow> string option" where
  "validate_create j =
     (if bc_server j = [] then Some ''server_id is required''
      else if bc_uuid j = [] then Some ''backup_uuid is required'' else None)"

definition validate_delete :: "backup_delete \<Rightarrow> string option" where
  "validate_delete j =
     (if bx_server j = [] then Some ''server_id is required''
      else if bx_uuid j = [] then Some ''backup_uuid is required''
      else if bx_adapter j = [] then Some ''adapter_type is required'' else None)"

definition validate_restore :: "backup_restore \<Rightarrow> string option" where
  "validate_restore j =
     (if br_server j = [] then Some ''server_id is required''
      else if br_uuid j = [] then Some ''backup_uuid is required''
      else if br_adapter j = [] then Some ''adapter_type is required'' else None)"

definition validate_delete_all :: "backup_delete_all \<Rightarrow> string option" where
  "validate_delete_all j = (if ba_server j = [] then Some ''server_id is required'' else None)"

text \<open>The jobs as the job manager sees them: type, verdict and web socket event.\<close>

definition create_as_job :: "backup_create \<Rightarrow> job" where
  "create_as_job j =
     \<lparr>j_id = bc_id j, j_type = ''backup_create'', j_validate = validate_create j,
      j_ws = Some (bc_server j, ''backup.status'',
        [(''backup_uuid'', JStr (bc_uuid j)), (''operation'', JStr ''create''),
         (''adapter'', JStr (bc_adapter j)), (''name'', JStr (bc_name j))])\<rparr>"

definition delete_as_job :: "backup_delete \<Rightarrow> job" where
  "delete_as_job j =
     \<lparr>j_id = bx_id j, j_type = ''backup_delete'', j_validate = validate_delete j,
      j_ws = Some (bx_server j, ''backup.status'',
        [(''backup_uuid'', JStr (bx_uuid j)), (''operation'', JStr ''delete''), (''adapter'', JStr (bx_adapter j))])\<rparr>"

definition restore_as_job :: "backup_restore \<Rightarrow> job" where
  "restore_as_job j =
     \<lparr>j_id = br_id j, j_type = ''backup_restore'', j_validate = validate_restore j,
      j_ws = Some (br_server j, ''backup.status'',
        [(''backup_uuid'', JStr (br_uuid j)), (''operation'', JStr ''restore''), (''adapter'', JStr (br_adapter j)),
         (''truncate_directory'', JBool (br_truncate j))])\<rparr>"

definition delete_all_as_job :: "backup_delete_all \<Rightarrow> job" where
  "delete_all_as_job j =
     \<lparr>j_id = ba_id j, j_type = ''backup_delete_all'', j_validate = validate_delete_all j,
      j_ws = Some (ba_server j, ''backup.status'', [(''operation'', JStr ''delete_all'')])\<rparr>"

type_synonym job_result = "(string \<times> jval) list"

definition locate_server :: "'w backup_env \<Rightarrow> string \<Rightarrow> ('w, unit) job_m" where
  "locate_server b sid =
     jbind (ask (be_server b sid))
       (\<lambda>known. if known then jret () else jfail (ErrOther (''server not found: '' @ sid)))"

section \<open>Creating a backup\<close>

text \<open>The size of the repository: a field of the result, or the error that was met.\<close>

definition size_field :: "gerr + int \<Rightarrow> job_result" where
  "size_field r =
     (case r of
        Inl e \<Rightarrow> [(''repository_size_error'', JStr (err_text e))]
      | Inr n \<Rightarrow> [(''repository_size'', JInt n)])"

definition is_rustic :: "string \<Rightarrow> bool" where
  "is_rustic a \<longleftrightarrow> a = ''rustic_local'' \<or> a = ''rustic_s3''"

definition perform_backup ::
  "'w backup_env \<Rightarrow> backup_create \<Rightarrow> rustic_config option \<Rightarrow> ('w, job_result) job_m" where
  "perform_backup b j rc =
     jbind (if bc_ignore j = [] then
              jthen (rep 35 ''Reading server ignore patterns...'')
                (jbind (ext (be_ignored b)) (\<lambda>r. jret (case r of Inl e \<Rightarrow> bc_ignore j | Inr i \<Rightarrow> i)))
            else jret (bc_ignore j))
       (\<lambda>ignored.
     jthen (rep 40 ''Generating backup archive...'')
       (jbind (ext (be_generate b (bc_adapter j) (bc_uuid j) rc ignored))
         (\<lambda>r. case r of
            Inl e \<Rightarrow> jfail e
          | Inr ad \<Rightarrow>
     jthen (rep 80 ''Finalizing backup...'')
       (let result = [(''checksum'', JStr (ar_checksum ad)), (''snapshot_id'', JStr (ar_snapshot ad)),
                      (''adapter'', JStr (bc_adapter j)), (''successful'', JBool True), (''size'', JInt (ar_size ad))]
        in if is_rustic (bc_adapter j) then
             jthen (rep 90 ''Calculating repository size...'')
               (jbind (ask (be_repository b (bc_adapter j)))
                 (\<lambda>open_repo. if open_repo
                    then jbind (ext (be_repo_size b (bc_adapter j))) (\<lambda>sz. jret (result @ size_field sz))
                    else jret result))
           else jret result))))"

definition backup_adapter :: "'w backup_env \<Rightarrow> string \<Rightarrow> ('w, rustic_config option) job_m" where
  "backup_adapter b a =
     (if a = ''elytra'' \<or> a = ''s3'' then jret None
      else if a = ''rustic_local'' then
        jbind (ext (be_rustic_config b ''local'')) (\<lambda>r.
          jbind (check_sum ''failed to get server rustic config'' r) (\<lambda>c. jret (Some (c\<lparr>rc_creds := None\<rparr>))))
      else if a = ''rustic_s3'' then
        jbind (ext (be_rustic_config b ''s3'')) (\<lambda>r.
          jbind (check_sum ''failed to get server rustic config'' r) (\<lambda>c. jret (Some c)))
      else jfail (ErrOther (''unsupported backup adapter: '' @ a)))"

definition wrap_job :: "string \<Rightarrow> ('w, 'a) job_m \<Rightarrow> ('w, 'a) job_m" where
  "wrap_job msg m = (\<lambda>s. case m s of (JErr e, s1) \<Rightarrow> (JErr (ErrWrap msg e), s1) | p \<Rightarrow> p)"

definition execute_create :: "'w backup_env \<Rightarrow> backup_create \<Rightarrow> ('w, job_result) job_m" where
  "execute_create b j =
     jthen (rep 10 ''Locating server...'') (jthen (locate_server b (bc_server j))
       (with_backup_lock
         (jthen (rep 20 ''Initializing backup adapter...'')
           (jbind (backup_adapter b (bc_adapter j))
             (\<lambda>rc. jthen (rep 30 ''Starting backup generation...'')
               (wrap_job ''backup generation failed'' (perform_backup b j rc)))))))"

section \<open>Deleting a backup\<close>

definition delete_local_backup :: "'w backup_env \<Rightarrow> backup_delete \<Rightarrow> ('w, job_result) job_m" where
  "delete_local_backup b j =
     jthen (rep 30 ''Locating local backup...'')
       (jbind (ext (be_locate_local b (bx_uuid j))) (\<lambda>e.
         jthen (check_err ''failed to locate local backup'' e)
           (jthen (rep 70 ''Deleting local backup...'')
             (jbind (ext (be_remove_local b (bx_uuid j))) (\<lambda>e.
               jthen (check_err ''failed to delete local backup'' e)
                 (jthen (rep 100 ''Backup deleted successfully'')
                   (jret [(''deleted'', JBool True), (''type'', JStr ''local''), (''successful'', JBool True)])))))))"

definition delete_s3_backup :: "'w backup_env \<Rightarrow> backup_delete \<Rightarrow> ('w, job_result) job_m" where
  "delete_s3_backup b j =
     jthen (rep 30 ''Deleting S3 backup...'')
       (jbind (ext (be_remove_s3 b (bx_uuid j))) (\<lambda>e.
         jthen (check_err ''failed to delete S3 backup'' e)
           (jthen (rep 100 ''Backup deleted successfully'')
             (jret [(''deleted'', JBool True), (''type'', JStr ''s3''), (''successful'', JBool True)]))))"

text \<open>An error that means the snapshot is gone already.\<close>

definition already_deleted :: "gerr \<Rightarrow> bool" where
  "already_deleted e \<longleftrightarrow>
     contains (err_text e) ''failed to get snapshot'' \<or> contains (err_text e) ''exit status 1''"

definition finish_already_deleted ::
  "'w backup_env \<Rightarrow> string \<Rightarrow> string \<Rightarrow> rustic_config \<Rightarrow> ('w, job_result) job_m" where
  "finish_already_deleted b ty kind rc =
     jthen (rep 90 ''Calculating repository size...'')
       (jbind (ext (be_open_repo b kind rc)) (\<lambda>e.
         jbind (case e of
                  None \<Rightarrow> jbind (ext (be_repo_size b ty)) (\<lambda>sz. jret (size_field sz))
                | Some x \<Rightarrow> jret [])
           (\<lambda>extra.
             jthen (rep 100 ''Backup already deleted - cleanup successful'')
               (jret ([(''deleted'', JBool True), (''type'', JStr ty), (''successful'', JBool True),
                       (''already_deleted'', JBool True)] @ extra)))))"

definition delete_rustic_local ::
  "'w backup_env \<Rightarrow> backup_delete \<Rightarrow> ('w, job_result) job_m" where
  "delete_rustic_local b j =
     jthen (rep 30 ''Getting rustic local configuration...'')
       (jbind (ext (be_rustic_config b ''local'')) (\<lambda>r.
         jbind (check_sum ''failed to get server rustic config'' r) (\<lambda>rc.
           jthen (rep 50 ''Locating rustic local backup...'')
             (jbind (ext (be_locate_snapshot b (bx_snapshot j) ''local'' None (rc_password rc) (rc_path rc))) (\<lambda>e.
               case e of
                 Some err \<Rightarrow>
                   (if already_deleted err then finish_already_deleted b ''rustic_local'' ''local'' rc
                    else jfail (ErrWrap ''failed to locate rustic local backup'' err))
               | None \<Rightarrow>
                   jbind (ask (be_repository b ''rustic_local'')) (\<lambda>open_repo.
                     jthen (rep 70 ''Deleting rustic local backup...'')
                       (jbind (ext (be_remove_snapshot b (bx_snapshot j) ''local'')) (\<lambda>e.
                         jthen (check_err ''failed to delete rustic local backup'' e)
                           (jthen (rep 90 ''Calculating repository size...'')
                             (jbind (if open_repo
                                     then jbind (ext (be_repo_size b ''rustic_local'')) (\<lambda>sz. jret (size_field sz))
                                     else jret [])
                               (\<lambda>extra.
                                 jthen (rep 100 ''Backup deleted successfully'')
                                   (jret ([(''deleted'', JBool True), (''type'', JStr ''rustic_local''),
                                           (''successful'', JBool True)] @ extra)))))))))))))"

definition delete_rustic_s3 ::
  "'w backup_env \<Rightarrow> backup_delete \<Rightarrow> ('w, job_result) job_m" where
  "delete_rustic_s3 b j =
     jthen (rep 30 ''Getting rustic S3 configuration...'')
       (jbind (ext (be_rustic_config b ''s3'')) (\<lambda>r.
         jbind (check_sum ''failed to get server rustic S3 config'' r) (\<lambda>rc.
           if rc_creds rc = None then jfail (ErrOther ''rustic S3 credentials not configured'')
           else
           jthen (rep 50 ''Locating rustic S3 backup...'')
             (jbind (ext (be_locate_snapshot b (bx_snapshot j) ''s3'' (rc_creds rc) (rc_password rc) (rc_path rc))) (\<lambda>e.
               case e of
                 Some err \<Rightarrow>
                   (if already_deleted err then finish_already_deleted b ''rustic_s3'' ''s3'' rc
                    else jfail (ErrWrap ''failed to locate rustic S3 backup'' err))
               | None \<Rightarrow>
                   jbind (ask (be_repository b ''rustic_s3'')) (\<lambda>open_repo.
                     jthen (rep 70 ''Deleting rustic S3 backup...'')
                       (jbind (ext (be_remove_snapshot b (bx_snapshot j) ''s3'')) (\<lambda>e.
                         jthen (check_err ''failed to delete rustic S3 backup'' e)
                           (jthen (rep 90 ''Calculating repository size...'')
                             (jbind (if open_repo
                                     then jbind (ext (be_repo_size b ''rustic_s3'')) (\<lambda>sz. jret (size_field sz))
                                     else jret [])
                               (\<lambda>extra. jret ([(''deleted'', JBool True), (''type'', JStr ''rustic_s3''),
                                           (''successful'', JBool True)] @ extra))))))))))))"

definition execute_delete :: "'w backup_env \<Rightarrow> backup_delete \<Rightarrow> ('w, job_result) job_m" where
  "execute_delete b j =
     jthen (rep 10 ''Locating server...'') (jthen (locate_server b (bx_server j))
       (with_backup_lock
         (if bx_adapter j = ''elytra'' then delete_local_backup b j
          else if bx_adapter j = ''s3'' then delete_s3_backup b j
          else if bx_adapter j = ''rustic_local'' then delete_rustic_local b j
          else if bx_adapter j = ''rustic_s3'' then delete_rustic_s3 b j
          else jfail (ErrOther (''unsupported backup adapter type: '' @ bx_adapter j)))))"

section \<open>Restoring a backup\<close>

text \<open>
  \<open>RestoreBackup\<close>: the server is suspended for the restore, the process stopped if it is not offline
  (\<open>None\<close>: the stop timed out), the files written, the panel told whether it worked; the deferred
  calls run in the opposite order of their statements.
\<close>

definition restore_files :: "'w backup_env \<Rightarrow> string \<Rightarrow> string \<Rightarrow> ('w, unit) job_m" where
  "restore_files b adapter uuid =
     jbind (ask (be_offline b)) (\<lambda>off.
       jthen
         (if off then jret ()
          else jbind (ext (be_wait_stop b)) (\<lambda>r.
            case r of
              None \<Rightarrow> jfail (ErrOther ''server/backup: restore: server stop operation timed out after 2 minutes'')
            | Some None \<Rightarrow> jret ()
            | Some (Some e) \<Rightarrow>
                if is_not_found e then jret ()
                else jfail (ErrWrap ''server/backup: restore: failed to wait for container stop'' e)))
         (jbind (ext (be_restore b adapter uuid)) (\<lambda>e.
            case e of None \<Rightarrow> jret () | Some x \<Rightarrow> jfail x)))"

definition is_ok :: "'a jres \<Rightarrow> bool" where
  "is_ok r = (case r of JOk _ \<Rightarrow> True | _ \<Rightarrow> False)"

definition restore_backup :: "'w backup_env \<Rightarrow> string \<Rightarrow> string \<Rightarrow> ('w, unit) job_m" where
  "restore_backup b adapter uuid s =
     (let p = restore_files b adapter uuid (s\<lparr>js_suspended := True\<rparr>);
          s1 = (snd p)\<lparr>js_world := be_send_status b uuid (is_ok (fst p)) (js_world (snd p))\<rparr>
      in (fst p, s1\<lparr>js_suspended := False\<rparr>))"

definition restore_done :: "string \<Rightarrow> string \<Rightarrow> ('w, job_result) job_m" where
  "restore_done msg ty =
     jthen (rep 95 ''Publishing completion events...'')
       (jthen (event_out ''daemon message'' msg)
         (jthen (event_out ''backup restore completed'' [])
           (jthen (rep 100 ''Backup restored successfully'')
             (jret [(''restored'', JBool True), (''type'', JStr ty), (''successful'', JBool True)]))))"

definition restore_local_backup :: "'w backup_env \<Rightarrow> backup_restore \<Rightarrow> ('w, job_result) job_m" where
  "restore_local_backup b j =
     jthen (rep 50 ''Locating local backup...'')
       (jbind (ext (be_locate_local b (br_uuid j))) (\<lambda>e.
         jthen (check_err ''failed to locate local backup'' e)
           (jthen (rep 60 ''Starting restoration process...'')
             (jthen (wrap_job ''failed to restore local backup'' (restore_backup b ''elytra'' (br_uuid j)))
               (restore_done ''Completed server restoration from local backup.'' ''local'')))))"

definition restore_rustic_backup ::
  "'w backup_env \<Rightarrow> backup_restore \<Rightarrow> string \<Rightarrow> ('w, job_result) job_m" where
  "restore_rustic_backup b j kind =
     jthen (rep 50 ''Getting rustic configuration...'')
       (jbind (ext (be_rustic_config b kind)) (\<lambda>r.
         jbind (check_sum ''failed to get server rustic config for restore'' r) (\<lambda>rc.
           jthen (rep 60 ''Locating rustic backup...'')
             (jbind (ext (if kind = ''local''
                          then be_locate_snapshot b (br_snapshot j) ''local'' None (rc_password rc) (rc_path rc)
                          else be_locate_snapshot b (br_snapshot j) ''s3'' (rc_creds rc) (rc_password rc) (rc_path rc)))
               (\<lambda>e. jthen (check_err ''failed to locate rustic backup for restore'' e)
                 (jthen (rep 70 ''Starting restoration process...'')
                   (jthen (wrap_job ''failed to restore rustic backup'' (restore_backup b (''rustic_'' @ kind) (br_snapshot j)))
                     (restore_done ''Completed server restoration from rustic backup.'' (''rustic_'' @ kind)))))))))"

definition gzip_content_type :: "string \<Rightarrow> bool" where
  "gzip_content_type ct \<longleftrightarrow>
     \<not> (ct \<noteq> [] \<and> \<not> contains ct ''application/x-gzip'' \<and> \<not> contains ct ''application/gzip''
        \<and> \<not> contains ct ''application/octet-stream'')"

text \<open>
  The restore of an S3 backup runs in a goroutine; if the thirty minutes pass first, the job returns an
  error while the goroutine goes on (\<open>js_background\<close>).
\<close>

definition run_in_background :: "('w, 'a) job_m" where
  "run_in_background = (\<lambda>s. (JErr (ErrOther ''S3 backup restoration timed out after 30 minutes''), s\<lparr>js_background := True\<rparr>))"

definition restore_s3_backup :: "'w backup_env \<Rightarrow> backup_restore \<Rightarrow> ('w, job_result) job_m" where
  "restore_s3_backup b j =
     jthen (rep 50 ''Downloading S3 backup...'')
       (if br_url j = [] then jfail (ErrOther ''download URL is required for S3 backup restoration'')
        else
          jthen (rep 60 ''Establishing connection to S3...'')
            (jthen (check_err ''failed to create download request'' (be_request b (br_url j)))
              (jthen (rep 70 ''Downloading backup archive...'')
                (jbind (ext (be_download b (br_url j))) (\<lambda>r.
                  jbind (check_sum ''failed to download backup'' r) (\<lambda>res.
                    (case res of (code, status, ct) \<Rightarrow>
                      if code \<noteq> 200
                      then jfail (ErrOther (''failed to download backup: HTTP '' @ itoa code @ '' '' @ status))
                      else if \<not> gzip_content_type ct
                      then jfail (ErrOther (''unsupported content type: '' @ ct @ '' (expected gzip)''))
                      else
                        jthen (rep 80 ''Starting file restoration...'')
                          (jbind (ask (be_restore_timeout b)) (\<lambda>late.
                            if late then run_in_background
                            else
                              jthen (wrap_job ''failed to restore S3 backup'' (restore_backup b ''s3'' (br_uuid j)))
                                (restore_done ''Completed server restoration from S3 backup.'' ''s3''))))))))))"

definition truncate_step :: "'w backup_env \<Rightarrow> ('w, unit) job_m" where
  "truncate_step b =
     jthen (rep 30 ''Truncating server directory...'')
       (jbind (ext (be_truncate b)) (\<lambda>r.
         case r of
           None \<Rightarrow> (\<lambda>s. (JErr (ErrOther ''directory truncation timed out after 10 minutes''), s\<lparr>js_background := True\<rparr>))
         | Some e \<Rightarrow> check_err ''failed to truncate server directory'' e))"

definition execute_restore :: "'w backup_env \<Rightarrow> backup_restore \<Rightarrow> ('w, job_result) job_m" where
  "execute_restore b j =
     jthen (rep 10 ''Preparing for backup restoration...'') (jthen (locate_server b (br_server j))
       (with_backup_lock (with_restoring
         (jthen (rep 20 ''Preparing server for restore...'')
           (jthen (if br_truncate j then truncate_step b else jret ())
             (jthen (rep 40 ''Locating backup...'')
               (if br_adapter j = ''elytra'' then restore_local_backup b j
                else if br_adapter j = ''rustic_local'' then restore_rustic_backup b j ''local''
                else if br_adapter j = ''rustic_s3'' then restore_rustic_backup b j ''s3''
                else if br_adapter j = ''s3'' then restore_s3_backup b j
                else jfail (ErrOther (''unsupported backup adapter for restore: '' @ br_adapter j)))))))))"

section \<open>Deleting all backups\<close>

text \<open>
  The deletion of one backup: an error, or none. A rustic backup without a snapshot, or in S3 without
  credentials, is left alone and counts as deleted. \<open>None\<close> is an adapter that is not known.
\<close>

definition delete_rustic_entry ::
  "'w backup_env \<Rightarrow> string \<Rightarrow> string \<Rightarrow> ('w, gerr option) job_m" where
  "delete_rustic_entry b kind snap =
     (if snap = [] then jret None
      else
        jbind (ext (be_rustic_config b kind)) (\<lambda>r.
          case r of
            Inl e \<Rightarrow> jret (Some (ErrWrap (if kind = ''local'' then ''failed to get rustic local config''
                                       else ''failed to get rustic S3 config'') e))
          | Inr rc \<Rightarrow>
              if kind = ''s3'' \<and> rc_creds rc = None then jret None
              else
                jbind (ext (if kind = ''local''
                            then be_locate_snapshot b snap ''local'' None (rc_password rc) (rc_path rc)
                            else be_locate_snapshot b snap ''s3'' (rc_creds rc) (rc_password rc) []))
                  (\<lambda>e. case e of
                     Some x \<Rightarrow> jret (Some (ErrWrap (if kind = ''local'' then ''failed to locate rustic local backup''
                                                  else ''failed to locate rustic S3 backup'') x))
                   | None \<Rightarrow> ext (be_remove_snapshot b snap kind))))"

definition delete_entry :: "'w backup_env \<Rightarrow> jmap \<Rightarrow> ('w, gerr option option) job_m" where
  "delete_entry b d =
     (let uuid = get_string d ''uuid''; adapter = get_string d ''adapter''; snap = get_string d ''snapshot_id'';
          some = (\<lambda>m. jbind m (\<lambda>e. jret (Some e)))
      in if adapter = ''elytra'' \<or> adapter = ''wings'' then
           some (jbind (ext (be_locate_local b uuid)) (\<lambda>e.
             case e of
               Some x \<Rightarrow> jret (Some (ErrWrap ''failed to locate local backup'' x))
             | None \<Rightarrow> ext (be_remove_local b uuid)))
         else if adapter = ''s3'' then some (ext (be_remove_s3 b uuid))
         else if adapter = ''rustic_local'' then some (delete_rustic_entry b ''local'' snap)
         else if adapter = ''rustic_s3'' then some (delete_rustic_entry b ''s3'' snap)
         else jret None)"

text \<open>\<open>i\<close> backups of \<open>n\<close> were handled; the counts are of deleted and failed ones.\<close>

fun delete_entries ::
  "'w backup_env \<Rightarrow> int \<Rightarrow> int \<Rightarrow> int \<times> int \<Rightarrow> jmap list \<Rightarrow> ('w, int \<times> int) job_m" where
  "delete_entries b n i c [] = jret c"
| "delete_entries b n i c (d # ds) =
     jthen (rep (10 + 40 * (i + 1) div n) (''Deleting backup '' @ itoa (i + 1) @ '' of '' @ itoa n @ ''...''))
       (jbind (delete_entry b d) (\<lambda>r.
         delete_entries b n (i + 1)
           (case r of Some None \<Rightarrow> (fst c + 1, snd c) | _ \<Rightarrow> (fst c, snd c + 1)) ds))"

definition open_local_repo :: "'w backup_env \<Rightarrow> ('w, string list) job_m" where
  "open_local_repo b =
     jbind (ext (be_rustic_config b ''local'')) (\<lambda>r.
       case r of
         Inl e \<Rightarrow> jret []
       | Inr rc \<Rightarrow> jbind (ext (be_open_repo b ''local'' rc)) (\<lambda>e. jret (if e = None then [''local''] else [])))"

text \<open>The S3 credentials are dereferenced without a check.\<close>

definition open_s3_repo :: "'w backup_env \<Rightarrow> ('w, string list) job_m" where
  "open_s3_repo b =
     jbind (ext (be_rustic_config b ''s3'')) (\<lambda>r.
       case r of
         Inl e \<Rightarrow> jret []
       | Inr rc \<Rightarrow>
           if rc_creds rc = None then jpanic ''invalid memory address or nil pointer dereference''
           else jbind (ext (be_open_repo b ''s3'' rc)) (\<lambda>e. jret (if e = None then [''s3''] else [])))"

fun destroy_repos :: "'w backup_env \<Rightarrow> string list \<Rightarrow> ('w, int \<times> gerr list) job_m" where
  "destroy_repos b [] = jret (0, [])"
| "destroy_repos b (k # ks) =
     jbind (ext (be_destroy_repo b k)) (\<lambda>e.
       jbind (destroy_repos b ks) (\<lambda>r.
         jret (case e of
                 None \<Rightarrow> (fst r + 1, snd r)
               | Some x \<Rightarrow> (fst r, ErrWrap (''failed to destroy '' @ k @ '' repository'') x # snd r))))"

fun join_errors :: "gerr list \<Rightarrow> string" where
  "join_errors [] = []"
| "join_errors [e] = err_text e"
| "join_errors (e # es) = err_text e @ ''; '' @ join_errors es"

definition execute_delete_all :: "'w backup_env \<Rightarrow> backup_delete_all \<Rightarrow> ('w, job_result) job_m" where
  "execute_delete_all b j =
     (let n = int (length (ba_backups j)) in
      jthen (rep 5 ''Locating server...'') (jthen (locate_server b (ba_server j))
        (jbind (if ba_backups j \<noteq> []
                then jthen (rep 10 (''Deleting '' @ itoa n @ '' backup files...'')) (delete_entries b n 0 (0, 0) (ba_backups j))
                else jret (0, 0))
          (\<lambda>counts.
            jthen (rep 50 ''Checking for rustic repositories...'')
              (jbind (open_local_repo b) (\<lambda>loc.
                jbind (open_s3_repo b) (\<lambda>s3.
                  jthen (rep 70 ''Destroying repositories...'')
                    (jbind (destroy_repos b (loc @ s3)) (\<lambda>d.
                      if snd d \<noteq> [] then
                        jthen (rep 100 ''Repository destruction failed'')
                          (jfail (ErrOther (''failed to destroy repositories: '' @ join_errors (snd d))))
                      else
                        jthen (rep 100 ''All backups and repositories destroyed'')
                          (jret [(''deleted'', JBool True), (''backup_count'', JInt n),
                                 (''deleted_count'', JInt (fst counts)), (''failed_count'', JInt (snd counts)),
                                 (''repository_count'', JInt (int (length (loc @ s3)))),
                                 (''destroyed_repos'', JInt (fst d)), (''successful'', JBool True)]))))))))))"

section \<open>Reports only climb\<close>

text \<open>
  \<open>climbs lo hi m\<close>: whatever the world, \<open>m\<close> adds reports whose progress lies between \<open>lo\<close> and \<open>hi\<close>
  and never goes back.
\<close>

definition climbs :: "int \<Rightarrow> int \<Rightarrow> ('w, 'a) job_m \<Rightarrow> bool" where
  "climbs lo hi m \<longleftrightarrow>
     (\<forall>s. \<exists>xs. js_reports (snd (m s)) = js_reports s @ xs \<and> sorted (List.map fst xs)
        \<and> (\<forall>x \<in> set xs. lo \<le> fst x \<and> fst x \<le> hi))"

lemma climbsI:
  "(\<And>s. \<exists>xs. js_reports (snd (m s)) = js_reports s @ xs \<and> sorted (List.map fst xs)
        \<and> (\<forall>x \<in> set xs. lo \<le> fst x \<and> fst x \<le> hi)) \<Longrightarrow> climbs lo hi m"
  by (simp add: climbs_def)

lemma climbs_silent: "(\<And>s. js_reports (snd (m s)) = js_reports s) \<Longrightarrow> climbs lo hi m"
  by (rule climbsI, rule exI [of _ "[]"]) simp

lemma climbs_mono: "climbs lo' hi' m \<Longrightarrow> lo \<le> lo' \<Longrightarrow> hi' \<le> hi \<Longrightarrow> climbs lo hi m"
  unfolding climbs_def by (meson order_trans)

lemma climbs_rep: "lo \<le> n \<Longrightarrow> n \<le> hi \<Longrightarrow> climbs lo hi (rep n msg)"
  by (rule climbsI, rule exI [of _ "[(n, msg)]"]) (simp add: rep_def)

lemma climbs_bind:
  assumes "climbs lo mid m" and "\<And>x. climbs mid hi (f x)" and "lo \<le> mid" and "mid \<le> hi"
  shows "climbs lo hi (jbind m f)"
proof (rule climbsI)
  fix s
  obtain xs where xs: "js_reports (snd (m s)) = js_reports s @ xs" "sorted (List.map fst xs)"
    "\<forall>x \<in> set xs. lo \<le> fst x \<and> fst x \<le> mid"
    using assms(1) unfolding climbs_def by blast
  have le: "\<forall>x \<in> set xs. lo \<le> fst x \<and> fst x \<le> hi" using xs(3) assms(4) by force
  show "\<exists>xs. js_reports (snd (jbind m f s)) = js_reports s @ xs \<and> sorted (List.map fst xs)
      \<and> (\<forall>x \<in> set xs. lo \<le> fst x \<and> fst x \<le> hi)"
  proof (cases "fst (m s)")
    case (JOk a)
    obtain ys where ys: "js_reports (snd (f a (snd (m s)))) = js_reports (snd (m s)) @ ys" "sorted (List.map fst ys)"
      "\<forall>x \<in> set ys. mid \<le> fst x \<and> fst x \<le> hi"
      using assms(2) unfolding climbs_def by blast
    have "jbind m f s = f a (snd (m s))" using JOk by (cases "m s") (simp add: jbind_def)
    moreover have "sorted (List.map fst (xs @ ys))"
      using xs(2,3) ys(2,3) by (fastforce simp: sorted_append)
    ultimately show ?thesis
      using xs(1) ys le assms(3) by (intro exI [of _ "xs @ ys"]) force
  next
    case (JErr e)
    then have "snd (jbind m f s) = snd (m s)" by (cases "m s") (simp add: jbind_def)
    then show ?thesis using xs(1,2) le by auto
  next
    case (JPan e)
    then have "snd (jbind m f s) = snd (m s)" by (cases "m s") (simp add: jbind_def)
    then show ?thesis using xs(1,2) le by auto
  qed
qed

lemma climbs_then:
  "climbs lo mid m \<Longrightarrow> climbs mid hi f \<Longrightarrow> lo \<le> mid \<Longrightarrow> mid \<le> hi \<Longrightarrow> climbs lo hi (jthen m f)"
  unfolding jthen_def by (rule climbs_bind)

text \<open>A report followed by a rest that starts at its progress; a silent step before a rest.\<close>

lemma climbs_rep_then:
  assumes "climbs n hi f" and "lo \<le> n" and "n \<le> hi"
  shows "climbs lo hi (jthen (rep n msg) f)"
  by (rule climbs_then [of lo n]) (simp_all add: assms climbs_rep)

lemma climbs_silent_bind:
  assumes "\<And>s. js_reports (snd (m s)) = js_reports s" and "\<And>x. climbs lo hi (f x)"
  shows "climbs lo hi (jbind m f)"
proof (rule climbsI)
  fix s
  show "\<exists>xs. js_reports (snd (jbind m f s)) = js_reports s @ xs \<and> sorted (List.map fst xs)
      \<and> (\<forall>x \<in> set xs. lo \<le> fst x \<and> fst x \<le> hi)"
  proof (cases "fst (m s)")
    case (JOk a)
    have "jbind m f s = f a (snd (m s))" using JOk by (cases "m s") (simp add: jbind_def)
    then show ?thesis using assms(2) [of a] assms(1) unfolding climbs_def by metis
  next
    case (JErr e)
    then have "snd (jbind m f s) = snd (m s)" by (cases "m s") (simp add: jbind_def)
    then show ?thesis using assms(1) by (intro exI [of _ "[]"]) simp
  next
    case (JPan e)
    then have "snd (jbind m f s) = snd (m s)" by (cases "m s") (simp add: jbind_def)
    then show ?thesis using assms(1) by (intro exI [of _ "[]"]) simp
  qed
qed

lemma silent_steps [simp]:
  "js_reports (snd (jret x s)) = js_reports s" "js_reports (snd (jfail e s)) = js_reports s"
  "js_reports (snd (jpanic p s)) = js_reports s" "js_reports (snd (event_out t d s)) = js_reports s"
  "js_reports (snd (check_err msg eo s)) = js_reports s" "js_reports (snd (check_sum msg r s)) = js_reports s"
  by (simp_all add: jret_def jfail_def jpanic_def event_out_def check_err_def check_sum_def
      split: option.split sum.split)

lemma silent_ext [simp]: "js_reports (snd (ext f s)) = js_reports s" "js_reports (snd (ask g s)) = js_reports s"
  by (simp_all add: ext_def ask_def)

lemma silent_bind:
  "(\<And>s. js_reports (snd (m s)) = js_reports s) \<Longrightarrow> (\<And>x s. js_reports (snd (f x s)) = js_reports s) \<Longrightarrow>
   js_reports (snd (jbind m f s)) = js_reports s"
  by (cases "m s"; cases "fst (m s)") (simp_all add: jbind_def, metis snd_conv, metis snd_conv, metis snd_conv)

lemma silent_then:
  "(\<And>s. js_reports (snd (m s)) = js_reports s) \<Longrightarrow> (\<And>s. js_reports (snd (f s)) = js_reports s) \<Longrightarrow>
   js_reports (snd (jthen m f s)) = js_reports s"
  unfolding jthen_def by (rule silent_bind)

lemma climbs_silent_then:
  "(\<And>s. js_reports (snd (m s)) = js_reports s) \<Longrightarrow> climbs lo hi f \<Longrightarrow> climbs lo hi (jthen m f)"
  unfolding jthen_def by (rule climbs_silent_bind)

lemma silent_wrap [simp]: "js_reports (snd (wrap_job msg m s)) = js_reports (snd (m s))"
  by (cases "m s"; cases "fst (m s)") (simp_all add: wrap_job_def)

lemma climbs_wrap: "climbs lo hi m \<Longrightarrow> climbs lo hi (wrap_job msg m)"
  by (simp add: climbs_def)

lemma climbs_lock: "climbs lo hi m \<Longrightarrow> climbs lo hi (with_backup_lock m)"
  unfolding climbs_def by (simp add: with_backup_lock_def Let_def) (metis (no_types, lifting) jst.select_convs(1) jst.surjective jst.update_convs(3))

lemma climbs_restoring: "climbs lo hi m \<Longrightarrow> climbs lo hi (with_restoring m)"
  unfolding climbs_def by (simp add: with_restoring_def Let_def) (metis (no_types, lifting) jst.select_convs(1) jst.surjective jst.update_convs(4))

lemma silent_locate_server [simp]: "js_reports (snd (locate_server b sid s)) = js_reports s"
  unfolding locate_server_def by (rule silent_bind) simp_all

lemma silent_backup_adapter [simp]: "js_reports (snd (backup_adapter b a s)) = js_reports s"
  unfolding backup_adapter_def by (auto intro!: silent_bind)

lemma silent_restore_backup [simp]: "js_reports (snd (restore_backup b a u s)) = js_reports s"
proof -
  have "js_reports (snd (restore_files b a u s)) = js_reports s" for s
    unfolding restore_files_def
    by (intro silent_bind silent_then) (auto split: option.split intro!: silent_bind)
  then show ?thesis by (simp add: restore_backup_def Let_def)
qed

lemma climbs_leaf:
  "climbs lo hi (jret x)" "climbs lo hi (jfail e)" "climbs lo hi (jpanic p)" "climbs lo hi (ext f)"
  by (rule climbs_silent, simp)+

lemma climbs_if: "(P \<Longrightarrow> climbs lo hi m) \<Longrightarrow> (\<not> P \<Longrightarrow> climbs lo hi n) \<Longrightarrow> climbs lo hi (if P then m else n)"
  by simp

lemma climbs_option:
  "(x = None \<Longrightarrow> climbs lo hi m) \<Longrightarrow> (\<And>y. x = Some y \<Longrightarrow> climbs lo hi (f y)) \<Longrightarrow>
   climbs lo hi (case x of None \<Rightarrow> m | Some y \<Rightarrow> f y)"
  by (cases x) simp_all

lemma climbs_sum:
  "(\<And>e. x = Inl e \<Longrightarrow> climbs lo hi (f e)) \<Longrightarrow> (\<And>y. x = Inr y \<Longrightarrow> climbs lo hi (g y)) \<Longrightarrow>
   climbs lo hi (case x of Inl e \<Rightarrow> f e | Inr y \<Rightarrow> g y)"
  by (cases x) simp_all

lemmas climb_rules = climbs_rep_then climbs_silent_then climbs_silent_bind climbs_leaf climbs_if
  climbs_option climbs_sum climbs_wrap

lemma climbs_perform: "climbs 30 100 (perform_backup b j rc)"
  unfolding perform_backup_def Let_def
  by (rule climbs_bind [where mid = 35]; (intro climb_rules)?; simp)

lemma climbs_create: "climbs 10 100 (execute_create b j)"
  unfolding execute_create_def
  by (intro climb_rules climbs_lock climbs_perform; simp)

lemma climbs_finish: "climbs 50 100 (finish_already_deleted b ty kind rc)"
  unfolding finish_already_deleted_def
  by (intro climb_rules; auto intro!: silent_bind split: option.split)

lemma climbs_delete: "climbs 10 100 (execute_delete b j)"
proof -
  have l: "climbs 10 100 (delete_local_backup b j)"
    unfolding delete_local_backup_def by (intro climb_rules; simp)
  have s: "climbs 10 100 (delete_s3_backup b j)"
    unfolding delete_s3_backup_def by (intro climb_rules; simp)
  have rl: "climbs 10 100 (delete_rustic_local b j)"
    unfolding delete_rustic_local_def by (intro climb_rules climbs_finish; auto intro!: silent_bind)
  have rs: "climbs 10 100 (delete_rustic_s3 b j)"
    unfolding delete_rustic_s3_def by (intro climb_rules climbs_finish; auto intro!: silent_bind)
  show ?thesis
    unfolding execute_delete_def by (intro climb_rules climbs_lock l s rl rs; simp)
qed

lemma climbs_restore_done: "climbs 80 100 (restore_done msg ty)"
  unfolding restore_done_def by (intro climb_rules; simp)

lemma climbs_restore_done': "lo \<le> 80 \<Longrightarrow> climbs lo 100 (restore_done msg ty)"
  by (rule climbs_mono [OF climbs_restore_done]) simp_all

lemma climbs_restore: "climbs 10 100 (execute_restore b j)"
proof -
  have l: "climbs 40 100 (restore_local_backup b j)"
    unfolding restore_local_backup_def by (intro climb_rules climbs_restore_done'; simp)
  have r: "climbs 40 100 (restore_rustic_backup b j k)" for k
    unfolding restore_rustic_backup_def by (intro climb_rules climbs_restore_done'; simp)
  have bg: "climbs lo hi run_in_background" for lo hi
    by (rule climbs_silent) (simp add: run_in_background_def)
  have s: "climbs 40 100 (restore_s3_backup b j)"
    unfolding restore_s3_backup_def case_prod_beta
    by (intro climb_rules climbs_restore_done' bg; simp)
  have t: "climbs 20 30 (truncate_step b)"
    unfolding truncate_step_def by (intro climb_rules; auto intro!: climbs_silent)
  have body: "climbs 20 100 (jthen (if br_truncate j then truncate_step b else jret ()) (jthen (rep 40 ''Locating backup...'')
               (if br_adapter j = ''elytra'' then restore_local_backup b j
                else if br_adapter j = ''rustic_local'' then restore_rustic_backup b j ''local''
                else if br_adapter j = ''rustic_s3'' then restore_rustic_backup b j ''s3''
                else if br_adapter j = ''s3'' then restore_s3_backup b j
                else jfail (ErrOther (''unsupported backup adapter for restore: '' @ br_adapter j)))))"
    by (rule climbs_then [where mid = 30]; (intro climb_rules t l r s)?; simp add: climbs_mono [OF t])
  show ?thesis
    unfolding execute_restore_def by (intro climb_rules climbs_lock climbs_restoring body; simp)
qed

lemma silent_delete_entry [simp]: "js_reports (snd (delete_entry b d s)) = js_reports s"
proof -
  have "js_reports (snd (delete_rustic_entry b k sn s)) = js_reports s" for k sn s
    unfolding delete_rustic_entry_def
    by (auto intro!: silent_bind split: sum.split option.split)
  then show ?thesis
    unfolding delete_entry_def Let_def by (auto intro!: silent_bind split: option.split)
qed

lemma entry_progress:
  fixes n i :: int
  assumes "0 \<le> i" "i < n"
  shows "10 + 40 * i div n \<le> 10 + 40 * (i + 1) div n" and "10 + 40 * (i + 1) div n \<le> 50" and "10 \<le> 10 + 40 * i div n"
proof -
  show "10 + 40 * i div n \<le> 10 + 40 * (i + 1) div n" using assms by (simp add: zdiv_mono1)
  have "40 * (i + 1) div n \<le> 40 * n div n" using assms by (intro zdiv_mono1) auto
  then show "10 + 40 * (i + 1) div n \<le> 50" using assms by simp
  show "10 \<le> 10 + 40 * i div n" using assms by (simp add: pos_imp_zdiv_nonneg_iff)
qed

lemma climbs_entries:
  "0 \<le> i \<Longrightarrow> i + int (length ds) = n \<Longrightarrow> climbs (if ds = [] then 10 else 10 + 40 * i div n) 50 (delete_entries b n i c ds)"
proof (induction ds arbitrary: i c)
  case Nil
  show ?case by (simp add: climbs_leaf)
next
  case (Cons d ds)
  then have i: "0 \<le> i" "i < n" by simp_all
  have rest: "climbs (10 + 40 * (i + 1) div n) 50 (delete_entries b n (i + 1) c ds)" for c
  proof (cases "ds = []")
    case True
    then show ?thesis by (simp add: climbs_leaf)
  next
    case False
    then show ?thesis using Cons.IH [of "i + 1" c] Cons.prems by simp
  qed
  have "climbs (10 + 40 * (i + 1) div n) 50 (jbind (delete_entry b d) (\<lambda>r.
         delete_entries b n (i + 1) (case r of Some None \<Rightarrow> (fst c + 1, snd c) | _ \<Rightarrow> (fst c, snd c + 1)) ds))"
    by (rule climbs_silent_bind [OF silent_delete_entry rest])
  then have "climbs (10 + 40 * i div n) 50 (delete_entries b n i c (d # ds))"
    unfolding delete_entries.simps by (rule climbs_rep_then [OF _ entry_progress(1,2) [OF i]])
  then show ?case by simp
qed

lemma silent_destroy_repos [simp]: "js_reports (snd (destroy_repos b ks s)) = js_reports s"
  by (induction ks arbitrary: s) (auto intro!: silent_bind)

lemma climbs_delete_all: "climbs 5 100 (execute_delete_all b j)"
proof -
  let ?n = "int (length (ba_backups j))"
  have e: "climbs 5 50 (if ba_backups j \<noteq> []
                then jthen (rep 10 msg) (delete_entries b ?n 0 (0, 0) (ba_backups j)) else jret (0, 0))" for msg
    using climbs_entries [of 0 "ba_backups j" ?n b "(0, 0)"]
    by (auto intro!: climbs_rep_then climbs_leaf)
  have "js_reports (snd (open_local_repo b s)) = js_reports s" "js_reports (snd (open_s3_repo b s)) = js_reports s" for s
    unfolding open_local_repo_def open_s3_repo_def by (auto intro!: silent_bind split: sum.split)
  then show ?thesis
    unfolding execute_delete_all_def Let_def
    by (intro climbs_rep_then climbs_silent_then climbs_bind [OF e]; (intro climb_rules)?; simp)
qed

section \<open>What is held\<close>








section \<open>Properties\<close>

text \<open>
  Progress never goes back. Whatever the panel, the storage and the server do, the progress that each
  backup job reports climbs from its first report (10, and 5 for the deletion of all backups) to at most
  100, the reports of the loop over the backups included.
\<close>

theorem progress_climbs:
  "climbs 10 100 (execute_create b jc) \<and> climbs 10 100 (execute_delete b jd)
   \<and> climbs 10 100 (execute_restore b jr) \<and> climbs 5 100 (execute_delete_all b ja)"
  using climbs_create climbs_delete climbs_restore climbs_delete_all by blast


text \<open>
  Restoring always lifts a server's suspension, also one that was there before.
\<close>

lemma restore_lifts_suspension: "\<not> js_suspended (snd (restore_backup b adapter uuid s))"
  by (simp add: restore_backup_def Let_def)

text \<open>What a job that returned has gone through.\<close>

lemma jbindE:
  assumes "jbind m f s = (JOk y, s')"
  obtains x s1 where "m s = (JOk x, s1)" and "f x s1 = (JOk y, s')"
  using assms by (cases "m s"; cases "fst (m s)") (auto simp: jbind_def)

lemma jthenE:
  assumes "jthen m f s = (JOk y, s')"
  obtains s1 where "m s = (JOk (), s1)" and "f s1 = (JOk y, s')"
  using assms unfolding jthen_def by (rule jbindE) auto

lemma jret_iff [simp]: "jret x s = (JOk y, s') \<longleftrightarrow> y = x \<and> s' = s"
  by (auto simp: jret_def)

lemma jfail_iff [simp]: "jfail e s \<noteq> (JOk y, s')"
  by (simp add: jfail_def)

lemma delete_entries_count:
  "delete_entries b n i c ds s = (JOk r, s') \<Longrightarrow> fst r + snd r = fst c + snd c + int (length ds)"
proof (induction ds arbitrary: i c s)
  case (Cons d ds)
  obtain e :: "gerr option option" and s1 where
    "delete_entries b n (i + 1) (case e of Some None \<Rightarrow> (fst c + 1, snd c) | _ \<Rightarrow> (fst c, snd c + 1)) ds s1 = (JOk r, s')"
    using Cons.prems unfolding delete_entries.simps by (elim jthenE jbindE) (erule that)
  from Cons.IH [OF this] show ?case by (simp split: option.splits)
qed simp

lemma destroy_repos_count:
  "destroy_repos b ks s = (JOk d, s') \<Longrightarrow> fst d + int (length (snd d)) = int (length ks)"
proof (induction ks arbitrary: d s s')
  case (Cons k ks)
  obtain e r s1 s2 where "destroy_repos b ks s1 = (JOk r, s2)"
    and d: "d = (case e of None \<Rightarrow> (fst r + 1, snd r)
                 | Some x \<Rightarrow> (fst r, ErrWrap (''failed to destroy '' @ k @ '' repository'') x # snd r))"
    using Cons.prems by (auto elim!: jbindE)
  from Cons.IH [OF this(1)] show ?case by (simp add: d split: option.split)
qed simp

text \<open>
  Deleting all backups accounts for every one of them. A job that succeeds has counted each backup
  either as deleted or as failed, and has destroyed every repository that it could open.
\<close>

theorem delete_all_accounts:
  assumes "execute_delete_all b j s = (JOk result, s')"
  shows "\<exists>del fai repos. result =
      [(''deleted'', JBool True), (''backup_count'', JInt (int (length (ba_backups j)))),
       (''deleted_count'', JInt del), (''failed_count'', JInt fai), (''repository_count'', JInt repos),
       (''destroyed_repos'', JInt repos), (''successful'', JBool True)]
     \<and> del + fai = int (length (ba_backups j)) \<and> 0 \<le> repos \<and> repos \<le> 2"
proof -
  let ?n = "int (length (ba_backups j))"
  obtain c s1 s2 s3 s4 s5 s6 s7 loc s3r d where
    c: "(if ba_backups j \<noteq> []
         then jthen (rep 10 (''Deleting '' @ itoa ?n @ '' backup files...'')) (delete_entries b ?n 0 (0, 0) (ba_backups j))
         else jret (0, 0)) s1 = (JOk c, s2)"
    and loc: "open_local_repo b s3 = (JOk loc, s4)" and s3r: "open_s3_repo b s4 = (JOk s3r, s5)"
    and d: "destroy_repos b (loc @ s3r) s6 = (JOk d, s7)"
    and res: "(if snd d \<noteq> [] then
                 jthen (rep 100 ''Repository destruction failed'')
                   (jfail (ErrOther (''failed to destroy repositories: '' @ join_errors (snd d))))
               else
                 jthen (rep 100 ''All backups and repositories destroyed'')
                   (jret [(''deleted'', JBool True), (''backup_count'', JInt ?n),
                          (''deleted_count'', JInt (fst c)), (''failed_count'', JInt (snd c)),
                          (''repository_count'', JInt (int (length (loc @ s3r)))),
                          (''destroyed_repos'', JInt (fst d)), (''successful'', JBool True)])) s7 = (JOk result, s')"
    using assms unfolding execute_delete_all_def Let_def
    by (elim jthenE jbindE) (rule that, assumption+)
  have ok: "snd d = []" using res by (auto elim!: jthenE split: if_splits)
  with res have result: "result = [(''deleted'', JBool True), (''backup_count'', JInt ?n),
       (''deleted_count'', JInt (fst c)), (''failed_count'', JInt (snd c)),
       (''repository_count'', JInt (int (length (loc @ s3r)))),
       (''destroyed_repos'', JInt (fst d)), (''successful'', JBool True)]"
    by (auto elim!: jthenE)
  have "fst c + snd c = ?n"
  proof (cases "ba_backups j = []")
    case False
    with c obtain s1' where "delete_entries b ?n 0 (0, 0) (ba_backups j) s1' = (JOk c, s2)"
      by (auto elim!: jthenE)
    from delete_entries_count [OF this] show ?thesis by simp
  qed (use c in simp)
  moreover have "fst d = int (length (loc @ s3r))" using destroy_repos_count [OF d] ok by simp
  moreover have "length loc \<le> 1"
    using loc unfolding open_local_repo_def by (auto elim!: jbindE split: sum.splits if_splits)
  moreover have "length s3r \<le> 1"
    using s3r unfolding open_s3_repo_def by (auto elim!: jbindE simp: jpanic_def split: sum.splits if_splits)
  ultimately show ?thesis
    by (intro exI [of _ "fst c"] exI [of _ "snd c"] exI [of _ "int (length (loc @ s3r))"]) (simp add: result)
qed

text \<open>
  A panel that has no S3 credentials for a server (its answer leaves them out) makes the deletion of all
  backups panic, after the backups were deleted and before any repository was.
\<close>

lemma delete_all_panics:
  assumes "be_server b (ba_server j) w" and "ba_backups j = []"
    and "\<And>w. \<exists>e w'. be_rustic_config b ''local'' w = (Inl e, w')"
    and "\<And>w. \<exists>c w'. be_rustic_config b ''s3'' w = (Inr c, w') \<and> rc_creds c = None"
    and "js_world s = w"
  shows "\<exists>m s'. execute_delete_all b j s = (JPan m, s')"
proof -
  obtain e w1 where l: "be_rustic_config b ''local'' w = (Inl e, w1)" using assms(3) by blast
  obtain c w2 where "be_rustic_config b ''s3'' w1 = (Inr c, w2)" "rc_creds c = None" using assms(4) by blast
  with l show ?thesis
    using assms(1,2,5)
    by (simp add: execute_delete_all_def jthen_def jbind_def rep_def locate_server_def ask_def jret_def
        open_local_repo_def open_s3_repo_def ext_def jpanic_def)
qed

text \<open>
  A job that the panel's data can build is a valid job: what the constructors accept, \<open>Validate\<close> accepts,
  for all four kinds; and without a server identifier none is built.
\<close>

theorem constructed_jobs_validate:
  "(\<forall>j. new_backup_create uid data = Inr j \<longrightarrow> j_validate (create_as_job j) = None)
   \<and> (\<forall>j. new_backup_delete uid data = Inr j \<longrightarrow> j_validate (delete_as_job j) = None)
   \<and> (\<forall>j. new_backup_restore uid data = Inr j \<longrightarrow> j_validate (restore_as_job j) = None)
   \<and> (\<forall>j. new_backup_delete_all uid data = Inr j \<longrightarrow> j_validate (delete_all_as_job j) = None)
   \<and> (get_string data ''server_id'' = [] \<longrightarrow>
        isl (new_backup_create uid data) \<and> isl (new_backup_delete uid data)
      \<and> isl (new_backup_restore uid data) \<and> isl (new_backup_delete_all uid data))"
  by (auto simp: new_backup_create_def new_backup_delete_def new_backup_restore_def new_backup_delete_all_def
      create_as_job_def delete_as_job_def restore_as_job_def delete_all_as_job_def
      validate_create_def validate_delete_def validate_restore_def validate_delete_all_def split: if_splits)

text \<open>A world in which everything works, for the concrete runs.\<close>

definition easy_backups :: "unit backup_env" where
  "easy_backups =
     \<lparr>be_server = (\<lambda>i _. i = ''srv''),
      be_rustic_config = (\<lambda>_ w. (Inr \<lparr>rc_password = ''pw'', rc_path = ''/r'', rc_creds = Some ''key''\<rparr>, w)),
      be_ignored = (\<lambda>w. (Inr [], w)),
      be_generate = (\<lambda>_ _ _ _ w. (Inr \<lparr>ar_checksum = ''c'', ar_snapshot = ''s'', ar_size = 7\<rparr>, w)),
      be_repository = (\<lambda>_ _. True), be_repo_size = (\<lambda>_ w. (Inr 9, w)),
      be_locate_local = (\<lambda>_ w. (None, w)), be_remove_local = (\<lambda>_ w. (None, w)), be_remove_s3 = (\<lambda>_ w. (None, w)),
      be_locate_snapshot = (\<lambda>_ _ _ _ _ w. (None, w)), be_remove_snapshot = (\<lambda>_ _ w. (None, w)),
      be_open_repo = (\<lambda>_ _ w. (None, w)), be_destroy_repo = (\<lambda>_ w. (None, w)),
      be_truncate = (\<lambda>w. (Some None, w)), be_offline = (\<lambda>_. True), be_wait_stop = (\<lambda>w. (Some None, w)),
      be_restore = (\<lambda>_ _ w. (None, w)), be_send_status = (\<lambda>_ _ w. w), be_request = (\<lambda>_. None),
      be_download = (\<lambda>_ w. (Inr (200, ''OK'', ''application/gzip''), w)), be_restore_timeout = (\<lambda>_. False)\<rparr>"

definition fresh_run :: "unit jst" where
  "fresh_run = \<lparr>js_reports = [], js_events = [], js_held = False, js_restoring = False, js_suspended = False,
     js_background = False, js_world = ()\<rparr>"



definition sample_delete_all :: backup_delete_all where
  "sample_delete_all = \<lparr>ba_id = ''1'', ba_server = ''srv'',
     ba_backups = [[''uuid'' \<mapsto> JStr ''a'', ''adapter'' \<mapsto> JStr ''elytra''], [''uuid'' \<mapsto> JStr ''b'', ''adapter'' \<mapsto> JStr ''tape'']]\<rparr>"

theorem delete_all_accounts_witness:
  "\<exists>del fai. del + fai = (2 :: int) \<and> is_ok (fst (execute_delete_all easy_backups sample_delete_all fresh_run))"
proof -
  let ?p = "execute_delete_all easy_backups sample_delete_all fresh_run"
  have ok: "is_ok (fst ?p)"
    by (simp add: execute_delete_all_def easy_backups_def sample_delete_all_def fresh_run_def jthen_def jbind_def rep_def
        locate_server_def ask_def jret_def ext_def delete_entry_def get_string_def open_local_repo_def open_s3_repo_def
        is_ok_def Let_def)
  then obtain r where "?p = (JOk r, snd ?p)" by (cases ?p; cases "fst ?p") (auto simp: is_ok_def)
  from delete_all_accounts [OF this] have "\<exists>del fai. del + fai = int (length (ba_backups sample_delete_all))" by blast
  with ok show ?thesis by (simp add: sample_delete_all_def)
qed

theorem constructed_jobs_validate_witness:
  "j_validate (create_as_job \<lparr>bc_id = ''1'', bc_server = ''srv'', bc_uuid = ''u'', bc_adapter = ''elytra'',
      bc_ignore = [], bc_name = [], bc_context = None\<rparr>) = None"
proof -
  have "new_backup_create ''1'' [''server_id'' \<mapsto> JStr ''srv'', ''backup_uuid'' \<mapsto> JStr ''u'']
      = Inr \<lparr>bc_id = ''1'', bc_server = ''srv'', bc_uuid = ''u'', bc_adapter = ''elytra'',
      bc_ignore = [], bc_name = [], bc_context = None\<rparr>"
    by (simp add: new_backup_create_def get_string_def get_obj_def)
  with constructed_jobs_validate [of "''1''" "[''server_id'' \<mapsto> JStr ''srv'', ''backup_uuid'' \<mapsto> JStr ''u'']"]
  show ?thesis by blast
qed

end
