(* ===== verification/Backup_Requests.thy ===== *)
theory Backup_Requests
  imports Backup_Jobs
begin

text \<open>
  From a request to a queued backup job: the registration of the job types (\<open>src/jobs/setup.go\<close>) and the handlers
  of \<open>src/router/router_server_backup.go\<close>, over the job manager and the constructors of the jobs.
\<close>

section \<open>The types of jobs\<close>

text \<open>\<open>uid\<close> is the identifier that the next call of \<open>uuid.New\<close> gives; a constructor calls it once.\<close>

definition setup_jobs :: "string \<Rightarrow> job_manager \<Rightarrow> job_manager" where
  "setup_jobs uid m =
     register_job_type ''backup_delete_all'' (map_sum id delete_all_as_job \<circ> new_backup_delete_all uid)
      (register_job_type ''backup_restore'' (map_sum id restore_as_job \<circ> new_backup_restore uid)
        (register_job_type ''backup_delete'' (map_sum id delete_as_job \<circ> new_backup_delete uid)
          (register_job_type ''backup_create'' (map_sum id create_as_job \<circ> new_backup_create uid) m)))"

section \<open>The handlers\<close>

definition local_backup_adapter :: string where "local_backup_adapter = ''elytra''"
definition s3_backup_adapter :: string where "s3_backup_adapter = ''s3''"
definition rustic_local_adapter :: string where "rustic_local_adapter = ''rustic_local''"
definition rustic_s3_adapter :: string where "rustic_s3_adapter = ''rustic_s3''"

text \<open>The data of the requests, as \<open>BindJSON\<close> fills them in: what is missing is empty.\<close>

record create_data =
  cd_adapter :: string
  cd_uuid :: string
  cd_ignore :: string
  cd_name :: string

record restore_data =
  rd_adapter :: string
  rd_truncate :: bool
  rd_url :: string

record delete_data =
  dd_adapter :: string
  dd_snapshot :: string

definition known_adapter :: "string \<Rightarrow> bool" where
  "known_adapter a \<longleftrightarrow>
     a = local_backup_adapter \<or> a = s3_backup_adapter \<or> a = rustic_local_adapter \<or> a = rustic_s3_adapter"

definition submit :: "time \<Rightarrow> string \<Rightarrow> jmap \<Rightarrow> string \<Rightarrow> string \<Rightarrow> job_manager \<Rightarrow> http_reply \<times> job_manager" where
  "submit now ty dat failed queued m =
     (case create_job now ty dat m of
        (Inl e, m') \<Rightarrow> (HttpReply 500 [''error'' \<mapsto> JStr (failed @ e)], m')
      | (Inr jid, m') \<Rightarrow>
          (HttpReply 202 [''job_id'' \<mapsto> JStr jid, ''status'' \<mapsto> JStr ''accepted'', ''message'' \<mapsto> JStr queued], m'))"

text \<open>A body that cannot be bound is \<open>None\<close>; gin has then answered.\<close>

definition post_server_backup ::
  "time \<Rightarrow> string \<Rightarrow> create_data option \<Rightarrow> job_manager \<Rightarrow> http_reply \<times> job_manager" where
  "post_server_backup now sid body m =
     (case body of
        None \<Rightarrow> (NoReply, m)
      | Some r \<Rightarrow>
          if \<not> known_adapter (cd_adapter r)
          then (HttpReply 400 [''error'' \<mapsto> JStr (''Invalid backup adapter type: '' @ cd_adapter r)], m)
          else submit now ''backup_create''
                 [''server_id'' \<mapsto> JStr sid, ''backup_uuid'' \<mapsto> JStr (cd_uuid r),
                  ''adapter_type'' \<mapsto> JStr (cd_adapter r), ''ignore'' \<mapsto> JStr (cd_ignore r),
                  ''name'' \<mapsto> JStr (cd_name r)]
                 ''Failed to submit backup job: '' ''Backup job has been queued for processing'' m)"

text \<open>The rules of binding ask for one of the four adapters.\<close>

definition post_server_restore_backup ::
  "time \<Rightarrow> string \<Rightarrow> string \<Rightarrow> restore_data option \<Rightarrow> job_manager \<Rightarrow> http_reply \<times> job_manager" where
  "post_server_restore_backup now sid backup body m =
     (case body of
        None \<Rightarrow> (NoReply, m)
      | Some r \<Rightarrow>
          if \<not> known_adapter (rd_adapter r) then (NoReply, m)
          else if rd_adapter r = s3_backup_adapter \<and> rd_url r = []
          then (HttpReply 400 [''error'' \<mapsto>
                  JStr ''The download_url field is required when the backup adapter is set to S3.''], m)
          else submit now ''backup_restore''
                 [''server_id'' \<mapsto> JStr sid, ''backup_uuid'' \<mapsto> JStr backup,
                  ''adapter_type'' \<mapsto> JStr (rd_adapter r), ''truncate_directory'' \<mapsto> JBool (rd_truncate r),
                  ''download_url'' \<mapsto> JStr (rd_url r)]
                 ''Failed to submit restore job: '' ''Backup restoration job has been queued for processing'' m)"

definition delete_server_backup ::
  "time \<Rightarrow> string \<Rightarrow> string \<Rightarrow> delete_data option \<Rightarrow> job_manager \<Rightarrow> http_reply \<times> job_manager" where
  "delete_server_backup now sid backup body m =
     (case body of
        None \<Rightarrow> (NoReply, m)
      | Some r \<Rightarrow>
          if dd_adapter r = [] then (NoReply, m)
          else if \<not> known_adapter (dd_adapter r)
          then (HttpReply 400 [''error'' \<mapsto> JStr (''Invalid backup adapter type: '' @ dd_adapter r)], m)
          else (let dat = [''server_id'' \<mapsto> JStr sid, ''backup_uuid'' \<mapsto> JStr backup,
                           ''adapter_type'' \<mapsto> JStr (dd_adapter r)]
                in submit now ''backup_delete''
                     (if dd_snapshot r \<noteq> [] then dat(''snapshot_id'' \<mapsto> JStr (dd_snapshot r)) else dat)
                     ''Failed to submit delete job: '' ''Backup deletion job has been queued for processing'' m))"

section \<open>What is asked for is what is queued\<close>

datatype queued_request =
    Ask_Create create_data
  | Ask_Restore string restore_data
  | Ask_Delete string delete_data

fun serve_backup :: "time \<Rightarrow> string \<Rightarrow> queued_request \<Rightarrow> job_manager \<Rightarrow> http_reply \<times> job_manager" where
  "serve_backup now sid (Ask_Create r) = post_server_backup now sid (Some r)"
| "serve_backup now sid (Ask_Restore backup r) = post_server_restore_backup now sid backup (Some r)"
| "serve_backup now sid (Ask_Delete backup r) = delete_server_backup now sid backup (Some r)"

text \<open>The job that a request describes, written down without the detour over the job's data.\<close>

fun asked_job :: "string \<Rightarrow> string \<Rightarrow> queued_request \<Rightarrow> job" where
  "asked_job uid sid (Ask_Create r) =
     create_as_job \<lparr>bc_id = uid, bc_server = sid, bc_uuid = cd_uuid r, bc_adapter = cd_adapter r,
       bc_ignore = cd_ignore r, bc_name = cd_name r, bc_context = None\<rparr>"
| "asked_job uid sid (Ask_Restore backup r) =
     restore_as_job \<lparr>br_id = uid, br_server = sid, br_uuid = backup, br_snapshot = [], br_adapter = rd_adapter r,
       br_truncate = rd_truncate r, br_url = rd_url r\<rparr>"
| "asked_job uid sid (Ask_Delete backup r) =
     delete_as_job \<lparr>bx_id = uid, bx_server = sid, bx_uuid = backup, bx_snapshot = dd_snapshot r,
       bx_adapter = dd_adapter r\<rparr>"

fun asked_backup :: "queued_request \<Rightarrow> string \<times> string" where
  "asked_backup (Ask_Create r) = (cd_uuid r, cd_adapter r)"
| "asked_backup (Ask_Restore backup r) = (backup, rd_adapter r)"
| "asked_backup (Ask_Delete backup r) = (backup, dd_adapter r)"

fun has_source :: "queued_request \<Rightarrow> bool" where
  "has_source (Ask_Restore _ r) \<longleftrightarrow> rd_adapter r \<noteq> ''s3'' \<or> rd_url r \<noteq> []"
| "has_source _ \<longleftrightarrow> True"

definition acceptable :: "string \<Rightarrow> queued_request \<Rightarrow> bool" where
  "acceptable sid q \<longleftrightarrow> sid \<noteq> [] \<and> fst (asked_backup q) \<noteq> [] \<and> known_adapter (snd (asked_backup q)) \<and> has_source q"

lemmas adapter_defs = known_adapter_def local_backup_adapter_def s3_backup_adapter_def rustic_local_adapter_def
  rustic_s3_adapter_def

lemma known_adapter_nonempty: "known_adapter a \<Longrightarrow> a \<noteq> []"
  by (auto simp: adapter_defs)

text \<open>The registered constructors, applied to the data the handlers make.\<close>

lemma setup_jobs_types:
  "jm_types (setup_jobs uid m) ''backup_create'' = Some (map_sum id create_as_job \<circ> new_backup_create uid)"
  "jm_types (setup_jobs uid m) ''backup_delete'' = Some (map_sum id delete_as_job \<circ> new_backup_delete uid)"
  "jm_types (setup_jobs uid m) ''backup_restore'' = Some (map_sum id restore_as_job \<circ> new_backup_restore uid)"
  by (simp_all add: setup_jobs_def register_job_type_def)

lemma setup_jobs_frame [simp]:
  "jm_queue (setup_jobs uid m) = jm_queue m" "jm_next (setup_jobs uid m) = jm_next m"
  "jm_store (setup_jobs uid m) = jm_store m" "jm_jobs (setup_jobs uid m) = jm_jobs m"
  by (simp_all add: setup_jobs_def register_job_type_def)

text \<open>What \<open>submit\<close> does, by what the constructor answers.\<close>

definition queued :: "job \<Rightarrow> job_manager \<Rightarrow> http_reply \<times> job_manager \<Rightarrow> bool" where
  "queued j m p \<longleftrightarrow>
     jm_queue (snd p) = jm_queue m @ [jm_next m] \<and> ji_job (jm_store (snd p) (jm_next m)) = j \<and>
     ji_status (jm_store (snd p) (jm_next m)) = StatusPending \<and> jm_jobs (snd p) (j_id j) = Some (jm_next m) \<and>
     (\<exists>r. fst p = HttpReply 202 r \<and> r ''job_id'' = Some (JStr (j_id j)))"

definition refused_request :: "job_manager \<Rightarrow> http_reply \<times> job_manager \<Rightarrow> bool" where
  "refused_request m p \<longleftrightarrow>
     jm_queue (snd p) = jm_queue m \<and> (fst p = NoReply \<or> (\<exists>s r. fst p = HttpReply s r \<and> s \<in> {400, 500}))"

lemma submit_refused:
  assumes "jm_types m ty = Some con" and "con dat = Inl e"
  shows "refused_request m (submit now ty dat f q m)"
  using assms by (simp add: submit_def create_job_def refused_request_def)

lemma submit_queued:
  assumes "jm_types m ty = Some con" and "con dat = Inr j" and "j_validate j = None"
  shows "if length (jm_queue m) < queue_capacity then queued j m (submit now ty dat f q m)
    else refused_request m (submit now ty dat f q m)"
  using assms by (simp add: submit_def create_job_def refused_request_def queued_def set_inst_def Let_def)

lemma submit_none: "refused_request m (NoReply, m)" "s \<in> {400, 500} \<Longrightarrow> refused_request m (HttpReply s r, m)"
  by (simp_all add: refused_request_def)

lemma submitted:
  assumes "jm_types m ty = Some con" and "con dat = (if ok then Inr j else Inl e)" and "ok \<Longrightarrow> j_validate j = None"
  shows "if ok \<and> length (jm_queue m) < queue_capacity then queued j m (submit now ty dat f q m)
    else refused_request m (submit now ty dat f q m)"
  using assms submit_refused [of m ty con dat e] submit_queued [of m ty con dat j] by (cases ok) auto

text \<open>
  C34: A request for a backup is accepted if and only if it names a server, a backup, one of the four adapters and,
  for a restoration from S3, an address, and the queue has room. Then the job that it describes is queued as the
  last one, pending and known by the identifier in the answer; otherwise nothing is queued and the answer is an
  error. So nothing of a request is lost or changed on its way through the untyped data of a job.
\<close>

theorem backup_request_outcome:
  "if acceptable sid q \<and> length (jm_queue m) < queue_capacity
   then queued (asked_job uid sid q) m (serve_backup now sid q (setup_jobs uid m))
   else refused_request m (serve_backup now sid q (setup_jobs uid m))"
proof -
  let ?m = "setup_jobs uid m"
  let ?ok = "sid \<noteq> [] \<and> fst (asked_backup q) \<noteq> []"
  let ?e = "if sid = [] then ''server_id is required'' else ''backup_uuid is required''"
  note con = new_backup_create_def new_backup_restore_def new_backup_delete_def get_string_def get_obj_def get_bool_def
  note val = create_as_job_def restore_as_job_def delete_as_job_def validate_create_def validate_restore_def
    validate_delete_def
  note steps = serve_backup.simps option.case if_False not_True_eq_False asked_backup.simps fst_conv snd_conv
  have frame: "queued j ?m p = queued j m p" "refused_request ?m p = refused_request m p" for j p
    by (simp_all add: queued_def refused_request_def)
  show ?thesis
  proof (cases "known_adapter (snd (asked_backup q)) \<and> has_source q")
    case False
    then show ?thesis
      by (cases q) (auto simp: acceptable_def post_server_backup_def post_server_restore_backup_def
          delete_server_backup_def s3_backup_adapter_def refused_request_def)
  next
    case known: True
    then have ne: "snd (asked_backup q) \<noteq> []" using known_adapter_nonempty by blast
    have "if ?ok \<and> length (jm_queue ?m) < queue_capacity then queued (asked_job uid sid q) ?m (serve_backup now sid q ?m)
      else refused_request ?m (serve_backup now sid q ?m)"
    proof (cases q)
      case (Ask_Create r)
      with known have "known_adapter (cd_adapter r)" "cd_adapter r \<noteq> []" using ne by simp_all
      then show ?thesis
        by (simp only: Ask_Create steps post_server_backup_def)
           (rule submitted [OF setup_jobs_types(1), where e = ?e]; simp add: con val)
    next
      case (Ask_Restore backup r)
      with known have "known_adapter (rd_adapter r)" "rd_adapter r \<noteq> []"
          "(rd_adapter r = s3_backup_adapter \<and> rd_url r = []) = False"
        using ne by (auto simp: s3_backup_adapter_def)
      then show ?thesis
        by (simp only: Ask_Restore steps post_server_restore_backup_def)
           (rule submitted [OF setup_jobs_types(3), where e = ?e]; simp add: con val)
    next
      case (Ask_Delete backup r)
      with known have "known_adapter (dd_adapter r)" "dd_adapter r \<noteq> []" using ne by simp_all
      then show ?thesis
        by (simp only: Ask_Delete steps delete_server_backup_def Let_def)
           (rule submitted [OF setup_jobs_types(2), where e = ?e]; simp add: con val)
    qed
    then show ?thesis using known unfolding frame acceptable_def setup_jobs_frame by argo
  qed
qed

text \<open>A request by hand: a restoration from S3 with its address, and one without.\<close>

definition idle_inst :: job_inst where
  "idle_inst =
     \<lparr>ji_job = asked_job [] [] (Ask_Delete [] \<lparr>dd_adapter = [], dd_snapshot = []\<rparr>), ji_status = StatusPending,
      ji_progress = 0, ji_message = [], ji_error = [], ji_result = None, ji_created = 0, ji_updated = 0\<rparr>"

theorem backup_request_outcome_witness:
  "let m = new_job_manager 1 (\<lambda>_. idle_inst);
       ask = (\<lambda>url. Ask_Restore ''b'' \<lparr>rd_adapter = ''s3'', rd_truncate = True, rd_url = url\<rparr>)
   in queued (asked_job ''j'' ''s'' (ask ''u'')) m (serve_backup 5 ''s'' (ask ''u'') (setup_jobs ''j'' m)) \<and>
      refused_request m (serve_backup 5 ''s'' (ask []) (setup_jobs ''j'' m))"
proof -
  let ?m = "new_job_manager 1 (\<lambda>_. idle_inst)"
  let ?ask = "\<lambda>url. Ask_Restore ''b'' \<lparr>rd_adapter = ''s3'', rd_truncate = True, rd_url = url\<rparr>"
  have "acceptable ''s'' (?ask ''u'')" "\<not> acceptable ''s'' (?ask [])" "length (jm_queue ?m) < queue_capacity"
    by (simp_all add: acceptable_def adapter_defs new_job_manager_def queue_capacity_def)
  then show ?thesis
    using backup_request_outcome [of "''s''" "?ask ''u''" ?m "''j''" 5]
      backup_request_outcome [of "''s''" "?ask []" ?m "''j''" 5] by (simp add: Let_def del: asked_job.simps serve_backup.simps)
qed

end
