(* ===== verification/Server_Requests.thy ===== *)
theory Server_Requests
  imports Server_Power Server_Manager Sink_Pool Tokens Downloads "HOL-Library.AList"
begin

text \<open>
  The handlers of \<open>src/router/router_server.go\<close> and \<open>router_system.go\<close> that act on servers, with the bag of open
  websockets (\<open>src/server/websockets.go\<close>) and what is stopped when a server is deleted (\<open>server.go\<close>). Work that a
  handler hands to a goroutine is a task; the tasks are run by functions of their own, later.
\<close>

section \<open>The open websockets of a server\<close>

text \<open>A connection is a number, which stands for the function that cancels it.\<close>

record websocket_bag =
  wb_conns :: "(string \<times> nat) list"
  wb_cancelled :: "nat list"

definition empty_bag :: websocket_bag where "empty_bag = \<lparr>wb_conns = [], wb_cancelled = []\<rparr>"

definition sockets_len :: "websocket_bag \<Rightarrow> nat" where "sockets_len b = List.length (wb_conns b)"

definition push_socket :: "string \<Rightarrow> nat \<Rightarrow> websocket_bag \<Rightarrow> websocket_bag" where
  "push_socket u c b = b\<lparr>wb_conns := AList.update u c (wb_conns b)\<rparr>"

definition remove_socket :: "string \<Rightarrow> websocket_bag \<Rightarrow> websocket_bag" where
  "remove_socket u b = b\<lparr>wb_conns := AList.delete u (wb_conns b)\<rparr>"

definition cancel_sockets :: "websocket_bag \<Rightarrow> websocket_bag" where
  "cancel_sockets b = b\<lparr>wb_conns := [], wb_cancelled := wb_cancelled b @ map snd (wb_conns b)\<rparr>"

section \<open>The node\<close>

record 'w node_server =
  ns_core :: "'w server"
  ns_stopped :: bool
  ns_bus :: "sinks \<times> string heap"
  ns_log_sink :: "sinks \<times> string heap"
  ns_install_sink :: "sinks \<times> string heap"
  ns_sockets :: websocket_bag
  ns_sftp :: ctx_bag

datatype task =
    Power_Task string string int
  | Install_Task string
  | Reinstall_Task string
  | Repositories_Task string
  | Files_Task string
  | Create_Task string bool

record 'w node =
  nd_servers :: "'w node_server managed list"
  nd_locks :: lock_table
  nd_denials :: denials
  nd_downloads :: downloader
  nd_tasks :: "task list"

text \<open>The operations of the environment that the handlers call besides those of \<open>env_ops\<close>.\<close>

record 'w srv_deps =
  sd_destroy :: "'w \<Rightarrow> gerr option \<times> 'w"
  sd_running :: "'w \<Rightarrow> (gerr + bool) \<times> 'w"
  sd_send :: "string \<Rightarrow> 'w \<Rightarrow> gerr option \<times> 'w"
  sd_read_log :: "int \<Rightarrow> 'w \<Rightarrow> (gerr + string list) \<times> 'w"

text \<open>
  \<open>Sr_Bound\<close> is a body that \<open>BindJSON\<close> has refused and answered itself, \<open>Sr_Captured\<close> an error recorded for
  the middleware. A panic of a handler is recovered by the middleware.
\<close>

datatype srv_answer =
  Sr_Status nat | Sr_Lines "string list" | Sr_Error nat string | Sr_Captured gerr | Sr_Bound | Sr_Panicked string

text \<open>A server is a pointer: of two with the same identifier the first is meant.\<close>

fun on_first :: "string \<Rightarrow> ('v \<Rightarrow> 'v) \<Rightarrow> 'v managed list \<Rightarrow> 'v managed list" where
  "on_first i f [] = []"
| "on_first i f (m # ms) = (if mg_id m = i then m\<lparr>mg_val := f (mg_val m)\<rparr> # ms else m # on_first i f ms)"

definition on_node_server :: "string \<Rightarrow> ('w node_server \<Rightarrow> 'w node_server) \<Rightarrow> 'w node \<Rightarrow> 'w node" where
  "on_node_server i f nd = nd\<lparr>nd_servers := on_first i f (nd_servers nd)\<rparr>"

definition map_core :: "('w server \<Rightarrow> 'w server) \<Rightarrow> 'w node_server \<Rightarrow> 'w node_server" where
  "map_core f s = s\<lparr>ns_core := f (ns_core s)\<rparr>"

definition start_task :: "task \<Rightarrow> 'w node \<Rightarrow> 'w node" where
  "start_task t nd = nd\<lparr>nd_tasks := nd_tasks nd @ [t]\<rparr>"

text \<open>The handlers take their server from the context of the request.\<close>

definition extracting :: "string \<Rightarrow> ('w node_server \<Rightarrow> 'w node \<Rightarrow> srv_answer \<times> 'w node) \<Rightarrow> 'w node \<Rightarrow> srv_answer \<times> 'w node" where
  "extracting i f nd =
     (case mgr_get i (nd_servers nd) of
        None \<Rightarrow> (Sr_Panicked ''middleware/middleware: cannot extract server from request'', nd)
      | Some m \<Rightarrow> f (mg_val m) nd)"

definition env_call :: "string \<Rightarrow> ('w \<Rightarrow> 'a \<times> 'w) \<Rightarrow> 'w node_server \<Rightarrow> 'w node \<Rightarrow> 'a \<times> 'w node" where
  "env_call i f s nd =
     (let p = f (sv_env (ns_core s)) in (fst p, on_node_server i (map_core (map_env (\<lambda>_. snd p))) nd))"

section \<open>Logs, power and commands\<close>

definition get_server_logs :: "'w srv_deps \<Rightarrow> string \<Rightarrow> int \<Rightarrow> 'w node \<Rightarrow> srv_answer \<times> 'w node" where
  "get_server_logs sd i l =
     extracting i (\<lambda>s nd.
       let n = (if l \<le> 0 then 100 else if 100 < l then 100 else l);
           p = env_call i (sd_read_log sd n) s nd
       in (case fst p of Inl e \<Rightarrow> Sr_Captured e | Inr out \<Rightarrow> Sr_Lines out, snd p))"

definition invalid_action :: string where
  "invalid_action = ''The power action provided was not valid, should be one of \"stop\", \"start\", \"restart\", \"kill\"''"

definition post_server_power :: "string \<Rightarrow> (string \<times> int) option \<Rightarrow> 'w node \<Rightarrow> srv_answer \<times> 'w node" where
  "post_server_power i body =
     extracting i (\<lambda>s nd.
       case body of
         None \<Rightarrow> (Sr_Bound, nd)
       | Some (action, wait) \<Rightarrow>
           if \<not> power_valid action then (Sr_Error 422 invalid_action, nd)
           else if power_is_start action \<and> sf_suspended (sv_cfg (ns_core s))
           then (Sr_Error 400 ''Cannot start or restart a server that is suspended.'', nd)
           else (Sr_Status 202, start_task (Power_Task i action wait) nd))"

text \<open>The goroutine of a power action. Errors are logged; a panic in it is not recovered and ends the daemon.\<close>

definition run_power_task ::
  "'w env_ops \<Rightarrow> 'w boot_deps \<Rightarrow> string \<Rightarrow> int \<Rightarrow> bool \<Rightarrow> ctx_error option option \<Rightarrow> 'w node_server
   \<Rightarrow> unit go \<times> 'w node_server" where
  "run_power_task ops d action wait pick ctx s =
     (let n = (if wait < 0 \<or> 300 < wait then 30 else wait);
          p = handle_power_action ops d action n pick ctx (ns_core s)
      in (case fst p of Ret _ \<Rightarrow> Ret () | Panic m \<Rightarrow> Panic m | Block \<Rightarrow> Block, s\<lparr>ns_core := snd p\<rparr>))"

fun send_commands :: "'w srv_deps \<Rightarrow> string list \<Rightarrow> 'w \<Rightarrow> 'w" where
  "send_commands sd [] w = w"
| "send_commands sd (c # cs) w = send_commands sd cs (snd (sd_send sd c w))"

definition post_server_commands :: "'w srv_deps \<Rightarrow> string \<Rightarrow> string list option \<Rightarrow> 'w node \<Rightarrow> srv_answer \<times> 'w node" where
  "post_server_commands sd i body =
     extracting i (\<lambda>s nd.
       let p = env_call i (sd_running sd) s nd
       in case fst p of
            Inl e \<Rightarrow> (Sr_Captured e, snd p)
          | Inr False \<Rightarrow> (Sr_Error 502 ''Cannot send commands to a stopped server instance.'', snd p)
          | Inr True \<Rightarrow>
              (case body of
                 None \<Rightarrow> (Sr_Bound, snd p)
               | Some cs \<Rightarrow> (Sr_Status 204, on_node_server i (map_core (map_env (send_commands sd cs))) (snd p))))"

section \<open>Syncing and installing\<close>

text \<open>
  Besides \<open>sync\<close>, which counts how often the connections of a suspended server were cut, the connections
  themselves are cut here.
\<close>

definition sync_node_server :: "'w boot_deps \<Rightarrow> 'w node_server \<Rightarrow> outcome \<times> 'w node_server" where
  "sync_node_server d s =
     (let p = sync d (ns_core s); s1 = s\<lparr>ns_core := snd p\<rparr>
      in (fst p, if fst p = Ret None \<and> sf_suspended (sv_cfg (snd p))
                 then s1\<lparr>ns_sockets := cancel_sockets (ns_sockets s1), ns_sftp := bag_cancel_all (ns_sftp s1)\<rparr> else s1))"

definition post_server_sync :: "'w boot_deps \<Rightarrow> string \<Rightarrow> 'w node \<Rightarrow> srv_answer \<times> 'w node" where
  "post_server_sync d i =
     extracting i (\<lambda>s nd.
       let p = sync_node_server d s; nd1 = on_node_server i (\<lambda>_. snd p) nd
       in case fst p of
            Ret None \<Rightarrow> (Sr_Status 204, nd1)
          | Ret (Some e) \<Rightarrow> (Sr_Captured e, nd1)
          | Panic m \<Rightarrow> (Sr_Panicked m, nd1)
          | Block \<Rightarrow> (Sr_Panicked [], nd1))"

definition post_server_install :: "string \<Rightarrow> 'w node \<Rightarrow> srv_answer \<times> 'w node" where
  "post_server_install i = extracting i (\<lambda>s nd. (Sr_Status 202, start_task (Install_Task i) nd))"

definition post_server_reinstall :: "string \<Rightarrow> 'w node \<Rightarrow> srv_answer \<times> 'w node" where
  "post_server_reinstall i =
     extracting i (\<lambda>s nd.
       if executing_power_action (ns_core s)
       then (Sr_Error 409 ''Cannot execute server reinstall event while another power action is running.'', nd)
       else (Sr_Status 202, start_task (Reinstall_Task i) nd))"

section \<open>Creating a server\<close>

text \<open>
  \<open>init\<close> is \<open>Manager.InitServer\<close> after the panel was asked for the configuration of the identifier; \<open>uuid4\<close> is
  the library's test. Whether the manager has a server of that identifier already is not asked.
\<close>

definition post_create_server ::
  "(string \<Rightarrow> bool) \<Rightarrow> (string \<Rightarrow> gerr + 'w node_server) \<Rightarrow> (string \<times> bool) option \<Rightarrow> 'w node \<Rightarrow> srv_answer \<times> 'w node" where
  "post_create_server uuid4 init body nd =
     (case body of
        None \<Rightarrow> (Sr_Bound, nd)
      | Some (u, start) \<Rightarrow>
          if \<not> uuid4 u then (Sr_Error 422 ''The data provided in the request could not be validated.'', nd)
          else (case init u of
                  Inl e \<Rightarrow> (Sr_Captured e, nd)
                | Inr s \<Rightarrow>
                    (Sr_Status 202,
                     start_task (Create_Task u start)
                       (nd\<lparr>nd_servers := mgr_add \<lparr>mg_id = u, mg_val = s\<rparr> (nd_servers nd)\<rparr>))))"

section \<open>Deleting a server\<close>

definition step_go :: "('s \<Rightarrow> 's go) \<Rightarrow> 's \<Rightarrow> unit go \<times> 's" where
  "step_go f s = (case f s of Ret s1 \<Rightarrow> (Ret (), s1) | Panic m \<Rightarrow> (Panic m, s) | Block \<Rightarrow> (Block, s))"

definition then_go :: "unit go \<times> 's \<Rightarrow> ('s \<Rightarrow> unit go \<times> 's) \<Rightarrow> unit go \<times> 's" where
  "then_go p f = (case fst p of Ret _ \<Rightarrow> f (snd p) | _ \<Rightarrow> p)"

definition cleanup_for_destroy :: "'w node_server \<Rightarrow> unit go \<times> 'w node_server" where
  "cleanup_for_destroy s =
     then_go (step_go (\<lambda>s. go_bind (pool_destroy (ns_bus s)) (\<lambda>b. Ret (s\<lparr>ns_bus := b\<rparr>)))
                (s\<lparr>ns_stopped := True, ns_sftp := (ns_sftp s)\<lparr>cb_parent_done := True\<rparr>\<rparr>))
      (\<lambda>s. then_go (step_go (\<lambda>s. go_bind (pool_destroy (ns_log_sink s)) (\<lambda>b. Ret (s\<lparr>ns_log_sink := b\<rparr>))) s)
      (\<lambda>s. then_go (step_go (\<lambda>s. go_bind (pool_destroy (ns_install_sink s)) (\<lambda>b. Ret (s\<lparr>ns_install_sink := b\<rparr>))) s)
      (\<lambda>s. step_go (\<lambda>s. go_bind (destroy_locker (sv_power_lock (ns_core s)))
                           (\<lambda>l. Ret (map_core (\<lambda>c. c\<lparr>sv_power_lock := l\<rparr>) s)))
             (s\<lparr>ns_sockets := cancel_sockets (ns_sockets s)\<rparr>))))"

definition announce_deletion :: "'w node_server \<Rightarrow> 'w node_server" where
  "announce_deletion =
     map_core (\<lambda>c. let c1 = c\<lparr>sv_cfg := (sv_cfg c)\<lparr>sf_suspended := True\<rparr>\<rparr>;
                       c2 = (if sv_transferring c1 then emit (SeTransferStatus ''completed'') c1 else c1)
                   in emit SeDeleted c2)"

fun cancel_downloads :: "download list \<Rightarrow> downloader \<Rightarrow> downloader" where
  "cancel_downloads [] r = r"
| "cancel_downloads (d # ds) r = cancel_downloads ds (cancel_download d r)"

definition delete_server :: "'w srv_deps \<Rightarrow> string \<Rightarrow> 'w node \<Rightarrow> srv_answer \<times> 'w node" where
  "delete_server sd i =
     extracting i (\<lambda>s nd.
       let p = cleanup_for_destroy (announce_deletion s); nd1 = on_node_server i (\<lambda>_. snd p) nd
       in case fst p of
            Panic m \<Rightarrow> (Sr_Panicked m, nd1)
          | Block \<Rightarrow> (Sr_Panicked [], nd1)
          | Ret _ \<Rightarrow>
              (let nd2 = nd1\<lparr>nd_downloads := cancel_downloads (by_server i (nd_downloads nd1)) (nd_downloads nd1)\<rparr>;
                   q = env_call i (sd_destroy sd) (snd p) nd2
               in case fst q of
                    Some e \<Rightarrow> (Sr_Captured e, snd q)
                  | None \<Rightarrow>
                      (let nd3 = start_task (Files_Task i) (start_task (Repositories_Task i) (snd q));
                           r = mgr_remove (\<lambda>m. mg_id m = i) (nd_servers nd3, nd_locks nd3)
                       in (Sr_Status 204, nd3\<lparr>nd_servers := fst r, nd_locks := snd r\<rparr>))))"

section \<open>Locking users out\<close>

fun deny_jtis :: "time \<Rightarrow> string list \<Rightarrow> denials \<Rightarrow> denials" where
  "deny_jtis now [] d = d"
| "deny_jtis now (j # js) d = deny_jtis now js (deny_jti now j d)"

definition post_server_deny_ws_tokens :: "time \<Rightarrow> string list option \<Rightarrow> 'w node \<Rightarrow> srv_answer \<times> 'w node" where
  "post_server_deny_ws_tokens now body nd =
     (case body of
        None \<Rightarrow> (Sr_Bound, nd)
      | Some js \<Rightarrow> (Sr_Status 204, nd\<lparr>nd_denials := deny_jtis now js (nd_denials nd)\<rparr>))"

definition disconnect :: "string \<Rightarrow> 'w node_server \<Rightarrow> 'w node_server" where
  "disconnect user s =
     s\<lparr>ns_sockets := cancel_sockets (ns_sockets s), ns_sftp := bag_cancel user (ns_sftp s)\<rparr>"

fun deauthorize_listed :: "time \<Rightarrow> string \<Rightarrow> string list \<Rightarrow> 'w node \<Rightarrow> 'w node" where
  "deauthorize_listed now user [] nd = nd"
| "deauthorize_listed now user (u # us) nd =
     deauthorize_listed now user us
       (case mgr_get u (nd_servers nd) of
          None \<Rightarrow> nd
        | Some m \<Rightarrow>
            (on_node_server u (disconnect user) nd)\<lparr>nd_denials := deny_for_server now (mg_id m) user (nd_denials nd)\<rparr>)"

fun deny_everywhere :: "time \<Rightarrow> string \<Rightarrow> 'v managed list \<Rightarrow> denials \<Rightarrow> denials" where
  "deny_everywhere now user [] d = d"
| "deny_everywhere now user (m # ms) d = deny_everywhere now user ms (deny_for_server now (mg_id m) user d)"

definition post_deauthorize_user :: "time \<Rightarrow> (string \<times> string list) option \<Rightarrow> 'w node \<Rightarrow> srv_answer \<times> 'w node" where
  "post_deauthorize_user now body nd =
     (case body of
        None \<Rightarrow> (Sr_Bound, nd)
      | Some (user, servers) \<Rightarrow>
          (Sr_Status 204,
           if servers \<noteq> [] then deauthorize_listed now user servers nd
           else nd\<lparr>nd_servers := map (\<lambda>m. m\<lparr>mg_val := disconnect user (mg_val m)\<rparr>) (nd_servers nd),
                   nd_denials := deny_everywhere now user (nd_servers nd) (nd_denials nd)\<rparr>))"

end
