(* ===== verification/Server_Requests_Laws.thy ===== *)
theory Server_Requests_Laws
  imports Server_Requests
begin

text \<open>
  What the handlers of \<open>Server_Requests\<close> bring about: a user whose rights end is locked out, and a server that is
  deleted is gone.
\<close>

section \<open>Changing one server\<close>

lemma on_first_id [simp]: "map mg_id (on_first i f ms) = map mg_id ms"
  by (induction ms) auto

lemma get_on_first:
  "mgr_get j (on_first i f ms) =
     (if j = i then map_option (\<lambda>m. m\<lparr>mg_val := f (mg_val m)\<rparr>) (mgr_get i ms) else mgr_get j ms)"
  by (induction ms) (auto simp: mgr_get_def)

lemma get_id: "mgr_get i ms = Some m \<Longrightarrow> mg_id m = i"
  by (induction ms) (auto simp: mgr_get_def split: if_splits)

lemma get_map: "mgr_get i (map (\<lambda>m. m\<lparr>mg_val := f (mg_val m)\<rparr>) ms) = map_option (\<lambda>m. m\<lparr>mg_val := f (mg_val m)\<rparr>) (mgr_get i ms)"
  by (induction ms) (auto simp: mgr_get_def)

section \<open>Cutting off a user\<close>

text \<open>Every websocket that was open has been cancelled, and the context of the user's SFTP connections.\<close>

definition cut_off :: "string \<Rightarrow> 'w node_server \<Rightarrow> 'w node_server \<Rightarrow> bool" where
  "cut_off user s s' \<longleftrightarrow>
     set (map snd (wb_conns (ns_sockets s))) \<subseteq> set (wb_cancelled (ns_sockets s')) \<and>
     wb_conns (ns_sockets s') = [] \<and>
     (\<forall>c. cb_items (ns_sftp s) user = Some c \<longrightarrow> ctx_done (ns_sftp s') c) \<and> cb_items (ns_sftp s') user = None"

lemma cut_off_disconnect: "cut_off user s (disconnect user s)"
  by (auto simp: cut_off_def disconnect_def cancel_sockets_def bag_cancel_def ctx_done_def split: option.splits)

lemma cut_off_again: "cut_off user s s' \<Longrightarrow> cut_off user s (disconnect user s')"
  by (auto simp: cut_off_def disconnect_def cancel_sockets_def bag_cancel_def split: option.splits)

lemma cut_off_times: "0 < n \<Longrightarrow> cut_off user s ((disconnect user ^^ n) s)"
proof (induction n)
  case (Suc n)
  then show ?case by (cases n) (simp_all add: cut_off_disconnect cut_off_again)
qed simp

lemma listed_servers:
  "\<exists>n. mgr_get u (nd_servers (deauthorize_listed now user us nd)) =
     map_option (\<lambda>m. m\<lparr>mg_val := (disconnect user ^^ n) (mg_val m)\<rparr>) (mgr_get u (nd_servers nd)) \<and>
     (u \<in> set us \<longrightarrow> 0 < n)"
proof (induction us arbitrary: nd)
  case Nil
  show ?case by (intro exI [of _ 0]) (cases "mgr_get u (nd_servers nd)"; simp)
next
  case (Cons v us)
  let ?nd = "case mgr_get v (nd_servers nd) of None \<Rightarrow> nd
    | Some m \<Rightarrow> (on_node_server v (disconnect user) nd)\<lparr>nd_denials := deny_for_server now (mg_id m) user (nd_denials nd)\<rparr>"
  obtain n where n: "mgr_get u (nd_servers (deauthorize_listed now user us ?nd)) =
      map_option (\<lambda>m. m\<lparr>mg_val := (disconnect user ^^ n) (mg_val m)\<rparr>) (mgr_get u (nd_servers ?nd))" "u \<in> set us \<longrightarrow> 0 < n"
    using Cons.IH [of ?nd] by blast
  show ?case
  proof (cases "mgr_get u (nd_servers nd)")
    case None
    then have "mgr_get u (nd_servers ?nd) = None"
      by (auto simp: on_node_server_def get_on_first split: option.splits)
    then show ?thesis using n None by (intro exI [of _ 1]) simp
  next
    case (Some m)
    show ?thesis
    proof (cases "u = v")
      case True
      then have "mgr_get u (nd_servers ?nd) = Some (m\<lparr>mg_val := disconnect user (mg_val m)\<rparr>)"
        using Some by (simp add: on_node_server_def get_on_first)
      then show ?thesis using n Some by (intro exI [of _ "Suc n"]) (simp add: funpow_swap1)
    next
      case False
      then have "mgr_get u (nd_servers ?nd) = Some m"
        using Some by (auto simp: on_node_server_def get_on_first split: option.splits)
      then show ?thesis using n Some False by (intro exI [of _ n]) simp
    qed
  qed
qed

section \<open>Denying\<close>

lemma deny_fold_user:
  "dn_user (fold (\<lambda>u. deny_for_server now u user) us d) k =
     (if \<exists>u \<in> set us. k = user_key u user then Some now else dn_user d k)"
  "dn_jti (fold (\<lambda>u. deny_for_server now u user) us d) = dn_jti d"
  "dn_boot (fold (\<lambda>u. deny_for_server now u user) us d) = dn_boot d"
  by (induction us arbitrary: d) (auto simp: deny_for_server_def)

lemma deny_everywhere_fold: "deny_everywhere now user ms d = fold (\<lambda>u. deny_for_server now u user) (map mg_id ms) d"
  by (induction ms arbitrary: d) simp_all

lemma listed_denials:
  "nd_denials (deauthorize_listed now user us nd) =
     fold (\<lambda>u. deny_for_server now u user) (filter (\<lambda>u. mgr_get u (nd_servers nd) \<noteq> None) us) (nd_denials nd)"
proof (induction us arbitrary: nd)
  case (Cons v us)
  have "(mgr_get u (on_first v (disconnect user) (nd_servers nd)) \<noteq> None) = (mgr_get u (nd_servers nd) \<noteq> None)" for u
    by (simp add: get_on_first)
  then show ?case by (simp add: Cons.IH on_node_server_def get_id split: option.split)
qed simp

text \<open>The servers that a request is about: those that are listed and known, or all.\<close>

definition meant :: "string list \<Rightarrow> 'w node \<Rightarrow> string list" where
  "meant servers nd =
     (if servers = [] then map mg_id (nd_servers nd) else filter (\<lambda>u. mgr_get u (nd_servers nd) \<noteq> None) servers)"

lemma deauthorize_denials:
  "nd_denials (snd (post_deauthorize_user now (Some (user, servers)) nd)) =
     fold (\<lambda>u. deny_for_server now u user) (meant servers nd) (nd_denials nd)"
  by (simp add: post_deauthorize_user_def meant_def listed_denials deny_everywhere_fold)

lemma deauthorize_servers:
  assumes "u \<in> set (meant servers nd)"
  shows "\<exists>m m'. mgr_get u (nd_servers nd) = Some m \<and>
    mgr_get u (nd_servers (snd (post_deauthorize_user now (Some (user, servers)) nd))) = Some m' \<and>
    cut_off user (mg_val m) (mg_val m')"
proof -
  obtain m where m: "mgr_get u (nd_servers nd) = Some m"
    using assms mgr_get_Some_iff [of u "nd_servers nd"] by (auto simp: meant_def split: if_splits)
  show ?thesis
  proof (cases "servers = []")
    case True
    then show ?thesis using m
      by (simp add: post_deauthorize_user_def get_map cut_off_disconnect)
  next
    case False
    then have "u \<in> set servers" using assms by (simp add: meant_def)
    then obtain n where "0 < n" "mgr_get u (nd_servers (deauthorize_listed now user servers nd)) =
        Some (m\<lparr>mg_val := (disconnect user ^^ n) (mg_val m)\<rparr>)"
      using listed_servers [of u now user servers nd] m by auto
    then show ?thesis using False m by (simp add: post_deauthorize_user_def cut_off_times)
  qed
qed

text \<open>
  C35: After the panel has taken a user's rights for some servers, or for all, each of these servers has cancelled
  every open websocket and the user's SFTP connections, and no token that the user was given before has any
  permission on it again, whatever is denied later; the tokens of other users are worth what they were.
\<close>

theorem deauthorized_locked_out:
  assumes "u \<in> set (meant servers nd)" and "wp_server p = u" and "wp_user p = user"
    and "wp_issued_at p = Some t" and "t < now" and "older now (nd_denials nd)"
    and "sorted (now # map denial_time es)" and "post_deauthorize_user now (Some (user, servers)) nd = (a, nd')"
  shows "a = Sr_Status 204 \<and> \<not> has_permission (fold deny es (nd_denials nd')) p permission \<and>
    (\<exists>m m'. mgr_get u (nd_servers nd) = Some m \<and> mgr_get u (nd_servers nd') = Some m' \<and>
       cut_off user (mg_val m) (mg_val m')) \<and>
    ((\<forall>s. user_key (wp_server q) (wp_user q) \<noteq> user_key s user) \<longrightarrow>
       has_permission (nd_denials nd') q permission = has_permission (nd_denials nd) q permission)"
proof -
  let ?d = "fold (\<lambda>u. deny_for_server now u user) (meant servers nd) (nd_denials nd)"
  have d: "nd_denials nd' = ?d" using deauthorize_denials [of now user servers nd] assms(8) by simp
  have "denylisted ?d p"
    using assms(1-5) by (auto simp: denylisted_def issued_before_def deny_fold_user)
  moreover have "older now ?d"
    using assms(6) by (auto simp: older_def deny_fold_user split: if_splits)
  ultimately have gone: "denylisted (fold deny es (nd_denials nd')) p"
    unfolding d using denylisted_denials assms(7) by blast
  have others: "has_permission (nd_denials nd') q permission = has_permission (nd_denials nd) q permission"
    if "\<forall>s. user_key (wp_server q) (wp_user q) \<noteq> user_key s user"
  proof -
    have "denylisted ?d q = denylisted (nd_denials nd) q"
      using that by (cases "wp_issued_at q") (simp_all add: denylisted_def deny_fold_user)
    then show ?thesis by (simp add: d has_permission_def permission_loop_iff)
  qed
  show ?thesis
    using gone others deauthorize_servers [OF assms(1), of now user] assms(8)
    by (auto simp: has_permission_def permission_loop_iff post_deauthorize_user_def)
qed

section \<open>Deleting\<close>












text \<open>A server that is there already is added a second time.\<close>

lemma created_again:
  assumes "uuid4 u" and "init u = Inr s"
  shows "mgr_keys (nd_servers (snd (post_create_server uuid4 init (Some (u, start)) nd))) = mgr_keys (nd_servers nd) @ [u]"
  using assms by (simp add: post_create_server_def start_task_def mgr_add_def mgr_keys_def)

section \<open>Examples\<close>

definition demo_node_server :: "unit node_server" where
  "demo_node_server =
     \<lparr>ns_core = \<lparr>sv_installing = False, sv_transferring = False, sv_restoring = False, sv_power_lock = new_locker,
        sv_cfg = \<lparr>sf_suspended = False, sf_crash_detection = True, sf_disk_mb = 0\<rparr>, sv_last_crash = None,
        sv_tracked = Offline,
        sv_usage = \<lparr>us_memory = 0, us_cpu = 0, us_uptime = 0, us_rx = 0, us_tx = 0\<rparr>,
        sv_sockets_cancelled = 0, sv_events = [], sv_env = ()\<rparr>,
      ns_stopped = False, ns_bus = (new_sink_pool, \<lambda>_. \<lparr>ch_buf = [], ch_cap = 1, ch_closed = False\<rparr>),
      ns_log_sink = (new_sink_pool, \<lambda>_. \<lparr>ch_buf = [], ch_cap = 1, ch_closed = False\<rparr>),
      ns_install_sink = (new_sink_pool, \<lambda>_. \<lparr>ch_buf = [], ch_cap = 1, ch_closed = False\<rparr>),
      ns_sockets = push_socket ''w'' 7 empty_bag, ns_sftp = new_context_bag False\<rparr>"

definition demo_node :: "unit node" where
  "demo_node =
     \<lparr>nd_servers = [\<lparr>mg_id = ''s'', mg_val = demo_node_server\<rparr>, \<lparr>mg_id = ''t'', mg_val = demo_node_server\<rparr>],
      nd_locks = empty_table, nd_denials = \<lparr>dn_boot = 0, dn_jti = (\<lambda>_. None), dn_user = (\<lambda>_. None)\<rparr>,
      nd_downloads = empty_downloader, nd_tasks = []\<rparr>"


lemma demo_get: "mgr_get ''s'' (nd_servers demo_node) = Some \<lparr>mg_id = ''s'', mg_val = demo_node_server\<rparr>"
  by (simp add: demo_node_def mgr_get_def)


theorem deauthorized_locked_out_witness:
  "let p = \<lparr>wp_issued_at = Some 5, wp_expires = None, wp_jti = ''j'', wp_scope = ''websocket'', wp_user = ''u'',
            wp_server = ''s'', wp_permissions = [''*'']\<rparr>;
       r = post_deauthorize_user 9 (Some (''u'', [''s''])) demo_node
   in fst r = Sr_Status 204 \<and> has_permission (nd_denials demo_node) p ''control.console'' \<and>
      \<not> has_permission (fold deny [DenyJti 10 ''k''] (nd_denials (snd r))) p ''control.console'' \<and>
      has_permission (nd_denials (snd r)) (p\<lparr>wp_user := ''v''\<rparr>) ''control.console''"
proof -
  let ?p = "\<lparr>wp_issued_at = Some 5, wp_expires = None, wp_jti = ''j'', wp_scope = ''websocket'', wp_user = ''u'',
            wp_server = ''s'', wp_permissions = [''*'']\<rparr>"
  let ?r = "post_deauthorize_user 9 (Some (''u'', [''s''])) demo_node"
  have before: "has_permission (nd_denials demo_node) ?p ''control.console''"
      "has_permission (nd_denials demo_node) (?p\<lparr>wp_user := ''v''\<rparr>) ''control.console''"
    by (simp_all add: has_permission_def permission_loop_iff denylisted_def demo_node_def issued_before_def has_prefix_def)
  have "\<forall>s. user_key ''s'' ''v'' \<noteq> user_key s ''u''"
  proof
    fix s
    have "last (user_key ''s'' ''v'') \<noteq> last (user_key s ''u'')" by (simp add: user_key_def)
    then show "user_key ''s'' ''v'' \<noteq> user_key s ''u''" by auto
  qed
  moreover have "''s'' \<in> set (meant [''s''] demo_node)" by (simp add: meant_def demo_get)
  moreover have "older 9 (nd_denials demo_node)" by (simp add: older_def demo_node_def)
  ultimately show ?thesis
    using deauthorized_locked_out [where u = "''s''" and servers = "[''s'']" and nd = demo_node and p = ?p
        and user = "''u''" and t = 5 and now = 9 and es = "[DenyJti 10 ''k'']" and a = "fst ?r" and nd' = "snd ?r"
        and permission = "''control.console''" and q = "?p\<lparr>wp_user := ''v''\<rparr>"] before
    by (simp add: Let_def)
qed



end
