(* ===== verification/Node_Config.thy ===== *)
theory Node_Config
  imports Utils
begin

text \<open>
  The configuration of the daemon, \<open>src/config/config.go\<close>: how it is loaded, replaced and written, what is made
  ready on the node before the servers are loaded, and its update by the panel (\<open>postUpdateConfiguration\<close> of
  \<open>src/router/router_system.go\<close>) and at the start (\<open>initConfig\<close> of \<open>src/cmd/root.go\<close>). YAML and JSON, the kernel,
  the user database and programs are functions; so is \<open>populateFromEnv\<close>, which goes through the struct by reflection.
\<close>

section \<open>State\<close>

text \<open>The settings that these functions use; \<open>nc_rest\<close> stands for the others.\<close>

record 'c node_cfg =
  nc_path :: string
  nc_token_id :: string
  nc_token :: string
  nc_auth_id :: string
  nc_auth_token :: string
  nc_panel :: string
  nc_debug :: bool
  nc_key_file :: string
  nc_cert_file :: string
  nc_ignore_updates :: bool
  nc_root :: string
  nc_log_dir :: string
  nc_data :: string
  nc_tmp :: string
  nc_archives :: string
  nc_backups :: string
  nc_username :: string
  nc_rootless :: bool
  nc_uid :: int
  nc_gid :: int
  nc_passwd :: bool
  nc_passwd_dir :: string
  nc_machine :: bool
  nc_machine_dir :: string
  nc_log_rotate :: bool
  nc_timezone :: string
  nc_openat_mode :: string
  nc_rest :: 'c

datatype file_fault = Not_Exist | Fault string

fun fault_text :: "file_fault \<Rightarrow> string" where
  "fault_text Not_Exist = ''file does not exist''"
| "fault_text (Fault e) = e"

datatype user_answer = User_Found string string string | User_Unknown | User_Failed string

text \<open>
  \<open>dc_populate\<close> is \<open>populateFromEnv\<close>; \<open>dc_link\<close> is \<open>filepath.EvalSymlinks\<close>; \<open>dc_run\<close> runs a program for its error and
  its output.
\<close>

record ('w, 'c) daemon_deps =
  dc_env :: "string \<Rightarrow> string"
  dc_defaults :: "string + 'c node_cfg"
  dc_yaml :: "string \<Rightarrow> 'c node_cfg \<Rightarrow> string + 'c node_cfg"
  dc_marshal :: "'c node_cfg \<Rightarrow> string + string"
  dc_populate :: "'c node_cfg \<Rightarrow> string + 'c node_cfg"
  dc_atoi :: "string \<Rightarrow> string + int"
  dc_read :: "string \<Rightarrow> 'w \<Rightarrow> (file_fault + string) \<times> 'w"
  dc_store :: "string \<Rightarrow> string \<Rightarrow> 'w \<Rightarrow> string option \<times> 'w"
  dc_mkdir :: "string \<Rightarrow> 'w \<Rightarrow> string option \<times> 'w"
  dc_stat :: "string \<Rightarrow> 'w \<Rightarrow> file_fault + bool"
  dc_link :: "string \<Rightarrow> 'w \<Rightarrow> file_fault + string"
  dc_run :: "string list \<Rightarrow> 'w \<Rightarrow> (string + string) \<times> 'w"
  dc_current :: "'w \<Rightarrow> string + (string \<times> string \<times> string)"
  dc_lookup :: "string \<Rightarrow> 'w \<Rightarrow> user_answer"
  dc_release :: "'w \<Rightarrow> string + string"
  dc_location :: "string \<Rightarrow> string option"
  dc_openat2 :: "'w \<Rightarrow> bool"

text \<open>
  The variables of the package, with the key that tokens are signed with, and the record of what was made,
  written and run.
\<close>

datatype node_call = Made string nat | Wrote string string nat | Ran "string list"

record ('w, 'c) daemon =
  dm_config :: "'c node_cfg option"
  dm_jwt :: "string option"
  dm_flag :: bool
  dm_openat2 :: "bool option"
  dm_calls :: "node_call list"
  dm_world :: 'w

type_synonym ('w, 'c, 'a) dio = "('w, 'c) daemon \<Rightarrow> (string + 'a) go \<times> ('w, 'c) daemon"

definition dret :: "'a \<Rightarrow> ('w, 'c, 'a) dio" where "dret x s = (Ret (Inr x), s)"
definition dfail :: "string \<Rightarrow> ('w, 'c, 'a) dio" where "dfail e s = (Ret (Inl e), s)"

definition dbind :: "('w, 'c, 'a) dio \<Rightarrow> ('a \<Rightarrow> ('w, 'c, 'b) dio) \<Rightarrow> ('w, 'c, 'b) dio" where
  "dbind m f s =
     (case m s of
        (Ret (Inr x), s1) \<Rightarrow> f x s1
      | (Ret (Inl e), s1) \<Rightarrow> (Ret (Inl e), s1)
      | (Panic p, s1) \<Rightarrow> (Panic p, s1)
      | (Block, s1) \<Rightarrow> (Block, s1))"

definition dthen :: "('w, 'c, unit) dio \<Rightarrow> ('w, 'c, 'a) dio \<Rightarrow> ('w, 'c, 'a) dio" where
  "dthen m f = dbind m (\<lambda>_. f)"

definition dlook :: "('w \<Rightarrow> 'a) \<Rightarrow> ('w, 'c, 'a) dio" where
  "dlook f s = (Ret (Inr (f (dm_world s))), s)"

definition ddo :: "node_call \<Rightarrow> ('w \<Rightarrow> 'a \<times> 'w) \<Rightarrow> ('w, 'c, 'a) dio" where
  "ddo c f s = (let p = f (dm_world s) in (Ret (Inr (fst p)), s\<lparr>dm_calls := dm_calls s @ [c], dm_world := snd p\<rparr>))"

definition dask :: "('w \<Rightarrow> 'a \<times> 'w) \<Rightarrow> ('w, 'c, 'a) dio" where
  "dask f s = (let p = f (dm_world s) in (Ret (Inr (fst p)), s\<lparr>dm_world := snd p\<rparr>))"

definition dcheck :: "string option \<Rightarrow> ('w, 'c, unit) dio" where
  "dcheck e = (case e of None \<Rightarrow> dret () | Some x \<Rightarrow> dfail x)"

definition dsum :: "string + 'a \<Rightarrow> ('w, 'c, 'a) dio" where
  "dsum r = (case r of Inl e \<Rightarrow> dfail e | Inr x \<Rightarrow> dret x)"

definition dmust :: "('w, 'c) daemon_deps \<Rightarrow> string \<Rightarrow> ('w, 'c, int) dio" where
  "dmust d v s = (case must_int (dc_atoi d) v of Ret i \<Rightarrow> (Ret (Inr i), s) | Panic p \<Rightarrow> (Panic p, s) | Block \<Rightarrow> (Block, s))"

text \<open>The configuration is read through a pointer.\<close>

definition dconfig :: "('w, 'c, 'c node_cfg) dio" where
  "dconfig s =
     (case dm_config s of
        None \<Rightarrow> (Panic ''runtime error: invalid memory address or nil pointer dereference'', s)
      | Some c \<Rightarrow> (Ret (Inr c), s))"

definition dmodify :: "('c node_cfg \<Rightarrow> 'c node_cfg) \<Rightarrow> ('w, 'c, unit) dio" where
  "dmodify f = dbind dconfig (\<lambda>c s. (Ret (Inr ()), s\<lparr>dm_config := Some (f c)\<rparr>))"

definition dmkdir :: "('w, 'c) daemon_deps \<Rightarrow> string \<Rightarrow> nat \<Rightarrow> ('w, 'c, unit) dio" where
  "dmkdir d p mode = dbind (ddo (Made p mode) (dc_mkdir d p)) dcheck"

section \<open>Holding the configuration\<close>

definition new_at_path :: "('w, 'c) daemon_deps \<Rightarrow> string \<Rightarrow> string + 'c node_cfg" where
  "new_at_path d p = (case dc_defaults d of Inl e \<Rightarrow> Inl e | Inr c \<Rightarrow> Inr (c\<lparr>nc_path := p\<rparr>))"

text \<open>\<open>Set\<close>: a new key is made when the token changes.\<close>

definition resolve_token :: "'c node_cfg \<Rightarrow> 'c node_cfg" where
  "resolve_token c = (if nc_token c = [] then c\<lparr>nc_token := nc_auth_token c\<rparr> else c)"

definition set_config :: "'c node_cfg \<Rightarrow> ('w, 'c, unit) dio" where
  "set_config c s =
     (let c1 = resolve_token c;
          same = (case dm_config s of None \<Rightarrow> False | Some old \<Rightarrow> nc_token old = nc_token c1)
      in (Ret (Inr ()), s\<lparr>dm_config := Some c1, dm_jwt := (if same then dm_jwt s else Some (nc_token c1))\<rparr>))"

definition set_debug_via_flag :: "bool \<Rightarrow> ('w, 'c, unit) dio" where
  "set_debug_via_flag b =
     dthen (dmodify (\<lambda>c. c\<lparr>nc_debug := b\<rparr>)) (\<lambda>s. (Ret (Inr ()), s\<lparr>dm_flag := b\<rparr>))"

definition update_config :: "('c node_cfg \<Rightarrow> 'c node_cfg) \<Rightarrow> ('w, 'c, unit) dio" where
  "update_config f = dmodify f"

definition write_to_disk :: "('w, 'c) daemon_deps \<Rightarrow> 'c node_cfg \<Rightarrow> ('w, 'c, unit) dio" where
  "write_to_disk d c s =
     (let copy = (if dm_flag s then c\<lparr>nc_debug := False\<rparr> else c)
      in if nc_path c = [] then dfail ''cannot write configuration, no path defined in struct'' s
         else dbind (dsum (dc_marshal d copy))
                (\<lambda>b. dbind (ddo (Wrote (nc_path c) b 384) (dc_store d (nc_path c) b)) dcheck) s)"

section \<open>Tokens from the environment and from files\<close>

text \<open>\<open>os.ExpandEnv\<close>: the name after a dollar sign and how much of the text it takes.\<close>

definition special_var :: "char \<Rightarrow> bool" where
  "special_var c \<longleftrightarrow> c \<in> set ''*#$@!?-0123456789''"

definition alpha_num :: "char \<Rightarrow> bool" where
  "alpha_num c \<longleftrightarrow> c = CHR ''_'' \<or>
     (let n = of_char c :: nat in (48 \<le> n \<and> n \<le> 57) \<or> (97 \<le> n \<and> n \<le> 122) \<or> (65 \<le> n \<and> n \<le> 90))"

definition shell_name :: "string \<Rightarrow> string \<times> nat" where
  "shell_name s =
     (if hd s = CHR ''{'' then
        (if 2 < length s \<and> special_var (s ! 1) \<and> s ! 2 = CHR ''}'' then ([s ! 1], 3)
         else (let name = takeWhile (\<lambda>c. c \<noteq> CHR ''}'') (tl s)
               in if CHR ''}'' \<notin> set (tl s) then ([], 1)
                  else if name = [] then ([], 2) else (name, length name + 2)))
      else if special_var (hd s) then ([hd s], 1)
      else (let name = takeWhile alpha_num s in (name, length name)))"

function expand_env :: "(string \<Rightarrow> string) \<Rightarrow> string \<Rightarrow> string" where
  "expand_env env [] = []"
| "expand_env env (c # cs) =
     (if c = CHR ''$'' \<and> cs \<noteq> [] then
        (let (name, w) = shell_name cs
         in (if name = [] \<and> 0 < w then [] else if name = [] then [c] else env name) @ expand_env env (drop w cs))
      else c # expand_env env cs)"
  by pat_completeness auto
termination by (relation "measure (length \<circ> snd)") auto

definition trim_right :: "char \<Rightarrow> string \<Rightarrow> string" where
  "trim_right c s = rev (dropWhile (\<lambda>x. x = c) (rev s))"

text \<open>A file that cannot be read gives no text, and no error.\<close>

definition expand_value :: "('w, 'c) daemon_deps \<Rightarrow> string \<Rightarrow> ('w, 'c, string) dio" where
  "expand_value d v =
     (let v1 = expand_env (dc_env d) v
      in if \<not> has_prefix v1 ''file://'' then dret v1
         else dbind (dask (dc_read d (drop 7 v1)))
                (\<lambda>r. case r of
                       Inl _ \<Rightarrow> dret []
                     | Inr b \<Rightarrow> dret (trim_right (CHR 0x0A) (trim_right (CHR 0x0D) b))))"

definition tokens_of :: "('w, 'c) daemon_deps \<Rightarrow> 'c node_cfg \<Rightarrow> 'c node_cfg" where
  "tokens_of d c =
     c\<lparr>nc_token_id := (if dc_env d ''ELYTRA_TOKEN_ID'' = [] then nc_auth_id c else dc_env d ''ELYTRA_TOKEN_ID''),
       nc_token := (if dc_env d ''ELYTRA_TOKEN'' = [] then nc_auth_token c else dc_env d ''ELYTRA_TOKEN'')\<rparr>"

definition dread :: "('w, 'c) daemon_deps \<Rightarrow> string \<Rightarrow> ('w, 'c, string) dio" where
  "dread d p = dbind (dask (dc_read d p)) (\<lambda>r. case r of Inl e \<Rightarrow> dfail (fault_text e) | Inr b \<Rightarrow> dret b)"

definition from_file :: "('w, 'c) daemon_deps \<Rightarrow> string \<Rightarrow> ('w, 'c, unit) dio" where
  "from_file d p =
     dbind (dread d p) (\<lambda>b.
     dbind (dsum (new_at_path d p)) (\<lambda>c0.
     dbind (dsum (dc_yaml d b c0)) (\<lambda>c1.
       let c2 = tokens_of d c1
       in dbind (expand_value d (nc_token_id c2)) (\<lambda>i.
          dbind (expand_value d (nc_token c2)) (\<lambda>t.
            set_config (c2\<lparr>nc_token_id := i, nc_token := t\<rparr>))))))"

definition expand_some :: "('w, 'c) daemon_deps \<Rightarrow> string \<Rightarrow> ('w, 'c, string) dio" where
  "expand_some d v = (if v = [] then dret v else expand_value d v)"

definition from_env :: "('w, 'c) daemon_deps \<Rightarrow> ('w, 'c, unit) dio" where
  "from_env d =
     dbind (dsum (new_at_path d [])) (\<lambda>c0.
     dbind (dsum (dc_populate d c0)) (\<lambda>c1.
       let c2 = tokens_of d c1
       in dbind (expand_some d (nc_token_id c2)) (\<lambda>i.
          dbind (expand_some d (nc_token c2)) (\<lambda>t.
            set_config (c2\<lparr>nc_token_id := i, nc_token := t\<rparr>)))))"

definition missing_settings :: "'c node_cfg \<Rightarrow> string list" where
  "missing_settings c =
     (if nc_panel c = [] then [''ELYTRA_PANEL_LOCATION''] else []) @
     (if nc_token_id c = [] then [''ELYTRA_TOKEN_ID''] else []) @
     (if nc_token c = [] then [''ELYTRA_TOKEN''] else [])"

definition validate_required :: "'c node_cfg \<Rightarrow> bool" where
  "validate_required c \<longleftrightarrow> missing_settings c = []"

section \<open>The start\<close>

text \<open>
  \<open>initConfig\<close>: \<open>Fatalf\<close> ends the program, here as an error. \<open>Get\<close> gives a copy of the configuration, so what
  \<open>MergeEnv\<close> makes of it is dropped.
\<close>

definition init_config :: "('w, 'c) daemon_deps \<Rightarrow> string \<Rightarrow> bool \<Rightarrow> ('w, 'c, unit) dio" where
  "init_config d path debug s0 =
     (let loaded = (case dc_read d path (dm_world s0) of
                      (Inl Not_Exist, _) \<Rightarrow> dbind (dask (\<lambda>w. ((), snd (dc_read d path w)))) (\<lambda>_. from_env d) s0
                    | _ \<Rightarrow> from_file d path s0)
      in dbind (\<lambda>_. loaded)
           (\<lambda>_. dbind dconfig (\<lambda>c.
             dthen (if validate_required c then dret ()
                    else dbind (dsum (dc_populate d c)) (\<lambda>merged.
                           dbind dconfig (\<lambda>c. if validate_required c then dret () else dfail ''configuration validation failed'')))
               (dbind dconfig (\<lambda>c. if debug \<and> \<not> nc_debug c then set_debug_via_flag debug else dret ())))) s0)"

subsection \<open>Directories\<close>

definition follow_data_link :: "('w, 'c) daemon_deps \<Rightarrow> ('w, 'c, unit) dio" where
  "follow_data_link d =
     dbind dconfig (\<lambda>c. dbind (dlook (dc_link d (nc_data c))) (\<lambda>r.
       case r of
         Inl Not_Exist \<Rightarrow> dret ()
       | Inl (Fault e) \<Rightarrow> dfail e
       | Inr p \<Rightarrow> if p \<noteq> nc_data c then dmodify (\<lambda>c. c\<lparr>nc_data := p\<rparr>) else dret ()))"

definition configure_directories :: "('w, 'c) daemon_deps \<Rightarrow> ('w, 'c, unit) dio" where
  "configure_directories d =
     dbind dconfig (\<lambda>c. dthen (dmkdir d (nc_root c) 448)
     (dthen (follow_data_link d)
     (dbind dconfig (\<lambda>c. dthen (dmkdir d (nc_data c) 448)
     (dthen (dmkdir d (nc_tmp c) 448)
     (dthen (dmkdir d (nc_archives c) 448)
     (dthen (dmkdir d (nc_backups c) 448)
     (dthen (if nc_passwd c then dmkdir d (nc_passwd_dir c) 493 else dret ())
            (if nc_machine c then dmkdir d (nc_machine_dir c) 493 else dret ())))))))))"

subsection \<open>The user of the containers\<close>

definition default_user_id :: int where "default_user_id = 8888"

definition default_ids :: "'c node_cfg \<Rightarrow> 'c node_cfg" where
  "default_ids c =
     (let c1 = (if nc_uid c = 0 then c\<lparr>nc_uid := default_user_id\<rparr> else c)
      in if nc_gid c1 = 0 then c1\<lparr>nc_gid := default_user_id\<rparr> else c1)"

definition take_ids :: "('w, 'c) daemon_deps \<Rightarrow> string \<Rightarrow> string \<Rightarrow> ('w, 'c, unit) dio" where
  "take_ids d uid gid =
     dbind (dmust d uid) (\<lambda>u. dthen (dmodify (\<lambda>c. c\<lparr>nc_uid := u\<rparr>))
     (dbind (dmust d gid) (\<lambda>g. dthen (dmodify (\<lambda>c. c\<lparr>nc_gid := g\<rparr>)) (dmodify default_ids))))"

definition drun :: "('w, 'c) daemon_deps \<Rightarrow> string list \<Rightarrow> ('w, 'c, unit) dio" where
  "drun d args = dbind (ddo (Ran args) (dc_run d args)) (\<lambda>r. case r of Inl e \<Rightarrow> dfail e | Inr _ \<Rightarrow> dret ())"

definition add_group :: "bool \<Rightarrow> 'c node_cfg \<Rightarrow> string list" where
  "add_group alpine c =
     (if alpine then [''addgroup'', ''-S'', ''-g'', itoa (nc_gid c), nc_username c]
      else [''groupadd'', ''--system'', ''--gid'', itoa (nc_gid c), nc_username c])"

text \<open>The command is put together as a text and split at its blanks.\<close>

definition add_user :: "bool \<Rightarrow> 'c node_cfg \<Rightarrow> string list" where
  "add_user alpine c =
     split_char (CHR '' '')
       (if alpine
        then ''adduser -S -D -H -G '' @ nc_username c @ '' -u '' @ itoa (nc_uid c) @ '' -s /sbin/nologin '' @ nc_username c
        else ''useradd --system --no-create-home --shell /usr/sbin/nologin --uid '' @ itoa (nc_uid c) @ '' --gid '' @
               nc_username c @ '' '' @ nc_username c)"

definition make_user :: "('w, 'c) daemon_deps \<Rightarrow> string \<Rightarrow> ('w, 'c, unit) dio" where
  "make_user d release =
     (let alpine = has_prefix release ''alpine''
      in dthen (dmodify default_ids)
         (dbind dconfig (\<lambda>c. dthen (drun d (add_group alpine c))
         (dbind dconfig (\<lambda>c. dthen (drun d (add_user alpine c))
         (dbind (dlook (dc_lookup d (nc_username c))) (\<lambda>u.
            case u of
              User_Found name uid gid \<Rightarrow> take_ids d uid gid
            | User_Unknown \<Rightarrow> dfail (''user: unknown user '' @ nc_username c)
            | User_Failed e \<Rightarrow> dfail e)))))))"

definition ensure_pterodactyl_user :: "('w, 'c) daemon_deps \<Rightarrow> ('w, 'c, unit) dio" where
  "ensure_pterodactyl_user d =
     dbind (dlook (dc_release d)) (\<lambda>r. dbind (dsum r) (\<lambda>release.
       if release = ''distroless''
       then dthen (dmodify (\<lambda>c. c\<lparr>nc_username := first_not_empty [dc_env d ''ELYTRA_USERNAME'', ''pyrodactyl'']\<rparr>))
              (take_ids d (first_not_empty [dc_env d ''ELYTRA_UID'', ''8888'']) (first_not_empty [dc_env d ''ELYTRA_GID'', ''8888'']))
       else dbind dconfig (\<lambda>c.
              if nc_rootless c
              then dbind (dlook (dc_current d)) (\<lambda>u. dbind (dsum u) (\<lambda>(name, uid, gid).
                     dthen (dmodify (\<lambda>c. c\<lparr>nc_username := name\<rparr>)) (take_ids d uid gid)))
              else dbind (dlook (dc_lookup d (nc_username c))) (\<lambda>u.
                     case u of
                       User_Failed e \<Rightarrow> dfail e
                     | User_Found name uid gid \<Rightarrow> take_ids d uid gid
                     | User_Unknown \<Rightarrow> make_user d release))))"

subsection \<open>Files for the containers, log rotation\<close>

definition newline :: string where "newline = [CHR 0x0A]"

definition group_file :: "'c node_cfg \<Rightarrow> string" where
  "group_file c = ''root:x:0:'' @ newline @ ''container:x:'' @ itoa (nc_gid c) @ '':'' @ newline @ ''nogroup:x:65534:''"

definition passwd_file :: "'c node_cfg \<Rightarrow> string" where
  "passwd_file c =
     ''root:x:0:0::/root:/bin/sh'' @ newline @ ''container:x:'' @ itoa (nc_uid c) @ '':'' @ itoa (nc_gid c) @
     ''::/home/container:/bin/sh'' @ newline @ ''nobody:x:65534:65534::/var/empty:/bin/sh'' @ newline"

definition dwrite :: "('w, 'c) daemon_deps \<Rightarrow> string \<Rightarrow> string \<Rightarrow> nat \<Rightarrow> string \<Rightarrow> ('w, 'c, unit) dio" where
  "dwrite d p b mode msg =
     dbind (ddo (Wrote p b mode) (dc_store d p b)) (\<lambda>e. case e of None \<Rightarrow> dret () | Some x \<Rightarrow> dfail (msg @ x))"

definition configure_passwd :: "('w, 'c) daemon_deps \<Rightarrow> ('w, 'c, unit) dio" where
  "configure_passwd d =
     dbind dconfig (\<lambda>c.
       if \<not> nc_passwd c then dret ()
       else dthen (dwrite d (path_join [nc_passwd_dir c, ''group'']) (group_file c) 420
                    (''failed to write file to '' @ nc_passwd_dir c @ ''/group: ''))
                  (dwrite d (path_join [nc_passwd_dir c, ''passwd'']) (passwd_file c) 420
                    (''failed to write file to '' @ nc_passwd_dir c @ ''/passwd: '')))"

definition rotation_file :: "'c node_cfg \<Rightarrow> string" where
  "rotation_file c =
     nc_log_dir c @ ''/elytra.log {'' @ newline @ ''    size 10M'' @ newline @ ''    compress'' @ newline @ ''    delaycompress'' @ newline @
     ''    dateext'' @ newline @ ''    maxage 7'' @ newline @ ''    missingok'' @ newline @ ''    notifempty'' @ newline @
     ''    postrotate'' @ newline @
     ''        /usr/bin/systemctl kill -s HUP elytra.service >/dev/null 2>&1 || true'' @ newline @ ''    endscript'' @ newline @ ''}''"

definition enable_log_rotation :: "('w, 'c) daemon_deps \<Rightarrow> ('w, 'c, unit) dio" where
  "enable_log_rotation d =
     dbind dconfig (\<lambda>c.
       if \<not> nc_log_rotate c then dret ()
       else dbind (dlook (dc_stat d ''/etc/logrotate.d'')) (\<lambda>r.
              case r of
                Inl (Fault e) \<Rightarrow> dfail e
              | Inl Not_Exist \<Rightarrow> dret ()
              | Inr False \<Rightarrow> dret ()
              | Inr True \<Rightarrow>
                  dbind (dlook (dc_stat d ''/etc/logrotate.d/elytra'')) (\<lambda>q.
                    case q of
                      Inl (Fault e) \<Rightarrow> dfail e
                    | Inr _ \<Rightarrow> dret ()
                    | Inl Not_Exist \<Rightarrow> dwrite d ''/etc/logrotate.d/elytra'' (rotation_file c) 438 [])))"

definition get_states_path :: "'c node_cfg \<Rightarrow> string" where
  "get_states_path c = path_join [nc_root c, ''/states.json'']"

subsection \<open>The time zone\<close>

definition zone_char :: "char \<Rightarrow> bool" where
  "zone_char c \<longleftrightarrow> c = CHR ''_'' \<or> c = CHR ''/'' \<or>
     (let n = of_char c :: nat in (97 \<le> n \<and> n \<le> 122) \<or> (65 \<le> n \<and> n \<le> 90))"

text \<open>The first match of \<open>Time zone: ([\w/]+)\<close>.\<close>

fun find_zone :: "string \<Rightarrow> string option" where
  "find_zone [] = None"
| "find_zone (c # cs) =
     (let name = takeWhile (\<lambda>c. alpha_num c \<or> c = CHR ''/'') (drop 11 (c # cs))
      in if has_prefix (c # cs) ''Time zone: '' \<and> name \<noteq> [] then Some name else find_zone cs)"

text \<open>All that is no letter, underscore or slash is taken out of the name, for names in ASCII.\<close>

definition clean_zone :: "string \<Rightarrow> string" where
  "clean_zone = filter zone_char"

definition check_zone :: "('w, 'c) daemon_deps \<Rightarrow> ('w, 'c, unit) dio" where
  "check_zone d =
     dthen (dmodify (\<lambda>c. c\<lparr>nc_timezone := clean_zone (nc_timezone c)\<rparr>))
       (dbind dconfig (\<lambda>c.
          case dc_location d (nc_timezone c) of
            None \<Rightarrow> dret ()
          | Some e \<Rightarrow> dfail (''the supplied timezone '' @ nc_timezone c @ '' is invalid: '' @ e)))"

definition set_zone :: "string \<Rightarrow> ('w, 'c, unit) dio" where
  "set_zone z = dmodify (\<lambda>c. c\<lparr>nc_timezone := z\<rparr>)"

text \<open>Without the file, \<open>timedatectl\<close> is asked; without an answer the zone stays \<open>UTC\<close>.\<close>

definition detect_zone :: "('w, 'c) daemon_deps \<Rightarrow> ('w, 'c, unit) dio" where
  "detect_zone d =
     dthen (set_zone ''UTC'') (dbind (ddo (Ran [''timedatectl'']) (dc_run d [''timedatectl''])) (\<lambda>q.
       case q of
         Inl _ \<Rightarrow> dret ()
       | Inr out \<Rightarrow>
           (case find_zone out of None \<Rightarrow> dret () | Some z \<Rightarrow> dthen (set_zone z) (check_zone d))))"

definition read_zone :: "('w, 'c) daemon_deps \<Rightarrow> ('w, 'c, unit) dio" where
  "read_zone d =
     dbind (dask (dc_read d ''/etc/timezone'')) (\<lambda>r.
       case r of
         Inl (Fault e) \<Rightarrow> dfail (''config: failed to open timezone file: '' @ e)
       | Inl Not_Exist \<Rightarrow> detect_zone d
       | Inr b \<Rightarrow> dthen (set_zone b) (check_zone d))"

definition configure_timezone :: "('w, 'c) daemon_deps \<Rightarrow> ('w, 'c, unit) dio" where
  "configure_timezone d =
     dbind dconfig (\<lambda>c. dthen (if nc_timezone c = [] \<and> dc_env d ''TZ'' \<noteq> [] then set_zone (dc_env d ''TZ'') else dret ())
     (dbind dconfig (\<lambda>c. if nc_timezone c = [] then read_zone d else check_zone d)))"

text \<open>What \<open>rootCmdRun\<close> makes ready before it looks for rustic and connects to the panel.\<close>

definition prepare_node :: "('w, 'c) daemon_deps \<Rightarrow> ('w, 'c, unit) dio" where
  "prepare_node d =
     dthen (configure_timezone d) (dthen (configure_directories d) (dthen (ensure_pterodactyl_user d)
       (dthen (configure_passwd d) (enable_log_rotation d))))"

subsection \<open>The way files are opened\<close>

definition use_openat2 :: "('w, 'c) daemon_deps \<Rightarrow> ('w, 'c, bool) dio" where
  "use_openat2 d s =
     (case dm_openat2 s of
        Some b \<Rightarrow> (Ret (Inr b), s)
      | None \<Rightarrow>
          dbind dconfig (\<lambda>c s.
            let b = (if nc_openat_mode c = ''openat2'' then True
                     else if nc_openat_mode c = ''openat'' then False
                     else dc_openat2 d (dm_world s))
            in (Ret (Inr b), s\<lparr>dm_openat2 := Some b\<rparr>)) s)"

section \<open>Updates by the panel\<close>

datatype update_answer = Up_Applied bool | Up_Bound | Up_Captured string

text \<open>\<open>bind\<close> reads the body of the request into the copy of the configuration.\<close>

definition keep_certificates :: "'c node_cfg \<Rightarrow> 'c node_cfg \<Rightarrow> 'c node_cfg" where
  "keep_certificates old new =
     (if has_prefix (nc_key_file new) ''/etc/letsencrypt/live/''
      then new\<lparr>nc_key_file := nc_key_file old, nc_cert_file := nc_cert_file old\<rparr> else new)"

definition post_update_configuration ::
  "('w, 'c) daemon_deps \<Rightarrow> ('c node_cfg \<Rightarrow> 'c node_cfg option) \<Rightarrow> ('w, 'c, update_answer) dio" where
  "post_update_configuration d bind =
     dbind dconfig (\<lambda>c.
       if nc_ignore_updates c then dret (Up_Applied False)
       else (case bind c of
               None \<Rightarrow> dret Up_Bound
             | Some new \<Rightarrow>
                 dbind dconfig (\<lambda>old s.
                   let cfg = keep_certificates old new
                   in case write_to_disk d cfg s of
                        (Ret (Inl e), s1) \<Rightarrow> (Ret (Inr (Up_Captured e)), s1)
                      | (Ret (Inr _), s1) \<Rightarrow> dbind (set_config cfg) (\<lambda>_. dret (Up_Applied True)) s1
                      | (Panic p, s1) \<Rightarrow> (Panic p, s1)
                      | (Block, s1) \<Rightarrow> (Block, s1))))"

end
