(* ===== verification/Node_Config_Laws.thy ===== *)
theory Node_Config_Laws
  imports Node_Config
begin

text \<open>
  What holds of the configuration: what is ready when the start goes on, how an update ends, and that the key of the
  tokens is always that of the running configuration.
\<close>

section \<open>Steps that succeed\<close>

lemma dbind_ok_iff:
  "dbind m f s = (Ret (Inr y), s') \<longleftrightarrow> (\<exists>x s1. m s = (Ret (Inr x), s1) \<and> f x s1 = (Ret (Inr y), s'))"
  by (auto simp: dbind_def split: prod.splits go.splits sum.splits)


lemma step_ok_iff [simp]:
  "dret x s = (Ret (Inr y), s') \<longleftrightarrow> x = y \<and> s' = s"
  "\<not> dfail e s = (Ret (Inr y), s')"
  "dlook g s = (Ret (Inr z), s') \<longleftrightarrow> z = g (dm_world s) \<and> s' = s"
  "dcheck e' s = (Ret (Inr u), s') \<longleftrightarrow> e' = None \<and> s' = s"
  "dsum r s = (Ret (Inr y), s') \<longleftrightarrow> r = Inr y \<and> s' = s"
  "dconfig s = (Ret (Inr c), s') \<longleftrightarrow> dm_config s = Some c \<and> s' = s"
  by (auto simp: dret_def dfail_def dlook_def dcheck_def dsum_def dconfig_def split: option.splits sum.splits)

lemma dmodify_ok_iff [simp]:
  "dmodify f s = (Ret (Inr u), s') \<longleftrightarrow> (\<exists>c. dm_config s = Some c \<and> s' = s\<lparr>dm_config := Some (f c)\<rparr>)"
  by (auto simp: dmodify_def dbind_ok_iff)

lemma call_ok_iff:
  "ddo k g s = (Ret (Inr x), s') \<longleftrightarrow>
     x = fst (g (dm_world s)) \<and> s' = s\<lparr>dm_calls := dm_calls s @ [k], dm_world := snd (g (dm_world s))\<rparr>"
  "dask g s = (Ret (Inr x), s') \<longleftrightarrow> x = fst (g (dm_world s)) \<and> s' = s\<lparr>dm_world := snd (g (dm_world s))\<rparr>"
  by (auto simp: ddo_def dask_def Let_def)







section \<open>The start\<close>

subsection \<open>The time zone\<close>









subsection \<open>Directories\<close>





subsection \<open>The user\<close>













subsection \<open>All of it\<close>




section \<open>Updates\<close>


lemma write_to_disk_kept:
  "dm_config (snd (write_to_disk d c s)) = dm_config s \<and> dm_jwt (snd (write_to_disk d c s)) = dm_jwt s"
  by (auto simp: write_to_disk_def Let_def dbind_def dsum_def ddo_def dcheck_def dret_def dfail_def
      split: sum.split option.split)

text \<open>An update that gets past its checks is a write, and a change of the configuration if that succeeds.\<close>

lemma update_run:
  assumes "dm_config s = Some c" and "post_update_configuration d bind s = (Ret (Inr a), s')"
  shows "nc_ignore_updates c \<and> a = Up_Applied False \<and> s' = s \<or> bind c = None \<and> a = Up_Bound \<and> s' = s \<or>
    \<not> nc_ignore_updates c \<and>
    (\<exists>new r s1. bind c = Some new \<and> write_to_disk d (keep_certificates c new) s = (Ret r, s1) \<and>
       (case r of
          Inl e \<Rightarrow> a = Up_Captured e \<and> s' = s1
        | Inr _ \<Rightarrow> a = Up_Applied True \<and> s' = snd (set_config (keep_certificates c new) s1)))"
proof (cases "nc_ignore_updates c \<or> bind c = None")
  case True
  then show ?thesis using assms by (cases "nc_ignore_updates c") (auto simp: post_update_configuration_def dbind_ok_iff)
next
  case False
  then obtain new where new: "bind c = Some new" by auto
  obtain w s1 where w: "write_to_disk d (keep_certificates c new) s = (w, s1)" by fastforce
  have run: "(case w of
          Ret (Inl e) \<Rightarrow> (Ret (Inr (Up_Captured e)), s1)
        | Ret (Inr _) \<Rightarrow> dbind (set_config (keep_certificates c new)) (\<lambda>_. dret (Up_Applied True)) s1
        | Panic p \<Rightarrow> (Panic p, s1)
        | Block \<Rightarrow> (Block, s1)) = (Ret (Inr a), s')"
    using assms False new w by (auto simp: post_update_configuration_def dbind_ok_iff Let_def)
  obtain r where r: "w = Ret r" using run by (cases w) auto
  show ?thesis using run new w False
    by (cases r) (auto simp: r dbind_def set_config_def dret_def Let_def)
qed


text \<open>
  The token in use is not among what the panel can set: if the body leaves it alone, which its tag says, the node
  goes on with the old token, whatever token was written to the disk.
\<close>

lemma update_keeps_token:
  assumes "dm_config s = Some c" and "post_update_configuration d bind s = (Ret (Inr a), s')"
    and "\<And>new. bind c = Some new \<Longrightarrow> nc_token new = nc_token c" and "nc_token c \<noteq> []"
  shows "map_option nc_token (dm_config s') = Some (nc_token c)"
proof -
  have "dm_config s1 = Some c" if "write_to_disk d x s = (w, s1)" for x w s1
    using write_to_disk_kept [of d x s] that assms(1) by simp
  moreover have "nc_token (resolve_token (keep_certificates c new)) = nc_token c" if "bind c = Some new" for new
    using assms(3) [OF that] assms(4) by (simp add: resolve_token_def keep_certificates_def)
  ultimately show ?thesis
    using update_run [OF assms(1,2)] assms(1) by (elim disjE exE conjE) (fastforce simp: set_config_def Let_def split: sum.splits)+
qed

section \<open>The key of the tokens\<close>

definition key_ok :: "('w, 'c) daemon \<Rightarrow> bool" where
  "key_ok s \<longleftrightarrow> (case dm_config s of None \<Rightarrow> True | Some c \<Rightarrow> dm_jwt s = Some (nc_token c))"

definition keeps_key :: "('w, 'c, 'a) dio \<Rightarrow> bool" where
  "keeps_key m \<longleftrightarrow> (\<forall>s. key_ok s \<longrightarrow> key_ok (snd (m s)))"

named_theorems key_intros

lemma keeps_keyD: "keeps_key m \<Longrightarrow> key_ok s \<Longrightarrow> key_ok (snd (m s))"
  by (simp add: keeps_key_def)

lemma key_bind [key_intros]: "keeps_key m \<Longrightarrow> (\<And>x. keeps_key (f x)) \<Longrightarrow> keeps_key (dbind m f)"
  by (fastforce simp: keeps_key_def dbind_def split: prod.split go.split sum.split)

lemma key_then [key_intros]: "keeps_key m \<Longrightarrow> keeps_key f \<Longrightarrow> keeps_key (dthen m f)"
  by (simp add: dthen_def key_bind)

lemma key_steps [key_intros]:
  "keeps_key (dret x)" "keeps_key (dfail e)" "keeps_key (dlook g)" "keeps_key (dcheck e')" "keeps_key (dsum r)"
  "keeps_key dconfig" "keeps_key (ddo k h)" "keeps_key (dask h)" "keeps_key (dmust d v)"
  by (auto simp: keeps_key_def key_ok_def dret_def dfail_def dlook_def dcheck_def dsum_def dconfig_def ddo_def dask_def
      dmust_def Let_def split: option.split sum.split go.split)

lemma key_modify [key_intros]: "(\<And>c. nc_token (f c) = nc_token c) \<Longrightarrow> keeps_key (dmodify f)"
  by (auto simp: keeps_key_def key_ok_def dmodify_def dbind_def dconfig_def split: option.split)

lemma key_set [key_intros]: "keeps_key (set_config c)"
  by (auto simp: keeps_key_def key_ok_def set_config_def Let_def split: option.splits)

lemma key_cases [key_intros]:
  "keeps_key m \<Longrightarrow> keeps_key n \<Longrightarrow> keeps_key (if b then m else n)"
  "(\<And>e. keeps_key (f e)) \<Longrightarrow> (\<And>x. keeps_key (g x)) \<Longrightarrow> keeps_key (case r of Inl e \<Rightarrow> f e | Inr x \<Rightarrow> g x)"
  "keeps_key n \<Longrightarrow> (\<And>x. keeps_key (g x)) \<Longrightarrow> keeps_key (case q of None \<Rightarrow> n | Some x \<Rightarrow> g x)"
  "keeps_key n \<Longrightarrow> (\<And>x. keeps_key (h x)) \<Longrightarrow> keeps_key (case e of Not_Exist \<Rightarrow> n | Fault x \<Rightarrow> h x)"
  "(\<And>x y z. keeps_key (k x y z)) \<Longrightarrow> keeps_key n \<Longrightarrow> (\<And>x. keeps_key (h x)) \<Longrightarrow>
     keeps_key (case u of User_Found x y z \<Rightarrow> k x y z | User_Unknown \<Rightarrow> n | User_Failed x \<Rightarrow> h x)"
  "keeps_key m \<Longrightarrow> keeps_key n \<Longrightarrow> keeps_key (case b of True \<Rightarrow> m | False \<Rightarrow> n)"
  "(\<And>x y. keeps_key (l x y)) \<Longrightarrow> keeps_key (case p of (x, y) \<Rightarrow> l x y)"
  by (cases b; cases r; cases q; cases e; cases u; cases p; simp)+

lemma key_flag: "keeps_key (set_debug_via_flag b)"
proof -
  have "keeps_key (\<lambda>s. (Ret (Inr ()), s\<lparr>dm_flag := b\<rparr>))" by (simp add: keeps_key_def key_ok_def split: option.split)
  then show ?thesis unfolding set_debug_via_flag_def by (intro key_intros) simp_all
qed

lemma key_expand [key_intros]: "keeps_key (expand_value d v)" "keeps_key (expand_some d v)"
  unfolding expand_some_def expand_value_def Let_def by (intro key_intros)+

lemma key_loading:
  "keeps_key (from_file d p)" "keeps_key (from_env d)"
  unfolding from_file_def from_env_def dread_def Let_def by (intro key_intros)+

lemma key_zone [key_intros]: "keeps_key (check_zone d)" "keeps_key (set_zone z)"
  unfolding check_zone_def set_zone_def by (intro key_intros; simp)+

lemma key_timezone: "keeps_key (configure_timezone d)"
  unfolding configure_timezone_def read_zone_def detect_zone_def by (intro key_intros)

lemma key_directories: "keeps_key (configure_directories d)"
  unfolding configure_directories_def follow_data_link_def dmkdir_def by (intro key_intros) simp

lemma key_user: "keeps_key (ensure_pterodactyl_user d)"
  unfolding ensure_pterodactyl_user_def make_user_def take_ids_def drun_def Let_def
  by (intro key_intros) (simp_all add: default_ids_def Let_def)

lemma key_files: "keeps_key (configure_passwd d)" "keeps_key (enable_log_rotation d)"
  unfolding configure_passwd_def enable_log_rotation_def dwrite_def by (intro key_intros)+

lemma key_init: "keeps_key (init_config d p b)"
proof -
  let ?loaded = "\<lambda>s0. case dc_read d p (dm_world s0) of
      (Inl Not_Exist, _) \<Rightarrow> dbind (dask (\<lambda>w. ((), snd (dc_read d p w)))) (\<lambda>_. from_env d) s0
    | _ \<Rightarrow> from_file d p s0"
  let ?rest = "dbind dconfig (\<lambda>c.
      dthen (if validate_required c then dret ()
             else dbind (dsum (dc_populate d c)) (\<lambda>merged.
                    dbind dconfig (\<lambda>c. if validate_required c then dret () else dfail ''configuration validation failed'')))
        (dbind dconfig (\<lambda>c. if b \<and> \<not> nc_debug c then set_debug_via_flag b else dret ())))"
  have "keeps_key (dbind (dask (\<lambda>w. ((), snd (dc_read d p w)))) (\<lambda>_. from_env d))"
    by (intro key_intros key_loading)
  then have l: "keeps_key ?loaded"
    using key_loading(1) [of d p] by (auto simp: keeps_key_def split: prod.split sum.split file_fault.split)
  have r: "keeps_key ?rest" by (intro key_intros key_flag)
  have "init_config d p b s = dbind ?loaded (\<lambda>_. ?rest) s" for s
    by (simp add: init_config_def Let_def dbind_def)
  then show ?thesis using key_bind [OF l r] by (simp add: keeps_key_def)
qed

lemma key_written:
  assumes "key_ok s"
  shows "key_ok (snd (case write_to_disk d cfg s of
      (Ret (Inl e), s1) \<Rightarrow> (Ret (Inr (Up_Captured e)), s1)
    | (Ret (Inr _), s1) \<Rightarrow> dbind (set_config cfg) (\<lambda>_. dret (Up_Applied True)) s1
    | (Panic p, s1) \<Rightarrow> (Panic p, s1)
    | (Block, s1) \<Rightarrow> (Block, s1)))"
proof -
  obtain w s1 where w: "write_to_disk d cfg s = (w, s1)" by fastforce
  have k: "key_ok s1" using write_to_disk_kept [of d cfg s] w assms by (cases "dm_config s") (simp_all add: key_ok_def)
  have "key_ok (snd (dbind (set_config cfg) (\<lambda>_. dret (Up_Applied True)) s1))"
    by (rule keeps_keyD [OF _ k]) (intro key_intros)
  then show ?thesis using k by (simp add: w split: go.split sum.split)
qed

lemma key_update: "keeps_key (post_update_configuration d bind)"
  unfolding post_update_configuration_def Let_def
  by (intro key_intros) (simp add: keeps_key_def key_written)

text \<open>Whatever is done with the configuration from the start on, tokens are checked with the token in use.\<close>

inductive config_reach :: "('w, 'c) daemon_deps \<Rightarrow> ('w, 'c) daemon \<Rightarrow> bool" for d where
  cr_start: "dm_config s = None \<Longrightarrow> config_reach d s"
| cr_init: "config_reach d s \<Longrightarrow> config_reach d (snd (init_config d p b s))"
| cr_prepare: "config_reach d s \<Longrightarrow> config_reach d (snd (prepare_node d s))"
| cr_change: "config_reach d s \<Longrightarrow> (\<And>c. nc_token (f c) = nc_token c) \<Longrightarrow> config_reach d (snd (update_config f s))"
| cr_update: "config_reach d s \<Longrightarrow> config_reach d (snd (post_update_configuration d bind s))"
| cr_openat: "config_reach d s \<Longrightarrow> config_reach d (snd (use_openat2 d s))"

lemma key_prepare: "keeps_key (prepare_node d)"
  unfolding prepare_node_def by (intro key_intros key_timezone key_directories key_user key_files)

lemma key_openat: "keeps_key (use_openat2 d)"
  by (auto simp: keeps_key_def key_ok_def use_openat2_def dbind_def dconfig_def Let_def split: option.split)

theorem key_follows_token:
  assumes "config_reach d s" and "dm_config s = Some c"
  shows "dm_jwt s = Some (nc_token c)"
proof -
  have "key_ok s" using assms(1)
  proof (induction rule: config_reach.induct)
    case (cr_start s)
    then show ?case by (simp add: key_ok_def)
  next
    case (cr_init s p b)
    then show ?case using keeps_keyD [OF key_init] by blast
  next
    case (cr_prepare s)
    then show ?case using keeps_keyD [OF key_prepare] by blast
  next
    case (cr_change s f)
    then show ?case using keeps_keyD [OF key_modify] unfolding update_config_def by blast
  next
    case (cr_update s bind)
    then show ?case using keeps_keyD [OF key_update] by blast
  next
    case (cr_openat s)
    then show ?case using keeps_keyD [OF key_openat] by blast
  qed
  then show ?thesis using assms(2) by (simp add: key_ok_def)
qed

section \<open>What is lost on the way\<close>

text \<open>If the file that a token refers to cannot be read, the reference itself becomes the token of the node.\<close>

lemma unreadable_token_file:
  assumes "from_file d p s = (Ret (Inr u), s')" and "dc_env d ''ELYTRA_TOKEN'' = []"
    and "\<And>b c0 c1. dc_yaml d b c0 = Inr c1 \<Longrightarrow> nc_auth_token c1 = v"
    and "has_prefix (expand_env (dc_env d) v) ''file://''"
    and "\<And>w. isl (fst (dc_read d (drop 7 (expand_env (dc_env d) v)) w))"
  shows "map_option nc_token (dm_config s') = Some v"
proof -
  have none: "t = []" if "expand_value d v x = (Ret (Inr t), y)" for t x y
    using that assms(4,5) by (auto simp: expand_value_def Let_def dbind_ok_iff call_ok_iff split: sum.splits) (metis isl_def sum.disc(2))
  obtain c1 i t a b where c1: "nc_auth_token c1 = v" and t: "expand_value d (nc_token (tokens_of d c1)) a = (Ret (Inr t), b)"
    and f: "set_config ((tokens_of d c1)\<lparr>nc_token_id := i, nc_token := t\<rparr>) b = (Ret (Inr u), s')"
    using assms(1,3) unfolding from_file_def Let_def dbind_ok_iff step_ok_iff by blast
  have "nc_token (tokens_of d c1) = v" using c1 assms(2) by (simp add: tokens_of_def)
  then have "t = []" using none t by metis
  then show ?thesis using f c1 by (auto simp: set_config_def resolve_token_def tokens_of_def Let_def)
qed

text \<open>A configuration file that lacks a setting is refused, whatever the environment has.\<close>

lemma merge_is_lost:
  assumes "from_file d p s = (Ret (Inr u), s1)" and "dm_config s1 = Some c" and "\<not> validate_required c"
    and "fst (dc_read d p (dm_world s)) \<noteq> Inl Not_Exist"
  shows "\<exists>e. fst (init_config d p b s) = Ret (Inl e)"
proof -
  have "(case dc_read d p (dm_world s) of
      (Inl Not_Exist, _) \<Rightarrow> dbind (dask (\<lambda>w. ((), snd (dc_read d p w)))) (\<lambda>_. from_env d) s
    | _ \<Rightarrow> from_file d p s) = (Ret (Inr u), s1)"
    using assms(1,4) by (auto split: prod.split sum.split file_fault.split)
  then show ?thesis
    using assms(2,3) by (simp add: init_config_def Let_def dbind_def dthen_def dconfig_def dsum_def dfail_def dret_def
        split: sum.split)
qed

text \<open>Names of zones with a digit, a sign or a hyphen do not come through, and of a line's end only one half goes.\<close>

lemma zones_damaged:
  "clean_zone ''America/Port-au-Prince'' = ''America/PortauPrince''" "clean_zone ''Etc/GMT+5'' = ''Etc/GMT''"
  by (simp_all add: clean_zone_def zone_char_def)

lemma return_kept:
  "trim_right (CHR 0x0A) (trim_right (CHR 0x0D) [CHR ''t'', CHR 0x0D, CHR 0x0A]) = [CHR ''t'', CHR 0x0D]"
  by (simp add: trim_right_def)

section \<open>Examples\<close>







end
