(* ===== verification/Docker_Power.thy ===== *)
theory Docker_Power
  imports Docker_Env
begin

text \<open>
  Starting, stopping and killing the container (\<open>src/environment/docker/power.go\<close>), the sequences of
  state events that these operations publish, and the interpretation of the environment's contract.
\<close>

section \<open>The operations\<close>

definition on_before_start ::
  "'d docker_client \<Rightarrow> docker_settings \<Rightarrow> string list \<Rightarrow> 'd docker_env action" where
  "on_before_start dc cfg keys e =
     (case call (dc_remove dc True False) e of
        (Some err, e1) \<Rightarrow>
          (if \<not> is_not_found err
           then (Ret (Some (ErrWrap ''environment/docker: failed to remove container during pre-boot'' err)), e1)
           else docker_create dc cfg keys e1)
      | (None, e1) \<Rightarrow> docker_create dc cfg keys e1)"

text \<open>
  The part of \<open>Start\<close> after \<open>sawError = true\<close>, and the deferred call that runs unless it reached
  its end: on an error and on a panic alike.
\<close>

definition start_body ::
  "'d docker_client \<Rightarrow> docker_settings \<Rightarrow> string list \<Rightarrow> 'd docker_env action" where
  "start_body dc cfg keys e =
     seq (wrapping ''environment/docker: failed to run pre-boot process'' (on_before_start dc cfg keys e))
       (\<lambda>e1. seq (wrapping ''environment/docker: failed to attach to container'' (attach dc e1))
         (\<lambda>e2. wrapping ''environment/docker: failed to start container'' (call_err (dc_start dc) e2)))"

definition start_cleanup :: "outcome \<times> 'd docker_env \<Rightarrow> outcome \<times> 'd docker_env" where
  "start_cleanup p =
     (if fst p = Ret None then p else (fst p, set_state Offline (set_state Stopping (snd p))))"

definition start_boot ::
  "'d docker_client \<Rightarrow> docker_settings \<Rightarrow> string list \<Rightarrow> 'd docker_env action" where
  "start_boot dc cfg keys e = start_cleanup (start_body dc cfg keys (set_state Starting e))"

definition start ::
  "'d docker_client \<Rightarrow> docker_settings \<Rightarrow> string list \<Rightarrow> 'd docker_env action" where
  "start dc cfg keys e =
     (case call (dc_inspect dc) e of
        (Inl err, e1) \<Rightarrow>
          (if \<not> is_not_found err
           then (Ret (Some (ErrWrap ''environment/docker: failed to inspect container'' err)), e1)
           else start_boot dc cfg keys e1)
      | (Inr c, e1) \<Rightarrow>
          (if cs_running c then attach dc (set_state Running e1)
           else
             (case call (dc_log_exists dc (cs_log_path c)) e1 of
                (False, e2) \<Rightarrow> start_boot dc cfg keys e2
              | (True, e2) \<Rightarrow>
                  (case call (dc_log_truncate dc (cs_log_path c)) e2 of
                     (Some err, e3) \<Rightarrow>
                       (Ret (Some (ErrWrap ''environment/docker: failed to truncate instance logs'' err)), e3)
                   | (None, e3) \<Rightarrow> start_boot dc cfg keys e3))))"

definition signal_container :: "'d docker_client \<Rightarrow> string \<Rightarrow> 'd docker_env action" where
  "signal_container dc sig e =
     (case call (dc_inspect dc) e of
        (Inl err, e1) \<Rightarrow> (if is_not_found err then (Ret None, e1) else (Ret (Some err), e1))
      | (Inr c, e1) \<Rightarrow>
          (if \<not> cs_running c then
             (Ret None, if de_state e1 \<noteq> Offline then set_state Offline (set_state Stopping e1) else e1)
           else
             (case call (dc_kill dc sig) (set_state Stopping e1) of
                (Some err, e2) \<Rightarrow> (if \<not> is_not_found err then (Ret (Some err), e2) else (Ret None, e2))
              | (None, e2) \<Rightarrow> (Ret None, e2))))"

definition terminate :: "'d docker_client \<Rightarrow> string \<Rightarrow> 'd docker_env action" where
  "terminate dc sig e =
     seq (signal_container dc sig e) (\<lambda>e1. (Ret None, set_state Offline e1))"

definition stop_signal :: "string \<Rightarrow> string" where
  "stop_signal v =
     (let u = to_upper v in
      if u = ''SIGABRT'' then ''SIGABRT''
      else if u = ''SIGINT'' \<or> u = ''C'' then ''SIGINT''
      else if u = ''SIGTERM'' then ''SIGTERM''
      else ''SIGKILL'')"

definition docker_stop :: "'d docker_client \<Rightarrow> 'd docker_env action" where
  "docker_stop dc e =
     (let ty = de_stop_type e; val = de_stop_value e;
          e1 = (if de_state e \<noteq> Offline then set_state Stopping e else e)
      in if ty = ''signal'' then signal_container dc (stop_signal val) e1
         else if is_attached e1 \<and> ty = ''command'' then send_command dc val e1
         else
           (case call (dc_stop dc (-1)) e1 of
              (None, e2) \<Rightarrow> (Ret None, e2)
            | (Some err, e2) \<Rightarrow>
                if is_not_found err then (Ret None, set_state Offline (set_stream False e2))
                else (Ret (Some (ErrWrap ''environment/docker: cannot stop container'' err)), e2)))"

text \<open>
  The two contexts of \<open>WaitForStop\<close>, the timed one of the stop and the wait, the caller's one of the
  termination, differ in the errors that \<open>dc_stop\<close>, \<open>dc_kill\<close> and \<open>dc_wait\<close> can return.
\<close>

definition wait_for_stop :: "'d docker_client \<Rightarrow> duration \<Rightarrow> bool \<Rightarrow> 'd docker_env action" where
  "wait_for_stop dc dur terminating e =
     (let p = docker_stop dc e in
      case fst p of
        Ret (Some err) \<Rightarrow>
          (if terminating \<and> is_deadline err then terminate dc ''SIGKILL'' (snd p) else p)
      | Ret None \<Rightarrow>
          (let q = call (dc_wait dc) (snd p) in
           case fst q of
             WaitParentDone err \<Rightarrow>
               (if terminating then terminate dc ''SIGKILL'' (snd q) else (Ret (Some err), snd q))
           | WaitErr None \<Rightarrow> (Ret None, snd q)
           | WaitErr (Some err) \<Rightarrow>
               if is_not_found err then (Ret None, snd q)
               else if terminating then terminate dc ''SIGKILL'' (snd q)
               else (Ret (Some (ErrWrap ''environment/docker: error waiting on container to enter \"not-running\" state'' err)), snd q)
           | WaitOk \<Rightarrow> (Ret None, snd q))
      | _ \<Rightarrow> p)"

section \<open>State events\<close>

text \<open>The states published so far, and those that an operation publishes between \<open>e\<close> and \<open>e'\<close>.\<close>

fun states_of :: "env_event list \<Rightarrow> proc_state list" where
  "states_of [] = []"
| "states_of (EvState s # vs) = s # states_of vs"
| "states_of (EvPullStarted # vs) = states_of vs"
| "states_of (EvPullStatus t # vs) = states_of vs"
| "states_of (EvPullCompleted # vs) = states_of vs"

lemma states_of_append [simp]: "states_of (xs @ ys) = states_of xs @ states_of ys"
  by (induction xs rule: states_of.induct) simp_all

definition trace :: "'d docker_env \<Rightarrow> proc_state list" where
  "trace e = states_of (de_events e)"

definition emits :: "'d docker_env \<Rightarrow> 'd docker_env \<Rightarrow> proc_state list \<Rightarrow> bool" where
  "emits e e' ts \<longleftrightarrow> trace e' = trace e @ ts \<and> de_state e' = last (de_state e # ts)"

text \<open>An operation that publishes no step which the server takes for a crash.\<close>

definition quiet :: "'d docker_env \<Rightarrow> 'd docker_env \<Rightarrow> bool" where
  "quiet e e' \<longleftrightarrow> (\<exists>ts. emits e e' ts \<and> crash_free (de_state e) ts)"

lemma quietI: "trace e' = trace e @ ts \<Longrightarrow> de_state e' = last (de_state e # ts) \<Longrightarrow>
    crash_free (de_state e) ts \<Longrightarrow> quiet e e'"
  by (auto simp: quiet_def emits_def)

lemma quiet_trans:
  assumes "quiet e e1" and "quiet e1 e2"
  shows "quiet e e2"
proof -
  obtain ts us where "trace e1 = trace e @ ts" "de_state e1 = last (de_state e # ts)" "crash_free (de_state e) ts"
    and "trace e2 = trace e1 @ us" "de_state e2 = last (de_state e1 # us)" "crash_free (de_state e1) us"
    using assms by (auto simp: quiet_def emits_def)
  then show ?thesis
    by (intro quietI [of e2 e "ts @ us"]) (auto simp: crash_free_append)
qed

lemma state_set_state [simp]: "de_state (set_state s e) = s"
  by (simp add: set_state_def publish_def)

lemma trace_set_state [simp]: "trace (set_state s e) = trace e @ (if de_state e = s then [] else [s])"
  by (simp add: set_state_def publish_def trace_def)

lemma trace_publish [simp]:
  "trace (publish EvPullStarted e) = trace e" "trace (publish EvPullCompleted e) = trace e"
  "trace (publish (EvPullStatus t) e) = trace e" "de_state (publish v e) = de_state e"
  by (simp_all add: publish_def trace_def)

lemma call_frame [simp]:
  "trace (snd (call f e)) = trace e" "de_state (snd (call f e)) = de_state e"
  by (simp_all add: call_def trace_def)

lemma frame [simp]:
  "trace (snd (call_err f e)) = trace e" "de_state (snd (call_err f e)) = de_state e"
  "trace (set_stream b e) = trace e" "de_state (set_stream b e) = de_state e"
  "trace (e\<lparr>de_config := c\<rparr>) = trace e"
  by (simp_all add: call_def call_err_def trace_def set_stream_def)

lemma callD:
  assumes "call f e = (r, e')"
  shows "trace e' = trace e" "de_state e' = de_state e"
    "de_stop_type e' = de_stop_type e" "de_stop_value e' = de_stop_value e" "de_stream e' = de_stream e"
  using assms by (auto simp: call_def trace_def)

lemma same_quiet: "trace e' = trace e \<Longrightarrow> de_state e' = de_state e \<Longrightarrow> quiet e e'"
  unfolding quiet_def emits_def by (rule exI [of _ "[]"]) simp

lemma quiet_set_state: "\<not> crash_edge (de_state e) s \<Longrightarrow> quiet e (set_state s e)"
  unfolding quiet_def emits_def
  by (rule exI [of _ "if de_state e = s then [] else [s]"]) simp

text \<open>Creating the container and attaching to it publish no state.\<close>

definition stateless :: "('d docker_env \<Rightarrow> outcome \<times> 'd docker_env) \<Rightarrow> bool" where
  "stateless f \<longleftrightarrow> (\<forall>e. trace (snd (f e)) = trace e \<and> de_state (snd (f e)) = de_state e)"

lemma stateless_simps:
  "stateless f \<Longrightarrow> trace (snd (f e)) = trace e" "stateless f \<Longrightarrow> de_state (snd (f e)) = de_state e"
  by (simp_all add: stateless_def)

lemma statelessI:
  "(\<And>e. trace (snd (f e)) = trace e) \<Longrightarrow> (\<And>e. de_state (snd (f e)) = de_state e) \<Longrightarrow> stateless f"
  by (simp add: stateless_def)

lemma stateless_seq: "stateless f \<Longrightarrow> stateless g \<Longrightarrow> stateless (\<lambda>e. seq (f e) g)"
  by (simp add: stateless_def seq_def)

lemma stateless_wrapping: "stateless f \<Longrightarrow> stateless (\<lambda>e. wrapping msg (f e))"
  by (simp add: stateless_def)

lemma stateless_call_err: "stateless (call_err f)" "stateless (\<lambda>e. call_err (g e) e)"
  by (simp_all add: stateless_def)

lemma pull_lines_frame [simp]:
  "trace (fold (\<lambda>(st, pr). publish (EvPullStatus (st @ CHR '' '' # pr))) lns e) = trace e"
  "de_state (fold (\<lambda>(st, pr). publish (EvPullStatus (st @ CHR '' '' # pr))) lns e) = de_state e"
  by (induction lns arbitrary: e) auto

lemma stateless_pull_image: "stateless (pull_image dc cfg img)"
  by (simp add: stateless_def pull_image_def case_prod_beta split: sum.split)

lemma stateless_ensure_image: "stateless (ensure_image_exists dc cfg img)"
  using stateless_pull_image [of dc cfg img] by (auto simp: stateless_def ensure_image_exists_def Let_def)

lemma stateless_ensure_network: "stateless (ensure_network dc a)"
  by (simp add: stateless_def ensure_network_def case_prod_beta split: option.split)

lemma stateless_create: "stateless (docker_create dc cfg keys)"
proof -
  have net: "stateless (\<lambda>e. seq (ensure_network dc a e) (\<lambda>e4. wrapping w (call_err (g e4) e4)))" for a w g
    by (intro stateless_seq stateless_ensure_network stateless_wrapping stateless_call_err)
  let ?tail = "\<lambda>e2. let a = cfg_allocations (de_config e2);
                    e3 = e2\<lparr>de_config := set_environment_variables
                           (local_server_ip cfg (cfg_environment_variables (de_config e2))) (de_config e2)\<rparr>
                in case docker_bindings (dk_interface cfg) (dk_ispn cfg) keys a of
                     Panic m \<Rightarrow> (Panic m, e3)
                   | Block \<Rightarrow> (Block, e3)
                   | Ret ports \<Rightarrow>
                       seq (ensure_network dc a e3)
                         (\<lambda>e4. wrapping ''environment/docker: failed to create container''
                           (call_err (dc_create dc (container_spec_of cfg ports (dom ports) e4)) e4))"
  have "stateless ?tail"
    by (rule statelessI) (simp_all add: Let_def stateless_simps [OF net] split: go.split)
  then have img: "stateless (\<lambda>e. seq (ensure_image_exists dc cfg (f e) e) ?tail)" for f
    using stateless_ensure_image [of dc cfg] by (simp add: stateless_def seq_def)
  show ?thesis
    unfolding docker_create_def
    using img [unfolded stateless_def]
    by (simp add: stateless_def case_prod_beta split: sum.split)
qed

lemma stateless_on_before_start: "stateless (on_before_start dc cfg keys)"
  using stateless_create [of dc cfg keys]
  by (simp add: stateless_def on_before_start_def case_prod_beta split: option.split)

lemma stateless_attach: "stateless (attach dc)"
  by (simp add: stateless_def attach_def case_prod_beta split: option.split)

lemma stateless_start_body: "stateless (start_body dc cfg keys)"
  unfolding start_body_def
  by (intro stateless_seq stateless_wrapping stateless_on_before_start stateless_attach stateless_call_err)

section \<open>What each operation publishes\<close>

lemma stateless_quiet: "stateless f \<Longrightarrow> quiet e (snd (f e))"
  by (simp add: stateless_def same_quiet)

lemma quiet_refl [simp]: "quiet e e"
  by (simp add: same_quiet)

text \<open>\<open>calm f\<close>: the operation is quiet and never brings a process up.\<close>

definition calm :: "'d docker_env action \<Rightarrow> bool" where
  "calm f \<longleftrightarrow> (\<forall>e. quiet e (snd (f e)) \<and> (\<not> active (de_state e) \<longrightarrow> \<not> active (de_state (snd (f e)))))"

lemma calmI: "(\<And>e. quiet e (snd (f e))) \<Longrightarrow>
    (\<And>e. \<not> active (de_state e) \<Longrightarrow> \<not> active (de_state (snd (f e)))) \<Longrightarrow> calm f"
  by (simp add: calm_def)

lemma calm_simps:
  "calm f \<Longrightarrow> quiet e (snd (f e))"
  "calm f \<Longrightarrow> \<not> active (de_state e) \<Longrightarrow> \<not> active (de_state (snd (f e)))"
  by (simp_all add: calm_def)

lemma active_simps [simp]: "active Running" "active Starting" "\<not> active Offline" "\<not> active Stopping"
  by (simp_all add: active_def)

lemma quiet_stopping: "quiet e (set_state Stopping e)"
  by (rule quiet_set_state) (simp add: crash_edge_def)

lemma quiet_offline: "\<not> active (de_state e) \<Longrightarrow> quiet e (set_state Offline e)"
  by (rule quiet_set_state) (auto simp: crash_edge_def active_def)

lemma quiet_stop_offline: "quiet e (set_state Offline (set_state Stopping e))"
  by (rule quiet_trans [OF quiet_stopping quiet_offline]) simp

lemma quiet_call: "quiet e e1 \<Longrightarrow> quiet e (snd (call f e1))"
  by (erule quiet_trans) (simp add: same_quiet)

lemma quiet_call_err: "quiet e e1 \<Longrightarrow> quiet e (snd (call_err f e1))"
  by (erule quiet_trans) (simp add: same_quiet)

lemma quiet_from_call: "quiet (snd (call f e)) e' \<Longrightarrow> quiet e e'"
  by (rule quiet_trans [OF same_quiet]) simp_all

lemma calm_signal: "calm (signal_container dc sig)"
proof (rule calmI)
  fix e :: "'a docker_env"
  let ?e1 = "snd (call (dc_inspect dc) e)"
  have 1: "quiet e ?e1" by (simp add: same_quiet)
  have "quiet e (set_state Offline (set_state Stopping ?e1))"
    by (rule quiet_trans [OF 1 quiet_stop_offline])
  moreover have "quiet e (snd (call (dc_kill dc sig) (set_state Stopping ?e1)))"
    by (rule quiet_call [OF quiet_trans [OF 1 quiet_stopping]])
  moreover note 1
  ultimately show "quiet e (snd (signal_container dc sig e))"
    by (simp add: signal_container_def case_prod_beta split: sum.split option.split)
next
  fix e :: "'a docker_env" assume "\<not> active (de_state e)"
  then show "\<not> active (de_state (snd (signal_container dc sig e)))"
    by (simp add: signal_container_def case_prod_beta split: sum.split option.split)
qed

lemma calm_send_command: "calm (send_command dc c)"
proof (rule calmI)
  fix e show "quiet e (snd (send_command dc c e))"
    by (simp add: send_command_def Let_def quiet_call_err quiet_stopping)
next
  fix e :: "'a docker_env" assume "\<not> active (de_state e)"
  then show "\<not> active (de_state (snd (send_command dc c e)))"
    by (simp add: send_command_def Let_def)
qed

lemma terminate_offline: "terminate dc sig e = (Ret None, e') \<Longrightarrow> de_state e' = Offline"
  by (auto simp: terminate_def seq_ok_iff)

lemma terminate_down:
  assumes "\<not> active (de_state e)"
  shows "quiet e (snd (terminate dc sig e)) \<and> \<not> active (de_state (snd (terminate dc sig e)))"
  using calm_simps [OF calm_signal, of e dc sig] assms
  by (auto simp: terminate_def seq_def intro: quiet_trans quiet_offline)

text \<open>\<open>stop\<close> leaves a state that is not up, whatever the container does.\<close>

lemma docker_stop_cases:
  fixes dc :: "'d docker_client" and e :: "'d docker_env"
  defines "e1 \<equiv> if de_state e \<noteq> Offline then set_state Stopping e else e"
  defines "q \<equiv> snd (call (dc_stop dc (-1)) e1)"
  shows "snd (docker_stop dc e)
      \<in> {snd (signal_container dc (stop_signal (de_stop_value e)) e1), snd (send_command dc (de_stop_value e) e1),
          q, set_state Offline (set_stream False q)}"
  unfolding docker_stop_def Let_def e1_def [symmetric] q_def
  by (simp add: case_prod_beta split: option.split)

lemma docker_stop_down:
  "quiet e (snd (docker_stop dc e)) \<and> \<not> active (de_state (snd (docker_stop dc e)))"
proof -
  define e1 where "e1 = (if de_state e \<noteq> Offline then set_state Stopping e else e)"
  define q where "q = snd (call (dc_stop dc (-1)) e1)"
  have 1: "quiet e e1" and down: "\<not> active (de_state e1)"
    by (auto simp: e1_def quiet_stopping)
  have tail: "quiet e x \<and> \<not> active (de_state x)" if "quiet e1 x" "\<not> active (de_state x)" for x
    using quiet_trans [OF 1 that(1)] that(2) by simp
  have q: "quiet e1 q" "\<not> active (de_state q)" using down by (simp_all add: q_def same_quiet)
  have "quiet q (set_stream False q)" by (simp add: same_quiet)
  from quiet_trans [OF quiet_trans [OF q(1) this] quiet_offline] q(2)
  have "quiet e1 (set_state Offline (set_stream False q))" by simp
  then have off: "quiet e (set_state Offline (set_stream False q)) \<and> \<not> active (de_state (set_state Offline (set_stream False q)))"
    by (intro tail) simp_all
  note sig = tail [OF calm_simps(1) [OF calm_signal] calm_simps(2) [OF calm_signal down], of dc "stop_signal (de_stop_value e)"]
  note cmd = tail [OF calm_simps(1) [OF calm_send_command] calm_simps(2) [OF calm_send_command down], of dc "de_stop_value e"]
  show ?thesis
    using docker_stop_cases [of dc e, folded e1_def, folded q_def] sig cmd tail [OF q] off
    by (elim insertE emptyE) (simp_all only: simp_thms)
qed

lemma wait_for_stop_cases:
  fixes dc :: "'d docker_client" and e :: "'d docker_env"
  defines "p \<equiv> docker_stop dc e"
  defines "q \<equiv> call (dc_wait dc) (snd p)"
  shows "snd (wait_for_stop dc dur b e)
      \<in> {snd p, snd q, snd (terminate dc ''SIGKILL'' (snd p)), snd (terminate dc ''SIGKILL'' (snd q))}"
  unfolding wait_for_stop_def Let_def p_def [symmetric] q_def [symmetric]
  by (simp split: go.split option.split wait_result.split)

lemma wait_for_stop_down:
  "quiet e (snd (wait_for_stop dc dur b e)) \<and> \<not> active (de_state (snd (wait_for_stop dc dur b e)))"
proof -
  let ?p = "docker_stop dc e"
  have p: "quiet e (snd ?p)" "\<not> active (de_state (snd ?p))" using docker_stop_down by blast+
  have q: "quiet e (snd (call (dc_wait dc) (snd ?p)))" "\<not> active (de_state (snd (call (dc_wait dc) (snd ?p))))"
    using p by (simp_all add: quiet_call)
  have t: "quiet e (snd (terminate dc sig x)) \<and> \<not> active (de_state (snd (terminate dc sig x)))"
    if "quiet e x" "\<not> active (de_state x)" for x sig
    using terminate_down [OF that(2)] quiet_trans [OF that(1)] by blast
  show ?thesis
    using wait_for_stop_cases [of dc dur b e] p q t [OF p, of "''SIGKILL''"] t [OF q, of "''SIGKILL''"]
    by (elim insertE emptyE) (simp_all only: simp_thms)
qed

lemma destroy_quiet: "quiet e (snd (destroy dc e)) \<and> de_state (snd (destroy dc e)) = Offline"
proof -
  have "quiet e (set_state Offline (snd (call (dc_remove dc True True) (set_state Stopping e))))"
    by (rule quiet_trans [OF quiet_call [OF quiet_stopping] quiet_offline]) simp
  then show ?thesis by (simp add: destroy_def Let_def split: option.split)
qed

lemma start_boot_outcome:
  fixes e :: "'d docker_env" and dc cfg keys
  defines "p \<equiv> start_boot dc cfg keys e"
  shows "quiet e (snd p)"
    and "fst p = Ret None \<Longrightarrow> de_state (snd p) = Starting"
    and "fst p \<noteq> Ret None \<Longrightarrow> de_state (snd p) = Offline
           \<and> (\<exists>ts. trace (snd p) = ts @ [Stopping, Offline])"
proof -
  let ?b = "start_body dc cfg keys (set_state Starting e)"
  have b: "trace (snd ?b) = trace (set_state Starting e)" "de_state (snd ?b) = Starting"
    using stateless_simps [OF stateless_start_body, of dc cfg keys "set_state Starting e"] by simp_all
  have "quiet e (snd ?b)"
    using quiet_trans [OF quiet_set_state [of e Starting] same_quiet [OF b(1)]] b(2)
    by (simp add: crash_edge_def)
  then show "quiet e (snd p)"
    by (auto simp: p_def start_boot_def start_cleanup_def intro: quiet_trans [OF _ quiet_stop_offline])
  show "fst p = Ret None \<Longrightarrow> de_state (snd p) = Starting"
    using b by (auto simp: p_def start_boot_def start_cleanup_def split: if_splits)
  show "fst p \<noteq> Ret None \<Longrightarrow> de_state (snd p) = Offline \<and> (\<exists>ts. trace (snd p) = ts @ [Stopping, Offline])"
    using b by (auto simp: p_def start_boot_def start_cleanup_def split: if_splits)
qed

text \<open>The three ways through \<open>start\<close>: nothing changed, the container was already up, or a boot.\<close>

lemma start_cases:
  fixes e :: "'d docker_env" and dc cfg keys
  defines "p \<equiv> start dc cfg keys e"
  obtains (unchanged) "fst p \<noteq> Ret None" "trace (snd p) = trace e" "de_state (snd p) = de_state e"
    | (running) e1 where "trace e1 = trace e" "de_state e1 = de_state e" "p = attach dc (set_state Running e1)"
    | (boot) e1 where "trace e1 = trace e" "de_state e1 = de_state e" "p = start_boot dc cfg keys e1"
proof -
  let ?e1 = "snd (call (dc_inspect dc) e)"
  have 1: "trace ?e1 = trace e" "de_state ?e1 = de_state e" by simp_all
  show thesis
  proof (cases "fst (call (dc_inspect dc) e)")
    case (Inl err)
    show thesis
    proof (cases "is_not_found err")
      case True
      with Inl have "p = start_boot dc cfg keys ?e1" by (simp add: p_def start_def case_prod_beta)
      with 1 show thesis by (rule boot)
    next
      case False
      with Inl 1 show thesis by (intro unchanged) (simp_all add: p_def start_def case_prod_beta)
    qed
  next
    case (Inr c)
    let ?e2 = "snd (call (dc_log_exists dc (cs_log_path c)) ?e1)"
    let ?t = "call (dc_log_truncate dc (cs_log_path c)) ?e2"
    consider "cs_running c" | "\<not> cs_running c" "\<not> fst (call (dc_log_exists dc (cs_log_path c)) ?e1)"
      | err where "\<not> cs_running c" "fst (call (dc_log_exists dc (cs_log_path c)) ?e1)" "fst ?t = Some err"
      | "\<not> cs_running c" "fst (call (dc_log_exists dc (cs_log_path c)) ?e1)" "fst ?t = None"
      by (cases "fst ?t") auto
    then show thesis
    proof cases
      case 1
      with Inr have "p = attach dc (set_state Running ?e1)" by (simp add: p_def start_def case_prod_beta)
      then show thesis by (intro running [of ?e1]) simp_all
    next
      case 2
      with Inr have "p = start_boot dc cfg keys ?e2" by (simp add: p_def start_def case_prod_beta)
      then show thesis by (intro boot [of ?e2]) simp_all
    next
      case 3
      with Inr have "p = (Ret (Some (ErrWrap ''environment/docker: failed to truncate instance logs'' err)), snd ?t)"
        by (simp add: p_def start_def case_prod_beta)
      then show thesis by (intro unchanged) simp_all
    next
      case 4
      with Inr have "p = start_boot dc cfg keys (snd ?t)" by (simp add: p_def start_def case_prod_beta)
      then show thesis by (intro boot [of "snd ?t"]) simp_all
    qed
  qed
qed

lemma start_active: "start dc cfg keys e = (Ret None, e') \<Longrightarrow> active (de_state e')"
proof (cases rule: start_cases [of dc cfg keys e])
  case (running e1)
  assume "start dc cfg keys e = (Ret None, e')"
  then show ?thesis
    using running stateless_simps(2) [OF stateless_attach, of dc "set_state Running e1"] by simp
next
  case (boot e1)
  assume "start dc cfg keys e = (Ret None, e')"
  then show ?thesis
    using boot start_boot_outcome(2) [of dc cfg keys e1] by simp
qed simp

section \<open>The contract of the environment\<close>

definition docker_ops :: "'d docker_client \<Rightarrow> docker_settings \<Rightarrow> string list \<Rightarrow> 'd docker_env env_ops" where
  "docker_ops dc cfg keys =
     \<lparr>eo_state = de_state, eo_set_state = set_state, eo_start = start dc cfg keys,
      eo_wait_for_stop = wait_for_stop dc, eo_terminate = terminate dc, eo_exit_state = exit_state dc\<rparr>"

interpretation dk: process_env "docker_ops dc cfg keys" "\<lambda>_. True" for dc cfg keys
proof unfold_locales
  show "active (eo_state (docker_ops dc cfg keys) w')"
    if "eo_start (docker_ops dc cfg keys) w = (Ret None, w')" for w w'
    using that start_active by (simp add: docker_ops_def)
  show "eo_state (docker_ops dc cfg keys) w' = Offline"
    if "eo_terminate (docker_ops dc cfg keys) sig w = (Ret None, w')" for w w' sig
    using that terminate_offline by (simp add: docker_ops_def)
  show "eo_state (docker_ops dc cfg keys) (snd (eo_exit_state (docker_ops dc cfg keys) w))
      = eo_state (docker_ops dc cfg keys) w" for w
    by (simp add: docker_ops_def exit_state_def case_prod_beta split: sum.split)
qed (simp_all add: docker_ops_def)

section \<open>Properties\<close>

text \<open>
  A start either works or cannot be mistaken for a crash. On success the process is starting or
  running. On any failure or panic after the state was set to starting the environment ends offline,
  through stopping; before that nothing was published, unless the container was already running. In
  no case does a start publish the step from an up state straight to offline.
\<close>

theorem start_outcome:
  fixes e :: "'d docker_env" and dc cfg keys
  defines "p \<equiv> start dc cfg keys e"
  shows "quiet e (snd p)
       \<and> (fst p = Ret None \<longrightarrow> active (de_state (snd p)))
       \<and> (fst p \<noteq> Ret None \<longrightarrow>
            trace (snd p) = trace e \<and> de_state (snd p) = de_state e
          \<or> de_state (snd p) = Running
          \<or> de_state (snd p) = Offline \<and> (\<exists>ts. trace (snd p) = ts @ [Stopping, Offline]))"
proof -
  have up: "fst p = Ret None \<longrightarrow> active (de_state (snd p))"
    using start_active [of dc cfg keys e "snd p"] by (cases p) (simp add: p_def)
  show ?thesis
  proof (cases rule: start_cases [of dc cfg keys e])
    case unchanged
    with up show ?thesis by (simp add: p_def same_quiet)
  next
    case (running e1)
    have r: "trace (snd p) = trace (set_state Running e1)" "de_state (snd p) = Running"
      using stateless_simps [OF stateless_attach, of dc "set_state Running e1"] running by (simp_all add: p_def)
    have "quiet e (snd p)"
      using quiet_trans [OF same_quiet [OF running(1,2)] quiet_set_state [of e1 Running]]
        quiet_trans [OF _ same_quiet [OF r(1)]] r(2) by (simp add: crash_edge_def)
    with up r(2) show ?thesis by simp
  next
    case (boot e1)
    have "quiet e (snd p)"
      using quiet_trans [OF same_quiet [OF boot(1,2)]] start_boot_outcome(1) [of e1 dc cfg keys] boot(3)
      by (simp add: p_def)
    with up start_boot_outcome(3) [of dc cfg keys e1] boot(3) show ?thesis by (simp add: p_def)
  qed
qed

text \<open>
  C23: Stopping is never mistaken for a crash. Whatever the container and the Docker daemon do, and from
  any state, \<open>Stop\<close>, \<open>WaitForStop\<close>, \<open>SendCommand\<close> and \<open>Destroy\<close> publish no step from an up state
  straight to offline; after the first two the process is not up any more, after the last it is
  offline.
\<close>

theorem stop_is_no_crash:
  "quiet e (snd (docker_stop dc e)) \<and> \<not> active (de_state (snd (docker_stop dc e)))
   \<and> quiet e (snd (wait_for_stop dc dur b e)) \<and> \<not> active (de_state (snd (wait_for_stop dc dur b e)))
   \<and> quiet e (snd (send_command dc c e))
   \<and> quiet e (snd (destroy dc e)) \<and> de_state (snd (destroy dc e)) = Offline"
  using docker_stop_down wait_for_stop_down calm_simps(1) [OF calm_send_command] destroy_quiet
  by blast

text \<open>
  Killing. \<open>Terminate\<close> without error always leaves the environment offline. If Docker still has the
  container (or cannot be asked), or the process was not up, it is quiet; but if the container is
  gone while the process is taken to be up, it publishes exactly the step that the server takes for a
  crash.
\<close>

theorem terminate_outcome:
  "(fst (terminate dc sig e) = Ret None \<longrightarrow> de_state (snd (terminate dc sig e)) = Offline)
   \<and> (\<not> active (de_state e) \<or> (\<forall>err. fst (dc_inspect dc (de_daemon e)) = Inl err \<longrightarrow> \<not> is_not_found err)
       \<longrightarrow> quiet e (snd (terminate dc sig e)))
   \<and> (active (de_state e) \<and> (\<exists>err. fst (dc_inspect dc (de_daemon e)) = Inl err \<and> is_not_found err)
       \<longrightarrow> terminate dc sig e = (Ret None, snd (terminate dc sig e))
         \<and> trace (snd (terminate dc sig e)) = trace e @ [Offline]
         \<and> \<not> quiet e (snd (terminate dc sig e)))"
proof (intro conjI impI)
  show "fst (terminate dc sig e) = Ret None \<Longrightarrow> de_state (snd (terminate dc sig e)) = Offline"
    using terminate_offline [of dc sig e "snd (terminate dc sig e)"] by (cases "terminate dc sig e") simp
  let ?q = "signal_container dc sig e"
  assume "\<not> active (de_state e) \<or> (\<forall>err. fst (dc_inspect dc (de_daemon e)) = Inl err \<longrightarrow> \<not> is_not_found err)"
  then show "quiet e (snd (terminate dc sig e))"
  proof
    assume "\<forall>err. fst (dc_inspect dc (de_daemon e)) = Inl err \<longrightarrow> \<not> is_not_found err"
    then have "fst ?q = Ret None \<longrightarrow> \<not> active (de_state (snd ?q))"
      by (simp add: signal_container_def case_prod_beta call_def [of _ e] split: sum.split option.split)
    with calm_simps(1) [OF calm_signal, of e dc sig] show ?thesis
      by (auto simp: terminate_def seq_def intro: quiet_trans quiet_offline)
  qed (use terminate_down in blast)
next
  assume gone: "active (de_state e) \<and> (\<exists>err. fst (dc_inspect dc (de_daemon e)) = Inl err \<and> is_not_found err)"
  then have q: "signal_container dc sig e = (Ret None, snd (call (dc_inspect dc) e))"
    by (auto simp: signal_container_def case_prod_beta call_def split: sum.split)
  then show ok: "terminate dc sig e = (Ret None, snd (terminate dc sig e))"
    by (simp add: terminate_def)
  have up: "de_state e \<noteq> Offline" using gone by auto
  with q show t: "trace (snd (terminate dc sig e)) = trace e @ [Offline]"
    by (simp add: terminate_def)
  show "\<not> quiet e (snd (terminate dc sig e))"
    using t gone by (auto simp: quiet_def emits_def crash_edge_def active_def)
qed

text \<open>A daemon that does nothing, for the concrete runs.\<close>

definition idle_client :: "(gerr + container_state) \<Rightarrow> gerr option \<Rightarrow> unit docker_client" where
  "idle_client ins err =
     \<lparr>dc_inspect = (\<lambda>d. (ins, d)), dc_remove = (\<lambda>_ _ d. (None, d)), dc_create = (\<lambda>_ d. (None, d)),
      dc_start = (\<lambda>d. (err, d)), dc_stop = (\<lambda>_ d. (err, d)), dc_kill = (\<lambda>_ d. (None, d)),
      dc_wait = (\<lambda>d. (WaitOk, d)), dc_attach = (\<lambda>d. (None, d)), dc_reader_wait = (\<lambda>d. (None, d)),
      dc_update = (\<lambda>_ d. (None, d)), dc_write = (\<lambda>_ d. (None, d)), dc_logs = (\<lambda>_ d. (Inr [], d)),
      dc_network_inspect = (\<lambda>_ d. (None, d)), dc_network_create = (\<lambda>_ _ d. (None, d)),
      dc_image_pull = (\<lambda>_ _ d. (Inr ([], None), d)), dc_image_list = (\<lambda>d. (Inr [], d)),
      dc_log_exists = (\<lambda>_ d. (False, d)), dc_log_truncate = (\<lambda>_ d. (None, d))\<rparr>"

definition sample_env :: "proc_state \<Rightarrow> unit docker_env" where
  "sample_env s =
     \<lparr>de_id = ''srv'', de_state = s, de_stream = False, de_stop_type = [], de_stop_value = [],
      de_image = ''~img'',
      de_config = new_configuration
        \<lparr>st_mounts = [],
         st_allocations = \<lparr>al_force_outgoing_ip = False, al_default_ip = [], al_default_port = 0, al_mappings = []\<rparr>,
         st_limits = \<lparr>lm_memory = 0, lm_swap = 0, lm_io_weight = 0, lm_cpu = 0, lm_disk_space = 0,
                      lm_threads = [], lm_oom_disabled = False\<rparr>,
         st_labels = Map.empty\<rparr> [],
      de_events = [], de_daemon = ()\<rparr>"

definition sample_docker :: docker_settings where
  "sample_docker =
     \<lparr>dk_interface = ''172.18.0.1'', dk_ispn = False, dk_network_mode = ''nw'', dk_domainname = [],
      dk_rootless = None, dk_user = (998, 998), dk_tmpfs_size = 100, dk_dns = [], dk_log_type = ''local'',
      dk_log_config = Map.empty, dk_userns_mode = [], dk_pid_limit = 512, dk_registries = [],
      dk_bounded = (\<lambda>m. m)\<rparr>"

definition stopped_container :: container_state where
  "stopped_container = \<lparr>cs_running = False, cs_exit_code = 0, cs_oom_killed = False,
     cs_started_at = [], cs_log_path = []\<rparr>"

theorem start_outcome_witness:
  "trace (snd (start (idle_client (Inr stopped_container) (Some (ErrOther ''no'')))
      sample_docker [] (sample_env Offline))) = [Starting, Stopping, Offline]"
proof -
  let ?p = "start (idle_client (Inr stopped_container) (Some (ErrOther ''no''))) sample_docker [] (sample_env Offline)"
  have run: "fst ?p \<noteq> Ret None" "trace (snd ?p) = [Starting, Stopping, Offline]"
    by (simp_all add: start_def start_boot_def start_cleanup_def start_body_def on_before_start_def
        docker_create_def attach_def is_attached_def idle_client_def stopped_container_def sample_env_def call_def
        call_err_def set_state_def publish_def trace_def set_stream_def)
  then have "de_state (snd ?p) = Running \<or> de_state (snd ?p) = Offline"
    using start_outcome [of "sample_env Offline" "idle_client (Inr stopped_container) (Some (ErrOther ''no''))"
        sample_docker "[]"] by (auto simp: sample_env_def trace_def)
  with run(2) show ?thesis by blast
qed

theorem terminate_outcome_witness:
  "\<not> quiet (sample_env Running) (snd (terminate (idle_client (Inl ErrNotFound) None) ''SIGKILL'' (sample_env Running)))"
  using terminate_outcome [of "idle_client (Inl ErrNotFound) None" "''SIGKILL''" "sample_env Running"]
  by (simp add: idle_client_def sample_env_def)

end
