(* ===== verification/Server_Docker.thy ===== *)
theory Server_Docker
  imports Server_Power Docker_Power
begin

text \<open>
  A server over its Docker environment: \<open>SyncWithEnvironment\<close> (\<open>src/server/update.go\<close>), the power actions
  on the Docker implementation of the environment's contract, and what the server's state listener
  (\<open>OnStateChange\<close>) makes of the states that the environment publishes.
\<close>

section \<open>Synchronising the environment\<close>

text \<open>
  The flag says that a stop of the running process is started in a goroutine of its own. An error of
  the update in place is only logged.
\<close>

record env_sync =
  es_suspended :: bool
  es_settings :: settings
  es_image :: string
  es_stop_type :: string
  es_stop_value :: string
  es_env_vars :: "string list"

definition sync_with_environment ::
  "'d docker_client \<Rightarrow> docker_settings \<Rightarrow> env_sync \<Rightarrow> 'd docker_env \<Rightarrow> bool \<times> 'd docker_env" where
  "sync_with_environment dc cfg y e =
     (let e1 = e\<lparr>de_config := set_settings (es_settings y) (de_config e)\<rparr>;
          e2 = set_stop_configuration (es_stop_type y) (es_stop_value y) (set_image (es_image y) e1);
          e3 = e2\<lparr>de_config := set_environment_variables (es_env_vars y) (de_config e2)\<rparr>
      in if \<not> es_suspended y then (False, snd (in_situ_update dc cfg e3))
         else (de_state e3 \<noteq> Offline, e3))"

lemma in_situ_update_quiet: "trace (snd (in_situ_update dc cfg e)) = trace e
    \<and> de_state (snd (in_situ_update dc cfg e)) = de_state e"
  by (simp add: in_situ_update_def case_prod_beta split: sum.split)

lemma sync_with_environment_quiet: "quiet e (snd (sync_with_environment dc cfg y e))"
proof (rule same_quiet)
  show "trace (snd (sync_with_environment dc cfg y e)) = trace e"
    by (simp add: sync_with_environment_def Let_def in_situ_update_quiet)
      (simp add: trace_def set_image_def set_stop_configuration_def)
  show "de_state (snd (sync_with_environment dc cfg y e)) = de_state e"
    by (simp add: sync_with_environment_def Let_def in_situ_update_quiet)
      (simp add: set_image_def set_stop_configuration_def)
qed

section \<open>The state listener\<close>

text \<open>
  The listener's goroutines handle the state events one after another; \<open>reads\<close> are the three states
  each of them reads. The result says for each event whether the crash handler was started.
\<close>

fun state_run :: "(proc_state \<times> proc_state \<times> proc_state) list \<Rightarrow> 'w server \<Rightarrow> bool list \<times> 'w server" where
  "state_run [] s = ([], s)"
| "state_run ((a, b, c) # rs) s =
     (let p = on_state_change a b c s; q = state_run rs (snd p) in (fst p # fst q, snd q))"

lemma tracked_on_state_change [simp]: "sv_tracked (snd (on_state_change a b c s)) = a"
  by (simp add: on_state_change_def Let_def emit_def)

lemma state_run_prompt:
  "crash_free (sv_tracked s) ts \<Longrightarrow> True \<notin> set (fst (state_run (List.map (\<lambda>t. (t, t, t)) ts) s))"
proof (induction ts arbitrary: s)
  case (Cons t ts)
  have "\<not> fst (on_state_change t t t s)"
    using Cons.prems by (simp add: on_state_change_def Let_def crash_edge_def)
  with Cons show ?case by (simp add: Let_def)
qed simp


section \<open>Properties\<close>



text \<open>
  Events that are handled promptly never restart a server that was not meant to. If each state event
  is handled before the environment moves on, then whatever quiet operation published them (a failed
  start, a stop, a destroy, a kill of a container that Docker knows) the crash handler is not started.
\<close>

theorem prompt_events_no_restart:
  assumes "quiet e e'" and "trace e' = trace e @ ts" and "sv_tracked s = de_state e"
  shows "True \<notin> set (fst (state_run (List.map (\<lambda>t. (t, t, t)) ts) s))"
proof -
  have "crash_free (de_state e) ts" using assms(1,2) by (auto simp: quiet_def emits_def)
  with assms(3) show ?thesis by (intro state_run_prompt) simp
qed

theorem prompt_events_no_restart_witness:
  "True \<notin> set (fst (state_run [(Stopping, Stopping, Stopping), (Offline, Offline, Offline)]
      ((quiet_server (sample_env Running))\<lparr>sv_tracked := Running\<rparr>)))"
proof -
  let ?e' = "snd (destroy (idle_client (Inr stopped_container) None) (sample_env Running))"
  have "quiet (sample_env Running) ?e'" using destroy_quiet by blast
  moreover have "trace ?e' = trace (sample_env Running) @ [Stopping, Offline]"
    by (simp add: destroy_def Let_def idle_client_def call_def)
      (simp add: sample_env_def trace_def set_state_def publish_def)
  moreover have "sv_tracked ((quiet_server (sample_env Running))\<lparr>sv_tracked := Running\<rparr>) = de_state (sample_env Running)"
    by (simp add: sample_env_def)
  ultimately have "True \<notin> set (fst (state_run (List.map (\<lambda>t. (t, t, t)) [Stopping, Offline])
      ((quiet_server (sample_env Running))\<lparr>sv_tracked := Running\<rparr>)))"
    by (rule prompt_events_no_restart)
  then show ?thesis by (simp only: list.map) simp
qed

text \<open>
  The detour through stopping protects only prompt listeners. If the listener gets to the events of a
  failed start after the environment has reached offline (it reads the environment's state, not the
  event's), the second event starts the crash handler.
\<close>

lemma late_events_restart:
  "fst (state_run [(Starting, Starting, Starting), (Offline, Offline, Offline), (Offline, Offline, Offline)] s)
     = [False, True, False]"
  by (simp add: Let_def on_state_change_def emit_def)

text \<open>
  Killing a server whose container is gone restarts it. The kill succeeds, publishes the step from
  running straight to offline, which starts the crash handler, and the handler, since the exit state of
  a missing container is reported as code 1, decides to start the server again.
\<close>

theorem kill_of_missing_container_restarts:
  fixes dc :: "'d docker_client" and s :: "'d docker_env server"
  assumes gone: "\<And>d. fst (dc_inspect dc d) = Inl ErrNotFound"
    and up: "active (de_state (sv_env s))" "sv_tracked s = de_state (sv_env s)"
    and cfg: "sf_crash_detection (sv_cfg s)" "sv_last_crash s = None"
  defines "p \<equiv> terminate dc ''SIGKILL'' (sv_env s)"
  defines "r \<equiv> on_state_change (de_state (snd p)) (de_state (snd p)) (de_state (snd p)) (s\<lparr>sv_env := snd p\<rparr>)"
  shows "fst p = Ret None \<and> fst r
       \<and> fst (crash_decide (docker_ops dc dcfg keys) cc now (snd r)) = CrashRestart"
proof -
  have t: "fst p = Ret None" "de_state (snd p) = Offline"
    using gone by (simp_all add: p_def terminate_def signal_container_def call_def case_prod_beta)
  moreover have r: "fst r" "sv_env (snd r) = snd p" "sv_cfg (snd r) = sv_cfg s" "sv_last_crash (snd r) = None"
    using t(2) up cfg by (auto simp: r_def on_state_change_def Let_def emit_def active_def)
  moreover have "fst (exit_state dc (snd p)) = Inr (1, False)"
    using gone by (simp add: exit_state_def call_def case_prod_beta)
  ultimately show ?thesis
    using cfg(1) by (simp add: crash_decide_def docker_ops_def Let_def crash_report_def console_def emit_def
        crash_recent_def)
qed

theorem kill_of_missing_container_restarts_witness:
  "fst (terminate (idle_client (Inl ErrNotFound) None) ''SIGKILL'' (sample_env Running)) = Ret None"
  using kill_of_missing_container_restarts [of "idle_client (Inl ErrNotFound) None"
      "(quiet_server (sample_env Running))\<lparr>sv_tracked := Running\<rparr>"]
  by (simp add: idle_client_def quiet_server_def sample_env_def)

end
