(* ===== verification/Spec2Isabelle.thy ===== *)
theory Spec2Isabelle
  imports Sync_Primitives Sink_Pool Fs_Returns Fs_Accounting Fs_Listing Sftp_Access Websocket_Guard Transfers Installation Rustic_Life Backup_Adapters Panel_Client Config_Values Activity_Cron Downloads Compress_Laws Http_Laws Server_Files_Laws Signed_Downloads Backup_Requests Server_Requests_Laws Node_Config_Laws Server_Docker
begin

text \<open>
  A verification library for Elytra, the daemon that runs a node's game servers: it keeps each server's
  files in a sandbox, runs its process in a Docker container, makes and restores its backups, takes
  orders from the panel over HTTP and from users over websockets and SFTP. All paths below are under
  \<open>src/src\<close>.

  \<^bold>\<open>How the parts fit together.\<close> A server (\<open>server/\<close>) has an environment (\<open>environment/\<close>), the interface
  to its process, and a filesystem (\<open>server/filesystem/\<close>) over the sandbox (\<open>internal/ufs/\<close>). The manager
  (\<open>server/manager.go\<close>) has all servers and the locks of their backups. Work that takes long is a job
  (\<open>jobs/\<close>); the backup jobs go through the backup adapters (\<open>server/backup/\<close>). Events of a server go
  through sinks and a bus (\<open>system/sink_pool.go\<close>, \<open>events/\<close>) to the websockets (\<open>router/websocket/\<close>), whose
  users hold tokens (\<open>router/tokens/\<close>). Everything is reported to the panel (\<open>remote/\<close>).

  \<^bold>\<open>How code becomes definitions.\<close> A struct is a record, an enumeration a datatype, an error a value of a
  sum or option type or an optional result; a panic and a goroutine that is stuck are outcomes (\<open>go\<close> in
  \<open>Prelude\<close>). A 64-bit integer is an \<open>int\<close> with \<open>wrap64\<close> where it can leave its range, or a word where bits
  matter. Strings are lists of bytes. What a component does outside (the kernel, the Docker daemon, the
  panel, a clock, a program, a library) is a function of a world of arbitrary type, so that every lemma is
  about every behaviour of it; what is asked of the world is recorded where a property speaks of it.
  Goroutines that matter are steps of a relation or of a reachability predicate, so that they interleave in
  every way. A \<open>defer\<close> is written out on every path that leaves the function.

  \<^bold>\<open>The theories.\<close>
  \<^item> \<open>Prelude\<close>, \<open>Go_Strings\<close>: outcomes, errors, arithmetic, time; the functions of \<open>strings\<close>, \<open>strconv\<close> and
    \<open>path\<close> that the code uses.
  \<^item> \<open>Sync_Primitives\<close> (\<open>system/locker.go\<close>, \<open>rate.go\<close>, \<open>context_bag.go\<close>), \<open>Sink_Pool\<close> (\<open>system/sink_pool.go\<close>,
    \<open>events/events.go\<close>), \<open>Utils\<close> (\<open>system/utils.go\<close>): locks, rates, the fan-out of messages as a step
    relation with its refinement by a rolling buffer, the reader of console lines.
  \<^item> \<open>Ufs_Path\<close>, \<open>Ufs_Error\<close>, \<open>Unix_Fs\<close>, \<open>Ufs_Remove\<close> (\<open>internal/ufs\<close>): the sandbox. Paths are cleaned
    lexically; every operation is the system calls it makes over a kernel that answers anything; quota and
    recursive removal are built on it. \<open>Fs_Sandbox\<close> watches the calls: every one that changes something
    names a child of a directory known to be inside. \<open>World_Order\<close>, \<open>Fs_Returns\<close>: which worlds an operation
    can lead to, and which operations return. \<open>Fs_Invariants\<close> has what all operations keep, \<open>Fs_Errors\<close> the texts
    of their errors.
  \<^item> \<open>Filesystem\<close> (\<open>server/filesystem/filesystem.go\<close>, \<open>disk_space.go\<close>, \<open>stat.go\<close>): a server's files, with
    \<open>Disk_Usage\<close>, \<open>Fs_Accounting\<close> and \<open>Fs_Listing\<close> for the measured usage, the quota, and listings.
    \<open>Archive\<close> (\<open>archive.go\<close>) makes archives of it and \<open>Compress\<close> (\<open>compress.go\<close>) unpacks them, over the libraries of
    the formats; \<open>Archive_Laws\<close> and \<open>Compress_Laws\<close> have the proofs.
  \<^item> \<open>Process_Env\<close> (\<open>environment/environment.go\<close>): the interface of a process with its laws as the locale
    \<open>process_env\<close>. \<open>Docker_Env\<close> and \<open>Docker_Power\<close> (\<open>environment/docker\<close>) implement it and interpret the
    locale; \<open>Environment_Config\<close> (\<open>environment/*.go\<close>, part of \<open>server/server.go\<close>) is what the container is
    given.
  \<^item> \<open>Server_Power\<close> (\<open>server/power.go\<close>, \<open>crash.go\<close>, \<open>listeners.go\<close>, \<open>console.go\<close>): power actions and their
    lock, crash detection, state changes, over the interface; \<open>Server_Docker\<close> puts it over Docker.
  \<^item> \<open>Server_Manager\<close> (\<open>server/manager.go\<close>), \<open>Job_Manager\<close> (\<open>jobs/job.go\<close>, \<open>router/router_jobs.go\<close>),
    \<open>Backup_Jobs\<close> (\<open>jobs/backup_job.go\<close>, \<open>server/backup.go\<close>), \<open>Installation\<close> (\<open>server/install.go\<close>), \<open>Transfers\<close>
    (\<open>server/transfer\<close>, \<open>router/router_transfer.go\<close>, \<open>router/router_server_transfer.go\<close>).
  \<^item> \<open>Backup_Adapters\<close> (\<open>server/backup/backup.go\<close>, \<open>backup_local.go\<close>, \<open>backup_s3.go\<close>): archives on disk and
    their upload in parts. \<open>Rustic_Config\<close>, \<open>Rustic_Repo\<close>, \<open>Rustic_Backup\<close> (\<open>rustic.go\<close>, \<open>rustic_factory.go\<close>,
    \<open>rustic_local.go\<close>, \<open>rustic_s3.go\<close>): backups with rustic over two repositories behind one interface, whose
    laws are the locale \<open>snapshot_store\<close> of \<open>Rustic_Laws\<close>; \<open>Rustic_Life\<close> has the properties.
  \<^item> \<open>Config_Parser\<close> (\<open>parser\<close>, \<open>server/config_parser.go\<close>) with \<open>Config_Values\<close>: what the daemon writes into
    the configuration files of a server before it starts. \<open>Node_Config\<close> (\<open>config\<close>, part of \<open>cmd/root.go\<close>,
    \<open>router_system.go\<close>) with \<open>Node_Config_Laws\<close>: the configuration of the daemon itself, loaded, kept and
    updated, and what is made ready on the node before the servers boot.
  \<^item> \<open>Tokens\<close> (\<open>router/tokens\<close>), \<open>Websocket\<close> (\<open>router/websocket\<close>, \<open>router/router_server_ws.go\<close>) with
    \<open>Websocket_Guard\<close>, \<open>Sftp\<close> (\<open>sftp/handler.go\<close>) with \<open>Sftp_Access\<close>, \<open>Panel_Client\<close> (\<open>remote\<close>): who may do
    what, and how the panel is told. \<open>Activity_Cron\<close> (\<open>internal/cron\<close>, \<open>internal/models\<close>): what is recorded of users
    and sent to the panel by the scheduled tasks.
  \<^item> \<open>Http_Guard\<close> (\<open>router/router.go\<close>, \<open>router/middleware\<close>) with \<open>Http_Laws\<close>: routes, middleware and the answers to
    errors. The handlers behind them are in \<open>Server_Files\<close> (\<open>router_server_files.go\<close>) with \<open>Server_Files_Laws\<close>,
    \<open>Signed_Downloads\<close> (\<open>router_download.go\<close>), \<open>Backup_Requests\<close> (\<open>router_server_backup.go\<close>, \<open>jobs/setup.go\<close>),
    \<open>Server_Requests\<close> (\<open>router_server.go\<close>, \<open>router_system.go\<close>) with \<open>Server_Requests_Laws\<close>; \<open>Downloads\<close>
    (\<open>router/downloader\<close>) fetches files from other hosts.

  \<^bold>\<open>What is shown.\<close>
  \<^item> Confinement: no path and no answer of the kernel takes an operation of the sandbox, or of an SFTP
    session, outside the server's directory; descriptors are given back; the quota is kept.
  \<^item> Permission: a websocket or an SFTP session changes a server only with the permission for it, messages
    go to valid tokens only, a denied token never comes back, a one-time token is good once. A handler runs
    only for a request with the node's token or a signed one of its own; a user whose rights are withdrawn is
    cut off everywhere; no text of an error leaves the node.
  \<^item> Exclusion: one power action and one backup operation of a server at a time, locks given back on every
    path, panics included.
  \<^item> Reporting: the panel's last word about a job is the job's state, about an installation its outcome,
    about a transfer a success only if the archive was verified. A request for a backup queues the job that
    it describes, or nothing; a deleted server is gone with its downloads.
  \<^item> Robustness: stopping is never taken for a crash, restarts after crashes are spaced, an installation, a
    restoration and a backup clean up after themselves on every path, a request to the panel is tried
    again within its bounds and gets through if the panel recovers in time.
  \<^item> Storage: what is written into rustic's configuration file is read back and no command carries a
    secret; an archive is well formed and unpacking one stays within the quota, as does every request for files;
    archives are uploaded in pieces that are the archive; snapshots name their backups; a configuration file
    is changed whole or not at all, and the daemon's own is written before it is used.
  \<^item> What the code does not do: among the lemmas are concrete runs that show defects (uploads that cannot
    be repeated, a repair without end, descriptors leaked by refused paths, pages of listings that are
    always errors, and others); each is told at its lemma.

  \<^bold>\<open>Bounds.\<close> Recursion that the code does not bound has a number. \<open>os_rounds\<close> of a kernel is how many times a
  call that is interrupted is repeated and how deep a removal goes; a run that needs more has no result
  (\<open>None\<close>), safety lemmas hold for every number, and \<open>Fs_Returns\<close> shows that a number above the
  interruptions of the kernel is enough. The creation of an S3 snapshot calls itself without bound; its
  number is how many of the calls are followed, more give the same result, and \<open>Rustic_Life\<close> shows a world
  in which none is enough. Waits of a backoff are a finite list, since the policies of the code stop after a
  fixed time.

  \<^bold>\<open>Not modelled.\<close> Third-party packages (the Docker client, the SSH and SFTP servers, the web framework,
  archives, hashes, JSON and YAML, the ORM, the ignore-file matcher) are parameters where the code relies on
  them; so are the settings of the daemon that come from the environment by reflection. Left out are: the
  database itself, the command line and the booting of the servers (\<open>cmd/\<close>), the making of the manager's
  servers from the panel's list, the SSH server and its login (\<open>sftp/server.go\<close>), handlers that only render
  JSON, the statistics of Docker, and logging everywhere. Memory is not shared between goroutines except where a
  component's theory says so: a function's fields are read and written as if it ran alone.
\<close>

end
